(* ===== verification/Prelude.thy ===== *)
theory Prelude
  imports Main "HOL-Library.Word" "HOL-Library.While_Combinator" "HOL-Library.Char_ord"
begin

text \<open>
  What the components share: the C++ integer types as words, exceptions and undefined
  behaviour as values, the parts of \<^verbatim>\<open>std::string\<close> and \<^verbatim>\<open><cctype>\<close> the sources use, reads of a
  buffer that are checked against its length, and lemmas on bits, bytes and lists that
  the component proofs rewrite with.
\<close>

unbundle bit_operations_syntax

section \<open>Rule collections\<close>

named_theorems enc_simps \<open>what an encoder appends to its buffer\<close>
named_theorems result_simps \<open>rules for sequencing fallible computations\<close>

section \<open>Machine integers\<close>

type_synonym u8 = "8 word"
type_synonym u16 = "16 word"
type_synonym u32 = "32 word"
type_synonym u64 = "64 word"
type_synonym bytes = "8 word list"

section \<open>Exceptions and undefined behaviour\<close>

text \<open>
  A C++ function either returns a value, throws one of the standard exceptions, or runs into
  undefined behaviour (a read outside a buffer). The last is a value of its own, so that no
  theorem can silently ignore it.
\<close>

datatype exc =
    Runtime_error string
  | Invalid_argument string
  | Out_of_range string
  | Overflow_error string
  | Undefined_behaviour

type_synonym 'a result = "exc + 'a"

definition rbind :: "'a result \<Rightarrow> ('a \<Rightarrow> 'b result) \<Rightarrow> 'b result" where
  "rbind r f = (case r of Inl e \<Rightarrow> Inl e | Inr x \<Rightarrow> f x)"

lemma rbind_Inl [simp, result_simps]: "rbind (Inl e) f = Inl e"
  by (simp add: rbind_def)

lemma rbind_Inr [simp, result_simps]: "rbind (Inr x) f = f x"
  by (simp add: rbind_def)

lemma rbind_eq_Inr: "rbind r f = Inr y \<longleftrightarrow> (\<exists>x. r = Inr x \<and> f x = Inr y)"
  by (cases r) auto

text \<open>The text of \<^verbatim>\<open>what()\<close>, and a \<^verbatim>\<open>catch (const std::exception &)\<close>: undefined behaviour is not caught.\<close>

fun exc_what :: "exc \<Rightarrow> string" where
  "exc_what (Runtime_error s) = s"
| "exc_what (Invalid_argument s) = s"
| "exc_what (Out_of_range s) = s"
| "exc_what (Overflow_error s) = s"
| "exc_what Undefined_behaviour = []"

definition catch_all :: "'a result \<Rightarrow> (string \<Rightarrow> 'a result) \<Rightarrow> 'a result" where
  "catch_all r handler =
     (case r of
        Inr x \<Rightarrow> Inr x
      | Inl Undefined_behaviour \<Rightarrow> Inl Undefined_behaviour
      | Inl e \<Rightarrow> handler (exc_what e))"

lemma catch_all_Inr [simp]: "catch_all (Inr x) handler = Inr x"
  by (simp add: catch_all_def)

text \<open>Reading a buffer: outside its bounds the C++ is undefined.\<close>

definition read_at :: "'a list \<Rightarrow> nat \<Rightarrow> 'a result" where
  "read_at xs i = (if i < length xs then Inr (xs ! i) else Inl Undefined_behaviour)"

definition read_slice :: "'a list \<Rightarrow> nat \<Rightarrow> nat \<Rightarrow> 'a list result" where
  "read_slice xs i n =
     (if i + n \<le> length xs then Inr (take n (drop i xs)) else Inl Undefined_behaviour)"

lemma read_at_in [simp]: "i < length xs \<Longrightarrow> read_at xs i = Inr (xs ! i)"
  by (simp add: read_at_def)

lemma read_at_out [simp]: "length xs \<le> i \<Longrightarrow> read_at xs i = Inl Undefined_behaviour"
  by (simp add: read_at_def)

lemma read_slice_mid [simp]:
  "i = length pre \<Longrightarrow> n = length mid \<Longrightarrow> read_slice (pre @ mid @ post) i n = Inr mid"
  by (simp add: read_slice_def)

section \<open>Characters and bytes\<close>

definition byte_of_char :: "char \<Rightarrow> u8" where
  "byte_of_char c = word_of_nat (of_char c)"

definition char_of_byte :: "u8 \<Rightarrow> char" where
  "char_of_byte b = char_of (unat b)"

lemma unat_byte_of_char [simp]: "unat (byte_of_char c) = of_char c"
  by (simp add: byte_of_char_def unat_of_nat take_bit_eq_mod)

lemma char_of_byte_of_char [simp]: "char_of_byte (byte_of_char c) = c"
  by (simp add: char_of_byte_def)

lemma byte_of_char_of_byte [simp]: "byte_of_char (char_of_byte b) = b"
proof -
  have "unat b < 256" using unsigned_less [of b] by simp
  then show ?thesis by (simp add: byte_of_char_def char_of_byte_def of_char_of)
qed

lemma map_char_byte [simp]: "map char_of_byte (map byte_of_char s) = s"
  by (simp add: o_def)

lemma map_byte_char [simp]: "map byte_of_char (map char_of_byte bs) = bs"
  by (simp add: o_def)

lemma map_char_of_byte_comp [simp]: "map (char_of_byte \<circ> byte_of_char) s = s"
  by (simp add: o_def)

end
