(* ===== verification/Strings.thy ===== *)
theory Strings
  imports Prelude
begin

text \<open>
  The operations of \<^verbatim>\<open>std::string\<close>, \<^verbatim>\<open><cctype>\<close> (in the "C" locale, which a C++ program
  starts in), \<^verbatim>\<open>std::to_string\<close> and \<^verbatim>\<open>std::stoul\<close> in base 16 that the sources rely on.
\<close>

section \<open>Character classes\<close>

definition char_in :: "nat \<Rightarrow> nat \<Rightarrow> char \<Rightarrow> bool" where
  "char_in lo hi c \<longleftrightarrow> lo \<le> of_char c \<and> of_char c \<le> hi"

definition isdigit :: "char \<Rightarrow> bool" where
  "isdigit c \<longleftrightarrow> char_in 48 57 c"

definition isupper :: "char \<Rightarrow> bool" where
  "isupper c \<longleftrightarrow> char_in 65 90 c"

definition islower :: "char \<Rightarrow> bool" where
  "islower c \<longleftrightarrow> char_in 97 122 c"

definition isxdigit :: "char \<Rightarrow> bool" where
  "isxdigit c \<longleftrightarrow> isdigit c \<or> char_in 65 70 c \<or> char_in 97 102 c"

definition isspace :: "char \<Rightarrow> bool" where
  "isspace c \<longleftrightarrow> of_char c = (32::nat) \<or> char_in 9 13 c"

definition tolower :: "char \<Rightarrow> char" where
  "tolower c = (if isupper c then char_of ((of_char c :: nat) + 32) else c)"

lemmas cctype_defs = isdigit_def isupper_def islower_def isxdigit_def isspace_def
  tolower_def char_in_def

lemma of_char_tolower: "of_char (tolower c) = (if isupper c then of_char c + 32 else of_char c :: nat)"
  by (auto simp: tolower_def isupper_def char_in_def of_char_of)

lemma tolower_idem [simp]: "tolower (tolower c) = tolower c"
  by (auto simp: tolower_def isupper_def char_in_def of_char_of)

lemma isxdigit_tolower [simp]: "isxdigit (tolower c) \<longleftrightarrow> isxdigit c"
  by (auto simp: isxdigit_def isdigit_def char_in_def of_char_tolower isupper_def)

lemma isupper_tolower [simp]: "\<not> isupper (tolower c)"
  by (auto simp: isupper_def char_in_def of_char_tolower)

section \<open>Prefixes, searches and substrings\<close>

definition starts_with :: "string \<Rightarrow> string \<Rightarrow> bool" where
  "starts_with s p \<longleftrightarrow> take (length p) s = p"

fun find_from :: "string \<Rightarrow> string \<Rightarrow> nat option" where
  "find_from p [] = (if p = [] then Some 0 else None)"
| "find_from p (c # s) =
     (if starts_with (c # s) p then Some 0 else map_option Suc (find_from p s))"

text \<open>\<^verbatim>\<open>s.find(p, pos)\<close>: the first match at or after \<open>pos\<close>; \<open>None\<close> is \<^verbatim>\<open>npos\<close>.\<close>

definition str_find :: "string \<Rightarrow> string \<Rightarrow> nat \<Rightarrow> nat option" where
  "str_find s p pos = (if pos \<le> length s then map_option ((+) pos) (find_from p (drop pos s)) else None)"

fun find_char :: "char \<Rightarrow> string \<Rightarrow> nat option" where
  "find_char x [] = None"
| "find_char x (c # s) = (if c = x then Some 0 else map_option Suc (find_char x s))"

fun rfind_char :: "char \<Rightarrow> string \<Rightarrow> nat option" where
  "rfind_char x [] = None"
| "rfind_char x (c # s) =
     (case rfind_char x s of Some i \<Rightarrow> Some (Suc i) | None \<Rightarrow> if c = x then Some 0 else None)"

text \<open>\<^verbatim>\<open>s.substr(pos, n)\<close> throws \<^verbatim>\<open>std::out_of_range\<close> when \<open>pos\<close> is past the end.\<close>

definition substr :: "string \<Rightarrow> nat \<Rightarrow> nat \<Rightarrow> string result" where
  "substr s pos n = (if pos \<le> length s then Inr (take n (drop pos s)) else Inl (Out_of_range ''basic_string::substr''))"

lemma starts_with_append [simp]: "starts_with (p @ s) p"
  by (simp add: starts_with_def)

lemma starts_with_iff: "starts_with s p \<longleftrightarrow> (\<exists>t. s = p @ t)"
  unfolding starts_with_def by (metis append_take_drop_id append_eq_conv_conj)

lemma rfind_char_None: "rfind_char x s = None \<longleftrightarrow> x \<notin> set s"
  by (induction s) (auto split: option.splits)

lemma rfind_char_last: "x \<notin> set t \<Longrightarrow> rfind_char x (s @ x # t) = Some (length s)"
  by (induction s) (auto simp: rfind_char_None [THEN iffD2])

lemma find_char_None: "find_char x s = None \<longleftrightarrow> x \<notin> set s"
  by (induction s) auto

lemma find_char_bound: "find_char x s = Some i \<Longrightarrow> i < length s \<and> s ! i = x \<and> x \<notin> set (take i s)"
  by (induction s arbitrary: i) (auto split: if_splits)

section \<open>Decimal numerals\<close>

definition digit_char :: "nat \<Rightarrow> char" where
  "digit_char d = char_of (48 + d)"

fun to_string :: "nat \<Rightarrow> string" where
  "to_string n = (if n < 10 then [digit_char n] else to_string (n div 10) @ [digit_char (n mod 10)])"

declare to_string.simps [simp del]

text \<open>The value a string of decimal digits denotes.\<close>

definition dec_step :: "nat \<Rightarrow> char \<Rightarrow> nat" where
  "dec_step acc c = 10 * acc + (of_char c - 48)"

definition dec_value :: "string \<Rightarrow> nat" where
  "dec_value s = foldl dec_step 0 s"

lemma of_char_digit [simp]: "d < 10 \<Longrightarrow> of_char (digit_char d) = 48 + d"
  by (simp add: digit_char_def of_char_of)

lemma isdigit_digit_char [simp]: "d < 10 \<Longrightarrow> isdigit (digit_char d)"
  by (simp add: isdigit_def char_in_def)

lemma dec_value_snoc: "dec_value (s @ [c]) = dec_step (dec_value s) c"
  by (simp add: dec_value_def)

lemma dec_value_to_string [simp]: "dec_value (to_string n) = n"
proof (induction n rule: to_string.induct)
  case (1 n)
  show ?case
  proof (cases "n < 10")
    case True
    then show ?thesis by (simp add: to_string.simps [of n] dec_value_def dec_step_def)
  next
    case False
    with 1 show ?thesis
      by (simp add: to_string.simps [of n] dec_value_snoc dec_step_def)
  qed
qed

lemma to_string_inj: "to_string m = to_string n \<Longrightarrow> m = n"
  by (metis dec_value_to_string)

lemma to_string_digits: "\<forall>c \<in> set (to_string n). isdigit c"
proof (induction n rule: to_string.induct)
  case (1 n)
  then show ?case
    by (cases "n < 10") (auto simp: to_string.simps [of n])
qed

lemma to_string_not_Nil [simp]: "to_string n \<noteq> []"
  by (subst to_string.simps) simp

section \<open>Base-16 parsing by \<^verbatim>\<open>std::stoul\<close>\<close>

text \<open>
  \<^verbatim>\<open>std::stoul(s, nullptr, 16)\<close> calls \<^verbatim>\<open>strtoul\<close>: it skips white space, takes an optional sign
  and an optional \<^verbatim>\<open>0x\<close>, then the longest run of hex digits, and ignores whatever follows. No
  digit at all is \<^verbatim>\<open>std::invalid_argument\<close>, a value over 64 bits \<^verbatim>\<open>std::out_of_range\<close>, and a
  minus sign negates modulo \<open>2 ^ 64\<close>.
\<close>

definition xdigit_value :: "char \<Rightarrow> nat" where
  "xdigit_value c =
     (if isdigit c then of_char c - 48
      else if char_in 65 70 c then of_char c - 55 else of_char c - 87)"

definition hex_value :: "string \<Rightarrow> nat" where
  "hex_value s = foldl (\<lambda>acc c. 16 * acc + xdigit_value c) 0 s"

definition strip_sign :: "string \<Rightarrow> bool \<times> string" where
  "strip_sign s =
     (case s of [] \<Rightarrow> (False, [])
      | c # r \<Rightarrow> if c = CHR ''-'' then (True, r) else if c = CHR ''+'' then (False, r) else (False, s))"

definition strip_0x :: "string \<Rightarrow> string" where
  "strip_0x s =
     (if (starts_with s ''0x'' \<or> starts_with s ''0X'') \<and> 2 < length s \<and> isxdigit (s ! 2)
      then drop 2 s else s)"

definition stoul16 :: "string \<Rightarrow> nat result" where
  "stoul16 s =
     (let (neg, r) = strip_sign (dropWhile isspace s);
          ds = takeWhile isxdigit (strip_0x r);
          v = hex_value ds
      in if ds = [] then Inl (Invalid_argument ''stoul'')
         else if 2 ^ 64 \<le> v then Inl (Out_of_range ''stoul'')
         else Inr (if neg then (2 ^ 64 - v) mod 2 ^ 64 else v))"

lemma xdigit_value_less: "isxdigit c \<Longrightarrow> xdigit_value c < 16"
  by (auto simp: xdigit_value_def cctype_defs)

lemma isxdigit_not_special:
  "isxdigit c \<Longrightarrow> \<not> isspace c \<and> c \<noteq> CHR ''-'' \<and> c \<noteq> CHR ''+'' \<and> c \<noteq> CHR ''x'' \<and> c \<noteq> CHR ''X''"
  by (auto simp: cctype_defs)

lemma stoul16_pair:
  assumes "isxdigit a" and "isxdigit b"
  shows "stoul16 [a, b] = Inr (16 * xdigit_value a + xdigit_value b)"
proof -
  have "16 * xdigit_value a + xdigit_value b < 2 ^ 64"
    using assms [THEN xdigit_value_less] by simp
  then show ?thesis
    using assms isxdigit_not_special [OF assms(1)] isxdigit_not_special [OF assms(2)]
    by (simp add: stoul16_def strip_sign_def strip_0x_def starts_with_def hex_value_def)
qed


section \<open>\<^verbatim>\<open>std::stoi\<close>\<close>

text \<open>White space, a sign, the longest run of decimal digits; the rest of the string is ignored.\<close>

definition stoi :: "string \<Rightarrow> int result" where
  "stoi s =
     (let (neg, r) = strip_sign (dropWhile isspace s);
          ds = takeWhile isdigit r;
          v = (if neg then - int (dec_value ds) else int (dec_value ds))
      in if ds = [] then Inl (Invalid_argument ''stoi'')
         else if v < - (2 ^ 31) \<or> 2 ^ 31 \<le> v then Inl (Out_of_range ''stoi'')
         else Inr v)"

text \<open>\<^verbatim>\<open>std::getline(ss, item, delim)\<close> until the stream ends: no item after a final delimiter.\<close>

fun getline_split :: "char \<Rightarrow> string \<Rightarrow> string \<Rightarrow> string list" where
  "getline_split delim acc [] = (if acc = [] then [] else [rev acc])"
| "getline_split delim acc (c # s) =
     (if c = delim then rev acc # getline_split delim [] s else getline_split delim (c # acc) s)"

text \<open>\<^verbatim>\<open>std::stoull\<close> in base 10.\<close>

definition stoull :: "string \<Rightarrow> u64 result" where
  "stoull s =
     (let (neg, r) = strip_sign (dropWhile isspace s);
          ds = takeWhile isdigit r
      in if ds = [] then Inl (Invalid_argument ''stoull'')
         else if 2 ^ 64 \<le> dec_value ds then Inl (Out_of_range ''stoull'')
         else Inr (if neg then - word_of_nat (dec_value ds) else word_of_nat (dec_value ds)))"

lemma takeWhile_digits: "takeWhile isdigit (to_string n) = to_string n"
  using to_string_digits by (simp add: takeWhile_eq_all_conv)

lemma isdigit_not_sign: "isdigit c \<Longrightarrow> \<not> isspace c \<and> c \<noteq> CHR ''-'' \<and> c \<noteq> CHR ''+''"
  by (auto simp: cctype_defs)

lemma strip_sign_to_string: "strip_sign (dropWhile isspace (to_string n)) = (False, to_string n)"
proof -
  obtain c s where cs: "to_string n = c # s" using to_string_not_Nil by (cases "to_string n") auto
  with to_string_digits [of n] have "isdigit c" by simp
  with cs isdigit_not_sign show ?thesis by (auto simp: strip_sign_def)
qed

lemma stoi_to_string: "n < 2 ^ 31 \<Longrightarrow> stoi (to_string n) = Inr (int n)"
  by (simp add: stoi_def strip_sign_to_string takeWhile_digits)

lemma stoull_to_string: "n < 2 ^ 64 \<Longrightarrow> stoull (to_string n) = Inr (word_of_nat n)"
  by (simp add: stoull_def strip_sign_to_string takeWhile_digits)

lemma find_char_append:
  "find_char x (s @ t) = (case find_char x s of Some i \<Rightarrow> Some i | None \<Rightarrow> map_option ((+) (length s)) (find_char x t))"
  by (cases "find_char x t"; induction s) (auto split: option.splits)

lemma find_char_skip: "x \<notin> set s \<Longrightarrow> find_char x (s @ t) = map_option ((+) (length s)) (find_char x t)"
  by (simp add: find_char_append find_char_None [THEN iffD2])

lemma digit_char_simps:
  "digit_char 0 = CHR ''0''" "digit_char 1 = CHR ''1''" "digit_char (Suc 0) = CHR ''1''" "digit_char 2 = CHR ''2''"
  "digit_char 3 = CHR ''3''" "digit_char 4 = CHR ''4''" "digit_char 5 = CHR ''5''" "digit_char 6 = CHR ''6''"
  "digit_char 7 = CHR ''7''" "digit_char 8 = CHR ''8''" "digit_char 9 = CHR ''9''"
  by code_simp+

text \<open>Evaluates decimal numerals.\<close>

lemmas to_string_eval = to_string.simps [of "numeral k" for k] to_string.simps [of 0] to_string.simps [of 1]
  to_string.simps [of "Suc 0"] digit_char_simps

end
