(* ===== verification/Hex.thy ===== *)
theory Hex
  imports Strings
begin

text \<open>
  The four hex codecs of the sources: \<^verbatim>\<open>midnight::util\<close> (include/midnight/core/common_utils.hpp),
  \<^verbatim>\<open>codec::util\<close> (src/codec/scale_codec.cpp), \<^verbatim>\<open>crypto\<close> (src/crypto/merkle_tree.cpp) and the
  fixed-width decoder of src/signing-submission/signing_submission.cpp, with the string
  utilities that stand beside them. The locale \<open>hex_codec\<close> is the contract an encoder and a
  decoder share; each pair is an interpretation of it.
\<close>

section \<open>Prefixes and digits\<close>

definition strip_hex_prefix :: "string \<Rightarrow> string" where
  "strip_hex_prefix value =
     (if starts_with value ''0x'' \<or> starts_with value ''0X'' then drop 2 value else value)"

definition ensure_hex_prefix :: "string \<Rightarrow> string" where
  "ensure_hex_prefix value =
     (if value = [] then value
      else if starts_with value ''0x'' \<or> starts_with value ''0X'' then value
      else ''0x'' @ value)"

definition is_hex_string :: "string \<Rightarrow> bool" where
  "is_hex_string value =
     (if value = [] \<or> length value mod 2 \<noteq> 0 then False else list_all isxdigit value)"

definition hex_nibble :: "char \<Rightarrow> int" where
  "hex_nibble c =
     (if char_in 48 57 c then int (of_char c) - 48
      else let lower = tolower c
           in if char_in 97 102 lower then 10 + (int (of_char lower) - 97) else -1)"

lemma hex_nibble_xdigit: "isxdigit c \<Longrightarrow> hex_nibble c = int (xdigit_value c)"
  by (auto simp: hex_nibble_def xdigit_value_def cctype_defs Let_def of_char_of)

lemma hex_nibble_neg: "hex_nibble c < 0 \<longleftrightarrow> \<not> isxdigit c"
proof (cases "isxdigit c")
  case True
  then show ?thesis by (simp add: hex_nibble_xdigit)
next
  case False
  then show ?thesis
    by (auto simp: hex_nibble_def cctype_defs Let_def of_char_of split: if_splits)
qed

section \<open>\<^verbatim>\<open>midnight::util\<close>\<close>

definition kHex :: string where
  "kHex = ''0123456789abcdef''"

definition util_bytes_to_hex :: "bytes \<Rightarrow> string" where
  "util_bytes_to_hex bs =
     concat (map (\<lambda>byte. [kHex ! unat (drop_bit 4 byte AND 0x0F), kHex ! unat (byte AND 0x0F)]) bs)"

text \<open>One iteration of the decoding loop: \<^verbatim>\<open>hex_str[i + 1]\<close> at the end of the string is the
  terminating null character.\<close>

definition util_hex_pair :: "char \<Rightarrow> char \<Rightarrow> u8 result" where
  "util_hex_pair a b =
     (let hi = hex_nibble a; lo = hex_nibble b
      in if hi < 0 \<or> lo < 0 then Inl (Runtime_error ''Invalid hex string: non-hex character'')
         else Inr (word_of_int (push_bit 4 hi OR lo)))"

fun util_hex_loop :: "string \<Rightarrow> bytes result" where
  "util_hex_loop [] = Inr []"
| "util_hex_loop [a] = rbind (util_hex_pair a (CHR 0x00)) (\<lambda>x. Inr [x])"
| "util_hex_loop (a # b # s) =
     rbind (util_hex_pair a b) (\<lambda>x. rbind (util_hex_loop s) (\<lambda>xs. Inr (x # xs)))"

definition util_hex_to_bytes :: "string \<Rightarrow> bytes result" where
  "util_hex_to_bytes hex_str =
     (if length hex_str mod 2 \<noteq> 0 then Inl (Runtime_error ''Invalid hex string: odd length'')
      else util_hex_loop hex_str)"

section \<open>\<^verbatim>\<open>codec::util\<close> and \<^verbatim>\<open>crypto\<close>\<close>

text \<open>\<^verbatim>\<open>oss << std::hex << std::setfill('0') << std::setw(2) << static_cast<int>(b)\<close>\<close>

definition hex_digit :: "nat \<Rightarrow> char" where
  "hex_digit d = (if d < 10 then char_of (48 + d) else char_of (87 + d))"

fun nat_to_hex :: "nat \<Rightarrow> string" where
  "nat_to_hex n = (if n < 16 then [hex_digit n] else nat_to_hex (n div 16) @ [hex_digit (n mod 16)])"

declare nat_to_hex.simps [simp del]

definition setw :: "nat \<Rightarrow> char \<Rightarrow> string \<Rightarrow> string" where
  "setw w fill s = replicate (w - length s) fill @ s"

definition oss_hex2 :: "u8 \<Rightarrow> string" where
  "oss_hex2 b = setw 2 (CHR ''0'') (nat_to_hex (unat b))"

definition crypto_to_hex :: "bytes \<Rightarrow> string" where
  "crypto_to_hex data = concat (map oss_hex2 data)"

definition codec_bytes_to_hex :: "bytes \<Rightarrow> string" where
  "codec_bytes_to_hex data = ''0x'' @ concat (map oss_hex2 data)"

fun stoul_loop :: "string \<Rightarrow> bytes result" where
  "stoul_loop [] = Inr []"
| "stoul_loop [a] = rbind (stoul16 [a]) (\<lambda>v. Inr [word_of_nat v])"
| "stoul_loop (a # b # s) =
     rbind (stoul16 [a, b]) (\<lambda>v. rbind (stoul_loop s) (\<lambda>xs. Inr (word_of_nat v # xs)))"

definition codec_hex_to_bytes :: "string \<Rightarrow> bytes result" where
  "codec_hex_to_bytes hex =
     (let clean = (if take 2 hex = ''0x'' \<or> take 2 hex = ''0X'' then drop 2 hex else hex)
      in if length clean mod 2 \<noteq> 0 then Inl (Runtime_error ''hex_to_bytes: odd length'')
         else stoul_loop clean)"

text \<open>\<^verbatim>\<open>crypto::from_hex\<close> turns every exception of the loop into \<^verbatim>\<open>std::nullopt\<close>.\<close>

definition crypto_from_hex :: "string \<Rightarrow> bytes option" where
  "crypto_from_hex hex =
     (let clean = (if starts_with hex ''0x'' \<or> starts_with hex ''0X'' then drop 2 hex else hex)
      in if length clean mod 2 \<noteq> 0 then None
         else (case stoul_loop clean of Inl _ \<Rightarrow> None | Inr bs \<Rightarrow> Some bs))"

section \<open>Prefixed encoding and fixed-width decoding\<close>

definition prefixed_hex :: "bytes \<Rightarrow> string" where
  "prefixed_hex data = ''0x'' @ util_bytes_to_hex data"

fun fixed_loop :: "string \<Rightarrow> bytes option" where
  "fixed_loop (a # b # s) =
     (let high = hex_nibble a; low = hex_nibble b
      in if high < 0 \<or> low < 0 then None
         else map_option ((#) (word_of_int (push_bit 4 high OR low))) (fixed_loop s))"
| "fixed_loop s = Some []"

definition hex_to_fixed_bytes :: "string \<Rightarrow> nat \<Rightarrow> bytes option" where
  "hex_to_fixed_bytes hex_input out_size =
     (let normalized = strip_hex_prefix hex_input
      in if length normalized \<noteq> out_size * 2 then None else fixed_loop normalized)"

section \<open>Other string utilities\<close>

text \<open>POSIX branch: the argument between single quotes, each inner quote written as \<^verbatim>\<open>'\''\<close>.\<close>

definition quote_shell_arg :: "string \<Rightarrow> string" where
  "quote_shell_arg value =
     [CHR 0x27] @
     concat (map (\<lambda>ch. if ch = CHR 0x27 then [CHR 0x27, CHR 0x5C, CHR 0x27, CHR 0x27] else [ch]) value)
     @ [CHR 0x27]"

definition extract_json_payload :: "string \<Rightarrow> string" where
  "extract_json_payload raw_output =
     (case (find_char (CHR ''{'') raw_output, rfind_char (CHR ''}'') raw_output) of
        (Some i, Some j) \<Rightarrow>
          (if j < i then raw_output else take (j - i + 1) (drop i raw_output))
      | _ \<Rightarrow> raw_output)"

text \<open>The bytes written to the buffer; \<open>None\<close> when nothing is written.\<close>

definition copy_string_to_c_buffer :: "string \<Rightarrow> nat \<Rightarrow> string option" where
  "copy_string_to_c_buffer input capacity =
     (if capacity = 0 then None else Some (take (min (length input) (capacity - 1)) input @ [CHR 0x00]))"

definition to_lower_copy :: "string \<Rightarrow> string" where
  "to_lower_copy value = map tolower value"

section \<open>Lemmas\<close>

lemma unat_byte_less [simp]: "unat (b :: u8) < 256"
  using unsigned_less [of b] by simp

lemma and_15: "(b :: u8) AND 15 = b mod 16"
  by (simp add: take_bit_eq_mask mask_eq_exp_minus_1 flip: take_bit_eq_mod [where n = 4, simplified])

lemma byte_div_16 [simp]: "unat (b :: u8) div 16 < 16"
  using unat_byte_less [of b] by linarith

lemma unat_lo_nibble [simp]: "unat (b mod 16 :: u8) = unat b mod 16"
  by (simp add: unat_mod_distrib)

lemma unat_hi_nibble [simp]: "unat (b div 16 :: u8) = unat b div 16"
  by (simp add: unat_div_distrib)

lemma hex_digit_kHex: "d < 16 \<Longrightarrow> kHex ! d = hex_digit d"
proof -
  have "\<forall>d \<in> set [0..<16]. kHex ! d = hex_digit d"
    by code_simp
  then show "d < 16 \<Longrightarrow> kHex ! d = hex_digit d" by simp
qed

lemma hex_digit_0: "hex_digit 0 = CHR ''0''"
  by code_simp

lemma of_char_hex_digit: "d < 16 \<Longrightarrow> of_char (hex_digit d) = (if d < 10 then 48 + d else 87 + d)"
  by (simp add: hex_digit_def of_char_of)

lemma isxdigit_hex_digit [simp]: "d < 16 \<Longrightarrow> isxdigit (hex_digit d)"
  by (auto simp: isxdigit_def isdigit_def char_in_def of_char_hex_digit)

lemma xdigit_value_hex_digit [simp]: "d < 16 \<Longrightarrow> xdigit_value (hex_digit d) = d"
  by (auto simp: xdigit_value_def isdigit_def char_in_def of_char_hex_digit)

lemma oss_hex2_eq: "oss_hex2 b = [hex_digit (unat b div 16), hex_digit (unat b mod 16)]"
proof (cases "unat b < 16")
  case True
  then show ?thesis
    by (simp add: oss_hex2_def setw_def nat_to_hex.simps [of "unat b"] hex_digit_0)
next
  case False
  with unat_byte_less [of b] have "unat b div 16 < 16" by simp
  with False show ?thesis
    by (simp add: oss_hex2_def setw_def nat_to_hex.simps [of "unat b"]
        nat_to_hex.simps [of "unat b div 16"])
qed

lemma drop_bit_byte: "drop_bit 4 (b :: u8) AND 0x0F = b div 16"
proof -
  have "drop_bit 4 b AND 0x0F = b div 16 mod 16"
    by (simp add: drop_bit_eq_div and_15)
  also have "unat \<dots> = unat (b div 16)"
    by (simp add: unat_div_distrib unat_mod_distrib)
  then have "b div 16 mod 16 = b div 16"
    by (simp add: word_eq_iff_unsigned [where 'a = nat])
  finally show ?thesis .
qed

lemma util_byte_hex:
  "[kHex ! unat (drop_bit 4 b AND 0x0F), kHex ! unat (b AND 0x0F :: u8)] =
   [hex_digit (unat b div 16), hex_digit (unat b mod 16)]"
  unfolding drop_bit_byte by (simp add: hex_digit_kHex and_15)

lemma byte_of_nibbles:
  fixes h l :: int
  assumes "0 \<le> l" "l < 16"
  shows "push_bit 4 h OR l = 16 * h + l"
proof -
  have l: "l = take_bit 4 l" using assms by (simp add: take_bit_int_eq_self)
  have "push_bit 4 h AND take_bit 4 l = 0"
    by (intro bit_eqI) (auto simp: bit_simps)
  then have "push_bit 4 h AND l = 0" using l by simp
  then show ?thesis
    by (simp add: push_bit_eq_mult flip: disjunctive_add_eq_or)
qed

section \<open>The contract of a hex codec\<close>

text \<open>An encoder, a decoder, and how the decoder reports a value (\<open>Inr\<close> or \<open>Some\<close>).\<close>

locale hex_codec =
  fixes enc :: "bytes \<Rightarrow> string"
    and dec :: "string \<Rightarrow> 'r"
    and ret :: "bytes \<Rightarrow> 'r"
    and prefix_length :: nat
  assumes dec_enc: "dec (enc bs) = ret bs"
    and ret_inj: "ret a = ret b \<Longrightarrow> a = b"
    and length_enc: "length (enc bs) = prefix_length + 2 * length bs"
begin

lemma enc_inj: "enc a = enc b \<longleftrightarrow> a = b"
  by (metis dec_enc ret_inj)

lemma enc_length_determined: "enc a = enc b \<Longrightarrow> length a = length b"
  by (simp add: enc_inj)

end

lemma of_nibble_digits:
  "(word_of_int (push_bit 4 (int (unat b div 16)) OR int (unat b mod 16)) :: u8) = b"
proof -
  have "push_bit 4 (int (unat b div 16)) OR int (unat b mod 16) = 16 * int (unat b div 16) + int (unat b mod 16)"
    by (rule byte_of_nibbles) auto
  also have "\<dots> = uint b"
    by (simp add: zdiv_int zmod_int)
  finally show ?thesis by simp
qed

lemma word_of_hex_digits: "word_of_nat (16 * (unat b div 16) + unat b mod 16) = (b :: u8)"
  by simp

lemma util_bytes_to_hex_Nil [simp]: "util_bytes_to_hex [] = []"
  by (simp add: util_bytes_to_hex_def)

lemma util_bytes_to_hex_Cons [simp]:
  "util_bytes_to_hex (b # bs) =
     hex_digit (unat b div 16) # hex_digit (unat b mod 16) # util_bytes_to_hex bs"
  unfolding util_bytes_to_hex_def list.map concat.simps util_byte_hex by simp

lemma crypto_to_hex_eq: "crypto_to_hex bs = util_bytes_to_hex bs"
  by (induction bs) (simp_all add: crypto_to_hex_def oss_hex2_eq)

lemma codec_bytes_to_hex_eq: "codec_bytes_to_hex bs = ''0x'' @ util_bytes_to_hex bs"
  using crypto_to_hex_eq [of bs] by (simp add: codec_bytes_to_hex_def crypto_to_hex_def)

lemma util_hex_pair_digits [simp]:
  "util_hex_pair (hex_digit (unat b div 16)) (hex_digit (unat b mod 16)) = Inr b"
  by (simp add: util_hex_pair_def Let_def hex_nibble_xdigit of_nibble_digits)

lemma length_util_bytes_to_hex [simp]: "length (util_bytes_to_hex bs) = 2 * length bs"
  by (induction bs) simp_all

lemma util_hex_loop_enc: "util_hex_loop (util_bytes_to_hex bs) = Inr bs"
  by (induction bs) simp_all

lemma stoul_loop_enc: "stoul_loop (util_bytes_to_hex bs) = Inr bs"
  by (induction bs) (simp_all add: stoul16_pair)

lemma util_bytes_to_hex_xdigits: "c \<in> set (util_bytes_to_hex bs) \<Longrightarrow> isxdigit c"
  by (induction bs) auto

lemma no_x_in_hex: "CHR ''x'' \<notin> set (util_bytes_to_hex bs)" "CHR ''X'' \<notin> set (util_bytes_to_hex bs)"
  using util_bytes_to_hex_xdigits isxdigit_not_special by blast+

lemma no_prefix_in_hex: "\<not> starts_with (util_bytes_to_hex bs) ''0x''" "\<not> starts_with (util_bytes_to_hex bs) ''0X''"
  using no_x_in_hex [of bs] by (auto simp: starts_with_iff)

interpretation util_hex: hex_codec util_bytes_to_hex util_hex_to_bytes Inr 0
  by unfold_locales (simp_all add: util_hex_to_bytes_def util_hex_loop_enc)

interpretation codec_hex: hex_codec codec_bytes_to_hex codec_hex_to_bytes Inr 2
  by unfold_locales
    (simp_all add: codec_hex_to_bytes_def codec_bytes_to_hex_eq Let_def stoul_loop_enc)

interpretation crypto_hex: hex_codec crypto_to_hex crypto_from_hex Some 0
  by unfold_locales
    (simp_all add: crypto_from_hex_def crypto_to_hex_eq Let_def no_prefix_in_hex stoul_loop_enc)

section \<open>What the decoders accept\<close>

lemma hex_digit_of_xdigit: "isxdigit c \<Longrightarrow> hex_digit (xdigit_value c) = tolower c"
proof -
  assume "isxdigit c"
  then have "of_char (hex_digit (xdigit_value c)) = (of_char (tolower c) :: nat)"
    by (subst of_char_hex_digit) (auto simp: xdigit_value_less of_char_tolower xdigit_value_def cctype_defs)
  then show ?thesis by simp
qed

lemma util_hex_pair_Inr:
  "util_hex_pair a b = Inr x \<longleftrightarrow>
     isxdigit a \<and> isxdigit b \<and> x = word_of_nat (16 * xdigit_value a + xdigit_value b)"
proof (cases "isxdigit a \<and> isxdigit b")
  case True
  then have "push_bit 4 (int (xdigit_value a)) OR int (xdigit_value b) =
      int (16 * xdigit_value a + xdigit_value b)"
    using byte_of_nibbles [of "int (xdigit_value b)" "int (xdigit_value a)"]
      xdigit_value_less [of b] by simp
  then have "word_of_int (push_bit 4 (int (xdigit_value a)) OR int (xdigit_value b)) =
      (word_of_nat (16 * xdigit_value a + xdigit_value b) :: u8)"
    by (metis of_int_of_nat_eq)
  with True show ?thesis
    by (auto simp: util_hex_pair_def hex_nibble_xdigit Let_def)
next
  case False
  then show ?thesis by (auto simp: util_hex_pair_def hex_nibble_neg Let_def)
qed

lemma byte_of_xdigits:
  assumes "isxdigit a" "isxdigit b" and "x = (word_of_nat (16 * xdigit_value a + xdigit_value b) :: u8)"
  shows "hex_digit (unat x div 16) = tolower a" "hex_digit (unat x mod 16) = tolower b"
proof -
  have lt: "xdigit_value a < 16" "xdigit_value b < 16"
    using assms(1,2) by (simp_all add: xdigit_value_less)
  then have "16 * xdigit_value a + xdigit_value b < 256" by linarith
  then have u: "unat x = 16 * xdigit_value a + xdigit_value b"
    using assms(3) of_nat_inverse [of "16 * xdigit_value a + xdigit_value b" x] by simp
  have "unat x div 16 = xdigit_value a" "unat x mod 16 = xdigit_value b"
    using lt unfolding u by auto
  then show "hex_digit (unat x div 16) = tolower a" "hex_digit (unat x mod 16) = tolower b"
    using assms(1,2) by (simp_all add: hex_digit_of_xdigit)
qed

lemma xdigits_of_byte:
  assumes "hex_digit (unat x div 16) = tolower a" "hex_digit (unat x mod 16) = tolower b"
  shows "isxdigit a \<and> isxdigit b \<and> x = (word_of_nat (16 * xdigit_value a + xdigit_value b) :: u8)"
proof -
  have v: "xdigit_value (tolower c) = xdigit_value c" if "isxdigit c" for c
    using that by (auto simp: xdigit_value_def cctype_defs of_char_of)
  have x: "isxdigit a" "isxdigit b"
    using assms by (metis isxdigit_hex_digit isxdigit_tolower byte_div_16 mod_less_divisor zero_less_numeral)+
  moreover have "xdigit_value a = unat x div 16" "xdigit_value b = unat x mod 16"
    using x v assms by (metis xdigit_value_hex_digit byte_div_16 mod_less_divisor zero_less_numeral)+
  ultimately show ?thesis by simp
qed

lemma util_hex_pair_iff:
  "util_hex_pair a b = Inr x \<longleftrightarrow>
     hex_digit (unat x div 16) = tolower a \<and> hex_digit (unat x mod 16) = tolower b"
  using util_hex_pair_Inr [of a b x] xdigits_of_byte [of x a b] byte_of_xdigits [of a b x] by blast

lemma util_hex_loop_Inr:
  "even (length s) \<Longrightarrow> util_hex_loop s = Inr bs \<longleftrightarrow> map tolower s = util_bytes_to_hex bs"
proof (induction s arbitrary: bs rule: util_hex_loop.induct)
  case 1
  then show ?case by (cases bs) (simp_all add: eq_commute)
next
  case (2 a)
  then show ?case by simp
next
  case (3 a b s)
  show ?case
  proof (cases bs)
    case Nil
    then show ?thesis by (auto simp: rbind_eq_Inr)
  next
    case (Cons x xs)
    have IH: "util_hex_pair a b = Inr x \<Longrightarrow>
        util_hex_loop s = Inr xs \<longleftrightarrow> map tolower s = util_bytes_to_hex xs"
      using 3 by simp
    have "util_hex_loop (a # b # s) = Inr bs \<longleftrightarrow> util_hex_pair a b = Inr x \<and> util_hex_loop s = Inr xs"
      by (auto simp: rbind_eq_Inr Cons)
    also have "\<dots> \<longleftrightarrow> util_hex_pair a b = Inr x \<and> map tolower s = util_bytes_to_hex xs"
      using IH by blast
    also have "\<dots> \<longleftrightarrow> (hex_digit (unat x div 16) = tolower a \<and> hex_digit (unat x mod 16) = tolower b)
        \<and> map tolower s = util_bytes_to_hex xs"
      by (simp only: util_hex_pair_iff)
    finally show ?thesis by (auto simp: Cons)
  qed
qed

section \<open>Properties\<close>

text \<open>
  \<^verbatim>\<open>midnight::util::hex_to_bytes\<close> is the exact inverse of \<^verbatim>\<open>bytes_to_hex\<close> up to letter case: it
  returns \<open>bs\<close> for precisely the strings whose lower-case form is the encoding of \<open>bs\<close>, and
  throws for every other string.
\<close>

theorem util_hex_to_bytes_exact:
  "util_hex_to_bytes s = Inr bs \<longleftrightarrow> to_lower_copy s = util_bytes_to_hex bs"
proof (cases "even (length s)")
  case True
  then show ?thesis by (simp add: util_hex_to_bytes_def to_lower_copy_def util_hex_loop_Inr)
next
  case False
  then have "map tolower s \<noteq> util_bytes_to_hex bs"
    by (metis dvd_triv_left length_map length_util_bytes_to_hex)
  with False show ?thesis
    by (auto simp: util_hex_to_bytes_def to_lower_copy_def even_iff_mod_2_eq_zero)
qed

lemma stoul16_bad_second:
  assumes "isxdigit a" and "\<not> isxdigit c"
  shows "stoul16 [a, c] = Inr (xdigit_value a)"
  using assms isxdigit_not_special [OF assms(1)] xdigit_value_less [OF assms(1)]
  by (simp add: stoul16_def strip_sign_def strip_0x_def starts_with_def hex_value_def)

text \<open>
  \<^verbatim>\<open>codec::util::hex_to_bytes\<close> goes through \<^verbatim>\<open>std::stoul\<close> and so accepts what is not hex: a pair
  whose second character is no hex digit decodes to the first digit alone, where
  \<^verbatim>\<open>midnight::util::hex_to_bytes\<close> throws.
\<close>

theorem codec_hex_accepts_bad_digit:
  assumes "isxdigit a" and "\<not> isxdigit c" and "c \<noteq> CHR ''x''" and "c \<noteq> CHR ''X''"
  shows "codec_hex_to_bytes [a, c] = Inr [word_of_nat (xdigit_value a)] \<and>
    util_hex_to_bytes [a, c] = Inl (Runtime_error ''Invalid hex string: non-hex character'')"
proof
  show "codec_hex_to_bytes [a, c] = Inr [word_of_nat (xdigit_value a)]"
    using assms stoul16_bad_second [OF assms(1,2)]
    by (simp add: codec_hex_to_bytes_def)
  show "util_hex_to_bytes [a, c] = Inl (Runtime_error ''Invalid hex string: non-hex character'')"
    using assms hex_nibble_neg [of c] by (simp add: util_hex_to_bytes_def util_hex_pair_def Let_def)
qed

theorem codec_hex_accepts_bad_digit_witness:
  "codec_hex_to_bytes ''1g'' = Inr [1] \<and>
   util_hex_to_bytes ''1g'' = Inl (Runtime_error ''Invalid hex string: non-hex character'')"
proof -
  have d: "isxdigit (CHR ''1'')" "\<not> isxdigit (CHR ''g'')" "CHR ''g'' \<noteq> CHR ''x''" "CHR ''g'' \<noteq> CHR ''X''"
    by (simp_all add: cctype_defs)
  have v: "xdigit_value (CHR ''1'') = 1" by (simp add: xdigit_value_def cctype_defs)
  show ?thesis using codec_hex_accepts_bad_digit [OF d] v by simp
qed

text \<open>
  How a POSIX shell reads a word made of single-quoted runs and backslash-escaped characters;
  \<open>None\<close> for an unterminated quote or a bare character, which the shell could interpret.
\<close>

fun sh_word :: "bool \<Rightarrow> string \<Rightarrow> string option" where
  "sh_word quoted [] = (if quoted then None else Some [])"
| "sh_word True (c # s) =
     (if c = CHR 0x27 then sh_word False s else map_option ((#) c) (sh_word True s))"
| "sh_word False (c # s) =
     (if c = CHR 0x27 then sh_word True s
      else if c = CHR 0x5C
      then (case s of [] \<Rightarrow> None | d # t \<Rightarrow> map_option ((#) d) (sh_word False t))
      else None)"

lemma sh_word_quoted_body:
  "sh_word True
     (concat (map (\<lambda>ch. if ch = CHR 0x27 then [CHR 0x27, CHR 0x5C, CHR 0x27, CHR 0x27] else [ch]) v)
      @ [CHR 0x27]) = Some v"
  by (induction v) auto

text \<open>
  C40: \<^verbatim>\<open>quote_shell_arg\<close> is injection-free: whatever the argument holds, the shell reads the quoted
  text back as exactly that one argument, and no character of it is ever outside quotes.
\<close>

theorem quote_shell_arg_safe: "sh_word False (quote_shell_arg v) = Some v"
  by (simp add: quote_shell_arg_def sh_word_quoted_body)

end
