(* ===== verification/Scale.thy ===== *)
theory Scale
  imports Hex
begin

text \<open>
  The SCALE codec (include/midnight/codec/scale_codec.hpp, src/codec/scale_codec.cpp): the
  128-bit balance type, the encoder, which appends to a byte buffer, and the decoder, a cursor
  into a byte vector. Every read of the vector goes through \<open>read_at\<close> or \<open>read_slice\<close>, so a
  read past its end is \<open>Undefined_behaviour\<close> and not an arbitrary value. Sizes and offsets
  are natural numbers; \<open>check_remaining\<close> adds them modulo \<open>2 ^ 64\<close>, as \<^verbatim>\<open>size_t\<close> does.
\<close>

section \<open>The balance type\<close>

text \<open>\<open>lo\<close> and \<open>hi\<close>, in the order of the constructor of the code.\<close>

datatype u128 = U128 (u128_lo: u64) (u128_hi: u64)

definition u128_of_u64 :: "u64 \<Rightarrow> u128" where
  "u128_of_u64 low = U128 low 0"

definition u128_less :: "u128 \<Rightarrow> u128 \<Rightarrow> bool" where
  "u128_less self other =
     (if u128_hi self \<noteq> u128_hi other then u128_hi self < u128_hi other
      else u128_lo self < u128_lo other)"

definition u128_value :: "u128 \<Rightarrow> nat" where
  "u128_value u = unat (u128_hi u) * 2 ^ 64 + unat (u128_lo u)"

text \<open>
  \<^verbatim>\<open>u128::to_decimal\<close>, by digit strings. \<open>pad_reversed\<close> is the loop that writes a string backwards
  into the end of a string of zeros; the two digit loops push the least significant digit first.
\<close>

definition digit_of :: "char \<Rightarrow> nat" where
  "digit_of c = of_char c - 48"

definition pad_reversed :: "nat \<Rightarrow> string \<Rightarrow> string" where
  "pad_reversed max_len s =
     fold (\<lambda>i padded. padded[max_len - length s + i := s ! (length s - 1 - i)])
       [0..<length s] (replicate max_len (CHR ''0''))"

fun carry_digits :: "nat \<Rightarrow> string" where
  "carry_digits carry =
     (if 0 < carry then digit_char (carry mod 10) # carry_digits (carry div 10) else [])"

declare carry_digits.simps [simp del]

text \<open>One round of a digit loop: the new carry and the digits pushed so far.\<close>

definition push_sum :: "(nat \<Rightarrow> nat) \<Rightarrow> nat \<Rightarrow> nat \<times> string \<Rightarrow> nat \<times> string" where
  "push_sum digits i st = (let sum = fst st + digits i in (sum div 10, snd st @ [digit_char (sum mod 10)]))"

definition mul_digits :: "string \<Rightarrow> string \<Rightarrow> nat \<Rightarrow> nat \<Rightarrow> nat" where
  "mul_digits padded_result padded_multiplier max_len i =
     (let digit1 = digit_of (padded_result ! (max_len - 1 - i))
      in sum_list (map (\<lambda>j. digit1 * digit_of (padded_multiplier ! (max_len - 1 - (i - j))))
           (filter (\<lambda>j. i - j < max_len) [0..<Suc i])))"

definition add_digits :: "string \<Rightarrow> string \<Rightarrow> nat \<Rightarrow> nat \<Rightarrow> nat" where
  "add_digits padded_result padded_lo max_len i =
     digit_of (padded_result ! (max_len - 1 - i)) + digit_of (padded_lo ! (max_len - 1 - i))"

definition digit_loop :: "(nat \<Rightarrow> nat) \<Rightarrow> nat \<Rightarrow> string" where
  "digit_loop digits max_len =
     (let (carry, new_result) = fold (push_sum digits) [0..<max_len] (0, [])
      in rev (new_result @ carry_digits carry))"

definition mul_phase :: "string \<Rightarrow> string \<Rightarrow> string" where
  "mul_phase result multiplier =
     (let max_len = max (length result) (length multiplier) + 1
      in digit_loop (mul_digits (pad_reversed max_len result) (pad_reversed max_len multiplier) max_len)
           max_len)"

text \<open>The addition; leading zeros are removed when some digit is not zero.\<close>

definition add_phase :: "string \<Rightarrow> string \<Rightarrow> string" where
  "add_phase result lo_str =
     (let max_len = max (length result) (length lo_str) + 1;
          new_result = digit_loop
            (add_digits (pad_reversed max_len result) (pad_reversed max_len lo_str) max_len) max_len
      in if list_all (\<lambda>c. c = CHR ''0'') new_result then new_result
         else dropWhile (\<lambda>c. c = CHR ''0'') new_result)"

definition to_decimal :: "u128 \<Rightarrow> string" where
  "to_decimal u =
     (if u128_hi u = 0 then to_string (unat (u128_lo u))
      else
        (let result = ''0'';
             multiplier = ''18446744073709551616'';
             result = (if 0 < u128_hi u then mul_phase result multiplier else result);
             result = (if 0 < u128_lo u then add_phase result (to_string (unat (u128_lo u))) else result)
         in if result = [] then ''0'' else result))"

section \<open>The encoder\<close>

record scale_encoder =
  buffer :: bytes

definition new_encoder :: scale_encoder where
  "new_encoder = \<lparr>buffer = []\<rparr>"

definition push_bytes :: "bytes \<Rightarrow> scale_encoder \<Rightarrow> scale_encoder" where
  "push_bytes bs e = e\<lparr>buffer := buffer e @ bs\<rparr>"

text \<open>The loop \<^verbatim>\<open>while (temp > 0) { bytes_needed++; temp >>= 8; }\<close>.\<close>

function count_bytes :: "u64 \<Rightarrow> nat" where
  "count_bytes temp = (if 0 < temp then Suc (count_bytes (drop_bit 8 temp)) else 0)"
  by pat_completeness auto
termination
proof (relation "measure unat")
  fix temp :: u64
  assume "0 < temp"
  then have "0 < unat temp" by (simp add: word_less_nat_alt)
  then show "(drop_bit 8 temp, temp) \<in> measure unat"
    by (simp add: unsigned_drop_bit_eq drop_bit_eq_div unat_div_distrib)
qed simp

declare count_bytes.simps [simp del]

definition bytes_needed :: "u64 \<Rightarrow> nat" where
  "bytes_needed value = max 4 (count_bytes value)"

definition compact_bytes :: "u64 \<Rightarrow> bytes" where
  "compact_bytes value =
     (if value \<le> 0x3F then [ucast (push_bit 2 value OR 0x00)]
      else if value \<le> 0x3FFF then
        (let encoded = (ucast (push_bit 2 value OR 0x01) :: u16)
         in [ucast (encoded AND 0xFF), ucast (drop_bit 8 encoded AND 0xFF)])
      else if value \<le> 0x3FFFFFFF then
        (let encoded = (ucast (push_bit 2 value OR 0x02) :: u32)
         in [ucast (encoded AND 0xFF), ucast (drop_bit 8 encoded AND 0xFF),
             ucast (drop_bit 16 encoded AND 0xFF), ucast (drop_bit 24 encoded AND 0xFF)])
      else
        (let n = bytes_needed value
         in (push_bit 2 (word_of_nat (n - 4)) OR 0x03) #
            map (\<lambda>i. ucast (drop_bit (i * 8) value AND 0xFF)) [0..<n]))"

definition encode_compact :: "u64 \<Rightarrow> scale_encoder \<Rightarrow> scale_encoder" where
  "encode_compact value = push_bytes (compact_bytes value)"

definition encode_u8 :: "u8 \<Rightarrow> scale_encoder \<Rightarrow> scale_encoder" where
  "encode_u8 value = push_bytes [value]"

definition u16_le_bytes :: "u16 \<Rightarrow> bytes" where
  "u16_le_bytes value = [ucast (value AND 0xFF), ucast (drop_bit 8 value AND 0xFF)]"

definition encode_u16_le :: "u16 \<Rightarrow> scale_encoder \<Rightarrow> scale_encoder" where
  "encode_u16_le value = push_bytes (u16_le_bytes value)"

definition u32_le_bytes :: "u32 \<Rightarrow> bytes" where
  "u32_le_bytes value =
     [ucast (value AND 0xFF), ucast (drop_bit 8 value AND 0xFF),
      ucast (drop_bit 16 value AND 0xFF), ucast (drop_bit 24 value AND 0xFF)]"

definition encode_u32_le :: "u32 \<Rightarrow> scale_encoder \<Rightarrow> scale_encoder" where
  "encode_u32_le value = push_bytes (u32_le_bytes value)"

definition u64_le_bytes :: "u64 \<Rightarrow> bytes" where
  "u64_le_bytes value = map (\<lambda>i. ucast (drop_bit (i * 8) value AND 0xFF)) [0..<8]"

definition encode_u64_le :: "u64 \<Rightarrow> scale_encoder \<Rightarrow> scale_encoder" where
  "encode_u64_le value = push_bytes (u64_le_bytes value)"

text \<open>The parameter is a pointer to 16 bytes: fewer is a read past them.\<close>

definition encode_u128_le :: "bytes \<Rightarrow> scale_encoder \<Rightarrow> scale_encoder result" where
  "encode_u128_le bs e = rbind (read_slice bs 0 16) (\<lambda>b. Inr (push_bytes b e))"

definition encode_bool :: "bool \<Rightarrow> scale_encoder \<Rightarrow> scale_encoder" where
  "encode_bool value = push_bytes [if value then 0x01 else 0x00]"

definition encode_raw :: "bytes \<Rightarrow> scale_encoder \<Rightarrow> scale_encoder" where
  "encode_raw data = push_bytes data"

definition encode_bytes :: "bytes \<Rightarrow> scale_encoder \<Rightarrow> scale_encoder" where
  "encode_bytes data e = push_bytes data (encode_compact (word_of_nat (length data)) e)"

definition encode_string :: "string \<Rightarrow> scale_encoder \<Rightarrow> scale_encoder" where
  "encode_string str e =
     push_bytes (map byte_of_char str) (encode_compact (word_of_nat (length str)) e)"

definition encode_option_none :: "scale_encoder \<Rightarrow> scale_encoder" where
  "encode_option_none = push_bytes [0x00]"

definition encode_option_some_prefix :: "scale_encoder \<Rightarrow> scale_encoder" where
  "encode_option_some_prefix = push_bytes [0x01]"

definition encode_era_immortal :: "scale_encoder \<Rightarrow> scale_encoder" where
  "encode_era_immortal = push_bytes [0x00]"

text \<open>Mortal eras: the two loops of the code, over 64-bit values.\<close>

definition era_period :: "u64 \<Rightarrow> u64" where
  "era_period period =
     (let clamped = max 4 (min 65536 period)
      in while (\<lambda>p. p < clamped) (\<lambda>p. push_bit 1 p) 4)"

definition era_log2 :: "u64 \<Rightarrow> nat" where
  "era_log2 p = snd (while (\<lambda>(tmp, l). 1 < tmp) (\<lambda>(tmp, l). (drop_bit 1 tmp, Suc l)) (p, 0))"

definition era_mortal_word :: "u64 \<Rightarrow> u64 \<Rightarrow> u16" where
  "era_mortal_word current_block period =
     (let p = era_period period;
          quantize_factor = max 1 (p div 4096);
          phase = (current_block mod p) div quantize_factor;
          period_log2 = era_log2 p;
          nibble = min 15 (word_of_nat (period_log2 - 1) :: u8);
          phase_clamped = (ucast (min phase 0x0FFF) :: u16)
      in ucast nibble OR push_bit 4 phase_clamped)"

definition encode_era_mortal :: "u64 \<Rightarrow> u64 \<Rightarrow> scale_encoder \<Rightarrow> scale_encoder" where
  "encode_era_mortal current_block period = encode_u16_le (era_mortal_word current_block period)"

definition encode_multi_address_id :: "bytes \<Rightarrow> scale_encoder \<Rightarrow> scale_encoder result" where
  "encode_multi_address_id account_id_32 e =
     (if length account_id_32 \<noteq> 32 then Inl (Runtime_error ''AccountId must be 32 bytes'')
      else Inr (push_bytes account_id_32 (push_bytes [0x00] e)))"

definition finalize_with_length :: "scale_encoder \<Rightarrow> bytes" where
  "finalize_with_length e =
     buffer (encode_compact (word_of_nat (length (buffer e))) new_encoder) @ buffer e"

section \<open>The decoder\<close>

record scale_decoder =
  dec_data :: bytes
  dec_offset :: nat

type_synonym 'a decode = "('a \<times> scale_decoder) result"

definition new_decoder :: "bytes \<Rightarrow> scale_decoder" where
  "new_decoder data = \<lparr>dec_data = data, dec_offset = 0\<rparr>"

definition decoder_remaining :: "scale_decoder \<Rightarrow> nat" where
  "decoder_remaining d = nat ((int (length (dec_data d)) - int (dec_offset d)) mod 2 ^ 64)"

definition decoder_is_empty :: "scale_decoder \<Rightarrow> bool" where
  "decoder_is_empty d \<longleftrightarrow> length (dec_data d) \<le> dec_offset d"

definition advance :: "nat \<Rightarrow> scale_decoder \<Rightarrow> scale_decoder" where
  "advance n d = d\<lparr>dec_offset := dec_offset d + n\<rparr>"

definition check_remaining :: "scale_decoder \<Rightarrow> nat \<Rightarrow> unit result" where
  "check_remaining d needed =
     (if length (dec_data d) < (dec_offset d + needed) mod 2 ^ 64
      then Inl (Runtime_error ''SCALE decode: insufficient data'') else Inr ())"

definition peek :: "scale_decoder \<Rightarrow> nat \<Rightarrow> u8 result" where
  "peek d i = read_at (dec_data d) (dec_offset d + i)"

text \<open>\<^verbatim>\<open>for (i ...) val |= static_cast<uint64_t>(dec_data[dec_offset + i]) << (i * 8);\<close>\<close>

fun u64_loop :: "scale_decoder \<Rightarrow> nat list \<Rightarrow> u64 \<Rightarrow> u64 result" where
  "u64_loop d [] val = Inr val"
| "u64_loop d (i # is) val =
     rbind (peek d i) (\<lambda>b. u64_loop d is (val OR push_bit (i * 8) (ucast b)))"

text \<open>The loop of the big-integer mode, which keeps the low eight bytes only.\<close>

fun big_loop :: "scale_decoder \<Rightarrow> nat list \<Rightarrow> u64 \<Rightarrow> u64 result" where
  "big_loop d [] lo = Inr lo"
| "big_loop d (i # is) lo =
     rbind (peek d i)
       (\<lambda>b. big_loop d is (if i < 8 then lo OR push_bit (i * 8) (ucast b) else lo))"

definition decode_u8 :: "scale_decoder \<Rightarrow> u8 decode" where
  "decode_u8 d =
     rbind (check_remaining d 1) (\<lambda>_. rbind (peek d 0) (\<lambda>b. Inr (b, advance 1 d)))"

definition decode_u16_le :: "scale_decoder \<Rightarrow> u16 decode" where
  "decode_u16_le d =
     rbind (check_remaining d 2) (\<lambda>_.
     rbind (peek d 0) (\<lambda>b0. rbind (peek d 1) (\<lambda>b1.
       Inr (ucast b0 OR push_bit 8 (ucast b1), advance 2 d))))"

definition decode_u32_le :: "scale_decoder \<Rightarrow> u32 decode" where
  "decode_u32_le d =
     rbind (check_remaining d 4) (\<lambda>_.
     rbind (peek d 0) (\<lambda>b0. rbind (peek d 1) (\<lambda>b1. rbind (peek d 2) (\<lambda>b2. rbind (peek d 3) (\<lambda>b3.
       Inr (ucast b0 OR push_bit 8 (ucast b1) OR push_bit 16 (ucast b2) OR push_bit 24 (ucast b3),
            advance 4 d))))))"

definition decode_u64_le :: "scale_decoder \<Rightarrow> u64 decode" where
  "decode_u64_le d =
     rbind (check_remaining d 8) (\<lambda>_.
     rbind (u64_loop d [0..<8] 0) (\<lambda>val. Inr (val, advance 8 d)))"

definition decode_compact :: "scale_decoder \<Rightarrow> u64 decode" where
  "decode_compact d =
     rbind (check_remaining d 1) (\<lambda>_. rbind (peek d 0) (\<lambda>first.
       let mode = first AND 0x03
       in if mode = 0x00 then Inr (ucast (drop_bit 2 first), advance 1 d)
          else if mode = 0x01 then
            rbind (check_remaining d 2) (\<lambda>_. rbind (peek d 0) (\<lambda>b0. rbind (peek d 1) (\<lambda>b1.
              let val = (ucast b0 OR push_bit 8 (ucast b1) :: u16)
              in Inr (ucast (drop_bit 2 val), advance 2 d))))
          else if mode = 0x02 then
            rbind (check_remaining d 4) (\<lambda>_.
            rbind (peek d 0) (\<lambda>b0. rbind (peek d 1) (\<lambda>b1. rbind (peek d 2) (\<lambda>b2. rbind (peek d 3) (\<lambda>b3.
              let val = (ucast b0 OR push_bit 8 (ucast b1) OR push_bit 16 (ucast b2)
                         OR push_bit 24 (ucast b3) :: u32)
              in Inr (ucast (drop_bit 2 val), advance 4 d))))))
          else
            (let n = unat (drop_bit 2 first + 4)
             in rbind (check_remaining d n) (\<lambda>_.
                let d1 = advance 1 d
                in rbind (big_loop d1 [0..<min n 16] 0) (\<lambda>lo. Inr (lo, advance n d1))))))"

definition decode_bool :: "scale_decoder \<Rightarrow> bool decode" where
  "decode_bool d = rbind (decode_u8 d) (\<lambda>(b, d'). Inr (b \<noteq> 0, d'))"

definition decode_raw :: "nat \<Rightarrow> scale_decoder \<Rightarrow> bytes decode" where
  "decode_raw len d =
     rbind (check_remaining d len) (\<lambda>_.
     rbind (read_slice (dec_data d) (dec_offset d) len) (\<lambda>bs. Inr (bs, advance len d)))"

definition decode_bytes :: "scale_decoder \<Rightarrow> bytes decode" where
  "decode_bytes d = rbind (decode_compact d) (\<lambda>(len, d'). decode_raw (unat len) d')"

definition decode_u128_le :: "scale_decoder \<Rightarrow> u128 decode" where
  "decode_u128_le d =
     rbind (check_remaining d 16) (\<lambda>_.
     rbind (u64_loop d [0..<8] 0) (\<lambda>lo.
     rbind (u64_loop (advance 8 d) [0..<8] 0) (\<lambda>hi. Inr (U128 lo hi, advance 16 d))))"

definition decode_string :: "scale_decoder \<Rightarrow> string decode" where
  "decode_string d = rbind (decode_bytes d) (\<lambda>(bs, d'). Inr (map char_of_byte bs, d'))"

end
