(* ===== verification/ScaleLaws.thy ===== *)
theory ScaleLaws
  imports Scale
begin

text \<open>
  The contract of a SCALE codec, as a locale: an encoder and a decoder agree at every position
  of a buffer that fits the address space. Every encode/decode pair of \<open>Scale\<close> is an
  interpretation; a pair of codecs run in sequence is a codec again. Round trips,
  prefix-freeness and injectivity then come once, from the locale.
\<close>

section \<open>The cursor\<close>

definition decoder_at :: "bytes \<Rightarrow> bytes \<Rightarrow> scale_decoder" where
  "decoder_at pre post = \<lparr>dec_data = pre @ post, dec_offset = length pre\<rparr>"

lemma new_decoder_at: "new_decoder bs = decoder_at [] bs"
  by (simp add: new_decoder_def decoder_at_def)

lemma advance_at: "advance (length mid) (decoder_at pre (mid @ post)) = decoder_at (pre @ mid) post"
  by (simp add: advance_def decoder_at_def)

lemma advance_at_n:
  "n = length mid \<Longrightarrow> advance n (decoder_at pre (mid @ post)) = decoder_at (pre @ mid) post"
  by (simp add: advance_at)

lemma check_remaining_at:
  assumes "length pre + length post < 2 ^ 64" and "n \<le> length post"
  shows "check_remaining (decoder_at pre post) n = Inr ()"
proof -
  have "(length pre + n) mod 2 ^ 64 = length pre + n"
    using assms by simp
  then show ?thesis using assms by (simp add: check_remaining_def decoder_at_def)
qed

lemma peek_at: "peek (decoder_at pre post) i = read_at post i"
  by (simp add: peek_def decoder_at_def read_at_def nth_append)

lemma read_slice_at:
  "n = length mid \<Longrightarrow>
   read_slice (dec_data (decoder_at pre (mid @ post))) (dec_offset (decoder_at pre (mid @ post))) n = Inr mid"
  by (simp add: decoder_at_def)

section \<open>Little-endian words\<close>

lemma and_ff: "(w :: 'a :: len word) AND 0xFF = take_bit 8 w"
  by (simp add: take_bit_eq_mask mask_eq_exp_minus_1)

lemma le16: "(ucast (ucast (v AND 0xFF) :: u8) OR push_bit 8 (ucast (ucast (drop_bit 8 v AND 0xFF) :: u8))) = (v :: u16)"
  unfolding and_ff by (rule bit_word_eqI) (auto simp: bit_simps)

lemma le32:
  "(ucast (ucast (v AND 0xFF) :: u8) OR push_bit 8 (ucast (ucast (drop_bit 8 v AND 0xFF) :: u8))
    OR push_bit 16 (ucast (ucast (drop_bit 16 v AND 0xFF) :: u8))
    OR push_bit 24 (ucast (ucast (drop_bit 24 v AND 0xFF) :: u8))) = (v :: u32)"
proof (rule bit_word_eqI)
  fix n
  assume n: "n < LENGTH(32)"
  consider "n < 8" | "8 \<le> n" "n < 16" | "16 \<le> n" "n < 24" | "24 \<le> n" by linarith
  then show "bit (ucast (ucast (v AND 0xFF) :: u8) OR push_bit 8 (ucast (ucast (drop_bit 8 v AND 0xFF) :: u8))
    OR push_bit 16 (ucast (ucast (drop_bit 16 v AND 0xFF) :: u8))
    OR push_bit 24 (ucast (ucast (drop_bit 24 v AND 0xFF) :: u8)) :: u32) n = bit v n"
    unfolding and_ff using n by cases (auto simp: bit_simps)
qed

lemma take_bit_step:
  "k < 8 \<Longrightarrow> take_bit (k * 8) v OR push_bit (k * 8) (ucast (ucast (drop_bit (k * 8) v AND 0xFF) :: u8))
    = take_bit (Suc k * 8) (v :: u64)"
  unfolding and_ff by (rule bit_word_eqI) (auto simp: bit_simps)

definition le_at :: "scale_decoder \<Rightarrow> u64 \<Rightarrow> nat \<Rightarrow> bool" where
  "le_at d v n \<longleftrightarrow> (\<forall>i < n. peek d i = Inr (ucast (drop_bit (i * 8) v AND 0xFF)))"

lemma u64_loop_le:
  assumes "le_at d v n" and "n \<le> 8" and "k \<le> n"
  shows "u64_loop d [k..<n] (take_bit (k * 8) v) = Inr (take_bit (n * 8) v)"
  using assms
proof (induction "n - k" arbitrary: k)
  case 0
  then show ?case by simp
next
  case (Suc m)
  then have "k < n" by simp
  moreover from this have "u64_loop d [Suc k..<n] (take_bit (Suc k * 8) v) = Inr (take_bit (n * 8) v)"
    using Suc.prems Suc.hyps(2) by (intro Suc.hyps(1)) auto
  ultimately show ?case
    using Suc.prems take_bit_step [of k v]
    by (simp add: upt_conv_Cons le_at_def del: mult_Suc)
qed

lemma big_loop_le:
  assumes "le_at d v n" and "n \<le> 8" and "k \<le> n"
  shows "big_loop d [k..<n] (take_bit (k * 8) v) = Inr (take_bit (n * 8) v)"
  using assms
proof (induction "n - k" arbitrary: k)
  case 0
  then show ?case by simp
next
  case (Suc m)
  then have "k < n" by simp
  moreover from this have "big_loop d [Suc k..<n] (take_bit (Suc k * 8) v) = Inr (take_bit (n * 8) v)"
    using Suc.prems Suc.hyps(2) by (intro Suc.hyps(1)) auto
  ultimately show ?case
    using Suc.prems take_bit_step [of k v]
    by (simp add: upt_conv_Cons le_at_def del: mult_Suc)
qed

lemma u64_loop_8: "le_at d v 8 \<Longrightarrow> u64_loop d [0..<8] 0 = Inr v"
  using u64_loop_le [of d v 8 0] by (simp add: take_bit_word_eq_self)

lemma le_at_bytes:
  "n \<le> length bs \<Longrightarrow> (\<And>i. i < n \<Longrightarrow> bs ! i = ucast (drop_bit (i * 8) v AND 0xFF)) \<Longrightarrow>
   le_at (decoder_at pre bs) v n"
  by (auto simp: le_at_def peek_at)

lemma count_bytes_0 [simp]: "count_bytes 0 = 0"
  by (simp add: count_bytes.simps [of 0])

lemma count_bytes_bound: "unat v < 256 ^ n \<Longrightarrow> count_bytes v \<le> n"
proof (induction n arbitrary: v)
  case 0
  then show ?case by (simp add: unat_eq_0)
next
  case (Suc n)
  have "unat (drop_bit 8 v) = unat v div 256"
    by (simp add: unsigned_drop_bit_eq drop_bit_eq_div unat_div_distrib)
  with Suc have "count_bytes (drop_bit 8 v) \<le> n" by (intro Suc.IH) auto
  then show ?case by (simp add: count_bytes.simps [of v])
qed

lemma count_bytes_le_8: "count_bytes v \<le> 8"
  using unsigned_less [of v] by (intro count_bytes_bound) simp

lemma count_bytes_value: "unat v < 256 ^ count_bytes v"
proof (induction v rule: count_bytes.induct)
  case (1 v)
  show ?case
  proof (cases "0 < v")
    case True
    have "unat (drop_bit 8 v) = unat v div 256"
      by (simp add: unsigned_drop_bit_eq drop_bit_eq_div unat_div_distrib)
    with 1 [OF True] True show ?thesis
      by (simp add: count_bytes.simps [of v] div_less_iff_less_mult mult.commute)
  next
    case False
    then have "v = 0" by (simp add: word_gt_0)
    then show ?thesis by simp
  qed
qed

lemma bytes_needed_range: "4 \<le> bytes_needed v" "bytes_needed v \<le> 8"
  using count_bytes_le_8 by (auto simp: bytes_needed_def)

lemma bytes_needed_value: "take_bit (bytes_needed v * 8) v = v"
proof -
  have "unat v < 256 ^ bytes_needed v"
    using count_bytes_value [of v] power_increasing [of "count_bytes v" "bytes_needed v" "256 :: nat"]
    unfolding bytes_needed_def by linarith
  also have "(256 :: nat) ^ bytes_needed v = 2 ^ (bytes_needed v * 8)"
    using power_mult [of "2 :: nat" 8 "bytes_needed v"] by (simp add: mult.commute)
  finally show ?thesis
    by (simp add: word_eq_iff_unsigned [where 'a = nat] unsigned_take_bit_eq take_bit_nat_eq_self)
qed


section \<open>Compact integers\<close>

lemma and_03: "(w :: 'a :: len word) AND 0x03 = take_bit 2 w"
  by (simp add: take_bit_eq_mask mask_eq_exp_minus_1)

lemma three_mask: "(3 :: 'a :: len word) = mask 2"
  by (simp add: mask_eq_exp_minus_1)

lemma take_bit_of_less: "unat v < 2 ^ n \<Longrightarrow> take_bit n v = v"
  by (simp add: word_eq_iff_unsigned [where 'a = nat] unsigned_take_bit_eq take_bit_nat_eq_self)

lemma bit_above_take: "take_bit n v = v \<Longrightarrow> n \<le> k \<Longrightarrow> \<not> bit (v :: 'a :: len word) k"
  by (metis bit_take_bit_iff not_less)

lemma compact1_mode: "(ucast (push_bit 2 (v :: u64) OR 0) :: u8) AND 0x03 = 0"
  unfolding and_03 by (rule bit_word_eqI) (auto simp: bit_simps)

lemma compact1_value:
  assumes "take_bit 6 v = v"
  shows "ucast (drop_bit 2 (ucast (push_bit 2 (v :: u64) OR 0) :: u8)) = v"
  by (rule bit_word_eqI) (use bit_above_take [OF assms] in \<open>auto simp: bit_simps not_le [symmetric]\<close>)

lemma compact2_mode: "(ucast ((ucast (push_bit 2 (v :: u64) OR 1) :: u16) AND 0xFF) :: u8) AND 0x03 = 1"
  unfolding and_03 and_ff by (rule bit_word_eqI) (auto simp: bit_simps)

lemma compact2_value:
  assumes "take_bit 14 v = v"
  shows "ucast (drop_bit 2 (ucast (push_bit 2 (v :: u64) OR 1) :: u16)) = v"
  by (rule bit_word_eqI) (use bit_above_take [OF assms] in \<open>auto simp: bit_simps not_le [symmetric]\<close>)

lemma compact4_mode: "(ucast ((ucast (push_bit 2 (v :: u64) OR 2) :: u32) AND 0xFF) :: u8) AND 0x03 = 2"
  unfolding and_03 and_ff by (rule bit_word_eqI) (auto simp: bit_simps)

lemma compact4_value:
  assumes "take_bit 30 v = v"
  shows "ucast (drop_bit 2 (ucast (push_bit 2 (v :: u64) OR 2) :: u32)) = v"
  by (rule bit_word_eqI) (use bit_above_take [OF assms] in \<open>auto simp: bit_simps not_le [symmetric]\<close>)

lemma compact_big_mode: "(push_bit 2 (n :: u8) OR 3) AND 0x03 = 3"
  unfolding and_03 three_mask by (rule bit_word_eqI) (auto simp: bit_simps)

lemma compact_big_length:
  assumes "4 \<le> n" "n \<le> 8"
  shows "unat (drop_bit 2 (push_bit 2 (word_of_nat (n - 4)) OR 3 :: u8) + 4) = n"
proof -
  consider "n = 4" | "n = 5" | "n = 6" | "n = 7" | "n = 8" using assms by linarith
  then show ?thesis by cases simp_all
qed


section \<open>The contract\<close>

locale byte_codec =
  fixes enc :: "'a \<Rightarrow> bytes"
    and dec :: "scale_decoder \<Rightarrow> 'a decode"
    and ok :: "'a \<Rightarrow> bool"
  assumes dec_enc: "ok a \<Longrightarrow> length pre + length (enc a @ post) < 2 ^ 64 \<Longrightarrow>
    dec (decoder_at pre (enc a @ post)) = Inr (a, decoder_at (pre @ enc a) post)"
begin

lemma dec_whole: "ok a \<Longrightarrow> length (enc a) < 2 ^ 64 \<Longrightarrow>
    dec (new_decoder (enc a)) = Inr (a, decoder_at (enc a) [])"
  using dec_enc [of a "[]" "[]"] by (simp add: new_decoder_at)

lemma prefix_free:
  assumes "ok a" "ok b" "length (enc a @ s) < 2 ^ 64" and eq: "enc a @ s = enc b @ t"
  shows "a = b \<and> s = t"
proof -
  have l: "length (enc b @ t) < 2 ^ 64" using assms(3) unfolding eq .
  have "dec (decoder_at [] (enc a @ s)) = Inr (a, decoder_at (enc a) s)"
    using dec_enc [of a "[]" s] assms(1,3) by simp
  moreover have "dec (decoder_at [] (enc b @ t)) = Inr (b, decoder_at (enc b) t)"
    using dec_enc [of b "[]" t] assms(2) l by simp
  ultimately have "a = b" unfolding eq by simp
  then show ?thesis using eq by simp
qed

lemma enc_inj: "ok a \<Longrightarrow> ok b \<Longrightarrow> length (enc a) < 2 ^ 64 \<Longrightarrow> enc a = enc b \<Longrightarrow> a = b"
  using prefix_free [of a b "[]" "[]"] by simp

end

text \<open>Two fields in sequence.\<close>

definition seq_enc :: "('a \<Rightarrow> bytes) \<Rightarrow> ('b \<Rightarrow> bytes) \<Rightarrow> 'a \<times> 'b \<Rightarrow> bytes" where
  "seq_enc e1 e2 p = e1 (fst p) @ e2 (snd p)"

definition seq_dec :: "(scale_decoder \<Rightarrow> 'a decode) \<Rightarrow> (scale_decoder \<Rightarrow> 'b decode) \<Rightarrow>
    scale_decoder \<Rightarrow> ('a \<times> 'b) decode" where
  "seq_dec d1 d2 s = rbind (d1 s) (\<lambda>(a, s'). rbind (d2 s') (\<lambda>(b, s''). Inr ((a, b), s'')))"

locale byte_codec_pair = fst_codec: byte_codec enc1 dec1 ok1 + snd_codec: byte_codec enc2 dec2 ok2
  for enc1 :: "'a \<Rightarrow> bytes" and dec1 ok1 and enc2 :: "'b \<Rightarrow> bytes" and dec2 ok2

sublocale byte_codec_pair \<subseteq> both: byte_codec "seq_enc enc1 enc2" "seq_dec dec1 dec2"
  "\<lambda>(a, b). ok1 a \<and> ok2 b"
proof
  fix ab :: "'a \<times> 'b" and pre post :: bytes
  assume ok: "case ab of (a, b) \<Rightarrow> ok1 a \<and> ok2 b"
    and fits: "length pre + length (seq_enc enc1 enc2 ab @ post) < 2 ^ 64"
  obtain a b where ab: "ab = (a, b)" by (cases ab)
  show "seq_dec dec1 dec2 (decoder_at pre (seq_enc enc1 enc2 ab @ post)) =
      Inr (ab, decoder_at (pre @ seq_enc enc1 enc2 ab) post)"
    using ok fits fst_codec.dec_enc [of a pre "enc2 b @ post"]
      snd_codec.dec_enc [of b "pre @ enc1 a" post]
    by (simp add: ab seq_dec_def seq_enc_def)
qed

section \<open>The codecs of the code\<close>

lemma decode_u8_at:
  assumes "length pre + length (b # post) < 2 ^ 64"
  shows "decode_u8 (decoder_at pre (b # post)) = Inr (b, decoder_at (pre @ [b]) post)"
  using assms advance_at [of "[b]" pre post]
  by (simp add: decode_u8_def check_remaining_at peek_at)

interpretation u8_codec: byte_codec "\<lambda>b. [b]" decode_u8 "\<lambda>_. True"
  by unfold_locales (simp add: decode_u8_at)

interpretation bool_codec: byte_codec "\<lambda>b. [if b then 0x01 else 0x00]" decode_bool "\<lambda>_. True"
  by unfold_locales (simp add: decode_bool_def decode_u8_at)

lemma length_le_bytes [simp]:
  "length (u16_le_bytes x) = 2" "length (u32_le_bytes y) = 4" "length (u64_le_bytes z) = 8"
  by (simp_all add: u16_le_bytes_def u32_le_bytes_def u64_le_bytes_def)

interpretation u16_codec: byte_codec u16_le_bytes decode_u16_le "\<lambda>_. True"
proof
  fix v :: u16 and pre post :: bytes
  assume fits: "length pre + length (u16_le_bytes v @ post) < 2 ^ 64"
  then show "decode_u16_le (decoder_at pre (u16_le_bytes v @ post)) =
      Inr (v, decoder_at (pre @ u16_le_bytes v) post)"
    using advance_at_n [of 2 "u16_le_bytes v" pre post]
    by (simp add: decode_u16_le_def check_remaining_at peek_at)
       (simp add: u16_le_bytes_def le16)
qed

interpretation u32_codec: byte_codec u32_le_bytes decode_u32_le "\<lambda>_. True"
proof
  fix v :: u32 and pre post :: bytes
  assume fits: "length pre + length (u32_le_bytes v @ post) < 2 ^ 64"
  then show "decode_u32_le (decoder_at pre (u32_le_bytes v @ post)) =
      Inr (v, decoder_at (pre @ u32_le_bytes v) post)"
    using advance_at_n [of 4 "u32_le_bytes v" pre post]
    by (simp add: decode_u32_le_def check_remaining_at peek_at)
       (simp add: u32_le_bytes_def le32)
qed

lemma le_at_u64: "le_at (decoder_at pre (u64_le_bytes v @ post)) v 8"
  by (rule le_at_bytes) (auto simp: nth_append, simp add: u64_le_bytes_def)

interpretation u64_codec: byte_codec u64_le_bytes decode_u64_le "\<lambda>_. True"
proof
  fix v :: u64 and pre post :: bytes
  assume fits: "length pre + length (u64_le_bytes v @ post) < 2 ^ 64"
  then show "decode_u64_le (decoder_at pre (u64_le_bytes v @ post)) =
      Inr (v, decoder_at (pre @ u64_le_bytes v) post)"
    using advance_at_n [of 8 "u64_le_bytes v" pre post]
    by (simp add: decode_u64_le_def check_remaining_at u64_loop_8 [OF le_at_u64])
qed


lemma compact_bytes_length: "1 \<le> length (compact_bytes v)" "length (compact_bytes v) \<le> 9"
  using bytes_needed_range [of v] by (simp_all add: compact_bytes_def Let_def)

lemma decode_compact_small:
  assumes "length pre + length (compact_bytes v @ post) < 2 ^ 64" and "v \<le> 0x3F"
  shows "decode_compact (decoder_at pre (compact_bytes v @ post)) =
    Inr (v, decoder_at (pre @ compact_bytes v) post)"
proof -
  have v: "take_bit 6 v = v"
    using assms(2) by (intro take_bit_of_less) (simp add: word_le_nat_alt)
  have b: "compact_bytes v = [ucast (push_bit 2 v OR 0)]"
    using assms(2) by (simp add: compact_bytes_def)
  show ?thesis
    using assms(1) advance_at [of "[ucast (push_bit 2 v OR 0)]" pre post]
    unfolding b decode_compact_def
    by (simp only: check_remaining_at peek_at rbind_Inr length_append list.size
        append_Cons append_Nil read_at_in nth_Cons_0 Let_def compact1_mode compact1_value [OF v] if_True)
       (simp add: check_remaining_at compact1_mode [simplified])
qed


lemma decode_compact_mode1:
  assumes "length pre + length (b0 # b1 # post) < 2 ^ 64" and "b0 AND 0x03 = 1"
  shows "decode_compact (decoder_at pre (b0 # b1 # post)) =
    Inr (ucast (drop_bit 2 (ucast b0 OR push_bit 8 (ucast b1) :: u16)), decoder_at (pre @ [b0, b1]) post)"
  using assms advance_at_n [of 2 "[b0, b1]" pre post]
  by (simp add: decode_compact_def check_remaining_at peek_at Let_def)

lemma decode_compact_mode2:
  assumes "length pre + length (b0 # b1 # b2 # b3 # post) < 2 ^ 64" and "b0 AND 0x03 = 2"
  shows "decode_compact (decoder_at pre (b0 # b1 # b2 # b3 # post)) =
    Inr (ucast (drop_bit 2 (ucast b0 OR push_bit 8 (ucast b1) OR push_bit 16 (ucast b2)
      OR push_bit 24 (ucast b3) :: u32)), decoder_at (pre @ [b0, b1, b2, b3]) post)"
  using assms advance_at_n [of 4 "[b0, b1, b2, b3]" pre post]
  by (simp add: decode_compact_def check_remaining_at peek_at Let_def)

lemma decode_compact_mode3:
  assumes "length pre + length (b # bs @ post) < 2 ^ 64" and "b AND 0x03 = 3"
    and "unat (drop_bit 2 b + 4) = length bs" and "length bs \<le> 8"
    and "le_at (decoder_at (pre @ [b]) (bs @ post)) v (length bs)"
  shows "decode_compact (decoder_at pre (b # bs @ post)) =
    Inr (take_bit (length bs * 8) v, decoder_at (pre @ b # bs) post)"
proof -
  have "advance 1 (decoder_at pre (b # bs @ post)) = decoder_at (pre @ [b]) (bs @ post)"
    using advance_at [of "[b]" pre "bs @ post"] by simp
  moreover have "big_loop (decoder_at (pre @ [b]) (bs @ post)) [0..<length bs] 0 =
      Inr (take_bit (length bs * 8) v)"
    using big_loop_le [OF assms(5,4), of 0] by simp
  ultimately show ?thesis
    using assms(1-4) advance_at [of bs "pre @ [b]" post]
    unfolding decode_compact_def
    by (simp only: check_remaining_at peek_at rbind_Inr read_at_in nth_Cons_0 Let_def)
       (simp add: check_remaining_at)
qed

interpretation compact_codec: byte_codec compact_bytes decode_compact "\<lambda>_. True"
proof
  fix v :: u64 and pre post :: bytes
  assume fits: "length pre + length (compact_bytes v @ post) < 2 ^ 64"
  consider (one) "v \<le> 0x3F" | (two) "\<not> v \<le> 0x3F" "v \<le> 0x3FFF"
    | (four) "\<not> v \<le> 0x3F" "\<not> v \<le> 0x3FFF" "v \<le> 0x3FFFFFFF"
    | (big) "\<not> v \<le> 0x3F" "\<not> v \<le> 0x3FFF" "\<not> v \<le> 0x3FFFFFFF"
    by blast
  then show "decode_compact (decoder_at pre (compact_bytes v @ post)) =
      Inr (v, decoder_at (pre @ compact_bytes v) post)"
  proof cases
    case one
    then show ?thesis using decode_compact_small [OF fits] by simp
  next
    case two
    have v: "take_bit 14 v = v"
      using two by (intro take_bit_of_less) (simp add: word_le_nat_alt)
    define w where "w = (ucast (push_bit 2 v OR 1) :: u16)"
    have b: "compact_bytes v = [ucast (w AND 0xFF), ucast (drop_bit 8 w AND 0xFF)]"
      using two unfolding compact_bytes_def w_def by (simp add: Let_def)
    show ?thesis
      using fits decode_compact_mode1 [of pre "ucast (w AND 0xFF)" "ucast (drop_bit 8 w AND 0xFF)" post]
        compact2_mode [of v, folded w_def] compact2_value [OF v, folded w_def]
      unfolding b append_Cons append_Nil le16 by simp
  next
    case four
    have v: "take_bit 30 v = v"
      using four by (intro take_bit_of_less) (simp add: word_le_nat_alt)
    define w where "w = (ucast (push_bit 2 v OR 2) :: u32)"
    have b: "compact_bytes v = [ucast (w AND 0xFF), ucast (drop_bit 8 w AND 0xFF),
        ucast (drop_bit 16 w AND 0xFF), ucast (drop_bit 24 w AND 0xFF)]"
      using four unfolding compact_bytes_def w_def by (simp add: Let_def)
    show ?thesis
      using fits decode_compact_mode2 [of pre "ucast (w AND 0xFF)" "ucast (drop_bit 8 w AND 0xFF)"
          "ucast (drop_bit 16 w AND 0xFF)" "ucast (drop_bit 24 w AND 0xFF)" post]
        compact4_mode [of v, folded w_def] compact4_value [OF v, folded w_def]
      unfolding b append_Cons append_Nil le32 by simp
  next
    case big
    define n where "n = bytes_needed v"
    define bs where "bs = map (\<lambda>i. ucast (drop_bit (i * 8) v AND 0xFF) :: u8) [0..<n]"
    define b where "b = (push_bit 2 (word_of_nat (n - 4)) OR 3 :: u8)"
    have c: "compact_bytes v = b # bs"
      using big unfolding compact_bytes_def bs_def b_def n_def by (simp add: Let_def)
    have n: "length bs = n" "4 \<le> n" "n \<le> 8"
      using bytes_needed_range [of v] by (simp_all add: bs_def n_def)
    have "le_at (decoder_at (pre @ [b]) (bs @ post)) v n"
      by (rule le_at_bytes) (auto simp: nth_append bs_def)
    then show ?thesis
      using fits decode_compact_mode3 [of pre b bs post v] n compact_big_mode [of "word_of_nat (n - 4)"]
        compact_big_length [of n] bytes_needed_value [of v, folded n_def]
      unfolding c by (simp add: b_def)
  qed
qed


section \<open>Length-prefixed data and balances\<close>

definition bytes_enc :: "bytes \<Rightarrow> bytes" where
  "bytes_enc bs = compact_bytes (word_of_nat (length bs)) @ bs"

definition string_enc :: "string \<Rightarrow> bytes" where
  "string_enc s = bytes_enc (map byte_of_char s)"

definition u128_le_bytes :: "u128 \<Rightarrow> bytes" where
  "u128_le_bytes u = u64_le_bytes (u128_lo u) @ u64_le_bytes (u128_hi u)"

lemma decode_raw_at:
  assumes "length pre + length (mid @ post) < 2 ^ 64" and "n = length mid"
  shows "decode_raw n (decoder_at pre (mid @ post)) = Inr (mid, decoder_at (pre @ mid) post)"
  using assms read_slice_at [of n mid pre post] advance_at_n [of n mid pre post]
  by (simp add: decode_raw_def check_remaining_at)

lemma unat_length: "length xs < 2 ^ 64 \<Longrightarrow> unat (word_of_nat (length xs) :: u64) = length xs"
  by (simp add: unat_of_nat take_bit_nat_eq_self)

interpretation bytes_codec: byte_codec bytes_enc decode_bytes "\<lambda>bs. length bs < 2 ^ 64"
proof
  fix bs pre post :: bytes
  assume "length bs < 2 ^ 64" and "length pre + length (bytes_enc bs @ post) < 2 ^ 64"
  then show "decode_bytes (decoder_at pre (bytes_enc bs @ post)) =
      Inr (bs, decoder_at (pre @ bytes_enc bs) post)"
    using compact_codec.dec_enc [where a = "word_of_nat (length bs)" and pre = pre and post = "bs @ post"]
      decode_raw_at [of "pre @ compact_bytes (word_of_nat (length bs))" bs post "length bs"]
    by (simp add: decode_bytes_def bytes_enc_def unat_length)
qed

interpretation string_codec: byte_codec string_enc decode_string "\<lambda>s. length s < 2 ^ 64"
  by unfold_locales
    (use bytes_codec.dec_enc in \<open>simp add: decode_string_def string_enc_def o_def\<close>)

interpretation u128_codec: byte_codec u128_le_bytes decode_u128_le "\<lambda>_. True"
proof
  fix u :: u128 and pre post :: bytes
  assume fits: "length pre + length (u128_le_bytes u @ post) < 2 ^ 64"
  have hi: "advance 8 (decoder_at pre (u128_le_bytes u @ post)) =
      decoder_at (pre @ u64_le_bytes (u128_lo u)) (u64_le_bytes (u128_hi u) @ post)"
    using advance_at_n [of 8 "u64_le_bytes (u128_lo u)"] by (simp add: u128_le_bytes_def)
  have lo: "u64_loop (decoder_at pre (u128_le_bytes u @ post)) [0..<8] 0 = Inr (u128_lo u)"
    using u64_loop_8 [OF le_at_u64 [of pre "u128_lo u" "u64_le_bytes (u128_hi u) @ post"]]
    by (simp add: u128_le_bytes_def)
  show "decode_u128_le (decoder_at pre (u128_le_bytes u @ post)) =
      Inr (u, decoder_at (pre @ u128_le_bytes u) post)"
    using fits advance_at_n [of 16 "u128_le_bytes u" pre post]
    by (simp add: decode_u128_le_def check_remaining_at lo hi u64_loop_8 [OF le_at_u64])
       (simp add: u128_le_bytes_def check_remaining_at)
qed

lemma encode_u128_le_eq: "encode_u128_le (u128_le_bytes u) e = Inr (push_bytes (u128_le_bytes u) e)"
proof -
  have "length (u128_le_bytes u) = 16" by (simp add: u128_le_bytes_def)
  then show ?thesis by (simp add: encode_u128_le_def read_slice_def)
qed


section \<open>The order of balances\<close>

lemma u128_less_value: "u128_less a b \<longleftrightarrow> u128_value a < u128_value b"
proof -
  have l: "unat (u128_lo a) < 2 ^ 64" "unat (u128_lo b) < 2 ^ 64"
    using unsigned_less [of "u128_lo a"] unsigned_less [of "u128_lo b"] by simp_all
  have lt: "x * M + p < y * M + q" if "x < y" "p < M" for x y p q M :: nat
  proof -
    have "Suc x * M \<le> y * M" using that(1) by (intro mult_le_mono1) simp
    then show ?thesis using that(2) by simp
  qed
  show ?thesis
    using l lt [of "unat (u128_hi a)" "unat (u128_hi b)" "unat (u128_lo a)" "2 ^ 64" "unat (u128_lo b)"]
      lt [of "unat (u128_hi b)" "unat (u128_hi a)" "unat (u128_lo b)" "2 ^ 64" "unat (u128_lo a)"]
    by (cases "unat (u128_hi a)" "unat (u128_hi b)" rule: linorder_cases)
      (auto simp: u128_less_def u128_value_def word_less_nat_alt word_eq_iff_unsigned [where 'a = nat])
qed

lemma u128_value_inj: "u128_value a = u128_value b \<longleftrightarrow> a = b"
proof -
  have "\<not> u128_less a b \<Longrightarrow> \<not> u128_less b a \<Longrightarrow> a = b"
    by (cases a; cases b) (auto simp: u128_less_def split: if_splits)
  then show ?thesis using u128_less_value by (metis less_irrefl)
qed

instantiation u128 :: linorder
begin

definition less_u128_def: "a < b \<longleftrightarrow> u128_less a b"
definition less_eq_u128_def: "a \<le> (b :: u128) \<longleftrightarrow> \<not> u128_less b a"

instance
  by standard
    (auto simp: less_u128_def less_eq_u128_def u128_less_value u128_value_inj not_less
      simp flip: u128_value_inj)

end

end
