(* ===== verification/ScaleProps.thy ===== *)
theory ScaleProps
  imports ScaleLaws
begin

text \<open>
  What the SCALE codec guarantees and where it does not hold: round trip of whole messages, the
  meaning of a mortal era, the two reads past the input that \<open>check_remaining\<close> lets through, and
  what \<open>u128::to_decimal\<close> prints.
\<close>

section \<open>Messages\<close>

text \<open>A message is a list of fields, written by the encoder's operations in order.\<close>

datatype field =
    F_compact u64 | F_u8 u8 | F_u16 u16 | F_u32 u32 | F_u64 u64 | F_u128 u128
  | F_bool bool | F_bytes bytes | F_string string

fun encode_field :: "field \<Rightarrow> scale_encoder \<Rightarrow> scale_encoder result" where
  "encode_field (F_compact v) e = Inr (encode_compact v e)"
| "encode_field (F_u8 v) e = Inr (encode_u8 v e)"
| "encode_field (F_u16 v) e = Inr (encode_u16_le v e)"
| "encode_field (F_u32 v) e = Inr (encode_u32_le v e)"
| "encode_field (F_u64 v) e = Inr (encode_u64_le v e)"
| "encode_field (F_u128 v) e = encode_u128_le (u128_le_bytes v) e"
| "encode_field (F_bool v) e = Inr (encode_bool v e)"
| "encode_field (F_bytes v) e = Inr (encode_bytes v e)"
| "encode_field (F_string v) e = Inr (encode_string v e)"

fun encode_fields :: "field list \<Rightarrow> scale_encoder \<Rightarrow> scale_encoder result" where
  "encode_fields [] e = Inr e"
| "encode_fields (f # fs) e = rbind (encode_field f e) (encode_fields fs)"

text \<open>The decoder reads the field of the kind it expects.\<close>

definition as_field :: "('a \<Rightarrow> field) \<Rightarrow> 'a decode \<Rightarrow> field decode" where
  "as_field c r = rbind r (\<lambda>(a, d). Inr (c a, d))"

fun decode_field :: "field \<Rightarrow> scale_decoder \<Rightarrow> field decode" where
  "decode_field (F_compact _) d = as_field F_compact (decode_compact d)"
| "decode_field (F_u8 _) d = as_field F_u8 (decode_u8 d)"
| "decode_field (F_u16 _) d = as_field F_u16 (decode_u16_le d)"
| "decode_field (F_u32 _) d = as_field F_u32 (decode_u32_le d)"
| "decode_field (F_u64 _) d = as_field F_u64 (decode_u64_le d)"
| "decode_field (F_u128 _) d = as_field F_u128 (decode_u128_le d)"
| "decode_field (F_bool _) d = as_field F_bool (decode_bool d)"
| "decode_field (F_bytes _) d = as_field F_bytes (decode_bytes d)"
| "decode_field (F_string _) d = as_field F_string (decode_string d)"

fun decode_fields :: "field list \<Rightarrow> scale_decoder \<Rightarrow> (field list) decode" where
  "decode_fields [] d = Inr ([], d)"
| "decode_fields (f # fs) d =
     rbind (decode_field f d) (\<lambda>(g, d'). rbind (decode_fields fs d') (\<lambda>(gs, d''). Inr (g # gs, d'')))"

fun kind_of :: "field \<Rightarrow> field" where
  "kind_of (F_compact _) = F_compact 0"
| "kind_of (F_u8 _) = F_u8 0"
| "kind_of (F_u16 _) = F_u16 0"
| "kind_of (F_u32 _) = F_u32 0"
| "kind_of (F_u64 _) = F_u64 0"
| "kind_of (F_u128 _) = F_u128 (U128 0 0)"
| "kind_of (F_bool _) = F_bool False"
| "kind_of (F_bytes _) = F_bytes []"
| "kind_of (F_string _) = F_string []"

fun field_bytes :: "field \<Rightarrow> bytes" where
  "field_bytes (F_compact v) = compact_bytes v"
| "field_bytes (F_u8 v) = [v]"
| "field_bytes (F_u16 v) = u16_le_bytes v"
| "field_bytes (F_u32 v) = u32_le_bytes v"
| "field_bytes (F_u64 v) = u64_le_bytes v"
| "field_bytes (F_u128 v) = u128_le_bytes v"
| "field_bytes (F_bool v) = [if v then 0x01 else 0x00]"
| "field_bytes (F_bytes v) = bytes_enc v"
| "field_bytes (F_string v) = string_enc v"

lemma push_bytes_append: "push_bytes b (push_bytes a e) = push_bytes (a @ b) e"
  by (simp add: push_bytes_def)

lemma encode_field_eq: "encode_field f e = Inr (push_bytes (field_bytes f) e)"
  by (cases f)
    (simp_all add: encode_compact_def encode_u8_def encode_u16_le_def encode_u32_le_def
      encode_u64_le_def encode_u128_le_eq encode_bool_def encode_bytes_def encode_string_def
      bytes_enc_def string_enc_def push_bytes_append u64_le_bytes_def)

lemma encode_fields_eq: "encode_fields fs e = Inr (push_bytes (concat (map field_bytes fs)) e)"
  by (induction fs arbitrary: e) (simp_all add: encode_field_eq push_bytes_append, simp add: push_bytes_def)

lemma decode_field_kind [simp]: "decode_field (kind_of f) = decode_field f"
  by (cases f) (simp_all add: fun_eq_iff)

lemma decode_field_at:
  assumes fits: "length pre + length (field_bytes f @ post) < 2 ^ 64"
  shows "decode_field f (decoder_at pre (field_bytes f @ post)) =
    Inr (f, decoder_at (pre @ field_bytes f) post)"
proof (cases f)
  case (F_bytes bs)
  then show ?thesis
    using fits bytes_codec.dec_enc [of bs pre post] by (simp add: as_field_def bytes_enc_def)
next
  case (F_string s)
  then show ?thesis
    using fits string_codec.dec_enc [of s pre post]
    by (simp add: as_field_def string_enc_def bytes_enc_def)
qed (use fits compact_codec.dec_enc u8_codec.dec_enc u16_codec.dec_enc u32_codec.dec_enc
      u64_codec.dec_enc u128_codec.dec_enc bool_codec.dec_enc in \<open>simp_all add: as_field_def\<close>)

lemma decode_fields_at:
  assumes "length pre + length (concat (map field_bytes fs) @ post) < 2 ^ 64"
  shows "decode_fields (map kind_of fs) (decoder_at pre (concat (map field_bytes fs) @ post)) =
    Inr (fs, decoder_at (pre @ concat (map field_bytes fs)) post)"
  using assms
proof (induction fs arbitrary: pre)
  case Nil
  then show ?case by simp
next
  case (Cons f fs)
  then show ?case
    using decode_field_at [of pre f "concat (map field_bytes fs) @ post"]
      Cons.IH [of "pre @ field_bytes f"] by simp
qed

text \<open>
  C11: SCALE round trip of a message. Whatever sequence of fields the encoder appends to an empty
  buffer (compact integers of every mode, fixed-width integers, 128-bit balances, booleans,
  byte strings and strings), a decoder that reads the same kinds of field in the same order
  returns exactly those values and is left at the end of the data.
\<close>

theorem scale_message_roundtrip:
  assumes "encode_fields fs new_encoder = Inr e" and "length (buffer e) < 2 ^ 64"
  shows "\<exists>d. decode_fields (map kind_of fs) (new_decoder (buffer e)) = Inr (fs, d) \<and>
    dec_offset d = length (buffer e) \<and> decoder_is_empty d"
proof -
  have "buffer e = concat (map field_bytes fs)"
    using assms(1) by (auto simp: encode_fields_eq push_bytes_def new_encoder_def)
  then show ?thesis
    using assms(2) decode_fields_at [of "[]" fs "[]"]
    by (auto simp: new_decoder_at decoder_is_empty_def decoder_at_def)
qed

theorem scale_message_roundtrip_witness:
  "\<exists>d. decode_fields [F_compact 0, F_string [], F_u128 (U128 0 0)]
      (new_decoder [0xFD, 0xFF, 0x08, 0x68, 0x69, 1, 0, 0, 0, 0, 0, 0, 0, 2, 0, 0, 0, 0, 0, 0, 0]) =
      Inr ([F_compact 0x3FFF, F_string ''hi'', F_u128 (U128 1 2)], d) \<and>
      dec_offset d = 21 \<and> decoder_is_empty d"
proof -
  have e: "encode_fields [F_compact 0x3FFF, F_string ''hi'', F_u128 (U128 1 2)] new_encoder =
      Inr \<lparr>buffer = [0xFD, 0xFF, 0x08, 0x68, 0x69, 1, 0, 0, 0, 0, 0, 0, 0, 2, 0, 0, 0, 0, 0, 0, 0]\<rparr>"
    by code_simp
  have n: "length [0xFD, 0xFF, 0x08, 0x68, 0x69, 1, 0, 0, 0, 0, 0, 0, 0, 2, 0, 0, 0, 0, 0, 0, 0 :: u8] = 21"
    by simp
  show ?thesis
    using scale_message_roundtrip [OF e] unfolding scale_encoder.select_convs n list.map kind_of.simps
    by simp
qed


section \<open>Reads past the input\<close>

lemma peek_Inl: "peek d i = Inl e \<Longrightarrow> e = Undefined_behaviour"
  by (auto simp: peek_def read_at_def split: if_splits)

lemma big_loop_undefined:
  "i \<in> set is \<Longrightarrow> peek d i = Inl Undefined_behaviour \<Longrightarrow> big_loop d is lo = Inl Undefined_behaviour"
proof (induction "is" arbitrary: lo)
  case Nil
  then show ?case by simp
next
  case (Cons j js)
  then show ?case
  proof (cases "peek d j")
    case (Inl e)
    then show ?thesis using peek_Inl [OF Inl] by simp
  next
    case (Inr b)
    then show ?thesis using Cons by auto
  qed
qed

text \<open>
  the big-integer mode of \<^verbatim>\<open>decode_compact\<close> checks for one byte too few: the check runs before the
  prefix byte is skipped and does not count it. An input whose only fault is that its last byte
  is missing passes the check and is read past its end, where the code means to throw
  "insufficient data". (Up to 16 value bytes, which is what the loop reads.)
\<close>

theorem decode_compact_big_overread:
  assumes "b AND 0x03 = 3" and "unat (drop_bit 2 b + 4) = n" and "n \<le> 16"
    and "length bs = n - 1"
  shows "decode_compact (new_decoder (b # bs)) = Inl Undefined_behaviour"
proof -
  have n: "0 < n" "n - 1 \<in> set [0..<min n 16]"
  proof -
    have "drop_bit 2 b + 4 \<noteq> 0"
    proof
      assume z: "drop_bit 2 b + 4 = 0"
      have "unat (drop_bit 2 b) < 64"
      proof -
        have "unat b div 4 < 64" using unat_byte_less [of b] by linarith
        then show ?thesis by (simp add: unsigned_drop_bit_eq drop_bit_eq_div unat_div_distrib)
      qed
      then have "unat (drop_bit 2 b + 4) = unat (drop_bit 2 b) + 4"
        by (subst unat_add_lem [THEN iffD1]) simp_all
      with z show False by simp
    qed
    then show "0 < n" using assms(2) by (metis gr_zeroI unat_eq_0)
    then show "n - 1 \<in> set [0..<min n 16]" using assms(3) by simp
  qed
  have c: "check_remaining (new_decoder (b # bs)) n = Inr ()"
    "check_remaining (new_decoder (b # bs)) 1 = Inr ()"
    using assms(3,4) n(1) by (simp_all add: check_remaining_def new_decoder_def)
  have p: "peek (new_decoder (b # bs)) 0 = Inr b" by (simp add: peek_def new_decoder_def)
  have "peek (advance 1 (new_decoder (b # bs))) (n - 1) = Inl Undefined_behaviour"
    using assms(4) by (simp add: peek_def advance_def new_decoder_def)
  then have "big_loop (advance 1 (new_decoder (b # bs))) [0..<min n 16] 0 = Inl Undefined_behaviour"
    using big_loop_undefined n(2) by blast
  then show ?thesis
    using assms(1,2) by (simp add: decode_compact_def c p Let_def del: One_nat_def)
qed

theorem decode_compact_big_overread_witness:
  "decode_compact (new_decoder [0x03, 0x00, 0x00, 0x00]) = Inl Undefined_behaviour"
  by (rule decode_compact_big_overread [where n = 4]) simp_all

text \<open>
  \<^verbatim>\<open>check_remaining\<close> adds in \<^verbatim>\<open>size_t\<close>, so a length close to \<open>2 ^ 64\<close> wraps around and passes.
  Nine bytes of compact prefix announcing at least \<open>2 ^ 64 - 9\<close> bytes make \<^verbatim>\<open>decode_bytes\<close> form a
  range outside the data instead of throwing, whatever follows the prefix.
\<close>

theorem decode_bytes_length_wraps:
  assumes "2 ^ 64 - 9 \<le> unat len" and "length rest < 2 ^ 63"
  shows "decode_bytes (new_decoder (compact_bytes len @ rest)) = Inl Undefined_behaviour"
proof -
  have "\<not> unat len < 256 ^ 7" using assms(1) by simp
  then have "\<not> count_bytes len \<le> 7"
    using count_bytes_value [of len] power_increasing [of "count_bytes len" 7 "256 :: nat"] by fastforce
  then have "bytes_needed len = 8"
    using bytes_needed_range [of len] by (simp add: bytes_needed_def)
  moreover have "\<not> len \<le> 0x3FFFFFFF" "\<not> len \<le> 0x3FFF" "\<not> len \<le> 0x3F"
    using assms(1) by (auto simp: word_le_nat_alt)
  ultimately have l: "length (compact_bytes len) = 9"
    by (simp add: compact_bytes_def Let_def)
  have "decode_compact (decoder_at [] (compact_bytes len @ rest)) =
      Inr (len, decoder_at (compact_bytes len) rest)"
    using compact_codec.dec_enc [where a = len and pre = "[]" and post = rest] assms(2) l by simp
  moreover have "decode_raw (unat len) (decoder_at (compact_bytes len) rest) = Inl Undefined_behaviour"
  proof -
    have "unat len < 2 ^ 64" using unsigned_less [of len] by simp
    then have "(9 + unat len) mod 2 ^ 64 \<le> 8"
      using assms(1) by (simp add: le_mod_geq)
    then show ?thesis
      using assms l by (simp add: decode_raw_def check_remaining_def decoder_at_def read_slice_def)
  qed
  ultimately show ?thesis by (simp add: decode_bytes_def new_decoder_at)
qed

theorem decode_bytes_length_wraps_witness:
  "decode_bytes (new_decoder [0x13, 0xF7, 0xFF, 0xFF, 0xFF, 0xFF, 0xFF, 0xFF, 0xFF]) =
    Inl Undefined_behaviour"
proof -
  have "compact_bytes 0xFFFFFFFFFFFFFFF7 = [0x13, 0xF7, 0xFF, 0xFF, 0xFF, 0xFF, 0xFF, 0xFF, 0xFF]"
    by code_simp
  then show ?thesis using decode_bytes_length_wraps [where len = "0xFFFFFFFFFFFFFFF7" and rest = "[]"] by simp
qed


section \<open>Mortal eras\<close>

lemma era_period_power:
  "\<exists>k. 2 \<le> k \<and> k \<le> 16 \<and> era_period period = 2 ^ k \<and>
     max 4 (min 65536 (unat period)) \<le> 2 ^ k \<and> 2 ^ k < 2 * max 4 (min 65536 (unat period))"
proof -
  define c :: u64 where "c = max 4 (min 65536 period)"
  have c: "unat c = max 4 (min 65536 (unat period))"
    by (simp add: c_def max_def min_def word_le_nat_alt)
  define P where "P p \<longleftrightarrow> (\<exists>k. 2 \<le> k \<and> k \<le> 16 \<and> p = 2 ^ k \<and> 2 ^ k < 2 * unat c)" for p :: u64
  have pow: "unat (2 ^ k :: u64) = 2 ^ k" if "k \<le> 16" for k
  proof -
    have "(2 :: nat) ^ k \<le> 2 ^ 16" using that by (intro power_increasing) simp_all
    then have "unat (word_of_nat (2 ^ k) :: u64) = 2 ^ k"
      by (subst unat_of_nat) (simp add: take_bit_nat_eq_self)
    then show ?thesis by simp
  qed
  have "P (while (\<lambda>p. p < c) (\<lambda>p. push_bit 1 p) 4) \<and> \<not> while (\<lambda>p. p < c) (\<lambda>p. push_bit 1 p) 4 < c"
  proof (rule while_rule [where P = P and r = "measure (\<lambda>p. unat c - unat p)"])
    show "P 4" unfolding P_def using c by (intro exI [of _ 2]) simp
  next
    fix p assume "P p" "p < c"
    then obtain k where k: "2 \<le> k" "k \<le> 16" "p = 2 ^ k" "2 ^ k < unat c"
      by (auto simp: P_def word_less_nat_alt pow)
    have "(2 :: nat) ^ k < 2 ^ 16" using k(4) c by simp
    then have "k < 16" using power_less_imp_less_exp [of "2 :: nat" k 16] by simp
    then show "P (push_bit 1 p)"
      unfolding P_def using k by (intro exI [of _ "Suc k"]) (simp add: push_bit_eq_mult)
  next
    fix p assume "P p" "\<not> p < c"
    then show "P p \<and> \<not> p < c" by simp
  next
    fix p assume "P p" "p < c"
    then obtain k where k: "2 \<le> k" "k \<le> 16" "p = 2 ^ k" "2 ^ k < unat c"
      by (auto simp: P_def word_less_nat_alt pow)
    have "(2 :: nat) ^ k < 2 ^ 16" using k(4) c by simp
    then have "Suc k \<le> 16" using power_less_imp_less_exp [of "2 :: nat" k 16] by simp
    then show "(push_bit 1 p, p) \<in> measure (\<lambda>p. unat c - unat p)"
      using k pow [of k] pow [of "Suc k"] diff_less_mono2 [of "2 ^ k" "2 * 2 ^ k" "unat c"]
      by (simp add: push_bit_eq_mult mult.commute)
  qed simp
  then obtain k where k: "2 \<le> k" "k \<le> 16" "era_period period = 2 ^ k" "2 ^ k < 2 * unat c"
    "\<not> era_period period < c"
    by (auto simp: era_period_def P_def Let_def c_def)
  then have "unat c \<le> 2 ^ k" using pow [of k] by (simp add: word_less_nat_alt)
  with k c show ?thesis by auto
qed

lemma era_log2_power: "2 \<le> k \<Longrightarrow> k \<le> 16 \<Longrightarrow> era_log2 (2 ^ k) = k"
proof -
  have "\<forall>k \<in> set [2..<17]. era_log2 (2 ^ k) = k" by code_simp
  moreover have "2 \<le> k \<Longrightarrow> k \<le> 16 \<Longrightarrow> k \<in> set [2..<17]"
    by (simp only: set_upt atLeastLessThan_iff) simp
  ultimately show "2 \<le> k \<Longrightarrow> k \<le> 16 \<Longrightarrow> era_log2 (2 ^ k) = k" by blast
qed


lemma era_fields:
  assumes "unat nibble < 16" and "unat phase < 4096"
  shows "unat ((ucast (nibble :: u8) OR push_bit 4 phase :: u16) AND 15) = unat nibble"
    and "drop_bit 4 (ucast (nibble :: u8) OR push_bit 4 phase :: u16) = phase"
proof -
  have n: "take_bit 4 nibble = nibble" and p: "take_bit 12 phase = phase"
    using assms by (auto intro: take_bit_of_less)
  have m: "w AND 15 = take_bit 4 w" for w :: u16
    by (simp add: take_bit_eq_mask mask_eq_exp_minus_1)
  have "(ucast nibble OR push_bit 4 phase :: u16) AND 15 = ucast nibble"
    unfolding m by (rule bit_word_eqI) (use bit_above_take [OF n] in \<open>auto simp: bit_simps not_le [symmetric]\<close>)
  then show "unat ((ucast nibble OR push_bit 4 phase :: u16) AND 15) = unat nibble"
    using assms(1) by (simp add: unsigned_ucast_eq take_bit_nat_eq_self)
  show "drop_bit 4 (ucast nibble OR push_bit 4 phase :: u16) = phase"
    by (rule bit_word_eqI)
      (use bit_above_take [OF n] bit_above_take [OF p] in \<open>auto simp: bit_simps not_le [symmetric]\<close>)
qed

text \<open>How a Substrate node reads the two bytes of a mortal era.\<close>

definition era_read_period :: "u16 \<Rightarrow> nat" where
  "era_read_period w = 2 ^ (unat (w AND 15) + 1)"

definition era_read_quantum :: "u16 \<Rightarrow> nat" where
  "era_read_quantum w = max 1 (era_read_period w div 4096)"

definition era_read_phase :: "u16 \<Rightarrow> nat" where
  "era_read_phase w = unat (drop_bit 4 w) * era_read_quantum w"

lemma quantum_covers:
  fixes k :: nat
  shows "2 ^ k \<le> 4096 * max 1 ((2 :: nat) ^ k div 4096)"
proof (cases "k \<le> 12")
  case True
  then have "(2 :: nat) ^ k \<le> 2 ^ 12" by (intro power_increasing) simp_all
  then show ?thesis by simp
next
  case False
  then have "(2 :: nat) ^ k = 4096 * 2 ^ (k - 12)"
    using power_add [of "2 :: nat" 12 "k - 12"] by simp
  then show ?thesis by simp
qed

lemma era_word_fields:
  assumes "2 \<le> k" "k \<le> 16" "era_period period = 2 ^ k"
  defines "q \<equiv> max 1 ((2 :: nat) ^ k div 4096)"
  shows "era_read_period (era_mortal_word current_block period) = 2 ^ k"
    and "unat (drop_bit 4 (era_mortal_word current_block period)) = unat current_block mod 2 ^ k div q"
proof -
  have "(2 :: nat) ^ k \<le> 2 ^ 16" using assms by (intro power_increasing) simp_all
  then have "unat (word_of_nat (2 ^ k) :: u64) = 2 ^ k"
    by (subst unat_of_nat) (simp add: take_bit_nat_eq_self)
  then have pk: "unat (2 ^ k :: u64) = 2 ^ k" by simp
  have uq: "unat (max 1 (2 ^ k div 4096) :: u64) = q"
    by (simp add: q_def max_def word_le_nat_alt unat_div_distrib pk)
  define ph :: u64 where "ph = current_block mod 2 ^ k div max 1 (2 ^ k div 4096)"
  have uph: "unat ph = unat current_block mod 2 ^ k div q"
    unfolding ph_def by (simp only: unat_div_distrib unat_mod_distrib uq pk)
  have "unat current_block mod 2 ^ k < 2 ^ k" by simp
  then have "unat current_block mod 2 ^ k < 4096 * q"
    using quantum_covers [of k, folded q_def] by (rule less_le_trans)
  then have lt: "unat ph < 4096" unfolding uph by (rule less_mult_imp_div_less)
  define nib :: u8 where "nib = min 15 (word_of_nat (k - 1))"
  have un: "unat nib = k - 1"
  proof -
    have "unat (word_of_nat j :: u8) = j" if "j \<le> 15" for j
      using that by (simp add: unat_of_nat take_bit_nat_eq_self)
    from this [of "k - 1"] have "unat (word_of_nat (k - 1) :: u8) = k - 1" using assms(2) by simp
    moreover have "unat (15 :: u8) = 15" "k - 1 \<le> 15" using assms(2) by simp_all
    ultimately show ?thesis unfolding nib_def min_def word_le_nat_alt by (simp only:) simp
  qed
  define p16 :: u16 where "p16 = ucast (min ph 0x0FFF)"
  have up: "unat p16 = unat ph"
    using lt by (simp add: p16_def min_def word_le_nat_alt unsigned_ucast_eq take_bit_nat_eq_self)
  have w: "era_mortal_word current_block period = ucast nib OR push_bit 4 p16"
    unfolding era_mortal_word_def Let_def assms(3) era_log2_power [OF assms(1,2)]
      nib_def p16_def ph_def by simp
  have "unat nib < 16" "unat p16 < 4096" using un up lt assms(2) by simp_all
  from era_fields [OF this]
  show "era_read_period (era_mortal_word current_block period) = 2 ^ k"
    and "unat (drop_bit 4 (era_mortal_word current_block period)) = unat current_block mod 2 ^ k div q"
    unfolding w era_read_period_def up uph [symmetric] un using assms(1) by (simp_all add: up)
qed

text \<open>
  A mortal era says what the caller asked for. Read back the way a node reads it, the two bytes
  of \<^verbatim>\<open>encode_era_mortal\<close> give a power-of-two period that is at least the requested one (clamped to
  4..65536) and less than twice it, and a phase that is the current block's position in that
  period, rounded down to the era's quantum. The clamps of the code never change the result.
\<close>

theorem era_mortal_meaning:
  fixes current_block period :: u64
  defines "w \<equiv> era_mortal_word current_block period"
  shows "max 4 (min 65536 (unat period)) \<le> era_read_period w \<and>
    era_read_period w < 2 * max 4 (min 65536 (unat period)) \<and>
    era_read_phase w \<le> unat current_block mod era_read_period w \<and>
    unat current_block mod era_read_period w < era_read_phase w + era_read_quantum w"
proof -
  obtain k where k: "2 \<le> k" "k \<le> 16" "era_period period = 2 ^ k"
    "max 4 (min 65536 (unat period)) \<le> 2 ^ k" "2 ^ k < 2 * max 4 (min 65536 (unat period))"
    using era_period_power by blast
  note f = era_word_fields [OF k(1-3), of current_block, folded w_def]
  have q: "0 < max 1 ((2 :: nat) ^ k div 4096)" by simp
  have "x div q * q \<le> x \<and> x < x div q * q + q" if "0 < q" for x q :: nat
    using that by (metis div_times_less_eq_dividend add.commute dividend_less_div_times)
  from this [OF q] show ?thesis
    using k(4,5) unfolding era_read_phase_def era_read_quantum_def f by blast
qed


section \<open>Printing a balance\<close>

lemma pad_reversed_prefix:
  assumes "length s \<le> n" and "k \<le> length s"
  shows "fold (\<lambda>i padded. padded[n - length s + i := s ! (length s - 1 - i)]) [0..<k] (replicate n z) =
    replicate (n - length s) z @ take k (rev s) @ replicate (length s - k) z"
  using assms(2)
proof (induction k)
  case 0
  then show ?case using assms(1) by (simp flip: replicate_add)
next
  case (Suc k)
  then have k: "k < length s" "length s - k = Suc (length s - Suc k)" by simp_all
  have "fold (\<lambda>i padded. padded[n - length s + i := s ! (length s - 1 - i)]) [0..<Suc k] (replicate n z) =
      (replicate (n - length s) z @ take k (rev s) @ replicate (length s - k) z)
        [n - length s + k := s ! (length s - 1 - k)]"
    using Suc by simp
  also have "\<dots> = replicate (n - length s) z @ take k (rev s) @ (s ! (length s - 1 - k)) # replicate (length s - Suc k) z"
    using k by (simp add: list_update_append)
  also have "\<dots> = replicate (n - length s) z @ take (Suc k) (rev s) @ replicate (length s - Suc k) z"
    using k by (simp add: take_Suc_conv_app_nth rev_nth)
  finally show ?case .
qed

lemma pad_reversed_eq:
  "length s \<le> n \<Longrightarrow> pad_reversed n s = replicate (n - length s) (CHR ''0'') @ rev s"
  using pad_reversed_prefix [of s n "length s"] by (simp add: pad_reversed_def)

lemma digit_of_digit [simp]: "isdigit c \<Longrightarrow> digit_char (digit_of c) = c \<and> digit_of c < 10"
  by (auto simp: digit_char_def digit_of_def cctype_defs)

lemma push_sum_no_carry:
  assumes "\<And>i. i < n \<Longrightarrow> digits i < 10"
  shows "fold (push_sum digits) [0..<n] (0, []) = (0, map (digit_char \<circ> digits) [0..<n])"
  using assms by (induction n) (simp_all add: push_sum_def Let_def)

lemma digit_loop_no_carry:
  "(\<And>i. i < n \<Longrightarrow> digits i < 10) \<Longrightarrow> digit_loop digits n = rev (map (digit_char \<circ> digits) [0..<n])"
  by (simp add: digit_loop_def push_sum_no_carry carry_digits.simps [of 0])

lemma add_phase_zeros:
  assumes "\<forall>c \<in> set s. isdigit c" and z: "result = replicate m (CHR ''0'')"
    and that: "length s \<le> n" "length result \<le> n"
  shows "digit_loop (add_digits (pad_reversed n result) (pad_reversed n s) n) n = pad_reversed n s"
proof -
  have p: "pad_reversed n s = replicate (n - length s) (CHR ''0'') @ rev s"
    and r: "pad_reversed n result = replicate n (CHR ''0'')"
    using that z by (simp_all add: pad_reversed_eq flip: replicate_add)
  have len: "length (pad_reversed n s) = n" using that p by simp
  have dig: "isdigit (pad_reversed n s ! i)" if "i < n" for i
  proof -
    have "pad_reversed n s ! i \<in> set (pad_reversed n s)" using that len by simp
    then show ?thesis using assms(1) unfolding p by (auto simp: cctype_defs)
  qed
  have "add_digits (pad_reversed n result) (pad_reversed n s) n i = digit_of (pad_reversed n s ! (n - 1 - i))"
    if "i < n" for i
    using that by (simp add: add_digits_def r digit_of_def)
  then have d: "add_digits (pad_reversed n result) (pad_reversed n s) n i < 10 \<and>
      digit_char (add_digits (pad_reversed n result) (pad_reversed n s) n i) = pad_reversed n s ! (n - 1 - i)"
    if "i < n" for i
    using that dig [of "n - 1 - i"] by simp
  have "digit_loop (add_digits (pad_reversed n result) (pad_reversed n s) n) n =
      rev (map (digit_char \<circ> add_digits (pad_reversed n result) (pad_reversed n s) n) [0..<n])"
    using d by (intro digit_loop_no_carry) blast
  also have "\<dots> = pad_reversed n s"
    using d len by (intro nth_equalityI) (simp_all add: rev_nth)
  finally show ?thesis .
qed

lemma to_string_nonzero: "0 < n \<Longrightarrow> \<exists>c \<in> set (to_string n). c \<noteq> CHR ''0''"
proof (induction n rule: to_string.induct)
  case (1 n)
  show ?case
  proof (cases "n < 10")
    case True
    then have "of_char (digit_char n) \<noteq> (of_char (CHR ''0'') :: nat)" using 1 by simp
    then have "digit_char n \<noteq> CHR ''0''" by auto
    then show ?thesis using True by (simp add: to_string.simps [of n])
  next
    case False
    then show ?thesis using 1 by (auto simp: to_string.simps [of n])
  qed
qed

text \<open>
  \<^verbatim>\<open>u128::to_decimal\<close> does not print balances of \<open>2 ^ 64\<close> and above. The product it starts from is a
  product with zero, and the low half is written into the sum backwards, so the text is the
  decimal digits of \<open>lo\<close> in reverse, without their leading zeros, whatever \<open>hi\<close> is.
\<close>

theorem to_decimal_reverses_lo:
  assumes "u128_hi u \<noteq> 0" and "u128_lo u \<noteq> 0"
  shows "to_decimal u = dropWhile (\<lambda>c. c = CHR ''0'') (rev (to_string (unat (u128_lo u))))"
proof -
  define s where "s = to_string (unat (u128_lo u))"
  define r where "r = replicate 21 (CHR ''0'')"
  have m: "mul_phase ''0'' ''18446744073709551616'' = r" unfolding r_def by code_simp
  have pos: "0 < u128_hi u" "0 < u128_lo u" using assms by (simp_all add: word_gt_0)
  have nz: "\<not> list_all (\<lambda>c. c = CHR ''0'') (rev s)"
    using to_string_nonzero [of "unat (u128_lo u)"] assms(2)
    by (auto simp: s_def list_all_iff unat_gt_0)
  define n where "n = max (length r) (length s) + 1"
  have "digit_loop (add_digits (pad_reversed n r) (pad_reversed n s) n) n = pad_reversed n s"
    by (rule add_phase_zeros [where m = 21]) (simp_all add: s_def to_string_digits r_def n_def)
  also have "\<dots> = replicate (n - length s) (CHR ''0'') @ rev s"
    by (simp add: pad_reversed_eq n_def)
  finally have a: "add_phase r s = dropWhile (\<lambda>c. c = CHR ''0'') (rev s)"
    using nz by (simp add: add_phase_def Let_def n_def dropWhile_append)
  have "dropWhile (\<lambda>c. c = CHR ''0'') (rev s) \<noteq> []"
    using nz by (simp add: dropWhile_eq_Nil_conv list_all_iff)
  with a have "(if add_phase r s = [] then ''0'' else add_phase r s) =
      dropWhile (\<lambda>c. c = CHR ''0'') (rev s)" by (simp del: dropWhile_eq_Nil_conv)
  then show ?thesis
    unfolding to_decimal_def Let_def m s_def [symmetric] if_P [OF pos(1)] if_P [OF pos(2)]
      if_not_P [OF assms(1)] .
qed

theorem to_decimal_reverses_lo_witness:
  "to_decimal (U128 1200 7) = ''21'' \<and> u128_value (U128 1200 7) = 129127208515966862512"
proof -
  have "to_string (unat (u128_lo (U128 1200 7))) = ''1200''" by code_simp
  then have "to_decimal (U128 1200 7) = ''21''"
    using to_decimal_reverses_lo [of "U128 1200 7"] by simp
  then show ?thesis by (simp add: u128_value_def)
qed

end
