(* ===== verification/Bech32m.thy ===== *)
theory Bech32m
  imports Hex
begin

text \<open>
  Bech32m (src/wallet/bech32m.cpp) and the second implementation of the encoder in
  \<^verbatim>\<open>midnight::util::bech32m\<close> (include/midnight/core/common_utils.hpp): the checksum as a fold of a
  32-bit step, the conversion between 8-bit and 5-bit groups with the \<^verbatim>\<open>int\<close> accumulator of the
  code as a 32-bit word (only bits below 16 of it are ever read, so that the sign plays no part),
  and the Midnight addresses built on them.
\<close>

section \<open>The checksum\<close>

definition BECH32M_CONST :: u32 where
  "BECH32M_CONST = 0x2bc830a3"

definition CHECKSUM_SIZE :: nat where
  "CHECKSUM_SIZE = 6"

definition polymod_step :: "u32 \<Rightarrow> u8 \<Rightarrow> u32" where
  "polymod_step c v_i =
     (let c0 = (ucast (drop_bit 25 c) :: u8);
          c = push_bit 5 (c AND 0x1ffffff) XOR ucast v_i;
          c = (if c0 AND 1 \<noteq> 0 then c XOR 0x3b6a57b2 else c);
          c = (if c0 AND 2 \<noteq> 0 then c XOR 0x26508e6d else c);
          c = (if c0 AND 4 \<noteq> 0 then c XOR 0x1ea119fa else c);
          c = (if c0 AND 8 \<noteq> 0 then c XOR 0x3d4233dd else c);
          c = (if c0 AND 16 \<noteq> 0 then c XOR 0x2a1462b3 else c)
      in c)"

definition polymod :: "bytes \<Rightarrow> u32" where
  "polymod v = foldl polymod_step 1 v"

definition expand_hrp :: "string \<Rightarrow> bytes" where
  "expand_hrp hrp =
     map (\<lambda>c. drop_bit 5 (byte_of_char c)) hrp @ [0] @ map (\<lambda>c. byte_of_char c AND 0x1f) hrp"

text \<open>\<^verbatim>\<open>ret[i] = (mod >> (5 * (5 - i))) & 31\<close>\<close>

definition checksum_words :: "u32 \<Rightarrow> bytes" where
  "checksum_words m = map (\<lambda>i. ucast (drop_bit (5 * (5 - i)) m AND 31)) [0..<CHECKSUM_SIZE]"

definition create_checksum :: "string \<Rightarrow> bytes \<Rightarrow> bytes" where
  "create_checksum hrp values =
     (let enc = expand_hrp hrp @ values @ replicate CHECKSUM_SIZE 0x00;
          m = polymod enc XOR BECH32M_CONST
      in checksum_words m)"

definition verify_checksum :: "string \<Rightarrow> bytes \<Rightarrow> bool" where
  "verify_checksum hrp values \<longleftrightarrow> polymod (expand_hrp hrp @ values) = BECH32M_CONST"

section \<open>Five-bit groups\<close>

text \<open>
  \<^verbatim>\<open>while (bits >= w) { bits -= w; ret.push_back((acc >> bits) & mask); }\<close>: the groups pushed and
  the bits left over.
\<close>

function emit_groups :: "nat \<Rightarrow> u32 \<Rightarrow> nat \<Rightarrow> bytes \<times> nat" where
  "emit_groups w acc bits =
     (if 0 < w \<and> w \<le> bits
      then let (ret, rest) = emit_groups w acc (bits - w)
           in (ucast (drop_bit (bits - w) acc AND mask w) # ret, rest)
      else ([], bits))"
  by pat_completeness auto
termination by (relation "measure (\<lambda>(w, acc, bits). bits)") auto

declare emit_groups.simps [simp del]

fun to_words_loop :: "bytes \<Rightarrow> u32 \<Rightarrow> nat \<Rightarrow> bytes" where
  "to_words_loop [] acc bits = (if 0 < bits then [ucast (push_bit (5 - bits) acc AND mask 5)] else [])"
| "to_words_loop (value # data) acc bits =
     (let acc = push_bit 8 acc OR ucast value;
          (ret, bits) = emit_groups 5 acc (bits + 8)
      in ret @ to_words_loop data acc bits)"

definition to_words :: "bytes \<Rightarrow> bytes" where
  "to_words data = to_words_loop data 0 0"

text \<open>The test of the padding bits after the loop has an empty body: it has no effect.\<close>

fun from_words_loop :: "bytes \<Rightarrow> u32 \<Rightarrow> nat \<Rightarrow> bytes result" where
  "from_words_loop [] acc bits = Inr []"
| "from_words_loop (value # words) acc bits =
     (if drop_bit 5 value \<noteq> 0 then Inl (Runtime_error ''Invalid word value in Bech32m data'')
      else
        (let acc = push_bit 5 acc OR ucast value;
             (ret, bits) = emit_groups 8 acc (bits + 5)
         in rbind (from_words_loop words acc bits) (\<lambda>rest. Inr (ret @ rest))))"

definition from_words :: "bytes \<Rightarrow> bytes result" where
  "from_words words = from_words_loop words 0 0"

section \<open>Encoding and decoding\<close>

definition CHARSET :: string where
  "CHARSET = ''qpzry9x8gf2tvdw0s3jn54khce6mua7l''"

definition CHARSET_REV :: "int list" where
  "CHARSET_REV = [
    -1, -1, -1, -1, -1, -1, -1, -1, -1, -1, -1, -1, -1, -1, -1, -1,
    -1, -1, -1, -1, -1, -1, -1, -1, -1, -1, -1, -1, -1, -1, -1, -1,
    -1, -1, -1, -1, -1, -1, -1, -1, -1, -1, -1, -1, -1, -1, -1, -1,
    15, -1, 10, 17, 21, 20, 26, 30,  7,  5, -1, -1, -1, -1, -1, -1,
    -1, 29, -1, 24, 13, 25,  9,  8, 23, -1, 18, 22, 31, 27, 19, -1,
     1,  0,  3, 16, 11, 28, 12, 14,  6,  4,  2, -1, -1, -1, -1, -1,
    -1, 29, -1, 24, 13, 25,  9,  8, 23, -1, 18, 22, 31, 27, 19, -1,
     1,  0,  3, 16, 11, 28, 12, 14,  6,  4,  2, -1, -1, -1, -1, -1]"

definition charset_char :: "u8 \<Rightarrow> char" where
  "charset_char v = CHARSET ! unat v"

definition bech32m_encode :: "string \<Rightarrow> bytes \<Rightarrow> string" where
  "bech32m_encode hrp data =
     (let values = to_words data;
          checksum = create_checksum hrp values
      in hrp @ ''1'' @ map charset_char values @ map charset_char checksum)"

record decode_result =
  hrp_of :: string
  data_of :: bytes

fun decode_chars :: "string \<Rightarrow> bytes result" where
  "decode_chars [] = Inr []"
| "decode_chars (c # s) =
     (if 128 \<le> (of_char c :: nat) then Inl (Runtime_error ''Invalid Bech32m character'')
      else
        (let rev = CHARSET_REV ! of_char c
         in if rev = -1 then Inl (Runtime_error ''Invalid Bech32m character'')
            else rbind (decode_chars s) (\<lambda>vs. Inr (word_of_int rev # vs))))"

definition bech32m_decode :: "string \<Rightarrow> decode_result result" where
  "bech32m_decode s =
     (case rfind_char (CHR ''1'') s of
        None \<Rightarrow> Inl (Runtime_error ''Invalid Bech32m string: missing or invalid separator'')
      | Some pos \<Rightarrow>
          if pos = 0 \<or> length s \<le> pos + CHECKSUM_SIZE
          then Inl (Runtime_error ''Invalid Bech32m string: missing or invalid separator'')
          else if list_ex islower s \<and> list_ex isupper s
          then Inl (Runtime_error ''Invalid Bech32m string: mixed case'')
          else
            (let hrp = map tolower (take pos s)
             in rbind (decode_chars (drop (pos + 1) s)) (\<lambda>values.
                if \<not> verify_checksum hrp values then Inl (Runtime_error ''Invalid Bech32m checksum'')
                else
                  (let values = take (length values - CHECKSUM_SIZE) values
                   in rbind (from_words values) (\<lambda>data. Inr \<lparr>hrp_of = hrp, data_of = data\<rparr>)))))"

section \<open>The second encoder\<close>

definition gen :: "u32 list" where
  "gen = [0x3B6A57B2, 0x26508E6D, 0x1EA119FA, 0x3D4233DD, 0x2A1462B3]"

definition util_polymod_step :: "u32 \<Rightarrow> u8 \<Rightarrow> u32" where
  "util_polymod_step chk value =
     (let top = drop_bit 25 chk;
          chk = push_bit 5 (chk AND 0x1FFFFFF) XOR ucast value
      in fold (\<lambda>i chk. chk XOR (if drop_bit i top AND 1 \<noteq> 0 then gen ! i else 0)) [0..<5] chk)"

definition util_polymod :: "bytes \<Rightarrow> u32" where
  "util_polymod values = foldl util_polymod_step 1 values"

definition hrp_expand :: "string \<Rightarrow> bytes" where
  "hrp_expand hrp =
     map (\<lambda>c. drop_bit 5 (byte_of_char c)) hrp @ [0] @ map (\<lambda>c. byte_of_char c AND 31) hrp"

fun convert_loop :: "nat \<Rightarrow> nat \<Rightarrow> bytes \<Rightarrow> u32 \<Rightarrow> nat \<Rightarrow> bytes \<times> u32 \<times> nat" where
  "convert_loop from_bits to_bits [] acc bits = ([], acc, bits)"
| "convert_loop from_bits to_bits (value # data) acc bits =
     (let acc = (push_bit from_bits acc OR ucast value) AND mask (from_bits + to_bits - 1);
          (ret, bits) = emit_groups to_bits acc (bits + from_bits);
          (rest, st) = convert_loop from_bits to_bits data acc bits
      in (ret @ rest, st))"

definition convert_bits :: "bytes \<Rightarrow> nat \<Rightarrow> nat \<Rightarrow> bool \<Rightarrow> bytes" where
  "convert_bits data from_bits to_bits pad =
     (let (ret, acc, bits) = convert_loop from_bits to_bits data 0 0
      in if pad
         then (if bits \<noteq> 0 then ret @ [ucast (push_bit (to_bits - bits) acc AND mask to_bits)] else ret)
         else if from_bits \<le> bits \<or> push_bit (to_bits - bits) acc AND mask to_bits \<noteq> 0 then []
         else ret)"

definition util_bech32m_encode :: "string \<Rightarrow> bytes \<Rightarrow> string" where
  "util_bech32m_encode hrp payload =
     (let data = convert_bits payload 8 5 True;
          values = hrp_expand hrp @ data @ replicate 6 0;
          pm = util_polymod values XOR BECH32M_CONST;
          checksum = map (\<lambda>i. ucast (drop_bit (5 * (5 - i)) pm AND 31) :: u8) [0..<6]
      in hrp @ ''1'' @ map charset_char data @ map charset_char checksum)"

section \<open>Addresses\<close>

datatype network = Mainnet | Preview | PreProd | Testnet | DevNet | QaNet | Undeployed

fun network_to_string :: "network \<Rightarrow> string" where
  "network_to_string Mainnet = ''mainnet''"
| "network_to_string Preview = ''preview''"
| "network_to_string PreProd = ''preprod''"
| "network_to_string Testnet = ''testnet''"
| "network_to_string DevNet = ''devnet''"
| "network_to_string QaNet = ''qanet''"
| "network_to_string Undeployed = ''undeployed''"

definition network_from_string :: "string \<Rightarrow> network" where
  "network_from_string name =
     (let n = map tolower name
      in if n = ''mainnet'' then Mainnet
         else if n = ''preview'' then Preview
         else if n = ''preprod'' then PreProd
         else if n = ''testnet'' then Testnet
         else if n = ''devnet'' then DevNet
         else if n = ''qanet'' then QaNet
         else if n = ''undeployed'' then Undeployed
         else Preview)"

definition get_hrp :: "string \<Rightarrow> network \<Rightarrow> string" where
  "get_hrp ty network =
     ''mn_'' @ ty @ (if network \<noteq> Mainnet then ''_'' @ network_to_string network else [])"

definition encode_unshielded :: "bytes \<Rightarrow> network \<Rightarrow> string result" where
  "encode_unshielded pubkey_32 network =
     (if length pubkey_32 \<noteq> 32
      then Inl (Runtime_error ''Unshielded address needs to be 32 bytes long'')
      else Inr (bech32m_encode (get_hrp ''addr'' network) pubkey_32))"

definition decode_unshielded :: "string \<Rightarrow> bytes result" where
  "decode_unshielded addr =
     rbind (bech32m_decode addr) (\<lambda>r.
       if take 7 (hrp_of r) \<noteq> ''mn_addr''
       then Inl (Runtime_error ''Not a Midnight unshielded address (expected mn_addr HRP)'')
       else if length (data_of r) \<noteq> 32
       then Inl (Runtime_error ''Invalid unshielded address: expected 32 bytes of data'')
       else Inr (data_of r))"

record shielded_address_data =
  coin_public_key :: bytes
  encryption_public_key :: bytes

definition encode_shielded :: "bytes \<Rightarrow> bytes \<Rightarrow> network \<Rightarrow> string result" where
  "encode_shielded coin_pk_32 enc_pk_32 network =
     (if length coin_pk_32 \<noteq> 32 \<or> length enc_pk_32 \<noteq> 32
      then Inl (Runtime_error ''Shielded address keys must be 32 bytes each'')
      else Inr (bech32m_encode (get_hrp ''shield-addr'' network) (coin_pk_32 @ enc_pk_32)))"

definition decode_shielded :: "string \<Rightarrow> shielded_address_data result" where
  "decode_shielded address =
     rbind (bech32m_decode address) (\<lambda>r.
       if take 14 (hrp_of r) \<noteq> ''mn_shield-addr''
       then Inl (Runtime_error ''Not a Midnight shielded address (expected mn_shield-addr HRP)'')
       else if length (data_of r) \<noteq> 64
       then Inl (Runtime_error ''Invalid shielded address: expected 64 bytes of data'')
       else Inr \<lparr>coin_public_key = take 32 (data_of r), encryption_public_key = drop 32 (data_of r)\<rparr>)"

definition encode_dust :: "bytes \<Rightarrow> network \<Rightarrow> string result" where
  "encode_dust dust_scalar_le network =
     (if dust_scalar_le = [] then Inl (Runtime_error ''Dust scalar data must not be empty'')
      else
        (let len_nibbles = ucast (push_bit 2 (word_of_nat (length dust_scalar_le) - 4 :: u64) OR 0x03)
         in Inr (bech32m_encode (get_hrp ''dust'' network) (len_nibbles # dust_scalar_le))))"

definition encode_dust_from_pubkey :: "bytes \<Rightarrow> network \<Rightarrow> string result" where
  "encode_dust_from_pubkey pubkey_32 network =
     (if length pubkey_32 \<noteq> 32 then Inl (Runtime_error ''Dust public key must be 32 bytes'')
      else encode_dust pubkey_32 network)"

definition decode_dust :: "string \<Rightarrow> bytes result" where
  "decode_dust address =
     rbind (bech32m_decode address) (\<lambda>r.
       if take 7 (hrp_of r) \<noteq> ''mn_dust''
       then Inl (Runtime_error ''Not a Midnight dust address (expected mn_dust HRP)'')
       else if length (data_of r) < 33
       then Inl (Runtime_error ''Invalid dust address: SCALE data too short'')
       else Inr (drop 1 (data_of r)))"

end
