(* ===== verification/Bech32mLaws.thy ===== *)
theory Bech32mLaws
  imports Bech32m
begin

text \<open>
  Why the Bech32m checksum works, as a locale over the step function (linear over GF(2), exact on
  small states, injective on states against a zero symbol), interpreted for both implementations;
  and the regrouping of bits, with the groups read as lists of bits.
\<close>

section \<open>Linear checksum steps\<close>

lemma xor_eq_0:
  fixes a b :: "'a :: len word"
  assumes "a XOR b = 0"
  shows "a = b"
proof -
  have "a = (a XOR b) XOR b" by (simp add: xor.assoc)
  then show ?thesis using assms by simp
qed

locale xor_step =
  fixes step :: "u32 \<Rightarrow> u8 \<Rightarrow> u32"
  assumes step_xor: "step (a XOR b) (u XOR v) = step a u XOR step b v"
    and step_small: "take_bit 25 c = c \<Longrightarrow> step c v = push_bit 5 c XOR ucast v"
    and step_bound: "take_bit 30 (step c v) = step c v"
    and step_kernel: "take_bit 30 c = c \<Longrightarrow> step c 0 = 0 \<Longrightarrow> c = 0"
begin

lemma foldl_xor:
  "length us = length vs \<Longrightarrow>
   foldl step (a XOR b) (map2 (XOR) us vs) = foldl step a us XOR foldl step b vs"
proof (induction us vs arbitrary: a b rule: list_induct2)
  case Nil
  then show ?case by simp
next
  case (Cons u us v vs)
  then show ?case by (simp add: step_xor)
qed

lemma foldl_bound: "vs \<noteq> [] \<Longrightarrow> take_bit 30 (foldl step a vs) = foldl step a vs"
  by (induction vs rule: rev_induct) (simp_all add: step_bound)

lemma step_0: "step 0 v = ucast v"
  using step_small [of 0 v] by simp

text \<open>The first \<open>k\<close> groups of a 30-bit value, shifted in from zero.\<close>

lemma shift_in:
  assumes "take_bit 30 m = m" and "k \<le> 6"
  shows "foldl step 0 (map (\<lambda>i. ucast (drop_bit (5 * (5 - i)) m AND 31)) [0..<k]) = drop_bit (5 * (6 - k)) m"
  using assms(2)
proof (induction k)
  case 0
  have "drop_bit 30 m = drop_bit 30 (take_bit 30 m)" by (simp only: assms(1))
  also have "\<dots> = 0" by (simp add: drop_bit_take_bit)
  finally show ?case by simp
next
  case (Suc k)
  let ?c = "drop_bit (5 * (6 - k)) m"
  let ?v = "ucast (drop_bit (5 * (5 - k)) m AND 31) :: u8"
  have m31: "w AND 31 = take_bit 5 w" for w :: u32
    by (simp add: take_bit_eq_mask mask_eq_exp_minus_1)
  have above: "\<not> bit m n" if "30 \<le> n" for n
    using assms(1) that by (metis bit_take_bit_iff not_less)
  have "take_bit 25 ?c = ?c"
  proof (rule bit_word_eqI)
    fix n assume "n < LENGTH(32)"
    have "30 \<le> 5 * (6 - k) + n" if "25 \<le> n" using Suc.prems that by linarith
    then show "bit (take_bit 25 ?c) n = bit ?c n"
      using above by (auto simp: bit_simps) (meson not_less)
  qed
  then have "step ?c ?v = push_bit 5 ?c XOR ucast ?v" by (rule step_small)
  also have "\<dots> = drop_bit (5 * (6 - Suc k)) m"
  proof (rule bit_word_eqI)
    fix n assume "n < LENGTH(32)"
    have e: "5 * (6 - k) + (n - 5) = 5 * (5 - k) + n" if "5 \<le> n"
      using Suc.prems that by (simp add: diff_mult_distrib2)
    show "bit (push_bit 5 ?c XOR ucast ?v) n = bit (drop_bit (5 * (6 - Suc k)) m) n"
      using \<open>n < LENGTH(32)\<close> e unfolding m31
      by (cases "n < 5") (auto simp: bit_simps dest: bit_imp_le_length)
  qed
  finally show ?case using Suc by simp
qed

lemma append_checksum:
  assumes "take_bit 30 k = k"
  shows "foldl step a (vs @ checksum_words (foldl step a (vs @ replicate 6 0) XOR k)) = k"
proof -
  define m where "m = foldl step a (vs @ replicate 6 0) XOR k"
  have m: "take_bit 30 m = m"
    using assms foldl_bound [of "vs @ replicate 6 0" a] by (simp add: m_def take_bit_xor)
  let ?cs = "checksum_words m"
  have len: "length ?cs = 6" by (simp add: checksum_words_def CHECKSUM_SIZE_def)
  have "map2 (XOR) (replicate 6 0) ?cs = ?cs"
    using len by (intro nth_equalityI) simp_all
  then have "foldl step (foldl step a vs XOR 0) ?cs = foldl step (foldl step a vs) (replicate 6 0) XOR foldl step 0 ?cs"
    using foldl_xor [of "replicate 6 0" ?cs "foldl step a vs" 0] len by simp
  also have "foldl step 0 ?cs = m"
    using shift_in [OF m, of 6] by (simp add: checksum_words_def CHECKSUM_SIZE_def)
  also have "foldl step (foldl step a vs) (replicate 6 0) XOR m = k"
    by (simp add: m_def xor.assoc [symmetric])
  finally show ?thesis by (simp add: m_def)
qed

lemma foldl_zeros_0: "take_bit 30 c = c \<Longrightarrow> foldl step c (replicate n 0) = 0 \<Longrightarrow> c = 0"
proof (induction n arbitrary: c)
  case 0
  then show ?case by simp
next
  case (Suc n)
  have "foldl step (step c 0) (replicate n 0) = 0" using Suc.prems(2) by simp
  then have "step c 0 = 0" by (rule Suc.IH [OF step_bound])
  with Suc.prems(1) show ?case by (rule step_kernel)
qed

text \<open>Any change of one symbol changes the checksum, however long the word is.\<close>

lemma substitution_detected:
  assumes "u \<noteq> v"
  shows "foldl step a (xs @ u # ys) \<noteq> foldl step a (xs @ v # ys)"
proof
  assume eq: "foldl step a (xs @ u # ys) = foldl step a (xs @ v # ys)"
  define s where "s = foldl step a xs"
  have "map2 (XOR) (u # ys) (v # ys) = (u XOR v) # replicate (length ys) 0"
    by (intro nth_equalityI) (auto simp: nth_Cons split: nat.splits)
  then have "foldl step (s XOR s) ((u XOR v) # replicate (length ys) 0) =
      foldl step s (u # ys) XOR foldl step s (v # ys)"
    using foldl_xor [of "u # ys" "v # ys" s s] by simp
  also have "\<dots> = 0" using eq by (simp add: s_def)
  finally have "foldl step (ucast (u XOR v)) (replicate (length ys) 0) = 0"
    by (simp add: step_0)
  moreover have "take_bit 30 (ucast (u XOR v) :: u32) = ucast (u XOR v)"
    by (rule bit_word_eqI) (auto simp: bit_simps dest: bit_imp_le_length)
  ultimately have "(ucast (u XOR v) :: u32) = 0" using foldl_zeros_0 by blast
  then have "u XOR v = 0"
    by (auto intro!: bit_word_eqI simp: bit_eq_iff [of "ucast (u XOR v)"] bit_simps dest: bit_imp_le_length)
  then have "u = v" by (rule xor_eq_0)
  then show False using assms by simp
qed

end


section \<open>The steps of the code\<close>

definition sel :: "bool \<Rightarrow> u32 \<Rightarrow> u32" where
  "sel b x = (if b then x else 0)"

lemma sel_xor: "sel (p = (\<not> q)) x = sel p x XOR sel q x"
  by (simp add: sel_def)

definition generators :: "u32 \<Rightarrow> u32" where
  "generators c = sel (bit c 25) 0x3b6a57b2 XOR sel (bit c 26) 0x26508e6d XOR sel (bit c 27) 0x1ea119fa
     XOR sel (bit c 28) 0x3d4233dd XOR sel (bit c 29) 0x2a1462b3"

lemma test_bits:
  "(w AND 1 = 0) = (\<not> bit w 0)" "(w AND 2 = 0) = (\<not> bit w 1)" "(w AND 4 = 0) = (\<not> bit w 2)"
  "(w AND 8 = 0) = (\<not> bit w 3)" "(w AND 16 = 0) = (\<not> bit w 4)" for w :: "'a :: len word"
  using and_exp_eq_0_iff_not_bit [of w 0] and_exp_eq_0_iff_not_bit [of w 1]
    and_exp_eq_0_iff_not_bit [of w 2] and_exp_eq_0_iff_not_bit [of w 3]
    and_exp_eq_0_iff_not_bit [of w 4] by simp_all

lemma polymod_step_eq: "polymod_step c v = push_bit 5 (c AND 0x1ffffff) XOR ucast v XOR generators c"
proof -
  have b: "bit (ucast (drop_bit 25 c) :: u8) i = bit c (25 + i)" if "i < 5" for i
    using that by (simp add: bit_simps)
  have x: "(if b then x XOR k else x) = x XOR sel b k" for b x k
    by (simp add: sel_def)
  show ?thesis
    unfolding polymod_step_def Let_def test_bits x b generators_def
    using b [of 0] b [of 1] b [of 2] b [of 3] b [of 4] by (simp add: x xor.assoc)
qed

lemma generators_xor: "generators (a XOR b) = generators a XOR generators b"
  by (simp add: generators_def bit_xor_iff sel_xor ac_simps)

lemma mask25: "w AND 0x1ffffff = take_bit 25 w" for w :: u32
  by (simp add: take_bit_eq_mask mask_eq_exp_minus_1)

lemma sel_bit: "bit (sel b x) n \<longleftrightarrow> b \<and> bit x n"
  by (simp add: sel_def)

lemma generators_low:
  assumes "take_bit 5 (generators c) = 0"
  shows "\<not> bit c 25 \<and> \<not> bit c 26 \<and> \<not> bit c 27 \<and> \<not> bit c 28 \<and> \<not> bit c 29"
proof -
  have z: "\<not> bit (generators c) i" if "i < 5" for i
    using assms that by (metis bit_0_eq bit_take_bit_iff bot_apply bot_bool_def)
  show ?thesis
    using z [of 0] z [of 1] z [of 2] z [of 3] z [of 4]
    by (auto simp: generators_def bit_xor_iff sel_bit)
qed

interpretation polymod_step: xor_step polymod_step
proof
  fix a b :: u32 and u v :: u8
  show "polymod_step (a XOR b) (u XOR v) = polymod_step a u XOR polymod_step b v"
    unfolding polymod_step_eq generators_xor mask25
    by (rule bit_word_eqI) (auto simp: bit_simps)
next
  fix c :: u32 and v :: u8
  assume c: "take_bit 25 c = c"
  then have "\<not> bit c n" if "25 \<le> n" for n using that by (metis bit_take_bit_iff not_less)
  then have "generators c = 0" by (simp add: generators_def sel_def)
  then show "polymod_step c v = push_bit 5 c XOR ucast v"
    using c by (simp add: polymod_step_eq mask25)
next
  fix c :: u32 and v :: u8
  have "take_bit 30 (generators c) = generators c"
    by (simp add: generators_def sel_def take_bit_xor)
  moreover have "take_bit 30 (push_bit 5 (take_bit 25 c)) = push_bit 5 (take_bit 25 c)"
    by (rule bit_word_eqI) (auto simp: bit_simps)
  moreover have "take_bit 30 (ucast v :: u32) = ucast v"
    by (rule bit_word_eqI) (auto simp: bit_simps dest: bit_imp_le_length)
  ultimately show "take_bit 30 (polymod_step c v) = polymod_step c v"
    unfolding polymod_step_eq mask25 by (simp only: take_bit_xor)
next
  fix c :: u32
  assume c: "take_bit 30 c = c" and z: "polymod_step c 0 = 0"
  then have e: "push_bit 5 (take_bit 25 c) = generators c"
    using xor_eq_0 unfolding polymod_step_eq mask25 by simp
  have "take_bit 5 (push_bit 5 (take_bit 25 c)) = 0"
    by (rule bit_word_eqI) (simp add: bit_simps)
  then have hi: "\<not> bit c 25 \<and> \<not> bit c 26 \<and> \<not> bit c 27 \<and> \<not> bit c 28 \<and> \<not> bit c 29"
    using generators_low unfolding e by blast
  then have z': "push_bit 5 (take_bit 25 c) = 0" unfolding e by (simp add: generators_def sel_def)
  have lo: "\<not> bit c n" if "n < 25" for n
  proof -
    have "bit (push_bit 5 (take_bit 25 c)) (n + 5) \<longleftrightarrow> bit c n"
      using that by (simp add: bit_simps)
    with z' show ?thesis by simp
  qed
  show "c = 0"
  proof (rule bit_word_eqI)
    fix n assume "n < LENGTH(32)"
    have "n < 25 \<or> n = 25 \<or> n = 26 \<or> n = 27 \<or> n = 28 \<or> n = 29 \<or> 30 \<le> n" by linarith
    moreover have "\<not> bit c n" if "30 \<le> n" using c that by (metis bit_take_bit_iff not_less)
    ultimately show "bit c n = bit 0 n" using lo hi by auto
  qed
qed


lemma util_polymod_step_eq: "util_polymod_step = polymod_step"
proof (intro ext)
  fix c :: u32 and v :: u8
  have s: "(if drop_bit i (drop_bit 25 c) AND 1 \<noteq> 0 then x else 0) = sel (bit c (25 + i)) x" for i x
    by (simp add: test_bits sel_def bit_simps add.commute)
  have u: "[0..<5] = [0, 1, 2, 3, 4]" by (simp add: upt_rec)
  show "util_polymod_step c v = polymod_step c v"
    unfolding util_polymod_step_def Let_def s u polymod_step_eq generators_def
    by (simp add: gen_def xor.assoc)
qed

interpretation util_polymod_step: xor_step util_polymod_step
  unfolding util_polymod_step_eq by (rule polymod_step.xor_step_axioms)

section \<open>Groups as bits\<close>

definition bits_be :: "nat \<Rightarrow> 'a :: len word \<Rightarrow> bool list" where
  "bits_be n x = map (\<lambda>i. bit x (n - 1 - i)) [0..<n]"

definition be_bits :: "nat \<Rightarrow> bytes \<Rightarrow> bool list" where
  "be_bits n xs = concat (map (bits_be n) xs)"

lemma length_bits_be [simp]: "length (bits_be n x) = n"
  by (simp add: bits_be_def)

lemma be_bits_simps [simp]:
  "be_bits n [] = []" "be_bits n (x # xs) = bits_be n x @ be_bits n xs"
  "be_bits n (xs @ ys) = be_bits n xs @ be_bits n ys"
  by (simp_all add: be_bits_def)

lemma length_be_bits [simp]: "length (be_bits n xs) = n * length xs"
  by (induction xs) simp_all

lemma bits_be_nth: "i < n \<Longrightarrow> bits_be n x ! i = bit x (n - 1 - i)"
  by (simp add: bits_be_def)

lemma bits_be_append:
  assumes "k \<le> n"
  shows "bits_be n x = bits_be (n - k) (drop_bit k x) @ bits_be k x"
proof (rule nth_equalityI)
  show "length (bits_be n x) = length (bits_be (n - k) (drop_bit k x) @ bits_be k x)"
    using assms by simp
  fix i assume "i < length (bits_be n x)"
  then have i: "i < n" by simp
  show "bits_be n x ! i = (bits_be (n - k) (drop_bit k x) @ bits_be k x) ! i"
  proof (cases "i < n - k")
    case True
    then have "k + (n - k - 1 - i) = n - 1 - i" using assms by simp
    with True i show ?thesis by (simp add: nth_append bits_be_nth bit_simps)
  next
    case False
    then have "k - 1 - (i - (n - k)) = n - 1 - i" using assms i by simp
    with False i assms show ?thesis by (simp add: nth_append bits_be_nth)
  qed
qed

lemma bits_be_inj:
  assumes "bits_be 8 x = bits_be 8 (y :: u8)"
  shows "x = y"
proof (rule bit_word_eqI)
  fix n assume "n < LENGTH(8)"
  then have n: "n < 8" by simp
  have "bits_be 8 x ! (7 - n) = bits_be 8 y ! (7 - n)" using assms by simp
  then show "bit x n = bit y n" using n by (simp add: bits_be_nth)
qed

lemma be_bits_8_inj: "length xs = length ys \<Longrightarrow> be_bits 8 xs = be_bits 8 ys \<Longrightarrow> xs = ys"
  by (induction xs ys rule: list_induct2) (simp_all add: bits_be_inj)

lemma bits_be_low: "(\<And>i. i < n \<Longrightarrow> bit x i = bit y i) \<Longrightarrow> bits_be n x = bits_be n y"
  by (auto simp: bits_be_def)

text \<open>The groups pushed are the pending bits, in order; fewer than a group is left.\<close>

lemma emit_groups_bits:
  assumes "emit_groups w acc bits = (ret, rest)" and "0 < w" and "w \<le> 8" and "bits \<le> 32"
  shows "bits_be bits acc = be_bits w ret @ bits_be rest acc \<and> rest < w \<and>
    (\<forall>x \<in> set ret. take_bit w x = x)"
  using assms
proof (induction w acc bits arbitrary: ret rule: emit_groups.induct)
  case (1 w acc bits)
  show ?case
  proof (cases "w \<le> bits")
    case False
    then show ?thesis using 1 by (simp add: emit_groups.simps [of w acc bits])
  next
    case True
    obtain ret' where e: "emit_groups w acc (bits - w) = (ret', rest)"
      and r: "ret = ucast (drop_bit (bits - w) acc AND mask w) # ret'"
      using 1 True by (auto simp: emit_groups.simps [of w acc bits] split: prod.splits)
    have IH: "bits_be (bits - w) acc = be_bits w ret' @ bits_be rest acc" "rest < w"
      "\<forall>x \<in> set ret'. take_bit w x = x"
      using 1 True e by simp_all
    have "bits_be bits acc = bits_be w (drop_bit (bits - w) acc) @ bits_be (bits - w) acc"
      using bits_be_append [of "bits - w" bits acc] True by simp
    also have "bits_be w (drop_bit (bits - w) acc) =
        bits_be w (ucast (drop_bit (bits - w) acc AND mask w) :: u8)"
      unfolding bits_be_def using 1 by (auto simp: bit_simps)
    finally have "bits_be bits acc = be_bits w ret @ bits_be rest acc"
      using IH(1) r by simp
    moreover have "take_bit w (ucast (drop_bit (bits - w) acc AND mask w) :: u8) =
        ucast (drop_bit (bits - w) acc AND mask w)"
      by (rule bit_word_eqI) (auto simp: bit_simps)
    ultimately show ?thesis using IH r by simp
  qed
qed

lemma push_bits_be:
  assumes "n \<le> 8" and "bits + n \<le> 32" and "take_bit n value = value"
  shows "bits_be (bits + n) (push_bit n acc OR ucast value :: u32) = bits_be bits acc @ bits_be n (value :: u8)"
proof -
  have above: "\<not> bit value i" if "n \<le> i" for i
    using assms(3) that by (metis bit_take_bit_iff not_less)
  have "bits_be bits (drop_bit n (push_bit n acc OR ucast value :: u32)) = bits_be bits acc"
    by (rule bits_be_low) (use assms above in \<open>auto simp: bit_simps\<close>)
  moreover have "bits_be n (push_bit n acc OR ucast value :: u32) = bits_be n value"
    unfolding bits_be_def using assms by (auto simp: bit_simps)
  ultimately show ?thesis
    using bits_be_append [of n "bits + n" "push_bit n acc OR ucast value :: u32"] by simp
qed


lemma last_group_bits:
  assumes "0 < bits" "bits < 5"
  shows "bits_be 5 (ucast (push_bit (5 - bits) acc AND mask 5 :: u32) :: u8) =
    bits_be bits acc @ replicate (5 - bits) False"
proof (rule nth_equalityI)
  show "length (bits_be 5 (ucast (push_bit (5 - bits) acc AND mask 5 :: u32) :: u8)) =
      length (bits_be bits acc @ replicate (5 - bits) False)"
    using assms by simp
  fix i assume "i < length (bits_be 5 (ucast (push_bit (5 - bits) acc AND mask 5 :: u32) :: u8))"
  then have i: "i < 5" by simp
  have e: "4 - i - (5 - bits) = bits - 1 - i" using assms by simp
  show "bits_be 5 (ucast (push_bit (5 - bits) acc AND mask 5 :: u32) :: u8) ! i =
      (bits_be bits acc @ replicate (5 - bits) False) ! i"
    using assms i by (cases "i < bits") (auto simp: nth_append bits_be_nth bit_simps e)
qed

definition is_word5 :: "u8 \<Rightarrow> bool" where
  "is_word5 x \<longleftrightarrow> take_bit 5 x = x"

lemma to_words_loop_bits:
  assumes "bits < 5"
  shows "(\<exists>k < 5. be_bits 5 (to_words_loop data acc bits) = bits_be bits acc @ be_bits 8 data @ replicate k False)
    \<and> (\<forall>x \<in> set (to_words_loop data acc bits). is_word5 x)"
  using assms
proof (induction data acc bits rule: to_words_loop.induct)
  case (1 acc bits)
  have "bits_be 0 acc = []" by (simp add: bits_be_def)
  moreover have "take_bit 5 (ucast (push_bit (5 - bits) acc AND mask 5 :: u32) :: u8) =
      ucast (push_bit (5 - bits) acc AND mask 5 :: u32)"
    by (rule bit_word_eqI) (auto simp: bit_simps)
  ultimately show ?case
    using 1 last_group_bits [of bits acc] by (auto simp: is_word5_def intro: exI [of _ "5 - bits"])
next
  case (2 val data acc bits)
  define acc' where "acc' = push_bit 8 acc OR ucast val"
  obtain ret rest where e: "emit_groups 5 acc' (bits + 8) = (ret, rest)" by fastforce
  have g: "bits_be (bits + 8) acc' = be_bits 5 ret @ bits_be rest acc'" "rest < 5"
    "\<forall>x \<in> set ret. take_bit 5 x = x"
    using emit_groups_bits [OF e] 2(2) by simp_all
  have p: "bits_be (bits + 8) acc' = bits_be bits acc @ bits_be 8 val"
    unfolding acc'_def using 2(2) by (intro push_bits_be) (simp_all add: take_bit_word_eq_self)
  have l: "to_words_loop (val # data) acc bits = ret @ to_words_loop data acc' rest"
    using e by (simp add: acc'_def Let_def)
  have "(\<exists>k < 5. be_bits 5 (to_words_loop data acc' rest) = bits_be rest acc' @ be_bits 8 data @ replicate k False)
    \<and> (\<forall>x \<in> set (to_words_loop data acc' rest). is_word5 x)"
    using 2(1) [OF acc'_def e [symmetric] refl] g(2) by simp
  then obtain k where k: "k < 5"
    "be_bits 5 (to_words_loop data acc' rest) = bits_be rest acc' @ be_bits 8 data @ replicate k False"
    "\<forall>x \<in> set (to_words_loop data acc' rest). is_word5 x" by blast
  have "be_bits 5 (to_words_loop (val # data) acc bits) =
      bits_be bits acc @ be_bits 8 (val # data) @ replicate k False"
    unfolding l using k(2) g(1) p by simp
  moreover have "\<forall>x \<in> set (to_words_loop (val # data) acc bits). is_word5 x"
    unfolding l using k(3) g(3) by (auto simp: is_word5_def)
  ultimately show ?case using k(1) by blast
qed

lemma is_word5_drop: "is_word5 x \<longleftrightarrow> drop_bit 5 x = 0"
  unfolding is_word5_def
  by (metis add.left_neutral bits_ident drop_bit_take_bit diff_self_eq_0 push_bit_of_0 take_bit_0)

lemma from_words_loop_bits:
  assumes "bits < 8" and "\<forall>x \<in> set ws. is_word5 x"
  shows "\<exists>out rest. from_words_loop ws acc bits = Inr out \<and>
    bits_be bits acc @ be_bits 5 ws = be_bits 8 out @ rest \<and> length rest < 8"
  using assms
proof (induction ws acc bits rule: from_words_loop.induct)
  case (1 acc bits)
  then show ?case by simp
next
  case (2 val ws acc bits)
  define acc' where "acc' = push_bit 5 acc OR ucast val"
  obtain ret rest where e: "emit_groups 8 acc' (bits + 5) = (ret, rest)" by fastforce
  have g: "bits_be (bits + 5) acc' = be_bits 8 ret @ bits_be rest acc'" "rest < 8"
    using emit_groups_bits [OF e] 2(2) by simp_all
  have p: "bits_be (bits + 5) acc' = bits_be bits acc @ bits_be 5 val"
    unfolding acc'_def using 2(2,3) by (intro push_bits_be) (simp_all add: is_word5_def)
  have v: "\<not> drop_bit 5 val \<noteq> 0" using 2(3) by (simp add: is_word5_drop)
  obtain out r where IH: "from_words_loop ws acc' rest = Inr out"
    "bits_be rest acc' @ be_bits 5 ws = be_bits 8 out @ r" "length r < 8"
    using 2(1) [OF v acc'_def e [symmetric] refl] g(2) 2(3) by auto
  have "from_words_loop (val # ws) acc bits = Inr (ret @ out)"
    using v e IH(1) by (simp add: acc'_def Let_def)
  moreover have "bits_be bits acc @ be_bits 5 (val # ws) = be_bits 8 (ret @ out) @ r"
    using p g(1) IH(2) by (metis append.assoc be_bits_simps(2,3))
  ultimately show ?case using IH(3) by blast
qed

lemma from_words_bits:
  assumes "\<forall>x \<in> set ws. is_word5 x" and "be_bits 5 ws = be_bits 8 data @ pad" and "length pad < 8"
  shows "from_words ws = Inr data"
proof -
  obtain out rest where o: "from_words ws = Inr out" "be_bits 5 ws = be_bits 8 out @ rest" "length rest < 8"
    using from_words_loop_bits [of 0 ws 0] assms(1) by (auto simp: from_words_def bits_be_def)
  have "8 * length data + length pad = 8 * length out + length rest"
    using arg_cong [OF o(2), of length] arg_cong [OF assms(2), of length] by simp
  then have "length data = length out" using assms(3) o(3) by linarith
  moreover from this have "be_bits 8 data = be_bits 8 out"
    using o(2) assms(2) by (metis append_eq_append_conv length_be_bits)
  ultimately show ?thesis using o(1) be_bits_8_inj by metis
qed

lemma to_words_word5: "x \<in> set (to_words data) \<Longrightarrow> is_word5 x"
  using to_words_loop_bits [of 0 data 0] by (simp add: to_words_def)

lemma to_words_bits: "\<exists>k < 5. be_bits 5 (to_words data) = be_bits 8 data @ replicate k False"
  using to_words_loop_bits [of 0 data 0] by (simp add: to_words_def bits_be_def)

lemma from_to_words: "from_words (to_words data) = Inr data"
  using to_words_bits [of data] from_words_bits [of "to_words data" data] to_words_word5 by auto

end
