(* ===== verification/Bech32mProps.thy ===== *)
theory Bech32mProps
  imports Bech32mLaws
begin

text \<open>
  What the Bech32m code guarantees: round trips of strings and of the three kinds of Midnight
  address, detection of a substituted character, agreement of the two encoders, and the padding
  bits the decoder does not look at.
\<close>

section \<open>Characters\<close>

lemma charset_length [simp]: "length CHARSET = 32"
  by code_simp

lemma charset_rev_code: "\<forall>v \<in> set [0..<32]. CHARSET_REV ! of_char (CHARSET ! v) = int v
    \<and> of_char (CHARSET ! v) < (128 :: nat) \<and> \<not> isupper (CHARSET ! v) \<and> CHARSET ! v \<noteq> CHR ''1''"
  by code_simp

lemma is_word5_less: "is_word5 v \<longleftrightarrow> unat v < 32"
  by (simp add: is_word5_def word_eq_iff_unsigned [where 'a = nat] unsigned_take_bit_eq
      take_bit_nat_eq_self_iff)

lemma charset_char:
  assumes "is_word5 v"
  shows "CHARSET_REV ! of_char (charset_char v) = uint v" "of_char (charset_char v) < (128 :: nat)"
    "\<not> isupper (charset_char v)" "charset_char v \<noteq> CHR ''1''"
proof -
  have "unat v \<in> set [0..<32]" using assms by (simp only: set_upt atLeastLessThan_iff is_word5_less) simp
  from bspec [OF charset_rev_code this]
  show "CHARSET_REV ! of_char (charset_char v) = uint v" "of_char (charset_char v) < (128 :: nat)"
    "\<not> isupper (charset_char v)" "charset_char v \<noteq> CHR ''1''"
    by (simp_all add: charset_char_def)
qed

lemma decode_chars_charset: "\<forall>v \<in> set vs. is_word5 v \<Longrightarrow> decode_chars (map charset_char vs) = Inr vs"
proof (induction vs)
  case Nil
  then show ?case by simp
next
  case (Cons v vs)
  then have v: "is_word5 v" by simp
  have "CHARSET_REV ! of_char (charset_char v) \<noteq> -1"
    unfolding charset_char(1) [OF v] by (metis uint_ge_0 neg_0_le_iff_le not_one_le_zero)
  then show ?case
    using Cons charset_char(1,2) [OF v] by (simp add: Let_def not_le [symmetric])
qed

lemma checksum_word5: "v \<in> set (create_checksum hrp values) \<Longrightarrow> is_word5 v"
proof -
  have m31: "w AND 31 = take_bit 5 w" for w :: u32
    by (simp add: take_bit_eq_mask mask_eq_exp_minus_1)
  have "take_bit 5 (ucast (take_bit 5 w) :: u8) = ucast (take_bit 5 w)" for w :: u32
    by (rule bit_word_eqI) (auto simp: bit_simps)
  then show "v \<in> set (create_checksum hrp values) \<Longrightarrow> is_word5 v"
    by (auto simp: create_checksum_def checksum_words_def is_word5_def Let_def m31
        simp del: take_bit_xor drop_bit_xor)
qed

lemma checksum_length [simp]: "length (create_checksum hrp values) = CHECKSUM_SIZE"
  by (simp add: create_checksum_def checksum_words_def Let_def)

section \<open>Round trip\<close>

lemma verify_create: "verify_checksum hrp (values @ create_checksum hrp values)"
proof -
  have "take_bit 30 BECH32M_CONST = BECH32M_CONST" unfolding BECH32M_CONST_def by simp
  from polymod_step.append_checksum [OF this, of 1 "expand_hrp hrp @ values"]
  show ?thesis
    by (simp add: verify_checksum_def create_checksum_def polymod_def Let_def CHECKSUM_SIZE_def)
qed

lemma words_decode:
  assumes "hrp \<noteq> []" and "\<forall>c \<in> set hrp. \<not> isupper c" and "ws \<noteq> []" and "\<forall>v \<in> set ws. is_word5 v"
  shows "bech32m_decode (hrp @ ''1'' @ map charset_char (ws @ create_checksum hrp ws)) =
    rbind (from_words ws) (\<lambda>data. Inr \<lparr>hrp_of = hrp, data_of = data\<rparr>)"
proof -
  let ?cs = "create_checksum hrp ws"
  let ?s = "hrp @ ''1'' @ map charset_char (ws @ ?cs)"
  have w5: "\<forall>v \<in> set (ws @ ?cs). is_word5 v" using assms(4) checksum_word5 by auto
  have "CHR ''1'' \<notin> set (map charset_char (ws @ ?cs))"
    using w5 by (metis (no_types) charset_char(4) imageE set_map)
  then have pos: "rfind_char (CHR ''1'') ?s = Some (length hrp)"
    using rfind_char_last [of "CHR ''1''" "map charset_char (ws @ ?cs)" hrp] by simp
  have upper: "\<not> list_ex isupper ?s"
    using assms(2) w5 charset_char(3) by (auto simp: list_ex_iff isupper_def char_in_def)
  have lower: "map tolower (take (length hrp) ?s) = hrp"
    using assms(2) by (simp add: map_idI tolower_def)
  have "map charset_char (ws @ ?cs) = drop (length hrp + 1) ?s" by simp
  then have chars: "decode_chars (drop (length hrp + 1) ?s) = Inr (ws @ ?cs)"
    using decode_chars_charset [OF w5] by simp
  have len: "length hrp \<noteq> 0" "\<not> length ?s \<le> length hrp + CHECKSUM_SIZE"
    using assms(1,3) by simp_all
  show ?thesis
    unfolding bech32m_decode_def pos option.case if_not_P [OF len(1)] Let_def chars lower rbind_Inr
    using len upper verify_create by (simp del: map_append)
qed

lemma to_words_not_Nil: "data \<noteq> [] \<Longrightarrow> to_words data \<noteq> []"
  using to_words_bits [of data] by (cases data) (auto simp: bits_be_def)

lemma words_roundtrip:
  "hrp \<noteq> [] \<Longrightarrow> \<forall>c \<in> set hrp. \<not> isupper c \<Longrightarrow> data \<noteq> [] \<Longrightarrow>
   bech32m_decode (bech32m_encode hrp data) = Inr \<lparr>hrp_of = hrp, data_of = data\<rparr>"
  using words_decode [of hrp "to_words data"] to_words_word5 [of _ data] to_words_not_Nil [of data]
  by (simp add: bech32m_encode_def Let_def from_to_words)

text \<open>
  C12: Bech32m round trip. For a non-empty human-readable part without upper-case letters (it may
  contain the separator) and any non-empty data, decoding the encoded string returns exactly the
  part and the data.
\<close>

theorem bech32m_roundtrip:
  assumes "hrp \<noteq> []" and "\<forall>c \<in> set hrp. \<not> isupper c" and "data \<noteq> []"
  shows "bech32m_decode (bech32m_encode hrp data) = Inr \<lparr>hrp_of = hrp, data_of = data\<rparr>"
  using assms by (rule words_roundtrip)

theorem bech32m_roundtrip_witness:
  "bech32m_decode (bech32m_encode ''a1b'' [0xDE, 0xAD]) = Inr \<lparr>hrp_of = ''a1b'', data_of = [0xDE, 0xAD]\<rparr>"
  by (rule bech32m_roundtrip) (simp_all add: cctype_defs)

text \<open>
  C14: the checksum detects every substitution of one symbol, in a data part of any length: if a
  part verifies, no part that differs from it in one position does.
\<close>

theorem checksum_detects_substitution:
  assumes "verify_checksum hrp values" and "i < length values" and "x \<noteq> values ! i"
  shows "\<not> verify_checksum hrp (values[i := x])"
proof -
  have v: "values = take i values @ values ! i # drop (Suc i) values"
    using assms(2) by (rule id_take_nth_drop)
  have "values[i := x] = take i values @ x # drop (Suc i) values"
    using assms(2) by (simp add: upd_conv_take_nth_drop)
  then show ?thesis
    using assms(1) polymod_step.substitution_detected [OF assms(3), of 1 "expand_hrp hrp @ take i values" "drop (Suc i) values"]
      v by (metis append.assoc polymod_def verify_checksum_def)
qed

theorem checksum_detects_substitution_witness:
  "\<not> verify_checksum ''a'' ((create_checksum ''a'' [])[2 := 1])"
proof (rule checksum_detects_substitution)
  show "verify_checksum ''a'' (create_checksum ''a'' [])" using verify_create [of "''a''" "[]"] by simp
  show "2 < length (create_checksum ''a'' [])" by (simp add: CHECKSUM_SIZE_def)
  show "1 \<noteq> create_checksum ''a'' [] ! 2" by code_simp
qed


section \<open>Padding\<close>

text \<open>
  \<^verbatim>\<open>decode\<close> ignores the padding bits. A 32-byte key leaves four of them in its last symbol, and
  the test for them has an empty body: with any other value in those bits, and the checksum that
  goes with it, the string still decodes to the same key. Sixteen address strings stand for each
  key, where BIP-173 asks a decoder to reject non-zero padding.
\<close>

theorem bech32m_padding_ignored:
  assumes "hrp \<noteq> []" and "\<forall>c \<in> set hrp. \<not> isupper c" and "length data = 32"
    and "unat x < 32" and "bit x 4 = bit (last (to_words data)) 4"
  defines "ws \<equiv> butlast (to_words data) @ [x]"
  shows "bech32m_decode (hrp @ ''1'' @ map charset_char (ws @ create_checksum hrp ws)) =
    Inr \<lparr>hrp_of = hrp, data_of = data\<rparr>"
proof -
  obtain k where k: "k < 5" "be_bits 5 (to_words data) = be_bits 8 data @ replicate k False"
    using to_words_bits by blast
  have l: "5 * length (to_words data) = 256 + k"
    using arg_cong [OF k(2), of length] assms(3) by simp
  then have k4: "k = 4" using k(1) by presburger
  have ne: "to_words data \<noteq> []" using l by auto
  define y where "y = last (to_words data)"
  have w: "to_words data = butlast (to_words data) @ [y]" using ne by (simp add: y_def)
  have five: "bits_be 5 z = bit z 4 # [bit z 3, bit z 2, bit z 1, bit z 0]" for z :: u8
    by (simp add: bits_be_def upt_rec)
  have "be_bits 5 (butlast (to_words data)) @ [bit y 4] @ [bit y 3, bit y 2, bit y 1, bit y 0] =
      be_bits 8 data @ replicate 4 False"
    using k(2) w five [of y] by (metis append.left_neutral append_Cons append_Nil2 be_bits_simps k4)
  then have d: "be_bits 5 (butlast (to_words data)) @ [bit y 4] = be_bits 8 data"
    using append_eq_append_conv [of "be_bits 5 (butlast (to_words data)) @ [bit y 4]" "be_bits 8 data"
        "[bit y 3, bit y 2, bit y 1, bit y 0]" "replicate 4 False"] by simp
  have "be_bits 5 ws = be_bits 8 data @ [bit x 3, bit x 2, bit x 1, bit x 0]"
    using assms(5) d by (simp add: ws_def five flip: y_def)
  moreover have w5: "\<forall>v \<in> set ws. is_word5 v"
    using assms(4) to_words_word5 in_set_butlastD by (fastforce simp: ws_def is_word5_less)
  ultimately have "from_words ws = Inr data"
    using from_words_bits [of ws data "[bit x 3, bit x 2, bit x 1, bit x 0]"] by simp
  then show ?thesis
    using words_decode [OF assms(1,2) _ w5] by (simp add: ws_def)
qed

theorem bech32m_padding_ignored_witness:
  "bech32m_decode (''mn_addr'' @ ''1'' @
      map charset_char ((replicate 51 0 @ [5]) @ create_checksum ''mn_addr'' (replicate 51 0 @ [5]))) =
    Inr \<lparr>hrp_of = ''mn_addr'', data_of = replicate 32 0\<rparr>"
proof -
  have w: "to_words (replicate 32 0) = replicate 52 0" by code_simp
  have b: "butlast (replicate 52 0 :: bytes) = replicate 51 0" by (simp add: butlast_conv_take)
  have h: "\<forall>c \<in> set ''mn_addr''. \<not> isupper c" by (simp add: cctype_defs)
  have l: "last (replicate 52 0 :: bytes) = 0" by (simp add: last_replicate)
  have n: "\<not> bit (5 :: u8) 4" by simp
  show ?thesis
    using bech32m_padding_ignored [where hrp = "''mn_addr''" and data = "replicate 32 0" and x = 5] h l n
    unfolding w b by simp
qed

section \<open>The two encoders\<close>

lemma convert_loop_eq:
  assumes "bits < 5"
  shows "\<exists>ret acc' b. convert_loop 8 5 data (take_bit 12 acc) bits = (ret, take_bit 12 acc', b) \<and> b < 5 \<and>
    to_words_loop data acc bits =
      ret @ (if b \<noteq> 0 then [ucast (push_bit (5 - b) acc' AND mask 5)] else [])"
  using assms
proof (induction data arbitrary: acc bits)
  case Nil
  then show ?case by auto
next
  case (Cons v data)
  have emit: "emit_groups 5 (take_bit 12 a) n = emit_groups 5 a n" if "n \<le> 12" for a n
    using that
  proof (induction "5 :: nat" a n rule: emit_groups.induct)
    case (1 a n)
    have "drop_bit (n - 5) (take_bit 12 a) AND mask 5 = drop_bit (n - 5) a AND mask 5" if "5 \<le> n"
      using that 1(2) by (intro bit_word_eqI) (auto simp: bit_simps)
    then show ?case
      using 1 by (simp add: emit_groups.simps [of 5 a n] emit_groups.simps [of 5 "take_bit 12 a" n])
  qed
  define a where "a = push_bit 8 acc OR ucast v"
  obtain ret rest where e: "emit_groups 5 a (bits + 8) = (ret, rest)" by fastforce
  have r: "rest < 5" using emit_groups_bits [OF e] Cons.prems by simp
  have t: "(push_bit 8 (take_bit 12 acc) OR ucast v) AND mask (8 + 5 - 1) = take_bit 12 a"
    unfolding a_def by (rule bit_word_eqI) (auto simp: bit_simps)
  obtain ret' acc' b where c: "convert_loop 8 5 data (take_bit 12 a) rest = (ret', take_bit 12 acc', b)"
    "b < 5" "to_words_loop data a rest = ret' @ (if b \<noteq> 0 then [ucast (push_bit (5 - b) acc' AND mask 5)] else [])"
    using Cons.IH [OF r, of a] by blast
  have "convert_loop 8 5 (v # data) (take_bit 12 acc) bits = (ret @ ret', take_bit 12 acc', b)"
    using emit [of "bits + 8" a] e c(1) Cons.prems
    unfolding convert_loop.simps t Let_def by simp
  moreover have "to_words_loop (v # data) acc bits = ret @ to_words_loop data a rest"
    using e by (simp add: a_def Let_def)
  ultimately show ?case using c(2,3) by auto
qed

lemma convert_bits_eq: "convert_bits data 8 5 True = to_words data"
proof -
  obtain ret acc' b where c: "convert_loop 8 5 data 0 0 = (ret, take_bit 12 acc', b)" "b < 5"
    "to_words data = ret @ (if b \<noteq> 0 then [ucast (push_bit (5 - b) acc' AND mask 5)] else [])"
    using convert_loop_eq [of 0 data 0] by (auto simp: to_words_def)
  have "push_bit (5 - b) (take_bit 12 acc') AND mask 5 = push_bit (5 - b) acc' AND mask 5"
    by (rule bit_word_eqI) (auto simp: bit_simps)
  then show ?thesis using c by (simp add: convert_bits_def Let_def)
qed

text \<open>
  the two Bech32m encoders agree. \<^verbatim>\<open>midnight::util::bech32m::encode\<close>, with its table-driven
  checksum loop and masked accumulator, returns the same string as \<^verbatim>\<open>wallet::bech32m::encode\<close> for
  every human-readable part and payload.
\<close>

theorem bech32m_encoders_agree: "util_bech32m_encode hrp payload = bech32m_encode hrp payload"
  by (simp add: util_bech32m_encode_def bech32m_encode_def convert_bits_eq create_checksum_def
      checksum_words_def CHECKSUM_SIZE_def util_polymod_def polymod_def util_polymod_step_eq
      hrp_expand_def expand_hrp_def Let_def)


section \<open>Addresses\<close>

lemma get_hrp_lower:
  "\<forall>c \<in> set (get_hrp ''addr'' n). \<not> isupper c" "\<forall>c \<in> set (get_hrp ''shield-addr'' n). \<not> isupper c"
  "\<forall>c \<in> set (get_hrp ''dust'' n). \<not> isupper c" "get_hrp t n \<noteq> []"
  by (cases n; simp add: get_hrp_def cctype_defs)+

text \<open>
  Midnight addresses round trip on every network: a 32-byte key through an unshielded address,
  a pair of 32-byte keys through a shielded one, and a 32-byte scalar through a dust address, whose
  SCALE prefix the decoder drops.
\<close>

theorem address_roundtrip:
  assumes "length pk = 32" and "length enc_pk = 32"
  shows "(\<exists>s. encode_unshielded pk n = Inr s \<and> decode_unshielded s = Inr pk) \<and>
    (\<exists>s. encode_shielded pk enc_pk n = Inr s \<and> decode_shielded s =
       Inr \<lparr>coin_public_key = pk, encryption_public_key = enc_pk\<rparr>) \<and>
    (\<exists>s. encode_dust_from_pubkey pk n = Inr s \<and> decode_dust s = Inr pk)"
proof -
  have "pk \<noteq> []" using assms by auto
  have "bech32m_decode (bech32m_encode (get_hrp ''addr'' n) pk) = Inr \<lparr>hrp_of = get_hrp ''addr'' n, data_of = pk\<rparr>"
    using words_roundtrip [OF get_hrp_lower(4) get_hrp_lower(1)] \<open>pk \<noteq> []\<close> by simp
  moreover have "take 7 (get_hrp ''addr'' n) = ''mn_addr''" by (simp add: get_hrp_def)
  ultimately have u: "\<exists>s. encode_unshielded pk n = Inr s \<and> decode_unshielded s = Inr pk"
    using assms by (simp add: encode_unshielded_def decode_unshielded_def)
  have "bech32m_decode (bech32m_encode (get_hrp ''shield-addr'' n) (pk @ enc_pk)) =
      Inr \<lparr>hrp_of = get_hrp ''shield-addr'' n, data_of = pk @ enc_pk\<rparr>"
    using words_roundtrip [OF get_hrp_lower(4) get_hrp_lower(2)] \<open>pk \<noteq> []\<close> by simp
  moreover have "take 14 (get_hrp ''shield-addr'' n) = ''mn_shield-addr''" by (simp add: get_hrp_def)
  ultimately have s: "\<exists>s. encode_shielded pk enc_pk n = Inr s \<and> decode_shielded s =
       Inr \<lparr>coin_public_key = pk, encryption_public_key = enc_pk\<rparr>"
    using assms by (simp add: encode_shielded_def decode_shielded_def)
  have "bech32m_decode (bech32m_encode (get_hrp ''dust'' n) (x # pk)) =
      Inr \<lparr>hrp_of = get_hrp ''dust'' n, data_of = x # pk\<rparr>" for x
    using words_roundtrip [OF get_hrp_lower(4) get_hrp_lower(3)] by simp
  moreover have "take 7 (get_hrp ''dust'' n) = ''mn_dust''" by (simp add: get_hrp_def)
  ultimately have "\<exists>s. encode_dust_from_pubkey pk n = Inr s \<and> decode_dust s = Inr pk"
    using assms \<open>pk \<noteq> []\<close> by (simp add: encode_dust_from_pubkey_def encode_dust_def decode_dust_def Let_def)
  with u s show ?thesis by blast
qed

theorem address_roundtrip_witness:
  "(\<exists>s. encode_unshielded (replicate 32 7) PreProd = Inr s \<and> decode_unshielded s = Inr (replicate 32 7)) \<and>
   (\<exists>s. encode_shielded (replicate 32 7) (replicate 32 9) PreProd = Inr s \<and> decode_shielded s =
       Inr \<lparr>coin_public_key = replicate 32 7, encryption_public_key = replicate 32 9\<rparr>) \<and>
   (\<exists>s. encode_dust_from_pubkey (replicate 32 7) PreProd = Inr s \<and> decode_dust s = Inr (replicate 32 7))"
  by (rule address_roundtrip) simp_all

text \<open>Network names are read back in any letter case, and anything else is \<open>Preview\<close>.\<close>

lemma network_name_roundtrip: "network_from_string (network_to_string n) = n"
  by (cases n) (simp_all add: network_from_string_def cctype_defs)

end
