(* ===== verification/Mqtt.thy ===== *)
theory Mqtt
  imports Prelude
begin

text \<open>
  MQTT 3.1.1 packets (include/midnight/protocols/mqtt/mqtt_protocol.hpp and
  src/protocols/mqtt/mqtt_protocol.cpp). A pointer with a size is the list of the bytes it spans;
  a pointer advanced by reference is the rest of that list. The enumerations have a fixed
  underlying type, so a cast may give a value that is no enumerator: each has a constructor for
  those. A member the code leaves uninitialised is \<open>None\<close>.
\<close>

section \<open>Data\<close>

datatype packet_type =
    CONNECT | CONNACK | PUBLISH | PUBACK | PUBREC | PUBREL | PUBCOMP | SUBSCRIBE | SUBACK
  | UNSUBSCRIBE | UNSUBACK | PINGREQ | PINGRESP | DISCONNECT | AUTH | Packet_other u8

fun packet_code :: "packet_type \<Rightarrow> u8" where
  "packet_code CONNECT = 1" | "packet_code CONNACK = 2" | "packet_code PUBLISH = 3"
| "packet_code PUBACK = 4" | "packet_code PUBREC = 5" | "packet_code PUBREL = 6"
| "packet_code PUBCOMP = 7" | "packet_code SUBSCRIBE = 8" | "packet_code SUBACK = 9"
| "packet_code UNSUBSCRIBE = 10" | "packet_code UNSUBACK = 11" | "packet_code PINGREQ = 12"
| "packet_code PINGRESP = 13" | "packet_code DISCONNECT = 14" | "packet_code AUTH = 15"
| "packet_code (Packet_other b) = b"

definition packet_of :: "u8 \<Rightarrow> packet_type" where
  "packet_of b =
     (case List.find (\<lambda>t. packet_code t = b)
        [CONNECT, CONNACK, PUBLISH, PUBACK, PUBREC, PUBREL, PUBCOMP, SUBSCRIBE, SUBACK,
         UNSUBSCRIBE, UNSUBACK, PINGREQ, PINGRESP, DISCONNECT, AUTH]
      of Some t \<Rightarrow> t | None \<Rightarrow> Packet_other b)"

datatype connect_flag = CLEAN_SESSION | WILL_FLAG | WILL_QOS_0 | WILL_QOS_1 | WILL_QOS_2
  | WILL_RETAIN | PASSWORD | USERNAME

fun connect_flag_code :: "connect_flag \<Rightarrow> u8" where
  "connect_flag_code CLEAN_SESSION = 0x02" | "connect_flag_code WILL_FLAG = 0x04"
| "connect_flag_code WILL_QOS_0 = 0x00" | "connect_flag_code WILL_QOS_1 = 0x08"
| "connect_flag_code WILL_QOS_2 = 0x10" | "connect_flag_code WILL_RETAIN = 0x20"
| "connect_flag_code PASSWORD = 0x40" | "connect_flag_code USERNAME = 0x80"

datatype connack_return_code = ACCEPTED | UNACCEPTABLE_PROTOCOL | IDENTIFIER_REJECTED
  | SERVER_UNAVAILABLE | BAD_CREDENTIALS | NOT_AUTHORIZED | Connack_other u8

definition connack_code_of :: "u8 \<Rightarrow> connack_return_code" where
  "connack_code_of b =
     (if b = 0 then ACCEPTED else if b = 1 then UNACCEPTABLE_PROTOCOL
      else if b = 2 then IDENTIFIER_REJECTED else if b = 3 then SERVER_UNAVAILABLE
      else if b = 4 then BAD_CREDENTIALS else if b = 5 then NOT_AUTHORIZED else Connack_other b)"

datatype qos = AT_MOST_ONCE | AT_LEAST_ONCE | EXACTLY_ONCE | Qos_other u8

fun qos_code :: "qos \<Rightarrow> u8" where
  "qos_code AT_MOST_ONCE = 0" | "qos_code AT_LEAST_ONCE = 1" | "qos_code EXACTLY_ONCE = 2"
| "qos_code (Qos_other b) = b"

definition qos_of :: "u8 \<Rightarrow> qos" where
  "qos_of b = (if b = 0 then AT_MOST_ONCE else if b = 1 then AT_LEAST_ONCE
     else if b = 2 then EXACTLY_ONCE else Qos_other b)"

record connect_payload =
  client_id :: string
  will_topic :: string
  will_message :: string
  username :: string
  password :: string
  keep_alive :: u16
  clean_session :: bool
  will_retain :: bool
  will_qos :: qos

record publish_packet =
  pub_topic :: string
  pub_payload :: string
  pub_packet_id :: u16
  pub_qos :: qos
  pub_dup :: bool
  pub_retain :: bool

record subscribe_topic =
  sub_topic :: string
  sub_qos :: qos

section \<open>Variable-length integers\<close>

text \<open>\<^verbatim>\<open>do { byte = remaining % 128; remaining /= 128; ... } while (remaining > 0)\<close>\<close>

definition rl_byte :: "'a :: len word \<Rightarrow> u8" where
  "rl_byte r = (let byte = (ucast (r mod 128) :: u8) in if 0 < r div 128 then byte OR 0x80 else byte)"

function rl_bytes :: "u32 \<Rightarrow> bytes" where
  "rl_bytes rl = rl_byte rl # (if 0 < rl div 128 then rl_bytes (rl div 128) else [])"
  by pat_completeness auto
termination
proof (relation "measure unat")
  fix rl :: u32
  assume "0 < rl div 128"
  then have "0 < unat rl div 128" by (simp add: word_less_nat_alt unat_div_distrib)
  then show "(rl div 128, rl) \<in> measure unat"
    by (simp add: unat_div_distrib)
qed simp

declare rl_bytes.simps [simp del]

text \<open>The stand-alone function packs the same bytes into 32 bits, the first in the high end.\<close>

function encode_rl_loop :: "u64 \<Rightarrow> u32 \<Rightarrow> u32" where
  "encode_rl_loop remaining encoded =
     (let encoded = push_bit 8 encoded OR ucast (rl_byte remaining);
          remaining = remaining div 128
      in if 0 < remaining then encode_rl_loop remaining encoded else encoded)"
  by pat_completeness auto
termination
proof (relation "measure (\<lambda>(r, _). unat r)")
  fix remaining r :: u64 and encoded e :: u32
  assume "r = remaining div 128" and "0 < r"
  then have "0 < unat remaining div 128" "unat r = unat remaining div 128"
    by (simp_all add: word_less_nat_alt unat_div_distrib)
  then show "((r, e), remaining, encoded) \<in> measure (\<lambda>(r, _). unat r)"
    by simp
qed simp

declare encode_rl_loop.simps [simp del]

definition encode_remaining_length :: "u64 \<Rightarrow> u32" where
  "encode_remaining_length n = encode_rl_loop n 0"

text \<open>
  \<^verbatim>\<open>for (i = 0; i < max_len && i < 4; ++i)\<close> with its \<^verbatim>\<open>break\<close>: \<open>fuel\<close> is the four of the bound, the
  list the bytes up to \<^verbatim>\<open>max_len\<close>.
\<close>

fun decode_rl_loop :: "nat \<Rightarrow> bytes \<Rightarrow> u32 \<Rightarrow> u32 \<Rightarrow> nat \<Rightarrow> nat \<times> u32" where
  "decode_rl_loop (Suc fuel) (byte # data) out_len multiplier bytes_used =
     (let out_len = out_len + ucast (byte AND 0x7F) * multiplier;
          bytes_used = Suc bytes_used
      in if byte AND 0x80 = 0 then (bytes_used, out_len)
         else decode_rl_loop fuel data out_len (multiplier * 128) bytes_used)"
| "decode_rl_loop _ _ out_len multiplier bytes_used = (bytes_used, out_len)"

definition decode_remaining_length :: "bytes \<Rightarrow> nat \<times> u32" where
  "decode_remaining_length data = decode_rl_loop 4 data 0 1 0"

section \<open>Strings and 16-bit integers\<close>

definition be16_bytes :: "u16 \<Rightarrow> bytes" where
  "be16_bytes v = [ucast (drop_bit 8 v AND 0xFF), ucast (v AND 0xFF)]"

definition encode_be16 :: "bytes \<Rightarrow> u16 \<Rightarrow> bytes" where
  "encode_be16 out v = out @ be16_bytes v"

definition encode_utf8_string :: "bytes \<Rightarrow> string \<Rightarrow> bytes" where
  "encode_utf8_string out str =
     out @ be16_bytes (word_of_nat (length str)) @ map byte_of_char str"

definition be16_of :: "u8 \<Rightarrow> u8 \<Rightarrow> u16" where
  "be16_of b0 b1 = push_bit 8 (ucast b0) OR ucast b1"

fun decode_be16 :: "bytes \<Rightarrow> u16 result" where
  "decode_be16 (b0 # b1 # _) = Inr (be16_of b0 b1)"
| "decode_be16 _ = Inl Undefined_behaviour"

fun decode_utf8_string :: "bytes \<Rightarrow> string \<times> bytes" where
  "decode_utf8_string (b0 # b1 # data) =
     (let len = unat (be16_of b0 b1)
      in if length data < len then ([], data)
         else (map char_of_byte (take len data), drop len data))"
| "decode_utf8_string data = ([], data)"

section \<open>Building packets\<close>

definition set_flag :: "bool \<Rightarrow> u8 \<Rightarrow> u8 \<Rightarrow> u8" where
  "set_flag b flag w = (if b then w OR flag else w)"

definition connect_flags :: "connect_payload \<Rightarrow> u8" where
  "connect_flags p =
     (let has_will = will_topic p \<noteq> [];
          w = set_flag (clean_session p) (connect_flag_code CLEAN_SESSION) 0;
          w = (if has_will
               then set_flag (will_retain p) (connect_flag_code WILL_RETAIN)
                      ((w OR connect_flag_code WILL_FLAG) OR push_bit 3 (qos_code (will_qos p)))
               else w);
          w = set_flag (username p \<noteq> []) (connect_flag_code USERNAME) w
      in set_flag (password p \<noteq> []) (connect_flag_code PASSWORD) w)"

definition build_connect_packet :: "connect_payload \<Rightarrow> bytes" where
  "build_connect_packet p =
     (let has_will = will_topic p \<noteq> [];
          payload_size = 2 + length (client_id p)
            + (if has_will then 2 + length (will_topic p) + (2 + length (will_message p)) else 0)
            + (if username p \<noteq> [] then 2 + length (username p) else 0)
            + (if password p \<noteq> [] then 2 + length (password p) else 0);
          remaining_length = 10 + payload_size;
          packet = [push_bit 4 (packet_code CONNECT)] @ rl_bytes (word_of_nat remaining_length);
          packet = packet @ [0x00, 0x04] @ map byte_of_char ''MQTT'' @ [0x04];
          packet = packet @ [connect_flags p];
          packet = packet @ [ucast (drop_bit 8 (keep_alive p)), ucast (keep_alive p AND 0xFF)];
          packet = encode_utf8_string packet (client_id p);
          packet = (if has_will
                    then encode_utf8_string (encode_utf8_string packet (will_topic p)) (will_message p)
                    else packet);
          packet = (if username p \<noteq> [] then encode_utf8_string packet (username p) else packet)
      in if password p \<noteq> [] then encode_utf8_string packet (password p) else packet)"

definition build_publish_packet :: "publish_packet \<Rightarrow> bytes" where
  "build_publish_packet pub =
     (let variable_header_size = 2 + length (pub_topic pub) + (if pub_qos pub \<noteq> AT_MOST_ONCE then 2 else 0);
          remaining_length = variable_header_size + length (pub_payload pub);
          fixed_byte = push_bit 4 (packet_code PUBLISH);
          fixed_byte = set_flag (pub_dup pub) 0x08 fixed_byte;
          fixed_byte = set_flag (pub_retain pub) 0x01 fixed_byte;
          fixed_byte = fixed_byte OR push_bit 1 (qos_code (pub_qos pub));
          packet = [fixed_byte] @ rl_bytes (word_of_nat remaining_length);
          packet = encode_utf8_string packet (pub_topic pub);
          packet = (if pub_qos pub \<noteq> AT_MOST_ONCE then encode_be16 packet (pub_packet_id pub) else packet)
      in packet @ map byte_of_char (pub_payload pub))"

definition build_puback_packet :: "u16 \<Rightarrow> bytes" where
  "build_puback_packet packet_id = encode_be16 [push_bit 4 (packet_code PUBACK), 0x02] packet_id"

definition build_pubrec_packet :: "u16 \<Rightarrow> bytes" where
  "build_pubrec_packet packet_id = encode_be16 [push_bit 4 (packet_code PUBREC), 0x02] packet_id"

definition build_pubrel_packet :: "u16 \<Rightarrow> bytes" where
  "build_pubrel_packet packet_id =
     encode_be16 [push_bit 4 (packet_code PUBREL) OR 0x02, 0x02] packet_id"

definition build_pubcomp_packet :: "u16 \<Rightarrow> bytes" where
  "build_pubcomp_packet packet_id = encode_be16 [push_bit 4 (packet_code PUBCOMP), 0x02] packet_id"

definition build_subscribe_packet :: "u16 \<Rightarrow> subscribe_topic list \<Rightarrow> bytes" where
  "build_subscribe_packet packet_id topics =
     (let payload_size = sum_list (map (\<lambda>t. 2 + length (sub_topic t) + 1) topics);
          remaining_length = 2 + payload_size;
          packet = [push_bit 4 (packet_code SUBSCRIBE) OR 0x02] @ rl_bytes (word_of_nat remaining_length);
          packet = encode_be16 packet packet_id
      in foldl (\<lambda>packet t. encode_utf8_string packet (sub_topic t) @ [qos_code (sub_qos t)]) packet topics)"

definition build_unsubscribe_packet :: "u16 \<Rightarrow> string list \<Rightarrow> bytes" where
  "build_unsubscribe_packet packet_id topics =
     (let payload_size = sum_list (map (\<lambda>t. 2 + length t) topics);
          remaining_length = 2 + payload_size;
          packet = [push_bit 4 (packet_code UNSUBSCRIBE) OR 0x02] @ rl_bytes (word_of_nat remaining_length);
          packet = encode_be16 packet packet_id
      in foldl encode_utf8_string packet topics)"

definition build_pingreq_packet :: bytes where
  "build_pingreq_packet = [push_bit 4 (packet_code PINGREQ), 0x00]"

definition build_disconnect_packet :: bytes where
  "build_disconnect_packet = [push_bit 4 (packet_code DISCONNECT), 0x00]"

section \<open>Parsing packets\<close>

record parsed_packet =
  packet_kind :: "packet_type option"
  flags :: "u8 option"
  payload :: bytes
  parse_error :: string

fun parse_packet :: "bytes \<Rightarrow> parsed_packet" where
  "parse_packet (b # c # data) =
     (let result = \<lparr>packet_kind = Some (packet_of (drop_bit 4 b)), flags = Some (b AND 0x0F),
                     payload = [], parse_error = []\<rparr>;
          (rl_used, remaining_length) = decode_remaining_length (c # data);
          n = unat remaining_length
      in if rl_used = 0 \<or> length (b # c # data) < 1 + rl_used + n
         then result\<lparr>parse_error := ''Invalid remaining length or incomplete packet''\<rparr>
         else result\<lparr>payload := take n (drop (1 + rl_used) (b # c # data))\<rparr>)"
| "parse_packet _ =
     \<lparr>packet_kind = None, flags = None, payload = [], parse_error = ''Packet too small''\<rparr>"

record connack_data =
  session_present :: bool
  connack_code :: connack_return_code

fun parse_connack :: "bytes \<Rightarrow> connack_data" where
  "parse_connack (b0 # b1 # _) =
     \<lparr>session_present = (b0 AND 0x01 \<noteq> 0), connack_code = connack_code_of b1\<rparr>"
| "parse_connack _ = \<lparr>session_present = False, connack_code = ACCEPTED\<rparr>"

fun parse_puback :: "bytes \<Rightarrow> u16" where
  "parse_puback (b0 # b1 # _) = be16_of b0 b1"
| "parse_puback _ = 0"

record suback_data =
  suback_packet_id :: u16
  return_codes :: bytes

fun parse_suback :: "bytes \<Rightarrow> suback_data" where
  "parse_suback (b0 # b1 # b2 # rest) =
     \<lparr>suback_packet_id = be16_of b0 b1, return_codes = b2 # rest\<rparr>"
| "parse_suback _ = \<lparr>suback_packet_id = 0, return_codes = []\<rparr>"

definition parse_publish :: "u8 \<Rightarrow> bytes \<Rightarrow> publish_packet" where
  "parse_publish fixed data =
     (let q = qos_of (drop_bit 1 fixed AND 0x03);
          result = \<lparr>pub_topic = [], pub_payload = [], pub_packet_id = 0, pub_qos = q,
                    pub_dup = (fixed AND 0x08 \<noteq> 0), pub_retain = (fixed AND 0x01 \<noteq> 0)\<rparr>
      in if length data < 2 then result
         else
           (let (topic, rest) = decode_utf8_string data;
                (packet_id, rest) =
                  (if q \<noteq> AT_MOST_ONCE \<and> 2 \<le> length rest
                   then (be16_of (rest ! 0) (rest ! 1), drop 2 rest) else (0, rest))
            in result\<lparr>pub_topic := topic, pub_packet_id := packet_id,
                      pub_payload := map char_of_byte rest\<rparr>))"

end
