(* ===== verification/MqttProps.thy ===== *)
theory MqttProps
  imports Mqtt
begin

text \<open>
  What the MQTT packet code guarantees: the variable-length integer and every packet the client
  builds are read back by the parsers, as long as the lengths fit their fields, and what happens
  to a string of 65536 bytes or more.
\<close>

section \<open>Variable-length integers\<close>

lemma mod_128: "r mod 128 = take_bit 7 (r :: 'a :: len word)"
  by (simp add: take_bit_eq_mod)

lemma and_80: "(w AND 0x80 = 0) = (\<not> bit w 7)" for w :: u8
  using and_exp_eq_0_iff_not_bit [of w 7] by simp

lemma rl_byte_bits:
  fixes r :: u32
  shows "ucast (rl_byte r AND 0x7F) = r mod 128" and "rl_byte r AND 0x80 = 0 \<longleftrightarrow> r div 128 = 0"
proof -
  have m: "w AND 0x7F = take_bit 7 w" for w :: u8
    by (simp add: take_bit_eq_mask mask_eq_exp_minus_1)
  have e: "(0x80 :: u8) = push_bit 7 1" by simp
  have "take_bit 7 (ucast (take_bit 7 r) OR (0x80 :: u8)) = ucast (take_bit 7 r)"
    unfolding e by (rule bit_word_eqI) (auto simp: bit_simps)
  moreover have "ucast (take_bit 7 (ucast (take_bit 7 r) :: u8)) = take_bit 7 r"
    by (rule bit_word_eqI) (auto simp: bit_simps)
  ultimately show "ucast (rl_byte r AND 0x7F) = r mod 128"
    unfolding rl_byte_def Let_def m mod_128 by (auto simp: take_bit_word_eq_self)
  have "\<not> bit (ucast (take_bit 7 r) :: u8) 7" by (simp add: bit_simps)
  moreover have "bit (ucast (take_bit 7 r) OR (0x80 :: u8)) 7"
    unfolding e by (simp add: bit_simps)
  ultimately show "rl_byte r AND 0x80 = 0 \<longleftrightarrow> r div 128 = 0"
    unfolding rl_byte_def Let_def and_80 mod_128 by (simp add: word_gt_0)
qed

lemma decode_rl_loop_enc:
  assumes "unat r < 128 ^ Suc fuel"
  shows "decode_rl_loop (Suc fuel) (rl_bytes r @ rest) out mult used =
    (used + length (rl_bytes r), out + r * mult)"
  using assms
proof (induction fuel arbitrary: r out mult used)
  case 0
  then have "unat (r div 128) = 0" by (simp add: unat_div_distrib)
  then have z: "r div 128 = 0" by (simp add: unat_eq_0)
  moreover have "128 * (r div 128) + r mod 128 = r" by (rule mult_div_mod_eq)
  ultimately have "r mod 128 = r" by simp
  with z show ?case by (simp add: rl_bytes.simps [of r] rl_byte_bits Let_def)
next
  case (Suc fuel)
  have b: "rl_bytes r = rl_byte r # (if 0 < r div 128 then rl_bytes (r div 128) else [])"
    by (rule rl_bytes.simps)
  have eq: "128 * (r div 128) + r mod 128 = r" by (rule mult_div_mod_eq)
  show ?case
  proof (cases "r div 128 = 0")
    case True
    then have "r mod 128 = r" using eq by simp
    with True show ?thesis by (simp add: b rl_byte_bits Let_def)
  next
    case False
    have "unat (r div 128) < 128 ^ Suc fuel"
      using Suc.prems by (simp add: unat_div_distrib div_less_iff_less_mult mult.commute)
    from Suc.IH [OF this]
    have "decode_rl_loop (Suc (Suc fuel)) (rl_bytes r @ rest) out mult used =
        (Suc used + length (rl_bytes (r div 128)), out + r mod 128 * mult + r div 128 * (mult * 128))"
      using False by (simp add: b rl_byte_bits Let_def word_gt_0)
    also have "out + r mod 128 * mult + r div 128 * (mult * 128) =
        out + (128 * (r div 128) + r mod 128) * mult"
      by (simp add: algebra_simps)
    finally show ?thesis using False by (simp add: b eq word_gt_0)
  qed
qed

lemma rl_bytes_not_Nil [simp]: "rl_bytes r \<noteq> []"
  by (subst rl_bytes.simps) simp

lemma decode_rl: "unat r < 2 ^ 28 \<Longrightarrow>
    decode_remaining_length (rl_bytes r @ rest) = (length (rl_bytes r), r)"
  using decode_rl_loop_enc [of r 3 rest 0 1 0] by (simp add: decode_remaining_length_def)

section \<open>Framing\<close>

lemma unat_frame_length: "n < 2 ^ 28 \<Longrightarrow> unat (word_of_nat n :: u32) = n"
  by (simp add: unat_of_nat take_bit_nat_eq_self)

lemma parse_packet_frame:
  assumes "unat r < 2 ^ 28" and "unat r \<le> length body"
  shows "parse_packet (b # rl_bytes r @ body) =
    \<lparr>packet_kind = Some (packet_of (drop_bit 4 b)), flags = Some (b AND 0x0F),
     payload = take (unat r) body, parse_error = []\<rparr>"
proof -
  obtain c cs where c: "rl_bytes r = c # cs" using rl_bytes_not_Nil list.exhaust by blast
  have d: "decode_remaining_length (c # cs @ body) = (length (c # cs), r)"
    using decode_rl [OF assms(1), of body] c by simp
  show ?thesis
    unfolding c append_Cons parse_packet.simps Let_def d using assms(2) by simp
qed

lemma be16_roundtrip [simp]: "be16_of (ucast (drop_bit 8 v AND 0xFF)) (ucast (v AND 0xFF)) = v"
proof -
  have m: "w AND 0xFF = take_bit 8 w" for w :: u16
    by (simp add: take_bit_eq_mask mask_eq_exp_minus_1)
  show ?thesis unfolding be16_of_def m by (rule bit_word_eqI) (auto simp: bit_simps)
qed

lemma decode_utf8_encode:
  assumes "length s < 2 ^ 16"
  shows "decode_utf8_string (be16_bytes (word_of_nat (length s)) @ map byte_of_char s @ rest) = (s, rest)"
proof -
  have "unat (word_of_nat (length s) :: u16) = length s"
    using assms by (simp add: unat_of_nat take_bit_nat_eq_self)
  then show ?thesis by (simp add: be16_bytes_def Let_def)
qed

lemma be16_read [simp]:
  "be16_of ((be16_bytes v @ xs) ! 0) ((be16_bytes v @ xs) ! Suc 0) = v"
  "drop 2 (be16_bytes v @ xs) = xs" "length (be16_bytes v) = 2"
  by (simp_all add: be16_bytes_def)

definition publish_body :: "publish_packet \<Rightarrow> bytes" where
  "publish_body p =
     be16_bytes (word_of_nat (length (pub_topic p))) @ map byte_of_char (pub_topic p) @
     (if pub_qos p \<noteq> AT_MOST_ONCE then be16_bytes (pub_packet_id p) else []) @
     map byte_of_char (pub_payload p)"

definition publish_fixed :: "publish_packet \<Rightarrow> u8" where
  "publish_fixed p =
     set_flag (pub_retain p) 0x01 (set_flag (pub_dup p) 0x08 0x30) OR push_bit 1 (qos_code (pub_qos p))"

lemma length_publish_body: "length (publish_body p) =
    2 + length (pub_topic p) + (if pub_qos p \<noteq> AT_MOST_ONCE then 2 else 0) + length (pub_payload p)"
  by (simp add: publish_body_def be16_bytes_def)

lemma build_publish_eq: "build_publish_packet p =
    publish_fixed p # rl_bytes (word_of_nat (length (publish_body p))) @ publish_body p"
  unfolding length_publish_body
  by (simp add: build_publish_packet_def publish_body_def publish_fixed_def encode_utf8_string_def
      encode_be16_def Let_def)

definition valid_qos :: "qos \<Rightarrow> bool" where
  "valid_qos q \<longleftrightarrow> q \<in> {AT_MOST_ONCE, AT_LEAST_ONCE, EXACTLY_ONCE}"

lemma publish_fixed_fields:
  assumes "valid_qos (pub_qos p)"
  shows "packet_of (drop_bit 4 (publish_fixed p)) = PUBLISH"
    and "qos_of (drop_bit 1 (publish_fixed p) AND 0x03) = pub_qos p"
    and "(publish_fixed p AND 0x08 \<noteq> 0) = pub_dup p" and "(publish_fixed p AND 0x01 \<noteq> 0) = pub_retain p"
  using assms by (cases "pub_qos p"; cases "pub_dup p"; cases "pub_retain p";
      simp add: valid_qos_def publish_fixed_def set_flag_def packet_of_def qos_of_def)+

text \<open>
  MQTT publish round trip. A packet whose topic is under 65536 bytes, whose QoS is one of the
  three levels and whose remaining length is under \<open>128 ^ 4\<close> is framed so that \<^verbatim>\<open>parse_packet\<close>
  accepts it, takes nothing of what follows it in the buffer, and \<^verbatim>\<open>parse_publish\<close> returns every
  field; the packet id comes back as 0 at QoS 0, where it is not sent.
\<close>

theorem publish_roundtrip:
  assumes "length (pub_topic p) < 2 ^ 16" and "valid_qos (pub_qos p)"
    and "length (pub_topic p) + length (pub_payload p) + 4 < 128 ^ 4"
  shows "\<exists>r. parse_packet (build_publish_packet p @ rest) = r \<and> parse_error r = [] \<and>
    packet_kind r = Some PUBLISH \<and>
    parse_publish (hd (build_publish_packet p)) (payload r) =
      (if pub_qos p = AT_MOST_ONCE then p\<lparr>pub_packet_id := 0\<rparr> else p)"
proof -
  let ?n = "length (publish_body p)"
  have n: "?n < 2 ^ 28" using assms(3) by (simp add: length_publish_body)
  then have u: "unat (word_of_nat ?n :: u32) = ?n"
    by (rule unat_frame_length)
  have f: "parse_packet (build_publish_packet p @ rest) =
      \<lparr>packet_kind = Some PUBLISH, flags = Some (publish_fixed p AND 0x0F),
       payload = publish_body p, parse_error = []\<rparr>"
    using parse_packet_frame [of "word_of_nat ?n" "publish_body p @ rest" "publish_fixed p"] n u
      publish_fixed_fields(1) [OF assms(2)]
    by (simp add: build_publish_eq)
  have "parse_publish (publish_fixed p) (publish_body p) =
      (if pub_qos p = AT_MOST_ONCE then p\<lparr>pub_packet_id := 0\<rparr> else p)"
    using length_publish_body [of p]
    unfolding parse_publish_def Let_def publish_fixed_fields [OF assms(2)]
    by (simp add: publish_body_def decode_utf8_encode [OF assms(1)])
  moreover have "hd (build_publish_packet p) = publish_fixed p" by (simp add: build_publish_eq)
  ultimately show ?thesis by (simp add: f)
qed

theorem publish_roundtrip_witness:
  "\<exists>r. parse_packet (build_publish_packet \<lparr>pub_topic = ''t'', pub_payload = ''hi'', pub_packet_id = 5,
        pub_qos = AT_LEAST_ONCE, pub_dup = True, pub_retain = False\<rparr> @ [9]) = r \<and> parse_error r = [] \<and>
    packet_kind r = Some PUBLISH \<and>
    parse_publish (hd (build_publish_packet \<lparr>pub_topic = ''t'', pub_payload = ''hi'', pub_packet_id = 5,
        pub_qos = AT_LEAST_ONCE, pub_dup = True, pub_retain = False\<rparr>)) (payload r) =
      \<lparr>pub_topic = ''t'', pub_payload = ''hi'', pub_packet_id = 5,
        pub_qos = AT_LEAST_ONCE, pub_dup = True, pub_retain = False\<rparr>"
  using publish_roundtrip [of "\<lparr>pub_topic = ''t'', pub_payload = ''hi'', pub_packet_id = 5,
        pub_qos = AT_LEAST_ONCE, pub_dup = True, pub_retain = False\<rparr>" "[9]"]
  by (simp add: valid_qos_def)


lemma decode_utf8_wrapped:
  "decode_utf8_string (be16_bytes (word_of_nat (length s)) @ map byte_of_char s @ rest) =
    (take (length s mod 2 ^ 16) s, map byte_of_char (drop (length s mod 2 ^ 16) s) @ rest)"
proof -
  have "unat (word_of_nat (length s) :: u16) = length s mod 2 ^ 16"
    by (simp add: unat_of_nat take_bit_eq_mod)
  moreover have "length s mod 65536 \<le> length s" by simp
  moreover from this have "\<not> length s + length rest < length s mod 65536" by linarith
  ultimately show ?thesis
    by (simp add: be16_bytes_def Let_def drop_map take_map o_def)
qed

text \<open>
  a topic of 65536 bytes or more breaks the packet. The length field holds the size modulo 65536
  while the remaining length counts the whole topic, so the packet parses without an error and the
  receiver sees a shorter topic, the rest of it in front of the message.
\<close>

theorem publish_long_topic:
  assumes "2 ^ 16 \<le> length (pub_topic p)" and "pub_qos p = AT_MOST_ONCE"
    and "length (pub_topic p) + length (pub_payload p) + 2 < 128 ^ 4"
  defines "k \<equiv> length (pub_topic p) mod 2 ^ 16"
  shows "\<exists>r. parse_packet (build_publish_packet p) = r \<and> parse_error r = [] \<and>
    parse_publish (hd (build_publish_packet p)) (payload r) =
      p\<lparr>pub_topic := take k (pub_topic p), pub_payload := drop k (pub_topic p) @ pub_payload p,
        pub_packet_id := 0\<rparr> \<and>
    take k (pub_topic p) \<noteq> pub_topic p"
proof -
  let ?n = "length (publish_body p)"
  have n: "?n < 2 ^ 28" using assms(2,3) by (simp add: length_publish_body)
  then have u: "unat (word_of_nat ?n :: u32) = ?n"
    by (simp add: unat_of_nat take_bit_nat_eq_self)
  have q: "valid_qos (pub_qos p)" by (simp add: valid_qos_def assms(2))
  have f: "parse_packet (build_publish_packet p) =
      \<lparr>packet_kind = Some PUBLISH, flags = Some (publish_fixed p AND 0x0F),
       payload = publish_body p, parse_error = []\<rparr>"
    using parse_packet_frame [of "word_of_nat ?n" "publish_body p" "publish_fixed p"] n u
      publish_fixed_fields(1) [OF q]
    by (simp add: build_publish_eq)
  have h: "hd (build_publish_packet p) = publish_fixed p" by (simp add: build_publish_eq)
  have body: "publish_body p = be16_bytes (word_of_nat (length (pub_topic p))) @
      map byte_of_char (pub_topic p) @ map byte_of_char (pub_payload p)"
    by (simp add: publish_body_def assms(2))
  have l: "\<not> length (publish_body p) < 2" by (simp add: length_publish_body)
  have "parse_publish (publish_fixed p) (publish_body p) =
      p\<lparr>pub_topic := take k (pub_topic p), pub_payload := drop k (pub_topic p) @ pub_payload p,
        pub_packet_id := 0\<rparr>"
    unfolding parse_publish_def Let_def publish_fixed_fields [OF q] if_not_P [OF l]
    unfolding body decode_utf8_wrapped k_def by (simp add: assms(2) o_def)
  moreover have "k < length (pub_topic p)"
  proof -
    have "length (pub_topic p) mod 2 ^ 16 < 2 ^ 16" by (rule mod_less_divisor) simp
    then show ?thesis using assms(1) unfolding k_def by (rule less_le_trans)
  qed
  then have "take k (pub_topic p) \<noteq> pub_topic p"
    by (metis length_take min.absorb4 less_irrefl)
  ultimately show ?thesis by (simp add: f h)
qed

theorem publish_long_topic_witness:
  "\<exists>r. parse_packet (build_publish_packet \<lparr>pub_topic = replicate 65536 (CHR ''a''), pub_payload = ''hi'',
        pub_packet_id = 0, pub_qos = AT_MOST_ONCE, pub_dup = False, pub_retain = False\<rparr>) = r \<and>
    parse_error r = [] \<and>
    pub_topic (parse_publish (hd (build_publish_packet \<lparr>pub_topic = replicate 65536 (CHR ''a''), pub_payload = ''hi'',
        pub_packet_id = 0, pub_qos = AT_MOST_ONCE, pub_dup = False, pub_retain = False\<rparr>)) (payload r)) = []"
  using publish_long_topic [of "\<lparr>pub_topic = replicate 65536 (CHR ''a''), pub_payload = ''hi'',
        pub_packet_id = 0, pub_qos = AT_MOST_ONCE, pub_dup = False, pub_retain = False\<rparr>"]
  by simp

section \<open>Acknowledgements\<close>

lemma ack_parse:
  "parse_packet (encode_be16 [b, 0x02] i @ rest) =
    \<lparr>packet_kind = Some (packet_of (drop_bit 4 b)), flags = Some (b AND 0x0F),
     payload = be16_bytes i, parse_error = []\<rparr>"
proof -
  have "rl_bytes 2 = [0x02]" by code_simp
  then show ?thesis
    using parse_packet_frame [of 2 "be16_bytes i @ rest" b]
    by (simp add: encode_be16_def)
qed

section \<open>Connecting\<close>

text \<open>
  How a broker reads the variable header and payload of CONNECT (MQTT 3.1.1, section 3.1): protocol
  name and level, flags, keep-alive, then the strings the flags announce, and nothing more.
\<close>

definition read_if :: "bool \<Rightarrow> bytes \<Rightarrow> string \<times> bytes" where
  "read_if b data = (if b then decode_utf8_string data else ([], data))"

definition read_connect :: "bytes \<Rightarrow> connect_payload option" where
  "read_connect body =
     (let w = body ! 7;
          (cid, r) = decode_utf8_string (drop 10 body);
          (wt, r) = read_if (bit w 2) r;
          (wm, r) = read_if (bit w 2) r;
          (u, r) = read_if (bit w 7) r;
          (pw, r) = read_if (bit w 6) r
      in if take 7 body \<noteq> [0, 4] @ map byte_of_char ''MQTT'' @ [4] \<or> bit w 0 \<or> r \<noteq> [] then None
         else Some \<lparr>client_id = cid, will_topic = wt, will_message = wm, username = u, password = pw,
           keep_alive = be16_of (body ! 8) (body ! 9), clean_session = bit w 1, will_retain = bit w 5,
           will_qos = qos_of (drop_bit 3 w AND 3)\<rparr>)"

definition connect_strings :: "connect_payload \<Rightarrow> string list" where
  "connect_strings p =
     [client_id p] @ (if will_topic p \<noteq> [] then [will_topic p, will_message p] else []) @
     (if username p \<noteq> [] then [username p] else []) @ (if password p \<noteq> [] then [password p] else [])"

definition utf8_bytes :: "string \<Rightarrow> bytes" where
  "utf8_bytes s = be16_bytes (word_of_nat (length s)) @ map byte_of_char s"

definition connect_body :: "connect_payload \<Rightarrow> bytes" where
  "connect_body p =
     [0, 4] @ map byte_of_char ''MQTT'' @ [4, connect_flags p,
       ucast (drop_bit 8 (keep_alive p)), ucast (keep_alive p AND 0xFF)] @
     concat (map utf8_bytes (connect_strings p))"

lemma utf8_enc: "encode_utf8_string out s = out @ utf8_bytes s"
  by (simp add: encode_utf8_string_def utf8_bytes_def)

lemma length_utf8_bytes: "length (utf8_bytes s) = 2 + length s"
  by (simp add: utf8_bytes_def)

lemma read_utf8_bytes: "length s < 2 ^ 16 \<Longrightarrow> decode_utf8_string (utf8_bytes s @ rest) = (s, rest)"
  by (simp add: utf8_bytes_def decode_utf8_encode)

lemma build_connect_eq:
  "build_connect_packet p = 0x10 # rl_bytes (word_of_nat (length (connect_body p))) @ connect_body p"
proof -
  have "length (connect_body p) = 10 + (2 + length (client_id p)
            + (if will_topic p \<noteq> [] then 2 + length (will_topic p) + (2 + length (will_message p)) else 0)
            + (if username p \<noteq> [] then 2 + length (username p) else 0)
            + (if password p \<noteq> [] then 2 + length (password p) else 0))"
    by (simp add: connect_body_def connect_strings_def length_utf8_bytes)
  then show ?thesis
    by (simp add: build_connect_packet_def connect_body_def connect_strings_def utf8_enc Let_def)
qed

lemma connect_flags_bits:
  assumes "valid_qos (will_qos p)"
  shows "\<not> bit (connect_flags p) 0" "bit (connect_flags p) 1 = clean_session p"
    "bit (connect_flags p) 2 = (will_topic p \<noteq> [])"
    "bit (connect_flags p) 5 = (will_topic p \<noteq> [] \<and> will_retain p)"
    "bit (connect_flags p) 6 = (password p \<noteq> [])" "bit (connect_flags p) 7 = (username p \<noteq> [])"
    "qos_of (drop_bit 3 (connect_flags p) AND 3) = (if will_topic p \<noteq> [] then will_qos p else AT_MOST_ONCE)"
  using assms
  by (cases "will_qos p"; cases "clean_session p"; cases "will_topic p = []"; cases "will_retain p";
      cases "password p = []"; cases "username p = []";
      simp add: valid_qos_def connect_flags_def set_flag_def qos_of_def Let_def)+


text \<open>
  MQTT connect round trip. With every string under 65536 bytes, a broker that follows the
  standard reads back from CONNECT exactly the fields of the payload: client id, the will with its
  QoS and retain flag when there is a will topic, user name, password, keep-alive and clean-session.
\<close>

theorem connect_roundtrip:
  assumes "\<forall>s \<in> set (connect_strings p). length s < 2 ^ 16" and "valid_qos (will_qos p)"
  shows "\<exists>r. parse_packet (build_connect_packet p) = r \<and> parse_error r = [] \<and>
    packet_kind r = Some CONNECT \<and>
    read_connect (payload r) = Some (if will_topic p = [] then
      p\<lparr>will_message := [], will_retain := False, will_qos := AT_MOST_ONCE\<rparr> else p)"
proof -
  let ?n = "length (connect_body p)"
  have strs: "sum_list (map (\<lambda>s. 2 + length s) (connect_strings p)) \<le> 5 * (2 + 2 ^ 16)"
  proof -
    have "sum_list (map (\<lambda>s. 2 + length s) xs) \<le> length xs * (2 + 2 ^ 16)"
      if "\<forall>s \<in> set xs. length s < 2 ^ 16" for xs :: "string list"
      using that by (induction xs) auto
    from this [OF assms(1)]
    have "sum_list (map (\<lambda>s. 2 + length s) (connect_strings p)) \<le> length (connect_strings p) * (2 + 2 ^ 16)" .
    also have "\<dots> \<le> 5 * (2 + 2 ^ 16)"
      by (intro mult_le_mono1) (simp add: connect_strings_def)
    finally show ?thesis .
  qed
  have "length (concat (map utf8_bytes xs)) = sum_list (map (\<lambda>s. 2 + length s) xs)" for xs
    by (induction xs) (simp_all add: length_utf8_bytes)
  then have n: "?n < 2 ^ 28" using strs by (simp add: connect_body_def)
  then have u: "unat (word_of_nat ?n :: u32) = ?n"
    by (rule unat_frame_length)
  have t: "packet_of (drop_bit 4 0x10) = CONNECT" by code_simp
  have f: "parse_packet (build_connect_packet p) =
      \<lparr>packet_kind = Some CONNECT, flags = Some 0, payload = connect_body p, parse_error = []\<rparr>"
    using parse_packet_frame [of "word_of_nat ?n" "connect_body p" "0x10"] n u t
    by (simp add: build_connect_eq)
  define w where "w = connect_flags p"
  define ss where "ss = concat (map utf8_bytes (connect_strings p))"
  have b: "connect_body p ! 7 = w" "drop 10 (connect_body p) = ss"
    "take 7 (connect_body p) = [0, 4] @ map byte_of_char ''MQTT'' @ [4]"
    "be16_of (connect_body p ! 8) (connect_body p ! 9) = keep_alive p"
  proof -
    have "w AND 0xFF = take_bit 8 w" for w :: u16 by (simp add: take_bit_eq_mask mask_eq_exp_minus_1)
    moreover have "ucast (drop_bit 8 (keep_alive p)) = (ucast (take_bit 8 (drop_bit 8 (keep_alive p))) :: u8)"
      by (rule bit_word_eqI) (auto simp: bit_simps)
    ultimately show "be16_of (connect_body p ! 8) (connect_body p ! 9) = keep_alive p"
      using be16_roundtrip [of "keep_alive p"] by (simp add: connect_body_def)
  qed (simp_all add: connect_body_def w_def ss_def)
  note wb = connect_flags_bits [OF assms(2), folded w_def]
  have lens: "length (client_id p) < 2 ^ 16" "will_topic p \<noteq> [] \<Longrightarrow> length (will_topic p) < 2 ^ 16"
    "will_topic p \<noteq> [] \<Longrightarrow> length (will_message p) < 2 ^ 16"
    "username p \<noteq> [] \<Longrightarrow> length (username p) < 2 ^ 16" "password p \<noteq> [] \<Longrightarrow> length (password p) < 2 ^ 16"
    using assms(1) by (simp_all add: connect_strings_def)
  have "read_connect (connect_body p) = Some (if will_topic p = [] then
      p\<lparr>will_message := [], will_retain := False, will_qos := AT_MOST_ONCE\<rparr> else p)"
    using lens wb(1) read_utf8_bytes [of _ "[]"] unfolding read_connect_def Let_def b wb
    by (cases "will_topic p = []"; cases "username p = []"; cases "password p = []")
      (simp_all add: ss_def connect_strings_def read_if_def read_utf8_bytes split del: if_split)
  then show ?thesis by (simp add: f)
qed


theorem connect_roundtrip_witness:
  "\<exists>r. parse_packet (build_connect_packet \<lparr>client_id = ''c'', will_topic = ''w'', will_message = ''m'',
      username = ''u'', password = [], keep_alive = 60, clean_session = True, will_retain = True,
      will_qos = EXACTLY_ONCE\<rparr>) = r \<and> parse_error r = [] \<and> packet_kind r = Some CONNECT \<and>
    read_connect (payload r) = Some \<lparr>client_id = ''c'', will_topic = ''w'', will_message = ''m'',
      username = ''u'', password = [], keep_alive = 60, clean_session = True, will_retain = True,
      will_qos = EXACTLY_ONCE\<rparr>"
  using connect_roundtrip [of "\<lparr>client_id = ''c'', will_topic = ''w'', will_message = ''m'',
      username = ''u'', password = [], keep_alive = 60, clean_session = True, will_retain = True,
      will_qos = EXACTLY_ONCE\<rparr>"]
  by (simp add: valid_qos_def connect_strings_def)

section \<open>Subscribing\<close>

text \<open>How a broker reads the topic filters of SUBSCRIBE; \<open>fuel\<close> bounds their number.\<close>

fun read_filters :: "nat \<Rightarrow> bytes \<Rightarrow> subscribe_topic list option" where
  "read_filters fuel [] = Some []"
| "read_filters (Suc fuel) data =
     (case decode_utf8_string data of
        (t, q # rest) \<Rightarrow>
          map_option ((#) \<lparr>sub_topic = t, sub_qos = qos_of q\<rparr>) (read_filters fuel rest)
      | _ \<Rightarrow> None)"
| "read_filters 0 data = None"

definition filter_bytes :: "subscribe_topic \<Rightarrow> bytes" where
  "filter_bytes t = utf8_bytes (sub_topic t) @ [qos_code (sub_qos t)]"

lemma qos_of_code: "valid_qos q \<Longrightarrow> qos_of (qos_code q) = q"
  by (auto simp: valid_qos_def qos_of_def)

lemma read_filters_bytes:
  "\<forall>t \<in> set ts. length (sub_topic t) < 2 ^ 16 \<and> valid_qos (sub_qos t) \<Longrightarrow>
   read_filters (length ts) (concat (map filter_bytes ts)) = Some ts"
proof (induction ts)
  case Nil
  then show ?case by simp
next
  case (Cons t ts)
  have "concat (map filter_bytes (t # ts)) =
      utf8_bytes (sub_topic t) @ qos_code (sub_qos t) # concat (map filter_bytes ts)"
    by (simp add: filter_bytes_def)
  moreover obtain x xs where "\<dots> = x # xs"
    by (metis length_utf8_bytes list.exhaust append_is_Nil_conv list.distinct(1))
  moreover have "decode_utf8_string (utf8_bytes (sub_topic t) @ qos_code (sub_qos t) # concat (map filter_bytes ts)) =
      (sub_topic t, qos_code (sub_qos t) # concat (map filter_bytes ts))"
    using Cons.prems by (simp add: read_utf8_bytes)
  ultimately show ?case using Cons qos_of_code [of "sub_qos t"] by simp
qed

lemma build_subscribe_eq:
  "build_subscribe_packet i ts =
    0x82 # rl_bytes (word_of_nat (length (be16_bytes i @ concat (map filter_bytes ts)))) @
    be16_bytes i @ concat (map filter_bytes ts)"
proof -
  have "foldl (\<lambda>packet t. encode_utf8_string packet (sub_topic t) @ [qos_code (sub_qos t)]) out ts =
      out @ concat (map filter_bytes ts)" for out
    by (induction ts arbitrary: out) (simp_all add: utf8_enc filter_bytes_def)
  moreover have "sum_list (map (\<lambda>t. 2 + length (sub_topic t) + 1) ts) = length (concat (map filter_bytes ts))"
    by (induction ts) (simp_all add: filter_bytes_def length_utf8_bytes)
  ultimately show ?thesis
    by (simp add: build_subscribe_packet_def encode_be16_def Let_def)
qed

text \<open>
  MQTT subscribe round trip, in order. A broker reads from SUBSCRIBE the packet id and exactly the
  list of topic filters with their QoS, in the order given, as long as each filter is under 65536
  bytes and the packet under \<open>128 ^ 4\<close>.
\<close>

theorem subscribe_roundtrip:
  assumes "\<forall>t \<in> set ts. length (sub_topic t) < 2 ^ 16 \<and> valid_qos (sub_qos t)"
    and "2 + sum_list (map (\<lambda>t. 3 + length (sub_topic t)) ts) < 128 ^ 4"
  shows "\<exists>r. parse_packet (build_subscribe_packet i ts) = r \<and> parse_error r = [] \<and>
    packet_kind r = Some SUBSCRIBE \<and> flags r = Some 2 \<and> parse_puback (payload r) = i \<and>
    read_filters (length ts) (drop 2 (payload r)) = Some ts"
proof -
  let ?b = "be16_bytes i @ concat (map filter_bytes ts)"
  have "length (concat (map filter_bytes ts)) = sum_list (map (\<lambda>t. 3 + length (sub_topic t)) ts)"
    by (induction ts) (simp_all add: filter_bytes_def length_utf8_bytes)
  then have n: "length ?b < 2 ^ 28" using assms(2) by simp
  then have u: "unat (word_of_nat (length ?b) :: u32) = length ?b"
    by (rule unat_frame_length)
  have t: "packet_of (drop_bit 4 0x82) = SUBSCRIBE" by code_simp
  have "parse_packet (build_subscribe_packet i ts) =
      \<lparr>packet_kind = Some SUBSCRIBE, flags = Some 2, payload = ?b, parse_error = []\<rparr>"
    using parse_packet_frame [of "word_of_nat (length ?b)" "?b" "0x82"] n u t
    by (simp add: build_subscribe_eq)
  moreover have "parse_puback ?b = i" by (simp add: be16_bytes_def)
  ultimately show ?thesis using read_filters_bytes [OF assms(1)] by simp
qed

theorem subscribe_roundtrip_witness:
  "\<exists>r. parse_packet (build_subscribe_packet 7 [\<lparr>sub_topic = ''a/b'', sub_qos = AT_LEAST_ONCE\<rparr>]) = r \<and>
    parse_error r = [] \<and> packet_kind r = Some SUBSCRIBE \<and> flags r = Some 2 \<and>
    parse_puback (payload r) = 7 \<and>
    read_filters 1 (drop 2 (payload r)) = Some [\<lparr>sub_topic = ''a/b'', sub_qos = AT_LEAST_ONCE\<rparr>]"
  using subscribe_roundtrip [of "[\<lparr>sub_topic = ''a/b'', sub_qos = AT_LEAST_ONCE\<rparr>]" 7]
  by (simp add: valid_qos_def)

end
