(* ===== verification/Coap.thy ===== *)
theory Coap
  imports Strings
begin

text \<open>
  CoAP messages (src/protocols/coap/coap_message.cpp) and the message layer of the client
  (src/protocols/coap/coap_client.cpp): options, requests, responses and URIs. A pointer with a
  size is the list of its bytes. The random token is an argument; sockets are not modelled.
\<close>

section \<open>Data\<close>

datatype message_type = CON | NON | ACK | RST

fun message_type_code :: "message_type \<Rightarrow> u8" where
  "message_type_code CON = 0" | "message_type_code NON = 1"
| "message_type_code ACK = 2" | "message_type_code RST = 3"

definition message_type_of :: "u8 \<Rightarrow> message_type" where
  "message_type_of b = (if b = 0 then CON else if b = 1 then NON else if b = 2 then ACK else RST)"

datatype request_method = GET | POST | PUT | DELETE

fun request_method_code :: "request_method \<Rightarrow> u8" where
  "request_method_code GET = 1" | "request_method_code POST = 2"
| "request_method_code PUT = 3" | "request_method_code DELETE = 4"

datatype option_code = Uri_host | Uri_port | Uri_path | Content_format_opt | Observe_opt

fun option_number :: "option_code \<Rightarrow> u16" where
  "option_number Uri_host = 3" | "option_number Uri_port = 7" | "option_number Uri_path = 11"
| "option_number Content_format_opt = 12" | "option_number Observe_opt = 6"

record coap_option =
  number :: u16
  opt_value :: string

record coap_message =
  version :: u8
  msg_type :: message_type
  code :: u8
  message_id :: u16
  token :: string
  options :: "coap_option list"
  msg_payload :: string

definition PAYLOAD_MARKER :: u8 where "PAYLOAD_MARKER = 0xFF"
definition COAP_VERSION :: u8 where "COAP_VERSION = 1"
definition COAP_HEADER_SIZE :: nat where "COAP_HEADER_SIZE = 4"

section \<open>Options\<close>

text \<open>The nibble of a delta or a length, and the extension bytes that follow for it.\<close>

definition delta_nibble :: "u16 \<Rightarrow> u8" where
  "delta_nibble delta = (if delta < 13 then ucast delta else if delta < 269 then 13 else 14)"

definition delta_ext :: "u16 \<Rightarrow> bytes" where
  "delta_ext delta =
     (if delta < 13 then []
      else if delta < 269 then [ucast (delta - 13)]
      else [ucast (drop_bit 8 (delta - 269)), ucast ((delta - 269) AND 0xFF)])"

definition length_nibble :: "u64 \<Rightarrow> u8" where
  "length_nibble len = (if len < 13 then ucast len else if len < 269 then 13 else 14)"

definition length_ext :: "u64 \<Rightarrow> bytes" where
  "length_ext len =
     (if len < 13 then []
      else if len < 269 then [ucast (len - 13)]
      else [ucast (drop_bit 8 (len - 269)), ucast ((len - 269) AND 0xFF)])"

definition encode_option :: "u16 \<Rightarrow> string \<Rightarrow> bytes" where
  "encode_option opt_number val =
     (let len = word_of_nat (length val)
      in (push_bit 4 (delta_nibble opt_number) OR length_nibble len) #
         delta_ext opt_number @ length_ext len @ map byte_of_char val)"

text \<open>The position after the delta extension; \<open>None\<close> when the code gives up.\<close>

definition skip_delta :: "u8 \<Rightarrow> nat \<Rightarrow> nat \<Rightarrow> nat option" where
  "skip_delta nibble len pos =
     (if nibble = 13 then (if len \<le> pos then None else Some (pos + 1))
      else if nibble = 14 then (if len \<le> pos + 1 then None else Some (pos + 2))
      else Some pos)"

definition read_length :: "u8 \<Rightarrow> bytes \<Rightarrow> nat \<Rightarrow> (nat \<times> nat) option" where
  "read_length nibble data pos =
     (if nibble = 13
      then (if length data \<le> pos then None else Some (13 + unat (data ! pos), pos + 1))
      else if nibble = 14
      then (if length data \<le> pos + 1 then None
            else Some (269 + unat (data ! pos) * 256 + unat (data ! (pos + 1)), pos + 2))
      else Some (unat nibble, pos))"

text \<open>The value and the number of bytes consumed, 0 on failure.\<close>

definition decode_option_value :: "bytes \<Rightarrow> string \<times> nat" where
  "decode_option_value data =
     (let len = length data
      in if len = 0 then ([], 0)
         else
           (let first_byte = data ! 0
            in case skip_delta (drop_bit 4 first_byte AND 0x0F) len 1 of
                 None \<Rightarrow> ([], 0)
               | Some pos \<Rightarrow>
                   (case read_length (first_byte AND 0x0F) data pos of
                      None \<Rightarrow> ([], 0)
                    | Some (opt_len, pos) \<Rightarrow>
                        if len < pos + opt_len then ([], 0)
                        else (map char_of_byte (take opt_len (drop pos data)), pos + opt_len))))"

definition decode_delta :: "bytes \<Rightarrow> u16" where
  "decode_delta data =
     (let nibble = drop_bit 4 (data ! 0) AND 0x0F
      in if nibble = 13 then (if 1 < length data then 13 + ucast (data ! 1) else ucast nibble)
         else if nibble = 14
         then (if 2 < length data
               then 269 + push_bit 8 (ucast (data ! 1)) + ucast (data ! 2) else ucast nibble)
         else ucast nibble)"

text \<open>The option loop, on the bytes from \<^verbatim>\<open>pos\<close> on.\<close>

function parse_options_loop :: "bytes \<Rightarrow> u16 \<Rightarrow> coap_option list" where
  "parse_options_loop data prev_option =
     (if data = [] \<or> data ! 0 = PAYLOAD_MARKER then []
      else
        (let (val, consumed) = decode_option_value data
         in if consumed = 0 then []
            else
              (let opt_number = prev_option + decode_delta data
               in \<lparr>number = opt_number, opt_value = val\<rparr> #
                  parse_options_loop (drop consumed data) opt_number)))"
  by pat_completeness auto
termination by (relation "measure (length \<circ> fst)") auto

declare parse_options_loop.simps [simp del]

definition parse_options :: "bytes \<Rightarrow> coap_option list \<times> nat" where
  "parse_options data =
     (if length data < COAP_HEADER_SIZE then ([], COAP_HEADER_SIZE)
      else
        (let header_size = COAP_HEADER_SIZE + unat (data ! 0 AND 0x0F)
         in (parse_options_loop (drop header_size data) 0, header_size)))"

section \<open>Messages\<close>

text \<open>The message is an output parameter: what is not assigned keeps its value.\<close>

definition parse_message :: "bytes \<Rightarrow> coap_message \<Rightarrow> bool \<times> coap_message" where
  "parse_message data out_msg =
     (if length data < COAP_HEADER_SIZE then (False, out_msg)
      else
        (let b0 = data ! 0;
             token_len = unat (b0 AND 0x0F);
             out_msg = out_msg\<lparr>version := drop_bit 6 b0 AND 0x03,
               msg_type := message_type_of (drop_bit 4 b0 AND 0x03), code := data ! 1,
               message_id := push_bit 8 (ucast (data ! 2)) OR ucast (data ! 3)\<rparr>
         in if version out_msg \<noteq> COAP_VERSION then (False, out_msg)
            else
              (let pos = COAP_HEADER_SIZE;
                   (out_msg, pos) =
                     (if 0 < token_len \<and> pos + token_len \<le> length data
                      then (out_msg\<lparr>token := map char_of_byte (take token_len (drop pos data))\<rparr>, pos + token_len)
                      else (out_msg, pos));
                   (opts, header_end) = parse_options (drop pos data);
                   out_msg = out_msg\<lparr>options := opts\<rparr>;
                   pos = pos + header_end;
                   pos = (if pos < length data \<and> data ! pos = PAYLOAD_MARKER then pos + 1 else pos)
               in (True, if pos < length data
                         then out_msg\<lparr>msg_payload := map char_of_byte (drop pos data)\<rparr> else out_msg))))"

definition validate_response :: "coap_message \<Rightarrow> bool" where
  "validate_response msg =
     (if version msg \<noteq> COAP_VERSION then False
      else
        (let code_class = drop_bit 5 (code msg)
         in if code_class = 2 then True
            else if code_class = 4 then False
            else if code_class = 5 then False
            else code msg = 0))"

section \<open>The client\<close>

definition DEFAULT_COAP_PORT :: u16 where "DEFAULT_COAP_PORT = 5683"

text \<open>Host, port and path, or the text of \<^verbatim>\<open>last_error_\<close>.\<close>

definition parse_uri :: "string \<Rightarrow> string + (string \<times> u16 \<times> string)" where
  "parse_uri uri =
     (if \<not> starts_with uri ''coap://'' \<and> starts_with uri ''coaps://''
      then Inl ''CoAPS (DTLS) requires a DTLS transport backend; this build supports plain CoAP/UDP only''
      else if \<not> starts_with uri ''coap://'' \<and> str_find uri ''://'' 0 \<noteq> None
      then Inl ''Unsupported URI scheme''
      else
        (let working_uri = (if starts_with uri ''coap://'' then drop 7 uri else uri);
             (host_port, path) =
               (case find_char (CHR ''/'') working_uri of
                  Some path_pos \<Rightarrow> (take path_pos working_uri, drop path_pos working_uri)
                | None \<Rightarrow> (working_uri, ''/''));
             (host, port) =
               (case find_char (CHR '':'') host_port of
                  Some colon_pos \<Rightarrow>
                    (take colon_pos host_port,
                     case stoi (drop (colon_pos + 1) host_port) of
                       Inl _ \<Rightarrow> DEFAULT_COAP_PORT | Inr v \<Rightarrow> word_of_int v)
                | None \<Rightarrow> (host_port, DEFAULT_COAP_PORT))
         in if host = [] then Inl ''Empty host in URI''
            else Inr (host, port, if path = [] \<or> path ! 0 \<noteq> CHR ''/'' then CHR ''/'' # path else path)))"

definition path_segments :: "string \<Rightarrow> string list" where
  "path_segments path =
     (let clean_path = (if path \<noteq> [] \<and> path ! 0 = CHR ''/'' then drop 1 path else path)
      in filter (\<lambda>segment. segment \<noteq> []) (getline_split (CHR ''/'') [] clean_path))"

text \<open>The second component is the new value of \<^verbatim>\<open>next_message_id_\<close>.\<close>

definition encode_request ::
  "request_method \<Rightarrow> string \<Rightarrow> string \<Rightarrow> bool \<Rightarrow> u8 \<Rightarrow> u16 \<Rightarrow> bytes \<times> u16" where
  "encode_request req path payload obs tok next_message_id =
     (let msg_id = next_message_id + 1;
          next_message_id = (if msg_id = 0 then 1 else msg_id);
          header0 = (push_bit 6 COAP_VERSION OR push_bit 4 (message_type_code CON)) OR 1;
          message = [header0, request_method_code req, ucast (drop_bit 8 msg_id), ucast (msg_id AND 0xFF), tok];
          opts = concat (map (encode_option (option_number Uri_path)) (path_segments path));
          opts = (if obs then opts @ encode_option (option_number Observe_opt) [] else opts);
          opts = (if payload \<noteq> [] then opts @ encode_option (option_number Content_format_opt) ''0'' else opts);
          message = message @ opts
      in (if payload \<noteq> [] then message @ [PAYLOAD_MARKER] @ map byte_of_char payload else message,
          next_message_id))"

text \<open>Skipping the options of a response: the position where the loop stops.\<close>

function skip_options :: "bytes \<Rightarrow> nat \<Rightarrow> nat" where
  "skip_options data pos =
     (if pos < length data \<and> data ! pos \<noteq> PAYLOAD_MARKER
      then
        (let first_byte = data ! pos
         in case skip_delta (drop_bit 4 first_byte AND 0x0F) (length data) (pos + 1) of
              None \<Rightarrow> pos + 1
            | Some p1 \<Rightarrow>
                (case read_length (first_byte AND 0x0F) data p1 of
                   None \<Rightarrow> p1
                 | Some (opt_len, p2) \<Rightarrow>
                     if length data < p2 + opt_len then p2 else skip_options data (p2 + opt_len)))
      else pos)"
  by pat_completeness auto
termination
  by (relation "measure (\<lambda>(data, pos). length data - pos)")
    (auto simp: skip_delta_def read_length_def split: if_splits)

declare skip_options.simps [simp del]

text \<open>Success and the payload.\<close>

definition decode_response :: "bytes \<Rightarrow> bool \<times> string" where
  "decode_response data =
     (if length data < COAP_HEADER_SIZE then (False, [])
      else
        (let ver = drop_bit 6 (data ! 0) AND 0x03;
             token_len = unat (data ! 0 AND 0x0F);
             c = data ! 1
         in if ver \<noteq> COAP_VERSION then (False, [])
            else if drop_bit 5 c \<noteq> 2 then (c = 0, [])
            else
              (let pos = COAP_HEADER_SIZE;
                   pos = (if 0 < token_len \<and> pos + token_len \<le> length data then pos + token_len else pos);
                   pos = skip_options data pos;
                   pos = (if pos < length data \<and> data ! pos = PAYLOAD_MARKER then pos + 1 else pos)
               in (True, if pos < length data then map char_of_byte (drop pos data) else []))))"

end
