(* ===== verification/CoapProps.thy ===== *)
theory CoapProps
  imports Coap
begin

text \<open>
  What the CoAP code guarantees: options encoded as deltas are read back, the client extracts the
  payload of a response; and where it goes wrong: requests number their options cumulatively, and
  \<^verbatim>\<open>parse_message\<close> skips a header twice.
\<close>

section \<open>One option\<close>

lemma and_0f: "w AND 0x0F = take_bit 4 w" for w :: u8
  by (simp add: take_bit_eq_mask mask_eq_exp_minus_1)

lemma nibbles:
  assumes "take_bit 4 dn = dn" and "take_bit 4 ln = (ln :: u8)"
  shows "drop_bit 4 (push_bit 4 dn OR ln) AND 0x0F = dn" and "(push_bit 4 dn OR ln) AND 0x0F = ln"
proof -
  have above: "\<not> bit ln n" if "4 \<le> n" for n
    using assms(2) that by (metis bit_take_bit_iff not_less)
  have "take_bit 4 (drop_bit 4 (push_bit 4 dn OR ln)) = take_bit 4 dn"
    by (rule bit_word_eqI) (use above in \<open>auto simp: bit_simps\<close>)
  then show "drop_bit 4 (push_bit 4 dn OR ln) AND 0x0F = dn" unfolding and_0f assms(1) .
  have "take_bit 4 (push_bit 4 dn OR ln) = take_bit 4 ln"
    by (rule bit_word_eqI) (auto simp: bit_simps)
  then show "(push_bit 4 dn OR ln) AND 0x0F = ln" unfolding and_0f assms(2) .
qed

lemma take_bit_small: "unat w < 2 ^ n \<Longrightarrow> take_bit n w = w"
  by (simp add: word_eq_iff_unsigned [where 'a = nat] unsigned_take_bit_eq take_bit_nat_eq_self)

lemma unat_ucast_8: "unat (ucast (x :: 'a :: len word) :: u8) = unat x mod 256"
  by (simp add: unsigned_ucast_eq take_bit_eq_mod)

lemma delta_nibble_4: "unat (delta_nibble d) < 15"
  by (auto simp: delta_nibble_def unat_ucast_8 word_less_nat_alt)

lemma length_nibble_4: "unat (length_nibble n) < 15"
  by (auto simp: length_nibble_def unat_ucast_8 word_less_nat_alt)

lemma option_nibbles:
  "drop_bit 4 (push_bit 4 (delta_nibble d) OR length_nibble n) AND 0x0F = delta_nibble d"
  "(push_bit 4 (delta_nibble d) OR length_nibble n) AND 0x0F = length_nibble n"
proof -
  have "take_bit 4 (delta_nibble d) = delta_nibble d" "take_bit 4 (length_nibble n) = length_nibble n"
    using delta_nibble_4 [of d] length_nibble_4 [of n] by (simp_all add: take_bit_small)
  from nibbles [OF this]
  show "drop_bit 4 (push_bit 4 (delta_nibble d) OR length_nibble n) AND 0x0F = delta_nibble d"
    "(push_bit 4 (delta_nibble d) OR length_nibble n) AND 0x0F = length_nibble n" .
qed

lemma option_not_marker: "push_bit 4 (delta_nibble d) OR length_nibble n \<noteq> PAYLOAD_MARKER"
proof
  assume "push_bit 4 (delta_nibble d) OR length_nibble n = PAYLOAD_MARKER"
  then have "length_nibble n = PAYLOAD_MARKER AND 0x0F" using option_nibbles(2) [of d n] by simp
  then have "unat (length_nibble n) = 15" by (simp add: PAYLOAD_MARKER_def)
  then show False using length_nibble_4 [of n] by simp
qed

lemma skip_delta_ext:
  "k + length (delta_ext d) \<le> len \<Longrightarrow> skip_delta (delta_nibble d) len k = Some (k + length (delta_ext d))"
proof -
  have "(ucast d :: u8) \<noteq> 13 \<and> (ucast d :: u8) \<noteq> 14" if "d < 13"
  proof -
    have "unat (ucast d :: u8) < 13" using that by (simp add: unat_ucast_8 word_less_nat_alt)
    then show ?thesis by auto
  qed
  then show "k + length (delta_ext d) \<le> len \<Longrightarrow> skip_delta (delta_nibble d) len k = Some (k + length (delta_ext d))"
    by (cases "d < 13"; cases "d < 269") (simp_all add: delta_ext_def skip_delta_def delta_nibble_def)
qed

lemma ucast_ucast_8: "(ucast (ucast d :: u8) :: u16) = take_bit 8 d" for d :: u16
  by (rule bit_word_eqI) (auto simp: bit_simps)


lemma word16_bytes: "push_bit 8 (ucast (ucast (drop_bit 8 x) :: u8)) + ucast (ucast (x AND 0xFF) :: u8) = (x :: u16)"
proof -
  have m: "w AND 0xFF = take_bit 8 w" for w :: u16
    by (simp add: take_bit_eq_mask mask_eq_exp_minus_1)
  have "push_bit 8 (ucast (ucast (drop_bit 8 x) :: u8)) AND ucast (ucast (take_bit 8 x) :: u8) = (0 :: u16)"
    by (rule bit_word_eqI) (auto simp: bit_simps)
  then have "push_bit 8 (ucast (ucast (drop_bit 8 x) :: u8)) + ucast (ucast (x AND 0xFF) :: u8) =
      push_bit 8 (ucast (ucast (drop_bit 8 x) :: u8)) OR (ucast (ucast (take_bit 8 x) :: u8) :: u16)"
    unfolding m by (simp flip: disjunctive_add_eq_or)
  also have "\<dots> = x" by (rule bit_word_eqI) (auto simp: bit_simps)
  finally show ?thesis .
qed

lemma decode_delta_encode: "decode_delta (encode_option d v @ rest) = d"
proof -
  define b where "b = push_bit 4 (delta_nibble d) OR length_nibble (word_of_nat (length v))"
  have b: "drop_bit 4 b AND 0x0F = delta_nibble d" unfolding b_def by (rule option_nibbles)
  consider "d < 13" | "\<not> d < 13" "d < 269" | "\<not> d < 13" "\<not> d < 269" by blast
  then show ?thesis
  proof cases
    case 1
    then have u: "unat (ucast d :: u8) = unat d" "unat d < 13"
      by (simp_all add: unat_ucast_8 word_less_nat_alt)
    then have "(ucast d :: u8) \<noteq> 13" "(ucast d :: u8) \<noteq> 14" by auto
    moreover have "(ucast (ucast d :: u8) :: u16) = d"
      unfolding ucast_ucast_8 using u by (simp add: take_bit_small)
    ultimately show ?thesis
      using 1 b by (simp add: decode_delta_def encode_option_def Let_def b_def delta_nibble_def)
  next
    case 2
    then have "unat (d - 13) < 256"
      by (simp add: word_less_nat_alt unat_sub_if')
    then have "(ucast (ucast (d - 13) :: u8) :: u16) = d - 13"
      unfolding ucast_ucast_8 by (simp add: take_bit_small)
    then show ?thesis
      using 2 b by (simp add: decode_delta_def encode_option_def Let_def b_def delta_nibble_def delta_ext_def)
  next
    case 3
    have "269 + (push_bit 8 (ucast (ucast (drop_bit 8 (d - 269)) :: u8)) + ucast (ucast ((d - 269) AND 0xFF) :: u8)) = d"
      unfolding word16_bytes by simp
    with 3 b show ?thesis
      by (simp add: decode_delta_def encode_option_def Let_def b_def delta_nibble_def delta_ext_def add.assoc)
  qed
qed


lemma read_length_ext:
  assumes "n < 65805" and "pos = length pre"
  shows "read_length (length_nibble (word_of_nat n)) (pre @ length_ext (word_of_nat n) @ rest) pos =
    Some (n, pos + length (length_ext (word_of_nat n)))"
proof -
  define w :: u64 where "w = word_of_nat n"
  have u: "unat w = n" using assms(1) by (simp add: w_def unat_of_nat take_bit_nat_eq_self)
  consider "n < 13" | "13 \<le> n" "n < 269" | "269 \<le> n" by linarith
  then show ?thesis
    unfolding w_def [symmetric]
  proof cases
    case 1
    then have c: "w < 13" and e: "unat (ucast w :: u8) = n"
      using u by (simp_all add: word_less_nat_alt unat_ucast_8)
    then have "(ucast w :: u8) \<noteq> 13" "(ucast w :: u8) \<noteq> 14" using 1 by auto
    then show "read_length (length_nibble w) (pre @ length_ext w @ rest) pos = Some (n, pos + length (length_ext w))"
      using c e by (simp add: read_length_def length_nibble_def length_ext_def)
  next
    case 2
    then have c: "\<not> w < 13" "w < 269" using u by (simp_all add: word_less_nat_alt)
    have "unat (w - 13) = n - 13" using u 2 by (simp add: unat_sub_if')
    then have "unat (ucast (w - 13) :: u8) = n - 13" using 2 by (simp add: unat_ucast_8)
    then show "read_length (length_nibble w) (pre @ length_ext w @ rest) pos = Some (n, pos + length (length_ext w))"
      using c 2 assms(2) by (simp add: read_length_def length_nibble_def length_ext_def)
  next
    case 3
    then have c: "\<not> w < 13" "\<not> w < 269" using u by (simp_all add: word_less_nat_alt)
    define x where "x = w - 269"
    have ux: "unat x = n - 269" using u 3 by (simp add: x_def unat_sub_if')
    have hi: "unat (ucast (drop_bit 8 x) :: u8) = (n - 269) div 256"
    proof -
      have "(n - 269) div 256 < 256" using assms(1) by (simp add: div_less_iff_less_mult)
      then show ?thesis using ux by (simp add: unat_ucast_8 drop_bit_eq_div unat_div_distrib)
    qed
    have "x AND 0xFF = take_bit 8 x" by (simp add: take_bit_eq_mask mask_eq_exp_minus_1)
    then have lo: "unat (ucast (x AND 0xFF) :: u8) = (n - 269) mod 256"
      using ux by (simp add: unat_ucast_8 unsigned_take_bit_eq take_bit_eq_mod unat_mod_distrib)
    have "269 + (n - 269) div 256 * 256 + (n - 269) mod 256 = n" using 3 by simp
    then show "read_length (length_nibble w) (pre @ length_ext w @ rest) pos = Some (n, pos + length (length_ext w))"
      using c assms(2) hi lo
      by (simp add: read_length_def length_nibble_def length_ext_def nth_append flip: x_def)
  qed
qed

lemma length_encode_option: "length (encode_option d v) =
    1 + length (delta_ext d) + length (length_ext (word_of_nat (length v))) + length v"
  by (simp add: encode_option_def Let_def)

lemma option_fields:
  assumes "length v < 65805"
  shows "read_length (length_nibble (word_of_nat (length v))) (pre @ encode_option d v @ rest)
      (length pre + 1 + length (delta_ext d)) =
    Some (length v, length pre + 1 + length (delta_ext d) + length (length_ext (word_of_nat (length v))))"
proof -
  let ?b = "push_bit 4 (delta_nibble d) OR length_nibble (word_of_nat (length v))"
  have "pre @ encode_option d v @ rest = (pre @ ?b # delta_ext d) @
      length_ext (word_of_nat (length v)) @ map byte_of_char v @ rest"
    by (simp add: encode_option_def Let_def)
  then show ?thesis
    using read_length_ext [OF assms, of "length (pre @ ?b # delta_ext d)" "pre @ ?b # delta_ext d" "map byte_of_char v @ rest"]
    by simp
qed

lemma encode_option_first:
  "(encode_option d v @ rest) ! 0 = push_bit 4 (delta_nibble d) OR length_nibble (word_of_nat (length v))"
  by (simp add: encode_option_def Let_def)

lemma decode_option_value_encode:
  assumes "length v < 65805"
  shows "decode_option_value (encode_option d v @ rest) = (v, length (encode_option d v))"
proof -
  let ?data = "encode_option d v @ rest"
  have l: "length ?data \<noteq> 0" "1 + length (delta_ext d) \<le> length ?data"
    by (simp_all add: length_encode_option)
  have "drop (1 + length (delta_ext d) + length (length_ext (word_of_nat (length v)))) ?data = map byte_of_char v @ rest"
    by (simp add: encode_option_def Let_def)
  then show ?thesis
    using option_fields [OF assms, of "[]" d rest] skip_delta_ext [OF l(2)] l
    unfolding decode_option_value_def Let_def encode_option_first option_nibbles
    by (simp add: length_encode_option)
qed

section \<open>Lists of options\<close>

text \<open>Options as deltas, and what a receiver reads: each number is the sum of the deltas so far.\<close>

definition encode_deltas :: "(u16 \<times> string) list \<Rightarrow> bytes" where
  "encode_deltas ds = concat (map (\<lambda>(d, v). encode_option d v) ds)"

fun undelta :: "u16 \<Rightarrow> (u16 \<times> string) list \<Rightarrow> coap_option list" where
  "undelta prev [] = []"
| "undelta prev ((d, v) # ds) = \<lparr>number = prev + d, opt_value = v\<rparr> # undelta (prev + d) ds"

fun deltas_of :: "u16 \<Rightarrow> coap_option list \<Rightarrow> (u16 \<times> string) list" where
  "deltas_of prev [] = []"
| "deltas_of prev (opt # opts) = (number opt - prev, opt_value opt) # deltas_of (number opt) opts"

lemma undelta_deltas: "undelta prev (deltas_of prev opts) = opts"
  by (induction opts arbitrary: prev) simp_all

definition short_values :: "(u16 \<times> string) list \<Rightarrow> bool" where
  "short_values ds \<longleftrightarrow> (\<forall>(d, v) \<in> set ds. length v < 65805)"

lemma short_deltas: "(\<forall>opt \<in> set opts. length (opt_value opt) < 65805) \<Longrightarrow> short_values (deltas_of prev opts)"
  by (induction opts arbitrary: prev) (auto simp: short_values_def)

definition at_end :: "bytes \<Rightarrow> bool" where
  "at_end tail \<longleftrightarrow> tail = [] \<or> hd tail = PAYLOAD_MARKER"

lemma parse_options_loop_deltas:
  assumes "short_values ds" and "at_end tail"
  shows "parse_options_loop (encode_deltas ds @ tail) prev = undelta prev ds"
  using assms(1)
proof (induction ds arbitrary: prev)
  case Nil
  then show ?case
    using assms(2) by (cases tail) (simp_all add: encode_deltas_def at_end_def parse_options_loop.simps)
next
  case (Cons dv ds)
  obtain d v where dv: "dv = (d, v)" by (cases dv)
  let ?data = "encode_option d v @ encode_deltas ds @ tail"
  have v: "length v < 65805" using Cons.prems by (simp add: short_values_def dv)
  have ne: "\<not> (?data = [] \<or> ?data ! 0 = PAYLOAD_MARKER)" "length (encode_option d v) \<noteq> 0"
    using option_not_marker [of d] unfolding encode_option_first by (simp_all add: encode_option_def Let_def)
  have "parse_options_loop ?data prev = \<lparr>number = prev + d, opt_value = v\<rparr> #
      parse_options_loop (encode_deltas ds @ tail) (prev + d)"
    unfolding parse_options_loop.simps [of ?data] if_not_P [OF ne(1)] decode_option_value_encode [OF v]
      decode_delta_encode Let_def prod.case if_not_P [OF ne(2)] by simp
  moreover have "encode_deltas (dv # ds) @ tail = ?data" by (simp add: encode_deltas_def dv)
  ultimately show ?case using Cons by (simp add: dv short_values_def)
qed

lemma skip_options_deltas:
  assumes "short_values ds" and "at_end tail"
  shows "skip_options (pre @ encode_deltas ds @ tail) (length pre) = length pre + length (encode_deltas ds)"
  using assms(1)
proof (induction ds arbitrary: pre)
  case Nil
  then show ?case
    using assms(2) by (cases tail) (simp_all add: encode_deltas_def at_end_def skip_options.simps)
next
  case (Cons dv ds)
  obtain d v where dv: "dv = (d, v)" by (cases dv)
  let ?data = "pre @ encode_option d v @ encode_deltas ds @ tail"
  have v: "length v < 65805" using Cons.prems by (simp add: short_values_def dv)
  have n: "?data ! length pre = push_bit 4 (delta_nibble d) OR length_nibble (word_of_nat (length v))"
    using encode_option_first [of d v "encode_deltas ds @ tail"] by (simp add: nth_append)
  have c: "length pre < length ?data \<and> ?data ! length pre \<noteq> PAYLOAD_MARKER"
    unfolding n using option_not_marker by (simp add: length_encode_option)
  have s: "skip_delta (delta_nibble d) (length ?data) (length pre + 1) = Some (length pre + 1 + length (delta_ext d))"
    by (rule skip_delta_ext) (simp add: length_encode_option)
  have f: "\<not> length ?data < length pre + 1 + length (delta_ext d) + length (length_ext (word_of_nat (length v))) + length v"
    by (simp add: length_encode_option)
  have "skip_options ?data (length pre) = skip_options ?data (length (pre @ encode_option d v))"
    unfolding skip_options.simps [of ?data "length pre"] if_P [OF c] n Let_def option_nibbles s option.case
      option_fields [OF v, of pre d "encode_deltas ds @ tail"] prod.case if_not_P [OF f]
    by (simp add: length_encode_option add.assoc option_not_marker)
  also have "\<dots> = length (pre @ encode_option d v) + length (encode_deltas ds)"
    using Cons.IH [of "pre @ encode_option d v"] Cons.prems by (simp add: short_values_def dv)
  finally show ?case by (simp add: encode_deltas_def dv)
qed


section \<open>Properties\<close>

text \<open>
  CoAP options round trip. In a message with a token of the length its header announces, options
  written as the deltas of their numbers, each value under 65805 bytes, are returned by
  \<^verbatim>\<open>parse_options\<close> with the same numbers and values in the same order, whatever the numbers are
  (deltas of one, two and three bytes), and the parser stops at the payload marker.
\<close>

theorem coap_options_roundtrip:
  assumes "length tok = unat (b0 AND 0x0F)" and "\<forall>opt \<in> set opts. length (opt_value opt) < 65805"
    and "at_end tail"
  shows "parse_options (b0 # b1 # b2 # b3 # tok @ encode_deltas (deltas_of 0 opts) @ tail) =
    (opts, 4 + length tok)"
proof -
  have "drop (4 + length tok) (b0 # b1 # b2 # b3 # tok @ xs) = xs" for xs :: bytes
    by (simp add: eval_nat_numeral)
  then show ?thesis
    using assms parse_options_loop_deltas [OF short_deltas [OF assms(2), of 0] assms(3), of 0]
    by (simp add: parse_options_def COAP_HEADER_SIZE_def Let_def undelta_deltas)
qed

theorem coap_options_roundtrip_witness:
  "parse_options (0x51 # 0x45 # 0 # 1 # [7] @ encode_deltas (deltas_of 0
      [\<lparr>number = 11, opt_value = ''a''\<rparr>, \<lparr>number = 11, opt_value = ''b''\<rparr>, \<lparr>number = 300, opt_value = []\<rparr>]) @ [0xFF, 1]) =
    ([\<lparr>number = 11, opt_value = ''a''\<rparr>, \<lparr>number = 11, opt_value = ''b''\<rparr>, \<lparr>number = 300, opt_value = []\<rparr>],
     4 + length [7 :: u8])"
  by (rule coap_options_roundtrip) (simp_all add: at_end_def PAYLOAD_MARKER_def)

text \<open>
  the client extracts the payload. From a 2.xx response with the announced token, any options and
  a payload marker, \<^verbatim>\<open>decode_response\<close> returns exactly the payload.
\<close>

theorem coap_response_payload:
  assumes "drop_bit 6 b0 AND 0x03 = COAP_VERSION" and "length tok = unat (b0 AND 0x0F)"
    and "drop_bit 5 c = 2" and "\<forall>opt \<in> set opts. length (opt_value opt) < 65805"
  shows "decode_response (b0 # c # b2 # b3 # tok @ encode_deltas (deltas_of 0 opts) @
      PAYLOAD_MARKER # map byte_of_char body) = (True, body)"
proof -
  define pre where "pre = b0 # c # b2 # b3 # tok"
  define ds where "ds = encode_deltas (deltas_of 0 opts)"
  define data where "data = pre @ ds @ PAYLOAD_MARKER # map byte_of_char body"
  have "at_end (PAYLOAD_MARKER # map byte_of_char body)" by (simp add: at_end_def)
  then have s: "skip_options data (length pre) = length pre + length ds"
    unfolding data_def ds_def by (rule skip_options_deltas [OF short_deltas [OF assms(4)]])
  have h: "data ! 0 = b0" "data ! 1 = c" "\<not> length data < COAP_HEADER_SIZE"
    by (simp_all add: data_def pre_def COAP_HEADER_SIZE_def)
  have p: "(if 0 < unat (b0 AND 0x0F) \<and> COAP_HEADER_SIZE + unat (b0 AND 0x0F) \<le> length data
      then COAP_HEADER_SIZE + unat (b0 AND 0x0F) else COAP_HEADER_SIZE) = length pre"
    unfolding assms(2) [symmetric] by (simp add: data_def pre_def COAP_HEADER_SIZE_def)
  have m: "data ! (length pre + length ds) = PAYLOAD_MARKER"
    "drop (length pre + length ds + 1) data = map byte_of_char body"
    "length data = length pre + length ds + 1 + length body"
    by (simp_all add: data_def nth_append)
  have "decode_response data = (True, body)"
    unfolding decode_response_def Let_def if_not_P [OF h(3)] h(1,2) p s m(1)
    using assms(1,3) m(2,3) by (simp add: o_def)
  then show ?thesis by (simp add: data_def pre_def ds_def)
qed

theorem coap_response_payload_witness:
  "decode_response (0x61 # 0x45 # 0 # 1 # [7] @ encode_deltas (deltas_of 0 [\<lparr>number = 12, opt_value = ''0''\<rparr>]) @
      PAYLOAD_MARKER # map byte_of_char ''hi'') = (True, ''hi'')"
  by (rule coap_response_payload) (simp_all add: COAP_VERSION_def)

text \<open>
  a request names only its first path segment Uri-Path. The client writes the absolute option
  number 11 where the format wants the difference to the previous option, so a receiver reads the
  segments of the path as options 11, 22, 33 and so on.
\<close>

theorem coap_request_path_numbers:
  assumes "\<forall>s \<in> set (path_segments path). length s < 65805"
  shows "fst (parse_options (fst (encode_request req path [] False tok i))) =
    map (\<lambda>(k, s). \<lparr>number = word_of_nat (11 * (k + 1)), opt_value = s\<rparr>) (enumerate 0 (path_segments path))"
proof -
  let ?ss = "path_segments path"
  let ?ds = "map (Pair 11) ?ss"
  have opts: "concat (map (encode_option 11) ?ss) = encode_deltas ?ds"
    by (simp add: encode_deltas_def o_def)
  have short: "short_values ?ds" using assms by (auto simp: short_values_def)
  have num: "undelta (word_of_nat (11 * n)) (map (Pair 11) ss) =
      map (\<lambda>(k, s). \<lparr>number = word_of_nat (11 * (k + 1)), opt_value = s\<rparr>) (enumerate n ss)" for n ss
  proof (induction ss arbitrary: n)
    case (Cons s ss)
    then show ?case using Cons [of "Suc n"] by (simp add: algebra_simps)
  qed simp
  have e: "fst (encode_request req path [] False tok i) =
      0x41 # request_method_code req # ucast (drop_bit 8 (i + 1)) # ucast ((i + 1) AND 0xFF) # [tok] @ encode_deltas ?ds"
    using opts by (simp add: encode_request_def Let_def COAP_VERSION_def)
  have "at_end []" by (simp add: at_end_def)
  from parse_options_loop_deltas [OF short this, of 0] num [of 0 ?ss]
  show ?thesis
    unfolding e by (simp add: parse_options_def COAP_HEADER_SIZE_def Let_def eval_nat_numeral)
qed

theorem coap_request_path_numbers_witness:
  "fst (parse_options (fst (encode_request GET ''/sensor/temp'' [] False 7 0))) =
    [\<lparr>number = 11, opt_value = ''sensor''\<rparr>, \<lparr>number = 22, opt_value = ''temp''\<rparr>]"
proof -
  have s: "path_segments ''/sensor/temp'' = [''sensor'', ''temp'']" by code_simp
  show ?thesis using coap_request_path_numbers [of "''/sensor/temp''" GET 7 0] by (simp add: s)
qed

text \<open>
  \<^verbatim>\<open>parse_message\<close> loses short payloads. It skips the header and the token and then lets
  \<^verbatim>\<open>parse_options\<close> skip a header again, of a size read from the first byte after the token. For a
  response without token and options that byte is the payload marker, and a payload of 3 to 18 bytes
  is dropped: parsing succeeds and the payload field keeps its old value, where the client's own
  \<^verbatim>\<open>decode_response\<close> returns the payload.
\<close>

theorem parse_message_drops_payload:
  fixes hb c ma mb :: u8
  assumes "drop_bit 6 hb AND 0x03 = COAP_VERSION" and "hb AND 0x0F = 0" and "drop_bit 5 c = 2"
    and "3 \<le> length body" and "length body \<le> 18"
  defines "data \<equiv> [hb, c, ma, mb, PAYLOAD_MARKER] @ map byte_of_char body"
  shows "fst (parse_message data msg) \<and> msg_payload (snd (parse_message data msg)) = msg_payload msg \<and>
    decode_response data = (True, body)"
proof -
  have h: "\<not> length data < COAP_HEADER_SIZE" "data ! 0 = hb" "length data = 5 + length body"
    by (simp_all add: data_def COAP_HEADER_SIZE_def)
  have d: "drop COAP_HEADER_SIZE data = PAYLOAD_MARKER # map byte_of_char body"
    by (simp add: data_def COAP_HEADER_SIZE_def)
  have "unat (PAYLOAD_MARKER AND 0x0F) = 15" by (simp add: PAYLOAD_MARKER_def)
  then have o: "snd (parse_options (PAYLOAD_MARKER # map byte_of_char body)) = 19"
    using assms(4) by (simp add: parse_options_def COAP_HEADER_SIZE_def Let_def)
  obtain opts where o2: "parse_options (PAYLOAD_MARKER # map byte_of_char body) = (opts, 19)"
    using o by (metis prod.collapse)
  have "fst (parse_message data msg) \<and> msg_payload (snd (parse_message data msg)) = msg_payload msg"
    using assms(1,2,5) h(1,3)
    by (simp add: parse_message_def Let_def h(2) d o2) (simp add: COAP_HEADER_SIZE_def)
  moreover have "skip_options data 4 = 4"
  proof -
    have "data ! 4 = PAYLOAD_MARKER" by (simp add: data_def)
    then show ?thesis by (subst skip_options.simps) simp
  qed
  then have "decode_response data = (True, body)"
    using assms(1,2,3,4) by (simp add: decode_response_def Let_def h) (simp add: data_def COAP_HEADER_SIZE_def o_def)
  ultimately show ?thesis by blast
qed

theorem parse_message_drops_payload_witness:
  "fst (parse_message ([0x60, 0x45, 0, 1, PAYLOAD_MARKER] @ map byte_of_char ''hello'')
      \<lparr>version = 0, msg_type = NON, code = 0, message_id = 0, token = [], options = [], msg_payload = []\<rparr>) \<and>
   msg_payload (snd (parse_message ([0x60, 0x45, 0, 1, PAYLOAD_MARKER] @ map byte_of_char ''hello'')
      \<lparr>version = 0, msg_type = NON, code = 0, message_id = 0, token = [], options = [], msg_payload = []\<rparr>)) = [] \<and>
   decode_response ([0x60, 0x45, 0, 1, PAYLOAD_MARKER] @ map byte_of_char ''hello'') = (True, ''hello'')"
  using parse_message_drops_payload [where hb = "0x60" and c = "0x45" and ma = 0 and mb = 1
      and body = "''hello''" and msg = "\<lparr>version = 0, msg_type = NON, code = 0, message_id = 0,
        token = [], options = [], msg_payload = []\<rparr>"]
  by (simp add: COAP_VERSION_def)

end
