(* ===== verification/Merkle.thy ===== *)
theory Merkle
  imports Hex
begin

text \<open>
  The Merkle tree over leaves of 32 bytes and its inclusion proofs
  (include/midnight/crypto/merkle_tree.hpp, src/crypto/merkle_tree.cpp). Blake2b-256 comes from
  libsodium: it is the parameter \<open>H\<close> of the definitions.
\<close>

section \<open>The tree\<close>

definition DEPTH :: nat where "DEPTH = 32"
definition HASH_SIZE :: nat where "HASH_SIZE = 32"

definition zero_hash :: bytes where
  "zero_hash = replicate HASH_SIZE 0"

definition hash_pair :: "(bytes \<Rightarrow> bytes) \<Rightarrow> bytes \<Rightarrow> bytes \<Rightarrow> bytes" where
  "hash_pair H left right = H (left @ right)"

definition hash_single :: "(bytes \<Rightarrow> bytes) \<Rightarrow> bytes \<Rightarrow> bytes" where
  "hash_single H data = H data"

record merkle_tree =
  leaves :: "bytes list"
  nodes :: "bytes list list"
  root :: bytes

definition normalize_leaf :: "bytes \<Rightarrow> bytes" where
  "normalize_leaf leaf =
     (let copy_len = min (length leaf) HASH_SIZE in take copy_len leaf @ replicate (HASH_SIZE - copy_len) 0)"

fun next_level :: "(bytes \<Rightarrow> bytes) \<Rightarrow> bytes list \<Rightarrow> bytes list" where
  "next_level H [] = []"
| "next_level H [a] = [hash_pair H a zero_hash]"
| "next_level H (a # b # rest) = hash_pair H a b # next_level H rest"

text \<open>
  The loop over the levels that are left: the entries of \<open>nodes\<close> it writes (those it does not
  reach stay empty) and the level it stops at.
\<close>

fun build_levels :: "(bytes \<Rightarrow> bytes) \<Rightarrow> nat \<Rightarrow> bytes list \<Rightarrow> bytes list list \<times> bytes list" where
  "build_levels H 0 current_level = ([], current_level)"
| "build_levels H (Suc n) current_level =
     (if length current_level \<le> 1 then (current_level # replicate n [], current_level)
      else
        (let (ns, final) = build_levels H n (next_level H current_level)
         in (current_level # ns, final)))"

definition empty_tree :: merkle_tree where
  "empty_tree = \<lparr>leaves = [], nodes = [], root = zero_hash\<rparr>"

definition from_leaves :: "(bytes \<Rightarrow> bytes) \<Rightarrow> bytes list \<Rightarrow> merkle_tree" where
  "from_leaves H ls =
     (let normalized = map normalize_leaf ls;
          (ns, final) = build_levels H DEPTH normalized
      in \<lparr>leaves = normalized, nodes = ns, root = (if final \<noteq> [] then final ! 0 else zero_hash)\<rparr>)"

definition get_node :: "merkle_tree \<Rightarrow> nat \<Rightarrow> nat \<Rightarrow> bytes option" where
  "get_node t level index =
     (if length (nodes t) \<le> level then None
      else if length (nodes t ! level) \<le> index then None
      else Some (nodes t ! level ! index))"

definition get_leaf :: "merkle_tree \<Rightarrow> nat \<Rightarrow> bytes option" where
  "get_leaf t index = (if length (leaves t) \<le> index then None else Some (leaves t ! index))"

text \<open>The loop of \<^verbatim>\<open>get_path\<close>, over the levels and the position in each.\<close>

fun path_loop :: "bytes list list \<Rightarrow> nat \<Rightarrow> bytes list" where
  "path_loop [] idx = []"
| "path_loop (level # levels) idx =
     (if level = [] then []
      else
        (let sibling_idx = (if idx mod 2 = 0 then idx + 1 else idx - 1)
         in (if sibling_idx < length level then level ! sibling_idx else zero_hash) #
            path_loop levels (idx div 2)))"

definition get_path :: "merkle_tree \<Rightarrow> nat \<Rightarrow> bytes list option" where
  "get_path t leaf_index =
     (if length (leaves t) \<le> leaf_index then None
      else Some (path_loop (take DEPTH (nodes t)) leaf_index))"

section \<open>Proofs of inclusion\<close>

record merkle_proof =
  leaf :: bytes
  siblings :: "bytes list"
  sibling_positions :: "nat list"
  leaf_index :: nat

text \<open>One level up for each sibling; a missing position hashes with zeros.\<close>

fun root_loop :: "(bytes \<Rightarrow> bytes) \<Rightarrow> bytes \<Rightarrow> bytes list \<Rightarrow> nat list \<Rightarrow> bytes" where
  "root_loop H current [] positions = current"
| "root_loop H current (s # ss) (p # ps) =
     root_loop H (if p = 0 then hash_pair H s current else hash_pair H current s) ss ps"
| "root_loop H current (s # ss) [] = root_loop H (hash_pair H current zero_hash) ss []"

definition compute_root :: "(bytes \<Rightarrow> bytes) \<Rightarrow> merkle_proof \<Rightarrow> bytes" where
  "compute_root H p = root_loop H (leaf p) (siblings p) (sibling_positions p)"

definition verify :: "(bytes \<Rightarrow> bytes) \<Rightarrow> merkle_proof \<Rightarrow> bytes \<Rightarrow> bool" where
  "verify H p expected_root =
     (if leaf p = [] \<or> expected_root = [] then False
      else compute_root H p = expected_root)"

section \<open>JSON text of a proof\<close>

definition join_with :: "string \<Rightarrow> string list \<Rightarrow> string" where
  "join_with sep xs = (case xs of [] \<Rightarrow> [] | y # ys \<Rightarrow> y @ concat (map (\<lambda>z. sep @ z) ys))"

definition leaf_hex :: "merkle_proof \<Rightarrow> string" where
  "leaf_hex p = crypto_to_hex (leaf p)"

definition siblings_hex :: "merkle_proof \<Rightarrow> string list" where
  "siblings_hex p = map crypto_to_hex (siblings p)"

definition proof_to_json :: "merkle_proof \<Rightarrow> string" where
  "proof_to_json p =
     ''{'' @ [CHR 0x22] @ ''leaf'' @ [CHR 0x22] @ '':'' @ [CHR 0x22] @ leaf_hex p @ [CHR 0x22] @ '','' @
     [CHR 0x22] @ ''leaf_index'' @ [CHR 0x22] @ '':'' @ to_string (leaf_index p) @ '','' @
     [CHR 0x22] @ ''siblings'' @ [CHR 0x22] @ '':['' @
     join_with '','' (map (\<lambda>s. [CHR 0x22] @ crypto_to_hex s @ [CHR 0x22]) (siblings p)) @ ''],'' @
     [CHR 0x22] @ ''sibling_positions'' @ [CHR 0x22] @ '':['' @
     join_with '','' (map to_string (sibling_positions p)) @ '']'' @ ''}''"

section \<open>Lemmas\<close>

lemma length_normalize [simp]: "length (normalize_leaf l) = HASH_SIZE"
  by (simp add: normalize_leaf_def Let_def)

lemma length_next_level: "length (next_level H xs) = (length xs + 1) div 2"
  by (induction H xs rule: next_level.induct) auto

lemma next_level_nth:
  "k < length (next_level H xs) \<Longrightarrow> next_level H xs ! k =
    hash_pair H (xs ! (2 * k)) (if 2 * k + 1 < length xs then xs ! (2 * k + 1) else zero_hash)"
proof (induction H xs arbitrary: k rule: next_level.induct)
  case (3 H a b rest)
  then show ?case by (cases k) auto
qed auto

text \<open>The side the sibling of a node is on, at each level from a position up: 0 is left.\<close>

fun sides :: "nat \<Rightarrow> nat \<Rightarrow> nat list" where
  "sides 0 idx = []"
| "sides (Suc n) idx = (if idx mod 2 = 0 then 1 else 0) # sides n (idx div 2)"

lemma length_build_levels: "length (fst (build_levels H n xs)) = n"
proof (induction n arbitrary: xs)
  case (Suc n)
  show ?case
    by (cases "build_levels H n (next_level H xs)") (use Suc [of "next_level H xs"] in \<open>auto simp: Let_def\<close>)
qed simp

text \<open>One level: the pair a node and its sibling form is the node above.\<close>

lemma hash_up:
  assumes "idx < length xs"
  defines "s \<equiv> (let j = (if idx mod 2 = 0 then idx + 1 else idx - 1)
     in if j < length xs then xs ! j else zero_hash)"
  shows "(if (if idx mod 2 = 0 then 1 else 0) = (0 :: nat) then hash_pair H s (xs ! idx)
    else hash_pair H (xs ! idx) s) = next_level H xs ! (idx div 2)"
proof -
  have k: "idx div 2 < length (next_level H xs)" using assms by (simp add: length_next_level)
  show ?thesis
  proof (cases "idx mod 2 = 0")
    case True
    then have "2 * (idx div 2) = idx" by auto
    with True show ?thesis using next_level_nth [OF k] by (simp add: s_def Let_def)
  next
    case False
    then have "2 * (idx div 2) + 1 = idx" by presburger
    then have "2 * (idx div 2) = idx - 1" "2 * (idx div 2) + 1 = idx" by simp_all
    moreover have "idx - 1 < length xs" using assms(1) by simp
    ultimately show ?thesis using False next_level_nth [OF k] assms(1) by (simp add: s_def Let_def)
  qed
qed

lemma path_loop_root:
  assumes "length xs \<le> 2 ^ n" and "idx < length xs"
  shows "\<exists>path r. build_levels H (Suc n) xs = (fst (build_levels H (Suc n) xs), [r]) \<and>
    path_loop (fst (build_levels H (Suc n) xs)) idx = path @ [zero_hash] \<and>
    length path \<le> n \<and>
    (\<forall>m \<ge> length path. \<forall>rest. root_loop H (xs ! idx) (path @ rest) (sides m idx) =
       root_loop H r rest (sides (m - length path) (idx div 2 ^ length path))) \<and>
    idx div 2 ^ length path = 0"
  using assms
proof (induction n arbitrary: xs idx)
  case 0
  then have l: "length xs = 1" by simp
  then obtain x where "xs = [x]" by (auto simp: length_Suc_conv)
  with 0 show ?case by (intro exI [of _ "[]"] exI [of _ x]) simp
next
  case (Suc n)
  show ?case
  proof (cases "length xs \<le> 1")
    case True
    with Suc.prems have "length xs = 1" by simp
    then obtain x where "xs = [x]" by (auto simp: length_Suc_conv)
    with Suc.prems show ?thesis by (intro exI [of _ "[]"] exI [of _ x]) simp
  next
    case False
    let ?ys = "next_level H xs"
    have "length ?ys \<le> 2 ^ n" "idx div 2 < length ?ys"
      using Suc.prems by (simp_all add: length_next_level)
    from Suc.IH [OF this] obtain path r where IH:
      "build_levels H (Suc n) ?ys = (fst (build_levels H (Suc n) ?ys), [r])"
      "path_loop (fst (build_levels H (Suc n) ?ys)) (idx div 2) = path @ [zero_hash]"
      "length path \<le> n"
      "\<forall>m \<ge> length path. \<forall>rest. root_loop H (?ys ! (idx div 2)) (path @ rest) (sides m (idx div 2)) =
         root_loop H r rest (sides (m - length path) (idx div 2 div 2 ^ length path))"
      "idx div 2 div 2 ^ length path = 0"
      by blast
    define s where "s = (let j = (if idx mod 2 = 0 then idx + 1 else idx - 1)
       in if j < length xs then xs ! j else zero_hash)"
    have b: "build_levels H (Suc (Suc n)) xs = (xs # fst (build_levels H (Suc n) ?ys), [r])"
      unfolding build_levels.simps(2) [of H "Suc n" xs] if_not_P [OF False]
      by (subst IH(1)) (simp del: build_levels.simps)
    have p: "path_loop (xs # fst (build_levels H (Suc n) ?ys)) idx = (s # path) @ [zero_hash]"
      using False IH(2) by (auto simp: s_def Let_def simp del: build_levels.simps)
    have "root_loop H (xs ! idx) ((s # path) @ rest) (sides m idx) =
        root_loop H r rest (sides (m - length (s # path)) (idx div 2 ^ length (s # path)))"
      if m: "length (s # path) \<le> m" for m rest
    proof -
      obtain m' where m': "m = Suc m'" "length path \<le> m'" using m by (cases m) auto
      have "root_loop H (xs ! idx) ((s # path) @ rest) (sides m idx) =
          root_loop H (?ys ! (idx div 2)) (path @ rest) (sides m' (idx div 2))"
        using hash_up [OF Suc.prems(2), of H, folded s_def] by (simp add: m'(1))
      also have "\<dots> = root_loop H r rest (sides (m' - length path) (idx div 2 div 2 ^ length path))"
        using IH(4) m'(2) by blast
      finally show ?thesis by (simp add: m'(1) div_mult2_eq)
    qed
    moreover have "idx div 2 ^ length (s # path) = 0" using IH(5) by (simp add: div_mult2_eq)
    ultimately show ?thesis
      using b p IH(3) by (intro exI [of _ "s # path"] exI [of _ r]) (simp del: build_levels.simps)
  qed
qed

section \<open>Properties\<close>

text \<open>
  an inclusion proof made from \<^verbatim>\<open>get_path\<close> proves a different root. For every tree of at most
  \<open>2 ^ 31\<close> leaves and every leaf, with the sibling sides its index determines, the path without its
  last element verifies against the root of the tree, and the whole path, which has one more zero
  sibling for the level of the root itself, verifies only if the root is the hash of itself and zeros.
\<close>

theorem merkle_path_extra_sibling:
  assumes "\<forall>x. length (H x) = HASH_SIZE" and "i < length ls" and "length ls \<le> 2 ^ 31"
  defines "t \<equiv> from_leaves H ls"
  shows "\<exists>path l. get_path t i = Some path \<and> get_leaf t i = Some l \<and>
    verify H \<lparr>leaf = l, siblings = butlast path, sibling_positions = sides 32 i, leaf_index = i\<rparr> (root t) \<and>
    (verify H \<lparr>leaf = l, siblings = path, sibling_positions = sides 32 i, leaf_index = i\<rparr> (root t)
     \<longleftrightarrow> hash_pair H (root t) zero_hash = root t)"
proof -
  let ?xs = "map normalize_leaf ls"
  have i: "i < length ?xs" "length ?xs \<le> 2 ^ 31" using assms(2,3) by simp_all
  from path_loop_root [OF i(2,1), of H]
  obtain path r where p: "build_levels H 32 ?xs = (fst (build_levels H 32 ?xs), [r])"
    "path_loop (fst (build_levels H 32 ?xs)) i = path @ [zero_hash]" "length path \<le> 31"
    "\<forall>m \<ge> length path. \<forall>rest. root_loop H (?xs ! i) (path @ rest) (sides m i) =
       root_loop H r rest (sides (m - length path) (i div 2 ^ length path))"
    "i div 2 ^ length path = 0"
    by (auto simp del: build_levels.simps)
  have t: "t = \<lparr>leaves = ?xs, nodes = fst (build_levels H 32 ?xs), root = r\<rparr>"
    unfolding t_def from_leaves_def DEPTH_def Let_def by (subst p(1)) simp
  have g: "get_path t i = Some (path @ [zero_hash])" "get_leaf t i = Some (?xs ! i)"
    using i p(2) by (simp_all add: t get_path_def get_leaf_def DEPTH_def length_build_levels del: build_levels.simps)
  have ne: "?xs ! i \<noteq> []"
    using assms(2) length_normalize [of "ls ! i"] by (auto simp: HASH_SIZE_def simp del: length_normalize)
  have b: "root_loop H (?xs ! i) path (sides 32 i) = r" 
    using p(3) p(4) [rule_format, of 32 "[]"] by simp
  have "root_loop H (?xs ! i) (path @ [zero_hash]) (sides 32 i) =
      root_loop H r [zero_hash] (sides (32 - length path) 0)"
    using p(3,4,5) by simp
  moreover have "32 - length path = Suc (31 - length path)" using p(3) by simp
  ultimately have w: "root_loop H (?xs ! i) (path @ [zero_hash]) (sides 32 i) = hash_pair H r zero_hash"
    by simp
  have "length (root_loop H c ss ps) = HASH_SIZE" if "length c = HASH_SIZE" for c ss ps
    using that assms(1)
  proof (induction H c ss ps rule: root_loop.induct)
    case (2 H c s ss p ps)
    then show ?case by (auto simp: hash_pair_def)
  qed (auto simp: hash_pair_def)
  from this [of "?xs ! i" path "sides 32 i"] have "r \<noteq> []"
    using b assms(2) by (auto simp: HASH_SIZE_def)
  then show ?thesis
    using g ne b w by (simp add: t verify_def compute_root_def)
qed


theorem merkle_path_extra_sibling_witness:
  "\<exists>path l. get_path (from_leaves normalize_leaf [[1], [2], [3]]) 2 = Some path \<and>
    get_leaf (from_leaves normalize_leaf [[1], [2], [3]]) 2 = Some l \<and>
    verify normalize_leaf \<lparr>leaf = l, siblings = butlast path, sibling_positions = sides 32 2, leaf_index = 2\<rparr>
      (root (from_leaves normalize_leaf [[1], [2], [3]])) \<and>
    (verify normalize_leaf \<lparr>leaf = l, siblings = path, sibling_positions = sides 32 2, leaf_index = 2\<rparr>
      (root (from_leaves normalize_leaf [[1], [2], [3]])) \<longleftrightarrow>
     hash_pair normalize_leaf (root (from_leaves normalize_leaf [[1], [2], [3]])) zero_hash =
      root (from_leaves normalize_leaf [[1], [2], [3]]))"
  by (rule merkle_path_extra_sibling) simp_all

end
