(* ===== verification/Breaker.thy ===== *)
theory Breaker
  imports Prelude
begin

text \<open>
  Resilience of the RPC clients: the circuit breaker and the retry loop of
  include/midnight/network/rate_limiter.hpp and the retry policy of
  include/midnight/network/retry_config.hpp. The steady clock is an argument, in nanoseconds; the
  mutex of the breaker makes every operation one step. The delays of the back-off are doubles and
  are not modelled.
\<close>

section \<open>The circuit breaker\<close>

datatype breaker_state = CLOSED | OPEN | HALF_OPEN

record breaker_config =
  failure_threshold :: u32
  success_threshold :: u32
  open_duration_ms :: u32

record breaker =
  config :: breaker_config
  state :: breaker_state
  consecutive_failures :: u32
  consecutive_successes :: u32
  last_failure_time :: int

definition new_breaker :: "breaker_config \<Rightarrow> breaker" where
  "new_breaker c = \<lparr>config = c, state = CLOSED, consecutive_failures = 0,
     consecutive_successes = 0, last_failure_time = 0\<rparr>"

definition default_breaker :: breaker where
  "default_breaker = new_breaker
     \<lparr>failure_threshold = 5, success_threshold = 3, open_duration_ms = 30000\<rparr>"

definition is_request_allowed :: "int \<Rightarrow> breaker \<Rightarrow> bool \<times> breaker" where
  "is_request_allowed now b =
     (if state b = CLOSED then (True, b)
      else if state b = OPEN then
        (if uint (open_duration_ms (config b)) * 1000000 \<le> now - last_failure_time b
         then (True, b\<lparr>state := HALF_OPEN, consecutive_successes := 0\<rparr>)
         else (False, b))
      else (True, b))"

definition record_success :: "breaker \<Rightarrow> breaker" where
  "record_success b =
     (if state b = HALF_OPEN then
        (let b = b\<lparr>consecutive_successes := consecutive_successes b + 1\<rparr>
         in if success_threshold (config b) \<le> consecutive_successes b
            then b\<lparr>state := CLOSED, consecutive_failures := 0, consecutive_successes := 0\<rparr> else b)
      else if state b = CLOSED then b\<lparr>consecutive_failures := 0\<rparr>
      else b)"

definition record_failure :: "int \<Rightarrow> breaker \<Rightarrow> breaker" where
  "record_failure now b =
     (let b = b\<lparr>consecutive_failures := consecutive_failures b + 1, last_failure_time := now\<rparr>
      in if state b = HALF_OPEN then b\<lparr>state := OPEN, consecutive_successes := 0\<rparr>
         else if state b = CLOSED then
           (if failure_threshold (config b) \<le> consecutive_failures b then b\<lparr>state := OPEN\<rparr> else b)
         else b)"

definition get_state :: "breaker \<Rightarrow> breaker_state" where
  "get_state b = state b"

section \<open>The retry loop\<close>

text \<open>
  \<^verbatim>\<open>ExponentialBackoff::execute\<close>: the operation is the stream of its results, the second component
  the number of calls. The recursion is over the attempts left, \<^verbatim>\<open>max_retries - attempt\<close>.
\<close>

function execute_loop :: "u32 \<Rightarrow> (nat \<Rightarrow> bool) \<Rightarrow> u32 \<Rightarrow> nat \<Rightarrow> bool \<times> nat" where
  "execute_loop max_retries operation attempt calls =
     (if attempt \<le> max_retries
      then if operation calls then (True, Suc calls)
           else if max_retries \<le> attempt then (False, Suc calls)
           else execute_loop max_retries operation (attempt + 1) (Suc calls)
      else (False, calls))"
  by pat_completeness auto
termination
proof (relation "measure (\<lambda>(m, _, a, _). unat m - unat a)")
  fix m a :: u32 and operation :: "nat \<Rightarrow> bool" and calls :: nat
  assume "\<not> m \<le> a"
  then have lt: "unat a < unat m" by (simp add: word_le_nat_alt)
  moreover have "unat (a + 1) = Suc (unat a)"
  proof -
    have "unat m < 2 ^ 32" using unsigned_less [of m] by simp
    with lt show ?thesis by (simp add: unat_word_ariths)
  qed
  ultimately show "((m, operation, a + 1, Suc calls), m, operation, a, calls)
      \<in> measure (\<lambda>(m, _, a, _). unat m - unat a)" by simp
qed simp

declare execute_loop.simps [simp del]

definition execute :: "u32 \<Rightarrow> (nat \<Rightarrow> bool) \<Rightarrow> bool \<times> nat" where
  "execute max_retries operation = execute_loop max_retries operation 0 0"

section \<open>The retry policy\<close>

record retry_config =
  max_retries :: u32
  initial_backoff_ms :: u32
  max_backoff_ms :: u32
  retry_on_500 :: bool
  retry_on_502 :: bool
  retry_on_503 :: bool
  retry_on_504 :: bool
  retry_on_timeout :: bool
  retry_on_connection_error :: bool

definition should_retry_status :: "retry_config \<Rightarrow> int \<Rightarrow> bool" where
  "should_retry_status c status_code =
     (if 200 \<le> status_code \<and> status_code < 400 then False
      else if 400 \<le> status_code \<and> status_code < 500 then False
      else if status_code = 500 then retry_on_500 c
      else if status_code = 502 then retry_on_502 c
      else if status_code = 503 then retry_on_503 c
      else if status_code = 504 then retry_on_504 c
      else False)"

record network_stats =
  total_requests :: u64
  successful_requests :: u64
  failed_requests :: u64
  total_retries :: u64
  successful_retries :: u64
  transient_errors :: u64
  timeout_errors :: u64

definition reset_stats :: "network_stats \<Rightarrow> network_stats" where
  "reset_stats s = s\<lparr>total_requests := 0, successful_requests := 0, failed_requests := 0,
     total_retries := 0, successful_retries := 0, transient_errors := 0, timeout_errors := 0\<rparr>"

section \<open>Runs of the breaker\<close>

text \<open>
  Operations in the order the mutex serves them, with the clock: a request that is let through or
  turned away, and the outcome of a request.
\<close>

datatype breaker_event = Request bool | Success | Failure

inductive breaker_step :: "int \<times> breaker \<Rightarrow> breaker_event \<Rightarrow> int \<times> breaker \<Rightarrow> bool" where
  request: "t \<le> now \<Longrightarrow> is_request_allowed now b = (ok, b') \<Longrightarrow>
    breaker_step (t, b) (Request ok) (now, b')"
| success: "t \<le> now \<Longrightarrow> breaker_step (t, b) Success (now, record_success b)"
| failure: "t \<le> now \<Longrightarrow> breaker_step (t, b) Failure (now, record_failure now b)"

inductive_cases breaker_stepE: "breaker_step (t, b) e (t', b')"
inductive_simps breaker_success_iff: "breaker_step (t, b) Success s'"
inductive_simps breaker_failure_iff: "breaker_step (t, b) Failure s'"

inductive breaker_run :: "int \<times> breaker \<Rightarrow> breaker_event list \<Rightarrow> int \<times> breaker \<Rightarrow> bool" where
  run_Nil: "breaker_run s [] s"
| run_Cons: "breaker_step s e s' \<Longrightarrow> breaker_run s' es s'' \<Longrightarrow> breaker_run s (e # es) s''"

inductive_simps breaker_run_Nil [simp]: "breaker_run s [] s'"
inductive_simps breaker_run_Cons: "breaker_run s (e # es) s''"

definition breaker_inv :: "breaker \<Rightarrow> bool" where
  "breaker_inv b \<longleftrightarrow>
     (state b = CLOSED \<longrightarrow> consecutive_failures b < failure_threshold (config b)) \<and>
     (state b = HALF_OPEN \<longrightarrow> consecutive_successes b < success_threshold (config b))"

lemma config_ops [simp]:
  "config (record_success b) = config b" "config (record_failure now b) = config b"
  "config (snd (is_request_allowed now b)) = config b"
  by (simp_all add: record_success_def record_failure_def is_request_allowed_def Let_def)

lemma breaker_step_config: "breaker_step s e s' \<Longrightarrow> config (snd s') = config (snd s)"
proof (induction rule: breaker_step.induct)
  case (request t now b ok b')
  then show ?case using config_ops(3) [of now b] by simp
qed simp_all

lemma breaker_inv_step:
  assumes "breaker_step s e s'" and "breaker_inv (snd s)"
    and "0 < failure_threshold (config (snd s))" and "0 < success_threshold (config (snd s))"
  shows "breaker_inv (snd s')"
  using assms
  by (induction rule: breaker_step.induct)
    (auto simp: breaker_inv_def record_success_def record_failure_def is_request_allowed_def Let_def
      split: if_splits breaker_state.splits)


lemma breaker_run_inv:
  assumes "breaker_run s es s'" and "breaker_inv (snd s)"
    and "0 < failure_threshold (config (snd s))" and "0 < success_threshold (config (snd s))"
  shows "breaker_inv (snd s')"
  using assms
proof (induction rule: breaker_run.induct)
  case (run_Cons s e s' es s'')
  then show ?case using breaker_inv_step breaker_step_config by metis
qed

lemma new_breaker_inv: "0 < failure_threshold c \<Longrightarrow> breaker_inv (new_breaker c)"
  by (simp add: breaker_inv_def new_breaker_def)

section \<open>Properties\<close>

lemma word_lt_Suc:
  fixes x y :: u32
  assumes "x < y"
  shows "unat (x + 1) = Suc (unat x)"
proof -
  have "unat x < unat y" "unat y < 2 ^ 32" using assms unsigned_less [of y] by (simp_all add: word_less_nat_alt)
  then show ?thesis by (simp add: unat_word_ariths)
qed

lemma failure_run_open:
  "breaker_run (t, b) (replicate n Failure) (t', b') \<Longrightarrow> state b = OPEN \<Longrightarrow> state b' = OPEN"
  by (induction n arbitrary: t b)
    (auto simp: breaker_run_Cons breaker_failure_iff record_failure_def Let_def)

lemma failure_run:
  "breaker_run (t, b) (replicate n Failure) (t', b') \<Longrightarrow> state b = CLOSED \<Longrightarrow>
   consecutive_failures b < failure_threshold (config b) \<Longrightarrow>
   state b' = (if unat (consecutive_failures b) + n < unat (failure_threshold (config b)) then CLOSED else OPEN)"
proof (induction n arbitrary: t b)
  case 0
  then show ?case by (simp add: word_less_nat_alt)
next
  case (Suc n)
  then obtain now where r: "breaker_run (now, record_failure now b) (replicate n Failure) (t', b')"
    by (auto simp: breaker_run_Cons breaker_failure_iff)
  note u = word_lt_Suc [OF Suc.prems(3)]
  show ?case
  proof (cases "failure_threshold (config b) \<le> consecutive_failures b + 1")
    case True
    then have "state (record_failure now b) = OPEN"
      using Suc.prems by (simp add: record_failure_def Let_def)
    with r have "state b' = OPEN" by (rule failure_run_open)
    with True u show ?thesis by (simp add: word_le_nat_alt)
  next
    case False
    then have "state (record_failure now b) = CLOSED"
      "consecutive_failures (record_failure now b) = consecutive_failures b + 1"
      using Suc.prems by (simp_all add: record_failure_def Let_def)
    with Suc.IH [OF r] False u show ?thesis by (simp add: not_le)
  qed
qed

lemma success_run_closed:
  "breaker_run (t, b) (replicate n Success) (t', b') \<Longrightarrow> state b = CLOSED \<Longrightarrow> state b' = CLOSED"
  by (induction n arbitrary: t b)
    (auto simp: breaker_run_Cons breaker_success_iff record_success_def Let_def)

lemma success_run:
  "breaker_run (t, b) (replicate n Success) (t', b') \<Longrightarrow> state b = HALF_OPEN \<Longrightarrow>
   consecutive_successes b < success_threshold (config b) \<Longrightarrow>
   state b' = (if unat (consecutive_successes b) + n < unat (success_threshold (config b)) then HALF_OPEN else CLOSED)"
proof (induction n arbitrary: t b)
  case 0
  then show ?case by (simp add: word_less_nat_alt)
next
  case (Suc n)
  then obtain now where r: "breaker_run (now, record_success b) (replicate n Success) (t', b')"
    by (auto simp: breaker_run_Cons breaker_success_iff)
  note u = word_lt_Suc [OF Suc.prems(3)]
  show ?case
  proof (cases "success_threshold (config b) \<le> consecutive_successes b + 1")
    case True
    then have "state (record_success b) = CLOSED"
      using Suc.prems by (simp add: record_success_def Let_def)
    with r have "state b' = CLOSED" by (rule success_run_closed)
    with True u show ?thesis by (simp add: word_le_nat_alt)
  next
    case False
    then have "state (record_success b) = HALF_OPEN"
      "consecutive_successes (record_success b) = consecutive_successes b + 1"
      using Suc.prems by (simp_all add: record_success_def Let_def)
    with Suc.IH [OF r] False u show ?thesis by (simp add: not_le)
  qed
qed

text \<open>
  C24: the thresholds of the circuit breaker, in every state a run can reach. A closed breaker is open
  after exactly as many further failures as the threshold leaves, and a half-open one is closed after
  exactly as many further successes: never before, never later, and without overflow of the counters.
\<close>

theorem breaker_thresholds:
  assumes "0 < failure_threshold c" and "0 < success_threshold c"
    and "breaker_run (t0, new_breaker c) es (t, b)"
  shows "(state b = CLOSED \<longrightarrow> breaker_run (t, b) (replicate n Failure) (t', b') \<longrightarrow>
      (state b' = OPEN \<longleftrightarrow> unat (failure_threshold c) \<le> unat (consecutive_failures b) + n)) \<and>
    (state b = HALF_OPEN \<longrightarrow> breaker_run (t, b) (replicate n Success) (t', b') \<longrightarrow>
      (state b' = CLOSED \<longleftrightarrow> unat (success_threshold c) \<le> unat (consecutive_successes b) + n))"
proof -
  have "breaker_run s es s' \<Longrightarrow> config (snd s') = config (snd s)" for s es s'
    by (induction rule: breaker_run.induct) (simp_all add: breaker_step_config)
  from this [OF assms(3)] have c: "config b = c" by (simp add: new_breaker_def)
  have "breaker_inv b"
    using breaker_run_inv [OF assms(3)] new_breaker_inv [OF assms(1)] assms(1,2)
    by (simp add: new_breaker_def)
  then show ?thesis
    using failure_run [of t b n t' b'] success_run [of t b n t' b'] by (auto simp: breaker_inv_def c)
qed

theorem breaker_thresholds_witness:
  "state (record_failure 0 (record_failure 0
     (new_breaker \<lparr>failure_threshold = 2, success_threshold = 1, open_duration_ms = 9\<rparr>))) = OPEN"
proof -
  define c where "c = \<lparr>failure_threshold = 2, success_threshold = 1, open_duration_ms = 9\<rparr>"
  have c: "0 < failure_threshold c" "0 < success_threshold c" by (simp_all add: c_def)
  have s: "breaker_step (0, b) Failure (0, record_failure 0 b)" for b by (simp add: failure)
  have "breaker_run (0, new_breaker c) (replicate 2 Failure) (0, record_failure 0 (record_failure 0 (new_breaker c)))"
    by (simp add: numeral_2_eq_2 breaker_run_Cons) (blast intro: s)
  then have "state (record_failure 0 (record_failure 0 (new_breaker c))) = OPEN"
    using breaker_thresholds [OF c run_Nil, of 0 2 0 "record_failure 0 (record_failure 0 (new_breaker c))"]
    by (simp add: new_breaker_def c_def)
  then show ?thesis by (simp add: c_def)
qed

lemma open_step:
  assumes "breaker_step (t, b) e (t', b')" and "state b = OPEN" and "e \<noteq> Request True"
    and "last_failure_time b \<le> t"
  shows "state b' = OPEN \<and> last_failure_time b \<le> last_failure_time b' \<and> last_failure_time b' \<le> t' \<and>
    config b' = config b"
  using assms
  by (auto elim!: breaker_stepE simp: is_request_allowed_def record_success_def record_failure_def Let_def
      split: if_splits)

lemma open_run:
  assumes "breaker_run s es s'" and "state (snd s) = OPEN" and "Request True \<notin> set es"
    and "last_failure_time (snd s) \<le> fst s"
  shows "state (snd s') = OPEN \<and> last_failure_time (snd s) \<le> last_failure_time (snd s') \<and>
    config (snd s') = config (snd s)"
  using assms
proof (induction rule: breaker_run.induct)
  case (run_Nil s)
  then show ?case by simp
next
  case (run_Cons s e s' es s'')
  have "state (snd s') = OPEN \<and> last_failure_time (snd s) \<le> last_failure_time (snd s') \<and>
      last_failure_time (snd s') \<le> fst s' \<and> config (snd s') = config (snd s)"
    using open_step [of "fst s" "snd s" e "fst s'" "snd s'"] run_Cons by auto
  with run_Cons show ?case by auto
qed

text \<open>
  an open breaker keeps requests out. Between the moment it is seen open and the first request
  let through there lies at least the open duration after the last failure, and each further failure
  in between only makes it longer; the request let through is the one that half-opens the breaker.
\<close>

theorem breaker_open_blocks:
  assumes "state b = OPEN" and "last_failure_time b \<le> t"
    and "breaker_run (t, b) es (t', b')" and "Request True \<notin> set es"
    and "breaker_step (t', b') (Request True) (now, b'')"
  shows "last_failure_time b + uint (open_duration_ms (config b)) * 1000000 \<le> now \<and>
    state b' = OPEN \<and> state b'' = HALF_OPEN"
proof -
  have r: "state b' = OPEN \<and> last_failure_time b \<le> last_failure_time b' \<and> config b' = config b"
    using open_run [OF assms(3)] assms(1,2,4) by simp
  from assms(5) have "is_request_allowed now b' = (True, b'')" by (auto elim: breaker_stepE)
  with r show ?thesis by (auto simp: is_request_allowed_def split: if_splits)
qed

theorem breaker_open_blocks_witness:
  "\<exists>b. state b = OPEN \<and> config b = \<lparr>failure_threshold = 1, success_threshold = 1, open_duration_ms = 9\<rparr> \<and>
    0 + uint (9 :: u32) * 1000000 \<le> (9000000 :: int) \<and> state (snd (is_request_allowed 9000000 b)) = HALF_OPEN"
proof -
  define b where "b = record_failure 0 (new_breaker \<lparr>failure_threshold = 1, success_threshold = 1, open_duration_ms = 9\<rparr>)"
  have b: "state b = OPEN" "last_failure_time b = 0"
    "config b = \<lparr>failure_threshold = 1, success_threshold = 1, open_duration_ms = 9\<rparr>"
    by (simp_all add: b_def record_failure_def new_breaker_def Let_def)
  have "is_request_allowed 9000000 b = (True, snd (is_request_allowed 9000000 b))"
    using b by (simp add: is_request_allowed_def)
  then have "breaker_step (0, b) (Request True) (9000000, snd (is_request_allowed 9000000 b))"
    by (intro request) simp_all
  with breaker_open_blocks [OF b(1) _ run_Nil [of "(0, b)"] _ this] b show ?thesis by auto
qed

text \<open>
  A half-open breaker limits nothing. Its comment says that limited requests are allowed, but every
  request is let through and leaves the state unchanged, however many there are, until an outcome is
  recorded.
\<close>

theorem breaker_half_open_unlimited:
  assumes "state b = HALF_OPEN"
  shows "breaker_run (t, b) (replicate n (Request True)) (t, b) \<and>
    \<not> breaker_step (t, b) (Request False) s"
proof
  have "is_request_allowed t b = (True, b)" using assms by (simp add: is_request_allowed_def)
  then have "breaker_step (t, b) (Request True) (t, b)" by (intro request) simp_all
  then show "breaker_run (t, b) (replicate n (Request True)) (t, b)"
    by (induction n) (auto intro: run_Nil run_Cons)
  show "\<not> breaker_step (t, b) (Request False) s"
    using assms by (cases s) (auto elim!: breaker_stepE simp: is_request_allowed_def)
qed

theorem breaker_half_open_unlimited_witness:
  "breaker_run (0, default_breaker\<lparr>state := HALF_OPEN\<rparr>) (replicate 1000 (Request True))
     (0, default_breaker\<lparr>state := HALF_OPEN\<rparr>) \<and>
   \<not> breaker_step (0, default_breaker\<lparr>state := HALF_OPEN\<rparr>) (Request False) (0, default_breaker)"
  by (rule breaker_half_open_unlimited) simp

text \<open>The retry loop calls the operation until its first success, at most one time more than the retries.\<close>

lemma execute_loop_calls:
  "unat a \<le> unat m \<Longrightarrow> calls = unat a \<Longrightarrow> (\<forall>i < calls. \<not> operation i) \<Longrightarrow>
   execute_loop m operation a calls =
     (if \<exists>i \<le> unat m. operation i then (True, Suc (LEAST i. operation i)) else (False, Suc (unat m)))"
proof (induction m operation a calls rule: execute_loop.induct)
  case (1 m operation a calls)
  have le: "a \<le> m" using 1 by (simp add: word_le_nat_alt)
  show ?case
  proof (cases "operation calls")
    case True
    have "(LEAST i. operation i) = calls"
      using True 1 by (intro Least_equality) (auto simp: not_less [symmetric])
    moreover have "execute_loop m operation a calls = (True, Suc calls)"
      using True le by (simp add: execute_loop.simps [of m operation a calls])
    ultimately show ?thesis using True 1 by auto
  next
    case False
    show ?thesis
    proof (cases "m \<le> a")
      case True
      with le have eq: "a = m" by simp
      have "\<not> (\<exists>i \<le> unat m. operation i)" using 1 False eq by (auto simp: le_less)
      moreover have "execute_loop m operation a calls = (False, Suc calls)"
        using False le True by (subst execute_loop.simps) simp
      ultimately show ?thesis using eq 1 by auto
    next
      case nle: False
      then have "a < m" by simp
      note u = word_lt_Suc [OF this]
      have "unat (a + 1) \<le> unat m" using nle u by (simp add: word_le_nat_alt)
      moreover have "\<forall>i < Suc calls. \<not> operation i" using 1 False by (auto simp: less_Suc_eq)
      moreover have "execute_loop m operation a calls = execute_loop m operation (a + 1) (Suc calls)"
        using False nle le by (subst execute_loop.simps) simp
      ultimately show ?thesis using 1 False nle le u by simp
    qed
  qed
qed


lemma execute_calls:
  "execute m operation =
     (if \<exists>i \<le> unat m. operation i then (True, Suc (LEAST i. operation i)) else (False, Suc (unat m)))"
  unfolding execute_def by (rule execute_loop_calls) simp_all

end
