(* ===== verification/Utxo.thy ===== *)
theory Utxo
  imports Hex "HOL-Library.Product_Lexorder" "HOL-Library.List_Lexorder"
begin

text \<open>
  UTXO bookkeeping (include/midnight/utxo-transactions/utxo_transactions.hpp and
  src/utxo-transactions/utxo_transactions.cpp): reservations, the transaction builder, the
  validator, coin selection and fees. Looking a UTXO up at the indexer is the parameter \<open>query\<close>;
  \<open>clk k\<close> is the k-th reading of the steady clock during an operation; logging is left out. The
  reservations are a map from outpoint keys to the holder and the expiry. The two floating-point
  prices of \<^verbatim>\<open>ProtocolParams\<close>, which nothing here reads, are not fields.
\<close>

section \<open>Data\<close>

record utxo_input =
  outpoint :: string
  in_address :: string
  in_index :: u32
  in_commitment :: string
  spending_witness :: string

record utxo_output =
  out_address :: string
  out_commitment :: string
  lock_height :: u32

record witness_bundle =
  signatures :: "string list"
  proof_references :: "string list"
  metadata :: "string \<rightharpoonup> string"

record transaction =
  tx_hash_of :: string
  tx_version :: u32
  inputs :: "utxo_input list"
  outputs :: "utxo_output list"
  input_dust :: u64
  output_dust :: u64
  fees :: u64
  proofs :: "string list"
  signature :: string
  witnesses :: witness_bundle
  nonce :: u64
  timestamp :: u64

record utxo =
  utxo_tx_hash :: string
  utxo_index :: u32
  utxo_address :: string
  token_type :: string
  utxo_value :: string
  intent_hash :: string
  ctime :: u64
  registered_for_dust :: bool
  utxo_commitment :: string
  confirmed_height :: u32
  finality_depth :: u32
  is_spent_flag :: bool
  spending_tx_hash :: string

record fee_model_config =
  use_protocol_min_fee :: bool
  base_tx_size_bytes :: u32
  bytes_per_input :: u32
  bytes_per_output :: u32
  bytes_per_proof :: u32
  base_dust_per_output :: u64
  witness_dust_per_output :: u64
  commitment_bytes_per_output :: u64
  estimated_dust_per_utxo :: u64
  default_proof_size :: u64

record protocol_params =
  min_fee_a :: u64
  min_fee_b :: u64
  utxo_cost_per_byte :: u64
  max_tx_size :: u32
  max_block_size :: u32
  max_value_size :: u32

record builder_context =
  params :: protocol_params
  chain_tip_height :: u64
  chain_tip_hash :: string
  fee_model :: fee_model_config

definition default_fee_model :: fee_model_config where
  "default_fee_model = \<lparr>use_protocol_min_fee = True, base_tx_size_bytes = 64, bytes_per_input = 96,
     bytes_per_output = 80, bytes_per_proof = 128, base_dust_per_output = 1000,
     witness_dust_per_output = 500, commitment_bytes_per_output = 128,
     estimated_dust_per_utxo = 0, default_proof_size = 128\<rparr>"

definition default_params :: protocol_params where
  "default_params = \<lparr>min_fee_a = 44, min_fee_b = 155381, utxo_cost_per_byte = 4310,
     max_tx_size = 16384, max_block_size = 65536, max_value_size = 5000\<rparr>"

definition default_context :: builder_context where
  "default_context = \<lparr>params = default_params, chain_tip_height = 0, chain_tip_hash = [],
     fee_model = default_fee_model\<rparr>"

definition calculate_min_fee :: "protocol_params \<Rightarrow> u32 \<Rightarrow> u64" where
  "calculate_min_fee p tx_size_bytes = ucast tx_size_bytes * min_fee_a p + min_fee_b p"

section \<open>Reservations\<close>

type_synonym reservations = "string \<rightharpoonup> string \<times> u64"

definition outpoint_key :: "utxo_input \<Rightarrow> string" where
  "outpoint_key input = outpoint input @ '':'' @ to_string (unat (in_index input))"

definition is_reserved :: "u64 \<Rightarrow> string \<Rightarrow> string \<Rightarrow> reservations \<Rightarrow> bool \<times> reservations" where
  "is_reserved now key exclude_tx_hash m =
     (case m key of
        None \<Rightarrow> (False, m)
      | Some (holder, expiry) \<Rightarrow>
          if expiry < now then (False, m(key := None))
          else if exclude_tx_hash \<noteq> [] \<and> holder = exclude_tx_hash then (False, m)
          else (True, m))"

text \<open>The loop of \<^verbatim>\<open>reserve_utxos\<close>: the clock is read once before it and once per input.\<close>

fun reserve_loop ::
  "(nat \<Rightarrow> u64) \<Rightarrow> nat \<Rightarrow> utxo_input list \<Rightarrow> string \<Rightarrow> u64 \<Rightarrow> reservations \<Rightarrow> bool \<times> reservations" where
  "reserve_loop clk k [] tx_hash expiry m = (True, m)"
| "reserve_loop clk k (input # ins) tx_hash expiry m =
     (let (taken, m) = is_reserved (clk k) (outpoint_key input) tx_hash m
      in if taken then (False, m)
         else reserve_loop clk (Suc k) ins tx_hash expiry (m(outpoint_key input \<mapsto> (tx_hash, expiry))))"

definition reserve_utxos ::
  "(nat \<Rightarrow> u64) \<Rightarrow> utxo_input list \<Rightarrow> string \<Rightarrow> u64 \<Rightarrow> reservations \<Rightarrow> bool \<times> reservations" where
  "reserve_utxos clk ins tx_hash ttl_ms m = reserve_loop clk 1 ins tx_hash (clk 0 + ttl_ms) m"

definition release_reserved_utxos :: "string \<Rightarrow> reservations \<Rightarrow> reservations" where
  "release_reserved_utxos tx_hash m =
     (\<lambda>key. case m key of None \<Rightarrow> None
        | Some (holder, expiry) \<Rightarrow> if holder = tx_hash then None else Some (holder, expiry))"

definition cleanup_expired_reservations :: "u64 \<Rightarrow> reservations \<Rightarrow> reservations" where
  "cleanup_expired_reservations now m =
     (\<lambda>key. case m key of None \<Rightarrow> None
        | Some (holder, expiry) \<Rightarrow> if expiry < now then None else Some (holder, expiry))"

type_synonym utxo_query = "string \<Rightarrow> u32 \<Rightarrow> utxo option"

definition is_spent :: "utxo_query \<Rightarrow> string \<Rightarrow> u32 \<Rightarrow> bool option" where
  "is_spent query tx_hash index = map_option is_spent_flag (query tx_hash index)"

fun verify_unspent_loop ::
  "utxo_query \<Rightarrow> (nat \<Rightarrow> u64) \<Rightarrow> nat \<Rightarrow> utxo_input list \<Rightarrow> reservations \<Rightarrow> bool \<times> reservations" where
  "verify_unspent_loop query clk k [] m = (True, m)"
| "verify_unspent_loop query clk k (input # ins) m =
     (let clean_hash = strip_hex_prefix (outpoint input);
          tx_hash = (case find_char (CHR '':'') clean_hash of
                       Some colon_pos \<Rightarrow> take colon_pos clean_hash | None \<Rightarrow> clean_hash)
      in case query tx_hash (in_index input) of
           None \<Rightarrow> (False, m)
         | Some u \<Rightarrow>
             if is_spent_flag u then (False, m)
             else
               (let (taken, m) = is_reserved (clk k) (outpoint_key input) [] m
                in if taken then (False, m) else verify_unspent_loop query clk (Suc k) ins m))"

definition verify_inputs_unspent ::
  "utxo_query \<Rightarrow> (nat \<Rightarrow> u64) \<Rightarrow> utxo_input list \<Rightarrow> reservations \<Rightarrow> bool \<times> reservations" where
  "verify_inputs_unspent query clk ins m =
     verify_unspent_loop query clk 1 ins (cleanup_expired_reservations (clk 0) m)"

section \<open>The transaction builder\<close>

definition kMaxTxInputs :: nat where "kMaxTxInputs = 256"
definition kMaxTxOutputs :: nat where "kMaxTxOutputs = 256"

record builder =
  tx :: transaction
  context_of :: builder_context
  fees_manually_set :: bool
  manager :: "utxo_query option"

definition empty_bundle :: witness_bundle where
  "empty_bundle = \<lparr>signatures = [], proof_references = [], metadata = Map.empty\<rparr>"

text \<open>\<open>now\<close> is \<^verbatim>\<open>std::time(nullptr)\<close>.\<close>

definition new_builder :: "u64 \<Rightarrow> builder_context \<Rightarrow> utxo_query option \<Rightarrow> builder" where
  "new_builder now context mgr =
     \<lparr>tx = \<lparr>tx_hash_of = [], tx_version = 1, inputs = [], outputs = [], input_dust = 0, output_dust = 0,
        fees = 0, proofs = [], signature = [], witnesses = empty_bundle,
        nonce = (if 0 < chain_tip_height context then chain_tip_height context + 1 else now),
        timestamp = now\<rparr>,
      context_of = context, fees_manually_set = False, manager = mgr\<rparr>"

definition has_duplicate_input :: "builder \<Rightarrow> utxo_input \<Rightarrow> bool" where
  "has_duplicate_input b input \<longleftrightarrow>
     list_ex (\<lambda>existing. strip_hex_prefix (outpoint existing) = strip_hex_prefix (outpoint input) \<and>
       in_index existing = in_index input) (inputs (tx b))"

definition verify_input_utxo :: "builder \<Rightarrow> utxo_input \<Rightarrow> bool" where
  "verify_input_utxo b input =
     (case manager b of
        None \<Rightarrow> True
      | Some query \<Rightarrow>
          (case query (outpoint input) (in_index input) of
             None \<Rightarrow> False
           | Some _ \<Rightarrow> is_spent query (outpoint input) (in_index input) \<noteq> Some True))"

definition add_input :: "utxo_input \<Rightarrow> builder \<Rightarrow> builder result" where
  "add_input input b =
     (if has_duplicate_input b input
      then Inl (Invalid_argument (''Duplicate input rejected: '' @ outpoint_key input @ '' - double-spend prevention''))
      else if manager b \<noteq> None \<and> \<not> verify_input_utxo b input
      then Inl (Invalid_argument (''Invalid input: UTXO not found or already spent: '' @ outpoint_key input))
      else Inr (b\<lparr>tx := (tx b)\<lparr>inputs := inputs (tx b) @ [input]\<rparr>\<rparr>))"

definition add_output :: "utxo_output \<Rightarrow> builder \<Rightarrow> builder" where
  "add_output out b = b\<lparr>tx := (tx b)\<lparr>outputs := outputs (tx b) @ [out]\<rparr>\<rparr>"

definition set_context :: "builder_context \<Rightarrow> builder \<Rightarrow> builder" where
  "set_context c b = b\<lparr>context_of := c\<rparr>"

definition set_witness_bundle :: "witness_bundle \<Rightarrow> builder \<Rightarrow> builder" where
  "set_witness_bundle w b =
     (let t = (tx b)\<lparr>witnesses := w\<rparr>
      in b\<lparr>tx := (if signature t = [] \<and> signatures w \<noteq> [] then t\<lparr>signature := hd (signatures w)\<rparr> else t)\<rparr>)"

definition add_signature :: "string \<Rightarrow> builder \<Rightarrow> builder" where
  "add_signature s b =
     (let t = (tx b)\<lparr>witnesses := (witnesses (tx b))\<lparr>signatures := signatures (witnesses (tx b)) @ [s]\<rparr>\<rparr>
      in b\<lparr>tx := (if signature t = [] then t\<lparr>signature := s\<rparr> else t)\<rparr>)"

definition add_proof_reference :: "string \<Rightarrow> builder \<Rightarrow> builder" where
  "add_proof_reference r b =
     b\<lparr>tx := (tx b)\<lparr>witnesses := (witnesses (tx b))\<lparr>proof_references := proof_references (witnesses (tx b)) @ [r]\<rparr>\<rparr>\<rparr>"

definition set_witness_metadata :: "string \<Rightarrow> string \<Rightarrow> builder \<Rightarrow> builder" where
  "set_witness_metadata key val b =
     b\<lparr>tx := (tx b)\<lparr>witnesses := (witnesses (tx b))\<lparr>metadata := (metadata (witnesses (tx b)))(key \<mapsto> val)\<rparr>\<rparr>\<rparr>"

definition set_fees :: "u64 \<Rightarrow> builder \<Rightarrow> builder" where
  "set_fees fee_amount b = b\<lparr>tx := (tx b)\<lparr>fees := fee_amount\<rparr>, fees_manually_set := True\<rparr>"

definition builder_validate :: "builder \<Rightarrow> bool" where
  "builder_validate b =
     (if inputs (tx b) = [] \<or> outputs (tx b) = [] then False
      else if kMaxTxInputs < length (inputs (tx b)) \<or> kMaxTxOutputs < length (outputs (tx b)) then False
      else True)"

section \<open>DUST accounting\<close>

definition commitment_dust_overhead :: "u32 \<Rightarrow> builder_context \<Rightarrow> u64" where
  "commitment_dust_overhead output_count context =
     (let scaled_utxo_cost = max 1 (utxo_cost_per_byte (params context) div 1024)
      in ucast output_count * commitment_bytes_per_output (fee_model context) * scaled_utxo_cost)"

definition calculate_dust_fee :: "u64 \<Rightarrow> u64 \<Rightarrow> u64 \<Rightarrow> bool \<Rightarrow> builder_context \<Rightarrow> u64" where
  "calculate_dust_fee in_dust out_dust output_count has_witnesses context =
     (let base_fee = output_count * base_dust_per_output (fee_model context);
          base_fee = (if has_witnesses then base_fee + output_count * witness_dust_per_output (fee_model context)
                      else base_fee);
          commitment_overhead = commitment_dust_overhead (ucast output_count) context;
          total_dust_needed = in_dust - out_dust + base_fee + commitment_overhead
      in if 0 < total_dust_needed then total_dust_needed else base_fee)"

definition verify_dust_balance :: "transaction \<Rightarrow> bool" where
  "verify_dust_balance t =
     (let output_total = output_dust t + fees t;
          output_total = output_total + word_of_nat (length (outputs t)) * 128
      in output_total \<le> input_dust t)"

section \<open>The validator\<close>

definition COMMITMENT_HEX_SIZE :: nat where "COMMITMENT_HEX_SIZE = 66"
definition MAX_INPUTS :: nat where "MAX_INPUTS = 256"
definition MAX_OUTPUTS :: nat where "MAX_OUTPUTS = 256"

definition is_signature_hex :: "string \<Rightarrow> bool" where
  "is_signature_hex s \<longleftrightarrow> length s = 130 \<and> starts_with s ''0x'' \<and> is_hex_string (drop 2 s)"

definition is_proof_hex :: "string \<Rightarrow> bool" where
  "is_proof_hex p =
     (let body = strip_hex_prefix p; proof_bytes = length body div 2
      in body \<noteq> [] \<and> is_hex_string body \<and> 64 \<le> proof_bytes \<and> proof_bytes \<le> 10 * 1024 * 1024)"

text \<open>\<open>None\<close> when no error was found, else \<^verbatim>\<open>last_error_\<close>.\<close>

fun find_duplicate :: "string list \<Rightarrow> utxo_input list \<Rightarrow> string option" where
  "find_duplicate seen [] = None"
| "find_duplicate seen (input # ins) =
     (if outpoint_key input \<in> set seen
      then Some (''Duplicate input found: '' @ outpoint_key input @ '' - double-spend prevention'')
      else find_duplicate (outpoint_key input # seen) ins)"

fun check_inputs ::
  "utxo_query option \<Rightarrow> (nat \<Rightarrow> u64) \<Rightarrow> nat \<Rightarrow> utxo_input list \<Rightarrow> reservations \<Rightarrow> string option \<times> reservations" where
  "check_inputs mgr clk k [] m = (None, m)"
| "check_inputs mgr clk k (input # ins) m =
     (if outpoint input = [] \<or> in_address input = []
      then (Some ''Input missing required fields (outpoint or address)'', m)
      else
        (case mgr of
           None \<Rightarrow> check_inputs mgr clk k ins m
         | Some query \<Rightarrow>
             if query (outpoint input) (in_index input) = None
             then (Some (''UTXO does not exist: '' @ outpoint_key input), m)
             else if is_spent query (outpoint input) (in_index input) = Some True
             then (Some (''UTXO already spent: '' @ outpoint_key input), m)
             else
               (let (taken, m) = is_reserved (clk k) (outpoint_key input) [] m
                in if taken then (Some (''UTXO is reserved by another transaction: '' @ outpoint_key input), m)
                   else check_inputs mgr clk (Suc k) ins m)))"

definition validate_inputs ::
  "utxo_query option \<Rightarrow> (nat \<Rightarrow> u64) \<Rightarrow> transaction \<Rightarrow> reservations \<Rightarrow> string option \<times> reservations" where
  "validate_inputs mgr clk t m =
     (if inputs t = [] \<or> MAX_INPUTS < length (inputs t)
      then (Some (''Invalid input count: '' @ to_string (length (inputs t))), m)
      else (case find_duplicate [] (inputs t) of
              Some err \<Rightarrow> (Some err, m)
            | None \<Rightarrow> check_inputs mgr clk 0 (inputs t) m))"

fun check_outputs :: "utxo_output list \<Rightarrow> string option" where
  "check_outputs [] = None"
| "check_outputs (out # outs) =
     (if out_address out = [] \<or> out_commitment out = []
      then Some ''Output missing required fields (address or commitment)''
      else if length (out_commitment out) \<noteq> COMMITMENT_HEX_SIZE
      then Some (''Output commitment not well-formed: size '' @ to_string (length (out_commitment out)) @
        '' (expected '' @ to_string COMMITMENT_HEX_SIZE @ '')'')
      else check_outputs outs)"

definition validate_outputs :: "transaction \<Rightarrow> string option" where
  "validate_outputs t =
     (if outputs t = [] \<or> MAX_OUTPUTS < length (outputs t)
      then Some (''Invalid output count: '' @ to_string (length (outputs t)))
      else check_outputs (outputs t))"

definition validate_dust_accounting :: "transaction \<Rightarrow> string option" where
  "validate_dust_accounting t =
     (if \<not> verify_dust_balance t then Some ''DUST balance invalid: inputs < outputs + fees'' else None)"

definition validate_proofs :: "transaction \<Rightarrow> string option" where
  "validate_proofs t =
     (if proof_references (witnesses t) \<noteq> [] then
        (if list_ex (\<lambda>r. r = []) (proof_references (witnesses t)) then Some ''Empty proof reference found'' else None)
      else if proofs t = [] then Some ''No proofs provided - at least one proof is required''
      else if list_ex (\<lambda>p. \<not> is_proof_hex p) (proofs t)
      then Some ''Proof not well-formed: expected even-length hex payload of at least 64 bytes''
      else None)"

definition validate_signature :: "transaction \<Rightarrow> string option" where
  "validate_signature t =
     (if signatures (witnesses t) \<noteq> [] then
        (if list_ex (\<lambda>s. \<not> is_signature_hex s) (signatures (witnesses t))
         then Some ''Invalid signature format in witness bundle'' else None)
      else if signature t = [] then Some ''No signature provided''
      else if \<not> is_signature_hex (signature t) then Some ''Invalid signature format''
      else None)"

definition validate_transaction ::
  "utxo_query option \<Rightarrow> (nat \<Rightarrow> u64) \<Rightarrow> transaction \<Rightarrow> reservations \<Rightarrow> string option \<times> reservations" where
  "validate_transaction mgr clk t m =
     (case validate_inputs mgr clk t m of
        (Some err, m) \<Rightarrow> (Some err, m)
      | (None, m) \<Rightarrow>
          (case validate_outputs t of Some err \<Rightarrow> (Some err, m)
           | None \<Rightarrow> (case validate_dust_accounting t of Some err \<Rightarrow> (Some err, m)
           | None \<Rightarrow> (case validate_proofs t of Some err \<Rightarrow> (Some err, m)
           | None \<Rightarrow> (validate_signature t, m)))))"

section \<open>Fees and coin selection\<close>

definition estimate_tx_size_bytes :: "u32 \<Rightarrow> u32 \<Rightarrow> u64 \<Rightarrow> builder_context \<Rightarrow> u32" where
  "estimate_tx_size_bytes input_count output_count proof_size context =
     (let estimated = ucast (base_tx_size_bytes (fee_model context)) :: u64;
          estimated = estimated + ucast input_count * ucast (bytes_per_input (fee_model context));
          estimated = estimated + ucast output_count * ucast (bytes_per_output (fee_model context));
          estimated = estimated + proof_size
      in ucast (min estimated 0xFFFFFFFF))"

text \<open>Dividing by a \<^verbatim>\<open>bytes_per_proof\<close> of 0 is undefined.\<close>

definition estimate_fee :: "u32 \<Rightarrow> u32 \<Rightarrow> u64 \<Rightarrow> builder_context \<Rightarrow> u64 result" where
  "estimate_fee input_count output_count proof_size context =
     (let estimated_size = estimate_tx_size_bytes input_count output_count proof_size context;
          protocol_fee = (if use_protocol_min_fee (fee_model context)
                          then calculate_min_fee (params context) estimated_size
                          else ucast estimated_size * min_fee_a (params context));
          per_proof = ucast (bytes_per_proof (fee_model context)) :: u64
      in if per_proof = 0 then Inl Undefined_behaviour
         else
           (let proof_chunks = (proof_size + per_proof - 1) div per_proof;
                proof_overhead = proof_chunks * (min_fee_a (params context) * 4);
                base_dust = ucast output_count * base_dust_per_output (fee_model context);
                commitment_fee = commitment_dust_overhead output_count context
            in Inr (protocol_fee + proof_overhead + base_dust + commitment_fee)))"

definition derive_estimated_dust_per_utxo :: "builder_context \<Rightarrow> u64" where
  "derive_estimated_dust_per_utxo context =
     (if 0 < estimated_dust_per_utxo (fee_model context) then estimated_dust_per_utxo (fee_model context)
      else max 1000 (min_fee_b (params context) div 2))"

definition estimate_dust_available :: "utxo list \<Rightarrow> builder_context \<Rightarrow> u64" where
  "estimate_dust_available utxos context =
     word_of_nat (length utxos) * derive_estimated_dust_per_utxo context"

text \<open>
  The comparison of \<^verbatim>\<open>std::sort\<close>, as a key: deeper finality first, then older, then by names. UTXOs
  equal in all of these may come in either order in C++; \<open>sort_key\<close> keeps theirs.
\<close>

definition order_key :: "utxo \<Rightarrow> nat \<times> nat \<times> string \<times> nat \<times> string \<times> string" where
  "order_key u = (2 ^ 32 - 1 - unat (finality_depth u), unat (confirmed_height u), utxo_tx_hash u,
     unat (utxo_index u), utxo_address u, utxo_commitment u)"

fun select_loop :: "u64 \<Rightarrow> nat \<Rightarrow> builder_context \<Rightarrow> utxo list \<Rightarrow> utxo list \<Rightarrow> utxo list option" where
  "select_loop required_dust min_inputs context selected [] =
     (if estimate_dust_available selected context < required_dust then None else Some selected)"
| "select_loop required_dust min_inputs context selected (candidate # ordered) =
     (let selected = selected @ [candidate]
      in if min_inputs \<le> length selected \<and> required_dust \<le> estimate_dust_available selected context
         then Some selected
         else select_loop required_dust min_inputs context selected ordered)"

definition select_min_inputs :: "u32 \<Rightarrow> bool \<Rightarrow> nat" where
  "select_min_inputs output_count needs_witnesses =
     (if needs_witnesses then max 2 (unat output_count) else max 1 (unat output_count))"

definition select_required_dust :: "u32 \<Rightarrow> bool \<Rightarrow> builder_context \<Rightarrow> u64 result" where
  "select_required_dust output_count needs_witnesses context =
     estimate_fee (word_of_nat (select_min_inputs output_count needs_witnesses)) output_count
       (if needs_witnesses then default_proof_size (fee_model context) else 0) context"

definition utxo_select :: "utxo list \<Rightarrow> u32 \<Rightarrow> bool \<Rightarrow> builder_context \<Rightarrow> utxo list option result" where
  "utxo_select available output_count needs_witnesses context =
     (if available = [] then Inr None
      else if output_count = 0 then Inr None
      else rbind (select_required_dust output_count needs_witnesses context) (\<lambda>required_dust.
        Inr (select_loop required_dust (select_min_inputs output_count needs_witnesses) context []
          (sort_key order_key available))))"

end
