(* ===== verification/UtxoProps.thy ===== *)
theory UtxoProps
  imports Utxo "HOL-Library.Multiset"
begin

text \<open>
  What the UTXO bookkeeping guarantees: reservations exclude other transactions until they expire,
  the builder never holds an output twice, coin selection takes the shortest sufficient prefix; and
  where it does not hold: a failed reservation is not undone, the spelling of an outpoint matters to
  the validator and the reservations, and the DUST balance wraps around.
\<close>

section \<open>Reservations\<close>

text \<open>Held at least until \<open>T\<close>.\<close>

definition held :: "u64 \<Rightarrow> reservations \<Rightarrow> string \<Rightarrow> string \<Rightarrow> bool" where
  "held T m key holder \<longleftrightarrow> (\<exists>expiry. m key = Some (holder, expiry) \<and> T \<le> expiry)"

lemma is_reserved_keeps:
  assumes "is_reserved now key ex m = (taken, m')" and "now \<le> T" and "held T m k h"
  shows "held T m' k h"
proof -
  obtain e where e: "m k = Some (h, e)" "T \<le> e" using assms(3) by (auto simp: held_def)
  then have "\<not> e < now" using assms(2) by (meson order_trans not_less)
  with e assms(1) show ?thesis
    by (auto simp: held_def is_reserved_def split: option.splits if_splits)
qed

lemma is_reserved_taken:
  assumes "held T m key h" and "now \<le> T" and "ex = [] \<or> h \<noteq> ex"
  shows "is_reserved now key ex m = (True, m)"
proof -
  obtain e where e: "m key = Some (h, e)" "T \<le> e" using assms(1) by (auto simp: held_def)
  then have "\<not> e < now" using assms(2) by (meson order_trans not_less)
  with e assms(3) show ?thesis by (auto simp: is_reserved_def)
qed

lemma reserve_loop_keeps:
  assumes "\<forall>j. clk j \<le> T" and "held T m k h" and "h \<noteq> txh \<or> T \<le> expiry"
  shows "held T (snd (reserve_loop clk j ins txh expiry m)) k h"
  using assms(2)
proof (induction ins arbitrary: j m)
  case Nil
  then show ?case by simp
next
  case (Cons input ins)
  obtain taken m1 where r: "is_reserved (clk j) (outpoint_key input) txh m = (taken, m1)" by fastforce
  have k: "held T m1 k h" using is_reserved_keeps [OF r _ Cons.prems] assms(1) by blast
  show ?case
  proof (cases taken)
    case True
    with r k show ?thesis by simp
  next
    case False
    have "held T (m1(outpoint_key input \<mapsto> (txh, expiry))) k h"
    proof (cases "k = outpoint_key input")
      case True
      have "txh = [] \<or> h \<noteq> txh \<Longrightarrow> taken"
        using is_reserved_taken [of T m "outpoint_key input" h "clk j" txh] Cons.prems assms(1) r True by auto
      with False have "h = txh" by blast
      with True assms(3) show ?thesis by (simp add: held_def)
    next
      case ne: False
      with k show ?thesis by (simp add: held_def)
    qed
    from Cons.IH [OF this, of "Suc j"] False r show ?thesis by (simp del: fun_upd_apply)
  qed
qed

lemma reserve_loop_success:
  assumes "\<forall>j. clk j \<le> T" and "T \<le> expiry" and "fst (reserve_loop clk j ins txh expiry m)" and "i \<in> set ins"
  shows "held T (snd (reserve_loop clk j ins txh expiry m)) (outpoint_key i) txh"
  using assms(3,4)
proof (induction ins arbitrary: j m)
  case Nil
  then show ?case by simp
next
  case (Cons input ins)
  obtain taken m1 where r: "is_reserved (clk j) (outpoint_key input) txh m = (taken, m1)" by fastforce
  with Cons.prems have t: "\<not> taken" by auto
  let ?m = "m1(outpoint_key input \<mapsto> (txh, expiry))"
  show ?case
  proof (cases "i \<in> set ins")
    case True
    with Cons r t show ?thesis by simp
  next
    case False
    then have "i = input" using Cons.prems by simp
    moreover have "held T ?m (outpoint_key input) txh" using assms(2) by (simp add: held_def)
    then have "held T (snd (reserve_loop clk (Suc j) ins txh expiry ?m)) (outpoint_key input) txh"
      using reserve_loop_keeps [OF assms(1)] assms(2) by blast
    ultimately show ?thesis using r t by simp
  qed
qed

lemma reserve_loop_refused:
  assumes "\<forall>j. clk j \<le> T" and "held T m (outpoint_key i) h" and "h \<noteq> txh" and "i \<in> set ins"
  shows "\<not> fst (reserve_loop clk j ins txh expiry m)"
  using assms(2,4)
proof (induction ins arbitrary: j m)
  case Nil
  then show ?case by simp
next
  case (Cons input ins)
  obtain taken m1 where r: "is_reserved (clk j) (outpoint_key input) txh m = (taken, m1)" by fastforce
  show ?case
  proof (cases "outpoint_key i = outpoint_key input")
    case True
    then have taken
      using is_reserved_taken [of T m "outpoint_key input" h "clk j" txh] Cons.prems assms(1,3) r by auto
    with r show ?thesis by simp
  next
    case False
    then have "i \<in> set ins" using Cons.prems by auto
    moreover have "held T (m1(outpoint_key input \<mapsto> (txh, expiry))) (outpoint_key i) h"
      using is_reserved_keeps [OF r _ Cons.prems(1)] assms(1) False by (simp add: held_def)
    ultimately have "\<not> fst (reserve_loop clk (Suc j) ins txh expiry (m1(outpoint_key input \<mapsto> (txh, expiry))))"
      using Cons.IH by blast
    with r show ?thesis by simp
  qed
qed

text \<open>
  C25: reservations are exclusive. Once \<^verbatim>\<open>reserve_utxos\<close> has succeeded for a transaction, then up to the
  expiry of the reservation every attempt of another transaction to reserve a set with one of these
  outputs fails and leaves the reservation in place, and \<^verbatim>\<open>is_reserved\<close> reports it to everyone else.
\<close>

theorem reservation_exclusive:
  assumes "reserve_utxos clk ins txh ttl m = (True, m')" and "\<forall>j. clk j \<le> T" and "T \<le> clk 0 + ttl"
    and "i \<in> set ins" and "i' \<in> set ins'" and "outpoint_key i' = outpoint_key i"
    and "other \<noteq> txh" and "\<forall>j. clk' j \<le> T"
  shows "\<not> fst (reserve_utxos clk' ins' other ttl' m') \<and>
    held T (snd (reserve_utxos clk' ins' other ttl' m')) (outpoint_key i) txh \<and>
    (\<forall>now. now \<le> T \<longrightarrow> fst (is_reserved now (outpoint_key i) other m'))"
proof -
  have h: "held T m' (outpoint_key i) txh"
    using reserve_loop_success [OF assms(2,3), of 1 ins txh m i] assms(1,4) by (simp add: reserve_utxos_def)
  have "\<not> fst (reserve_utxos clk' ins' other ttl' m')"
    using reserve_loop_refused [OF assms(8), of m' i' txh other ins'] h assms(5-7)
    by (simp add: reserve_utxos_def)
  moreover have "held T (snd (reserve_utxos clk' ins' other ttl' m')) (outpoint_key i) txh"
    unfolding reserve_utxos_def by (rule reserve_loop_keeps [OF assms(8) h]) (use assms(7) in simp)
  moreover have "fst (is_reserved now (outpoint_key i) other m')" if "now \<le> T" for now
    using is_reserved_taken [OF h that] assms(7) by auto
  ultimately show ?thesis by blast
qed

definition sample_input :: "string \<Rightarrow> u32 \<Rightarrow> utxo_input" where
  "sample_input h n = \<lparr>outpoint = h, in_address = ''addr'', in_index = n, in_commitment = [], spending_witness = []\<rparr>"

theorem reservation_exclusive_witness:
  "\<not> fst (reserve_utxos (\<lambda>_. 5) [sample_input ''ab'' 0] ''t2'' 9
      [outpoint_key (sample_input ''ab'' 0) \<mapsto> (''t1'', 12)])"
proof -
  have "reserve_utxos (\<lambda>_. 2) [sample_input ''ab'' 0] ''t1'' 10 Map.empty =
      (True, [outpoint_key (sample_input ''ab'' 0) \<mapsto> (''t1'', 12)])"
    by (simp add: reserve_utxos_def is_reserved_def)
  from reservation_exclusive [OF this, of 10 "sample_input ''ab'' 0" "sample_input ''ab'' 0"
      "[sample_input ''ab'' 0]" "''t2''" "\<lambda>_. 5" 9]
  show ?thesis by simp
qed

lemma reserve_loop_prefix:
  assumes "\<forall>p \<in> set pre. m (outpoint_key p) = None \<or> (\<exists>e. m (outpoint_key p) = Some (txh, e) \<and> txh \<noteq> [])"
    and "distinct (map outpoint_key pre)"
  shows "\<exists>m1. reserve_loop clk j (pre @ rest) txh expiry m = reserve_loop clk (j + length pre) rest txh expiry m1 \<and>
    (\<forall>p \<in> set pre. m1 (outpoint_key p) = Some (txh, expiry)) \<and>
    (\<forall>k. k \<notin> outpoint_key ` set pre \<longrightarrow> m1 k = m k)"
  using assms
proof (induction pre arbitrary: j m)
  case Nil
  then show ?case by auto
next
  case (Cons p pre)
  obtain taken m0 where r: "is_reserved (clk j) (outpoint_key p) txh m = (taken, m0)" by fastforce
  have t: "\<not> taken" and o: "\<And>k. k \<noteq> outpoint_key p \<Longrightarrow> m0 k = m k"
    using r Cons.prems by (auto simp: is_reserved_def split: option.splits if_splits)
  obtain M where M: "M = m0(outpoint_key p \<mapsto> (txh, expiry))" by blast
  have Mk: "M k = (if k = outpoint_key p then Some (txh, expiry) else m k)" for k
    using o by (simp add: M)
  have step: "reserve_loop clk j ((p # pre) @ rest) txh expiry m = reserve_loop clk (Suc j) (pre @ rest) txh expiry M"
    using r t by (simp add: M)
  have ne: "outpoint_key q \<noteq> outpoint_key p" if "q \<in> set pre" for q
    using Cons.prems(2) that by (metis distinct.simps(2) image_eqI list.set_map list.simps(9))
  have a: "\<forall>q \<in> set pre. M (outpoint_key q) = None \<or> (\<exists>e. M (outpoint_key q) = Some (txh, e) \<and> txh \<noteq> [])"
    using Cons.prems(1) ne by (simp add: Mk)
  have b: "distinct (map outpoint_key pre)" using Cons.prems by simp
  obtain m1 where m1:
    "reserve_loop clk (Suc j) (pre @ rest) txh expiry M = reserve_loop clk (Suc j + length pre) rest txh expiry m1"
    "\<forall>q \<in> set pre. m1 (outpoint_key q) = Some (txh, expiry)"
    "\<forall>k. k \<notin> outpoint_key ` set pre \<longrightarrow> m1 k = M k"
    using Cons.IH [OF a b, of "Suc j"] by (elim exE conjE)
  have p: "m1 (outpoint_key p) = Some (txh, expiry)"
  proof -
    have "outpoint_key p \<notin> outpoint_key ` set pre" using Cons.prems(2) by simp
    with m1(3) show ?thesis by (simp add: Mk)
  qed
  show ?case
    using step m1 p Mk by (intro exI [of _ m1]) simp
qed

text \<open>
  a failed reservation is not undone. When \<^verbatim>\<open>reserve_utxos\<close> meets an input held by another
  transaction it returns false at once, and the free inputs before it stay reserved for the
  transaction that was turned down.
\<close>

theorem reserve_failure_keeps_prefix:
  assumes "\<forall>p \<in> set pre. m (outpoint_key p) = None" and "distinct (map outpoint_key pre)"
    and "held T m (outpoint_key i) other" and "other \<noteq> txh" and "\<forall>j. clk j \<le> T"
  shows "\<exists>m'. reserve_utxos clk (pre @ i # rest) txh ttl m = (False, m') \<and>
    (\<forall>p \<in> set pre. m' (outpoint_key p) = Some (txh, clk 0 + ttl))"
proof -
  have "\<forall>p \<in> set pre. m (outpoint_key p) = None \<or> (\<exists>e. m (outpoint_key p) = Some (txh, e) \<and> txh \<noteq> [])"
    using assms(1) by blast
  from reserve_loop_prefix [OF this assms(2), of clk 1 "i # rest" "clk 0 + ttl"]
  obtain m1 where m1: "reserve_loop clk 1 (pre @ i # rest) txh (clk 0 + ttl) m =
      reserve_loop clk (1 + length pre) (i # rest) txh (clk 0 + ttl) m1"
    "\<forall>p \<in> set pre. m1 (outpoint_key p) = Some (txh, clk 0 + ttl)"
    "\<forall>k. k \<notin> outpoint_key ` set pre \<longrightarrow> m1 k = m k" by blast
  have "m1 (outpoint_key i) = m (outpoint_key i)"
    using m1(3) assms(1,3) by (metis held_def imageE option.distinct(1))
  then have "held T m1 (outpoint_key i) other" using assms(3) by (simp add: held_def)
  then have "is_reserved (clk (1 + length pre)) (outpoint_key i) txh m1 = (True, m1)"
    using is_reserved_taken assms(4,5) by blast
  then show ?thesis using m1(1,2) by (simp add: reserve_utxos_def)
qed

theorem reserve_failure_keeps_prefix_witness:
  "\<exists>m'. reserve_utxos (\<lambda>_. 2) ([sample_input ''aa'' 0] @ sample_input ''bb'' 0 # []) ''t2'' 10
      [outpoint_key (sample_input ''bb'' 0) \<mapsto> (''t1'', 7)] = (False, m') \<and>
    (\<forall>p \<in> set [sample_input ''aa'' 0]. m' (outpoint_key p) = Some (''t2'', 2 + 10))"
  by (rule reserve_failure_keeps_prefix [where T = 5 and other = "''t1''"])
    (simp_all add: held_def outpoint_key_def sample_input_def)

section \<open>The builder\<close>

text \<open>One successful call on a builder.\<close>

inductive builder_step :: "builder \<Rightarrow> builder \<Rightarrow> bool" where
  step_input: "add_input input b = Inr b' \<Longrightarrow> builder_step b b'"
| step_output: "builder_step b (add_output out b)"
| step_context: "builder_step b (set_context c b)"
| step_bundle: "builder_step b (set_witness_bundle w b)"
| step_signature: "builder_step b (add_signature s b)"
| step_proof: "builder_step b (add_proof_reference r b)"
| step_metadata: "builder_step b (set_witness_metadata key val b)"
| step_fees: "builder_step b (set_fees amount b)"

definition input_id :: "utxo_input \<Rightarrow> string \<times> u32" where
  "input_id i = (strip_hex_prefix (outpoint i), in_index i)"

lemma add_input_fresh:
  assumes "add_input i b = Inr b'"
  shows "inputs (tx b') = inputs (tx b) @ [i]" and "input_id i \<notin> input_id ` set (inputs (tx b))"
  using assms by (auto simp: add_input_def has_duplicate_input_def input_id_def list_ex_iff split: if_splits)

lemma builder_step_distinct:
  assumes "builder_step b b'" and "distinct (map input_id (inputs (tx b)))"
  shows "distinct (map input_id (inputs (tx b')))"
  using assms
proof (cases rule: builder_step.cases)
  case (step_input i)
  then show ?thesis using add_input_fresh [OF step_input] assms(2) by simp
qed (simp_all add: add_output_def set_context_def set_witness_bundle_def add_signature_def
  add_proof_reference_def set_witness_metadata_def set_fees_def Let_def)

text \<open>
  C26: whatever calls are made on a builder, and whatever the UTXO lookup answers, the inputs it holds
  are pairwise different outputs, an outpoint with and without the 0x prefix counting as the same.
\<close>

theorem builder_inputs_distinct:
  assumes "builder_step\<^sup>*\<^sup>* (new_builder now ctx mgr) b"
  shows "distinct (map (\<lambda>i. (strip_hex_prefix (outpoint i), in_index i)) (inputs (tx b)))"
proof -
  have "distinct (map input_id (inputs (tx b)))" using assms
    by (induction rule: rtranclp_induct) (auto simp: new_builder_def intro: builder_step_distinct)
  then show ?thesis by (simp add: input_id_def [abs_def])
qed

theorem builder_inputs_distinct_witness:
  "distinct (map (\<lambda>i. (strip_hex_prefix (outpoint i), in_index i))
    (inputs (tx (add_output \<lparr>out_address = ''addr'', out_commitment = [], lock_height = 0\<rparr>
      ((new_builder 7 default_context None)\<lparr>tx := (tx (new_builder 7 default_context None))
        \<lparr>inputs := [sample_input ''ab'' 0]\<rparr>\<rparr>)))))"
proof (rule builder_inputs_distinct)
  have "add_input (sample_input ''ab'' 0) (new_builder 7 default_context None) =
    Inr ((new_builder 7 default_context None)\<lparr>tx := (tx (new_builder 7 default_context None))
        \<lparr>inputs := [sample_input ''ab'' 0]\<rparr>\<rparr>)"
    by (simp add: add_input_def has_duplicate_input_def new_builder_def)
  from step_input [OF this] step_output
  show "builder_step\<^sup>*\<^sup>* (new_builder 7 default_context None) (add_output \<lparr>out_address = ''addr'', out_commitment = [], lock_height = 0\<rparr>
      ((new_builder 7 default_context None)\<lparr>tx := (tx (new_builder 7 default_context None))
        \<lparr>inputs := [sample_input ''ab'' 0]\<rparr>\<rparr>))"
    by (intro rtranclp.rtrancl_into_rtrancl [OF r_into_rtranclp])
qed

section \<open>Coin selection\<close>

lemma select_loop_some:
  "select_loop req mi c sel ordered = Some r \<Longrightarrow>
   \<exists>k \<le> length ordered. r = sel @ take k ordered \<and> req \<le> estimate_dust_available r c \<and>
     (mi \<le> length r \<or> k = length ordered) \<and>
     (\<forall>j. 0 < j \<and> j < k \<and> mi \<le> length sel + j \<longrightarrow> estimate_dust_available (sel @ take j ordered) c < req)"
proof (induction ordered arbitrary: sel)
  case Nil
  then show ?case by (auto split: if_splits)
next
  case (Cons x xs)
  show ?case
  proof (cases "mi \<le> length (sel @ [x]) \<and> req \<le> estimate_dust_available (sel @ [x]) c")
    case True
    then show ?thesis using Cons.prems by (intro exI [of _ 1]) (auto simp: Let_def)
  next
    case False
    then have "select_loop req mi c (sel @ [x]) xs = Some r" using Cons.prems by (simp add: Let_def del: length_append split: if_splits)
    from Cons.IH [OF this] obtain k where k: "k \<le> length xs" "r = (sel @ [x]) @ take k xs"
      "req \<le> estimate_dust_available r c" "mi \<le> length r \<or> k = length xs"
      "\<forall>j. 0 < j \<and> j < k \<and> mi \<le> length (sel @ [x]) + j \<longrightarrow> estimate_dust_available ((sel @ [x]) @ take j xs) c < req"
      by blast
    have "estimate_dust_available (sel @ take j (x # xs)) c < req"
      if j: "0 < j" "j < Suc k" "mi \<le> length sel + j" for j
    proof (cases "j = 1")
      case True
      with False j show ?thesis by auto
    next
      case ne: False
      then obtain i where "j = Suc i" "0 < i" using j(1) by (cases j) auto
      then show ?thesis using k(5) [rule_format, of i] j by simp
    qed
    then show ?thesis using k by (intro exI [of _ "Suc k"]) auto
  qed
qed

lemma select_loop_none:
  "select_loop req mi c sel ordered = None \<Longrightarrow> estimate_dust_available (sel @ ordered) c < req"
proof (induction ordered arbitrary: sel)
  case (Cons x xs)
  have "select_loop req mi c (sel @ [x]) xs = None" using Cons.prems by (auto simp: Let_def split: if_splits)
  from Cons.IH [OF this] show ?case by simp
qed (simp split: if_splits)

text \<open>
  what \<^verbatim>\<open>select_utxos\<close> chooses. A selection is the shortest prefix of the UTXOs in their order of
  preference (deepest finality first) that has the minimum number of inputs and whose estimated DUST
  covers the estimated fee; all of them when they cover the fee but are fewer than the minimum; and
  when nothing is selected from a non-empty set, the estimate for all of them is below the fee.
\<close>

theorem utxo_select_shortest_prefix:
  assumes "utxo_select available output_count wit ctx = Inr res"
    and "select_required_dust output_count wit ctx = Inr required"
    and "available \<noteq> []" and "output_count \<noteq> 0"
  shows "(\<forall>sel. res = Some sel \<longrightarrow>
      sel = take (length sel) (sort_key order_key available) \<and>
      required \<le> estimate_dust_available sel ctx \<and>
      (select_min_inputs output_count wit \<le> length sel \<or> mset sel = mset available) \<and>
      (\<forall>j. select_min_inputs output_count wit \<le> j \<and> j < length sel \<longrightarrow>
        estimate_dust_available (take j sel) ctx < required)) \<and>
    (res = None \<longrightarrow> estimate_dust_available available ctx < required)"
proof -
  let ?s = "sort_key order_key available"
  have r: "res = select_loop required (select_min_inputs output_count wit) ctx [] ?s"
    using assms by (simp add: utxo_select_def)
  have "estimate_dust_available ?s ctx = estimate_dust_available available ctx"
    by (simp add: estimate_dust_available_def)
  then have none: "estimate_dust_available available ctx < required" if "res = None"
    using select_loop_none [of required "select_min_inputs output_count wit" ctx "[]" ?s] r that by simp
  have pos: "0 < select_min_inputs output_count wit" by (auto simp: select_min_inputs_def max_def)
  have "sel = take (length sel) ?s \<and> required \<le> estimate_dust_available sel ctx \<and>
      (select_min_inputs output_count wit \<le> length sel \<or> mset sel = mset available) \<and>
      (\<forall>j. select_min_inputs output_count wit \<le> j \<and> j < length sel \<longrightarrow>
        estimate_dust_available (take j sel) ctx < required)" if s: "res = Some sel" for sel
  proof -
    from select_loop_some [of required "select_min_inputs output_count wit" ctx "[]" ?s sel] r s
    obtain k where k: "k \<le> length ?s" "sel = take k ?s" "required \<le> estimate_dust_available sel ctx"
      "select_min_inputs output_count wit \<le> length sel \<or> k = length ?s"
      "\<forall>j. 0 < j \<and> j < k \<and> select_min_inputs output_count wit \<le> j \<longrightarrow>
        estimate_dust_available (take j ?s) ctx < required" by auto
    have l: "length sel = k" using k(1,2) by simp
    have all: "mset sel = mset available" if "k = length ?s" using k(2) that by simp
    have "estimate_dust_available (take j sel) ctx < required"
      if "select_min_inputs output_count wit \<le> j" "j < length sel" for j
      using k(5) [rule_format, of j] that pos l k(2) by (simp add: min_def)
    with k(2,3,4) l all show ?thesis by auto
  qed
  with none show ?thesis by blast
qed

definition sample_utxo :: "u32 \<Rightarrow> utxo" where
  "sample_utxo depth = \<lparr>utxo_tx_hash = ''ab'', utxo_index = 0, utxo_address = [], token_type = [],
     utxo_value = [], intent_hash = [], ctime = 0, registered_for_dust = False, utxo_commitment = [],
     confirmed_height = 0, finality_depth = depth, is_spent_flag = False, spending_tx_hash = []\<rparr>"

theorem utxo_select_shortest_prefix_witness:
  "utxo_select (map sample_utxo [1, 9, 5, 3]) 1 False default_context =
     Inr (Some (map sample_utxo [9, 5, 3])) \<and>
   estimate_dust_available (take 2 (map sample_utxo [9, 5, 3])) default_context < 167453"
proof -
  have f: "select_required_dust 1 False default_context = Inr 167453"
    by (simp add: select_required_dust_def select_min_inputs_def estimate_fee_def estimate_tx_size_bytes_def
      default_context_def default_fee_model_def default_params_def calculate_min_fee_def commitment_dust_overhead_def)
  have s: "utxo_select (map sample_utxo [1, 9, 5, 3]) 1 False default_context =
     Inr (Some (map sample_utxo [9, 5, 3]))"
  proof -
    have "sort_key order_key (map sample_utxo [1, 9, 5, 3]) = map sample_utxo [9, 5, 3, 1]"
      by (simp add: order_key_def sample_utxo_def)
    moreover have "select_loop 167453 (select_min_inputs 1 False) default_context [] (map sample_utxo [9, 5, 3, 1]) =
        Some (map sample_utxo [9, 5, 3])"
      by (simp add: select_min_inputs_def estimate_dust_available_def derive_estimated_dust_per_utxo_def
        default_context_def default_fee_model_def default_params_def)
    ultimately show ?thesis using f by (simp add: utxo_select_def)
  qed
  have "select_min_inputs 1 False \<le> 2" by code_simp
  then have "estimate_dust_available (take 2 (map sample_utxo [9, 5, 3])) default_context < 167453"
    using utxo_select_shortest_prefix [OF s f, THEN conjunct1, rule_format, OF _ _ refl,
      THEN conjunct2, THEN conjunct2, THEN conjunct2, rule_format, of 2] by simp
  with s show ?thesis by (rule conjI)
qed

section \<open>Spelling of an outpoint\<close>

text \<open>
  only the builder sees that an outpoint with the 0x prefix is the one without it. It refuses the
  second spelling, but the duplicate check of the validator passes the two, and after the one has been
  reserved the other is still free for any other transaction.
\<close>

theorem outpoint_spelling:
  assumes "strip_hex_prefix (outpoint i) = outpoint i" and "i \<in> set (inputs (tx b))"
    and "(outpoint_key (i\<lparr>outpoint := ''0x'' @ outpoint i\<rparr>)) \<notin> dom m"
  shows "(\<exists>e. add_input (i\<lparr>outpoint := ''0x'' @ outpoint i\<rparr>) b = Inl e) \<and>
    find_duplicate [] [i, i\<lparr>outpoint := ''0x'' @ outpoint i\<rparr>] = None \<and>
    fst (is_reserved now (outpoint_key (i\<lparr>outpoint := ''0x'' @ outpoint i\<rparr>)) other
      (snd (reserve_utxos clk [i] txh ttl m))) = False"
proof -
  have ne: "outpoint_key (i\<lparr>outpoint := ''0x'' @ outpoint i\<rparr>) \<noteq> outpoint_key i"
    by (simp add: outpoint_key_def)
  have 1: "has_duplicate_input b (i\<lparr>outpoint := ''0x'' @ outpoint i\<rparr>)"
    using assms(1,2) by (auto simp: has_duplicate_input_def list_ex_iff strip_hex_prefix_def starts_with_def intro!: bexI [of _ i])
  have 3: "snd (reserve_utxos clk [i] txh ttl m) (outpoint_key (i\<lparr>outpoint := ''0x'' @ outpoint i\<rparr>)) = None"
  proof -
    have "m (outpoint_key (i\<lparr>outpoint := ''0x'' @ outpoint i\<rparr>)) = None" using assms(3) by (simp only: domIff not_not)
    with ne show ?thesis
      by (cases "is_reserved (clk 1) (outpoint_key i) txh m")
        (auto simp: reserve_utxos_def is_reserved_def split: option.splits if_splits)
  qed
  show ?thesis using 1 3 ne by (simp add: add_input_def is_reserved_def)
qed

theorem outpoint_spelling_witness:
  "find_duplicate [] [sample_input ''ab'' 0, (sample_input ''ab'' 0)\<lparr>outpoint := ''0x'' @ outpoint (sample_input ''ab'' 0)\<rparr>] = None"
proof -
  have a: "strip_hex_prefix (outpoint (sample_input ''ab'' 0)) = outpoint (sample_input ''ab'' 0)" by code_simp
  have b: "sample_input ''ab'' 0 \<in> set (inputs (tx ((new_builder 7 default_context None)\<lparr>tx :=
      (tx (new_builder 7 default_context None))\<lparr>inputs := [sample_input ''ab'' 0]\<rparr>\<rparr>)))" by simp
  have c: "outpoint_key ((sample_input ''ab'' 0)\<lparr>outpoint := ''0x'' @ outpoint (sample_input ''ab'' 0)\<rparr>) \<notin> dom Map.empty" by simp
  show ?thesis using outpoint_spelling [OF a b c] by blast
qed

section \<open>DUST\<close>

text \<open>
  the DUST balance is compared modulo \<open>2^64\<close>. While outputs, fees and commitments stay below it
  the check is the balance; a transaction whose need is exactly \<open>2^64\<close> passes with no DUST at all.
\<close>

theorem dust_balance_wraps:
  "(unat (output_dust t) + unat (fees t) + 128 * length (outputs t) < 2 ^ 64 \<longrightarrow>
     (verify_dust_balance t \<longleftrightarrow>
       unat (output_dust t) + unat (fees t) + 128 * length (outputs t) \<le> unat (input_dust t))) \<and>
   (unat (output_dust t) + unat (fees t) + 128 * length (outputs t) = 2 ^ 64 \<longrightarrow> verify_dust_balance t)"
proof -
  let ?n = "unat (output_dust t) + unat (fees t) + 128 * length (outputs t)"
  have "(word_of_nat ?n :: u64) = output_dust t + fees t + word_of_nat (length (outputs t)) * 128"
    by (simp add: algebra_simps)
  moreover have "unat (word_of_nat ?n :: u64) = ?n mod 2 ^ 64" by (subst unat_of_nat) simp
  ultimately have u: "unat (output_dust t + fees t + word_of_nat (length (outputs t)) * 128) = ?n mod 2 ^ 64"
    by (simp only:)
  show ?thesis unfolding verify_dust_balance_def Let_def word_le_nat_alt u by auto
qed

theorem dust_balance_wraps_witness:
  "verify_dust_balance ((tx (new_builder 7 default_context None))\<lparr>output_dust := - 1, fees := 1\<rparr>)"
  using dust_balance_wraps [of "(tx (new_builder 7 default_context None))\<lparr>output_dust := - 1, fees := 1\<rparr>"]
  by (simp add: new_builder_def unsigned_minus_1_eq_mask mask_eq_exp_minus_1)

end
