(* ===== verification/Validation.thy ===== *)
theory Validation
  imports Hex Bech32m "HOL-Library.List_Lexorder"
begin

text \<open>
  The input checks of include/midnight/production/validation.hpp: fixed-width hex, the three address
  kinds, u128 amounts in decimal, wallet seeds and mnemonics; and that the decimal check accepts
  exactly the numerals below \<open>2^128\<close>.
\<close>

section \<open>Operations\<close>

definition normalized_hex :: "string \<Rightarrow> string" where
  "normalized_hex s = map tolower (strip_hex_prefix s)"

definition is_fixed_hex :: "string \<Rightarrow> nat \<Rightarrow> bool" where
  "is_fixed_hex s n = (let hex = normalized_hex s in length hex = n * 2 \<and> is_hex_string hex)"

definition is_tx_hash :: "string \<Rightarrow> bool" where
  "is_tx_hash s = is_fixed_hex s 32"

definition is_contract_address_hex :: "string \<Rightarrow> bool" where
  "is_contract_address_hex s = is_fixed_hex s 32"

definition is_token_type_hex :: "string \<Rightarrow> bool" where
  "is_token_type_hex s = is_fixed_hex s 32"

definition is_night_token_type :: "string \<Rightarrow> bool" where
  "is_night_token_type s \<longleftrightarrow> normalized_hex s = replicate 64 (CHR ''0'')"

definition is_unshielded_night_address :: "string \<Rightarrow> bool" where
  "is_unshielded_night_address s = (case decode_unshielded s of Inr _ \<Rightarrow> True | Inl _ \<Rightarrow> False)"

definition is_dust_address :: "string \<Rightarrow> bool" where
  "is_dust_address s = (case decode_dust s of Inr _ \<Rightarrow> True | Inl _ \<Rightarrow> False)"

definition is_shielded_address :: "string \<Rightarrow> bool" where
  "is_shielded_address s = (case decode_shielded s of Inr _ \<Rightarrow> True | Inl _ \<Rightarrow> False)"

definition kMaxU128 :: string where
  "kMaxU128 = ''340282366920938463463374607431768211455''"

definition is_u128_decimal :: "string \<Rightarrow> bool" where
  "is_u128_decimal s =
     (if s = [] then False
      else if \<not> list_all isdigit s then False
      else
        (let normalized = dropWhile (\<lambda>ch. ch = CHR ''0'') s
         in if normalized = [] then True
            else length normalized < length kMaxU128 \<or>
              (length normalized = length kMaxU128 \<and> normalized \<le> kMaxU128)))"

definition has_source_input :: "string \<Rightarrow> string list \<Rightarrow> bool" where
  "has_source_input src_url src_files \<longleftrightarrow> src_url \<noteq> [] \<or> src_files \<noteq> []"

text \<open>The words \<^verbatim>\<open>words >> word\<close> reads one after the other.\<close>

fun stream_words :: "string \<Rightarrow> string \<Rightarrow> string list" where
  "stream_words acc [] = (if acc = [] then [] else [rev acc])"
| "stream_words acc (c # s) =
     (if isspace c then (if acc = [] then stream_words [] s else rev acc # stream_words [] s)
      else stream_words (c # acc) s)"

fun count_words :: "nat \<Rightarrow> string list \<Rightarrow> bool" where
  "count_words n [] \<longleftrightarrow> n = 12 \<or> n = 15 \<or> n = 18 \<or> n = 21 \<or> n = 24"
| "count_words n (word # ws) \<longleftrightarrow> (if \<not> list_all islower word then False else count_words (Suc n) ws)"

definition is_wallet_seed_or_mnemonic :: "string \<Rightarrow> bool" where
  "is_wallet_seed_or_mnemonic s =
     (let hex = normalized_hex s
      in if (length hex = 32 \<or> length hex = 64 \<or> length hex = 128) \<and> is_hex_string hex then True
         else count_words 0 (stream_words [] s))"

section \<open>Decimal numerals and their order\<close>

lemma dec_value_acc: "foldl dec_step a s = a * 10 ^ length s + dec_value s"
proof (induction s arbitrary: a)
  case Nil
  then show ?case by (simp add: dec_value_def)
next
  case (Cons c s)
  have "foldl dec_step a (c # s) = dec_step a c * 10 ^ length s + dec_value s" using Cons [of "dec_step a c"] by simp
  moreover have "dec_value (c # s) = dec_step 0 c * 10 ^ length s + dec_value s"
    using Cons [of "dec_step 0 c"] by (simp add: dec_value_def)
  moreover have "dec_step a c = a * 10 + dec_step 0 c" by (simp add: dec_step_def)
  ultimately show ?case by (simp add: add_mult_distrib)
qed

lemma dec_value_Cons: "dec_value (c # s) = dec_step 0 c * 10 ^ length s + dec_value s"
  using dec_value_acc [of "dec_step 0 c" s] by (simp add: dec_value_def)

lemma dec_step_digit: "isdigit c \<Longrightarrow> dec_step 0 c = of_char c - 48 \<and> dec_step 0 c < 10"
  by (auto simp: dec_step_def isdigit_def char_in_def)

lemma dec_value_bound: "list_all isdigit s \<Longrightarrow> dec_value s < 10 ^ length s"
proof (induction s)
  case Nil
  then show ?case by (simp add: dec_value_def)
next
  case (Cons c s)
  then have "dec_step 0 c \<le> 9" "dec_value s < 10 ^ length s" using dec_step_digit [of c] by auto
  then have "dec_step 0 c * 10 ^ length s \<le> 9 * 10 ^ length s" by simp
  with \<open>dec_value s < _\<close> have "dec_step 0 c * 10 ^ length s + dec_value s < 9 * 10 ^ length s + 10 ^ length s"
    by (rule add_le_less_mono [rotated])
  then show ?case by (simp add: dec_value_Cons)
qed

lemma dec_step_inj: "isdigit c \<Longrightarrow> isdigit d \<Longrightarrow> dec_step 0 c = dec_step 0 d \<Longrightarrow> c = d"
proof -
  assume "isdigit c" "isdigit d" "dec_step 0 c = dec_step 0 d"
  then have "(of_char c :: nat) = of_char d"
    by (simp only: dec_step_def isdigit_def char_in_def) linarith
  then show "c = d" by (simp only: of_char_eq_iff)
qed

lemma dec_value_order:
  "length s = length t \<Longrightarrow> list_all isdigit s \<Longrightarrow> list_all isdigit t \<Longrightarrow> s \<le> t \<longleftrightarrow> dec_value s \<le> dec_value t"
proof (induction s t rule: list_induct2)
  case Nil
  then show ?case by simp
next
  case (Cons c s d t)
  have b: "dec_value s < 10 ^ length s" "dec_value t < 10 ^ length s"
    using Cons dec_value_bound [of s] dec_value_bound [of t] by auto
  have cd: "c < d \<longleftrightarrow> dec_step 0 c < dec_step 0 d" "c = d \<longleftrightarrow> dec_step 0 c = dec_step 0 d"
    using Cons.prems dec_step_inj [of c d] by (auto simp: dec_step_def isdigit_def char_in_def less_char_def)
  have mono: "x * 10 ^ length s + 10 ^ length s \<le> y * 10 ^ length s" if "x < y" for x y :: nat
    using mult_le_mono1 [of "Suc x" y "10 ^ length s"] that by simp
  show ?case
    using Cons.IH Cons.prems Cons.hyps b cd mono [of "dec_step 0 c" "dec_step 0 d"] mono [of "dec_step 0 d" "dec_step 0 c"]
    by (cases "dec_step 0 c" "dec_step 0 d" rule: linorder_cases) (auto simp: dec_value_Cons)
qed

lemma dec_value_zeros: "dec_value (dropWhile (\<lambda>ch. ch = CHR ''0'') s) = dec_value s"
  by (induction s) (auto simp: dec_value_Cons dec_step_def)

lemma dec_value_leading:
  assumes "isdigit c" and "c \<noteq> CHR ''0''"
  shows "10 ^ length s \<le> dec_value (c # s)"
proof -
  have "dec_step 0 c \<noteq> dec_step 0 (CHR ''0'')"
    using dec_step_inj [OF assms(1), of "CHR ''0''"] assms(2) by (auto simp: isdigit_def char_in_def)
  then have "(of_char c :: nat) \<noteq> 48" by (auto simp: dec_step_def)
  then have "1 \<le> dec_step 0 c" using assms(1) by (auto simp: dec_step_def isdigit_def char_in_def)
  then have "1 * 10 ^ length s \<le> dec_step 0 c * 10 ^ length s" by (rule mult_le_mono1)
  also have "\<dots> \<le> dec_value (c # s)" by (simp add: dec_value_Cons)
  finally show ?thesis by simp
qed

text \<open>
  C34: \<^verbatim>\<open>is_u128_decimal\<close> accepts exactly the non-empty strings of decimal digits whose value is below
  \<open>2^128\<close>, leading zeros allowed; it compares them as strings, without computing the value.
\<close>

theorem is_u128_decimal_exact:
  "is_u128_decimal s \<longleftrightarrow> s \<noteq> [] \<and> list_all isdigit s \<and> dec_value s < 2 ^ 128"
proof (cases "s \<noteq> [] \<and> list_all isdigit s")
  case False
  then show ?thesis by (auto simp: is_u128_decimal_def)
next
  case True
  define n where "n = dropWhile (\<lambda>ch. ch = CHR ''0'') s"
  have v: "dec_value n = dec_value s" by (simp add: n_def dec_value_zeros)
  have d: "list_all isdigit n" using True unfolding n_def list_all_iff by (meson set_dropWhileD)
  have k: "length kMaxU128 = 39" "list_all isdigit kMaxU128" "dec_value kMaxU128 = 2 ^ 128 - 1" 
    by (simp_all add: kMaxU128_def dec_value_def dec_step_def isdigit_def char_in_def)
  have "dec_value n < 2 ^ 128 \<longleftrightarrow> n = [] \<or> length n < 39 \<or> length n = 39 \<and> n \<le> kMaxU128"
  proof (cases n)
    case Nil
    then show ?thesis by (simp add: dec_value_def)
  next
    case (Cons c t)
    have c: "c \<noteq> CHR ''0''" using Cons hd_dropWhile [of "\<lambda>ch. ch = CHR ''0''" s] by (auto simp: n_def)
    have low: "10 ^ length t \<le> dec_value n" using dec_value_leading [OF _ c, of t] d Cons by simp
    consider "length n < 39" | "length n = 39" | "39 < length n" by linarith
    then show ?thesis
    proof cases
      case 1
      then have "(10::nat) ^ length n \<le> 10 ^ 38" by (intro power_increasing) auto
      with dec_value_bound [OF d] 1 show ?thesis by simp
    next
      case 2
      with dec_value_order [OF _ d k(2)] k(1,3) Cons show ?thesis by auto
    next
      case 3
      then have "(10::nat) ^ 39 \<le> 10 ^ length t" using Cons by (intro power_increasing) auto
      with low 3 Cons show ?thesis by simp
    qed
  qed
  then show ?thesis using True v k(1) by (simp add: is_u128_decimal_def n_def [symmetric] Let_def)
qed

end
