(* ===== verification/Balancer.thy ===== *)
theory Balancer
  imports Strings "HOL-Library.Multiset"
begin

text \<open>
  Balancing with transparent amounts (include/midnight/wallet/transaction_balancer.hpp and
  src/wallet/transaction_balancer.cpp): the Random-Improve coin selection, fees and change outputs.
  The random permutation of \<^verbatim>\<open>std::shuffle\<close> is the parameter \<open>shuffle\<close>. The two results: the
  improvement pass never improves anything, and splitting change conserves it for the thresholds the
  doubling does not overflow on, and never ends for the threshold 0.
\<close>

section \<open>Data\<close>

record utxo_with_meta =
  wm_utxo_hash :: string
  wm_output_index :: u32
  wm_amount :: u64
  wm_token_type :: string
  wm_tx_hash :: string
  wm_receiver_address :: string
  wm_ctime :: int
  wm_registered_for_dust :: bool

record change_output =
  receiver :: string
  change_amount :: u64
  change_token_type :: string
  is_change :: bool

record utxo_selection_result =
  selected :: "utxo_with_meta list"
  total_amount :: u64
  excess :: u64

definition empty_selection :: utxo_selection_result where
  "empty_selection = \<lparr>selected = [], total_amount = 0, excess = 0\<rparr>"

definition BASE_TX_SIZE :: u64 where "BASE_TX_SIZE = 64"
definition PER_INPUT_SIZE :: u64 where "PER_INPUT_SIZE = 96"
definition PER_OUTPUT_SIZE :: u64 where "PER_OUTPUT_SIZE = 80"
definition PER_PROOF_SIZE :: u64 where "PER_PROOF_SIZE = 128"
definition FEE_PER_BYTE :: u64 where "FEE_PER_BYTE = 1"
definition MIN_DUST_OUTPUT :: u64 where "MIN_DUST_OUTPUT = 1000"

section \<open>Fees\<close>

definition safe_add :: "u64 \<Rightarrow> u64 \<Rightarrow> u64 result" where
  "safe_add a b =
     (let result = a + b
      in if result < a then Inl (Overflow_error ''Fee calculation overflow'') else Inr result)"

definition calculate_tx_fee :: "u64 \<Rightarrow> u64 \<Rightarrow> bool \<Rightarrow> u64" where
  "calculate_tx_fee input_count output_count needs_proof =
     (let fee = BASE_TX_SIZE;
          fee = fee + input_count * PER_INPUT_SIZE;
          fee = fee + output_count * PER_OUTPUT_SIZE;
          fee = (if needs_proof then fee + PER_PROOF_SIZE else fee)
      in fee * FEE_PER_BYTE)"

definition is_dust :: "u64 \<Rightarrow> bool" where
  "is_dust amount \<longleftrightarrow> amount < MIN_DUST_OUTPUT"

section \<open>Coin selection\<close>

definition filter_by_token_type :: "utxo_with_meta list \<Rightarrow> string \<Rightarrow> utxo_with_meta list" where
  "filter_by_token_type available tok = filter (\<lambda>utxo. wm_token_type utxo = tok) available"

text \<open>Phase 1: a result, or everything selected and its running total.\<close>

fun accumulate ::
  "u64 \<Rightarrow> u64 \<Rightarrow> u64 \<Rightarrow> utxo_with_meta list \<Rightarrow> u64 \<Rightarrow> u64 \<Rightarrow> utxo_with_meta list \<Rightarrow>
   utxo_selection_result + utxo_with_meta list \<times> u64" where
  "accumulate target fee_per_input fee_per_output sel running_total estimated_inputs [] = Inr (sel, running_total)"
| "accumulate target fee_per_input fee_per_output sel running_total estimated_inputs (utxo # candidates) =
     (let sel = sel @ [utxo];
          running_total = running_total + wm_amount utxo;
          estimated_inputs = estimated_inputs + 1;
          current_fee = estimated_inputs * fee_per_input + fee_per_output;
          needed = target + current_fee
      in if needed \<le> running_total
         then Inl \<lparr>selected = sel, total_amount = running_total, excess = running_total - target\<rparr>
         else accumulate target fee_per_input fee_per_output sel running_total estimated_inputs candidates)"

definition largest_idx :: "utxo_with_meta list \<Rightarrow> nat" where
  "largest_idx sel =
     foldl (\<lambda>largest i. if wm_amount (sel ! largest) < wm_amount (sel ! i) then i else largest) 0 [1..<length sel]"

text \<open>The replacement loop of phase 2, over the candidates still to try.\<close>

fun improve_loop ::
  "u64 \<Rightarrow> nat \<Rightarrow> utxo_with_meta list \<Rightarrow> u64 \<Rightarrow> u64 \<Rightarrow> utxo_with_meta list \<Rightarrow> utxo_with_meta list \<times> u64" where
  "improve_loop target largest sel running_total waste [] = (sel, running_total)"
| "improve_loop target largest sel running_total waste (candidate # candidates) =
     (if list_ex (\<lambda>s. wm_utxo_hash s = wm_utxo_hash candidate) sel
      then improve_loop target largest sel running_total waste candidates
      else
        (let new_total = running_total - wm_amount (sel ! largest) + wm_amount candidate;
             new_waste = (if target < new_total then new_total - target else 0)
         in if new_waste < waste then (sel[largest := candidate], new_total)
            else improve_loop target largest sel running_total waste candidates))"

definition random_improve_select ::
  "(utxo_with_meta list \<Rightarrow> utxo_with_meta list) \<Rightarrow> utxo_with_meta list \<Rightarrow> string \<Rightarrow> u64 \<Rightarrow> u64 \<Rightarrow> u64 \<Rightarrow>
   utxo_selection_result" where
  "random_improve_select shuffle available tok target fee_per_input fee_per_output =
     (let candidates = filter_by_token_type available tok
      in if candidates = [] then empty_selection
         else
           (let candidates = shuffle candidates
            in case accumulate target fee_per_input fee_per_output [] 0 0 candidates of
                 Inl result \<Rightarrow> result
               | Inr (sel, running_total) \<Rightarrow>
                   (let waste = (if target < running_total then running_total - target else 0);
                        (sel, running_total) =
                          (if 0 < waste \<and> 1 < length sel
                           then improve_loop target (largest_idx sel) sel running_total waste candidates
                           else (sel, running_total));
                        final_fee = word_of_nat (length sel) * fee_per_input + fee_per_output
                    in if target + final_fee \<le> running_total
                       then \<lparr>selected = sel, total_amount = running_total, excess = running_total - target\<rparr>
                       else empty_selection)))"

definition balancer_select_utxos ::
  "(utxo_with_meta list \<Rightarrow> utxo_with_meta list) \<Rightarrow> utxo_with_meta list \<Rightarrow> string \<Rightarrow> u64 \<Rightarrow> utxo_selection_result" where
  "balancer_select_utxos shuffle available tok amount =
     random_improve_select shuffle available tok amount (PER_INPUT_SIZE * FEE_PER_BYTE) (PER_OUTPUT_SIZE * FEE_PER_BYTE)"

section \<open>Change\<close>

definition create_change :: "u64 \<Rightarrow> u64 \<Rightarrow> string \<Rightarrow> string \<Rightarrow> change_output option" where
  "create_change amount min_dust recv tok =
     (if min_dust \<le> amount
      then Some \<lparr>receiver = recv, change_amount = amount, change_token_type = tok, is_change = True\<rparr>
      else None)"

definition split_amount :: "u64 \<Rightarrow> u64 \<Rightarrow> u64" where
  "split_amount min_dust remaining =
     (if 2 * min_dust < remaining then
        (let half = remaining div 2 in if half < min_dust then remaining - min_dust else half)
      else remaining)"

text \<open>The splitting loop; \<open>None\<close> when it does not end.\<close>

partial_function (option) split_loop ::
  "u64 \<Rightarrow> string \<Rightarrow> string \<Rightarrow> u64 \<Rightarrow> change_output list option" where
  "split_loop min_dust recv tok remaining =
     (if remaining < min_dust then Some []
      else if min_dust \<le> split_amount min_dust remaining
      then Option.bind (split_loop min_dust recv tok (remaining - split_amount min_dust remaining)) (\<lambda>outputs.
        Some (\<lparr>receiver = recv, change_amount = split_amount min_dust remaining, change_token_type = tok,
          is_change = True\<rparr> # outputs))
      else Some [])"

definition split_change :: "u64 \<Rightarrow> u64 \<Rightarrow> string \<Rightarrow> string \<Rightarrow> change_output list option" where
  "split_change amount min_dust recv tok =
     (if amount < min_dust then Some []
      else if amount < 2 * min_dust
      then Some [\<lparr>receiver = recv, change_amount = amount, change_token_type = tok, is_change = True\<rparr>]
      else split_loop min_dust recv tok amount)"

section \<open>Selection takes the first sufficient prefix\<close>

definition amount_of :: "utxo_with_meta list \<Rightarrow> u64" where
  "amount_of us = sum_list (map wm_amount us)"

definition enough :: "u64 \<Rightarrow> u64 \<Rightarrow> u64 \<Rightarrow> utxo_with_meta list \<Rightarrow> bool" where
  "enough target fee_per_input fee_per_output us \<longleftrightarrow>
     target + (word_of_nat (length us) * fee_per_input + fee_per_output) \<le> amount_of us"

lemma accumulate_find:
  "accumulate t fi fo sel (amount_of sel) (word_of_nat (length sel)) cs =
     (case find (\<lambda>k. enough t fi fo (sel @ take k cs)) [1..<Suc (length cs)] of
        None \<Rightarrow> Inr (sel @ cs, amount_of (sel @ cs))
      | Some k \<Rightarrow> Inl \<lparr>selected = sel @ take k cs, total_amount = amount_of (sel @ take k cs),
          excess = amount_of (sel @ take k cs) - t\<rparr>)"
proof (induction cs arbitrary: sel)
  case Nil
  then show ?case by simp
next
  case (Cons c cs)
  have up: "[1..<Suc (length (c # cs))] = 1 # map Suc [1..<Suc (length cs)]"
    by (simp add: map_Suc_upt upt_conv_Cons del: upt_Suc)
  have f: "find P (map Suc ks) = map_option Suc (find (\<lambda>k. P (Suc k)) ks)" for P ks
    by (induction ks) auto
  have tot: "amount_of sel + wm_amount c = amount_of (sel @ [c])" by (simp add: amount_of_def)
  have len: "word_of_nat (length sel) + 1 = (word_of_nat (length (sel @ [c])) :: u64)" by simp
  show ?case
  proof (cases "enough t fi fo (sel @ [c])")
    case True
    then show ?thesis unfolding accumulate.simps Let_def tot len up find.simps
      by (simp add: enough_def add.commute del: upt_Suc)
  next
    case False
    have q: "(sel @ [c]) @ take k cs = sel @ take (Suc k) (c # cs)" for k by simp
    have e: "accumulate t fi fo sel (amount_of sel) (word_of_nat (length sel)) (c # cs) =
        accumulate t fi fo (sel @ [c]) (amount_of (sel @ [c])) (word_of_nat (length (sel @ [c]))) cs"
      unfolding accumulate.simps Let_def tot len using False by (simp only: enough_def if_False)
    have "sel @ take 1 (c # cs) = sel @ [c]" by simp
    with False have g: "find (\<lambda>k. enough t fi fo (sel @ take k (c # cs))) [1..<Suc (length (c # cs))] =
        map_option Suc (find (\<lambda>k. enough t fi fo (sel @ take (Suc k) (c # cs))) [1..<Suc (length cs)])"
      unfolding up find.simps f by (simp only: if_False)
    show ?thesis unfolding e g Cons.IH [of "sel @ [c]", unfolded q]
      by (cases "find (\<lambda>k. enough t fi fo (sel @ take (Suc k) (c # cs))) [1..<Suc (length cs)]") simp_all
  qed
qed

lemma improve_loop_noop:
  "\<forall>c \<in> set cs. \<exists>s \<in> set sel. wm_utxo_hash s = wm_utxo_hash c \<Longrightarrow> improve_loop t l sel r w cs = (sel, r)"
  by (induction cs) (auto simp: list_ex_iff)

text \<open>
  the Random-Improve selection is its random accumulation alone. Whatever the permutation, the
  amounts and the fees, the result is the shortest non-empty prefix of the shuffled candidates that
  covers target and fees (modulo \<open>2^64\<close>), or nothing; the improvement pass only runs when everything
  is selected already, and changes neither.
\<close>

theorem random_improve_first_prefix:
  assumes "\<And>us. mset (shuffle us) = mset us"
  shows "random_improve_select shuffle available tok t fi fo =
     (let candidates = filter_by_token_type available tok;
          cs = shuffle candidates
      in case find (\<lambda>k. t + (word_of_nat k * fi + fo) \<le> sum_list (map wm_amount (take k cs))) [1..<Suc (length cs)] of
           None \<Rightarrow> empty_selection
         | Some k \<Rightarrow> \<lparr>selected = take k cs, total_amount = sum_list (map wm_amount (take k cs)),
             excess = sum_list (map wm_amount (take k cs)) - t\<rparr>)"
proof (cases "filter_by_token_type available tok = []")
  case True
  moreover have "shuffle [] = []" using assms [of "[]"] by simp
  ultimately show ?thesis by (simp add: random_improve_select_def)
next
  case False
  define cs where "cs = shuffle (filter_by_token_type available tok)"
  have ne: "cs \<noteq> []" using False assms [of "filter_by_token_type available tok"] by (auto simp: cs_def)
  have acc: "accumulate t fi fo [] 0 0 cs =
     (case find (\<lambda>k. enough t fi fo (take k cs)) [1..<Suc (length cs)] of
        None \<Rightarrow> Inr (cs, amount_of cs)
      | Some k \<Rightarrow> Inl \<lparr>selected = take k cs, total_amount = amount_of (take k cs), excess = amount_of (take k cs) - t\<rparr>)"
    using accumulate_find [of t fi fo "[]" cs, unfolded append_Nil] by (simp only: amount_of_def list.size list.map sum_list.Nil semiring_1_class.of_nat_simps(1))
  have fin: "find (\<lambda>k. enough t fi fo (take k cs)) [1..<Suc (length cs)] =
      find (\<lambda>k. t + (word_of_nat k * fi + fo) \<le> sum_list (map wm_amount (take k cs))) [1..<Suc (length cs)]"
    by (intro find_cong refl) (auto simp: enough_def amount_of_def min_def)
  have noop: "improve_loop t l cs r w cs = (cs, r)" for l r w by (rule improve_loop_noop) auto
  have short: "\<not> enough t fi fo cs \<or> cs = []" if "find (\<lambda>k. enough t fi fo (take k cs)) [1..<Suc (length cs)] = None"
    using that [unfolded find_None_iff] by (cases cs) (auto dest!: spec [of _ "length cs"] simp del: upt_Suc)
  show ?thesis
  proof (cases "find (\<lambda>k. enough t fi fo (take k cs)) [1..<Suc (length cs)]")
    case None
    then have "\<not> t + (word_of_nat (length cs) * fi + fo) \<le> amount_of cs \<or> cs = []"
      using short by (simp add: enough_def)
    show ?thesis using \<open>_ \<or> cs = []\<close> ne
      unfolding random_improve_select_def Let_def cs_def [symmetric] acc fin [symmetric] None option.case sum.case
      using False by (auto simp: noop amount_of_def empty_selection_def)
  next
    case (Some k)
    then show ?thesis
      unfolding random_improve_select_def Let_def cs_def [symmetric] acc fin [symmetric] using False
      by (simp add: amount_of_def)
  qed
qed


definition sample_meta :: "u64 \<Rightarrow> utxo_with_meta" where
  "sample_meta n = \<lparr>wm_utxo_hash = ''ab'', wm_output_index = 0, wm_amount = n, wm_token_type = ''NIGHT'',
     wm_tx_hash = [], wm_receiver_address = [], wm_ctime = 0, wm_registered_for_dust = False\<rparr>"

theorem random_improve_first_prefix_witness:
  "random_improve_select rev (map sample_meta [9, 700, 600]) ''NIGHT'' 1000 96 80 =
     \<lparr>selected = map sample_meta [600, 700], total_amount = 1300, excess = 300\<rparr>"
  by (subst random_improve_first_prefix) (simp_all add: filter_by_token_type_def sample_meta_def upt_rec)

section \<open>Splitting change\<close>

lemma split_amount_less:
  assumes "0 < min_dust" and "min_dust < 2 ^ 63" and "min_dust \<le> remaining"
  shows "min_dust \<le> split_amount min_dust remaining \<and> split_amount min_dust remaining \<le> remaining"
proof -
  have m: "unat (2 * min_dust) = 2 * unat min_dust"
    using assms(2) by (simp add: word_less_nat_alt unat_word_ariths)
  have h: "unat (remaining div 2) = unat remaining div 2" by (simp add: unat_div)
  show ?thesis
    using assms(1,3) m h
    by (auto simp: split_amount_def Let_def word_less_nat_alt word_le_nat_alt unat_sub)
qed

lemma split_amount_rest:
  assumes "0 < min_dust" and "min_dust < 2 ^ 63" and "min_dust \<le> remaining"
  shows "remaining - split_amount min_dust remaining = 0 \<or>
    min_dust \<le> remaining - split_amount min_dust remaining"
proof -
  have m: "unat (2 * min_dust) = 2 * unat min_dust"
    using assms(2) by (simp add: word_less_nat_alt unat_word_ariths)
  have h: "unat (remaining div 2) = unat remaining div 2" by (simp add: unat_div)
  then have "remaining div 2 \<le> remaining" by (simp add: word_le_nat_alt)
  then have "unat (remaining - remaining div 2) = unat remaining - unat remaining div 2"
    using h by (simp add: unat_sub)
  then show ?thesis
    using m h by (auto simp: split_amount_def Let_def word_less_nat_alt word_le_nat_alt)
qed

definition change_sum :: "change_output list \<Rightarrow> nat" where
  "change_sum outs = sum_list (map (\<lambda>out. unat (change_amount out)) outs)"

lemma split_loop_total:
  assumes "0 < min_dust" and "min_dust < 2 ^ 63"
  shows "(remaining = 0 \<or> min_dust \<le> remaining) \<Longrightarrow>
    \<exists>outs. split_loop min_dust recv tok remaining = Some outs \<and> change_sum outs = unat remaining \<and>
      (\<forall>out \<in> set outs. min_dust \<le> change_amount out)"
proof (induction "unat remaining" arbitrary: remaining rule: less_induct)
  case less
  show ?case
  proof (cases "remaining = 0")
    case True
    then have "split_loop min_dust recv tok remaining = Some []"
      using assms(1) by (simp add: split_loop.simps [of min_dust recv tok 0])
    then show ?thesis using True by (simp add: change_sum_def)
  next
    case False
    then have ge: "min_dust \<le> remaining" using less.prems by simp
    let ?s = "split_amount min_dust remaining"
    have s: "min_dust \<le> ?s" "?s \<le> remaining" using split_amount_less [OF assms ge] by auto
    have u: "unat (remaining - ?s) = unat remaining - unat ?s" using s(2) by (rule unat_sub)
    have pos: "0 < unat ?s" using s(1) assms(1) by (simp add: word_less_nat_alt word_le_nat_alt)
    have le: "unat ?s \<le> unat remaining" using s(2) by (simp add: word_le_nat_alt)
    have "remaining - ?s = 0 \<or> min_dust \<le> remaining - ?s"
      using split_amount_rest [OF assms ge] by simp
    with less.hyps [of "remaining - ?s"] u pos le obtain outs where outs:
      "split_loop min_dust recv tok (remaining - ?s) = Some outs" "change_sum outs = unat (remaining - ?s)"
      "\<forall>out \<in> set outs. min_dust \<le> change_amount out" by (auto simp: not_less)
    then show ?thesis using s(1) ge [THEN leD] u le
      by (simp add: split_loop.simps [of _ _ _ remaining] change_sum_def)
  qed
qed

lemma split_loop_diverges: "split_loop min_dust recv tok remaining = Some outs \<Longrightarrow> min_dust \<noteq> 0"
  by (rule split_loop.raw_induct [of "\<lambda>m _ _ _ _. m \<noteq> 0" min_dust recv tok remaining outs])
    (auto simp: bind_eq_Some_conv split: if_splits, blast)

text \<open>
  for thresholds above 0 and below \<open>2^63\<close>, splitting change ends, gives nothing for dust, and else
  outputs that add up to the change exactly, none of them dust. With the threshold 0 the loop of
  \<^verbatim>\<open>split_change\<close> never ends, whatever the change.
\<close>

theorem split_change_conserves:
  "(0 < min_dust \<and> min_dust < 2 ^ 63 \<longrightarrow>
     (\<exists>outs. split_change amount min_dust recv tok = Some outs \<and>
       change_sum outs = (if amount < min_dust then 0 else unat amount) \<and>
       (\<forall>out \<in> set outs. min_dust \<le> change_amount out))) \<and>
   (min_dust = 0 \<longrightarrow> split_change amount min_dust recv tok = None)"
proof (rule conjI; rule impI)
  assume m: "0 < min_dust \<and> min_dust < 2 ^ 63"
  show "\<exists>outs. split_change amount min_dust recv tok = Some outs \<and>
       change_sum outs = (if amount < min_dust then 0 else unat amount) \<and>
       (\<forall>out \<in> set outs. min_dust \<le> change_amount out)"
    using m split_loop_total [of min_dust amount recv tok]
    by (auto simp: split_change_def change_sum_def not_less)
next
  assume "min_dust = 0"
  then show "split_change amount min_dust recv tok = None"
    using split_loop_diverges [of min_dust recv tok amount]
    by (cases "split_loop min_dust recv tok amount") (auto simp: split_change_def)
qed

theorem split_change_conserves_witness:
  "(\<exists>outs. split_change 5000 1000 ''addr'' ''NIGHT'' = Some outs \<and> change_sum outs = 5000) \<and>
   split_change 5000 0 ''addr'' ''NIGHT'' = None"
  using split_change_conserves [of 1000 5000 "''addr''" "''NIGHT''"]
    split_change_conserves [of 0 5000 "''addr''" "''NIGHT''"] by auto

end
