(* ===== verification/Extrinsic.thy ===== *)
theory Extrinsic
  imports ScaleProps
begin

text \<open>
  Substrate extrinsics (include/midnight/tx/extrinsic_builder.hpp, src/tx/extrinsic_builder.cpp) over the
  model of the SCALE encoder. Of libsodium, \<open>sign\<close> is \<^verbatim>\<open>crypto_sign_detached\<close>, \<open>blake2b\<close> is
  \<^verbatim>\<open>crypto_generichash\<close> with 32 bytes of output, and \<open>sodium_ok\<close> says that \<^verbatim>\<open>sodium_init\<close> succeeds. The
  result: what the builder signs and sends is read back field by field.
\<close>

section \<open>Operations\<close>

record extrinsic_params =
  xp_spec_version :: u32
  xp_tx_version :: u32
  xp_genesis_hash :: bytes
  xp_block_hash :: bytes
  xp_nonce :: u64
  xp_tip :: u64
  xp_mortal_era :: bool
  xp_era_block :: u64
  xp_era_period :: u64

record pallet_call =
  pallet_index :: u8
  call_index :: u8
  call_data :: bytes

definition system_remark :: "bytes \<Rightarrow> pallet_call" where
  "system_remark remark =
     \<lparr>pallet_index = 0x00, call_index = 0x00, call_data = buffer (encode_bytes remark new_encoder)\<rparr>"

definition midnight_send_mn_transaction :: "bytes \<Rightarrow> u8 \<Rightarrow> pallet_call result" where
  "midnight_send_mn_transaction midnight_tx pallet =
     (if midnight_tx = [] then Inl (Runtime_error ''Midnight transaction bytes cannot be empty'')
      else Inr \<lparr>pallet_index = pallet, call_index = 0x00, call_data = buffer (encode_bytes midnight_tx new_encoder)\<rparr>)"

definition custom_call :: "u8 \<Rightarrow> u8 \<Rightarrow> bytes \<Rightarrow> pallet_call" where
  "custom_call pallet idx data = \<lparr>pallet_index = pallet, call_index = idx, call_data = data\<rparr>"

definition new_extrinsic_builder :: "extrinsic_params \<Rightarrow> extrinsic_params result" where
  "new_extrinsic_builder params =
     (if length (xp_genesis_hash params) \<noteq> 32 then Inl (Runtime_error ''Genesis hash must be 32 bytes'')
      else if length (xp_block_hash params) \<noteq> 32 then Inl (Runtime_error ''Block hash must be 32 bytes'')
      else Inr params)"

definition encode_call :: "pallet_call \<Rightarrow> bytes" where
  "encode_call c = [pallet_index c] @ [call_index c] @ call_data c"

definition encode_extra :: "extrinsic_params \<Rightarrow> bytes" where
  "encode_extra p =
     (let enc = new_encoder;
          enc = (if xp_mortal_era p then encode_era_mortal (xp_era_block p) (xp_era_period p) enc
                 else encode_era_immortal enc);
          enc = encode_compact (xp_nonce p) enc;
          enc = encode_compact (xp_tip p) enc
      in buffer enc)"

definition encode_additional :: "extrinsic_params \<Rightarrow> bytes" where
  "encode_additional p =
     (let enc = new_encoder;
          enc = encode_u32_le (xp_spec_version p) enc;
          enc = encode_u32_le (xp_tx_version p) enc;
          enc = encode_raw (xp_genesis_hash p) enc;
          enc = (if \<not> xp_mortal_era p then encode_raw (xp_genesis_hash p) enc
                 else encode_raw (xp_block_hash p) enc)
      in buffer enc)"

definition build_signing_payload :: "(bytes \<Rightarrow> bytes) \<Rightarrow> extrinsic_params \<Rightarrow> pallet_call \<Rightarrow> bytes" where
  "build_signing_payload blake2b p c =
     (let payload = encode_call c @ encode_extra p @ encode_additional p
      in if 256 < length payload then blake2b payload else payload)"

definition build_signed ::
  "(bytes \<Rightarrow> bytes) \<Rightarrow> (bytes \<Rightarrow> bytes \<Rightarrow> bytes) \<Rightarrow> bool \<Rightarrow> extrinsic_params \<Rightarrow> pallet_call \<Rightarrow> bytes \<Rightarrow> bytes \<Rightarrow>
   bytes result" where
  "build_signed blake2b sign sodium_ok p c secret_key_64 public_key_32 =
     (if length secret_key_64 \<noteq> 64 then Inl (Runtime_error ''Secret key must be 64 bytes'')
      else if length public_key_32 \<noteq> 32 then Inl (Runtime_error ''Public key must be 32 bytes'')
      else if \<not> sodium_ok then Inl (Runtime_error ''libsodium init failed'')
      else
        (let payload = build_signing_payload blake2b p c;
             sig = sign secret_key_64 payload;
             body = encode_u8 0x84 new_encoder
         in rbind (encode_multi_address_id public_key_32 body) (\<lambda>body.
              let body = encode_u8 0x00 body;
                  body = encode_raw sig body;
                  body = encode_raw (encode_extra p) body;
                  body = encode_raw (encode_call c) body
              in Inr (finalize_with_length body))))"

definition build_unsigned :: "pallet_call \<Rightarrow> bytes" where
  "build_unsigned c =
     (let body = encode_u8 0x04 new_encoder;
          body = encode_raw (encode_call c) body
      in finalize_with_length body)"

definition extrinsic_to_hex :: "bytes \<Rightarrow> string" where
  "extrinsic_to_hex data = codec_bytes_to_hex data"

section \<open>The reader\<close>

text \<open>
  How a node takes a signed extrinsic apart: the length-prefixed body, and in it version, address kind
  and account, signature kind and signature, era (one zero byte, or two bytes), nonce, tip, call.
\<close>

record signed_extrinsic =
  rx_version :: u8
  rx_address_kind :: u8
  rx_signer :: bytes
  rx_signature_kind :: u8
  rx_signature :: bytes
  rx_era :: "u16 option"
  rx_nonce :: u64
  rx_tip :: u64
  rx_call :: bytes

definition read_era :: "scale_decoder \<Rightarrow> (u16 option) decode" where
  "read_era d =
     rbind (decode_u8 d) (\<lambda>(e0, d1). if e0 = 0 then Inr (None, d1)
       else rbind (decode_u8 d1) (\<lambda>(e1, d2). Inr (Some (ucast e0 OR push_bit 8 (ucast e1)), d2)))"

definition read_body :: "scale_decoder \<Rightarrow> signed_extrinsic result" where
  "read_body d =
     rbind (decode_u8 d) (\<lambda>(version, d). rbind (decode_u8 d) (\<lambda>(kind, d).
     rbind (decode_raw 32 d) (\<lambda>(signer, d). rbind (decode_u8 d) (\<lambda>(sigkind, d).
     rbind (decode_raw 64 d) (\<lambda>(sig, d). rbind (read_era d) (\<lambda>(era, d).
     rbind (decode_compact d) (\<lambda>(n, d). rbind (decode_compact d) (\<lambda>(t, d).
     Inr \<lparr>rx_version = version, rx_address_kind = kind, rx_signer = signer, rx_signature_kind = sigkind,
       rx_signature = sig, rx_era = era, rx_nonce = n, rx_tip = t, rx_call = drop (dec_offset d) (dec_data d)\<rparr>))))))))"

definition era_bytes :: "extrinsic_params \<Rightarrow> bytes" where
  "era_bytes p = (if xp_mortal_era p then u16_le_bytes (era_mortal_word (xp_era_block p) (xp_era_period p)) else [0x00])"

definition era_of :: "extrinsic_params \<Rightarrow> u16 option" where
  "era_of p = (if xp_mortal_era p then Some (era_mortal_word (xp_era_block p) (xp_era_period p)) else None)"

lemma encode_extra_eq: "encode_extra p = era_bytes p @ compact_bytes (xp_nonce p) @ compact_bytes (xp_tip p)"
  by (simp add: encode_extra_def era_bytes_def encode_era_mortal_def encode_era_immortal_def encode_u16_le_def
    encode_compact_def push_bytes_def new_encoder_def Let_def)

lemma unat_and_15: "unat (w AND 15 :: u16) = take_bit 4 (unat w)"
proof -
  have "w AND 15 = take_bit 4 w" by (simp add: take_bit_eq_mask mask_eq_exp_minus_1)
  then show ?thesis by (simp only: unsigned_take_bit_eq)
qed

lemma era_word_low: "(ucast (era_mortal_word b q AND 0xFF) :: u8) \<noteq> 0"
proof
  let ?w = "era_mortal_word b q"
  assume "(ucast (?w AND 0xFF) :: u8) = 0"
  then have "unat (ucast (take_bit 8 ?w) :: u8) = 0" by (simp only: and_ff unsigned_0)
  then have "take_bit 8 (unat ?w) = 0" by (simp only: unsigned_ucast_eq unsigned_take_bit_eq) (simp add: min_def)
  then have "take_bit 4 (take_bit 8 (unat ?w)) = 0" by simp
  then have "take_bit 4 (unat ?w) = 0" by simp
  then have "unat (?w AND 15) = 0" by (simp add: unat_and_15)
  moreover obtain k where "2 \<le> k" "k \<le> 16" "era_period q = 2 ^ k" using era_period_power by blast
  then have "era_read_period ?w = 2 ^ k" "2 \<le> k" by (auto intro: era_word_fields(1))
  ultimately show False using power_increasing [of 2 k "2 :: nat"] by (simp add: era_read_period_def)
qed


section \<open>What is sent is what was built\<close>

lemma read_era_at:
  assumes "length pre + length (era_bytes p @ post) < 2 ^ 64"
  shows "read_era (decoder_at pre (era_bytes p @ post)) = Inr (era_of p, decoder_at (pre @ era_bytes p) post)"
proof (cases "xp_mortal_era p")
  case False
  with assms show ?thesis by (simp add: read_era_def era_bytes_def era_of_def decode_u8_at)
next
  case True
  let ?w = "era_mortal_word (xp_era_block p) (xp_era_period p)"
  obtain b0 b1 where w: "u16_le_bytes ?w = [b0, b1]" "b0 = ucast (?w AND 0xFF)" "b1 = ucast (drop_bit 8 ?w AND 0xFF)"
    by (simp add: u16_le_bytes_def)
  have "b0 \<noteq> 0" using era_word_low w(2) by simp
  moreover have "ucast b0 OR push_bit 8 (ucast b1) = ?w" unfolding w(2,3) by (rule le16)
  ultimately show ?thesis using assms True w(1)
    by (simp add: read_era_def era_bytes_def era_of_def decode_u8_at)
qed

lemma rest_at: "drop (dec_offset (decoder_at pre post)) (dec_data (decoder_at pre post)) = post"
  by (simp add: decoder_at_def)

definition body_bytes :: "extrinsic_params \<Rightarrow> pallet_call \<Rightarrow> bytes \<Rightarrow> bytes \<Rightarrow> bytes" where
  "body_bytes p c pk sig =
     [0x84] @ [0x00] @ pk @ [0x00] @ sig @ era_bytes p @ compact_bytes (xp_nonce p) @ compact_bytes (xp_tip p) @ encode_call c"

lemma build_signed_eq:
  assumes "length sk = 64" and "length pk = 32"
  shows "build_signed blake2b sign True p c sk pk =
    Inr (bytes_enc (body_bytes p c pk (sign sk (build_signing_payload blake2b p c))))"
  using assms
  by (simp add: build_signed_def encode_multi_address_id_def finalize_with_length_def encode_u8_def encode_raw_def
    push_bytes_def new_encoder_def encode_compact_def bytes_enc_def body_bytes_def encode_extra_eq Let_def ac_simps)

lemma read_body_at:
  assumes "length (body_bytes p c pk sig) < 2 ^ 64" and "length pk = 32" and "length sig = 64"
  shows "read_body (new_decoder (body_bytes p c pk sig)) =
    Inr \<lparr>rx_version = 0x84, rx_address_kind = 0, rx_signer = pk, rx_signature_kind = 0, rx_signature = sig,
      rx_era = era_of p, rx_nonce = xp_nonce p, rx_tip = xp_tip p, rx_call = encode_call c\<rparr>"
proof -
  note [simp] = compact_codec.dec_enc
  show ?thesis
    using assms
    by (simp add: read_body_def new_decoder_at body_bytes_def decode_u8_at decode_raw_at read_era_at rest_at)
qed

text \<open>The bytes that are signed.\<close>

definition signed_message :: "(bytes \<Rightarrow> bytes) \<Rightarrow> extrinsic_params \<Rightarrow> pallet_call \<Rightarrow> bytes" where
  "signed_message blake2b p c =
     (let m = [pallet_index c, call_index c] @ call_data c @ era_bytes p @ compact_bytes (xp_nonce p) @
        compact_bytes (xp_tip p) @ u32_le_bytes (xp_spec_version p) @ u32_le_bytes (xp_tx_version p) @
        xp_genesis_hash p @ (if xp_mortal_era p then xp_block_hash p else xp_genesis_hash p)
      in if 256 < length m then blake2b m else m)"

lemma build_signing_payload_eq: "build_signing_payload blake2b p c = signed_message blake2b p c"
  by (simp add: build_signing_payload_def signed_message_def encode_call_def encode_extra_eq encode_additional_def
    encode_u32_le_def encode_raw_def push_bytes_def new_encoder_def Let_def)

text \<open>
  C32: a signed extrinsic carries exactly what it was built from. Its length prefix covers the rest;
  the body reads back as version 0x84, the account, an Ed25519 signature of call, era, nonce, tip,
  versions and checkpoint (hashed beyond 256 bytes; the genesis hash for an immortal era), and the same
  era, nonce, tip and call that were signed.
\<close>

theorem signed_extrinsic_roundtrip:
  assumes "build_signed blake2b sign sodium_ok p c sk pk = Inr xt"
    and "\<And>m. length (sign sk m) = 64" and "length xt < 2 ^ 64"
  shows "\<exists>body d. decode_bytes (new_decoder xt) = Inr (body, d) \<and> decoder_is_empty d \<and>
    read_body (new_decoder body) =
      Inr \<lparr>rx_version = 0x84, rx_address_kind = 0, rx_signer = pk, rx_signature_kind = 0,
        rx_signature = sign sk (signed_message blake2b p c),
        rx_era = (if xp_mortal_era p then Some (era_mortal_word (xp_era_block p) (xp_era_period p)) else None),
        rx_nonce = xp_nonce p, rx_tip = xp_tip p, rx_call = [pallet_index c, call_index c] @ call_data c\<rparr>"
proof -
  have l: "length sk = 64" "length pk = 32" and ok: "sodium_ok"
    using assms(1) by (auto simp: build_signed_def split: if_splits)
  let ?body = "body_bytes p c pk (sign sk (signed_message blake2b p c))"
  have xt: "xt = bytes_enc ?body"
    using assms(1) build_signed_eq [OF l, of blake2b sign p c] ok by (simp add: build_signing_payload_eq)
  then have lb: "length ?body < 2 ^ 64" using assms(3) by (simp add: bytes_enc_def)
  have "decode_bytes (new_decoder xt) = Inr (?body, decoder_at (bytes_enc ?body) [])"
    using bytes_codec.dec_enc [of ?body "[]" "[]"] lb assms(3) by (simp add: new_decoder_at xt)
  moreover have "decoder_is_empty (decoder_at (bytes_enc ?body) [])"
    by (simp add: decoder_is_empty_def decoder_at_def)
  moreover note read_body_at [OF lb l(2) assms(2)]
  ultimately show ?thesis by (simp add: era_of_def encode_call_def)
qed

definition sample_params :: extrinsic_params where
  "sample_params = \<lparr>xp_spec_version = 22000, xp_tx_version = 2, xp_genesis_hash = replicate 32 1,
     xp_block_hash = replicate 32 2, xp_nonce = 3, xp_tip = 0, xp_mortal_era = False, xp_era_block = 0,
     xp_era_period = 64\<rparr>"

theorem signed_extrinsic_roundtrip_witness:
  "\<exists>xt body d. build_signed id (\<lambda>sk m. replicate 64 5) True sample_params
      (system_remark [0x48, 0x69]) (replicate 64 7) (replicate 32 9) = Inr xt \<and>
    decode_bytes (new_decoder xt) = Inr (body, d) \<and> decoder_is_empty d \<and>
    rx_nonce (projr (read_body (new_decoder body))) = 3"
proof -
  let ?body = "body_bytes sample_params (system_remark [0x48, 0x69]) (replicate 32 9) (replicate 64 5)"
  have b: "build_signed id (\<lambda>sk m. replicate 64 5) True sample_params
      (system_remark [0x48, 0x69]) (replicate 64 7) (replicate 32 9) = Inr (bytes_enc ?body)"
    by (rule build_signed_eq) simp_all
  have "length ?body = 107" by code_simp
  then have l: "length (bytes_enc ?body) < 2 ^ 64"
    using compact_bytes_length [of "word_of_nat (length ?body)"] by (simp add: bytes_enc_def)
  from signed_extrinsic_roundtrip [OF b _ l] b show ?thesis by (auto simp: sample_params_def)
qed

end
