(* ===== verification/Chain.thy ===== *)
theory Chain
  imports Hex
begin

text \<open>
  Blocks and the local chain (src/blockchain/block.cpp, src/blockchain/chain_manager.cpp and their
  headers). SHA-256 of OpenSSL is the parameter \<open>sha256\<close>, \<open>now\<close> the system clock in seconds. The
  manager's \<^verbatim>\<open>std::shared_mutex\<close> is kept as the flag \<open>locked\<close>: whether the calling thread owns it;
  acquiring it again in any mode is undefined. Other threads only wait for it and are not modelled.
\<close>

section \<open>Blocks\<close>

record header =
  hdr_version :: u64
  hdr_height :: u64
  prev_hash :: string
  merkle_root :: string
  hdr_timestamp :: u64
  hdr_nonce :: u64
  difficulty :: u32

record block =
  header_of :: header
  transactions :: "string list"

definition new_block :: "u64 \<Rightarrow> u64 \<Rightarrow> string \<Rightarrow> block" where
  "new_block now height prev =
     \<lparr>header_of = \<lparr>hdr_version = 1, hdr_height = height, prev_hash = prev, merkle_root = [],
        hdr_timestamp = now, hdr_nonce = 0, difficulty = 0\<rparr>, transactions = []\<rparr>"

definition add_transaction :: "string \<Rightarrow> block \<Rightarrow> block" where
  "add_transaction tx_hash b = b\<lparr>transactions := transactions b @ [tx_hash]\<rparr>"

text \<open>\<^verbatim>\<open>ss << std::setw(2) << ((v >> (i * 8)) & 0xFF)\<close> for the low \<open>n\<close> bytes.\<close>

definition stream_le :: "nat \<Rightarrow> u64 \<Rightarrow> string" where
  "stream_le n v = concat (map (\<lambda>i. oss_hex2 (ucast (drop_bit (i * 8) v AND 0xFF))) [0..<n])"

definition skipped :: "char \<Rightarrow> bool" where
  "skipped c \<longleftrightarrow> c = CHR '' '' \<or> c = CHR 0x0A \<or> c = CHR 0x0D \<or> c = CHR 0x09"

fun stream_chars :: "string \<Rightarrow> string" where
  "stream_chars [] = []"
| "stream_chars (c # s) = (if skipped c then stream_chars s else oss_hex2 (byte_of_char c) @ stream_chars s)"

definition hash_preimage :: "block \<Rightarrow> string" where
  "hash_preimage b =
     (let h = header_of b
      in stream_le 8 (hdr_version h) @ stream_le 8 (hdr_height h) @ stream_chars (prev_hash h) @
         stream_chars (merkle_root h) @ stream_le 8 (hdr_timestamp h) @ stream_le 8 (hdr_nonce h) @
         stream_le 4 (ucast (difficulty h)) @ concat (map stream_chars (transactions b)))"

definition calculate_hash :: "(bytes \<Rightarrow> bytes) \<Rightarrow> block \<Rightarrow> string" where
  "calculate_hash sha256 b = concat (map oss_hex2 (sha256 (map byte_of_char (hash_preimage b))))"

section \<open>The chain manager\<close>

record chain =
  blockchain :: "block list"
  chain_height :: u64
  hash_to_index :: "string \<rightharpoonup> nat"
  locked :: bool

definition new_chain :: chain where
  "new_chain = \<lparr>blockchain = [], chain_height = 0, hash_to_index = Map.empty, locked = False\<rparr>"

definition lock_mutex :: "chain \<Rightarrow> chain result" where
  "lock_mutex s = (if locked s then Inl Undefined_behaviour else Inr (s\<lparr>locked := True\<rparr>))"

definition unlock_mutex :: "chain \<Rightarrow> chain" where
  "unlock_mutex s = s\<lparr>locked := False\<rparr>"

definition initialize :: "(bytes \<Rightarrow> bytes) \<Rightarrow> u64 \<Rightarrow> chain \<Rightarrow> chain result" where
  "initialize sha256 now s =
     rbind (lock_mutex s) (\<lambda>s.
       if blockchain s \<noteq> [] then Inr (unlock_mutex s)
       else
         (let genesis = new_block now 0 ''0''
          in Inr (unlock_mutex (s\<lparr>blockchain := blockchain s @ [genesis], chain_height := 1,
               hash_to_index := (hash_to_index s)(calculate_hash sha256 genesis \<mapsto> 0)\<rparr>))))"

definition validate_block :: "(bytes \<Rightarrow> bytes) \<Rightarrow> u64 \<Rightarrow> block \<Rightarrow> chain \<Rightarrow> bool result" where
  "validate_block sha256 now b s =
     rbind (lock_mutex s) (\<lambda>s.
       if blockchain s = [] then Inr (hdr_height (header_of b) = 0)
       else
         (let prev = last (blockchain s); hdr = header_of b
          in if hdr_height hdr \<noteq> hdr_height (header_of prev) + 1 then Inr False
             else if prev_hash hdr \<noteq> calculate_hash sha256 prev then Inr False
             else if now + 60 < hdr_timestamp hdr then Inr False
             else if hdr_timestamp hdr \<le> hdr_timestamp (header_of prev) then Inr False
             else Inr True))"

text \<open>\<open>None\<close> is a null pointer.\<close>

definition add_block :: "(bytes \<Rightarrow> bytes) \<Rightarrow> u64 \<Rightarrow> block option \<Rightarrow> chain \<Rightarrow> (bool \<times> chain) result" where
  "add_block sha256 now blk s =
     (case blk of
        None \<Rightarrow> Inr (False, s)
      | Some b \<Rightarrow>
          rbind (lock_mutex s) (\<lambda>s.
          rbind (validate_block sha256 now b s) (\<lambda>ok.
            if \<not> ok then Inr (False, unlock_mutex s)
            else
              (let s = s\<lparr>blockchain := blockchain s @ [b]\<rparr>;
                   s = s\<lparr>chain_height := word_of_nat (length (blockchain s))\<rparr>;
                   s = s\<lparr>hash_to_index := (hash_to_index s)(calculate_hash sha256 b \<mapsto> length (blockchain s) - 1)\<rparr>
               in Inr (True, unlock_mutex s)))))"

definition get_block :: "u64 \<Rightarrow> chain \<Rightarrow> block option result" where
  "get_block height s =
     rbind (lock_mutex s) (\<lambda>s.
       if length (blockchain s) \<le> unat height then Inr None else Inr (Some (blockchain s ! unat height)))"

definition get_block_by_hash :: "string \<Rightarrow> chain \<Rightarrow> block option result" where
  "get_block_by_hash hash s =
     rbind (lock_mutex s) (\<lambda>s.
       case hash_to_index s hash of None \<Rightarrow> Inr None | Some i \<Rightarrow> rbind (read_at (blockchain s) i) (\<lambda>b. Inr (Some b)))"

definition get_latest_block :: "chain \<Rightarrow> block option result" where
  "get_latest_block s =
     rbind (lock_mutex s) (\<lambda>s. if blockchain s = [] then Inr None else Inr (Some (last (blockchain s))))"

section \<open>The chain never grows\<close>

text \<open>One completed call on the manager.\<close>

inductive chain_step :: "(bytes \<Rightarrow> bytes) \<Rightarrow> chain \<Rightarrow> chain \<Rightarrow> bool" for sha256 where
  step_initialize: "initialize sha256 now s = Inr s' \<Longrightarrow> chain_step sha256 s s'"
| step_add_block: "add_block sha256 now blk s = Inr (ok, s') \<Longrightarrow> chain_step sha256 s s'"

definition chain_inv :: "(bytes \<Rightarrow> bytes) \<Rightarrow> chain \<Rightarrow> bool" where
  "chain_inv sha256 s \<longleftrightarrow> \<not> locked s \<and>
     (blockchain s = [] \<and> chain_height s = 0 \<and> hash_to_index s = Map.empty \<or>
      (\<exists>now. blockchain s = [new_block now 0 ''0''] \<and> chain_height s = 1 \<and>
        hash_to_index s = [calculate_hash sha256 (new_block now 0 ''0'') \<mapsto> 0]))"

lemma add_block_undefined: "add_block sha256 now (Some b) s = Inl Undefined_behaviour"
  by (simp add: add_block_def validate_block_def lock_mutex_def)

lemma chain_step_inv: "chain_step sha256 s s' \<Longrightarrow> chain_inv sha256 s \<Longrightarrow> chain_inv sha256 s'"
proof (induction rule: chain_step.induct)
  case (step_initialize now s s')
  show ?case
  proof (cases "blockchain s = []")
    case True
    let ?b = "new_block now 0 ''0''"
    from True step_initialize have
      "s' = s\<lparr>blockchain := [?b], chain_height := 1, hash_to_index := [calculate_hash sha256 ?b \<mapsto> 0], locked := False\<rparr>"
      by (auto simp: chain_inv_def initialize_def lock_mutex_def unlock_mutex_def Let_def)
    then have "\<not> locked s' \<and> blockchain s' = [?b] \<and> chain_height s' = 1 \<and> hash_to_index s' = [calculate_hash sha256 ?b \<mapsto> 0]"
      by (simp del: fun_upd_apply)
    then show ?thesis unfolding chain_inv_def by blast
  next
    case False
    with step_initialize have "s' = s"
      by (auto simp: chain_inv_def initialize_def lock_mutex_def unlock_mutex_def)
    with step_initialize show ?thesis by simp
  qed
next
  case (step_add_block now blk s ok s')
  then show ?case
    by (cases blk) (simp_all add: add_block_undefined, simp add: add_block_def)
qed

text \<open>
  \<^verbatim>\<open>ChainManager::add_block\<close> never adds a block. It calls \<^verbatim>\<open>validate_block\<close>, which takes the mutex,
  while it owns that mutex; so for every block that is not null the behaviour is undefined, and
  whatever completed calls are made the chain is empty or the genesis block alone, which every lookup
  still finds.
\<close>

theorem chain_only_genesis:
  assumes "(chain_step sha256)\<^sup>*\<^sup>* new_chain s"
  shows "add_block sha256 now (Some b) s = Inl Undefined_behaviour \<and>
    (blockchain s = [] \<and> chain_height s = 0 \<and> get_latest_block s = Inr None \<or>
     (\<exists>t. blockchain s = [new_block t 0 ''0''] \<and> chain_height s = 1 \<and>
       get_latest_block s = Inr (Some (new_block t 0 ''0'')) \<and>
       get_block 0 s = Inr (Some (new_block t 0 ''0'')) \<and>
       get_block_by_hash (calculate_hash sha256 (new_block t 0 ''0'')) s = Inr (Some (new_block t 0 ''0''))))"
proof -
  have "chain_inv sha256 s" using assms
  proof (induction rule: rtranclp_induct)
    case base
    then show ?case by (simp add: chain_inv_def new_chain_def)
  next
    case (step s s')
    then show ?case by (blast intro: chain_step_inv)
  qed
  then show ?thesis
    by (auto simp: chain_inv_def add_block_undefined get_latest_block_def get_block_def get_block_by_hash_def lock_mutex_def)
qed

theorem chain_only_genesis_witness:
  "add_block id 9 (Some (new_block 9 1 ''00'')) new_chain = Inl Undefined_behaviour"
  using chain_only_genesis [of id new_chain 9 "new_block 9 1 ''00''"] by simp

section \<open>What a block hash binds\<close>

lemma stream_chars_append: "stream_chars (s @ t) = stream_chars s @ stream_chars t"
  by (induction s) auto

text \<open>
  the block hash does not bind the list of transactions: whatever SHA-256 is, blocks that differ
  only in where one transaction hash ends and the next begins, or in blanks and line ends, hash alike.
\<close>

theorem block_hash_ambiguous:
  assumes "filter (Not \<circ> skipped) (concat txs) = filter (Not \<circ> skipped) (concat txs')"
  shows "calculate_hash sha256 (b\<lparr>transactions := txs\<rparr>) = calculate_hash sha256 (b\<lparr>transactions := txs'\<rparr>)"
proof -
  have f: "stream_chars s = stream_chars (filter (Not \<circ> skipped) s)" for s by (induction s) auto
  have c: "concat (map stream_chars ts) = stream_chars (concat ts)" for ts
    by (induction ts) (auto simp: stream_chars_append)
  have "stream_chars (concat txs) = stream_chars (concat txs')"
    using f [of "concat txs"] f [of "concat txs'"] assms by simp
  then show ?thesis by (simp add: calculate_hash_def hash_preimage_def c)
qed

theorem block_hash_ambiguous_witness:
  "calculate_hash id ((new_block 5 1 ''00'')\<lparr>transactions := [''ab'', ''cd'']\<rparr>) =
   calculate_hash id ((new_block 5 1 ''00'')\<lparr>transactions := [''a'', ''bc d'']\<rparr>)"
  by (rule block_hash_ambiguous) (simp add: skipped_def)

end
