(* ===== verification/Mnemonic.thy ===== *)
theory Mnemonic
  imports Validation
begin

text \<open>
  BIP39 mnemonics (namespace \<^verbatim>\<open>bip39\<close> of src/wallet/hd_wallet.cpp). The word list
  \<^verbatim>\<open>BIP39_WORDLIST\<close> (include/midnight/wallet/bip39_wordlist.hpp, 2048 words of lower-case letters in
  increasing order), SHA-256 and the random bytes are parameters. The results: binary search finds
  exactly the words of the list; a mnemonic is accepted whatever its checksum; and none is generated
  with a checksum.
\<close>

section \<open>Operations\<close>

text \<open>\<^verbatim>\<open>word_index\<close>, the binary search over \<^verbatim>\<open>int\<close> bounds.\<close>

function search_words :: "string list \<Rightarrow> string \<Rightarrow> int \<Rightarrow> int \<Rightarrow> int result" where
  "search_words wl w lo hi =
     (if hi < lo then Inr (-1)
      else
        (let mid = drop_bit 1 (lo + hi)
         in if mid < 0 \<or> length wl \<le> nat mid then Inl Undefined_behaviour
            else if wl ! nat mid = w then Inr mid
            else if wl ! nat mid < w then search_words wl w (mid + 1) hi
            else search_words wl w lo (mid - 1)))"
  by pat_completeness auto
termination
  by (relation "measure (\<lambda>(_, _, lo, hi). nat (hi - lo + 1))") (auto simp: drop_bit_eq_div)

declare search_words.simps [simp del]

definition word_index :: "string list \<Rightarrow> string \<Rightarrow> int result" where
  "word_index wl w = search_words wl w 0 2047"

definition word_count_ok :: "nat \<Rightarrow> bool" where
  "word_count_ok wc \<longleftrightarrow> wc = 12 \<or> wc = 15 \<or> wc = 18 \<or> wc = 21 \<or> wc = 24"

definition byte_bits :: "u8 \<Rightarrow> bool list" where
  "byte_bits b = map (\<lambda>i. bit b (7 - i)) [0..<8]"

text \<open>The inner loop: \<^verbatim>\<open>idx = (idx << 1) | bit\<close>, eleven times, in 16 bits.\<close>

definition bits_index :: "bool list \<Rightarrow> u16" where
  "bits_index bs = foldl (\<lambda>idx b. push_bit 1 idx OR (if b then 1 else 0)) 0 bs"

fun join_words :: "string list \<Rightarrow> string" where
  "join_words [] = []"
| "join_words [w] = w"
| "join_words (w # ws) = w @ '' '' @ join_words ws"

text \<open>\<open>ent\<close> is what \<^verbatim>\<open>RAND_bytes\<close> put into the \<^verbatim>\<open>wc * 4\<close> bytes of the buffer.\<close>

definition generate_mnemonic :: "(bytes \<Rightarrow> bytes) \<Rightarrow> string list \<Rightarrow> nat \<Rightarrow> bytes \<Rightarrow> string result" where
  "generate_mnemonic sha256 wl wc ent =
     (if \<not> word_count_ok wc then Inl (Runtime_error ''word count must be 12/15/18/21/24'')
      else
        (let ebytes = wc * 4;
             h = sha256 ent;
             bits = concat (map byte_bits ent) @ map (\<lambda>i. bit (h ! (i div 8)) (7 - i mod 8)) [0..<ebytes div 4]
         in Inr (join_words (map (\<lambda>i. wl ! unat (bits_index (map (\<lambda>b. bits ! (i * 11 + b)) [0..<11]))) [0..<wc]))))"

text \<open>The first loop of \<^verbatim>\<open>validate_mnemonic\<close>: \<open>None\<close> when a word is not in the list.\<close>

fun word_indices :: "string list \<Rightarrow> string list \<Rightarrow> int list option result" where
  "word_indices wl [] = Inr (Some [])"
| "word_indices wl (w # ws) =
     rbind (word_index wl w) (\<lambda>idx. if idx < 0 then Inr None
       else rbind (word_indices wl ws) (\<lambda>r. Inr (map_option ((#) idx) r)))"

definition set_entropy_bit :: "nat \<Rightarrow> int \<Rightarrow> bytes \<times> nat \<Rightarrow> nat \<Rightarrow> bytes \<times> nat" where
  "set_entropy_bit entropy_bits idx s b =
     (let (entropy, bit_pos) = s
      in (if bit_pos < entropy_bits
          then entropy[bit_pos div 8 := entropy ! (bit_pos div 8) OR
            push_bit (7 - bit_pos mod 8) (word_of_int (drop_bit b idx AND 1))]
          else entropy, Suc bit_pos))"

definition entropy_of :: "nat \<Rightarrow> int list \<Rightarrow> bytes" where
  "entropy_of entropy_bits indices =
     fst (foldl (\<lambda>s idx. foldl (set_entropy_bit entropy_bits idx) s (rev [0..<11]))
       (replicate (entropy_bits div 8) 0, 0) indices)"

text \<open>The comparison loop, over the words with \<^verbatim>\<open>bit_pos\<close> counting from 0.\<close>

fun checksum_loop :: "bytes \<Rightarrow> nat \<Rightarrow> nat \<Rightarrow> int list \<Rightarrow> bool" where
  "checksum_loop hash entropy_bits bit_pos [] = True"
| "checksum_loop hash entropy_bits bit_pos (idx # indices) =
     (if entropy_bits \<le> bit_pos then
        (let checksum_bit_pos = bit_pos - entropy_bits;
             expected_bit = bit (hash ! (checksum_bit_pos div 8)) (7 - checksum_bit_pos mod 8);
             actual_bit = bit idx (10 - checksum_bit_pos mod 11)
         in if expected_bit \<noteq> actual_bit then False
            else checksum_loop hash entropy_bits (Suc bit_pos) indices)
      else checksum_loop hash entropy_bits (Suc bit_pos) indices)"

definition validate_mnemonic :: "(bytes \<Rightarrow> bytes) \<Rightarrow> string list \<Rightarrow> string \<Rightarrow> bool result" where
  "validate_mnemonic sha256 wl m =
     rbind (word_indices wl (stream_words [] m)) (\<lambda>r. case r of
       None \<Rightarrow> Inr False
     | Some indices \<Rightarrow>
         if \<not> word_count_ok (length indices) then Inr False
         else
           (let total_bits = length indices * 11;
                checksum_bits = total_bits div 33;
                entropy_bits = total_bits - checksum_bits;
                hash = sha256 (entropy_of entropy_bits indices)
            in Inr (checksum_loop hash entropy_bits 0 indices)))"

text \<open>\<^verbatim>\<open>PKCS5_PBKDF2_HMAC\<close> with SHA-512, 2048 rounds and 64 bytes of output is the parameter \<open>pbkdf2\<close>.\<close>

definition mnemonic_to_seed :: "(bytes \<Rightarrow> bytes \<Rightarrow> bytes) \<Rightarrow> string \<Rightarrow> string \<Rightarrow> bytes" where
  "mnemonic_to_seed pbkdf2 m p = pbkdf2 (map byte_of_char m) (map byte_of_char (''mnemonic'' @ p))"

section \<open>Binary search\<close>

definition word_list :: "string list \<Rightarrow> bool" where
  "word_list wl \<longleftrightarrow> length wl = 2048 \<and> sorted_wrt (<) wl \<and> (\<forall>w \<in> set wl. w \<noteq> [] \<and> list_all islower w)"

lemma search_words_exact:
  assumes "sorted_wrt (<) wl" and "length wl = 2048"
  shows "0 \<le> lo \<Longrightarrow> hi < 2048 \<Longrightarrow>
    (\<forall>i < 2048. (int i < lo \<longrightarrow> wl ! i < w) \<and> (hi < int i \<longrightarrow> w < wl ! i)) \<Longrightarrow>
    \<exists>r. search_words wl w lo hi = Inr r \<and> r < 2048 \<and> (0 \<le> r \<longrightarrow> wl ! nat r = w) \<and> (r < 0 \<longrightarrow> w \<notin> set wl)"
proof (induction "nat (hi - lo + 1)" arbitrary: lo hi rule: less_induct)
  case less
  show ?case
  proof (cases "hi < lo")
    case True
    have "w \<noteq> wl ! i" if "i < 2048" for i
      using less.prems(3) that True by (metis not_less_iff_gr_or_eq less_le_not_le linorder_not_less order.strict_trans2)
    then have "w \<notin> set wl" using assms(2) by (metis in_set_conv_nth)
    with True show ?thesis by (simp add: search_words.simps)
  next
    case False
    define mid where "mid = (lo + hi) div 2"
    have mid: "lo \<le> mid" "mid \<le> hi" "0 \<le> mid" "mid < 2048" using False less.prems by (auto simp: mid_def)
    have at: "nat mid < length wl" using mid assms(2) by simp
    have lt: "wl ! i < wl ! j" if "i < j" "j < 2048" for i j
      using assms that by (simp add: sorted_wrt_iff_nth_less)
    consider "wl ! nat mid = w" | "wl ! nat mid < w" | "w < wl ! nat mid" by fastforce
    then show ?thesis
    proof cases
      case 1
      then show ?thesis using False mid at by (simp add: search_words.simps [of wl w lo hi] drop_bit_eq_div mid_def)
    next
      case 2
      then have "wl ! nat mid \<noteq> w" by auto
      then have "search_words wl w lo hi = search_words wl w (mid + 1) hi"
        using 2 False mid at by (simp add: search_words.simps [of wl w lo hi] drop_bit_eq_div flip: mid_def)
      moreover have "wl ! i < w" if "i < 2048" "int i < mid + 1" for i
      proof (cases "i = nat mid")
        case False
        then have "i < nat mid" using that mid by linarith
        moreover have "nat mid < 2048" using mid by simp
        ultimately show ?thesis using lt [of i "nat mid"] 2 by (auto intro: less_trans)
      qed (use 2 in simp)
      ultimately show ?thesis
        using less.hyps [of hi "mid + 1"] less.prems mid False by auto
    next
      case 3
      then have ne: "wl ! nat mid \<noteq> w" "\<not> wl ! nat mid < w" by auto
      have "search_words wl w lo hi = search_words wl w lo (mid - 1)"
        using ne False mid at by (simp add: search_words.simps [of wl w lo hi] drop_bit_eq_div flip: mid_def)
      moreover have "w < wl ! i" if "i < 2048" "mid - 1 < int i" for i
      proof (cases "i = nat mid")
        case False
        then have "nat mid < i" using that mid by linarith
        then show ?thesis using lt [of "nat mid" i] 3 that by (auto intro: less_trans)
      qed (use 3 in simp)
      ultimately show ?thesis
        using less.hyps [of "mid - 1" lo] less.prems mid False by auto
    qed
  qed
qed

lemma word_index_exact:
  assumes "word_list wl"
  shows "\<exists>r. word_index wl w = Inr r \<and> (0 \<le> r \<longleftrightarrow> w \<in> set wl) \<and> (0 \<le> r \<longrightarrow> wl ! nat r = w)"
proof -
  have wl: "sorted_wrt (<) wl" "length wl = 2048" using assms by (simp_all add: word_list_def)
  from search_words_exact [OF wl, of 0 2047 w] obtain r where
    "search_words wl w 0 2047 = Inr r" "r < 2048" "0 \<le> r \<longrightarrow> wl ! nat r = w" "r < 0 \<longrightarrow> w \<notin> set wl" by auto
  then show ?thesis using wl(2) nth_mem [of "nat r" wl] by (auto simp: word_index_def)
qed


lemma word_indices_exact:
  assumes "word_list wl"
  shows "\<exists>r. word_indices wl ws = Inr r \<and> (r \<noteq> None \<longleftrightarrow> set ws \<subseteq> set wl) \<and>
    (\<forall>is. r = Some is \<longrightarrow> length is = length ws)"
proof (induction ws)
  case Nil
  then show ?case by simp
next
  case (Cons w ws)
  then obtain r where r: "word_indices wl ws = Inr r" "r \<noteq> None \<longleftrightarrow> set ws \<subseteq> set wl"
    "\<forall>is. r = Some is \<longrightarrow> length is = length ws" by (elim exE conjE)
  obtain i where i: "word_index wl w = Inr i" "0 \<le> i \<longleftrightarrow> w \<in> set wl" using word_index_exact [OF assms] by blast
  from r i show ?case by (cases r) auto
qed

section \<open>The checksum is never looked at\<close>

lemma checksum_loop_vacuous:
  "bit_pos + length indices \<le> entropy_bits \<Longrightarrow> checksum_loop hash entropy_bits bit_pos indices"
  by (induction indices arbitrary: bit_pos) auto

lemma mnemonic_accepted:
  assumes "word_list wl"
  shows "validate_mnemonic sha256 wl m =
    Inr (set (stream_words [] m) \<subseteq> set wl \<and> word_count_ok (length (stream_words [] m)))"
proof -
  obtain r where r: "word_indices wl (stream_words [] m) = Inr r" "r \<noteq> None \<longleftrightarrow> set (stream_words [] m) \<subseteq> set wl"
    "\<forall>is. r = Some is \<longrightarrow> length is = length (stream_words [] m)" using word_indices_exact [OF assms] by blast
  show ?thesis
  proof (cases r)
    case None
    with r show ?thesis by (simp add: validate_mnemonic_def)
  next
    case (Some "is")
    have "checksum_loop hash (length is * 11 - length is * 11 div 33) 0 is" for hash
      by (rule checksum_loop_vacuous) linarith
    with r Some show ?thesis by (auto simp: validate_mnemonic_def Let_def)
  qed
qed

text \<open>
  C35: \<^verbatim>\<open>validate_mnemonic\<close> accepts exactly the texts of 12, 15, 18, 21 or 24 words of the list, whatever
  SHA-256 is: its checksum loop counts words where it should count bits and so compares nothing.
\<close>

theorem validate_mnemonic_ignores_checksum:
  assumes "word_list wl"
  shows "validate_mnemonic sha256 wl m =
    Inr (set (stream_words [] m) \<subseteq> set wl \<and> word_count_ok (length (stream_words [] m)))"
  using assms by (rule mnemonic_accepted)

text \<open>A word list to run the model on: a, aa, aaa, and so on.\<close>

definition sample_words :: "string list" where
  "sample_words = map (\<lambda>i. replicate (Suc i) (CHR ''a'')) [0..<2048]"

lemma replicate_less: "i < j \<Longrightarrow> replicate i c < replicate j (c :: char)"
proof (induction i arbitrary: j)
  case 0
  then show ?case by (cases j) auto
next
  case (Suc i)
  then show ?case by (cases j) auto
qed

lemma sample_words_mem: "i < 2048 \<Longrightarrow> replicate (Suc i) (CHR ''a'') \<in> set sample_words"
  unfolding sample_words_def set_map by (rule imageI) simp

lemma sample_words_ok: "word_list sample_words"
  by (auto simp: word_list_def sample_words_def sorted_wrt_iff_nth_less replicate_less islower_def char_in_def
    list_all_iff simp del: upt_Suc replicate_Suc)

theorem validate_mnemonic_ignores_checksum_witness:
  "validate_mnemonic id sample_words ''a a a a a a a a a a a aa'' = Inr True"
proof -
  have "stream_words [] ''a a a a a a a a a a a aa'' = replicate 11 ''a'' @ [''aa'']" by code_simp
  moreover have "''a'' \<in> set sample_words" "''aa'' \<in> set sample_words"
    using sample_words_mem [of 0] sample_words_mem [of 1] by (simp_all add: numeral_2_eq_2)
  ultimately show ?thesis
    using validate_mnemonic_ignores_checksum [OF sample_words_ok] by (simp add: word_count_ok_def)
qed

section \<open>Nor generated\<close>

lemma length_byte_bits [simp]: "length (byte_bits b) = 8"
  by (simp add: byte_bits_def)

lemma byte_bits_nth [simp]: "i < 8 \<Longrightarrow> byte_bits b ! i = bit b (7 - i)"
  by (simp add: byte_bits_def)

lemma concat_bits_nth:
  "k < 8 * length ent \<Longrightarrow> concat (map byte_bits ent) ! k = bit (ent ! (k div 8)) (7 - k mod 8)"
proof (induction ent arbitrary: k)
  case (Cons b ent)
  show ?case
  proof (cases "k < 8")
    case True
    then show ?thesis by (simp add: nth_append)
  next
    case False
    then obtain j where "k = j + 8" using le_add_diff_inverse2 by (metis not_less)
    moreover from this have "k div 8 = Suc (j div 8)" "k mod 8 = j mod 8" by simp_all
    ultimately show ?thesis using Cons by (simp add: nth_append)
  qed
qed simp

definition entropy_index :: "bytes \<Rightarrow> nat \<Rightarrow> u16" where
  "entropy_index ent i = bits_index (map (\<lambda>b. bit (ent ! ((i * 11 + b) div 8)) (7 - (i * 11 + b) mod 8)) [0..<11])"


lemma bits_index_bound: "length bs = 11 \<Longrightarrow> unat (bits_index bs) < 2048"
proof -
  assume "length bs = 11"
  let ?f = "\<lambda>idx b. push_bit 1 idx OR (if b then 1 else 0 :: u16)"
  have "take_bit n a = a \<Longrightarrow> take_bit (n + length bs) (foldl ?f a bs) = foldl ?f a bs" for n a
  proof (induction bs arbitrary: n a)
    case (Cons b bs)
    have t: "take_bit (Suc n) (push_bit 1 a) = push_bit 1 a"
      unfolding take_bit_push_bit using Cons.prems by simp
    have "take_bit (Suc n) (?f a b) = ?f a b"
      by (cases b) (simp_all only: take_bit_or t take_bit_of_1 if_True if_False take_bit_of_0, simp)
    from Cons.IH [OF this] show ?case by simp
  qed simp
  from this [of 0 0] have "take_bit 11 (bits_index bs) = bits_index bs"
    using \<open>length bs = 11\<close> by (simp add: bits_index_def)
  then have "unat (bits_index bs) = take_bit 11 (unat (bits_index bs))" by (metis unsigned_take_bit_eq)
  also have "\<dots> < 2 ^ 11" by (rule take_bit_nat_less_exp)
  finally show ?thesis by simp
qed

lemma stream_words_letters:
  "\<forall>c \<in> set w. \<not> isspace c \<Longrightarrow> stream_words acc (w @ rest) = stream_words (rev w @ acc) rest"
  by (induction w arbitrary: acc) auto

lemma islower_not_space: "islower c \<Longrightarrow> \<not> isspace c"
  by (auto simp: islower_def isspace_def char_in_def)

lemma stream_words_join:
  "\<forall>w \<in> set ws. w \<noteq> [] \<and> list_all islower w \<Longrightarrow> stream_words [] (join_words ws) = ws"
proof (induction ws rule: join_words.induct)
  case 1
  then show ?case by simp
next
  case (2 w)
  then show ?case using stream_words_letters [of w "[]" "[]"]
    by (auto simp: list_all_iff islower_not_space)
next
  case (3 w v ws)
  then have "stream_words [] (w @ '' '' @ join_words (v # ws)) = w # stream_words [] (join_words (v # ws))"
    using stream_words_letters [of w "[]" "'' '' @ join_words (v # ws)"]
    by (auto simp: list_all_iff islower_not_space) (simp add: isspace_def)
  with 3 show ?case by simp
qed

text \<open>
  \<^verbatim>\<open>generate_mnemonic\<close> encodes no checksum. It draws four bytes per word, more than the words
  hold, so every word is 11 bits of entropy and SHA-256 has no influence on the text; the text is
  accepted by \<^verbatim>\<open>validate_mnemonic\<close> all the same.
\<close>

theorem generate_mnemonic_no_checksum:
  assumes "word_list wl" and "word_count_ok wc" and "length ent = wc * 4"
  shows "\<exists>m. (\<forall>sha256. generate_mnemonic sha256 wl wc ent = Inr m) \<and>
    stream_words [] m = map (\<lambda>i. wl ! unat (entropy_index ent i)) [0..<wc] \<and>
    (\<forall>sha256. validate_mnemonic sha256 wl m = Inr True)"
proof -
  let ?ws = "map (\<lambda>i. wl ! unat (entropy_index ent i)) [0..<wc]"
  have gen: "generate_mnemonic sha256 wl wc ent = Inr (join_words ?ws)" for sha256
  proof -
    have "bits_index (map (\<lambda>b. (concat (map byte_bits ent) @ tail) ! (i * 11 + b)) [0..<11]) = entropy_index ent i"
      if "i < wc" for i tail
    proof -
      have l: "length (concat (map byte_bits ent)) = 32 * wc"
        using assms(3) by (simp add: length_concat o_def sum_list_triv)
      have "(concat (map byte_bits ent) @ tail) ! (i * 11 + b) = bit (ent ! ((i * 11 + b) div 8)) (7 - (i * 11 + b) mod 8)"
        if "b < 11" for b
        using concat_bits_nth [of "i * 11 + b" ent] that \<open>i < wc\<close> l assms(3) by (simp add: nth_append)
      then have "map (\<lambda>b. (concat (map byte_bits ent) @ tail) ! (i * 11 + b)) [0..<11] =
          map (\<lambda>b. bit (ent ! ((i * 11 + b) div 8)) (7 - (i * 11 + b) mod 8)) [0..<11]"
        by (intro map_cong refl) simp
      then show ?thesis by (simp only: entropy_index_def)
    qed
    then have "map (\<lambda>i. wl ! unat (bits_index (map (\<lambda>b. (concat (map byte_bits ent) @ tail) ! (i * 11 + b)) [0..<11]))) [0..<wc] = ?ws"
      for tail by (intro map_cong refl) simp
    then show ?thesis using assms(2) by (simp only: generate_mnemonic_def Let_def not_not if_False simp_thms)
  qed
  have mem: "set ?ws \<subseteq> set wl"
    using assms(1) bits_index_bound by (auto simp: word_list_def entropy_index_def)
  then have "stream_words [] (join_words ?ws) = ?ws"
    using assms(1) by (intro stream_words_join) (auto simp: word_list_def)
  with gen mem assms(2) mnemonic_accepted [OF assms(1)] show ?thesis
    by (intro exI [of _ "join_words ?ws"]) simp
qed

theorem generate_mnemonic_no_checksum_witness:
  "\<exists>m. (\<forall>sha256. generate_mnemonic sha256 sample_words 12 (replicate 48 0) = Inr m) \<and>
    (\<forall>sha256. validate_mnemonic sha256 sample_words m = Inr True)"
  using generate_mnemonic_no_checksum [OF sample_words_ok, of 12 "replicate 48 0"]
  by (auto simp: word_count_ok_def)

end
