(* ===== verification/WalletErrors.thy ===== *)
theory WalletErrors
  imports Strings
begin

text \<open>
  Wallet errors (include/midnight/errors/wallet_errors.hpp, src/errors/wallet_errors.cpp): category, code,
  message, whether to retry, and JSON in both directions. The result: the reader of the JSON never
  recognises an error, not even what the writer wrote.
\<close>

section \<open>Data\<close>

datatype error_category = Sync | Insufficient | Invalid | Network | Proof | Crypto | State

datatype error_code =
    InsufficientFunds | InvalidCoinHashes | SyncWallet | NetworkRequest | NetworkTimeout | ProofGeneration
  | ProofVerification | InvalidAddress | InvalidMnemonic | SerializationFailed | EncryptionFailed
  | DecryptionFailed | Unknown

fun error_code_value :: "error_code \<Rightarrow> int" where
  "error_code_value InsufficientFunds = 1001"
| "error_code_value InvalidCoinHashes = 1002"
| "error_code_value SyncWallet = 2001"
| "error_code_value NetworkRequest = 3001"
| "error_code_value NetworkTimeout = 3002"
| "error_code_value ProofGeneration = 4001"
| "error_code_value ProofVerification = 4002"
| "error_code_value InvalidAddress = 5001"
| "error_code_value InvalidMnemonic = 5002"
| "error_code_value SerializationFailed = 5003"
| "error_code_value EncryptionFailed = 5004"
| "error_code_value DecryptionFailed = 5005"
| "error_code_value Unknown = 9999"

text \<open>
  The fields in the order of the structs: available, required, token type; hashes; message, synced and
  current height; endpoint, HTTP code, message, timeout; circuit, message, time, verification failed;
  address, reason; mnemonic, reason; details, is encryption; operation, reason.
\<close>

datatype wallet_error =
    InsufficientFundsError u64 u64 string
  | InvalidCoinHashesError "string list"
  | SyncWalletError string u64 u64
  | NetworkError string int string bool
  | ProofError string string u64 bool
  | InvalidAddressError string string
  | InvalidMnemonicError string string
  | SerializationError string bool
  | EncryptionError string string

section \<open>Error builders\<close>

definition insufficient_funds :: "u64 \<Rightarrow> u64 \<Rightarrow> string \<Rightarrow> wallet_error" where
  "insufficient_funds available required token = InsufficientFundsError available required token"

definition invalid_coin_hashes :: "string list \<Rightarrow> wallet_error" where
  "invalid_coin_hashes hashes = InvalidCoinHashesError hashes"

definition sync_error :: "string \<Rightarrow> u64 \<Rightarrow> u64 \<Rightarrow> wallet_error" where
  "sync_error message last_synced current = SyncWalletError message last_synced current"

definition network_error :: "string \<Rightarrow> string \<Rightarrow> int \<Rightarrow> wallet_error" where
  "network_error endpoint message http_code = NetworkError endpoint http_code message False"

definition proof_error :: "string \<Rightarrow> string \<Rightarrow> wallet_error" where
  "proof_error circuit message = ProofError circuit message 0 False"

definition invalid_address :: "string \<Rightarrow> string \<Rightarrow> wallet_error" where
  "invalid_address address reason = InvalidAddressError address reason"

definition invalid_mnemonic :: "string \<Rightarrow> string \<Rightarrow> wallet_error" where
  "invalid_mnemonic mnemonic reason = InvalidMnemonicError mnemonic reason"

definition serialization_error :: "string \<Rightarrow> bool \<Rightarrow> wallet_error" where
  "serialization_error details is_encryption = SerializationError details is_encryption"

definition encryption_error :: "string \<Rightarrow> string \<Rightarrow> wallet_error" where
  "encryption_error operation reason = EncryptionError operation reason"

section \<open>Classification\<close>

fun get_category :: "wallet_error \<Rightarrow> error_category" where
  "get_category (InsufficientFundsError _ _ _) = Insufficient"
| "get_category (InvalidCoinHashesError _) = Invalid"
| "get_category (SyncWalletError _ _ _) = Sync"
| "get_category (NetworkError _ _ _ _) = Network"
| "get_category (ProofError _ _ _ _) = Proof"
| "get_category (InvalidAddressError _ _) = Invalid"
| "get_category (InvalidMnemonicError _ _) = Invalid"
| "get_category (SerializationError _ _) = State"
| "get_category (EncryptionError _ _) = Crypto"

fun get_code :: "wallet_error \<Rightarrow> error_code" where
  "get_code (InsufficientFundsError _ _ _) = InsufficientFunds"
| "get_code (InvalidCoinHashesError _) = InvalidCoinHashes"
| "get_code (SyncWalletError _ _ _) = SyncWallet"
| "get_code (NetworkError _ _ _ is_timeout) = (if is_timeout then NetworkTimeout else NetworkRequest)"
| "get_code (ProofError _ _ _ failed) = (if failed then ProofVerification else ProofGeneration)"
| "get_code (InvalidAddressError _ _) = InvalidAddress"
| "get_code (InvalidMnemonicError _ _) = InvalidMnemonic"
| "get_code (SerializationError _ _) = SerializationFailed"
| "get_code (EncryptionError operation _) = (if operation = ''encrypt'' then EncryptionFailed else DecryptionFailed)"

definition int_to_string :: "int \<Rightarrow> string" where
  "int_to_string i = (if i < 0 then ''-'' @ to_string (nat (- i)) else to_string (nat i))"

fun get_message :: "wallet_error \<Rightarrow> string" where
  "get_message (InsufficientFundsError available required token) =
     ''Insufficient '' @ token @ '' funds: available='' @ to_string (unat available) @ '', required='' @
     to_string (unat required)"
| "get_message (InvalidCoinHashesError hashes) =
     ''Invalid coin hashes: '' @ to_string (length hashes) @ '' invalid'' @
     (if hashes \<noteq> [] then '' (first: '' @ take 16 (hd hashes) @ ''...)'' else [])"
| "get_message (SyncWalletError message synced current) =
     ''Wallet sync failed: '' @ message @
     (if 0 < synced \<or> 0 < current
      then '' (synced='' @ to_string (unat synced) @ '', current='' @ to_string (unat current) @ '')'' else [])"
| "get_message (NetworkError endpoint http_code message is_timeout) =
     ''Network error'' @ (if endpoint \<noteq> [] then '' for '' @ endpoint else []) @
     (if http_code \<noteq> 0 then '' (HTTP '' @ int_to_string http_code @ '')'' else []) @
     (if message \<noteq> [] then '': '' @ message else [])"
| "get_message (ProofError circuit message time failed) =
     ''Proof error'' @
     (if circuit \<noteq> [] then '' for circuit '' @ [CHR 0x27] @ circuit @ [CHR 0x27] else []) @
     (if message \<noteq> [] then '': '' @ message else []) @
     (if 0 < time then '' (took '' @ to_string (unat time) @ ''ms)'' else [])"
| "get_message (InvalidAddressError address reason) =
     ''Invalid address'' @ (if address \<noteq> [] then '': '' @ take 20 address @ ''...'' else []) @
     (if reason \<noteq> [] then '' - '' @ reason else [])"
| "get_message (InvalidMnemonicError mnemonic reason) =
     ''Invalid mnemonic'' @ (if reason \<noteq> [] then '': '' @ reason else [])"
| "get_message (SerializationError details is_encryption) =
     ''Serialization failed'' @ (if details \<noteq> [] then '': '' @ details else [])"
| "get_message (EncryptionError operation reason) =
     ''Encryption operation '' @ [CHR 0x27] @ operation @ [CHR 0x27] @ '' failed'' @
     (if reason \<noteq> [] then '': '' @ reason else [])"

fun is_retryable :: "wallet_error \<Rightarrow> bool" where
  "is_retryable (InsufficientFundsError _ _ _) = False"
| "is_retryable (InvalidCoinHashesError _) = False"
| "is_retryable (SyncWalletError _ _ _) = True"
| "is_retryable (NetworkError _ http_code _ is_timeout) \<longleftrightarrow> is_timeout \<or> 500 \<le> http_code"
| "is_retryable (ProofError _ _ _ failed) \<longleftrightarrow> \<not> failed"
| "is_retryable (InvalidAddressError _ _) = False"
| "is_retryable (InvalidMnemonicError _ _) = False"
| "is_retryable (SerializationError _ _) = False"
| "is_retryable (EncryptionError _ _) = False"

section \<open>Writing JSON\<close>

fun escape_char :: "char \<Rightarrow> string" where
  "escape_char c =
     (if c = CHR 0x22 then [CHR 0x5C, CHR 0x22]
      else if c = CHR 0x5C then [CHR 0x5C, CHR 0x5C]
      else if c = CHR 0x08 then [CHR 0x5C, CHR ''b'']
      else if c = CHR 0x0C then [CHR 0x5C, CHR ''f'']
      else if c = CHR 0x0A then [CHR 0x5C, CHR ''n'']
      else if c = CHR 0x0D then [CHR 0x5C, CHR ''r'']
      else if c = CHR 0x09 then [CHR 0x5C, CHR ''t'']
      else [c])"

definition escape_json_string :: "string \<Rightarrow> string" where
  "escape_json_string s = concat (map escape_char s)"

definition quoted :: "string \<Rightarrow> string" where
  "quoted s = [CHR 0x22] @ s @ [CHR 0x22]"

text \<open>A key with its colon, and a key with its colon and the quote that opens a string.\<close>

definition json_key :: "string \<Rightarrow> string" where
  "json_key k = quoted k @ '':''"

definition json_string_key :: "string \<Rightarrow> string" where
  "json_string_key k = json_key k @ [CHR 0x22]"

definition json_string :: "string \<Rightarrow> string \<Rightarrow> string" where
  "json_string k v = json_string_key k @ escape_json_string v @ [CHR 0x22]"

definition json_bool :: "bool \<Rightarrow> string" where
  "json_bool b = (if b then ''true'' else ''false'')"

fun join_comma :: "string list \<Rightarrow> string" where
  "join_comma [] = []"
| "join_comma [s] = s"
| "join_comma (s # ss) = s @ '','' @ join_comma ss"

definition json_type :: "string \<Rightarrow> string" where
  "json_type t = json_string_key ''type'' @ t @ [CHR 0x22]"

fun json_body :: "wallet_error \<Rightarrow> string" where
  "json_body (InsufficientFundsError available required token) =
     json_type ''InsufficientFunds'' @ '','' @ json_key ''available'' @ to_string (unat available) @ '','' @
     json_key ''required'' @ to_string (unat required) @ '','' @ json_string ''token_type'' token"
| "json_body (InvalidCoinHashesError hashes) =
     json_type ''InvalidCoinHashes'' @ '','' @ json_key ''invalid_hashes'' @ ''['' @
     join_comma (map (\<lambda>h. quoted (escape_json_string h)) hashes) @ '']''"
| "json_body (SyncWalletError message synced current) =
     json_type ''SyncWallet'' @ '','' @ json_string ''message'' message @ '','' @
     json_key ''last_synced_height'' @ to_string (unat synced) @ '','' @
     json_key ''current_height'' @ to_string (unat current)"
| "json_body (NetworkError endpoint http_code message is_timeout) =
     json_type ''Network'' @ '','' @ json_string ''endpoint'' endpoint @ '','' @
     json_key ''http_code'' @ int_to_string http_code @ '','' @ json_string ''message'' message @ '','' @
     json_key ''is_timeout'' @ json_bool is_timeout"
| "json_body (ProofError circuit message time failed) =
     json_type ''Proof'' @ '','' @ json_string ''circuit_name'' circuit @ '','' @ json_string ''message'' message @ '','' @
     json_key ''generation_time_ms'' @ to_string (unat time) @ '','' @
     json_key ''is_verification_failed'' @ json_bool failed"
| "json_body (InvalidAddressError address reason) =
     json_type ''InvalidAddress'' @ '','' @ json_string ''address'' address @ '','' @ json_string ''reason'' reason"
| "json_body (InvalidMnemonicError mnemonic reason) =
     json_type ''InvalidMnemonic'' @ '','' @ json_string ''mnemonic'' mnemonic @ '','' @ json_string ''reason'' reason"
| "json_body (SerializationError details is_encryption) =
     json_type ''Serialization'' @ '','' @ json_string ''details'' details @ '','' @
     json_key ''is_encryption'' @ json_bool is_encryption"
| "json_body (EncryptionError operation reason) =
     json_type ''Encryption'' @ '','' @ json_string ''operation'' operation @ '','' @ json_string ''reason'' reason"

definition to_json :: "wallet_error \<Rightarrow> string" where
  "to_json e = ''{'' @ json_body e @ ''}''"

section \<open>Reading JSON\<close>

text \<open>\<^verbatim>\<open>end - pos\<close> in \<^verbatim>\<open>size_t\<close>, with \<^verbatim>\<open>npos\<close> the greatest value.\<close>

definition span :: "nat option \<Rightarrow> nat \<Rightarrow> nat" where
  "span e pos = nat ((int (case e of Some i \<Rightarrow> i | None \<Rightarrow> 2 ^ 64 - 1) - int pos) mod 2 ^ 64)"

text \<open>
  A field: the key is searched for, the value runs from \<open>skip\<close> behind its start to the next
  delimiter, which is searched for from \<open>seek\<close> behind its start.
\<close>

definition json_field :: "string \<Rightarrow> string \<Rightarrow> string \<Rightarrow> nat \<Rightarrow> nat \<Rightarrow> string option result" where
  "json_field s key delim seek skip =
     (case str_find s key 0 of
        None \<Rightarrow> Inr None
      | Some start \<Rightarrow>
          rbind (substr s (start + skip) (span (str_find s delim (start + seek)) (start + skip))) (\<lambda>v. Inr (Some v)))"

definition string_field :: "string \<Rightarrow> string \<Rightarrow> nat \<Rightarrow> string result" where
  "string_field s k skip =
     rbind (json_field s (json_string_key k) [CHR 0x22] skip skip) (\<lambda>v. case v of None \<Rightarrow> Inr [] | Some t \<Rightarrow> Inr t)"

definition u64_field :: "string \<Rightarrow> string \<Rightarrow> nat \<Rightarrow> u64 result" where
  "u64_field s k skip =
     rbind (json_field s (json_key k) '','' 0 skip) (\<lambda>v. case v of None \<Rightarrow> Inr 0 | Some t \<Rightarrow> stoull t)"

definition int_field :: "string \<Rightarrow> string \<Rightarrow> nat \<Rightarrow> int result" where
  "int_field s k skip =
     rbind (json_field s (json_key k) '','' 0 skip) (\<lambda>v. case v of None \<Rightarrow> Inr 0 | Some t \<Rightarrow> stoi t)"

definition from_json_fields :: "string \<Rightarrow> string \<Rightarrow> wallet_error option result" where
  "from_json_fields type s =
     (if type = ''InsufficientFunds'' then
        rbind (u64_field s ''available'' 11) (\<lambda>available. rbind (u64_field s ''required'' 11) (\<lambda>required.
        rbind (string_field s ''token_type'' 14) (\<lambda>token. Inr (Some (InsufficientFundsError available required token)))))
      else if type = ''SyncWallet'' then
        rbind (string_field s ''message'' 11) (\<lambda>message. Inr (Some (SyncWalletError message 0 0)))
      else if type = ''Network'' then
        rbind (string_field s ''endpoint'' 13) (\<lambda>endpoint. rbind (int_field s ''http_code'' 12) (\<lambda>http_code.
        rbind (string_field s ''message'' 11) (\<lambda>message. Inr (Some (NetworkError endpoint http_code message False)))))
      else if type = ''Proof'' then
        rbind (string_field s ''circuit_name'' 16) (\<lambda>circuit. Inr (Some (ProofError circuit [] 0 False)))
      else if type = ''InvalidAddress'' then
        rbind (string_field s ''address'' 11) (\<lambda>address. rbind (string_field s ''reason'' 10) (\<lambda>reason.
        Inr (Some (InvalidAddressError address reason))))
      else if type = ''InvalidMnemonic'' then
        rbind (string_field s ''reason'' 10) (\<lambda>reason. Inr (Some (InvalidMnemonicError [] reason)))
      else if type = ''Serialization'' then
        rbind (string_field s ''details'' 11) (\<lambda>details. Inr (Some (SerializationError details False)))
      else if type = ''Encryption'' then
        rbind (string_field s ''operation'' 13) (\<lambda>operation. rbind (string_field s ''reason'' 10) (\<lambda>reason.
        Inr (Some (EncryptionError operation reason))))
      else Inr None)"

definition read_type :: "string \<Rightarrow> nat \<Rightarrow> string result" where
  "read_type s type_start =
     (let type_end = str_find s [CHR 0x22] (type_start + 8)
      in substr s (type_start + 7) (span type_end (type_start + 7)))"

text \<open>Every exception is caught.\<close>

definition from_json :: "string \<Rightarrow> wallet_error option" where
  "from_json s =
     (case str_find s (json_string_key ''type'') 0 of
        None \<Rightarrow> None
      | Some type_start \<Rightarrow>
          (case rbind (read_type s type_start) (\<lambda>type. from_json_fields type s) of
             Inl _ \<Rightarrow> None
           | Inr r \<Rightarrow> r))"

section \<open>The reader recognises nothing\<close>

lemma find_from_Some: "find_from p s = Some i \<Longrightarrow> i + length p \<le> length s \<and> take (length p) (drop i s) = p"
proof (induction s arbitrary: i)
  case Nil
  then show ?case by (simp split: if_splits)
next
  case (Cons c s)
  show ?case
  proof (cases "starts_with (c # s) p")
    case True
    then have "take (length p) (c # s) = p" by (simp add: starts_with_def)
    then have "length p \<le> length (c # s)" by (metis length_take min.cobounded1)
    with True Cons.prems \<open>take (length p) (c # s) = p\<close> show ?thesis by simp
  next
    case False
    with Cons show ?thesis by (cases "find_from p s") auto
  qed
qed

lemma str_find_Some: "str_find s p pos = Some i \<Longrightarrow> pos \<le> i \<and> i + length p \<le> length s"
  using find_from_Some [of p "drop pos s"] by (auto simp: str_find_def split: if_splits)

lemma read_type_quote:
  assumes "str_find s (json_string_key ''type'') 0 = Some i" and "length s < 2 ^ 64"
  shows "\<exists>t. read_type s i = Inr (CHR 0x22 # t)"
proof -
  let ?key = "json_string_key ''type''"
  have key: "?key = [CHR 0x22, CHR ''t'', CHR ''y'', CHR ''p'', CHR ''e'', CHR 0x22, CHR '':'', CHR 0x22]"
    by (simp add: json_string_key_def json_key_def quoted_def)
  have f: "i + 8 \<le> length s" "take 8 (drop i s) = ?key"
    using assms(1) find_from_Some [of ?key s i] by (simp_all add: str_find_def key numeral_eq_Suc)
  obtain n where n: "span (str_find s [CHR 0x22] (i + 8)) (i + 7) = Suc n"
  proof (cases "str_find s [CHR 0x22] (i + 8)")
    case None
    have "int (2 ^ 64 - 1) - int (i + 7) = int (2 ^ 64 - 1 - (i + 7))" "0 < (2 ^ 64 - 1 - (i + 7) :: nat)"
      using f(1) assms(2) by auto
    then have "0 < span None (i + 7)" by (simp add: span_def)
    with None that show ?thesis by (metis gr0_implies_Suc)
  next
    case (Some j)
    then have j: "i + 8 \<le> j" "j < length s" using str_find_Some [OF Some] by auto
    then have "span (Some j) (i + 7) = j - (i + 7)"
      using assms(2) by (simp add: span_def)
    with Some j that [of "j - (i + 8)"] show ?thesis by simp
  qed
  have "take (Suc n) (drop (i + 7) s) = CHR 0x22 # take n (drop (i + 8) s)"
  proof -
    have "s ! (i + 7) = take 8 (drop i s) ! 7" using f(1) by simp
    also have "\<dots> = CHR 0x22" by (simp add: f(2) key)
    finally have "s ! (i + 7) = CHR 0x22" .
    moreover have "drop (i + 7) s = s ! (i + 7) # drop (Suc (i + 7)) s" using f(1) by (intro Cons_nth_drop_Suc [symmetric]) simp
    ultimately show ?thesis by (simp add: add.commute)
  qed
  with n f(1) show ?thesis by (simp add: read_type_def substr_def)
qed

text \<open>
  \<^verbatim>\<open>from_json\<close> returns no error for any text. It takes the type from one character too early, with
  the quote before it, and so matches none of the types; in particular what \<^verbatim>\<open>to_json\<close> wrote is lost.
\<close>

theorem from_json_recognises_nothing:
  assumes "length s < 2 ^ 64"
  shows "from_json s = None"
proof (cases "str_find s (json_string_key ''type'') 0")
  case None
  then show ?thesis by (simp add: from_json_def)
next
  case (Some i)
  with assms obtain t where "read_type s i = Inr (CHR 0x22 # t)" using read_type_quote by blast
  with Some show ?thesis by (simp add: from_json_def from_json_fields_def)
qed

theorem from_json_recognises_nothing_witness:
  "from_json (to_json (InvalidAddressError ''mn_addr1'' ''checksum'')) = None"
  by (rule from_json_recognises_nothing)
    (simp add: to_json_def json_type_def json_string_def json_string_key_def json_key_def quoted_def escape_json_string_def)

end
