(* ===== verification/StdMap.thy ===== *)
theory StdMap
  imports Hex "HOL-Library.List_Lexorder"
begin

text \<open>
  \<^verbatim>\<open>std::map\<close>, whose iteration order the sources can see: lists of pairs sorted by their keys. Lookup is
  \<^verbatim>\<open>map_of\<close>.
\<close>

definition sorted_map :: "('k::linorder \<times> 'v) list \<Rightarrow> bool" where
  "sorted_map m \<longleftrightarrow> sorted_wrt (<) (map fst m)"

fun map_put :: "'k::linorder \<Rightarrow> 'v \<Rightarrow> ('k \<times> 'v) list \<Rightarrow> ('k \<times> 'v) list" where
  "map_put k v [] = [(k, v)]"
| "map_put k v ((k', v') # m) =
     (if k < k' then (k, v) # (k', v') # m else if k = k' then (k, v) # m else (k', v') # map_put k v m)"

definition map_del :: "'k \<Rightarrow> ('k \<times> 'v) list \<Rightarrow> ('k \<times> 'v) list" where
  "map_del k m = filter (\<lambda>p. fst p \<noteq> k) m"

lemma sorted_map_Nil [simp]: "sorted_map []"
  by (simp add: sorted_map_def)

lemma sorted_map_Cons: "sorted_map ((k, v) # m) \<longleftrightarrow> (\<forall>p\<in>set m. k < fst p) \<and> sorted_map m"
  by (simp add: sorted_map_def)

lemma set_map_put: "p \<in> set (map_put k v m) \<Longrightarrow> p = (k, v) \<or> p \<in> set m"
  by (induction m) (auto split: if_splits)

lemma sorted_map_put: "sorted_map m \<Longrightarrow> sorted_map (map_put k v m)"
  by (induction m) (fastforce simp: sorted_map_Cons dest!: set_map_put)+

lemma map_of_map_put: "sorted_map m \<Longrightarrow> map_of (map_put k v m) = (map_of m)(k \<mapsto> v)"
  by (induction m) (auto simp: sorted_map_Cons fun_eq_iff map_of_eq_None_iff)

lemma map_put_last: "\<forall>p\<in>set m. fst p < k \<Longrightarrow> map_put k v m = m @ [(k, v)]"
  by (induction m) auto

lemma map_put_all:
  assumes "sorted_map (acc @ m)"
  shows "fold (\<lambda>(k, v). map_put k v) m acc = acc @ m"
  using assms
proof (induction m arbitrary: acc)
  case (Cons p m)
  obtain k v where p: "p = (k, v)" by (cases p)
  have "\<forall>q\<in>set acc. fst q < k" using Cons.prems by (auto simp: sorted_map_def sorted_wrt_append p)
  then have "map_put k v acc = acc @ [(k, v)]" by (rule map_put_last)
  with Cons p show ?case by simp
qed simp

text \<open>Rebuilding a map from its entries gives it back.\<close>

lemma map_rebuild: "sorted_map m \<Longrightarrow> fold (\<lambda>(k, v). map_put k v) m [] = m"
  using map_put_all [of "[]" m] by simp

lemma sorted_map_del: "sorted_map m \<Longrightarrow> sorted_map (map_del k m)"
  by (induction m) (auto simp: sorted_map_Cons map_del_def)

lemma map_of_map_del: "map_of (map_del k m) k' = (if k' = k then None else map_of m k')"
  by (induction m) (auto simp: map_del_def)

lemma sorted_map_map: "sorted_map (map (\<lambda>(k, v). (k, f k v)) m) \<longleftrightarrow> sorted_map m"
  by (simp add: sorted_map_def o_def case_prod_unfold)

end
