(* ===== verification/Json.thy ===== *)
theory Json
  imports StdMap
begin

text \<open>
  What the sources use of nlohmann::json, as a record of functions over an abstract type of JSON values
  that the definitions take as an argument; the documented facts the theorems rely on, as a predicate; a
  concrete instance to evaluate the model on; and \<^verbatim>\<open>std::stoull\<close> with a detected base, which the sources
  read numbers in JSON strings with.
\<close>

section \<open>The interface\<close>

record 'j json_ops =
  is_null :: "'j \<Rightarrow> bool"
  is_object :: "'j \<Rightarrow> bool"
  is_array :: "'j \<Rightarrow> bool"
  is_string :: "'j \<Rightarrow> bool"
  is_boolean :: "'j \<Rightarrow> bool"
  is_number_unsigned :: "'j \<Rightarrow> bool"
  is_number_integer :: "'j \<Rightarrow> bool"
  is_number :: "'j \<Rightarrow> bool"
  has_key :: "'j \<Rightarrow> string \<Rightarrow> bool"
  member :: "'j \<Rightarrow> string \<Rightarrow> 'j"
  elements :: "'j \<Rightarrow> 'j list"
  items :: "'j \<Rightarrow> (string \<times> 'j) list"
  get_string :: "'j \<Rightarrow> string"
  get_bool :: "'j \<Rightarrow> bool"
  get_number :: "'j \<Rightarrow> int"
  dump :: "'j \<Rightarrow> string"
  parse :: "string \<Rightarrow> string + 'j"
  mk_null :: 'j
  mk_bool :: "bool \<Rightarrow> 'j"
  mk_string :: "string \<Rightarrow> 'j"
  mk_number :: "int \<Rightarrow> 'j"
  mk_array :: "'j list \<Rightarrow> 'j"
  mk_object :: "(string \<times> 'j) list \<Rightarrow> 'j"
  set_member :: "'j \<Rightarrow> string \<Rightarrow> 'j \<Rightarrow> 'j"

text \<open>
  Documented: the type tests are exclusive (a non-negative integer being both an unsigned and an integer
  number), the constructors build values that the tests and the readers recognise, and of the members
  given to an object under one key the first is kept; objects list their members in the order of the keys,
  and setting a member of an object, or of null, replaces or adds that one.
\<close>

definition json_laws :: "'j json_ops \<Rightarrow> bool" where
  "json_laws J \<longleftrightarrow>
     (\<forall>s. is_string J (mk_string J s) \<and> get_string J (mk_string J s) = s \<and> \<not> is_object J (mk_string J s) \<and>
        \<not> is_array J (mk_string J s) \<and> \<not> is_null J (mk_string J s)) \<and>
     (\<forall>n. is_number_integer J (mk_number J n) \<and> (is_number_unsigned J (mk_number J n) \<longleftrightarrow> 0 \<le> n) \<and>
        get_number J (mk_number J n) = n \<and> \<not> is_string J (mk_number J n) \<and> \<not> is_object J (mk_number J n)) \<and>
     (\<forall>xs. is_array J (mk_array J xs) \<and> elements J (mk_array J xs) = xs \<and> \<not> is_string J (mk_array J xs) \<and>
        \<not> is_object J (mk_array J xs)) \<and>
     (\<forall>kvs. is_object J (mk_object J kvs) \<and> \<not> is_string J (mk_object J kvs) \<and>
        (\<forall>k. has_key J (mk_object J kvs) k \<longleftrightarrow> map_of kvs k \<noteq> None) \<and>
        (\<forall>k v. map_of kvs k = Some v \<longrightarrow> member J (mk_object J kvs) k = v)) \<and>
     (\<forall>n. is_number J (mk_number J n)) \<and>
     (\<forall>b. is_boolean J (mk_bool J b) \<and> get_bool J (mk_bool J b) = b) \<and>
     (\<forall>kvs. sorted_map kvs \<longrightarrow> items J (mk_object J kvs) = kvs) \<and>
     (\<forall>j k v. is_object J j \<or> is_null J j \<longrightarrow> is_object J (set_member J j k v) \<and> member J (set_member J j k v) k = v \<and>
        (\<forall>k'. has_key J (set_member J j k v) k' \<longleftrightarrow> k' = k \<or> has_key J j k') \<and>
        (\<forall>k'. k' \<noteq> k \<longrightarrow> member J (set_member J j k v) k' = member J j k')) \<and>
     is_null J (mk_null J) \<and> \<not> is_string J (mk_null J) \<and> \<not> is_object J (mk_null J) \<and> \<not> is_array J (mk_null J)"

section \<open>An instance\<close>

datatype json =
    JNull
  | JBool bool
  | JNumber int
  | JString string
  | JArray "json list"
  | JObject "(string \<times> json) list"

text \<open>Texts are not needed by the theorems that use the instance: \<^verbatim>\<open>dump\<close> and \<^verbatim>\<open>parse\<close> are left trivial.\<close>

definition json_std :: "json json_ops" where
  "json_std = \<lparr>
     is_null = (\<lambda>j. j = JNull),
     is_object = (\<lambda>j. case j of JObject _ \<Rightarrow> True | _ \<Rightarrow> False),
     is_array = (\<lambda>j. case j of JArray _ \<Rightarrow> True | _ \<Rightarrow> False),
     is_string = (\<lambda>j. case j of JString _ \<Rightarrow> True | _ \<Rightarrow> False),
     is_boolean = (\<lambda>j. case j of JBool _ \<Rightarrow> True | _ \<Rightarrow> False),
     is_number_unsigned = (\<lambda>j. case j of JNumber n \<Rightarrow> 0 \<le> n | _ \<Rightarrow> False),
     is_number_integer = (\<lambda>j. case j of JNumber _ \<Rightarrow> True | _ \<Rightarrow> False),
     is_number = (\<lambda>j. case j of JNumber _ \<Rightarrow> True | _ \<Rightarrow> False),
     has_key = (\<lambda>j k. case j of JObject kvs \<Rightarrow> map_of kvs k \<noteq> None | _ \<Rightarrow> False),
     member = (\<lambda>j k. case j of JObject kvs \<Rightarrow> (case map_of kvs k of Some v \<Rightarrow> v | None \<Rightarrow> JNull) | _ \<Rightarrow> JNull),
     elements = (\<lambda>j. case j of JArray xs \<Rightarrow> xs | _ \<Rightarrow> []),
     items = (\<lambda>j. case j of JObject kvs \<Rightarrow> kvs | _ \<Rightarrow> []),
     get_string = (\<lambda>j. case j of JString s \<Rightarrow> s | _ \<Rightarrow> []),
     get_bool = (\<lambda>j. case j of JBool b \<Rightarrow> b | _ \<Rightarrow> False),
     get_number = (\<lambda>j. case j of JNumber n \<Rightarrow> n | _ \<Rightarrow> 0),
     dump = (\<lambda>j. case j of JString s \<Rightarrow> s | _ \<Rightarrow> []),
     parse = (\<lambda>s. Inr (JString s)),
     mk_null = JNull, mk_bool = JBool, mk_string = JString, mk_number = JNumber,
     mk_array = JArray, mk_object = JObject,
     set_member = (\<lambda>j k v. case j of JObject kvs \<Rightarrow> JObject ((k, v) # kvs) | JNull \<Rightarrow> JObject [(k, v)] | _ \<Rightarrow> j)\<rparr>"

lemma json_std_laws: "json_laws json_std"
  by (auto simp: json_laws_def json_std_def split: json.splits)

section \<open>Checked access\<close>

text \<open>
  The accesses that throw: \<^verbatim>\<open>at\<close> on what is no object or has no such member, \<^verbatim>\<open>get\<close> of a value of another type,
  \<^verbatim>\<open>value\<close> on what is no object. Fractions are read as the integers they are cast to.
\<close>

definition type_error :: exc where
  "type_error = Runtime_error ''[json.exception.type_error]''"

definition json_at :: "'j json_ops \<Rightarrow> 'j \<Rightarrow> string \<Rightarrow> 'j result" where
  "json_at J j k =
     (if \<not> is_object J j then Inl type_error
      else if has_key J j k then Inr (member J j k)
      else Inl (Runtime_error ''[json.exception.out_of_range.403]''))"

definition read_string :: "'j json_ops \<Rightarrow> 'j \<Rightarrow> string result" where
  "read_string J j = (if is_string J j then Inr (get_string J j) else Inl type_error)"

definition read_bool :: "'j json_ops \<Rightarrow> 'j \<Rightarrow> bool result" where
  "read_bool J j = (if is_boolean J j then Inr (get_bool J j) else Inl type_error)"

definition read_u64 :: "'j json_ops \<Rightarrow> 'j \<Rightarrow> u64 result" where
  "read_u64 J j = (if is_number J j then Inr (word_of_int (get_number J j)) else Inl type_error)"

text \<open>Of 32-bit types; a boolean is read as 0 or 1.\<close>

definition read_u32 :: "'j json_ops \<Rightarrow> 'j \<Rightarrow> u32 result" where
  "read_u32 J j =
     (if is_number J j then Inr (word_of_int (get_number J j))
      else if is_boolean J j then Inr (of_bool (get_bool J j)) else Inl type_error)"

definition json_value :: "'j json_ops \<Rightarrow> ('j \<Rightarrow> 'a result) \<Rightarrow> 'j \<Rightarrow> string \<Rightarrow> 'a \<Rightarrow> 'a result" where
  "json_value J read j k d =
     (if \<not> is_object J j then Inl type_error else if has_key J j k then read (member J j k) else Inr d)"

definition json_push :: "'j json_ops \<Rightarrow> 'j \<Rightarrow> 'j \<Rightarrow> 'j result" where
  "json_push J j x =
     (if is_null J j then Inr (mk_array J [x])
      else if is_array J j then Inr (mk_array J (elements J j @ [x])) else Inl type_error)"

definition json_set :: "'j json_ops \<Rightarrow> 'j \<Rightarrow> string \<Rightarrow> 'j \<Rightarrow> 'j result" where
  "json_set J j k v = (if is_object J j \<or> is_null J j then Inr (set_member J j k v) else Inl type_error)"

text \<open>A value of these laws, and what the accesses make of the values built.\<close>

locale lawful_json =
  fixes J :: "'j json_ops"
  assumes laws: "json_laws J"
begin

lemma built [simp]:
  "is_string J (mk_string J s)" "get_string J (mk_string J s) = s"
  "is_number J (mk_number J n)" "get_number J (mk_number J n) = n"
  "is_boolean J (mk_bool J b)" "get_bool J (mk_bool J b) = b"
  "is_array J (mk_array J xs)" "elements J (mk_array J xs) = xs"
  "is_object J (mk_object J kvs)" "has_key J (mk_object J kvs) k \<longleftrightarrow> map_of kvs k \<noteq> None"
  "map_of kvs k = Some v \<Longrightarrow> member J (mk_object J kvs) k = v"
  "sorted_map kvs \<Longrightarrow> items J (mk_object J kvs) = kvs"
  "\<not> is_object J (mk_null J)" "is_null J (mk_null J)"
  using laws by (simp_all add: json_laws_def)

lemma set_member_facts:
  assumes "is_object J j \<or> is_null J j"
  shows "is_object J (set_member J j k v)" "member J (set_member J j k v) k = v"
    "has_key J (set_member J j k v) k' \<longleftrightarrow> k' = k \<or> has_key J j k'"
    "k' \<noteq> k \<Longrightarrow> member J (set_member J j k v) k' = member J j k'"
  using laws assms by (auto simp: json_laws_def)

lemma json_at_object [simp]:
  "json_at J (mk_object J kvs) k =
     (case map_of kvs k of Some v \<Rightarrow> Inr v | None \<Rightarrow> Inl (Runtime_error ''[json.exception.out_of_range.403]''))"
  by (simp add: json_at_def split: option.splits)

lemma json_value_object [simp]:
  "json_value J read (mk_object J kvs) k d = (case map_of kvs k of Some v \<Rightarrow> read v | None \<Rightarrow> Inr d)"
  by (simp add: json_value_def split: option.splits)

lemma read_built [simp]:
  "read_string J (mk_string J s) = Inr s" "read_bool J (mk_bool J b) = Inr b"
  "read_u64 J (mk_number J n) = Inr (word_of_int n)" "read_u32 J (mk_number J n) = Inr (word_of_int n)"
  by (simp_all add: read_string_def read_bool_def read_u64_def read_u32_def)

end

interpretation std: lawful_json json_std
  by unfold_locales (rule json_std_laws)

section \<open>\<^verbatim>\<open>std::stoull(s, nullptr, 0)\<close>\<close>

text \<open>
  Base 16 after \<^verbatim>\<open>0x\<close>, base 8 after another leading zero, otherwise base 10; the longest run of digits
  counts and what follows is ignored.
\<close>

definition isodigit :: "char \<Rightarrow> bool" where
  "isodigit c \<longleftrightarrow> char_in 48 55 c"

definition oct_value :: "string \<Rightarrow> nat" where
  "oct_value s = foldl (\<lambda>acc c. 8 * acc + (of_char c - 48)) 0 s"

definition digits0 :: "string \<Rightarrow> nat option" where
  "digits0 r =
     (if strip_0x r \<noteq> r then Some (hex_value (takeWhile isxdigit (strip_0x r)))
      else if starts_with r ''0'' then Some (oct_value (takeWhile isodigit r))
      else if takeWhile isdigit r = [] then None
      else Some (dec_value (takeWhile isdigit r)))"

definition stoull0 :: "string \<Rightarrow> u64 result" where
  "stoull0 s =
     (let (neg, r) = strip_sign (dropWhile isspace s)
      in case digits0 r of
           None \<Rightarrow> Inl (Invalid_argument ''stoull'')
         | Some v \<Rightarrow> if 2 ^ 64 \<le> v then Inl (Out_of_range ''stoull'')
                    else Inr (if neg then - word_of_nat v else word_of_nat v))"

end
