(* ===== verification/HttpClient.thy ===== *)
theory HttpClient
  imports Json
begin

text \<open>
  The HTTP client of src/network/network_client.cpp: the address it takes a URL apart into, the request
  paths, the stored headers, and what it makes of the answers. The HTTP library is the parameter \<open>http\<close>,
  which answers a request and passes on the state \<open>w\<close> of the outside world. Main result: the parts of a
  URL are recovered, but the port is reduced modulo \<open>2 ^ 16\<close> instead of being checked.
\<close>

section \<open>Requests\<close>

record endpoint =
  ep_host :: string
  ep_port :: u16
  path_prefix :: string
  use_tls :: bool

definition split_scheme :: "string \<Rightarrow> bool \<times> u16 \<times> string" where
  "split_scheme url =
     (if starts_with url ''https://'' then (True, 443, drop 8 url)
      else if starts_with url ''http://'' then (False, 80, drop 7 url)
      else if starts_with url ''wss://'' then (True, 443, drop 6 url)
      else if starts_with url ''ws://'' then (False, 80, drop 5 url)
      else (False, 80, url))"

definition parse_port :: "string \<Rightarrow> u16 result" where
  "parse_port s = rbind (stoi s) (\<lambda>n. Inr (word_of_int n))"

definition parse_url :: "string \<Rightarrow> endpoint result" where
  "parse_url url =
     (let (tls, default_port, rest) = split_scheme url
      in case (find_char (CHR ''/'') rest, find_char (CHR '':'') rest) of
           (Some slash, Some colon) \<Rightarrow>
             if colon < slash
             then rbind (parse_port (take (slash - colon - 1) (drop (colon + 1) rest)))
                    (\<lambda>p. Inr \<lparr>ep_host = take colon rest, ep_port = p, path_prefix = drop slash rest, use_tls = tls\<rparr>)
             else Inr \<lparr>ep_host = take slash rest, ep_port = default_port, path_prefix = drop slash rest, use_tls = tls\<rparr>
         | (None, Some colon) \<Rightarrow>
             rbind (parse_port (drop (colon + 1) rest))
               (\<lambda>p. Inr \<lparr>ep_host = take colon rest, ep_port = p, path_prefix = [], use_tls = tls\<rparr>)
         | (Some slash, None) \<Rightarrow>
             Inr \<lparr>ep_host = take slash rest, ep_port = default_port, path_prefix = drop slash rest, use_tls = tls\<rparr>
         | (None, None) \<Rightarrow> Inr \<lparr>ep_host = rest, ep_port = default_port, path_prefix = [], use_tls = tls\<rparr>)"

function trim_slashes :: "string \<Rightarrow> string" where
  "trim_slashes s = (if 1 < length s \<and> last s = CHR ''/'' then trim_slashes (butlast s) else s)"
  by pat_completeness auto
termination by (relation "measure length") auto

declare trim_slashes.simps [simp del]

definition join_request_path :: "string \<Rightarrow> string \<Rightarrow> string" where
  "join_request_path prefix path =
     (let p = trim_slashes prefix
      in if p = [] then (if path = [] then ''/'' else path)
         else if path = [] \<or> path = ''/'' then p
         else if last p = CHR ''/'' \<and> hd path = CHR ''/'' then p @ tl path
         else if last p \<noteq> CHR ''/'' \<and> hd path \<noteq> CHR ''/'' then p @ ''/'' @ path
         else p @ path)"

section \<open>The client\<close>

record network_client =
  base_url :: string
  timeout_ms :: u32
  headers :: "string \<rightharpoonup> string"

definition new_network_client :: "string \<Rightarrow> u32 \<Rightarrow> network_client result" where
  "new_network_client url timeout =
     (if url = [] then Inl (Invalid_argument ''Base URL cannot be empty'')
      else Inr \<lparr>base_url = url, timeout_ms = timeout, headers = Map.empty\<rparr>)"

definition set_header :: "string \<Rightarrow> string \<Rightarrow> network_client \<Rightarrow> network_client" where
  "set_header k v c = c\<lparr>headers := (headers c)(k \<mapsto> v)\<rparr>"

definition clear_headers :: "network_client \<Rightarrow> network_client" where
  "clear_headers c = c\<lparr>headers := Map.empty\<rparr>"

text \<open>An answer of the HTTP library: none, with the name of the error, or a status and a body.\<close>

datatype http_answer = No_answer string | Answer nat string

datatype http_request = Get | Post string string

type_synonym 'w http = "endpoint \<Rightarrow> string \<Rightarrow> (string \<rightharpoonup> string) \<Rightarrow> http_request \<Rightarrow> 'w \<Rightarrow> http_answer \<times> 'w"

definition do_post_result :: "http_answer \<Rightarrow> string result" where
  "do_post_result a =
     (case a of
        No_answer err \<Rightarrow> Inl (Runtime_error (''HTTP request failed: '' @ err))
      | Answer status body \<Rightarrow>
          if status \<noteq> 200 \<and> status \<noteq> 201 then Inl (Runtime_error (''HTTP '' @ to_string status @ '': '' @ body))
          else Inr body)"

definition do_get_result :: "http_answer \<Rightarrow> string result" where
  "do_get_result a =
     (case a of
        No_answer err \<Rightarrow> Inl (Runtime_error (''HTTP GET failed: '' @ err))
      | Answer status body \<Rightarrow>
          if status \<noteq> 200 then Inl (Runtime_error (''HTTP GET '' @ to_string status @ '': '' @ body))
          else Inr body)"

text \<open>Built with TLS support; the request goes out when the URL parses.\<close>

definition send :: "'w http \<Rightarrow> network_client \<Rightarrow> string \<Rightarrow> http_request \<Rightarrow> (http_answer \<Rightarrow> string result) \<Rightarrow> 'w \<Rightarrow> string result \<times> 'w" where
  "send http c path request result w =
     (case parse_url (base_url c) of
        Inl e \<Rightarrow> (Inl e, w)
      | Inr ep \<Rightarrow> (case http ep (join_request_path (path_prefix ep) path) (headers c) request w of
          (a, w') \<Rightarrow> (result a, w')))"

definition parse_body :: "'j json_ops \<Rightarrow> string \<Rightarrow> 'j result" where
  "parse_body J body =
     (case parse J body of Inl what \<Rightarrow> Inl (Runtime_error (''JSON parse error: '' @ what)) | Inr j \<Rightarrow> Inr j)"

definition post_json :: "'j json_ops \<Rightarrow> 'w http \<Rightarrow> network_client \<Rightarrow> string \<Rightarrow> 'j \<Rightarrow> 'w \<Rightarrow> 'j result \<times> 'w" where
  "post_json J http c path payload w =
     (case send http c path (Post (dump J payload) ''application/json'') do_post_result w of
        (r, w') \<Rightarrow> (rbind r (parse_body J), w'))"

definition post_bytes :: "'w http \<Rightarrow> network_client \<Rightarrow> string \<Rightarrow> bytes \<Rightarrow> string \<Rightarrow> 'w \<Rightarrow> bytes result \<times> 'w" where
  "post_bytes http c path payload content_type w =
     (case send http c path (Post (map char_of_byte payload) content_type) do_post_result w of
        (r, w') \<Rightarrow> (rbind r (\<lambda>body. Inr (map byte_of_char body)), w'))"

definition get_json :: "'j json_ops \<Rightarrow> 'w http \<Rightarrow> network_client \<Rightarrow> string \<Rightarrow> 'w \<Rightarrow> 'j result \<times> 'w" where
  "get_json J http c path w =
     (case send http c path Get do_get_result w of (r, w') \<Rightarrow> (rbind r (parse_body J), w'))"

definition get_text :: "'w http \<Rightarrow> network_client \<Rightarrow> string \<Rightarrow> 'w \<Rightarrow> string result \<times> 'w" where
  "get_text http c path w = send http c path Get do_get_result w"

text \<open>Any answer will do, whatever its status.\<close>

definition is_connected :: "'w http \<Rightarrow> network_client \<Rightarrow> 'w \<Rightarrow> bool result \<times> 'w" where
  "is_connected http c w =
     (case parse_url (base_url c) of
        Inl e \<Rightarrow> (Inl e, w)
      | Inr ep \<Rightarrow>
          (case http ep (if path_prefix ep = [] then ''/'' else path_prefix ep) Map.empty Get w of
             (No_answer _, w') \<Rightarrow> (Inr False, w')
           | (Answer _ _, w') \<Rightarrow> (Inr True, w')))"

section \<open>Properties\<close>

lemma digit_not_separator: "c \<in> set (to_string n) \<Longrightarrow> c \<noteq> CHR ''/'' \<and> c \<noteq> CHR '':''"
  using to_string_digits [of n] by (auto simp: isdigit_def char_in_def)

lemma to_string_no_separator [simp]: "CHR ''/'' \<notin> set (to_string n)" "CHR '':'' \<notin> set (to_string n)"
  using digit_not_separator by blast+

lemma parse_port_to_string: "n < 2 ^ 31 \<Longrightarrow> parse_port (to_string n) = Inr (word_of_nat n)"
  by (simp add: parse_port_def stoi_to_string)

definition url_schemes :: "(string \<times> bool) list" where
  "url_schemes = [(''https://'', True), (''http://'', False), (''wss://'', True), (''ws://'', False)]"

lemma split_scheme_append:
  "(scheme, tls) \<in> set url_schemes \<Longrightarrow> \<exists>p. split_scheme (scheme @ rest) = (tls, p, rest)"
  by (auto simp: url_schemes_def split_scheme_def starts_with_def)

lemma find_slash_of_path:
  "path = [] \<or> (\<exists>r. path = CHR ''/'' # r) \<Longrightarrow> find_char (CHR ''/'') path = (if path = [] then None else Some 0)"
  by auto

text \<open>
  Of a URL with a port, \<^verbatim>\<open>parse_url\<close> finds the host, the path and whether TLS is used; the port is what
  the number is modulo \<open>2 ^ 16\<close>, so that port 65536 + 80 is port 80 and no port is refused for its size.
\<close>

theorem parse_url_parts:
  assumes "(scheme, tls) \<in> set url_schemes" and "CHR ''/'' \<notin> set host" and "CHR '':'' \<notin> set host"
    and "port < 2 ^ 31" and "path = [] \<or> (\<exists>r. path = CHR ''/'' # r)"
  shows "parse_url (scheme @ host @ '':'' @ to_string port @ path) =
    Inr \<lparr>ep_host = host, ep_port = word_of_nat port, path_prefix = path, use_tls = tls\<rparr>"
proof -
  obtain p where sp: "split_scheme (scheme @ host @ '':'' @ to_string port @ path) =
      (tls, p, host @ '':'' @ to_string port @ path)" using split_scheme_append [OF assms(1)] by blast
  have colon: "find_char (CHR '':'') (host @ '':'' @ to_string port @ path) = Some (length host)"
    using assms(3) by (simp add: find_char_skip)
  have slash: "find_char (CHR ''/'') (host @ '':'' @ to_string port @ path) =
      (if path = [] then None else Some (length host + 1 + length (to_string port)))"
    using assms(2) find_slash_of_path [OF assms(5)] by (simp add: find_char_skip)
  show ?thesis
    using sp colon slash assms(4) by (cases "path = []") (simp_all add: parse_url_def parse_port_to_string)
qed

theorem parse_url_parts_witness:
  "parse_url ''http://localhost:65616/rpc'' =
     Inr \<lparr>ep_host = ''localhost'', ep_port = 80, path_prefix = ''/rpc'', use_tls = False\<rparr>"
proof -
  have "to_string 65616 = ''65616''" by (simp add: to_string_eval)
  then show ?thesis
    using parse_url_parts [of "''http://''" False "''localhost''" 65616 "''/rpc''"] by (simp add: url_schemes_def)
qed

end
