(* ===== verification/Effects.thy ===== *)
theory Effects
  imports Json
begin

text \<open>
  Computations on a state or on the outside world: calls that return or throw, calls that need not return,
  and objects that are filled member by member until something throws. With the readers of JSON values that
  more than one client uses.
\<close>

section \<open>Calls\<close>

text \<open>A call passes on the state \<open>'w\<close> of the outside world.\<close>

type_synonym ('w, 'a) call = "'w \<Rightarrow> 'a result \<times> 'w"

definition call_return :: "'a \<Rightarrow> ('w, 'a) call" where
  "call_return x w = (Inr x, w)"

definition call_throw :: "exc \<Rightarrow> ('w, 'a) call" where
  "call_throw e w = (Inl e, w)"

definition call_bind :: "('w, 'a) call \<Rightarrow> ('a \<Rightarrow> ('w, 'b) call) \<Rightarrow> ('w, 'b) call" where
  "call_bind m f w = (case m w of (Inl e, w) \<Rightarrow> (Inl e, w) | (Inr x, w) \<Rightarrow> f x w)"

text \<open>A result that is already there.\<close>

definition call_of :: "'a result \<Rightarrow> ('w, 'a) call" where
  "call_of r w = (r, w)"

text \<open>\<^verbatim>\<open>catch (const std::exception & e)\<close>, which undefined behaviour passes.\<close>

definition call_catch :: "('w, 'a) call \<Rightarrow> (string \<Rightarrow> ('w, 'a) call) \<Rightarrow> ('w, 'a) call" where
  "call_catch m handler w =
     (case m w of
        (Inr x, w) \<Rightarrow> (Inr x, w)
      | (Inl Undefined_behaviour, w) \<Rightarrow> (Inl Undefined_behaviour, w)
      | (Inl e, w) \<Rightarrow> handler (exc_what e) w)"

lemma call_bind_simps [simp]:
  "call_bind (call_return x) f = f x" "call_bind (call_throw e) f = call_throw e"
  "call_bind (call_of (Inr x)) f = f x" "call_bind (call_of (Inl e)) f = call_throw e"
  "call_bind m call_return = m"
  by (auto simp: call_bind_def call_return_def call_throw_def call_of_def fun_eq_iff split: prod.splits sum.splits)

lemma call_bind_assoc [simp]: "call_bind (call_bind m f) g = call_bind m (\<lambda>x. call_bind (f x) g)"
  by (auto simp: call_bind_def fun_eq_iff split: prod.splits sum.splits)

lemma call_catch_return [simp]: "call_catch (call_return x) handler = call_return x"
  by (simp add: call_catch_def call_return_def fun_eq_iff)

lemmas call_defs = call_return_def call_throw_def call_bind_def call_of_def call_catch_def

section \<open>Calls that need not return\<close>

type_synonym ('w, 'a) io = "'w \<Rightarrow> ('a result \<times> 'w) option"

definition io_return :: "'a \<Rightarrow> ('w, 'a) io" where
  "io_return x w = Some (Inr x, w)"

definition io_bind :: "('w, 'a) io \<Rightarrow> ('a \<Rightarrow> ('w, 'b) io) \<Rightarrow> ('w, 'b) io" where
  "io_bind m f w =
     (case m w of
        None \<Rightarrow> None
      | Some (Inl e, w') \<Rightarrow> Some (Inl e, w')
      | Some (Inr x, w') \<Rightarrow> f x w')"

definition io_call :: "('w, 'a) call \<Rightarrow> ('w, 'a) io" where
  "io_call m w = Some (m w)"

definition io_catch :: "('w, 'a) io \<Rightarrow> ('w, 'a) io \<Rightarrow> ('w, 'a) io" where
  "io_catch m handler w =
     (case m w of
        None \<Rightarrow> None
      | Some (Inl Undefined_behaviour, w') \<Rightarrow> Some (Inl Undefined_behaviour, w')
      | Some (Inl e, w') \<Rightarrow> handler w'
      | Some (Inr x, w') \<Rightarrow> Some (Inr x, w'))"

lemmas io_defs = io_return_def io_bind_def io_catch_def io_call_def

section \<open>Objects filled member by member\<close>

text \<open>What was written before an exception stays written.\<close>

fun run_steps :: "('s \<Rightarrow> 's result) list \<Rightarrow> 's \<Rightarrow> 's \<times> exc option" where
  "run_steps [] s = (s, None)"
| "run_steps (f # fs) s = (case f s of Inl e \<Rightarrow> (s, Some e) | Inr s' \<Rightarrow> run_steps fs s')"

definition put_member :: "'a result \<Rightarrow> ('a \<Rightarrow> 's \<Rightarrow> 's) \<Rightarrow> 's \<Rightarrow> 's result" where
  "put_member r update s = rbind r (\<lambda>x. Inr (update x s))"

fun read_prefix :: "('a \<Rightarrow> 'b result) \<Rightarrow> 'a list \<Rightarrow> 'b list \<times> exc option" where
  "read_prefix f [] = ([], None)"
| "read_prefix f (x # xs) =
     (case f x of
        Inl e \<Rightarrow> ([], Some e)
      | Inr y \<Rightarrow> (case read_prefix f xs of (ys, err) \<Rightarrow> (y # ys, err)))"

fun read_list :: "('a \<Rightarrow> 'b result) \<Rightarrow> 'a list \<Rightarrow> 'b list result" where
  "read_list f [] = Inr []"
| "read_list f (x # xs) = rbind (f x) (\<lambda>y. rbind (read_list f xs) (\<lambda>ys. Inr (y # ys)))"

lemma read_list_append:
  "read_list f (xs @ ys) = rbind (read_list f xs) (\<lambda>as. rbind (read_list f ys) (\<lambda>bs. Inr (as @ bs)))"
  by (induction xs) (auto simp: rbind_def split: sum.splits)

lemma read_list_map [simp]: "read_list f (map g xs) = read_list (f \<circ> g) xs"
  by (induction xs) auto

lemma read_list_all: "(\<And>x. x \<in> set xs \<Longrightarrow> f x = Inr (g x)) \<Longrightarrow> read_list f xs = Inr (map g xs)"
  by (induction xs) auto

section \<open>More of JSON\<close>

text \<open>\<^verbatim>\<open>unsigned long long\<close>, which is not the library's own 64-bit type, and \<^verbatim>\<open>int\<close>; both also read booleans.\<close>

definition read_ull :: "'j json_ops \<Rightarrow> 'j \<Rightarrow> u64 result" where
  "read_ull J j =
     (if is_number J j then Inr (word_of_int (get_number J j))
      else if is_boolean J j then Inr (of_bool (get_bool J j)) else Inl type_error)"

definition read_int :: "'j json_ops \<Rightarrow> 'j \<Rightarrow> 32 word result" where
  "read_int J j = read_u32 J j"

definition read_json :: "'j \<Rightarrow> 'j result" where
  "read_json j = Inr j"

text \<open>A loop over any value: the elements of an array, the values of an object, a simple value itself.\<close>

definition iterate :: "'j json_ops \<Rightarrow> 'j \<Rightarrow> 'j list" where
  "iterate J j =
     (if is_array J j then elements J j else if is_null J j then []
      else if is_object J j then map snd (items J j) else [j])"

definition has_value :: "'j json_ops \<Rightarrow> 'j \<Rightarrow> string \<Rightarrow> bool" where
  "has_value J j k \<longleftrightarrow> has_key J j k \<and> \<not> is_null J (member J j k)"

definition has_array :: "'j json_ops \<Rightarrow> 'j \<Rightarrow> string \<Rightarrow> bool" where
  "has_array J j k \<longleftrightarrow> has_key J j k \<and> is_array J (member J j k)"

text \<open>\<^verbatim>\<open>std::from_chars\<close> to the end of a text of digits.\<close>

definition from_chars_u64 :: "string \<Rightarrow> u64 option" where
  "from_chars_u64 s =
     (if s \<noteq> [] \<and> list_all isdigit s \<and> dec_value s < 2 ^ 64 then Some (word_of_nat (dec_value s)) else None)"

lemma from_chars_to_string [simp]: "from_chars_u64 (to_string (unat v)) = Some v"
  using to_string_digits [of "unat v"] to_string_not_Nil [of "unat v"] unsigned_less [of v, where 'a = nat]
  by (simp add: from_chars_u64_def list_all_iff dec_value_to_string)

end
