(* ===== verification/Monitor.thy ===== *)
theory Monitor
  imports HttpClient Effects
begin

text \<open>
  Monitoring, after src/monitoring-finality/monitoring_finality.cpp: cleaning of error messages, RPC calls
  over the HTTP client, the block history, the reorganisation detector, and what the worker threads report
  and wait for, as functions of what the node answers at each poll. Main results: cleaning a message that
  names a secret does not end, and so neither does a call answered by one; the wait for a transaction's
  finality ends exactly when a block is finalized while the transaction is not pending; reported finalized
  heights increase.
\<close>

section \<open>Cleaning error messages\<close>

definition printable :: "char \<Rightarrow> bool" where
  "printable c \<longleftrightarrow> char_in 32 126 c"

text \<open>The copying loop stops at 200 characters, so the cut behind it never applies.\<close>

definition clean_message :: "string \<Rightarrow> string" where
  "clean_message raw =
     (let sanitized = take 200 (map (\<lambda>c. if printable c then c else CHR ''?'') raw)
      in if 200 < length sanitized then take 200 sanitized @ ''...'' else sanitized)"

definition sensitive_patterns :: "string list" where
  "sensitive_patterns =
     [''password'', ''token'', ''secret'', ''api_key'', ''apikey'', ''authorization'', ''private_key'', ''credential'']"

text \<open>\<^verbatim>\<open>std::min\<close> of two positions, \<open>None\<close> being the greatest, \<^verbatim>\<open>npos\<close>.\<close>

fun min_pos :: "nat option \<Rightarrow> nat option \<Rightarrow> nat option" where
  "min_pos None q = q"
| "min_pos p None = p"
| "min_pos (Some p) (Some q) = Some (min p q)"

text \<open>One pass of the loop body: the text after the replacement.\<close>

definition redact_at :: "string \<Rightarrow> string \<Rightarrow> nat \<Rightarrow> string" where
  "redact_at pattern s pos =
     (case min_pos (str_find s '':'' pos) (str_find s [CHR 0x0A] pos) of
        None \<Rightarrow> s
      | Some e \<Rightarrow> if pos < e then take pos s @ pattern @ '': <redacted>'' @ drop (e + 1) s else s)"

text \<open>
  The search at the end of the body, and the one of the \<^verbatim>\<open>for\<close> header after it, which starts at
  \<^verbatim>\<open>pos + 1\<close>, that is at 0 when \<^verbatim>\<open>pos\<close> is \<^verbatim>\<open>npos\<close>.
\<close>

definition next_pos :: "string \<Rightarrow> string \<Rightarrow> nat \<Rightarrow> nat option" where
  "next_pos pattern s pos =
     (case str_find s pattern (pos + length pattern + 12) of
        None \<Rightarrow> str_find s pattern 0
      | Some q \<Rightarrow> str_find s pattern (q + 1))"

partial_function (option) redact_loop :: "string \<Rightarrow> string \<Rightarrow> nat option \<Rightarrow> string option" where
  "redact_loop pattern s found =
     (case found of
        None \<Rightarrow> Some s
      | Some pos \<Rightarrow> redact_loop pattern (redact_at pattern s pos) (next_pos pattern (redact_at pattern s pos) pos))"

fun redact_all :: "string list \<Rightarrow> string \<Rightarrow> string option" where
  "redact_all [] s = Some s"
| "redact_all (pattern # patterns) s =
     Option.bind (redact_loop pattern s (str_find s pattern 0)) (redact_all patterns)"

text \<open>\<open>None\<close> when it does not end.\<close>

definition sanitize_error_message :: "string \<Rightarrow> string option" where
  "sanitize_error_message raw =
     (if raw = [] then Some ''An internal error occurred''
      else redact_all sensitive_patterns (clean_message raw))"

section \<open>URLs\<close>

definition normalize_rpc_url :: "string \<Rightarrow> string" where
  "normalize_rpc_url url =
     (if starts_with url ''wss://'' then ''https://'' @ drop 6 url
      else if starts_with url ''ws://'' then ''http://'' @ drop 5 url
      else url)"

definition contains :: "string \<Rightarrow> string \<Rightarrow> bool" where
  "contains s p \<longleftrightarrow> str_find s p 0 \<noteq> None"

definition derive_rpc_url_from_indexer :: "string \<Rightarrow> string" where
  "derive_rpc_url_from_indexer url =
     (if contains url ''preprod'' then ''https://rpc.preprod.midnight.network''
      else if contains url ''preview'' then ''https://rpc.preprod.midnight.network''
      else if contains url ''127.0.0.1'' \<or> contains url ''localhost'' then ''http://127.0.0.1:9944''
      else [])"

definition to_hex_height :: "u32 \<Rightarrow> string" where
  "to_hex_height height = ''0x'' @ nat_to_hex (unat height)"

section \<open>Calls to the node\<close>

definition parse_block_height :: "'j json_ops \<Rightarrow> 'j \<Rightarrow> u32" where
  "parse_block_height J header =
     (if \<not> is_object J header \<or> \<not> has_key J header ''number'' then 0
      else
        (let number = member J header ''number''
         in if is_string J number
            then (case stoull0 (get_string J number) of Inl _ \<Rightarrow> 0 | Inr v \<Rightarrow> ucast v)
            else if is_number_unsigned J number then word_of_int (get_number J number)
            else if is_number_integer J number then word_of_int (max 0 (get_number J number))
            else 0))"

definition rpc_request :: "'j json_ops \<Rightarrow> string \<Rightarrow> 'j \<Rightarrow> 'j" where
  "rpc_request J method params =
     mk_object J [(''jsonrpc'', mk_string J ''2.0''), (''id'', mk_number J 1), (''method'', mk_string J method), (''params'', params)]"

text \<open>What is made of an answer; \<open>None\<close> when cleaning the error does not end.\<close>

definition rpc_result :: "'j json_ops \<Rightarrow> 'j \<Rightarrow> 'j result option" where
  "rpc_result J response =
     (if has_key J response ''error'' \<and> \<not> is_null J (member J response ''error'')
      then
        (let err = member J response ''error'';
             raw = (if is_string J err then get_string J err else dump J err)
         in map_option (\<lambda>s. Inl (Runtime_error s)) (sanitize_error_message raw))
      else if \<not> has_key J response ''result'' then Some (Inl (Runtime_error ''Missing result field''))
      else Some (Inr (member J response ''result'')))"

fun rpc_paths :: "'j json_ops \<Rightarrow> 'w http \<Rightarrow> network_client \<Rightarrow> 'j \<Rightarrow> string list \<Rightarrow> string \<Rightarrow> ('w, 'j) io" where
  "rpc_paths J http c request [] errors w =
     Some (Inl (Runtime_error (''RPC call failed for all paths: '' @ errors)), w)"
| "rpc_paths J http c request (path # paths) errors w =
     (case post_json J http c path request w of
        (answer, w') \<Rightarrow>
          (case (case answer of Inl e \<Rightarrow> Some (Inl e) | Inr response \<Rightarrow> rpc_result J response) of
             None \<Rightarrow> None
           | Some (Inr r) \<Rightarrow> Some (Inr r, w')
           | Some (Inl e) \<Rightarrow>
               rpc_paths J http c request paths
                 ((if errors \<noteq> [] then errors @ '' | '' else []) @ path @ '': '' @ exc_what e) w'))"

definition rpc_call :: "'j json_ops \<Rightarrow> 'w http \<Rightarrow> string \<Rightarrow> string \<Rightarrow> 'j list \<Rightarrow> ('w, 'j) io" where
  "rpc_call J http rpc_url method params w =
     (case new_network_client (normalize_rpc_url rpc_url) 10000 of
        Inl e \<Rightarrow> Some (Inl e, w)
      | Inr c \<Rightarrow> rpc_paths J http c (rpc_request J method (mk_array J params)) [''/'', ''/rpc''] [] w)"

definition is_tx_in_pending_extrinsics :: "'j json_ops \<Rightarrow> 'w http \<Rightarrow> string \<Rightarrow> string \<Rightarrow> ('w, bool) io" where
  "is_tx_in_pending_extrinsics J http rpc_url tx_hash =
     (if tx_hash = [] then io_return False
      else
        io_catch
          (io_bind (rpc_call J http rpc_url ''author_pendingExtrinsics'' []) (\<lambda>pending.
             io_return
               (is_array J pending \<and>
                (let needle = (if starts_with tx_hash ''0x'' then drop 2 tx_hash else tx_hash)
                 in list_ex (\<lambda>item. is_string J item \<and>
                       (get_string J item = tx_hash \<or> needle \<noteq> [] \<and> contains (get_string J item) needle))
                     (elements J pending)))))
          (io_return False))"

definition get_finalized_height_from_rpc :: "'j json_ops \<Rightarrow> 'w http \<Rightarrow> string \<Rightarrow> ('w, u32) io" where
  "get_finalized_height_from_rpc J http rpc_url =
     (let fallback =
        io_catch
          (io_bind (rpc_call J http rpc_url ''chain_getHeader'' []) (\<lambda>head.
             let best = parse_block_height J head in io_return (if 2 < best then best - 2 else best)))
          (io_return 0)
      in io_bind
           (io_catch
             (io_bind (rpc_call J http rpc_url ''chain_getFinalizedHead'' []) (\<lambda>finalized_head.
                if is_string J finalized_head
                then io_bind (rpc_call J http rpc_url ''chain_getHeader'' [mk_string J (get_string J finalized_head)])
                       (\<lambda>header. io_return (Some (parse_block_height J header)))
                else io_return None))
             (io_return None))
           (\<lambda>r. case r of Some height \<Rightarrow> io_return height | None \<Rightarrow> fallback))"

definition get_best_block_hash :: "'j json_ops \<Rightarrow> 'w http \<Rightarrow> string \<Rightarrow> ('w, string) io" where
  "get_best_block_hash J http rpc_url =
     io_catch
       (io_bind (rpc_call J http rpc_url ''chain_getFinalizedHead'' []) (\<lambda>hash.
          if is_string J hash then io_return (get_string J hash)
          else io_bind (rpc_call J http rpc_url ''chain_getBlockHash'' []) (\<lambda>hash.
                 io_return (if is_string J hash then get_string J hash else []))))
       (io_return [])"

definition get_best_block_height :: "'j json_ops \<Rightarrow> 'w http \<Rightarrow> string \<Rightarrow> ('w, u32) io" where
  "get_best_block_height J http rpc_url =
     io_catch
       (io_bind (rpc_call J http rpc_url ''chain_getHeader'' []) (\<lambda>header. io_return (parse_block_height J header)))
       (io_return 0)"

section \<open>Block history\<close>

text \<open>The loop over 32-bit heights; \<open>call h\<close> asks for the hash at a height.\<close>

partial_function (option) history_loop ::
  "'j json_ops \<Rightarrow> (u32 \<Rightarrow> ('w, 'j) io) \<Rightarrow> u32 \<Rightarrow> u32 \<Rightarrow> string list \<Rightarrow> 'w \<Rightarrow> (string list result \<times> 'w) option" where
  "history_loop J call h end_height blocks w =
     (if h \<le> end_height
      then
        (case call h w of
           None \<Rightarrow> None
         | Some (Inl e, w') \<Rightarrow> Some (Inl e, w')
         | Some (Inr hash, w') \<Rightarrow>
             history_loop J call (h + 1) end_height
               (if is_string J hash \<and> get_string J hash \<noteq> [] then blocks @ [get_string J hash] else blocks) w')
      else Some (Inr blocks, w))"

definition get_block_history :: "'j json_ops \<Rightarrow> 'w http \<Rightarrow> string \<Rightarrow> u32 \<Rightarrow> u32 \<Rightarrow> ('w, string list option) io" where
  "get_block_history J http rpc_url start_height end_height =
     io_catch
       (io_bind (if end_height = 0 then get_best_block_height J http rpc_url else io_return end_height) (\<lambda>end_height.
          if end_height < start_height then io_return (Some [])
          else if 2048 < end_height - start_height
          then (\<lambda>w. Some (Inl (Runtime_error ''Requested block history range too large''), w))
          else io_bind
                 (history_loop J (\<lambda>h. rpc_call J http rpc_url ''chain_getBlockHash'' [mk_string J (to_hex_height h)])
                    start_height end_height [])
                 (\<lambda>blocks. io_return (Some blocks))))
       (io_return None)"

section \<open>Reorganisations\<close>

record reorg_event =
  fork_height :: u32
  old_block_hash :: string
  new_block_hash :: string
  blocks_reorganized :: u32
  reorg_timestamp :: u64

record block_monitor =
  last_best_block :: string
  last_best_height :: u32

text \<open>\<open>best\<close> and \<open>height\<close> are what the node reports, an empty hash when it cannot be reached.\<close>

definition detect_reorg :: "u64 \<Rightarrow> string \<Rightarrow> u32 \<Rightarrow> block_monitor \<Rightarrow> reorg_event option \<times> block_monitor" where
  "detect_reorg now best height m =
     (if last_best_block m = [] then (None, m\<lparr>last_best_block := best, last_best_height := height\<rparr>)
      else if best \<noteq> [] \<and> best \<noteq> last_best_block m \<and> height \<le> last_best_height m
      then (Some \<lparr>fork_height = (if 1 < last_best_height m then last_best_height m - 1 else 0),
              old_block_hash = last_best_block m, new_block_hash = best, blocks_reorganized = 1,
              reorg_timestamp = now\<rparr>,
            m\<lparr>last_best_block := best, last_best_height := height\<rparr>)
      else if best \<noteq> [] then (None, m\<lparr>last_best_block := best, last_best_height := height\<rparr>)
      else (None, m))"

definition poll_reorg :: "'j json_ops \<Rightarrow> 'w http \<Rightarrow> string \<Rightarrow> u64 \<Rightarrow> block_monitor \<Rightarrow> ('w, reorg_event option \<times> block_monitor) io" where
  "poll_reorg J http rpc_url now m =
     io_bind (get_best_block_hash J http rpc_url) (\<lambda>best.
       io_bind (get_best_block_height J http rpc_url) (\<lambda>height. io_return (detect_reorg now best height m)))"

definition get_abandoned_blocks :: "reorg_event \<Rightarrow> string list" where
  "get_abandoned_blocks reorg = (if old_block_hash reorg \<noteq> [] then [old_block_hash reorg] else [])"

definition resubmit_transaction :: "string \<Rightarrow> bool" where
  "resubmit_transaction tx_hash \<longleftrightarrow> tx_hash \<noteq> []"

text \<open>Every abandoned block is answered by resubmitting the empty transaction, and the refusal is dropped.\<close>

definition handle_reorg_recovery :: "reorg_event \<Rightarrow> bool \<times> bool list" where
  "handle_reorg_recovery reorg = (True, map (\<lambda>_. resubmit_transaction []) (get_abandoned_blocks reorg))"

section \<open>State and finality callbacks\<close>

text \<open>\<^verbatim>\<open>track_balance\<close> reads the account's nonce; a failed call leaves 0.\<close>

definition read_balance :: "'j json_ops \<Rightarrow> 'j result \<Rightarrow> u64" where
  "read_balance J answer =
     (case answer of
        Inl _ \<Rightarrow> 0
      | Inr r \<Rightarrow>
          if is_string J r then (case stoull0 (get_string J r) of Inl _ \<Rightarrow> 0 | Inr v \<Rightarrow> v)
          else if is_number_unsigned J r then word_of_int (get_number J r)
          else if is_number_integer J r then word_of_int (max 0 (get_number J r))
          else 0)"

text \<open>The values passed to the callback, given what each poll reads; \<open>last\<close> starts at the greatest value.\<close>

fun balance_reports :: "u64 \<Rightarrow> u64 list \<Rightarrow> u64 list" where
  "balance_reports last_balance [] = []"
| "balance_reports last_balance (current # polls) =
     (if current \<noteq> last_balance then current # balance_reports current polls
      else balance_reports last_balance polls)"

definition track_balance :: "'j json_ops \<Rightarrow> 'j result list \<Rightarrow> u64 list" where
  "track_balance J answers = balance_reports (- 1) (map (read_balance J) answers)"

definition contract_state :: "string \<Rightarrow> string \<Rightarrow> string \<Rightarrow> string" where
  "contract_state best_hash addr key =
     best_hash @ (if addr \<noteq> [] then ''|contract='' @ addr else []) @
     (if key \<noteq> [] then ''|key='' @ key else [])"

fun state_reports :: "string \<Rightarrow> string list \<Rightarrow> string list" where
  "state_reports last_state [] = []"
| "state_reports last_state (current # polls) =
     (if current \<noteq> [] \<and> current \<noteq> last_state then current # state_reports current polls
      else state_reports last_state polls)"

text \<open>The hashes \<^verbatim>\<open>subscribe_new_blocks\<close> reports, given the last one known and those read at the start and at each poll.\<close>

definition subscribe_new_blocks :: "string \<Rightarrow> string \<Rightarrow> string list \<Rightarrow> string list" where
  "subscribe_new_blocks last_best initial polls =
     (if initial \<noteq> [] then initial # state_reports initial polls else state_reports last_best polls)"

record state_change_event =
  contract_address :: string
  state_key :: string
  old_value :: string
  new_value :: string
  event_height :: u32
  event_timestamp :: u64

text \<open>\<^verbatim>\<open>subscribe_state_changes\<close>, given the best hash, the height and the time of each poll that succeeds.\<close>

fun state_changes :: "string \<Rightarrow> (string \<times> u32 \<times> u64) list \<Rightarrow> state_change_event list" where
  "state_changes last_seen_tip [] = []"
| "state_changes last_seen_tip ((best_hash, height, now) # polls) =
     (if best_hash = [] \<or> best_hash = last_seen_tip then state_changes last_seen_tip polls
      else \<lparr>contract_address = ''chain'', state_key = ''best_block_hash'', old_value = last_seen_tip,
             new_value = best_hash, event_height = height, event_timestamp = now\<rparr> # state_changes best_hash polls)"

fun finalization_reports :: "u32 \<Rightarrow> u32 list \<Rightarrow> u32 list" where
  "finalization_reports last_finalized [] = []"
| "finalization_reports last_finalized (new_finalized # polls) =
     (if last_finalized < new_finalized then new_finalized # finalization_reports new_finalized polls
      else finalization_reports last_finalized polls)"

text \<open>\<^verbatim>\<open>monitor_finalization\<close>: the height at the start is always reported.\<close>

definition monitor_finalization :: "u32 \<Rightarrow> u32 list \<Rightarrow> u32 list" where
  "monitor_finalization first polls = first # finalization_reports first polls"

definition estimate_finality_time :: "u32 \<Rightarrow> u32 \<Rightarrow> u32" where
  "estimate_finality_time finalized block_height =
     (if block_height \<le> finalized then 0 else max 6 (min 120 ((block_height - finalized) * 6)))"

definition wait_for_finality :: "(nat \<Rightarrow> u32) \<Rightarrow> u32 \<Rightarrow> bool" where
  "wait_for_finality finalized block_height \<longleftrightarrow> list_ex (\<lambda>i. block_height \<le> finalized i) [0..<120]"

definition estimate_blocks_to_finality :: "u32 \<Rightarrow> u32 \<Rightarrow> u32" where
  "estimate_blocks_to_finality best finalized = (if finalized < best then best - finalized else 0)"

definition estimate_finality_seconds :: "u32 \<Rightarrow> u32 \<Rightarrow> u32" where
  "estimate_finality_seconds best finalized = estimate_blocks_to_finality best finalized * 6"

section \<open>Transactions\<close>

datatype tx_status = IN_MEMPOOL | IN_BLOCK | FINALIZED_CONFIRMED | REORGANIZED_OUT

text \<open>
  The worker of \<^verbatim>\<open>monitor_transaction\<close>: the statuses and heights it reports. \<open>pending i\<close> and
  \<open>finalized i\<close> are the answers at poll \<open>i\<close>, \<open>running i\<close> whether monitoring is still on there; after
  the 90 polls it is read once more.
\<close>

fun monitor_polls ::
  "(nat \<Rightarrow> bool) \<Rightarrow> (nat \<Rightarrow> u32) \<Rightarrow> (nat \<Rightarrow> bool) \<Rightarrow> u32 \<Rightarrow> nat list \<Rightarrow> (tx_status \<times> u32) list option" where
  "monitor_polls pending finalized running start [] = None"
| "monitor_polls pending finalized running start (i # is) =
     (if \<not> running i then None
      else if \<not> pending i \<and> start < finalized i
      then Some [(IN_BLOCK, finalized i), (FINALIZED_CONFIRMED, finalized i)]
      else monitor_polls pending finalized running start is)"

definition monitor_transaction ::
  "(nat \<Rightarrow> bool) \<Rightarrow> (nat \<Rightarrow> u32) \<Rightarrow> (nat \<Rightarrow> bool) \<Rightarrow> u32 \<Rightarrow> bool \<Rightarrow> (tx_status \<times> u32) list" where
  "monitor_transaction pending finalized running start running_at_end =
     (IN_MEMPOOL, 0) #
       (case monitor_polls pending finalized running start [0..<90] of
          Some reports \<Rightarrow> reports
        | None \<Rightarrow> if \<not> running_at_end then [] else [(REORGANIZED_OUT, 0)])"

record tx_update =
  block_height :: u32
  tx_state :: tx_status

definition get_tx_confirmation_height :: "(string \<rightharpoonup> tx_update) \<Rightarrow> string \<Rightarrow> u32" where
  "get_tx_confirmation_height statuses tx_hash = (case statuses tx_hash of Some u \<Rightarrow> block_height u | None \<Rightarrow> 0)"

definition is_transaction_finalized :: "(string \<rightharpoonup> tx_update) \<Rightarrow> string \<Rightarrow> bool" where
  "is_transaction_finalized statuses tx_hash \<longleftrightarrow>
     (case statuses tx_hash of Some u \<Rightarrow> tx_state u = FINALIZED_CONFIRMED | None \<Rightarrow> False)"

text \<open>
  \<^verbatim>\<open>wait_for_tx_inclusion\<close>: the argument of the callback, \<open>None\<close> when it is not called. \<open>statuses i\<close> is the
  table at poll \<open>i\<close>.
\<close>

fun inclusion_polls :: "(nat \<Rightarrow> string \<rightharpoonup> tx_update) \<Rightarrow> (nat \<Rightarrow> bool) \<Rightarrow> string \<Rightarrow> nat list \<Rightarrow> bool option option" where
  "inclusion_polls statuses running tx_hash [] = None"
| "inclusion_polls statuses running tx_hash (i # is) =
     (if \<not> running i then Some None
      else if 0 < get_tx_confirmation_height (statuses i) tx_hash then Some (Some True)
      else inclusion_polls statuses running tx_hash is)"

definition wait_for_tx_inclusion :: "(nat \<Rightarrow> string \<rightharpoonup> tx_update) \<Rightarrow> (nat \<Rightarrow> bool) \<Rightarrow> string \<Rightarrow> bool \<Rightarrow> bool option" where
  "wait_for_tx_inclusion statuses running tx_hash running_at_end =
     (case inclusion_polls statuses running tx_hash [0..<60] of
        Some r \<Rightarrow> r
      | None \<Rightarrow> if running_at_end then Some False else None)"

section \<open>Waiting for finality\<close>

text \<open>
  The loop of both \<^verbatim>\<open>FinalityAwaiter\<close> functions: \<open>reached i\<close> is the condition and \<open>elapsed i\<close> the time in
  milliseconds at poll \<open>i\<close>. \<open>None\<close> when it never returns.
\<close>

partial_function (option) wait_loop :: "(nat \<Rightarrow> bool) \<Rightarrow> (nat \<Rightarrow> nat) \<Rightarrow> nat \<Rightarrow> nat \<Rightarrow> bool option" where
  "wait_loop reached elapsed timeout i =
     (if reached i then Some True
      else if 0 < timeout \<and> timeout < elapsed i then Some False
      else wait_loop reached elapsed timeout (Suc i))"

definition wait_for_tx_finality ::
  "(nat \<Rightarrow> bool) \<Rightarrow> (nat \<Rightarrow> u32) \<Rightarrow> (nat \<Rightarrow> nat) \<Rightarrow> u32 \<Rightarrow> nat \<Rightarrow> bool option" where
  "wait_for_tx_finality pending finalized elapsed finalized_start timeout =
     wait_loop (\<lambda>i. \<not> pending i \<and> finalized_start < finalized i) elapsed timeout 0"

definition wait_for_block_finality :: "(nat \<Rightarrow> u32) \<Rightarrow> (nat \<Rightarrow> nat) \<Rightarrow> u32 \<Rightarrow> nat \<Rightarrow> bool option" where
  "wait_for_block_finality finalized elapsed height timeout =
     wait_loop (\<lambda>i. height \<le> finalized i) elapsed timeout 0"

section \<open>Cleaning does not end\<close>

lemma find_from_single: "find_from [c] s = find_char c s"
  by (induction s) (auto simp: starts_with_def)

lemma find_from_drop: "p \<noteq> [] \<Longrightarrow> find_from p s = None \<Longrightarrow> find_from p (drop k s) = None"
  by (induction s arbitrary: k) (auto simp: drop_Cons split: if_splits nat.splits)

lemma find_from_append_char:
  assumes "c \<notin> set p" and "p \<noteq> []" and "find_from p x = None" and "find_from p y = None"
  shows "find_from p (x @ c # y) = None"
  using assms(3)
proof (induction x)
  case Nil
  then show ?case using assms by (cases p) (auto simp: starts_with_def)
next
  case (Cons d x)
  have "\<not> starts_with (d # x @ c # y) p"
  proof (cases "length p \<le> length (d # x)")
    case True
    then have "take (length p) ((d # x) @ c # y) = take (length p) (d # x)" by (subst take_append) simp
    moreover have "\<not> starts_with (d # x) p" using Cons.prems by (auto split: if_splits)
    ultimately show ?thesis by (simp add: starts_with_def)
  next
    case False
    then obtain m where "length p - length (d # x) = Suc m" by (cases "length p - length (d # x)") auto
    then have "take (length p) ((d # x) @ c # y) = take (length p) (d # x) @ c # take m y" by (subst take_append) simp
    then have "c \<in> set (take (length p) ((d # x) @ c # y))" by (metis in_set_conv_decomp)
    with assms(1) show ?thesis by (auto simp: starts_with_def)
  qed
  with Cons show ?case by (auto split: if_splits)
qed

lemma find_from_same_prefix:
  "find_from p (pre @ p @ r) = Some (length pre) \<Longrightarrow> find_from p (pre @ p @ r') = Some (length pre)"
proof (induction pre)
  case Nil
  then show ?case using starts_with_append [of p r'] by (cases "p @ r'") auto
next
  case (Cons c pre)
  have "take (length p) (c # pre @ p @ r) = take (length p) (c # pre @ p @ r')" by (cases "length p") simp_all
  with Cons show ?case by (auto simp: starts_with_def split: if_splits)
qed

lemma sensitive_pattern:
  assumes "pattern \<in> set sensitive_patterns"
  shows "CHR '':'' \<notin> set pattern \<and> CHR 0x0A \<notin> set pattern \<and> CHR ''>'' \<notin> set pattern \<and> pattern \<noteq> [] \<and>
    find_from pattern '': <redacted'' = None"
proof -
  have "list_all (\<lambda>pattern. CHR '':'' \<notin> set pattern \<and> CHR 0x0A \<notin> set pattern \<and> CHR ''>'' \<notin> set pattern \<and>
    pattern \<noteq> [] \<and> find_from pattern '': <redacted'' = None) sensitive_patterns"
    by (simp add: sensitive_patterns_def starts_with_def)
  with assms show ?thesis by (simp add: list_all_iff)
qed

text \<open>A sensitive word that occurs once: it is found again and again at the same place.\<close>

definition stuck :: "string \<Rightarrow> string \<Rightarrow> nat option \<Rightarrow> bool" where
  "stuck pattern s found \<longleftrightarrow> pattern \<in> set sensitive_patterns \<and>
     (\<exists>pre rest. s = pre @ pattern @ rest \<and> found = Some (length pre) \<and> find_from pattern s = Some (length pre) \<and>
        find_from pattern rest = None)"

lemma redact_at_word:
  assumes "CHR '':'' \<notin> set pattern" and "CHR 0x0A \<notin> set pattern"
  shows "\<exists>k. redact_at pattern (pre @ pattern @ rest) (length pre) \<in>
    {pre @ pattern @ rest, pre @ pattern @ '': <redacted>'' @ drop k rest}"
proof -
  have find: "str_find (pre @ pattern @ rest) [c] (length pre) = map_option ((+) (length pre + length pattern)) (find_char c rest)"
    if "c \<notin> set pattern" for c
    using that by (cases "find_char c rest") (simp_all add: str_find_def find_from_single find_char_skip)
  have "redact_at pattern (pre @ pattern @ rest) (length pre) =
      (case min_pos (find_char (CHR '':'') rest) (find_char (CHR 0x0A) rest) of None \<Rightarrow> pre @ pattern @ rest
       | Some j \<Rightarrow> if 0 < length pattern + j then pre @ pattern @ '': <redacted>'' @ drop (Suc j) rest else pre @ pattern @ rest)"
    using find [OF assms(1)] find [OF assms(2)]
    by (cases "find_char (CHR '':'') rest"; cases "find_char (CHR 0x0A) rest")
      (simp_all add: redact_at_def add.assoc flip: min_add_distrib_right)
  then show ?thesis by (auto split: option.splits if_splits)
qed

lemma stuck_step:
  assumes "stuck pattern s (Some pos)"
  shows "stuck pattern (redact_at pattern s pos) (next_pos pattern (redact_at pattern s pos) pos)"
proof -
  from assms obtain pre rest where pat: "pattern \<in> set sensitive_patterns" and s: "s = pre @ pattern @ rest"
    and pos: "pos = length pre" and first: "find_from pattern s = Some (length pre)" and once: "find_from pattern rest = None"
    by (auto simp: stuck_def)
  note word = sensitive_pattern [OF pat]
  obtain rest' where s': "redact_at pattern s pos = pre @ pattern @ rest'"
    and once': "find_from pattern rest' = None" "find_from pattern (drop 12 rest') = None"
  proof -
    obtain k where "redact_at pattern s pos \<in> {pre @ pattern @ rest, pre @ pattern @ '': <redacted>'' @ drop k rest}"
      using redact_at_word word s pos by blast
    moreover have "find_from pattern (drop 12 rest) = None" "find_from pattern (drop k rest) = None"
      using find_from_drop once word by blast+
    moreover from this have "find_from pattern ('': <redacted>'' @ drop k rest) = None"
      using find_from_append_char [of "CHR ''>''" pattern "'': <redacted''" "drop k rest"] word by simp
    ultimately show ?thesis using that once by force
  qed
  have "find_from pattern (pre @ pattern @ rest') = Some (length pre)"
    using find_from_same_prefix first s by blast
  moreover have "next_pos pattern (pre @ pattern @ rest') pos = Some (length pre)"
    using calculation once' pos by (simp add: next_pos_def str_find_def)
  ultimately show ?thesis using s' once' pat by (auto simp: stuck_def)
qed

lemma redact_loop_stuck: "redact_loop pattern s found = Some t \<Longrightarrow> \<not> stuck pattern s found"
proof (rule redact_loop.raw_induct [of "\<lambda>pattern s found t. \<not> stuck pattern s found"])
  fix rl :: "string \<Rightarrow> string \<Rightarrow> nat option \<Rightarrow> string option" and pattern s found t
  assume IH: "\<And>pattern s found t. rl pattern s found = Some t \<Longrightarrow> \<not> stuck pattern s found"
    and body: "(case found of None \<Rightarrow> Some s
      | Some pos \<Rightarrow> rl pattern (redact_at pattern s pos) (next_pos pattern (redact_at pattern s pos) pos)) = Some t"
  show "\<not> stuck pattern s found"
  proof
    assume st: "stuck pattern s found"
    then obtain pos where pos: "found = Some pos" by (auto simp: stuck_def)
    with body have "rl pattern (redact_at pattern s pos) (next_pos pattern (redact_at pattern s pos) pos) = Some t" by simp
    with IH stuck_step st pos show False by blast
  qed
qed

text \<open>One sensitive word occurs in the text, once.\<close>

definition names_secret :: "string \<Rightarrow> bool" where
  "names_secret s \<longleftrightarrow> (\<exists>pattern p. pattern \<in> set sensitive_patterns \<and> str_find s pattern 0 = Some p \<and>
     str_find s pattern (p + length pattern) = None \<and>
     list_all (\<lambda>q. q = pattern \<or> \<not> contains s q) sensitive_patterns)"

lemma find_from_split: "find_from p s = Some i \<Longrightarrow> \<exists>pre rest. s = pre @ p @ rest \<and> length pre = i"
proof (induction s arbitrary: i)
  case (Cons c s)
  show ?case
  proof (cases "starts_with (c # s) p")
    case True
    with Cons.prems show ?thesis by (auto simp: starts_with_iff)
  next
    case False
    with Cons.prems obtain j where "find_from p s = Some j" "i = Suc j" by auto
    with Cons.IH [of j] obtain pre rest where "s = pre @ p @ rest" "length pre = j" by auto
    then show ?thesis using \<open>i = Suc j\<close> by (intro exI [of _ "c # pre"] exI [of _ rest]) simp
  qed
qed (auto split: if_splits)

lemma names_secret_stuck:
  assumes "pattern \<in> set sensitive_patterns" and "str_find s pattern 0 = Some p"
    and "str_find s pattern (p + length pattern) = None"
  shows "stuck pattern s (Some p)"
proof -
  from assms(2) have f: "find_from pattern s = Some p" by (cases "find_from pattern s") (simp_all add: str_find_def)
  then obtain pre rest where "s = pre @ pattern @ rest" "length pre = p" using find_from_split by blast
  with assms f show ?thesis by (auto simp: stuck_def str_find_def)
qed

lemma redact_all_stuck:
  assumes "pattern \<in> set patterns" and "stuck pattern s (str_find s pattern 0)"
    and "list_all (\<lambda>q. q = pattern \<or> \<not> contains s q) patterns"
  shows "redact_all patterns s = None"
  using assms(1,3)
proof (induction patterns)
  case (Cons q patterns)
  show ?case
  proof (cases "q = pattern")
    case True
    then have "redact_loop q s (str_find s q 0) = None"
      using redact_loop_stuck assms(2) by (cases "redact_loop q s (str_find s q 0)") auto
    then show ?thesis by simp
  next
    case False
    with Cons show ?thesis by (simp add: contains_def redact_loop.simps)
  qed
qed simp

lemma sanitize_names_secret:
  assumes "raw \<noteq> []" and "names_secret (clean_message raw)"
  shows "sanitize_error_message raw = None"
proof -
  from assms(2) obtain pattern p where "pattern \<in> set sensitive_patterns" "str_find (clean_message raw) pattern 0 = Some p"
    "str_find (clean_message raw) pattern (p + length pattern) = None"
    "list_all (\<lambda>q. q = pattern \<or> \<not> contains (clean_message raw) q) sensitive_patterns"
    by (auto simp: names_secret_def)
  then have "redact_all sensitive_patterns (clean_message raw) = None"
    using names_secret_stuck redact_all_stuck by metis
  with assms(1) show ?thesis by (simp add: sanitize_error_message_def)
qed

lemma redact_all_absent: "list_all (\<lambda>q. \<not> contains s q) patterns \<Longrightarrow> redact_all patterns s = Some s"
  by (induction patterns) (simp_all add: redact_loop.simps contains_def)

text \<open>
  \<^verbatim>\<open>sanitize_error_message\<close> hangs on what it is there to hide. A message without sensitive words is
  cleaned and returned; one in which one of the words occurs, once, is never returned: the replacement
  keeps the word, the last search fails, and the next one starts over at the beginning.
\<close>

theorem sanitize_hangs:
  assumes "raw \<noteq> []"
  shows "(list_all (\<lambda>q. \<not> contains (clean_message raw) q) sensitive_patterns \<longrightarrow>
      sanitize_error_message raw = Some (clean_message raw)) \<and>
    (names_secret (clean_message raw) \<longrightarrow> sanitize_error_message raw = None)"
  using assms sanitize_names_secret by (simp add: sanitize_error_message_def redact_all_absent)

lemma invalid_token_names_secret: "names_secret (clean_message ''token: abc'')"
  unfolding names_secret_def by (intro exI [of _ "''token''"] exI [of _ 0]) (simp; code_simp)

theorem sanitize_hangs_witness:
  "sanitize_error_message ''token: abc'' = None \<and> sanitize_error_message ''bad nonce'' = Some ''bad nonce''"
proof
  show "sanitize_error_message ''token: abc'' = None"
    using sanitize_hangs [of "''token: abc''"] invalid_token_names_secret by simp
  have "clean_message ''bad nonce'' = ''bad nonce''" by code_simp
  moreover have "list_all (\<lambda>q. \<not> contains ''bad nonce'' q) sensitive_patterns" by code_simp
  ultimately show "sanitize_error_message ''bad nonce'' = Some ''bad nonce''"
    using sanitize_hangs [of "''bad nonce''"] by simp
qed

section \<open>A node that names a secret in an error\<close>

lemma rpc_result_hangs:
  assumes "json_laws J" and "raw \<noteq> []" and "names_secret (clean_message raw)"
  shows "rpc_result J (mk_object J [(''error'', mk_string J raw)]) = None"
  using assms sanitize_names_secret by (simp add: rpc_result_def json_laws_def Let_def)

text \<open>
  C33: When the node answers an RPC with an error text in which one of the sensitive words occurs once, the
  call does not return, whatever the method; so \<^verbatim>\<open>wait_for_tx_finality\<close> and the others that poll the node
  hang in their first call, before they look at their timeouts, and no handler is reached.
\<close>

theorem rpc_error_hangs:
  assumes "json_laws J" and "rpc_url \<noteq> []" and "parse_url (normalize_rpc_url rpc_url) = Inr ep"
    and "\<And>path hs request w. http ep path hs request w = (Answer 200 body, w)"
    and "parse J body = Inr (mk_object J [(''error'', mk_string J raw)])"
    and "raw \<noteq> []" and "names_secret (clean_message raw)"
  shows "rpc_call J http rpc_url method params w = None \<and>
    get_finalized_height_from_rpc J http rpc_url w = None \<and>
    get_best_block_hash J http rpc_url w = None"
proof -
  have "normalize_rpc_url rpc_url \<noteq> []" using assms(2) by (simp add: normalize_rpc_url_def)
  then have rpc: "rpc_call J http rpc_url m ps w' = None" for m ps w'
    using assms(3-5) rpc_result_hangs [OF assms(1,6,7)]
    by (simp add: rpc_call_def new_network_client_def post_json_def send_def do_post_result_def parse_body_def)
  then show ?thesis
    by (simp add: get_finalized_height_from_rpc_def get_best_block_hash_def io_bind_def io_catch_def Let_def)
qed

theorem rpc_error_hangs_witness:
  "rpc_call (json_std\<lparr>parse := \<lambda>s. Inr (JObject [(''error'', JString s)])\<rparr>) (\<lambda>ep path hs request w. (Answer 200 ''token: abc'', w))
     ''http://n'' ''chain_getHeader'' [] () = None"
proof -
  let ?J = "json_std\<lparr>parse := \<lambda>s. Inr (JObject [(''error'', JString s)])\<rparr>"
  have "json_laws ?J" using json_std_laws by (simp add: json_laws_def json_std_def)
  moreover have "parse_url (normalize_rpc_url ''http://n'') = Inr \<lparr>ep_host = ''n'', ep_port = 80, path_prefix = [], use_tls = False\<rparr>"
    by code_simp
  moreover have "parse ?J ''token: abc'' = Inr (mk_object ?J [(''error'', mk_string ?J ''token: abc'')])"
    by (simp add: json_std_def)
  ultimately show ?thesis
    by (intro rpc_error_hangs [where raw = "''token: abc''", THEN conjunct1] invalid_token_names_secret) (assumption | simp)+
qed

section \<open>Finality\<close>

lemma wait_loop_reached:
  assumes "reached (i + n)" and "\<And>m. m < n \<Longrightarrow> \<not> reached (i + m)" and "\<And>m. m < n \<Longrightarrow> timeout = 0 \<or> elapsed (i + m) \<le> timeout"
  shows "wait_loop reached elapsed timeout i = Some True"
  using assms
proof (induction n arbitrary: i)
  case (Suc n)
  from Suc.prems(2) [of 0] Suc.prems(3) [of 0] have "\<not> reached i" "timeout = 0 \<or> elapsed i \<le> timeout" by simp_all
  moreover have "wait_loop reached elapsed timeout (Suc i) = Some True"
  proof (rule Suc.IH)
    show "reached (Suc i + n)" using Suc.prems(1) by simp
    show "\<not> reached (Suc i + m)" "timeout = 0 \<or> elapsed (Suc i + m) \<le> timeout" if "m < n" for m
      using Suc.prems(2,3) [of "Suc m"] that by simp_all
  qed
  ultimately show ?case by (subst wait_loop.simps) auto
qed (simp add: wait_loop.simps)

lemma wait_loop_expires:
  assumes "0 < timeout" and "timeout < elapsed (i + n)"
  shows "wait_loop reached elapsed timeout i \<noteq> None"
  using assms(2)
proof (induction n arbitrary: i)
  case (Suc n)
  then have "wait_loop reached elapsed timeout (Suc i) \<noteq> None" by simp
  then show ?case by (subst wait_loop.simps) auto
next
  case 0
  with assms(1) show ?case by (subst wait_loop.simps) auto
qed

lemma wait_loop_never:
  assumes "\<And>i. \<not> reached i"
  shows "wait_loop reached elapsed 0 i = None"
proof -
  have "wait_loop reached elapsed timeout i = Some b \<Longrightarrow> timeout = 0 \<longrightarrow> (\<exists>i. reached i)" for timeout i b
    by (rule wait_loop.raw_induct [of "\<lambda>reached _ timeout _ _. timeout = 0 \<longrightarrow> (\<exists>i. reached i)"]) (auto split: if_splits)
  then show ?thesis using assms by (cases "wait_loop reached elapsed 0 i") auto
qed

text \<open>
  C22: Without a timeout, \<^verbatim>\<open>wait_for_tx_finality\<close> returns, and with success, exactly when at some poll the
  transaction is not pending and the finalized height is over that at the start; nothing asks whether the
  transaction is in a block, so one that was never submitted is final once any block is. With a timeout it
  always returns once the clock is past it.
\<close>

theorem wait_for_tx_finality_live:
  "wait_for_tx_finality pending finalized elapsed start 0 =
     (if \<exists>i. \<not> pending i \<and> start < finalized i then Some True else None) \<and>
   (0 < timeout \<and> timeout < elapsed n \<longrightarrow> wait_for_tx_finality pending finalized elapsed start timeout \<noteq> None) \<and>
   ((\<exists>i. start < finalized i) \<longrightarrow> wait_for_tx_finality (\<lambda>_. False) finalized elapsed start 0 = Some True)"
proof -
  have reached: "wait_for_tx_finality pending finalized elapsed start 0 =
     (if \<exists>i. \<not> pending i \<and> start < finalized i then Some True else None)" for pending
  proof (cases "\<exists>i. \<not> pending i \<and> start < finalized i")
    case True
    define P where "P i \<longleftrightarrow> \<not> pending i \<and> start < finalized i" for i
    from True have "P (LEAST i. P i)" unfolding P_def by (rule LeastI_ex)
    then have "wait_loop P elapsed 0 0 = Some True"
      by (intro wait_loop_reached [of _ _ "LEAST i. P i"]) (auto dest: not_less_Least)
    moreover have "P = (\<lambda>i. \<not> pending i \<and> start < finalized i)" by (simp add: P_def fun_eq_iff)
    ultimately show ?thesis using True by (simp add: wait_for_tx_finality_def)
  next
    case False
    then show ?thesis by (auto simp: wait_for_tx_finality_def intro: wait_loop_never)
  qed
  have "0 < timeout \<and> timeout < elapsed n \<longrightarrow> wait_for_tx_finality pending finalized elapsed start timeout \<noteq> None"
    using wait_loop_expires [of timeout elapsed 0 n] unfolding wait_for_tx_finality_def by auto
  then show ?thesis using reached [of pending] reached [of "\<lambda>_. False"] by simp
qed

theorem wait_for_tx_finality_live_witness:
  "wait_for_tx_finality (\<lambda>_. True) (\<lambda>_. 9) (\<lambda>i. 2000 * i) 7 5000 \<noteq> None \<and>
   wait_for_tx_finality (\<lambda>_. False) (\<lambda>i. word_of_nat i) (\<lambda>i. 2000 * i) 7 0 = Some True"
proof -
  have "(7 :: u32) < word_of_nat 8" by simp
  then have "\<exists>i. (7 :: u32) < word_of_nat i" by blast
  then show ?thesis
    using wait_for_tx_finality_live [of "\<lambda>_. True" "\<lambda>_. 9" "\<lambda>i. 2000 * i" 7 5000 3]
      wait_for_tx_finality_live [of "\<lambda>_. True" "\<lambda>i. word_of_nat i" "\<lambda>i. 2000 * i" 7 5000 3] by simp
qed

lemma finalization_reports_sorted: "sorted_wrt (<) (h # finalization_reports h polls)"
proof (induction polls arbitrary: h)
  case (Cons p polls)
  from Cons [of p] Cons [of h] show ?case by (fastforce intro: order.strict_trans)
qed simp

lemma finalization_reports_last: "last (h # finalization_reports h polls) = foldl max h polls"
proof (induction polls arbitrary: h)
  case (Cons p polls)
  from Cons [of p] Cons [of h] show ?case by (auto simp: max_def)
qed simp

text \<open>
  The heights \<^verbatim>\<open>monitor_finalization\<close> reports are strictly increasing, however the answers of the node
  vary, and the last one is the greatest height seen.
\<close>

theorem monitor_finalization_monotone:
  "sorted_wrt (<) (monitor_finalization first polls) \<and> last (monitor_finalization first polls) = foldl max first polls"
  using finalization_reports_sorted finalization_reports_last by (simp add: monitor_finalization_def)

section \<open>Boundaries\<close>

text \<open>The height \<open>2 ^ 32 - 1\<close> wraps to 0, so that a history up to it is asked for without end.\<close>

lemma history_loop_forever:
  assumes "\<And>h w. \<exists>r w'. call h w = Some (Inr r, w')"
  shows "history_loop J call h (- 1) blocks w = None"
proof -
  have "history_loop J call h end_height blocks w = Some b \<Longrightarrow>
      end_height = - 1 \<longrightarrow> (\<exists>h w. \<forall>r w'. call h w \<noteq> Some (Inr r, w'))" for h end_height blocks w b
    by (rule history_loop.raw_induct [of "\<lambda>_ call _ end_height _ _ _. end_height = - 1 \<longrightarrow> (\<exists>h w. \<forall>r w'. call h w \<noteq> Some (Inr r, w'))"])
      (auto split: if_splits option.splits sum.splits prod.splits, metis Inl_Inr_False option.inject prod.inject)
  then show ?thesis using assms by (cases "history_loop J call h (- 1) blocks w") (auto, metis)
qed

text \<open>A call that fails is reported as a balance of 0.\<close>

lemma track_balance_failure: "balance_reports b [read_balance J (Inl e)] = (if b = 0 then [] else [0])"
  by (simp add: read_balance_def)

end
