(* ===== verification/KeyStore.thy ===== *)
theory KeyStore
  imports Hex
begin

text \<open>
  Encrypted keys (src/crypto/key_encryption.cpp) and the key files of \<^verbatim>\<open>KeyManager\<close>
  (src/signing-submission/signing_submission.cpp). The key derivation, AES-256-GCM and the random bytes are
  parameters. Results: encrypted keys survive their JSON; but the ciphertext never reaches the structure that
  is stored, so that a saved private key is lost, and the check of the authentication tag accepts every
  outcome, so that any password opens a key.
\<close>

section \<open>Parameters\<close>

record encryption_config =
  opslimit :: u32
  memlimit :: nat

definition default_config :: encryption_config where
  "default_config = \<lparr>opslimit = 3, memlimit = 64 * 1024 * 1024\<rparr>"

text \<open>
  The key derivation, \<open>None\<close> on failure; encryption to a ciphertext and a tag; \<^verbatim>\<open>EVP_DecryptUpdate\<close>, which
  yields the plaintext before the tag is checked; and the return code of \<^verbatim>\<open>EVP_DecryptFinal_ex\<close>, documented
  as 1 when the tag is right and 0 when it is not.
\<close>

record cipher =
  kdf :: "string \<Rightarrow> bytes \<Rightarrow> encryption_config \<Rightarrow> bytes option"
  gcm_encrypt :: "bytes \<Rightarrow> bytes \<Rightarrow> bytes \<Rightarrow> (bytes \<times> bytes) option"
  gcm_update :: "bytes \<Rightarrow> bytes \<Rightarrow> bytes \<Rightarrow> bytes \<Rightarrow> bytes option"
  gcm_final :: "bytes \<Rightarrow> bytes \<Rightarrow> bytes \<Rightarrow> bytes \<Rightarrow> int"

section \<open>Encrypted keys\<close>

record encrypted_key =
  enc_version :: u32
  salt :: bytes
  nonce :: bytes
  ciphertext :: bytes
  tag :: bytes

definition json_hex_field :: "string \<Rightarrow> bytes \<Rightarrow> string" where
  "json_hex_field field bs = [CHR 0x22] @ field @ [CHR 0x22] @ '':'' @ [CHR 0x22] @ util_bytes_to_hex bs @ [CHR 0x22]"

definition encrypted_to_json :: "encrypted_key \<Rightarrow> string" where
  "encrypted_to_json k =
     ''{'' @ [CHR 0x22] @ ''version'' @ [CHR 0x22] @ '':'' @ to_string (unat (enc_version k)) @ '','' @
     json_hex_field ''salt'' (salt k) @ '','' @ json_hex_field ''nonce'' (nonce k) @ '','' @
     json_hex_field ''ciphertext'' (ciphertext k) @ '','' @ json_hex_field ''tag'' (tag k) @ ''}''"

text \<open>The text of a field: from behind its key to the next comma or brace.\<close>

definition find_field :: "string \<Rightarrow> string \<Rightarrow> string option" where
  "find_field s field =
     map_option (\<lambda>pos. takeWhile (\<lambda>c. c \<noteq> CHR '','' \<and> c \<noteq> CHR ''}'') (drop (pos + length field + 3) s))
       (str_find s ([CHR 0x22] @ field @ [CHR 0x22] @ '':'') 0)"

definition strip_quotes :: "string \<Rightarrow> string" where
  "strip_quotes s =
     (let t = (if s \<noteq> [] \<and> hd s = CHR 0x22 then tl s else s)
      in if t \<noteq> [] \<and> last t = CHR 0x22 then butlast t else t)"

text \<open>\<open>None\<close> when the field is missing.\<close>

definition hex_from_field :: "string \<Rightarrow> string \<Rightarrow> bytes option result" where
  "hex_from_field s field =
     (case find_field s field of
        None \<Rightarrow> Inr None
      | Some v \<Rightarrow> rbind (util_hex_to_bytes (strip_quotes v)) (\<lambda>bs. Inr (Some bs)))"

text \<open>The body of the \<^verbatim>\<open>try\<close>; all its exceptions become \<^verbatim>\<open>std::nullopt\<close>.\<close>

definition encrypted_of_json :: "string \<Rightarrow> encrypted_key option" where
  "encrypted_of_json s =
     (case
        rbind (case find_field s ''version'' of
                 None \<Rightarrow> Inr 1
               | Some v \<Rightarrow> rbind (stoull v) (\<lambda>n. Inr (ucast n))) (\<lambda>version.
        rbind (hex_from_field s ''salt'') (\<lambda>salt.
        rbind (hex_from_field s ''nonce'') (\<lambda>nonce.
        rbind (hex_from_field s ''ciphertext'') (\<lambda>ciphertext.
        rbind (hex_from_field s ''tag'') (\<lambda>tag.
          Inr (case (salt, nonce, ciphertext, tag) of
                 (Some sa, Some no, Some ci, Some ta) \<Rightarrow>
                   Some \<lparr>enc_version = version, salt = sa, nonce = no, ciphertext = ci, tag = ta\<rparr>
               | _ \<Rightarrow> None))))))
      of Inl _ \<Rightarrow> None | Inr k \<Rightarrow> k)"

section \<open>Encryption\<close>

text \<open>
  \<open>random_salt\<close> and \<open>random_nonce\<close> are the bytes drawn, \<open>None\<close> when drawing them throws. The ciphertext is
  made in a local buffer, while the field of the result, which is empty, is resized to its length: it holds
  zeros.
\<close>

definition encrypt_key ::
  "cipher \<Rightarrow> bytes option \<Rightarrow> bytes option \<Rightarrow> bytes \<Rightarrow> string \<Rightarrow> encryption_config \<Rightarrow> encrypted_key option" where
  "encrypt_key E random_salt random_nonce key_bytes password config =
     (if password = [] then None
      else Option.bind random_salt (\<lambda>sa. Option.bind random_nonce (\<lambda>no.
        Option.bind (kdf E password sa config) (\<lambda>derived_key.
        map_option (\<lambda>(ct, ta). \<lparr>enc_version = 1, salt = sa, nonce = no, ciphertext = replicate (length ct) 0, tag = ta\<rparr>)
          (gcm_encrypt E derived_key no key_bytes)))))"

definition decrypt_key :: "cipher \<Rightarrow> encrypted_key \<Rightarrow> string \<Rightarrow> bytes option" where
  "decrypt_key E k password =
     (if enc_version k \<noteq> 1 then None
      else if ciphertext k = [] then None
      else Option.bind (kdf E password (salt k) default_config) (\<lambda>derived_key.
        Option.bind (gcm_update E derived_key (nonce k) (tag k) (ciphertext k)) (\<lambda>plaintext.
          if gcm_final E derived_key (nonce k) (tag k) (ciphertext k) < 0 then None else Some plaintext)))"

definition verify_password :: "cipher \<Rightarrow> encrypted_key \<Rightarrow> string \<Rightarrow> bool" where
  "verify_password E k password \<longleftrightarrow> decrypt_key E k password \<noteq> None"

fun ke_hex_loop :: "string \<Rightarrow> bytes option" where
  "ke_hex_loop (a # b # s) =
     (let high = hex_nibble a; low = hex_nibble b
      in if high < 0 \<or> low < 0 then None
         else map_option ((#) (word_of_int (push_bit 4 high OR low))) (ke_hex_loop s))"
| "ke_hex_loop s = Some []"

definition ke_hex_to_bytes :: "string \<Rightarrow> bytes option" where
  "ke_hex_to_bytes hex =
     (let clean = (if 2 \<le> length hex \<and> take 2 hex = ''0x'' then drop 2 hex else hex)
      in if length clean mod 2 \<noteq> 0 then None else ke_hex_loop clean)"

definition encrypt_hex_key ::
  "cipher \<Rightarrow> bytes option \<Rightarrow> bytes option \<Rightarrow> string \<Rightarrow> string \<Rightarrow> encryption_config \<Rightarrow> encrypted_key option" where
  "encrypt_hex_key E random_salt random_nonce hex_key password config =
     Option.bind (ke_hex_to_bytes hex_key) (\<lambda>key_bytes. encrypt_key E random_salt random_nonce key_bytes password config)"

definition decrypt_hex_key :: "cipher \<Rightarrow> encrypted_key \<Rightarrow> string \<Rightarrow> string option" where
  "decrypt_hex_key E k password = map_option (\<lambda>bs. ''0x'' @ util_bytes_to_hex bs) (decrypt_key E k password)"

fun compare_loop :: "bytes \<Rightarrow> bytes \<Rightarrow> u8 \<Rightarrow> u8" where
  "compare_loop (a # as) (b # bs) diff = compare_loop as bs (diff OR (a XOR b))"
| "compare_loop _ _ diff = diff"

text \<open>Both arguments have the given size.\<close>

definition constant_time_compare :: "bytes \<Rightarrow> bytes \<Rightarrow> bool" where
  "constant_time_compare a b \<longleftrightarrow> a \<noteq> [] \<and> compare_loop a b 0 = 0"

section \<open>Key files\<close>

datatype key_type = SR25519 | ED25519 | ECDSA | BIP340 | BLS | Other_type int

fun key_type_value :: "key_type \<Rightarrow> int" where
  "key_type_value SR25519 = 0"
| "key_type_value ED25519 = 1"
| "key_type_value ECDSA = 2"
| "key_type_value BIP340 = 3"
| "key_type_value BLS = 4"
| "key_type_value (Other_type n) = n"

definition key_type_of :: "int \<Rightarrow> key_type" where
  "key_type_of n =
     (if n = 0 then SR25519 else if n = 1 then ED25519 else if n = 2 then ECDSA else if n = 3 then BIP340
      else if n = 4 then BLS else Other_type n)"

record keypair =
  key_kind :: key_type
  kp_public :: string
  kp_private :: string
  kp_seed :: string

definition save_config :: encryption_config where
  "save_config = \<lparr>opslimit = 4, memlimit = 128 * 1024 * 1024\<rparr>"

definition int_text :: "int \<Rightarrow> string" where
  "int_text n = (if n < 0 then ''-'' @ to_string (nat (- n)) else to_string (nat n))"

definition newline :: string where
  "newline = [CHR 0x0A]"

definition metadata_marker :: string where
  "metadata_marker = ''[[KEY_METADATA]]''"

text \<open>The content \<^verbatim>\<open>save_key\<close> writes, \<open>None\<close> when it fails before.\<close>

definition save_key :: "cipher \<Rightarrow> bytes option \<Rightarrow> bytes option \<Rightarrow> keypair \<Rightarrow> string \<Rightarrow> string option" where
  "save_key E random_salt random_nonce kp password =
     map_option (\<lambda>encrypted.
       encrypted_to_json encrypted @ newline @ metadata_marker @ newline @
       ''type='' @ int_text (key_type_value (key_kind kp)) @ newline @
       ''public_key='' @ kp_public kp @ newline @
       (if kp_seed kp \<noteq> [] then ''seed_encrypted='' @ encrypted_to_json encrypted @ newline else []))
     (encrypt_hex_key E random_salt random_nonce (kp_private kp) password save_config)"

text \<open>The successive lines \<^verbatim>\<open>std::getline\<close> reads.\<close>

function getlines :: "string \<Rightarrow> string list" where
  "getlines s =
     (if s = [] then []
      else takeWhile (\<lambda>c. c \<noteq> CHR 0x0A) s # getlines (drop (Suc (length (takeWhile (\<lambda>c. c \<noteq> CHR 0x0A) s))) s))"
  by pat_completeness auto
termination by (relation "measure length") auto

declare getlines.simps [simp del]

text \<open>One line of metadata; the encrypted seed is read and dropped.\<close>

definition read_metadata :: "keypair \<Rightarrow> string \<Rightarrow> keypair result" where
  "read_metadata kp line =
     (case find_char (CHR ''='') line of
        None \<Rightarrow> Inr kp
      | Some eq_pos \<Rightarrow>
          (let key = take eq_pos line; val = drop (eq_pos + 1) line
           in if key = ''type'' then rbind (stoi val) (\<lambda>n. Inr (kp\<lparr>key_kind := key_type_of n\<rparr>))
              else if key = ''public_key'' then Inr (kp\<lparr>kp_public := val\<rparr>)
              else Inr kp))"

fun read_metadata_lines :: "keypair \<Rightarrow> string list \<Rightarrow> keypair result" where
  "read_metadata_lines kp [] = Inr kp"
| "read_metadata_lines kp (line # lines) = rbind (read_metadata kp line) (\<lambda>kp'. read_metadata_lines kp' lines)"

definition load_key :: "cipher \<Rightarrow> string \<Rightarrow> string \<Rightarrow> keypair option" where
  "load_key E content password =
     (case str_find content metadata_marker 0 of
        None \<Rightarrow> None
      | Some meta_pos \<Rightarrow>
          (case read_metadata_lines \<lparr>key_kind = SR25519, kp_public = [], kp_private = [], kp_seed = []\<rparr>
                  (getlines (drop (meta_pos + 16) content)) of
             Inl _ \<Rightarrow> None
           | Inr kp \<Rightarrow>
               Option.bind (encrypted_of_json (take meta_pos content)) (\<lambda>encrypted.
                 map_option (\<lambda>key. kp\<lparr>kp_private := key\<rparr>) (decrypt_hex_key E encrypted password))))"

section \<open>Keys and their JSON\<close>

lemma starts_with_simps:
  "starts_with s []" "\<not> starts_with [] (d # p)" "starts_with (c # s) (d # p) \<longleftrightarrow> c = d \<and> starts_with s p"
  by (auto simp: starts_with_def)

lemma find_field_Cons:
  "\<not> starts_with (c # s) ([CHR 0x22] @ field @ [CHR 0x22] @ '':'') \<Longrightarrow> find_field (c # s) field = find_field s field"
  by (simp add: find_field_def str_find_def option.map_comp o_def numeral_eq_Suc)

lemma find_field_here:
  "find_field (CHR 0x22 # field @ CHR 0x22 # CHR '':'' # s) field = Some (takeWhile (\<lambda>c. c \<noteq> CHR '','' \<and> c \<noteq> CHR ''}'') s)"
proof -
  have "starts_with (CHR 0x22 # field @ CHR 0x22 # CHR '':'' # s) ([CHR 0x22] @ field @ [CHR 0x22] @ '':'')"
    by (simp add: starts_with_def)
  then show ?thesis by (simp add: find_field_def str_find_def numeral_eq_Suc)
qed

lemma find_field_skip: "CHR 0x22 \<notin> set hs \<Longrightarrow> find_field (hs @ s) field = find_field s field"
  by (induction hs) (auto simp: find_field_Cons starts_with_simps)

lemma no_quote [simp]: "CHR 0x22 \<notin> set (util_bytes_to_hex bs)" "CHR 0x22 \<notin> set (to_string n)"
  using util_bytes_to_hex_xdigits to_string_digits by (force simp: cctype_defs)+

lemma no_delimiter [simp]:
  "CHR '','' \<notin> set (util_bytes_to_hex bs)" "CHR '','' \<notin> set (to_string n)"
  "CHR ''}'' \<notin> set (util_bytes_to_hex bs)" "CHR ''}'' \<notin> set (to_string n)"
  using util_bytes_to_hex_xdigits to_string_digits by (force simp: cctype_defs)+

lemma starts_with_value:
  assumes "d \<in> set p" and "d \<notin> set hs" and "c \<notin> set p"
  shows "\<not> starts_with (hs @ c # t) (p @ r)"
proof
  assume "starts_with (hs @ c # t) (p @ r)"
  then obtain u where "hs @ c # t = p @ u" by (auto simp: starts_with_iff)
  then obtain us where "hs = p @ us \<or> hs @ us = p \<and> c # t = us @ u" by (auto simp: append_eq_append_conv2)
  with assms show False by (cases us) auto
qed

lemma until_delimiter:
  "CHR '','' \<notin> set hs \<Longrightarrow> CHR ''}'' \<notin> set hs \<Longrightarrow>
    takeWhile (\<lambda>c. c \<noteq> CHR '','' \<and> c \<noteq> CHR ''}'') (hs @ t) = hs @ takeWhile (\<lambda>c. c \<noteq> CHR '','' \<and> c \<noteq> CHR ''}'') t"
  by (induction hs) auto

lemma value_not_key:
  "\<not> starts_with (util_bytes_to_hex bs @ CHR 0x22 # t) (''salt'' @ r)"
  "\<not> starts_with (util_bytes_to_hex bs @ CHR 0x22 # t) (''nonce'' @ r)"
  "\<not> starts_with (util_bytes_to_hex bs @ CHR 0x22 # t) (''ciphertext'' @ r)"
  "\<not> starts_with (util_bytes_to_hex bs @ CHR 0x22 # t) (''tag'' @ r)"
proof -
  have hex: "CHR ''t'' \<notin> set (util_bytes_to_hex bs)" "CHR ''o'' \<notin> set (util_bytes_to_hex bs)"
    using util_bytes_to_hex_xdigits by (force simp: cctype_defs)+
  show "\<not> starts_with (util_bytes_to_hex bs @ CHR 0x22 # t) (''salt'' @ r)"
    "\<not> starts_with (util_bytes_to_hex bs @ CHR 0x22 # t) (''ciphertext'' @ r)"
    "\<not> starts_with (util_bytes_to_hex bs @ CHR 0x22 # t) (''tag'' @ r)"
    by (rule starts_with_value [OF _ hex(1)]; simp)+
  show "\<not> starts_with (util_bytes_to_hex bs @ CHR 0x22 # t) (''nonce'' @ r)"
    by (rule starts_with_value [OF _ hex(2)]; simp)
qed

lemmas json_key_simps = encrypted_to_json_def json_hex_field_def find_field_Cons find_field_skip starts_with_simps
  value_not_key [simplified] until_delimiter

lemma json_fields:
  "find_field (encrypted_to_json k @ t) ''version'' = Some (to_string (unat (enc_version k)))"
  "find_field (encrypted_to_json k @ t) ''salt'' = Some (CHR 0x22 # util_bytes_to_hex (salt k) @ [CHR 0x22])"
  "find_field (encrypted_to_json k @ t) ''nonce'' = Some (CHR 0x22 # util_bytes_to_hex (nonce k) @ [CHR 0x22])"
  "find_field (encrypted_to_json k @ t) ''ciphertext'' = Some (CHR 0x22 # util_bytes_to_hex (ciphertext k) @ [CHR 0x22])"
  "find_field (encrypted_to_json k @ t) ''tag'' = Some (CHR 0x22 # util_bytes_to_hex (tag k) @ [CHR 0x22])"
  using find_field_here [of "''version''"] find_field_here [of "''salt''"] find_field_here [of "''nonce''"]
    find_field_here [of "''ciphertext''"] find_field_here [of "''tag''"] by (simp_all add: json_key_simps)

lemma encrypted_of_json_append: "encrypted_of_json (encrypted_to_json k @ t) = Some k"
proof -
  have hex: "strip_quotes (CHR 0x22 # util_bytes_to_hex bs @ [CHR 0x22]) = util_bytes_to_hex bs" for bs
    by (simp add: strip_quotes_def)
  have "unat (enc_version k) < 2 ^ LENGTH(32)" by (rule unsigned_less)
  then have small: "unat (enc_version k) < 2 ^ 64" by simp
  then have "stoull (to_string (unat (enc_version k))) = Inr (word_of_nat (unat (enc_version k)))" by (rule stoull_to_string)
  moreover have "ucast (word_of_nat (unat (enc_version k)) :: u64) = enc_version k"
    by simp (rule bit_word_eqI, simp add: bit_simps)
  ultimately show ?thesis
    by (simp add: encrypted_of_json_def json_fields hex_from_field_def hex util_hex.dec_enc)
qed

text \<open>
  An encrypted key is read back from its JSON text.
\<close>

theorem encrypted_json_roundtrip: "encrypted_of_json (encrypted_to_json k) = Some k"
  using encrypted_of_json_append [of k "[]"] by simp

section \<open>The authentication tag\<close>

text \<open>
  Whatever the password, and whatever the tag, a key is decrypted and the password accepted, as long as
  deriving a key and the decryption itself do not fail: \<^verbatim>\<open>EVP_DecryptFinal_ex\<close> reports a wrong tag by 0,
  and only negative codes are taken for failures.
\<close>

theorem any_password_accepted:
  assumes "gcm_final E = (\<lambda>key no ta ct. if authentic key no ta ct then 1 else 0)"
    and "enc_version k = 1" and "ciphertext k \<noteq> []"
    and "kdf E password (salt k) default_config = Some derived_key"
    and "gcm_update E derived_key (nonce k) (tag k) (ciphertext k) = Some plaintext"
  shows "verify_password E k password \<and> decrypt_key E k password = Some plaintext"
  using assms by (simp add: verify_password_def decrypt_key_def)

definition toy_cipher :: cipher where
  "toy_cipher = \<lparr>
     kdf = (\<lambda>password salt config. Some (map byte_of_char (take 1 password))),
     gcm_encrypt = (\<lambda>key no pt. Some (map ((XOR) (hd key)) pt, [hd key])),
     gcm_update = (\<lambda>key no ta ct. Some (map ((XOR) (hd key)) ct)),
     gcm_final = (\<lambda>key no ta ct. if ta = [hd key] then 1 else 0)\<rparr>"

theorem any_password_accepted_witness:
  "verify_password toy_cipher \<lparr>enc_version = 1, salt = [], nonce = [], ciphertext = [7], tag = [9]\<rparr> ''wrong''"
  using any_password_accepted [of toy_cipher "\<lambda>key no ta ct. ta = [hd key]"
      "\<lparr>enc_version = 1, salt = [], nonce = [], ciphertext = [7], tag = [9]\<rparr>" "''wrong''"]
  by (simp add: toy_cipher_def)

section \<open>Key files\<close>

lemma ke_hex_loop_enc: "ke_hex_loop (util_bytes_to_hex bs) = Some bs"
  by (induction bs) (simp_all add: hex_nibble_xdigit of_nibble_digits Let_def)

lemma ke_hex_to_bytes_enc: "ke_hex_to_bytes (''0x'' @ util_bytes_to_hex bs) = Some bs"
  by (simp add: ke_hex_to_bytes_def ke_hex_loop_enc Let_def)

text \<open>
  What is documented of AES-GCM: the text is combined with a key stream that depends on the key and the
  nonce, and \<^verbatim>\<open>EVP_DecryptFinal_ex\<close> returns 1 or 0.
\<close>

definition cipher_laws :: "cipher \<Rightarrow> (bytes \<Rightarrow> bytes \<Rightarrow> nat \<Rightarrow> bytes) \<Rightarrow> bool" where
  "cipher_laws E key_stream \<longleftrightarrow>
     (\<forall>key no pt ct ta. gcm_encrypt E key no pt = Some (ct, ta) \<longrightarrow> ct = map2 (XOR) (key_stream key no (length pt)) pt) \<and>
     (\<forall>key no ta ct. gcm_update E key no ta ct = Some (map2 (XOR) (key_stream key no (length ct)) ct)) \<and>
     (\<forall>key no ta ct. gcm_final E key no ta ct = 0 \<or> gcm_final E key no ta ct = 1) \<and>
     (\<forall>key no n. length (key_stream key no n) = n)"

lemma map2_xor_zeros: "map2 (XOR) xs (replicate (length xs) (0 :: u8)) = xs"
  by (induction xs) simp_all

lemma decrypt_encrypted:
  assumes "cipher_laws E ks" and "encrypt_hex_key E (Some sa) (Some no) (''0x'' @ util_bytes_to_hex bs) password config = Some k"
    and "bs \<noteq> []" and "kdf E password sa default_config = Some key"
  shows "decrypt_hex_key E k password = Some (''0x'' @ util_bytes_to_hex (ks key no (length bs)))"
proof -
  from assms(1) have E: "length (ks key no n) = n"
    "gcm_update E key no ta ct = Some (map2 (XOR) (ks key no (length ct)) ct)" "\<not> gcm_final E key no ta ct < 0"
    "gcm_encrypt E key' no pt = Some (ct, ta) \<Longrightarrow> length ct = length pt" for n ta ct pt key'
    unfolding cipher_laws_def
    by (simp, simp, metis not_one_less_zero order_less_irrefl, metis length_map length_zip min.idem)
  from assms(2) obtain key' ct ta where
    "gcm_encrypt E key' no bs = Some (ct, ta)"
    "k = \<lparr>enc_version = 1, salt = sa, nonce = no, ciphertext = replicate (length ct) 0, tag = ta\<rparr>"
    by (auto simp: encrypt_hex_key_def ke_hex_to_bytes_enc [simplified] encrypt_key_def bind_eq_Some_conv split: if_splits)
  with E(4) assms(3,4) show ?thesis
    using map2_xor_zeros [of "ks key no (length bs)"]
    by (simp add: decrypt_hex_key_def decrypt_key_def E(1,2,3))
qed

lemma getlines_newline: "CHR 0x0A \<notin> set l \<Longrightarrow> getlines (l @ CHR 0x0A # s) = l # getlines s"
proof -
  assume "CHR 0x0A \<notin> set l"
  then have "takeWhile (\<lambda>c. c \<noteq> CHR 0x0A) (l @ CHR 0x0A # s) = l" by (induction l) auto
  then show ?thesis by (subst getlines.simps) simp
qed

lemma getlines_Nil: "getlines [] = []"
  by (subst getlines.simps) simp

lemma metadata_before: "CHR ''['' \<notin> set s \<Longrightarrow> str_find (s @ metadata_marker @ t) metadata_marker 0 = Some (length s)"
proof (induction s)
  case Nil
  have "starts_with (metadata_marker @ t) metadata_marker" by simp
  then show ?case by (cases "metadata_marker @ t") (auto simp: str_find_def metadata_marker_def)
next
  case (Cons c s)
  then have "\<not> starts_with (c # s @ metadata_marker @ t) metadata_marker" by (auto simp: metadata_marker_def starts_with_simps)
  with Cons show ?case by (simp add: str_find_def)
qed

lemma encrypted_json_chars: "list_all (\<lambda>c. c \<noteq> CHR 0x0A \<and> c \<noteq> CHR ''['') (encrypted_to_json k)"
proof -
  have hex: "list_all (\<lambda>c. c \<noteq> CHR 0x0A \<and> c \<noteq> CHR ''['') (util_bytes_to_hex bs)" for bs
    by (auto simp: list_all_iff cctype_defs dest!: util_bytes_to_hex_xdigits)
  have dec: "list_all (\<lambda>c. c \<noteq> CHR 0x0A \<and> c \<noteq> CHR ''['') (to_string n)" for n
    using to_string_digits [of n] by (auto simp: list_all_iff cctype_defs)
  show ?thesis unfolding encrypted_to_json_def json_hex_field_def by (simp add: hex dec)
qed

lemma read_metadata_simps:
  "read_metadata kp [] = Inr kp"
  "n < 2 ^ 31 \<Longrightarrow> read_metadata kp (''type='' @ to_string n) = Inr (kp\<lparr>key_kind := key_type_of (int n)\<rparr>)"
  "read_metadata kp (''public_key='' @ s) = Inr (kp\<lparr>kp_public := s\<rparr>)"
  "read_metadata kp (''seed_encrypted='' @ s) = Inr kp"
  by (simp_all add: read_metadata_def stoi_to_string Let_def)

text \<open>
  C19: A key file that \<^verbatim>\<open>save_key\<close> wrote is loaded with its type and public key, but the private key is lost:
  what \<^verbatim>\<open>load_key\<close> returns instead is the key stream of AES-GCM, the same for all private keys of that length;
  the seed, which is written, is not read either.
\<close>

theorem saved_key_lost:
  assumes "cipher_laws E key_stream" and "kdf E password sa default_config = Some derived_key"
    and "kp_private kp = ''0x'' @ util_bytes_to_hex bs" and "bs \<noteq> []"
    and "CHR 0x0A \<notin> set (kp_public kp)" and "key_kind kp \<in> {SR25519, ED25519, ECDSA, BIP340, BLS}"
    and "save_key E (Some sa) (Some no) kp password = Some content"
  shows "load_key E content password =
    Some (kp\<lparr>kp_private := ''0x'' @ util_bytes_to_hex (key_stream derived_key no (length bs)), kp_seed := []\<rparr>)"
proof -
  from assms(7) obtain k where k: "encrypt_hex_key E (Some sa) (Some no) (kp_private kp) password save_config = Some k"
    and content: "content = encrypted_to_json k @ newline @ metadata_marker @ newline @
       ''type='' @ int_text (key_type_value (key_kind kp)) @ newline @ ''public_key='' @ kp_public kp @ newline @
       (if kp_seed kp \<noteq> [] then ''seed_encrypted='' @ encrypted_to_json k @ newline else [])"
    unfolding save_key_def by blast
  define n where "n = nat (key_type_value (key_kind kp))"
  have n: "n < 2 ^ 31" "int_text (key_type_value (key_kind kp)) = to_string n" "key_type_of (int n) = key_kind kp"
    using assms(6) by (auto simp: n_def int_text_def key_type_of_def)
  define rest where "rest = (if kp_seed kp \<noteq> [] then ''seed_encrypted='' @ encrypted_to_json k @ newline else [])"
  define meta where "meta = newline @ ''type='' @ to_string n @ newline @ ''public_key='' @ kp_public kp @ newline @ rest"
  have content': "content = (encrypted_to_json k @ newline) @ metadata_marker @ meta"
    by (simp add: content meta_def rest_def n(2))
  have json: "CHR 0x0A \<notin> set (encrypted_to_json k)" "CHR ''['' \<notin> set (encrypted_to_json k)"
    using encrypted_json_chars [of k] by (auto simp: list_all_iff)
  then have pos: "str_find content metadata_marker 0 = Some (length (encrypted_to_json k @ newline))"
    unfolding content' by (intro metadata_before) (simp add: newline_def)
  have lines: "CHR 0x0A \<notin> set (''type='' @ to_string n)" "CHR 0x0A \<notin> set (''public_key='' @ kp_public kp)"
    "CHR 0x0A \<notin> set (''seed_encrypted='' @ encrypted_to_json k)"
    using to_string_digits [of n] assms(5) json(1) by (auto simp: cctype_defs)
  have "getlines ((''seed_encrypted='' @ encrypted_to_json k) @ CHR 0x0A # []) = [''seed_encrypted='' @ encrypted_to_json k]"
    using getlines_newline [OF lines(3), of "[]"] by (simp only: getlines_Nil)
  then have "getlines rest = (if kp_seed kp \<noteq> [] then [''seed_encrypted='' @ encrypted_to_json k] else [])"
    unfolding rest_def newline_def by (simp add: getlines_Nil)
  moreover have "getlines meta = [] # (''type='' @ to_string n) # (''public_key='' @ kp_public kp) # getlines rest"
  proof -
    have "meta = [] @ CHR 0x0A # (''type='' @ to_string n) @ CHR 0x0A # (''public_key='' @ kp_public kp) @ CHR 0x0A # rest"
      by (simp add: meta_def newline_def)
    then show ?thesis
      using getlines_newline [of "[]" "(''type='' @ to_string n) @ CHR 0x0A # (''public_key='' @ kp_public kp) @ CHR 0x0A # rest"]
        getlines_newline [OF lines(1), of "(''public_key='' @ kp_public kp) @ CHR 0x0A # rest"] getlines_newline [OF lines(2), of rest]
      by simp
  qed
  ultimately have "read_metadata_lines \<lparr>key_kind = SR25519, kp_public = [], kp_private = [], kp_seed = []\<rparr> (getlines meta) =
      Inr \<lparr>key_kind = key_kind kp, kp_public = kp_public kp, kp_private = [], kp_seed = []\<rparr>"
    using read_metadata_simps(2) [of n] n read_metadata_simps(3,4) by (simp add: read_metadata_simps(1))
  moreover have "drop (length (encrypted_to_json k @ newline) + 16) content = meta"
    unfolding content' by (simp add: metadata_marker_def)
  moreover have "encrypted_of_json (encrypted_to_json k @ newline) = Some k" by (rule encrypted_of_json_append)
  ultimately show ?thesis
    using decrypt_encrypted [OF assms(1) _ assms(4,2)] k assms(3) pos content' by (simp add: load_key_def)
qed

lemma toy_cipher_laws: "cipher_laws toy_cipher (\<lambda>key no n. replicate n (hd key))"
proof -
  have "map ((XOR) x) ct = map2 (XOR) (replicate (length ct) x) ct" for x :: u8 and ct
    by (induction ct) simp_all
  then show ?thesis by (simp add: cipher_laws_def toy_cipher_def)
qed

definition sample_keypair :: keypair where
  "sample_keypair = \<lparr>key_kind = ED25519, kp_public = ''0xab'', kp_private = ''0x'' @ util_bytes_to_hex [7], kp_seed = ''seed''\<rparr>"

theorem saved_key_lost_witness:
  "\<exists>content. save_key toy_cipher (Some []) (Some []) sample_keypair ''pw'' = Some content \<and>
     load_key toy_cipher content ''pw'' = Some (sample_keypair\<lparr>kp_private := ''0x'' @ util_bytes_to_hex [0x70], kp_seed := []\<rparr>)"
proof -
  have "ke_hex_to_bytes (kp_private sample_keypair) = Some [7]"
    using ke_hex_to_bytes_enc [of "[7]"] by (simp add: sample_keypair_def)
  then obtain content where c: "save_key toy_cipher (Some []) (Some []) sample_keypair ''pw'' = Some content"
    by (simp add: save_key_def encrypt_hex_key_def encrypt_key_def toy_cipher_def)
  have "kp_private sample_keypair = ''0x'' @ util_bytes_to_hex [7]" by (simp add: sample_keypair_def)
  note lost = saved_key_lost [OF toy_cipher_laws _ this _ _ _ c, of "map byte_of_char ''p''"]
  have "hd (map byte_of_char ''p'') = 0x70" by code_simp
  with lost have "load_key toy_cipher content ''pw'' =
      Some (sample_keypair\<lparr>kp_private := ''0x'' @ util_bytes_to_hex [0x70], kp_seed := []\<rparr>)"
    by (simp add: toy_cipher_def sample_keypair_def)
  with c show ?thesis by blast
qed

lemma compare_loop_zero: "compare_loop as bs diff = 0 \<longleftrightarrow> diff = 0 \<and> list_all2 (=) (take (length bs) as) (take (length as) bs)"
proof (induction as bs diff rule: compare_loop.induct)
  case (1 a as b bs diff)
  have "diff OR (a XOR b) = 0 \<longleftrightarrow> diff = 0 \<and> a = b" by (auto simp: or_eq_0_iff) (metis xor.assoc xor_self_eq xor.right_neutral xor.left_neutral)
  with 1 show ?case by auto
qed auto

text \<open>
  \<^verbatim>\<open>constant_time_compare\<close> of two buffers of the same size is their equality, but false for empty ones.
\<close>

theorem constant_time_compare_eq:
  assumes "length a = length b"
  shows "constant_time_compare a b \<longleftrightarrow> a = b \<and> a \<noteq> []"
  using assms by (auto simp: constant_time_compare_def compare_loop_zero list.rel_eq)

theorem constant_time_compare_eq_witness: "constant_time_compare [1, 2] [1, 2] \<and> \<not> constant_time_compare [1, 2] [1, 3]"
  using constant_time_compare_eq [of "[1, 2]" "[1, 2]"] constant_time_compare_eq [of "[1, 2]" "[1, 3]"] by simp

end
