(* ===== verification/Session.thy ===== *)
theory Session
  imports Hex
begin

text \<open>
  Sessions (src/session/session_manager.cpp): identifiers from random bytes, and the map of sessions. The
  random bytes and the clock are arguments. The manager refines a set of open identifiers, and keeps every
  session under its own identifier, a version 4 UUID.
\<close>

section \<open>Identifiers\<close>

definition uuid_bytes :: "bytes \<Rightarrow> bytes" where
  "uuid_bytes random = (random[6 := random ! 6 AND 0x0F OR 0x40])[8 := random ! 8 AND 0x3F OR 0x80]"

fun uuid_text :: "nat \<Rightarrow> bytes \<Rightarrow> string" where
  "uuid_text i [] = []"
| "uuid_text i (b # bs) =
     oss_hex2 b @ (if i = 3 \<or> i = 5 \<or> i = 7 \<or> i = 9 then ''-'' else []) @ uuid_text (i + 1) bs"

definition generate_uuid :: "bytes \<Rightarrow> string" where
  "generate_uuid random = uuid_text 0 (uuid_bytes random)"

section \<open>The manager\<close>

record session_info =
  session_id :: string
  device_id :: string
  created_at :: int
  last_activity :: int
  is_active :: bool

type_synonym sessions = "string \<rightharpoonup> session_info"

definition create_session :: "bytes \<Rightarrow> int \<Rightarrow> string \<Rightarrow> sessions \<Rightarrow> string \<times> sessions" where
  "create_session random now device m =
     (let sid = generate_uuid random
      in (sid, m(sid \<mapsto> \<lparr>session_id = sid, device_id = device, created_at = now, last_activity = now, is_active = True\<rparr>)))"

definition get_session :: "string \<Rightarrow> sessions \<Rightarrow> session_info" where
  "get_session sid m =
     (case m sid of
        Some info \<Rightarrow> info
      | None \<Rightarrow> \<lparr>session_id = [], device_id = [], created_at = 0, last_activity = 0, is_active = False\<rparr>)"

definition update_activity :: "int \<Rightarrow> string \<Rightarrow> sessions \<Rightarrow> sessions" where
  "update_activity now sid m =
     (case m sid of Some info \<Rightarrow> m(sid \<mapsto> info\<lparr>last_activity := now\<rparr>) | None \<Rightarrow> m)"

definition close_session :: "string \<Rightarrow> sessions \<Rightarrow> sessions" where
  "close_session sid m =
     (case m sid of Some info \<Rightarrow> m(sid \<mapsto> info\<lparr>is_active := False\<rparr>) | None \<Rightarrow> m)"

definition is_valid :: "string \<Rightarrow> sessions \<Rightarrow> bool" where
  "is_valid sid m \<longleftrightarrow> (case m sid of Some info \<Rightarrow> is_active info | None \<Rightarrow> False)"

section \<open>The specification\<close>

text \<open>The calls that change the manager; the specification keeps the set of open identifiers.\<close>

datatype session_op = Create bytes int string | Update int string | Close string

fun session_step :: "session_op \<Rightarrow> sessions \<Rightarrow> sessions" where
  "session_step (Create random now device) m = snd (create_session random now device m)"
| "session_step (Update now sid) m = update_activity now sid m"
| "session_step (Close sid) m = close_session sid m"

fun spec_step :: "session_op \<Rightarrow> string set \<Rightarrow> string set" where
  "spec_step (Create random now device) A = insert (generate_uuid random) A"
| "spec_step (Update now sid) A = A"
| "spec_step (Close sid) A = A - {sid}"

definition open_sessions :: "sessions \<Rightarrow> string set" where
  "open_sessions m = {sid. is_valid sid m}"

lemma session_step_refines: "open_sessions (session_step c m) = spec_step c (open_sessions m)"
  by (cases c)
    (auto simp: open_sessions_def is_valid_def create_session_def update_activity_def close_session_def Let_def
      split: option.splits if_splits)

text \<open>
  C27: The session manager refines the set of open identifiers: creating adds the new identifier, closing
  removes one, an activity changes nothing, and \<^verbatim>\<open>is_valid\<close> is membership after any sequence of calls.
\<close>

theorem session_refinement:
  "open_sessions (fold session_step calls m) = fold spec_step calls (open_sessions m) \<and>
   (is_valid sid (fold session_step calls m) \<longleftrightarrow> sid \<in> fold spec_step calls (open_sessions m))"
proof -
  have "open_sessions (fold session_step calls m) = fold spec_step calls (open_sessions m)"
    by (induction calls arbitrary: m) (simp_all add: session_step_refines)
  then show ?thesis by (auto simp: open_sessions_def)
qed

section \<open>Well-formed managers\<close>

text \<open>Thirty-six characters: hex digits with dashes in places 8, 13, 18 and 23, the version and the variant.\<close>

definition is_uuid4 :: "string \<Rightarrow> bool" where
  "is_uuid4 s \<longleftrightarrow> length s = 36 \<and>
     list_all (\<lambda>i. if i \<in> {8, 13, 18, 23} then s ! i = CHR ''-'' else isxdigit (s ! i)) [0..<36] \<and>
     s ! 14 = CHR ''4'' \<and> s ! 19 \<in> {CHR ''8'', CHR ''9'', CHR ''a'', CHR ''b''}"

definition wf_sessions :: "sessions \<Rightarrow> bool" where
  "wf_sessions m \<longleftrightarrow> (\<forall>sid info. m sid = Some info \<longrightarrow> session_id info = sid \<and> is_uuid4 sid)"


lemma high_nibble: "unat (b :: u8) div 16 = unat (drop_bit 4 b)"
  by (simp add: unat_drop_bit_eq drop_bit_eq_div)

lemma version_nibble: "unat ((b :: u8) AND 0x0F OR 0x40) div 16 = 4"
  unfolding high_nibble by (simp add: drop_bit_and drop_bit_or)

lemma variant_nibble: "unat ((b :: u8) AND 0x3F OR 0x80) div 16 \<in> {8, 9, 10, 11}"
proof -
  have "drop_bit 4 (b AND 0x3F OR 0x80) = drop_bit 4 b AND 3 OR 8" by (simp add: drop_bit_and drop_bit_or)
  moreover have "drop_bit 4 b AND 3 \<in> {0, 1, 2, 3}"
  proof -
    have "drop_bit 4 b AND 3 \<le> 3" by (rule word_and_le1)
    then have "unat (drop_bit 4 b AND 3) \<in> {0, 1, 2, 3}" by (auto simp: word_le_nat_alt)
    then show ?thesis by (auto simp: word_unat_eq_iff)
  qed
  ultimately show ?thesis unfolding high_nibble by auto
qed

lemma generate_uuid_format:
  assumes "length random = 16"
  shows "is_uuid4 (generate_uuid random)"
proof -
  from assms obtain b0 b1 b2 b3 b4 b5 b6 b7 b8 b9 b10 b11 b12 b13 b14 b15 where
    r: "random = [b0, b1, b2, b3, b4, b5, b6, b7, b8, b9, b10, b11, b12, b13, b14, b15]"
    by (auto simp: length_Suc_conv numeral_eq_Suc)
  have v: "hex_digit 4 = CHR ''4''" "hex_digit 8 = CHR ''8''" "hex_digit 9 = CHR ''9''" "hex_digit 10 = CHR ''a''" "hex_digit 11 = CHR ''b''"
    "isxdigit (CHR ''4'')" "isxdigit (CHR ''8'')" "isxdigit (CHR ''9'')" "isxdigit (CHR ''a'')" "isxdigit (CHR ''b'')"
    by code_simp+
  show ?thesis
    using variant_nibble [of b8] unfolding r
    by (auto simp: is_uuid4_def generate_uuid_def uuid_bytes_def oss_hex2_eq version_nibble v upt_rec nth_Cons')
qed

fun random_ok :: "session_op \<Rightarrow> bool" where
  "random_ok (Create random now device) = (length random = 16)"
| "random_ok call = True"

lemma session_step_wf: "wf_sessions m \<Longrightarrow> random_ok c \<Longrightarrow> wf_sessions (session_step c m)"
  by (cases c)
    (auto simp: wf_sessions_def create_session_def update_activity_def close_session_def Let_def generate_uuid_format
      split: option.splits if_splits)

text \<open>
  C28: Every sequence of calls on a well-formed manager leaves it well formed: each session is kept under its
  own identifier, and each identifier is a version 4 UUID of 36 characters.
\<close>

theorem session_manager_wf:
  assumes "wf_sessions m" "list_all random_ok calls"
  shows "wf_sessions (fold session_step calls m)"
  using assms by (induction calls arbitrary: m) (simp_all add: session_step_wf)

theorem session_manager_wf_witness:
  "wf_sessions (fold session_step [Create (replicate 16 0) 5 ''d'', Close ''x''] Map.empty)"
  by (rule session_manager_wf) (simp_all add: wf_sessions_def)

end
