(* ===== verification/HdWallet.thy ===== *)
theory HdWallet
  imports Mnemonic
begin

text \<open>
  Key derivation (src/wallet/hd_wallet.cpp). The big-number arithmetic of OpenSSL is arithmetic on
  natural numbers; HMAC-SHA512, the public key of a secp256k1 scalar, the Ed25519 key pair of a seed and
  the Curve25519 multiplication are the functions of a record \<open>crypto\<close> of parameters. Failing
  allocations are left out. The results: derived keys are 32-byte scalars below the curve order, and
  DUST keys are reduced by another number than the BLS scalar field.
\<close>

section \<open>Parameters and data\<close>

record crypto =
  hmac_sha512 :: "bytes \<Rightarrow> bytes \<Rightarrow> bytes"
  secp_point :: "bytes \<Rightarrow> nat \<times> nat"
  seed_keypair :: "bytes \<Rightarrow> bytes \<times> bytes"
  scalarmult :: "bytes \<Rightarrow> bytes \<Rightarrow> bytes option"
  pbkdf2_sha512 :: "bytes \<Rightarrow> bytes \<Rightarrow> bytes"
  sha256_of :: "bytes \<Rightarrow> bytes"

datatype role = NightExternal | NightInternal | Dust | Zswap | Metadata

fun role_value :: "role \<Rightarrow> u32" where
  "role_value NightExternal = 0"
| "role_value NightInternal = 1"
| "role_value Dust = 2"
| "role_value Zswap = 3"
| "role_value Metadata = 4"

record key_pair =
  secret_key :: bytes
  public_key :: bytes
  key_address :: string

record hd_wallet =
  wallet_seed :: bytes
  master_key :: bytes
  master_chain :: bytes

definition HARDENED :: u32 where "HARDENED = 0x80000000"

definition BITCOIN_SEED :: bytes where "BITCOIN_SEED = map byte_of_char ''Bitcoin seed''"

definition SECP256K1_ORDER :: bytes where
  "SECP256K1_ORDER =
     [0xFF, 0xFF, 0xFF, 0xFF, 0xFF, 0xFF, 0xFF, 0xFF, 0xFF, 0xFF, 0xFF, 0xFF, 0xFF, 0xFF, 0xFF, 0xFE,
      0xBA, 0xAE, 0xDC, 0xE6, 0xAF, 0x48, 0xA0, 0x3B, 0xBF, 0xD2, 0x5E, 0x8C, 0xD0, 0x36, 0x41, 0x41]"

definition BLS_FIELD :: bytes where
  "BLS_FIELD =
     [0x01, 0x00, 0x00, 0x00, 0xFF, 0xFF, 0xFF, 0xFE, 0xB4, 0xDA, 0x02, 0x53, 0x5B, 0xA0, 0x8D, 0x9E,
      0x80, 0x9D, 0xD8, 0x33, 0x7D, 0x48, 0x97, 0x29, 0x53, 0xE7, 0xDE, 0x73, 0x00, 0x00, 0x00, 0x00]"

section \<open>Scalars\<close>

text \<open>\<^verbatim>\<open>BN_bin2bn\<close> reads big-endian bytes.\<close>

definition bn_of :: "bytes \<Rightarrow> nat" where
  "bn_of bs = foldl (\<lambda>n b. n * 256 + unat b) 0 bs"

fun bn_bytes :: "nat \<Rightarrow> nat \<Rightarrow> bytes" where
  "bn_bytes 0 n = []"
| "bn_bytes (Suc k) n = bn_bytes k (n div 256) @ [word_of_nat (n mod 256)]"

text \<open>Only called on numbers below \<open>256^32\<close>: the residues below 32-byte moduli and coordinates.\<close>

definition bn_to_bytes32 :: "nat \<Rightarrow> bytes" where
  "bn_to_bytes32 n = bn_bytes 32 n"

definition bls_reduce :: "bytes \<Rightarrow> bytes" where
  "bls_reduce scalar = bn_to_bytes32 (bn_of scalar mod bn_of BLS_FIELD)"

definition secp_add :: "bytes \<Rightarrow> bytes \<Rightarrow> bytes" where
  "secp_add a b = bn_to_bytes32 ((bn_of a + bn_of b) mod bn_of SECP256K1_ORDER)"

definition secp_pubkey :: "crypto \<Rightarrow> bytes \<Rightarrow> bytes" where
  "secp_pubkey cr priv =
     (let (x, y) = secp_point cr priv in (if odd y then 0x03 else 0x02) # bn_to_bytes32 x)"

section \<open>Derivation\<close>

definition index_bytes :: "u32 \<Rightarrow> bytes" where
  "index_bytes index = [ucast (drop_bit 24 index AND 0xFF), ucast (drop_bit 16 index AND 0xFF),
     ucast (drop_bit 8 index AND 0xFF), ucast (index AND 0xFF)]"

definition bip32_child ::
  "crypto \<Rightarrow> bytes \<Rightarrow> bytes \<Rightarrow> u32 \<Rightarrow> bool \<Rightarrow> bytes option \<Rightarrow> (bytes \<times> bytes) result" where
  "bip32_child cr priv_key chain_code index hardened pub33_opt =
     rbind (if hardened then Inr ([0x00] @ priv_key)
            else (case pub33_opt of
                    None \<Rightarrow> Inl (Runtime_error ''pubkey required for normal derivation'')
                  | Some pub33 \<Rightarrow> Inr pub33))
       (\<lambda>data.
         let out = hmac_sha512 cr chain_code (data @ index_bytes index);
             tweak = take 32 out;
             child_chain = take 32 (drop 32 out)
         in Inr (secp_add priv_key tweak, child_chain))"

definition from_seed :: "crypto \<Rightarrow> bytes \<Rightarrow> hd_wallet result" where
  "from_seed cr seed_64 =
     (if length seed_64 \<noteq> 64 then Inl (Runtime_error ''Seed must be 64 bytes'')
      else
        (let out = hmac_sha512 cr BITCOIN_SEED seed_64
         in Inr \<lparr>wallet_seed = seed_64, master_key = take 32 out, master_chain = take 32 (drop 32 out)\<rparr>))"

definition from_mnemonic :: "crypto \<Rightarrow> string list \<Rightarrow> string \<Rightarrow> string \<Rightarrow> hd_wallet result" where
  "from_mnemonic cr wl m p =
     rbind (validate_mnemonic (sha256_of cr) wl m) (\<lambda>ok.
       if \<not> ok then Inl (Runtime_error ''Invalid BIP39 mnemonic'')
       else from_seed cr (mnemonic_to_seed (pbkdf2_sha512 cr) m p))"

definition derive_path :: "crypto \<Rightarrow> hd_wallet \<Rightarrow> u32 \<Rightarrow> role \<Rightarrow> u32 \<Rightarrow> (bytes \<times> bytes) result" where
  "derive_path cr w acc r idx =
     rbind (bip32_child cr (master_key w) (master_chain w) (44 + HARDENED) True None) (\<lambda>r1.
     rbind (bip32_child cr (fst r1) (snd r1) (2400 + HARDENED) True None) (\<lambda>r2.
     rbind (bip32_child cr (fst r2) (snd r2) (acc + HARDENED) True None) (\<lambda>r3.
     rbind (bip32_child cr (fst r3) (snd r3) (role_value r) False (Some (secp_pubkey cr (fst r3)))) (\<lambda>r4.
     bip32_child cr (fst r4) (snd r4) idx False (Some (secp_pubkey cr (fst r4)))))))"

definition derive :: "crypto \<Rightarrow> hd_wallet \<Rightarrow> u32 \<Rightarrow> role \<Rightarrow> u32 \<Rightarrow> key_pair result" where
  "derive cr w acc r idx =
     rbind (derive_path cr w acc r idx) (\<lambda>(key, _).
       let (pk, sk) = seed_keypair cr key
       in Inr \<lparr>secret_key = sk, public_key = pk, key_address = []\<rparr>)"

text \<open>\<^verbatim>\<open>derive_night\<close>, \<^verbatim>\<open>derive_night_internal\<close> and \<^verbatim>\<open>derive_zswap\<close> differ in the role only.\<close>

definition derive_unshielded :: "crypto \<Rightarrow> hd_wallet \<Rightarrow> u32 \<Rightarrow> role \<Rightarrow> u32 \<Rightarrow> key_pair result" where
  "derive_unshielded cr w acc r idx =
     rbind (derive_path cr w acc r idx) (\<lambda>(key, _).
       let (pk, sk) = seed_keypair cr key
       in rbind (encode_unshielded pk PreProd) (\<lambda>addr.
         Inr \<lparr>secret_key = sk, public_key = pk, key_address = addr\<rparr>))"

definition derive_night :: "crypto \<Rightarrow> hd_wallet \<Rightarrow> u32 \<Rightarrow> u32 \<Rightarrow> key_pair result" where
  "derive_night cr w acc idx = derive_unshielded cr w acc NightExternal idx"

definition derive_night_internal :: "crypto \<Rightarrow> hd_wallet \<Rightarrow> u32 \<Rightarrow> u32 \<Rightarrow> key_pair result" where
  "derive_night_internal cr w acc idx = derive_unshielded cr w acc NightInternal idx"

definition derive_zswap :: "crypto \<Rightarrow> hd_wallet \<Rightarrow> u32 \<Rightarrow> u32 \<Rightarrow> key_pair result" where
  "derive_zswap cr w acc idx = derive_unshielded cr w acc Zswap idx"

definition derive_metadata :: "crypto \<Rightarrow> hd_wallet \<Rightarrow> u32 \<Rightarrow> u32 \<Rightarrow> key_pair result" where
  "derive_metadata cr w acc idx = derive cr w acc Metadata idx"

definition derive_dust :: "crypto \<Rightarrow> hd_wallet \<Rightarrow> u32 \<Rightarrow> u32 \<Rightarrow> key_pair result" where
  "derive_dust cr w acc idx =
     rbind (derive_path cr w acc Dust idx) (\<lambda>(key, _).
       let dust_scalar = bls_reduce key
       in rbind (encode_dust dust_scalar PreProd) (\<lambda>addr.
         Inr \<lparr>secret_key = key, public_key = dust_scalar, key_address = addr\<rparr>))"

definition clamp_scalar :: "bytes \<Rightarrow> bytes" where
  "clamp_scalar sc =
     (let sc = sc[0 := sc ! 0 AND 248]; sc = sc[31 := sc ! 31 AND 127] in sc[31 := sc ! 31 OR 64])"

definition derive_shielded_encryption_key :: "crypto \<Rightarrow> bytes \<Rightarrow> bytes result" where
  "derive_shielded_encryption_key cr zswap_sk =
     (if length zswap_sk < 32 then Inl (Runtime_error ''zswap secret key too short'')
      else (case scalarmult cr (clamp_scalar (take 32 zswap_sk)) (9 # replicate 31 0) of
              None \<Rightarrow> Inl (Runtime_error ''x25519 scalar mult failed'')
            | Some result \<Rightarrow> Inr result))"

section \<open>Lemmas on scalars\<close>

lemma length_bn_bytes [simp]: "length (bn_bytes k n) = k"
  by (induction k arbitrary: n) auto

lemma bn_of_snoc: "bn_of (bs @ [b]) = bn_of bs * 256 + unat b"
  by (simp add: bn_of_def)

lemma bn_of_bytes: "n < 256 ^ k \<Longrightarrow> bn_of (bn_bytes k n) = n"
proof (induction k arbitrary: n)
  case 0
  then show ?case by (simp add: bn_of_def)
next
  case (Suc k)
  then have "n div 256 < 256 ^ k" by (simp add: less_mult_imp_div_less mult.commute)
  with Suc.IH have "bn_of (bn_bytes k (n div 256)) = n div 256" by blast
  then show ?case by (simp add: bn_of_snoc unat_of_nat take_bit_eq_mod)
qed

lemma moduli:
  "bn_of BLS_FIELD = 0x01000000FFFFFFFEB4DA02535BA08D9E809DD8337D48972953E7DE7300000000"
  "bn_of SECP256K1_ORDER = 0xFFFFFFFFFFFFFFFFFFFFFFFFFFFFFFFEBAAEDCE6AF48A03BBFD25E8CD0364141"
  by (simp_all add: bn_of_def BLS_FIELD_def SECP256K1_ORDER_def)

lemma bls_reduce_value: "bn_of (bls_reduce s) = bn_of s mod bn_of BLS_FIELD"
proof -
  have "bn_of s mod bn_of BLS_FIELD < 256 ^ 32"
    by (rule less_trans [OF mod_less_divisor]) (simp_all add: moduli)
  then show ?thesis unfolding bls_reduce_def bn_to_bytes32_def by (rule bn_of_bytes)
qed

lemma secp_add_value: "bn_of (secp_add a b) = (bn_of a + bn_of b) mod bn_of SECP256K1_ORDER"
proof -
  have "(bn_of a + bn_of b) mod bn_of SECP256K1_ORDER < 256 ^ 32"
    by (rule less_trans [OF mod_less_divisor]) (simp_all add: moduli)
  then show ?thesis unfolding secp_add_def bn_to_bytes32_def by (rule bn_of_bytes)
qed

lemma derived_key_range:
  assumes "derive_path cr w acc r idx = Inr (key, ch)"
  shows "length key = 32 \<and> bn_of key < bn_of SECP256K1_ORDER"
proof -
  have "\<exists>a b. key = secp_add a b"
    using assms by (auto simp: derive_path_def rbind_eq_Inr bip32_child_def Let_def)
  then obtain a b where k: "key = secp_add a b" by blast
  have "0 < bn_of SECP256K1_ORDER" by (simp add: moduli)
  with k show ?thesis by (simp add: secp_add_value, simp add: secp_add_def bn_to_bytes32_def)
qed

section \<open>DUST keys\<close>

text \<open>
  a DUST public key is the derived scalar modulo
  \<open>0x01000000fffffffeb4da02535ba08d9e809dd8337d48972953e7de7300000000\<close>, in 32 bytes, and not modulo the BLS
  scalar field \<open>0x73eda753299d7d483339d80809a1d80553bda402fffe5bfeffffffff00000001\<close>: for every scalar from
  the first number to the second the two residues differ.
\<close>

theorem dust_key_modulus:
  assumes "derive_dust cr w acc idx = Inr kp"
  shows "length (public_key kp) = 32 \<and>
    bn_of (public_key kp) = bn_of (secret_key kp) mod 0x01000000FFFFFFFEB4DA02535BA08D9E809DD8337D48972953E7DE7300000000 \<and>
    (0x01000000FFFFFFFEB4DA02535BA08D9E809DD8337D48972953E7DE7300000000 \<le> bn_of (secret_key kp) \<and>
     bn_of (secret_key kp) < 0x73EDA753299D7D483339D80809A1D80553BDA402FFFE5BFEFFFFFFFF00000001 \<longrightarrow>
     bn_of (public_key kp) \<noteq> bn_of (secret_key kp) mod 0x73EDA753299D7D483339D80809A1D80553BDA402FFFE5BFEFFFFFFFF00000001)"
proof -
  have kp: "public_key kp = bls_reduce (secret_key kp)"
    using assms by (auto simp: derive_dust_def rbind_eq_Inr Let_def)
  let ?n = "bn_of BLS_FIELD" and ?s = "bn_of (secret_key kp)"
  have v: "bn_of (public_key kp) = ?s mod ?n" by (simp only: kp bls_reduce_value)
  have "?s mod ?n < ?n" by (rule mod_less_divisor) (simp add: moduli)
  then have "?n \<le> ?s \<and> ?s < r \<longrightarrow> ?s mod ?n \<noteq> ?s mod r" for r by auto
  moreover have "length (public_key kp) = 32" by (simp add: kp bls_reduce_def bn_to_bytes32_def)
  ultimately show ?thesis unfolding v by (simp only: moduli simp_thms)
qed

definition sample_crypto :: crypto where
  "sample_crypto = \<lparr>hmac_sha512 = (\<lambda>_ _. replicate 64 0), secp_point = (\<lambda>_. (0, 0)),
     seed_keypair = (\<lambda>_. ([], [])), scalarmult = (\<lambda>_ _. None), pbkdf2_sha512 = (\<lambda>_ _. []), sha256_of = id\<rparr>"

lemma sample_child:
  assumes "bn_of key = bn_of BLS_FIELD" and "h \<or> po \<noteq> None"
  shows "\<exists>key' ch'. bip32_child sample_crypto key ch i h po = Inr (key', ch') \<and> bn_of key' = bn_of BLS_FIELD"
proof -
  have "bn_of (replicate 32 0) = 0" by (simp add: bn_of_def numeral_eq_Suc)
  then have "bn_of (secp_add key (replicate 32 0)) = bn_of BLS_FIELD"
    using assms(1) by (simp only: secp_add_value) (simp add: moduli)
  with assms(2) show ?thesis by (cases po) (auto simp: bip32_child_def sample_crypto_def Let_def)
qed

lemma sample_dust:
  "\<exists>kp. derive_dust sample_crypto \<lparr>wallet_seed = [], master_key = BLS_FIELD, master_chain = []\<rparr> 0 0 = Inr kp \<and>
    bn_of (secret_key kp) = bn_of BLS_FIELD"
proof -
  obtain k1 c1 where 1: "bip32_child sample_crypto BLS_FIELD [] (44 + HARDENED) True None = Inr (k1, c1)"
    "bn_of k1 = bn_of BLS_FIELD" using sample_child [of BLS_FIELD True None "[]"] by blast
  obtain k2 c2 where 2: "bip32_child sample_crypto k1 c1 (2400 + HARDENED) True None = Inr (k2, c2)"
    "bn_of k2 = bn_of BLS_FIELD" using sample_child [of k1 True None c1] 1(2) by blast
  obtain k3 c3 where 3: "bip32_child sample_crypto k2 c2 (0 + HARDENED) True None = Inr (k3, c3)"
    "bn_of k3 = bn_of BLS_FIELD" using sample_child [of k2 True None c2] 2(2) by blast
  obtain k4 c4 where 4: "bip32_child sample_crypto k3 c3 (role_value Dust) False (Some (secp_pubkey sample_crypto k3)) = Inr (k4, c4)"
    "bn_of k4 = bn_of BLS_FIELD" using sample_child [of k3 False "Some (secp_pubkey sample_crypto k3)" c3] 3(2) by blast
  obtain k5 c5 where 5: "bip32_child sample_crypto k4 c4 0 False (Some (secp_pubkey sample_crypto k4)) = Inr (k5, c5)"
    "bn_of k5 = bn_of BLS_FIELD" using sample_child [of k4 False "Some (secp_pubkey sample_crypto k4)" c4] 4(2) by blast
  have "bls_reduce k5 \<noteq> []" by (simp add: bls_reduce_def bn_to_bytes32_def flip: length_greater_0_conv)
  with 1 2 3 4 5 show ?thesis by (simp add: derive_dust_def derive_path_def encode_dust_def Let_def)
qed

theorem dust_key_modulus_witness:
  "\<exists>kp. derive_dust sample_crypto \<lparr>wallet_seed = [], master_key = BLS_FIELD, master_chain = []\<rparr> 0 0 = Inr kp \<and>
    bn_of (public_key kp) \<noteq> bn_of (secret_key kp) mod 0x73EDA753299D7D483339D80809A1D80553BDA402FFFE5BFEFFFFFFFF00000001"
proof -
  from sample_dust obtain kp where kp:
    "derive_dust sample_crypto \<lparr>wallet_seed = [], master_key = BLS_FIELD, master_chain = []\<rparr> 0 0 = Inr kp"
    "bn_of (secret_key kp) = bn_of BLS_FIELD" by blast
  with dust_key_modulus [OF kp(1)] show ?thesis by (simp add: moduli)
qed

end
