(* ===== verification/Schnorr.thy ===== *)
theory Schnorr
  imports HdWallet
begin

text \<open>
  The BIP-340 signer of src/crypto/bip340_signer.cpp. The curve of OpenSSL is a record of functions on
  points, SHA-256 and HMAC-SHA256 are parameters; scalars and coordinates are natural numbers. Results:
  what is signed is accepted by the verification under the signer's public key; and a signature that is
  accepted stays so when its scalar is negated, since the parity of the nonce point is not checked.
\<close>

section \<open>The curve\<close>

record 'p curve =
  generator :: 'p
  infinity :: 'p
  point_mul :: "nat \<Rightarrow> 'p \<Rightarrow> 'p"
  point_add :: "'p \<Rightarrow> 'p \<Rightarrow> 'p"
  point_inv :: "'p \<Rightarrow> 'p"
  affine :: "'p \<Rightarrow> (nat \<times> nat) option"
  point_of :: "nat \<times> nat \<Rightarrow> 'p option"
  decompress :: "nat \<Rightarrow> nat \<Rightarrow> 'p option"
  field_prime :: nat
  group_order :: nat

definition SECP256K1_N :: nat where
  "SECP256K1_N = bn_of SECP256K1_ORDER"

text \<open>
  What is documented of secp256k1 and of \<^verbatim>\<open>EC_POINT_*\<close>: an abelian group of the prime order \<open>n\<close>, in which a
  point other than infinity has coordinates below the odd field prime, the inverse the same \<open>x\<close> and the
  opposite \<open>y\<close>, and a point is determined by \<open>x\<close> and the parity of \<open>y\<close>.
\<close>

definition group_laws :: "'p curve \<Rightarrow> bool" where
  "group_laws C \<longleftrightarrow>
     group_order C = SECP256K1_N \<and>
     (\<forall>P Q R. point_add C (point_add C P Q) R = point_add C P (point_add C Q R)) \<and>
     (\<forall>P Q. point_add C P Q = point_add C Q P) \<and>
     (\<forall>P. point_add C (infinity C) P = P) \<and>
     (\<forall>P. point_add C (point_inv C P) P = infinity C) \<and>
     (\<forall>P. point_mul C 0 P = infinity C) \<and>
     (\<forall>k P. point_mul C (Suc k) P = point_add C P (point_mul C k P)) \<and>
     (\<forall>P. point_mul C SECP256K1_N P = infinity C)"

definition coordinate_laws :: "'p curve \<Rightarrow> bool" where
  "coordinate_laws C \<longleftrightarrow>
     odd (field_prime C) \<and> field_prime C < 2 ^ 256 \<and>
     (\<forall>k. point_mul C k (generator C) = infinity C \<longrightarrow> SECP256K1_N dvd k) \<and>
     (\<forall>P. affine C P = None \<longleftrightarrow> P = infinity C) \<and>
     (\<forall>P x y. affine C P = Some (x, y) \<longrightarrow>
        0 < y \<and> x < field_prime C \<and> y < field_prime C \<and> point_of C (x, y) = Some P \<and>
        affine C (point_inv C P) = Some (x, field_prime C - y) \<and> decompress C x (y mod 2) = Some P) \<and>
     (\<forall>x b P. decompress C x b = Some P \<longrightarrow> (\<exists>y. affine C P = Some (x, y) \<and> y mod 2 = b))"

definition curve_laws :: "'p curve \<Rightarrow> bool" where
  "curve_laws C \<longleftrightarrow> group_laws C \<and> coordinate_laws C"

section \<open>Hex\<close>

text \<open>
  \<^verbatim>\<open>std::istringstream(s) >> std::hex >> byte\<close>: like \<^verbatim>\<open>stoul\<close>, but what is no number gives 0; the variable
  stays uninitialised when there is only white space.
\<close>

definition iss_hex_byte :: "string \<Rightarrow> u8 result" where
  "iss_hex_byte s =
     (if dropWhile isspace s = [] then Inl Undefined_behaviour
      else (case stoul16 s of Inl _ \<Rightarrow> Inr 0 | Inr v \<Rightarrow> Inr (word_of_nat v)))"

fun iss_hex_bytes :: "string \<Rightarrow> bytes result" where
  "iss_hex_bytes [] = Inr []"
| "iss_hex_bytes [a] = rbind (iss_hex_byte [a]) (\<lambda>x. Inr [x])"
| "iss_hex_bytes (a # b # s) = rbind (iss_hex_byte [a, b]) (\<lambda>x. rbind (iss_hex_bytes s) (\<lambda>xs. Inr (x # xs)))"

definition strip_0x_lower :: "string \<Rightarrow> string" where
  "strip_0x_lower s = (if 2 \<le> length s \<and> take 2 s = ''0x'' then drop 2 s else s)"

text \<open>\<open>None\<close> when the length is wrong.\<close>

definition bip_hex_to_bytes :: "string \<Rightarrow> nat \<Rightarrow> bytes option result" where
  "bip_hex_to_bytes hex out_len =
     (let clean = strip_0x_lower hex
      in if length clean \<noteq> out_len * 2 then Inr None
         else rbind (iss_hex_bytes clean) (\<lambda>bs. Inr (Some bs)))"

section \<open>Hashes and points\<close>

definition tagged_hash :: "(bytes \<Rightarrow> bytes) \<Rightarrow> bytes \<Rightarrow> string \<Rightarrow> bytes" where
  "tagged_hash sha256 msg tag =
     (let tag_hash = sha256 (map byte_of_char tag) in sha256 (tag_hash @ tag_hash @ msg))"

text \<open>\<^verbatim>\<open>bn_to_bytes\<close>: zeros when the number does not fit.\<close>

definition bn_to_bytes :: "nat \<Rightarrow> nat \<Rightarrow> bytes" where
  "bn_to_bytes n len = (if n < 256 ^ len then bn_bytes len n else replicate len 0)"

definition point_mul_base :: "'p curve \<Rightarrow> nat \<Rightarrow> (bytes \<times> bytes \<times> nat) option" where
  "point_mul_base C scalar =
     map_option (\<lambda>(x, y). (bn_to_bytes x 32, bn_to_bytes y 32, y mod 2)) (affine C (point_mul C scalar (generator C)))"

text \<open>For an even \<open>y\<close> the point is negated, which leaves its \<open>x\<close>, the only part that is returned.\<close>

definition derive_pubkey_internal :: "'p curve \<Rightarrow> bytes \<Rightarrow> bytes" where
  "derive_pubkey_internal C private_key =
     (case point_mul_base C (bn_of private_key) of
        None \<Rightarrow> replicate 32 0
      | Some (pk, y, parity) \<Rightarrow>
          if parity = 0
          then (case point_of C (bn_of pk, (field_prime C - bn_of y) mod field_prime C) of
                  None \<Rightarrow> pk
                | Some pt \<Rightarrow> (case affine C pt of None \<Rightarrow> bn_to_bytes 0 32 | Some (x, _) \<Rightarrow> bn_to_bytes x 32))
          else pk)"

section \<open>Keys\<close>

text \<open>The masks of the private key and of the nonce.\<close>

definition clamp_bip340 :: "bytes \<Rightarrow> bytes" where
  "clamp_bip340 k = (k[0 := k ! 0 AND 0x7F])[31 := k ! 31 AND 0xFC]"

record bip340_signer =
  bip_secret :: bytes
  bip_public :: bytes
  bip_has_key :: bool

definition new_bip340_signer :: bip340_signer where
  "new_bip340_signer = \<lparr>bip_secret = replicate 32 0, bip_public = replicate 32 0, bip_has_key = False\<rparr>"

definition set_key :: "'p curve \<Rightarrow> bytes \<Rightarrow> bip340_signer \<Rightarrow> bip340_signer result" where
  "set_key C sk signer =
     (let clamped = clamp_bip340 sk
      in if list_all (\<lambda>b. b = 0) clamped then Inl (Invalid_argument ''BIP-340 private key cannot be zero'')
         else Inr (signer\<lparr>bip_secret := clamped, bip_public := derive_pubkey_internal C clamped, bip_has_key := True\<rparr>))"

definition bip340_signer_of_hex :: "'p curve \<Rightarrow> string \<Rightarrow> bip340_signer result" where
  "bip340_signer_of_hex C hex_sk =
     (let clean_hex = strip_0x_lower hex_sk
      in if length clean_hex \<noteq> 64 then Inl (Invalid_argument ''BIP-340 private key must be 32 bytes'')
         else rbind (iss_hex_bytes clean_hex) (\<lambda>sk. set_key C sk new_bip340_signer))"

definition derive_public_key :: "'p curve \<Rightarrow> bytes \<Rightarrow> bytes" where
  "derive_public_key C sk = derive_pubkey_internal C sk"

text \<open>\<open>random\<close> is the answer of \<^verbatim>\<open>RAND_bytes\<close>, \<open>None\<close> on failure.\<close>

definition generate_keypair :: "'p curve \<Rightarrow> bytes option \<Rightarrow> (bytes \<times> bytes) result" where
  "generate_keypair C random =
     (case random of
        None \<Rightarrow> Inl (Runtime_error ''Failed to generate random bytes'')
      | Some r \<Rightarrow>
          let k = clamp_bip340 r;
              private_key = (if list_all (\<lambda>b. b = 0) k then k[31 := 1] else k)
          in Inr (private_key, derive_pubkey_internal C private_key))"

section \<open>Signing\<close>

text \<open>
  The nonce. When the third HMAC is all zeros the code goes on to read 33 bytes of the 32-byte array \<^verbatim>\<open>V\<close>.
\<close>

definition nonce_rfc6979 :: "(bytes \<Rightarrow> bytes \<Rightarrow> bytes) \<Rightarrow> bytes \<Rightarrow> bytes \<Rightarrow> bytes \<Rightarrow> bytes result" where
  "nonce_rfc6979 hmac msg private_key x_only =
     (let V0 = replicate 32 1; K0 = replicate 32 0;
          K1 = hmac K0 (V0 @ [0x00] @ private_key @ x_only @ msg); V1 = hmac K1 V0;
          K2 = hmac K1 (V1 @ [0x01] @ private_key @ x_only @ msg); V2 = hmac K2 V1;
          V = hmac K2 V2
      in if list_all (\<lambda>b. b = 0) V then Inl Undefined_behaviour else Inr (clamp_bip340 V))"

definition challenge :: "(bytes \<Rightarrow> bytes) \<Rightarrow> bytes \<Rightarrow> bytes \<Rightarrow> bytes \<Rightarrow> nat" where
  "challenge sha256 Rx Px msg_hash = bn_of (sha256 (Rx @ Px @ msg_hash)) mod SECP256K1_N"

definition sign_message ::
  "'p curve \<Rightarrow> (bytes \<Rightarrow> bytes) \<Rightarrow> (bytes \<Rightarrow> bytes \<Rightarrow> bytes) \<Rightarrow> bip340_signer \<Rightarrow> bytes \<Rightarrow> string result" where
  "sign_message C sha256 hmac signer msg =
     (if \<not> bip_has_key signer then Inl (Runtime_error ''BIP-340 signer has no key set'')
      else
        (let msg_hash = tagged_hash sha256 msg ''Midnight/transaction''
         in rbind (nonce_rfc6979 hmac msg_hash (bip_secret signer) (bip_public signer)) (\<lambda>nonce.
              case point_mul_base C (bn_of nonce) of
                None \<Rightarrow> Inl (Runtime_error ''Failed to compute R'')
              | Some (Rx, _, parity) \<Rightarrow>
                  let k = (if parity = 1 then (group_order C - bn_of nonce) mod group_order C else bn_of nonce);
                      e = challenge sha256 Rx (bip_public signer) msg_hash;
                      s = (k + e * bn_of (bip_secret signer) mod SECP256K1_N) mod SECP256K1_N
                  in Inr (crypto_to_hex (Rx @ bn_to_bytes s 32)))))"

section \<open>Verifying\<close>

text \<open>One round of the loop over the parities of \<^verbatim>\<open>P\<close>; at infinity \<^verbatim>\<open>R_x\<close> stays 0.\<close>

definition accepts_parity :: "'p curve \<Rightarrow> nat \<Rightarrow> nat \<Rightarrow> nat \<Rightarrow> nat \<Rightarrow> nat \<Rightarrow> bool" where
  "accepts_parity C e s Rx Px parity \<longleftrightarrow>
     (case decompress C Px parity of
        None \<Rightarrow> False
      | Some P \<Rightarrow>
          (case affine C (point_add C (point_mul C s (generator C)) (point_inv C (point_mul C e P))) of
             None \<Rightarrow> Rx = 0
           | Some (x, _) \<Rightarrow> x = Rx))"

definition verify_bytes :: "'p curve \<Rightarrow> (bytes \<Rightarrow> bytes) \<Rightarrow> bytes \<Rightarrow> bytes \<Rightarrow> bytes \<Rightarrow> bytes \<Rightarrow> bool" where
  "verify_bytes C sha256 msg Rx s Px \<longleftrightarrow>
     (let msg_hash = tagged_hash sha256 msg ''Midnight/transaction'';
          e = challenge sha256 Rx Px msg_hash
      in accepts_parity C e (bn_of s) (bn_of Rx) (bn_of Px) 0 \<or> accepts_parity C e (bn_of s) (bn_of Rx) (bn_of Px) 1)"

definition verify_signature :: "'p curve \<Rightarrow> (bytes \<Rightarrow> bytes) \<Rightarrow> bytes \<Rightarrow> string \<Rightarrow> string \<Rightarrow> bool result" where
  "verify_signature C sha256 msg signature_hex public_key_hex =
     (let sig_hex = strip_0x_lower signature_hex
      in if length sig_hex \<noteq> 128 then Inr False
         else
           rbind (bip_hex_to_bytes (take 64 sig_hex) 32) (\<lambda>Rx. case Rx of None \<Rightarrow> Inr False | Some Rx \<Rightarrow>
           rbind (bip_hex_to_bytes (take 64 (drop 64 sig_hex)) 32) (\<lambda>s. case s of None \<Rightarrow> Inr False | Some s \<Rightarrow>
             let pk_hex = strip_0x_lower public_key_hex
             in if length pk_hex \<noteq> 64 then Inr False
                else rbind (bip_hex_to_bytes pk_hex 32) (\<lambda>Px. case Px of None \<Rightarrow> Inr False | Some Px \<Rightarrow>
                       Inr (verify_bytes C sha256 msg Rx s Px)))))"

section \<open>Group facts\<close>

lemma order_value: "SECP256K1_N = 0xFFFFFFFFFFFFFFFFFFFFFFFFFFFFFFFEBAAEDCE6AF48A03BBFD25E8CD0364141"
  by (simp add: SECP256K1_N_def moduli)

lemma curve_group:
  assumes "curve_laws C"
  shows "point_add C (point_add C P Q) R = point_add C P (point_add C Q R)" "point_add C P Q = point_add C Q P"
    "point_add C (infinity C) P = P" "point_add C (point_inv C P) P = infinity C" "point_mul C 0 P = infinity C"
    "point_mul C (Suc k) P = point_add C P (point_mul C k P)" "point_mul C SECP256K1_N P = infinity C"
    "group_order C = SECP256K1_N"
  using assms unfolding curve_laws_def group_laws_def by blast+

lemma curve_affine:
  assumes "curve_laws C"
  shows "affine C P = None \<longleftrightarrow> P = infinity C"
    "affine C P = Some (x, y) \<Longrightarrow> 0 < y \<and> x < field_prime C \<and> y < field_prime C \<and> point_of C (x, y) = Some P \<and>
        affine C (point_inv C P) = Some (x, field_prime C - y) \<and> decompress C x (y mod 2) = Some P"
    "decompress C x b = Some P \<Longrightarrow> \<exists>y. affine C P = Some (x, y) \<and> y mod 2 = b"
    "point_mul C k (generator C) = infinity C \<Longrightarrow> SECP256K1_N dvd k"
    "odd (field_prime C)" "field_prime C < 2 ^ 256"
  using assms by (auto simp: curve_laws_def coordinate_laws_def)

lemma mul_add:
  assumes "curve_laws C"
  shows "point_mul C (a + b) P = point_add C (point_mul C a P) (point_mul C b P)"
  by (induction a) (simp_all add: curve_group(1,3,5,6) [OF assms])

lemma mul_mul:
  assumes "curve_laws C"
  shows "point_mul C a (point_mul C b P) = point_mul C (a * b) P"
  by (induction a) (simp_all add: curve_group(5,6) [OF assms] mul_add [OF assms])

lemma mul_infinity:
  assumes "curve_laws C"
  shows "point_mul C k (infinity C) = infinity C"
  by (induction k) (simp_all add: curve_group [OF assms])

lemma mul_mod:
  assumes "curve_laws C"
  shows "point_mul C (k mod SECP256K1_N) P = point_mul C k P"
proof -
  have "point_mul C k P = point_mul C ((k div SECP256K1_N) * SECP256K1_N + k mod SECP256K1_N) P" by simp
  also have "\<dots> = point_mul C (k mod SECP256K1_N) P"
    by (simp only: mul_add [OF assms] mul_mul [OF assms, symmetric] curve_group [OF assms] mul_infinity [OF assms])
  finally show ?thesis by simp
qed

lemma inv_unique:
  assumes "curve_laws C" and "point_add C Q P = infinity C"
  shows "point_inv C P = Q"
proof -
  note g = curve_group [OF assms(1)]
  have "point_inv C P = point_add C (point_add C Q P) (point_inv C P)" using assms(2) g(3) by simp
  also have "\<dots> = point_add C Q (point_add C (point_inv C P) P)" using g(1,2) by metis
  also have "\<dots> = Q" using g(2,3,4) by metis
  finally show ?thesis .
qed

lemma inv_mul:
  assumes "curve_laws C" and "k \<le> SECP256K1_N"
  shows "point_inv C (point_mul C k P) = point_mul C (SECP256K1_N - k) P"
proof (rule inv_unique [OF assms(1)])
  have "point_add C (point_mul C (SECP256K1_N - k) P) (point_mul C k P) = point_mul C SECP256K1_N P"
    using assms(2) by (simp flip: mul_add [OF assms(1)])
  then show "point_add C (point_mul C (SECP256K1_N - k) P) (point_mul C k P) = infinity C"
    using curve_group(7) [OF assms(1)] by simp
qed

lemma inv_add:
  assumes "curve_laws C"
  shows "point_inv C (point_add C P Q) = point_add C (point_inv C P) (point_inv C Q)"
proof (rule inv_unique [OF assms])
  note g = curve_group [OF assms]
  have "point_add C (point_add C (point_inv C P) (point_inv C Q)) (point_add C P Q) =
      point_add C (point_add C (point_inv C P) P) (point_add C (point_inv C Q) Q)"
    using g(1,2) by metis
  then show "point_add C (point_add C (point_inv C P) (point_inv C Q)) (point_add C P Q) = infinity C"
    by (simp add: g(3,4))
qed

lemma inv_inv: "curve_laws C \<Longrightarrow> point_inv C (point_inv C P) = P"
  using inv_unique curve_group(2,4) by metis

lemma mul_inv:
  assumes "curve_laws C"
  shows "point_mul C k (point_inv C P) = point_inv C (point_mul C k P)"
proof (induction k)
  case 0
  then show ?case using inv_unique [OF assms, of "infinity C" "infinity C"] curve_group [OF assms] by simp
next
  case (Suc k)
  then show ?case by (simp add: curve_group(6) [OF assms] inv_add [OF assms])
qed

section \<open>Bytes and scalars\<close>

lemma bn_of_append: "bn_of (as @ bs) = bn_of as * 256 ^ length bs + bn_of bs"
proof (induction bs rule: rev_induct)
  case Nil
  then show ?case by (simp add: bn_of_def)
next
  case (snoc b bs)
  have "bn_of (as @ bs @ [b]) = bn_of (as @ bs) * 256 + unat b" using bn_of_snoc [of "as @ bs" b] by simp
  with snoc show ?case by (simp add: bn_of_snoc algebra_simps)
qed

lemma bn_of_bound: "bn_of bs < 256 ^ length bs"
proof (induction bs rule: rev_induct)
  case Nil
  then show ?case by (simp add: bn_of_def)
next
  case (snoc b bs)
  have "bn_of bs * 256 + unat b < (bn_of bs + 1) * 256" using unat_byte_less [of b] by simp
  also have "\<dots> \<le> 256 ^ length bs * 256" using snoc by (intro mult_right_mono) simp_all
  finally show ?case by (simp add: bn_of_snoc mult.commute)
qed

lemma bn_of_zero: "bn_of bs = 0 \<longleftrightarrow> list_all (\<lambda>b. b = 0) bs"
  by (induction bs rule: rev_induct) (auto simp: bn_of_def unat_eq_0)

lemma clamped_range:
  assumes "length k = 32" and "\<not> list_all (\<lambda>b. b = 0) (clamp_bip340 k)"
  shows "0 < bn_of (clamp_bip340 k) \<and> bn_of (clamp_bip340 k) < SECP256K1_N"
proof
  show "0 < bn_of (clamp_bip340 k)" using assms(2) bn_of_zero by (cases "bn_of (clamp_bip340 k)") auto
  obtain b bs where k: "k = b # bs" "length bs = 31" using assms(1) by (cases k) auto
  then obtain cs where cs: "clamp_bip340 k = (b AND 0x7F) # cs" "length cs = 31" by (simp add: clamp_bip340_def)
  have "b AND 0x7F \<le> 0x7F" by (rule word_and_le1)
  then have "unat (b AND 0x7F) \<le> 0x7F" by (simp add: word_le_nat_alt)
  moreover have "bn_of (clamp_bip340 k) = unat (b AND 0x7F) * 256 ^ 31 + bn_of cs"
    using bn_of_append [of "[b AND 0x7F]" cs] cs by (simp add: bn_of_def)
  moreover have "bn_of cs < 256 ^ 31" using bn_of_bound [of cs] cs by simp
  ultimately have "bn_of (clamp_bip340 k) < 0x80 * 256 ^ 31"
    using mult_right_mono [of "unat (b AND 0x7F)" "0x7F" "256 ^ 31"] by linarith
  then show "bn_of (clamp_bip340 k) < SECP256K1_N" by (simp add: order_value)
qed

lemma length_bn_to_bytes [simp]: "length (bn_to_bytes n k) = k"
  by (simp add: bn_to_bytes_def)

lemma bn_to_bytes_32: "n < 2 ^ 256 \<Longrightarrow> bn_of (bn_to_bytes n 32) = n \<and> length (bn_to_bytes n 32) = 32"
  using bn_of_bytes [of n 32] by (simp add: bn_to_bytes_def)

lemma util_bytes_to_hex_append: "util_bytes_to_hex (as @ bs) = util_bytes_to_hex as @ util_bytes_to_hex bs"
  by (induction as) simp_all

lemma iss_hex_bytes_enc: "iss_hex_bytes (util_bytes_to_hex bs) = Inr bs"
proof (induction bs)
  case (Cons b bs)
  have "iss_hex_byte [hex_digit (unat b div 16), hex_digit (unat b mod 16)] = Inr b"
    using isxdigit_not_special [of "hex_digit (unat b div 16)"] by (simp add: iss_hex_byte_def stoul16_pair)
  with Cons show ?case by simp
qed simp

lemma strip_hex: "strip_0x_lower (util_bytes_to_hex bs) = util_bytes_to_hex bs"
  using no_prefix_in_hex [of bs] by (simp add: strip_0x_lower_def starts_with_def numeral_2_eq_2)

lemma bip_hex_to_bytes_enc: "length bs = n \<Longrightarrow> bip_hex_to_bytes (util_bytes_to_hex bs) n = Inr (Some bs)"
  by (simp add: bip_hex_to_bytes_def strip_hex iss_hex_bytes_enc)

lemma verify_signature_hex:
  assumes "length Rx = 32" and "length s = 32" and "length Px = 32"
  shows "verify_signature C sha256 msg (crypto_to_hex (Rx @ s)) (crypto_to_hex Px) = Inr (verify_bytes C sha256 msg Rx s Px)"
proof -
  have strip: "strip_0x_lower (crypto_to_hex (Rx @ s)) = util_bytes_to_hex Rx @ util_bytes_to_hex s"
    "strip_0x_lower (crypto_to_hex Px) = util_bytes_to_hex Px"
    by (simp_all add: crypto_to_hex_eq strip_hex flip: util_bytes_to_hex_append)
  show ?thesis unfolding verify_signature_def strip Let_def using assms by (simp add: bip_hex_to_bytes_enc)
qed

section \<open>Correctness\<close>

lemma derive_pubkey_x:
  assumes "curve_laws C" and "affine C (point_mul C (bn_of sk) (generator C)) = Some (x, y)"
  shows "derive_pubkey_internal C sk = bn_to_bytes x 32"
proof -
  note a = curve_affine [OF assms(1)]
  have y: "0 < y" "y < field_prime C" "x < 2 ^ 256" "y < 2 ^ 256"
    and inv: "affine C (point_inv C (point_mul C (bn_of sk) (generator C))) = Some (x, field_prime C - y)"
    using a(2) [OF assms(2)] a(6) by simp_all
  from a(2) [OF inv] have "point_of C (x, field_prime C - y) = Some (point_inv C (point_mul C (bn_of sk) (generator C)))"
    by blast
  moreover have "(field_prime C - y) mod field_prime C = field_prime C - y" using y by simp
  ultimately show ?thesis
    using assms(2) inv y by (simp add: derive_pubkey_internal_def point_mul_base_def bn_to_bytes_32)
qed

lemma accepts_parityI:
  assumes "curve_laws C" and "affine C P = Some (px, py)" and "affine C R = Some (rx, ry)"
    and "point_add C (point_mul C s (generator C)) (point_inv C (point_mul C e P)) \<in> {R, point_inv C R}"
  shows "accepts_parity C e s rx px (py mod 2)"
proof -
  have "affine C (point_inv C R) = Some (rx, field_prime C - ry)" "decompress C px (py mod 2) = Some P"
    using curve_affine(2) assms(1-3) by metis+
  then show ?thesis using assms(3,4) by (auto simp: accepts_parity_def)
qed

lemma accepts_parity_negated:
  assumes "curve_laws C" and "accepts_parity C e s rx px b" and "s \<le> SECP256K1_N"
  shows "accepts_parity C e (SECP256K1_N - s) rx px (1 - b)"
proof -
  note a = curve_affine [OF assms(1)]
  from assms(2) obtain P where P: "decompress C px b = Some P" by (auto simp: accepts_parity_def split: option.splits)
  from a(3) [OF this] obtain y where y: "affine C P = Some (px, y)" "y mod 2 = b" by blast
  from a(2) [OF y(1)] have inv: "affine C (point_inv C P) = Some (px, field_prime C - y)" and "y < field_prime C" by simp_all
  with a(5) have "odd (field_prime C - y) \<longleftrightarrow> even y" by simp
  with y(2) have "(field_prime C - y) mod 2 = 1 - b" by (cases "even y") (simp_all add: mod_2_eq_odd)
  with a(2) [OF inv] have P': "decompress C px (1 - b) = Some (point_inv C P)" by simp
  define R where "R = point_add C (point_mul C s (generator C)) (point_inv C (point_mul C e P))"
  have "point_mul C (SECP256K1_N - s) (generator C) = point_inv C (point_mul C s (generator C))"
    using inv_mul assms(1,3) by metis
  moreover have "point_mul C e (point_inv C P) = point_inv C (point_mul C e P)" by (rule mul_inv [OF assms(1)])
  ultimately have "point_add C (point_mul C (SECP256K1_N - s) (generator C)) (point_inv C (point_mul C e (point_inv C P))) = point_inv C R"
    unfolding R_def inv_add [OF assms(1)] by simp
  moreover have "affine C (point_inv C R) = map_option (\<lambda>(x, y). (x, field_prime C - y)) (affine C R)"
  proof (cases "affine C R")
    case None
    then have "R = infinity C" using a(1) by simp
    moreover have "point_inv C (infinity C) = infinity C"
      using inv_unique [OF assms(1), of "infinity C" "infinity C"] curve_group(3) [OF assms(1)] by simp
    ultimately show ?thesis using None by simp
  next
    case (Some r)
    then show ?thesis using a(2) [of R "fst r" "snd r"] by (cases r) simp
  qed
  moreover have "case affine C R of None \<Rightarrow> rx = 0 | Some (x, _) \<Rightarrow> x = rx"
    using assms(2) P unfolding accepts_parity_def R_def by simp
  ultimately show ?thesis using P' by (cases "affine C R") (auto simp: accepts_parity_def)
qed

lemma point_mul_base_Some:
  assumes "curve_laws C" and "0 < k" and "k < SECP256K1_N"
  obtains x y where "affine C (point_mul C k (generator C)) = Some (x, y)" and "x < 2 ^ 256"
    and "point_mul_base C k = Some (bn_to_bytes x 32, bn_to_bytes y 32, y mod 2)"
proof -
  note a = curve_affine [OF assms(1)]
  have "point_mul C k (generator C) \<noteq> infinity C" using a(4) [of k] dvd_imp_le [of SECP256K1_N k] assms(2,3) by auto
  with a(1) obtain x y where xy: "affine C (point_mul C k (generator C)) = Some (x, y)" by (metis not_None_eq surj_pair)
  with a(2) [OF xy] a(6) show ?thesis using that by (simp add: point_mul_base_def)
qed

lemma set_key_secret:
  assumes "set_key C sk signer0 = Inr signer" and "length sk = 32"
  shows "bip_has_key signer \<and> 0 < bn_of (bip_secret signer) \<and> bn_of (bip_secret signer) < SECP256K1_N \<and>
    bip_public signer = derive_pubkey_internal C (bip_secret signer)"
  using assms clamped_range [OF assms(2)] by (auto simp: set_key_def Let_def split: if_splits)

lemma nonce_length:
  assumes "nonce_rfc6979 hmac msg sk pk = Inr nonce" and "\<And>k d. length (hmac k d) = 32"
  shows "\<exists>v. length v = 32 \<and> nonce = clamp_bip340 v"
  using assms by (auto simp: nonce_rfc6979_def Let_def split: if_splits)

text \<open>The scalar of a signature, as its bytes are made.\<close>

lemma signature_point:
  assumes "curve_laws C" and "k \<le> SECP256K1_N"
  shows "point_add C (point_mul C ((k' + e * d mod SECP256K1_N) mod SECP256K1_N) P)
      (point_inv C (point_mul C e (point_mul C d P))) = point_mul C k' P"
proof -
  note g = curve_group [OF assms(1)]
  have "point_mul C ((k' + e * d mod SECP256K1_N) mod SECP256K1_N) P =
      point_add C (point_mul C k' P) (point_mul C e (point_mul C d P))"
    by (simp add: mul_mod [OF assms(1)] mul_add [OF assms(1)] mul_mul [OF assms(1)])
  then show ?thesis using g(1-4) by metis
qed

lemma sign_verifies:
  assumes "curve_laws C" and "\<And>k d. length (hmac k d) = 32" and "length sk = 32"
    and "set_key C sk new_bip340_signer = Inr signer"
    and "nonce_rfc6979 hmac (tagged_hash sha256 msg ''Midnight/transaction'') (bip_secret signer) (bip_public signer) = Inr nonce"
    and "\<not> list_all (\<lambda>b. b = 0) nonce"
  obtains Rx s where "length Rx = 32" and "s < SECP256K1_N"
    and "sign_message C sha256 hmac signer msg = Inr (crypto_to_hex (Rx @ bn_to_bytes s 32))"
    and "verify_bytes C sha256 msg Rx (bn_to_bytes s 32) (bip_public signer)" and "length (bip_public signer) = 32"
proof -
  note laws = assms(1) and n = order_value
  obtain v where "length v = 32" "nonce = clamp_bip340 v" using nonce_length [OF assms(5,2)] by blast
  then have k: "0 < bn_of nonce" "bn_of nonce < SECP256K1_N" using clamped_range assms(6) by auto
  from point_mul_base_Some [OF laws k] obtain rx ry where R: "affine C (point_mul C (bn_of nonce) (generator C)) = Some (rx, ry)"
    "rx < 2 ^ 256" "point_mul_base C (bn_of nonce) = Some (bn_to_bytes rx 32, bn_to_bytes ry 32, ry mod 2)" by blast
  from set_key_secret [OF assms(4,3)] have key: "bip_has_key signer" "0 < bn_of (bip_secret signer)"
    "bn_of (bip_secret signer) < SECP256K1_N" "bip_public signer = derive_pubkey_internal C (bip_secret signer)" by simp_all
  from point_mul_base_Some [OF laws key(2,3)] obtain px py where
    P: "affine C (point_mul C (bn_of (bip_secret signer)) (generator C)) = Some (px, py)" "px < 2 ^ 256" by blast
  have pk: "bip_public signer = bn_to_bytes px 32" using key(4) derive_pubkey_x [OF laws P(1)] by simp
  define k where "k = (if ry mod 2 = 1 then (SECP256K1_N - bn_of nonce) mod SECP256K1_N else bn_of nonce)"
  define e where "e = challenge sha256 (bn_to_bytes rx 32) (bip_public signer) (tagged_hash sha256 msg ''Midnight/transaction'')"
  define s where "s = (k + e * bn_of (bip_secret signer) mod SECP256K1_N) mod SECP256K1_N"
  have sN: "s < SECP256K1_N" by (simp add: s_def n)
  have sign: "sign_message C sha256 hmac signer msg = Inr (crypto_to_hex (bn_to_bytes rx 32 @ bn_to_bytes s 32))"
    using key(1) assms(5) R(3) curve_group(8) [OF laws]
    by (simp add: sign_message_def k_def e_def s_def Let_def)
  have "point_add C (point_mul C s (generator C)) (point_inv C (point_mul C e (point_mul C (bn_of (bip_secret signer)) (generator C)))) =
      point_mul C k (generator C)"
    unfolding s_def by (rule signature_point [OF laws order_refl])
  moreover have "point_mul C k (generator C) \<in> {point_mul C (bn_of nonce) (generator C), point_inv C (point_mul C (bn_of nonce) (generator C))}"
    using inv_mul [OF laws, of "bn_of nonce"] mul_mod [OF laws] k(2) by (simp add: k_def)
  ultimately have "accepts_parity C e s rx px (py mod 2)"
    using accepts_parityI [OF laws P(1) R(1)] by simp
  moreover have "bn_of (bn_to_bytes rx 32) = rx" "bn_of (bn_to_bytes s 32) = s" "bn_of (bip_public signer) = px"
    using bn_to_bytes_32 R(2) P(2) pk sN n by simp_all
  ultimately have "verify_bytes C sha256 msg (bn_to_bytes rx 32) (bn_to_bytes s 32) (bip_public signer)"
    unfolding verify_bytes_def Let_def e_def [symmetric] by (cases "py mod 2 = 0") (simp_all add: mod_2_eq_odd split: if_splits)
  then show ?thesis using that [of "bn_to_bytes rx 32" s] sign sN pk by simp
qed

text \<open>
  C15: What \<^verbatim>\<open>sign_message\<close> returns under a key that \<^verbatim>\<open>set_key\<close> accepted is accepted by
  \<^verbatim>\<open>verify_signature\<close> for the same message and the signer's public key in hex; it fails to return only when
  the nonce is zero.
\<close>

theorem bip340_sign_verify:
  assumes "curve_laws C" and "\<And>k d. length (hmac k d) = 32" and "length sk = 32"
    and "set_key C sk new_bip340_signer = Inr signer"
    and "nonce_rfc6979 hmac (tagged_hash sha256 msg ''Midnight/transaction'') (bip_secret signer) (bip_public signer) = Inr nonce"
    and "\<not> list_all (\<lambda>b. b = 0) nonce"
  shows "\<exists>sig. sign_message C sha256 hmac signer msg = Inr sig \<and> length sig = 128 \<and>
    verify_signature C sha256 msg sig (crypto_to_hex (bip_public signer)) = Inr True"
proof -
  obtain Rx s where "length Rx = 32" "s < SECP256K1_N" "length (bip_public signer) = 32"
    "sign_message C sha256 hmac signer msg = Inr (crypto_to_hex (Rx @ bn_to_bytes s 32))"
    "verify_bytes C sha256 msg Rx (bn_to_bytes s 32) (bip_public signer)"
    using sign_verifies [where msg = msg, OF assms] by metis
  then show ?thesis
    using verify_signature_hex [of Rx "bn_to_bytes s 32" "bip_public signer" C sha256 msg]
    by (intro exI [of _ "crypto_to_hex (Rx @ bn_to_bytes s 32)"]) (simp add: crypto_to_hex_eq)
qed

text \<open>
  A signature \<open>(R, s)\<close> that is accepted is also accepted with \<open>n - s\<close> in place of \<open>s\<close>: both parities of
  the key are tried and that of \<open>R\<close> is not checked, against BIP-340. So anyone can turn a signature into
  another one for the same message and key.
\<close>

theorem bip340_malleable:
  assumes "curve_laws C" and "length Rx = 32" and "length Px = 32" and "s \<le> SECP256K1_N"
    and "verify_signature C sha256 msg (crypto_to_hex (Rx @ bn_to_bytes s 32)) (crypto_to_hex Px) = Inr True"
  shows "verify_signature C sha256 msg (crypto_to_hex (Rx @ bn_to_bytes (SECP256K1_N - s) 32)) (crypto_to_hex Px) = Inr True"
proof -
  have hex: "verify_signature C sha256 msg (crypto_to_hex (Rx @ bn_to_bytes m 32)) (crypto_to_hex Px) =
      Inr (verify_bytes C sha256 msg Rx (bn_to_bytes m 32) Px)" for m
    using assms(2,3) by (intro verify_signature_hex) simp_all
  have val: "bn_of (bn_to_bytes m 32) = m" if "m \<le> SECP256K1_N" for m
    using bn_to_bytes_32 that by (simp add: order_value)
  have "verify_bytes C sha256 msg Rx (bn_to_bytes s 32) Px"
    using assms(5) hex by simp
  then have "verify_bytes C sha256 msg Rx (bn_to_bytes (SECP256K1_N - s) 32) Px"
    using accepts_parity_negated [OF assms(1) _ assms(4), of _ _ _ 0] accepts_parity_negated [OF assms(1) _ assms(4), of _ _ _ 1]
      assms(4) by (auto simp: verify_bytes_def Let_def val)
  then show ?thesis using hex by simp
qed

section \<open>An instance\<close>

text \<open>
  The residues modulo \<open>n\<close> with addition are a group that obeys the laws, with \<open>p\<close> at the coordinates
  \<open>min p (n - p)\<close> and \<open>p\<close>; the witnesses run the model on it.
\<close>

typedef zn = "{0..<SECP256K1_N}"
  by (rule exI [of _ 0]) (simp add: order_value)

definition zn :: "nat \<Rightarrow> zn" where
  "zn k = Abs_zn (k mod SECP256K1_N)"

definition zn_curve :: "zn curve" where
  "zn_curve = \<lparr>
     generator = zn 1,
     infinity = zn 0,
     point_mul = (\<lambda>k P. zn (k * Rep_zn P)),
     point_add = (\<lambda>P Q. zn (Rep_zn P + Rep_zn Q)),
     point_inv = (\<lambda>P. zn (SECP256K1_N - Rep_zn P)),
     affine = (\<lambda>P. if Rep_zn P = 0 then None else Some (min (Rep_zn P) (SECP256K1_N - Rep_zn P), Rep_zn P)),
     point_of = (\<lambda>(x, y). if 0 < y \<and> y < SECP256K1_N \<and> x = min y (SECP256K1_N - y) then Some (zn y) else None),
     decompress = (\<lambda>x b. if x = 0 \<or> SECP256K1_N < 2 * x then None
                        else if b = x mod 2 then Some (zn x)
                        else if b = (SECP256K1_N - x) mod 2 then Some (zn (SECP256K1_N - x)) else None),
     field_prime = SECP256K1_N,
     group_order = SECP256K1_N\<rparr>"

lemma Rep_zn_zn [simp]: "Rep_zn (zn k) = k mod SECP256K1_N"
  by (simp add: zn_def Abs_zn_inverse order_value)

lemma Rep_zn_less: "Rep_zn P < SECP256K1_N"
  using Rep_zn [of P] by simp

lemma zn_eq_iff: "P = Q \<longleftrightarrow> Rep_zn P = Rep_zn Q"
  by (simp add: Rep_zn_inject)

lemma zn_curve_group: "group_laws zn_curve"
proof -
  have "(SECP256K1_N - Rep_zn P + Rep_zn P) mod SECP256K1_N = 0" for P
    using Rep_zn_less [of P] by simp
  then show ?thesis
    unfolding group_laws_def zn_curve_def
    by (simp add: zn_eq_iff Rep_zn_less mod_simps algebra_simps)
qed

lemma zn_curve_coordinates: "coordinate_laws zn_curve"
proof -
  have odd: "odd SECP256K1_N" by (simp add: order_value)
  have inv: "(SECP256K1_N - Rep_zn P) mod SECP256K1_N = SECP256K1_N - Rep_zn P" if "Rep_zn P \<noteq> 0" for P
    using that by (simp add: order_value)
  have half: "\<not> SECP256K1_N < 2 * min y (SECP256K1_N - y)" for y
    by (simp add: min_def) arith
  have dec: "decompress zn_curve (min (Rep_zn P) (SECP256K1_N - Rep_zn P)) (Rep_zn P mod 2) = Some P" if "Rep_zn P \<noteq> 0" for P
  proof (cases "Rep_zn P \<le> SECP256K1_N - Rep_zn P")
    case True
    with that show ?thesis by (simp add: zn_curve_def zn_eq_iff Rep_zn_less)
  next
    case False
    with odd that Rep_zn_less [of P] have "Rep_zn P mod 2 \<noteq> (SECP256K1_N - Rep_zn P) mod 2"
      by (simp add: mod_2_eq_odd)
    with False that Rep_zn_less [of P] show ?thesis by (simp add: zn_curve_def zn_eq_iff)
  qed
  have red: "decompress zn_curve x b = Some P \<Longrightarrow> \<exists>y. affine zn_curve P = Some (x, y) \<and> y mod 2 = b" for x b P
    by (auto simp: zn_curve_def split: if_splits)
  have aff: "0 < y \<and> x < SECP256K1_N \<and> y < SECP256K1_N \<and> point_of zn_curve (x, y) = Some P \<and>
      affine zn_curve (point_inv zn_curve P) = Some (x, SECP256K1_N - y) \<and> decompress zn_curve x (y mod 2) = Some P"
    if xy: "affine zn_curve P = Some (x, y)" for P x y
  proof -
    from xy have y: "y = Rep_zn P" "Rep_zn P \<noteq> 0" "x = min (Rep_zn P) (SECP256K1_N - Rep_zn P)"
      by (auto simp: zn_curve_def split: if_splits)
    then have "point_of zn_curve (x, y) = Some P"
      using Rep_zn_less [of P] by (simp add: zn_curve_def zn_eq_iff)
    moreover have "affine zn_curve (point_inv zn_curve P) = Some (x, SECP256K1_N - y)"
      using y inv [OF y(2)] Rep_zn_less [of P] by (simp add: zn_curve_def min.commute)
    ultimately show ?thesis using y dec [OF y(2)] Rep_zn_less [of P] by simp
  qed
  have n1: "SECP256K1_N \<noteq> Suc 0" by (simp add: order_value)
  have "field_prime zn_curve = SECP256K1_N" "SECP256K1_N < 2 ^ 256"
    "point_mul zn_curve k (generator zn_curve) = infinity zn_curve \<longrightarrow> SECP256K1_N dvd k"
    "affine zn_curve P = None \<longleftrightarrow> P = infinity zn_curve" for k P
  proof -
    show "SECP256K1_N < 2 ^ 256" by (simp add: order_value)
    show "point_mul zn_curve k (generator zn_curve) = infinity zn_curve \<longrightarrow> SECP256K1_N dvd k"
      using n1 by (auto simp: zn_curve_def zn_eq_iff mod_simps mod_eq_0_iff_dvd)
  qed (simp_all add: zn_curve_def zn_eq_iff)
  note f = this
  show ?thesis
    unfolding coordinate_laws_def f(1)
  proof (intro conjI allI impI)
    fix k
    assume "point_mul zn_curve k (generator zn_curve) = infinity zn_curve"
    then show "SECP256K1_N dvd k" using f(3) by blast
  qed (use odd f(2,4) aff red in simp_all)
qed

lemma zn_curve_laws: "curve_laws zn_curve"
  using zn_curve_group zn_curve_coordinates by (simp add: curve_laws_def)

lemma sample_key: "\<exists>signer. set_key zn_curve (replicate 32 4) new_bip340_signer = Inr signer"
proof -
  have "(4 :: u8) AND 0x7F \<noteq> 0" by simp
  then have "\<not> list_all (\<lambda>b. b = 0) (clamp_bip340 (replicate 32 4))"
    by (simp add: clamp_bip340_def list_all_length) (rule exI [of _ 0], simp)
  then show ?thesis by (simp add: set_key_def Let_def)
qed

theorem bip340_sign_verify_witness:
  "\<exists>signer sig. set_key zn_curve (replicate 32 4) new_bip340_signer = Inr signer \<and>
     sign_message zn_curve (\<lambda>_. replicate 32 7) (\<lambda>_ _. replicate 32 1) signer [1, 2, 3] = Inr sig \<and>
     verify_signature zn_curve (\<lambda>_. replicate 32 7) [1, 2, 3] sig (crypto_to_hex (bip_public signer)) = Inr True"
proof -
  obtain signer where signer: "set_key zn_curve (replicate 32 4) new_bip340_signer = Inr signer" using sample_key by blast
  have "nonce_rfc6979 (\<lambda>_ _. replicate 32 1) m k x = Inr (clamp_bip340 (replicate 32 1))"
    "\<not> list_all (\<lambda>b. b = 0) (clamp_bip340 (replicate 32 1))" for m k x
    by (simp_all add: nonce_rfc6979_def clamp_bip340_def Let_def numeral_eq_Suc)
  with signer bip340_sign_verify [OF zn_curve_laws, of "\<lambda>_ _. replicate 32 1" "replicate 32 4" signer "\<lambda>_. replicate 32 7" "[1, 2, 3]"]
  show ?thesis by auto
qed

theorem bip340_malleable_witness:
  "verify_signature zn_curve (\<lambda>_. []) [] (crypto_to_hex (bn_to_bytes 5 32 @ bn_to_bytes (SECP256K1_N - 5) 32))
     (crypto_to_hex (bn_to_bytes 4 32)) = Inr True"
proof (rule bip340_malleable [OF zn_curve_laws])
  have v: "bn_of (bn_to_bytes m 32) = m" if "m < 9" for m using that bn_to_bytes_32 [of m] by simp
  have "accepts_parity zn_curve 0 5 5 4 0" by (simp add: accepts_parity_def zn_curve_def order_value)
  then have "verify_bytes zn_curve (\<lambda>_. []) [] (bn_to_bytes 5 32) (bn_to_bytes 5 32) (bn_to_bytes 4 32)"
    by (simp add: verify_bytes_def challenge_def v) (simp add: bn_of_def)
  then show "verify_signature zn_curve (\<lambda>_. []) [] (crypto_to_hex (bn_to_bytes 5 32 @ bn_to_bytes 5 32)) (crypto_to_hex (bn_to_bytes 4 32)) = Inr True"
    by (subst verify_signature_hex) simp_all
qed (simp_all add: order_value)

end
