(* ===== verification/Ecdsa.thy ===== *)
theory Ecdsa
  imports Schnorr
begin

text \<open>
  ECDSA over secp256k1 (src/crypto/ecdsa_signer.cpp), on the curve of theory Schnorr: deterministic nonces,
  signing with the low-S rule, verification, compressed keys and addresses. SHA-256, the modular inverse of
  OpenSSL and its DER codec are parameters; failing allocations are left out. Result: signatures verify
  under the signer's key, and their scalar is in the lower half.
\<close>

section \<open>Scalars and nonces\<close>

definition ecdsa_bn_to_bytes :: "nat \<Rightarrow> nat \<Rightarrow> bytes result" where
  "ecdsa_bn_to_bytes n len =
     (if 256 ^ len \<le> n then Inl (Runtime_error ''BIGNUM does not fit in destination buffer'') else Inr (bn_bytes len n))"

definition valid_scalar :: "nat \<Rightarrow> nat \<Rightarrow> bool" where
  "valid_scalar v order \<longleftrightarrow> v \<noteq> 0 \<and> v < order"

text \<open>The loop over the counter, which is appended as one byte; \<open>random\<close> are the bytes drawn when it fails.\<close>

fun nonce_tries :: "(bytes \<Rightarrow> bytes) \<Rightarrow> bytes \<Rightarrow> nat \<Rightarrow> nat list \<Rightarrow> bytes option" where
  "nonce_tries sha256 seed order [] = None"
| "nonce_tries sha256 seed order (ctr # ctrs) =
     (let h = sha256 (seed @ [word_of_nat ctr])
      in if 1 < bn_of h \<and> bn_of h < order then Some h else nonce_tries sha256 seed order ctrs)"

definition ecdsa_nonce :: "'p curve \<Rightarrow> (bytes \<Rightarrow> bytes) \<Rightarrow> bytes \<Rightarrow> bytes \<Rightarrow> bytes \<Rightarrow> bytes \<Rightarrow> bytes" where
  "ecdsa_nonce C sha256 random msg key hash =
     (case nonce_tries sha256 (key @ hash @ msg) (group_order C) [0..<1000] of Some h \<Rightarrow> h | None \<Rightarrow> random)"

section \<open>Keys\<close>

definition ecdsa_public_key :: "'p curve \<Rightarrow> bytes \<Rightarrow> bytes result" where
  "ecdsa_public_key C private_key =
     (if \<not> valid_scalar (bn_of private_key) (group_order C) then Inl (Runtime_error ''Invalid ECDSA private key scalar'')
      else
        (case affine C (point_mul C (bn_of private_key) (generator C)) of
           None \<Rightarrow> Inl (Runtime_error ''ECDSA public key derivation failed'')
         | Some (x, y) \<Rightarrow>
             rbind (ecdsa_bn_to_bytes x 32) (\<lambda>x_bytes. rbind (ecdsa_bn_to_bytes y 32) (\<lambda>y_bytes.
               Inr ((if y_bytes ! 31 AND 1 \<noteq> 0 then 0x03 else 0x02) # x_bytes)))))"

text \<open>\<open>randoms\<close> are the successive answers of \<^verbatim>\<open>RAND_bytes\<close>, of which 128 are tried.\<close>

fun ecdsa_generate :: "'p curve \<Rightarrow> bytes option list \<Rightarrow> (bytes \<times> bytes) result" where
  "ecdsa_generate C [] = Inl (Runtime_error ''Failed to generate valid ECDSA private key scalar'')"
| "ecdsa_generate C (None # randoms) = Inl (Runtime_error ''Failed to generate ECDSA private key bytes'')"
| "ecdsa_generate C (Some key # randoms) =
     (if \<not> valid_scalar (bn_of key) (group_order C) then ecdsa_generate C randoms
      else rbind (ecdsa_public_key C key) (\<lambda>pk. Inr (key, pk)))"

definition ecdsa_generate_keypair :: "'p curve \<Rightarrow> bytes option list \<Rightarrow> (bytes \<times> bytes) result" where
  "ecdsa_generate_keypair C randoms = ecdsa_generate C (take 128 randoms)"

definition ecdsa_keypair_from_seed :: "'p curve \<Rightarrow> bytes \<Rightarrow> (bytes \<times> bytes) result" where
  "ecdsa_keypair_from_seed C seed = rbind (ecdsa_public_key C seed) (\<lambda>pk. Inr (seed, pk))"

record ecdsa_signer =
  ecdsa_private :: bytes
  ecdsa_public :: bytes
  ecdsa_has_key :: bool

definition set_private_key :: "'p curve \<Rightarrow> bytes \<Rightarrow> ecdsa_signer \<Rightarrow> ecdsa_signer result" where
  "set_private_key C key s =
     rbind (ecdsa_public_key C key) (\<lambda>pk. Inr (s\<lparr>ecdsa_private := key, ecdsa_public := pk, ecdsa_has_key := True\<rparr>))"

definition public_key_to_address :: "(bytes \<Rightarrow> bytes) \<Rightarrow> bytes \<Rightarrow> string" where
  "public_key_to_address sha256 pk = ''0x'' @ concat (map oss_hex2 (take 20 (drop 12 (sha256 pk))))"

section \<open>Signing\<close>

type_synonym mod_inverse = "nat \<Rightarrow> nat \<Rightarrow> nat option"

definition low_s :: "nat \<Rightarrow> nat \<Rightarrow> nat" where
  "low_s n s = (if n div 2 < s then n - s else s)"

definition sign_hash_manual :: "'p curve \<Rightarrow> mod_inverse \<Rightarrow> bytes \<Rightarrow> bytes \<Rightarrow> bytes \<Rightarrow> bytes result" where
  "sign_hash_manual C minv hash private_key nonce =
     (let n = group_order C; d = bn_of private_key; k = bn_of nonce mod n; e = bn_of hash mod n
      in if \<not> valid_scalar d n then Inl (Runtime_error ''Invalid ECDSA private key scalar'')
         else if \<not> valid_scalar k n then Inl (Runtime_error ''Invalid ECDSA nonce scalar'')
         else
           (case affine C (point_mul C k (generator C)) of
              None \<Rightarrow> Inl (Runtime_error ''Failed to compute ECDSA nonce point'')
            | Some (x, _) \<Rightarrow>
                let r = x mod n
                in if \<not> valid_scalar r n then Inl (Runtime_error ''Invalid ECDSA r value'')
                   else
                     (case minv k n of
                        None \<Rightarrow> Inl (Runtime_error ''Failed to compute ECDSA s value'')
                      | Some kinv \<Rightarrow>
                          let s = kinv * ((e + r * d mod n) mod n) mod n
                          in if \<not> valid_scalar s n then Inl (Runtime_error ''Failed to compute ECDSA s value'')
                             else rbind (ecdsa_bn_to_bytes r 32) (\<lambda>r_bytes.
                                    rbind (ecdsa_bn_to_bytes (low_s n s) 32) (\<lambda>s_bytes. Inr (r_bytes @ s_bytes))))))"

definition ecdsa_sign_raw ::
  "'p curve \<Rightarrow> mod_inverse \<Rightarrow> (bytes \<Rightarrow> bytes) \<Rightarrow> bytes \<Rightarrow> ecdsa_signer \<Rightarrow> bytes \<Rightarrow> bytes result" where
  "ecdsa_sign_raw C minv sha256 random signer msg =
     (if \<not> ecdsa_has_key signer then Inl (Runtime_error ''ECDSA signer has no private key'')
      else
        (let hash = sha256 msg
         in sign_hash_manual C minv hash (ecdsa_private signer)
              (ecdsa_nonce C sha256 random msg (ecdsa_private signer) hash)))"

text \<open>\<open>der\<close> encodes a pair of numbers, \<open>None\<close> on failure.\<close>

definition ecdsa_sign_der ::
  "'p curve \<Rightarrow> mod_inverse \<Rightarrow> (bytes \<Rightarrow> bytes) \<Rightarrow> bytes \<Rightarrow> (nat \<times> nat \<Rightarrow> bytes option) \<Rightarrow> ecdsa_signer \<Rightarrow> bytes \<Rightarrow> bytes result" where
  "ecdsa_sign_der C minv sha256 random der signer msg =
     rbind (ecdsa_sign_raw C minv sha256 random signer msg) (\<lambda>sig.
       case der (bn_of (take 32 sig), bn_of (drop 32 sig)) of
         None \<Rightarrow> Inl (Runtime_error ''Failed to encode DER ECDSA signature'')
       | Some bs \<Rightarrow> Inr bs)"

section \<open>Verifying\<close>

definition verify_hash_manual :: "'p curve \<Rightarrow> mod_inverse \<Rightarrow> bytes \<Rightarrow> bytes \<Rightarrow> bytes \<Rightarrow> bool" where
  "verify_hash_manual C minv hash sig pub_key \<longleftrightarrow>
     (let n = group_order C; r = bn_of (take 32 sig); s = bn_of (take 32 (drop 32 sig)); e = bn_of hash mod n
      in valid_scalar r n \<and> valid_scalar s n \<and> (pub_key ! 0 = 0x02 \<or> pub_key ! 0 = 0x03) \<and>
         (case decompress C (bn_of (take 32 (drop 1 pub_key))) (if pub_key ! 0 = 0x03 then 1 else 0) of
            None \<Rightarrow> False
          | Some q \<Rightarrow>
              (case minv s n of
                 None \<Rightarrow> False
               | Some w \<Rightarrow>
                   (case affine C (point_add C (point_mul C (e * w mod n) (generator C)) (point_mul C (r * w mod n) q)) of
                      None \<Rightarrow> False
                    | Some (rx, _) \<Rightarrow> rx mod n = r))))"

text \<open>The sizes of the arrays are fixed by their types, 33 and 64.\<close>

definition ecdsa_verify_raw :: "'p curve \<Rightarrow> mod_inverse \<Rightarrow> (bytes \<Rightarrow> bytes) \<Rightarrow> bytes \<Rightarrow> bytes \<Rightarrow> bytes \<Rightarrow> bool" where
  "ecdsa_verify_raw C minv sha256 msg sig pub_key = verify_hash_manual C minv (sha256 msg) sig pub_key"

text \<open>\<open>undo_der\<close> decodes a pair and returns the bytes left over.\<close>

definition ecdsa_verify_der ::
  "'p curve \<Rightarrow> mod_inverse \<Rightarrow> (bytes \<Rightarrow> bytes) \<Rightarrow> (bytes \<Rightarrow> ((nat \<times> nat) \<times> bytes) option) \<Rightarrow> bytes \<Rightarrow> bytes \<Rightarrow> bytes \<Rightarrow> bool" where
  "ecdsa_verify_der C minv sha256 undo_der msg der_sig pub_key \<longleftrightarrow>
     (case undo_der der_sig of
        None \<Rightarrow> False
      | Some ((r, s), rest) \<Rightarrow>
          rest = [] \<and> r < 256 ^ 32 \<and> s < 256 ^ 32 \<and>
          ecdsa_verify_raw C minv sha256 msg (bn_bytes 32 r @ bn_bytes 32 s) pub_key)"

section \<open>Correctness\<close>

text \<open>Documented of \<^verbatim>\<open>BN_mod_inverse\<close>: the inverse where there is one, otherwise an error.\<close>

definition inverse_laws :: "mod_inverse \<Rightarrow> bool" where
  "inverse_laws minv \<longleftrightarrow>
     (\<forall>a n. 1 < n \<longrightarrow>
        (case minv a n of None \<Rightarrow> \<not> coprime a n | Some w \<Rightarrow> w < n \<and> a * w mod n = 1))"

lemma minv_laws:
  assumes "inverse_laws minv"
  shows "minv a SECP256K1_N = Some w \<Longrightarrow> a * w mod SECP256K1_N = 1"
    "coprime a SECP256K1_N \<Longrightarrow> \<exists>w. minv a SECP256K1_N = Some w \<and> a * w mod SECP256K1_N = 1"
proof -
  have "1 < SECP256K1_N" by (simp add: order_value)
  with assms have "case minv a SECP256K1_N of None \<Rightarrow> \<not> coprime a SECP256K1_N
      | Some w \<Rightarrow> w < SECP256K1_N \<and> a * w mod SECP256K1_N = 1" unfolding inverse_laws_def by blast
  then show "minv a SECP256K1_N = Some w \<Longrightarrow> a * w mod SECP256K1_N = 1"
    "coprime a SECP256K1_N \<Longrightarrow> \<exists>w. minv a SECP256K1_N = Some w \<and> a * w mod SECP256K1_N = 1"
    by (auto split: option.splits)
qed

lemma mul_cong: "curve_laws C \<Longrightarrow> a mod SECP256K1_N = b mod SECP256K1_N \<Longrightarrow> point_mul C a P = point_mul C b P"
  using mul_mod by metis

lemma nonce_inverse:
  assumes "k * kinv mod n = 1" and "(w * s) mod n = 1" and "s = kinv * (m mod n) mod n"
  shows "(w * m) mod n = k mod (n :: nat)"
proof -
  have "(k * s) mod n = (k * kinv mod n) * m mod n" by (simp add: assms(3) mod_simps mult.assoc)
  then have ks: "(k * s) mod n = m mod n" using assms(1) by simp
  have "(w * m) mod n = (w * ((k * s) mod n)) mod n" by (simp add: ks mod_simps)
  also have "\<dots> = ((w * s mod n) * k) mod n" by (simp add: mod_simps algebra_simps)
  finally show ?thesis using assms(2) by simp
qed

lemma nonce_inverse_negated:
  assumes "k * kinv mod n = 1" and "(w * (n - s)) mod n = 1" and "s = kinv * (m mod n) mod n" and "s \<le> n"
  shows "(w * m + k) mod n = (0 :: nat)"
proof -
  have "(k * s) mod n = (k * kinv mod n) * m mod n" by (simp add: assms(3) mod_simps mult.assoc)
  then have ks: "(k * s) mod n = m mod n" using assms(1) by simp
  have "(w * m + k) mod n = (w * (k * s) + k) mod n" by (metis ks mod_add_left_eq mod_mult_right_eq)
  also have "\<dots> = (w * (k * s) + (w * (n - s) mod n) * k) mod n" using assms(2) by simp
  also have "\<dots> = (w * (k * s) + w * (n - s) * k) mod n" by (metis mod_add_right_eq mod_mult_left_eq)
  also have "w * (k * s) + w * (n - s) * k = w * k * (s + (n - s))" by (simp add: algebra_simps)
  also have "\<dots> mod n = 0" using assms(4) by simp
  finally show ?thesis .
qed

lemma ecdsa_public_key_Inr:
  assumes "curve_laws C" and "ecdsa_public_key C key = Inr pk"
  obtains x y where "affine C (point_mul C (bn_of key) (generator C)) = Some (x, y)"
    and "pk = (if y mod 2 = 1 then 0x03 else 0x02) # bn_bytes 32 x" and "x < 256 ^ 32"
proof -
  from assms(2) obtain x y where xy: "affine C (point_mul C (bn_of key) (generator C)) = Some (x, y)"
    "x < 256 ^ 32" "y < 256 ^ 32" "pk = (if bn_bytes 32 y ! 31 AND 1 \<noteq> 0 then 0x03 else 0x02) # bn_bytes 32 x"
    by (auto simp: ecdsa_public_key_def ecdsa_bn_to_bytes_def rbind_eq_Inr split: if_splits option.splits prod.splits)
  have "bn_bytes (Suc 31) y ! 31 = word_of_nat (y mod 256)" by (simp only: bn_bytes.simps nth_append length_bn_bytes) simp
  then have "bn_bytes 32 y ! 31 = word_of_nat (y mod 256)" by simp
  moreover have "(word_of_nat (y mod 256) :: u8) AND 1 \<noteq> 0 \<longleftrightarrow> y mod 2 = 1"
    by (simp add: and_one_eq mod_2_eq_odd dvd_mod_iff)
  ultimately show ?thesis using that xy by simp
qed

lemma sign_hash_manual_Inr:
  assumes "group_order C = n" and "sign_hash_manual C minv hash key nonce = Inr sig" and "n < 256 ^ 32"
  obtains x y kinv r s where "affine C (point_mul C (bn_of nonce mod n) (generator C)) = Some (x, y)"
    and "r = x mod n" and "valid_scalar r n" and "minv (bn_of nonce mod n) n = Some kinv"
    and "s = kinv * ((bn_of hash mod n + r * bn_of key mod n) mod n) mod n" and "valid_scalar s n"
    and "sig = bn_bytes 32 r @ bn_bytes 32 (low_s n s)"
proof -
  note a = assms(2) [unfolded sign_hash_manual_def assms(1) Let_def]
  from a obtain x y where xy: "affine C (point_mul C (bn_of nonce mod n) (generator C)) = Some (x, y)"
    by (cases "affine C (point_mul C (bn_of nonce mod n) (generator C))") (auto split: if_splits)
  from a xy obtain kinv where kinv: "minv (bn_of nonce mod n) n = Some kinv"
    by (cases "minv (bn_of nonce mod n) n") (auto split: if_splits)
  define s where "s = kinv * ((bn_of hash mod n + x mod n * bn_of key mod n) mod n) mod n"
  from a xy kinv have r: "valid_scalar (x mod n) n" and s: "valid_scalar s n"
    and sig: "rbind (ecdsa_bn_to_bytes (x mod n) 32) (\<lambda>r_bytes. rbind (ecdsa_bn_to_bytes (low_s n s) 32) (\<lambda>s_bytes. Inr (r_bytes @ s_bytes))) = Inr sig"
    by (simp_all add: s_def split: if_splits)
  from s have "low_s n s < n" by (auto simp: low_s_def valid_scalar_def)
  moreover from r have "x mod n < n" unfolding valid_scalar_def by blast
  ultimately have "low_s n s < 256 ^ 32" "x mod n < 256 ^ 32" using assms(3) by linarith+
  with sig have "sig = bn_bytes 32 (x mod n) @ bn_bytes 32 (low_s n s)"
    by (simp add: ecdsa_bn_to_bytes_def)
  with that [OF xy refl r kinv s_def s] show ?thesis .
qed

lemma low_s_range: "valid_scalar s n \<Longrightarrow> valid_scalar (low_s n s) n \<and> low_s n s \<le> n div 2"
  by (auto simp: low_s_def valid_scalar_def)

text \<open>The point the verification computes, up to its sign the nonce point.\<close>

lemma verify_point:
  assumes "curve_laws C" and "k < SECP256K1_N" and "k * kinv mod SECP256K1_N = 1"
    and "s = kinv * ((e + r * d mod SECP256K1_N) mod SECP256K1_N) mod SECP256K1_N"
    and "low_s SECP256K1_N s * w mod SECP256K1_N = 1"
  shows "point_add C (point_mul C (e * w mod SECP256K1_N) G) (point_mul C (r * w mod SECP256K1_N) (point_mul C d G)) \<in>
    {point_mul C k G, point_inv C (point_mul C k G)}"
proof -
  note laws = assms(1) and n = order_value
  have s: "s = kinv * ((e + r * d) mod SECP256K1_N) mod SECP256K1_N" using assms(4) by (simp add: mod_simps)
  have "point_add C (point_mul C (e * w mod SECP256K1_N) G) (point_mul C (r * w mod SECP256K1_N) (point_mul C d G)) =
      point_mul C (w * (e + r * d)) G" (is "?R = _")
    unfolding mul_mod [OF laws] by (simp add: mul_mul [OF laws] mul_add [OF laws, symmetric] algebra_simps)
  moreover have "point_mul C (w * (e + r * d)) G \<in> {point_mul C k G, point_inv C (point_mul C k G)}"
  proof (cases "SECP256K1_N div 2 < s")
    case False
    then have "(w * s) mod SECP256K1_N = 1" using assms(5) by (simp add: low_s_def mult.commute)
    from nonce_inverse [OF assms(3) this s] show ?thesis using mul_cong [OF laws] by blast
  next
    case True
    then have "(w * (SECP256K1_N - s)) mod SECP256K1_N = 1" using assms(5) by (simp add: low_s_def mult.commute)
    moreover have "s \<le> SECP256K1_N" using s by (simp add: n)
    ultimately have "(w * (e + r * d) + k) mod SECP256K1_N = 0" using nonce_inverse_negated [OF assms(3) _ s] by blast
    then have "point_mul C (w * (e + r * d) + k) G = point_mul C 0 G"
      using mul_cong [OF laws, of "w * (e + r * d) + k" 0] by simp
    then have "point_add C (point_mul C (w * (e + r * d)) G) (point_mul C k G) = infinity C"
      by (simp add: mul_add [OF laws] curve_group(5) [OF laws])
    from inv_unique [OF laws this] show ?thesis by simp
  qed
  ultimately show ?thesis by simp
qed

lemma verify_hash_manualI:
  assumes "group_order C = n" and "sig = bn_bytes 32 r @ bn_bytes 32 s" and "pk = (if b then 0x03 else 0x02) # bn_bytes 32 px"
    and "bn_of (bn_bytes 32 r) = r" and "bn_of (bn_bytes 32 s) = s" and "bn_of (bn_bytes 32 px) = px"
    and "valid_scalar r n" and "valid_scalar s n" and "minv s n = Some w"
    and "affine C (point_add C (point_mul C (bn_of hash mod n * w mod n) (generator C)) (point_mul C (r * w mod n) q)) = Some (x, y)"
    and "x mod n = r" and "decompress C px (if b then 1 else 0) = Some q"
  shows "verify_hash_manual C minv hash sig pk"
  using assms by (cases b) (simp_all add: verify_hash_manual_def Let_def)

text \<open>
  C16: A signature \<^verbatim>\<open>sign_raw\<close> returns verifies for its message under the signer's public key, whenever its
  scalar has an inverse (as it has, the order being prime), and that scalar is in the lower half.
\<close>

theorem ecdsa_sign_verify:
  assumes "curve_laws C" and "inverse_laws minv"
    and "set_private_key C key signer0 = Inr signer"
    and "ecdsa_sign_raw C minv sha256 random signer msg = Inr sig"
    and "coprime (bn_of (drop 32 sig)) SECP256K1_N"
  shows "ecdsa_verify_raw C minv sha256 msg sig (ecdsa_public signer) \<and>
    length sig = 64 \<and> 0 < bn_of (drop 32 sig) \<and> bn_of (drop 32 sig) \<le> SECP256K1_N div 2"
proof -
  note laws = assms(1) and n = order_value
  note order = curve_group(8) [OF laws]
  from assms(3) have signer: "ecdsa_public_key C key = Inr (ecdsa_public signer)" "ecdsa_private signer = key"
    by (auto simp: set_private_key_def rbind_eq_Inr)
  from ecdsa_public_key_Inr [OF laws signer(1)] obtain px py where
    P: "affine C (point_mul C (bn_of key) (generator C)) = Some (px, py)"
    "ecdsa_public signer = (if py mod 2 = 1 then 0x03 else 0x02) # bn_bytes 32 px" "px < 256 ^ 32" by metis
  define hash where "hash = sha256 msg"
  define nonce where "nonce = ecdsa_nonce C sha256 random msg key hash"
  define k where "k = bn_of nonce mod SECP256K1_N"
  have "sign_hash_manual C minv hash key nonce = Inr sig"
    using assms(4) signer(2) by (simp add: ecdsa_sign_raw_def hash_def nonce_def Let_def split: if_splits)
  moreover have "SECP256K1_N < 256 ^ 32" by (simp add: n)
  ultimately obtain x y kinv r s where sig: "affine C (point_mul C k (generator C)) = Some (x, y)"
    "r = x mod SECP256K1_N" "valid_scalar r SECP256K1_N" "minv k SECP256K1_N = Some kinv"
    "s = kinv * ((bn_of hash mod SECP256K1_N + r * bn_of key mod SECP256K1_N) mod SECP256K1_N) mod SECP256K1_N"
    "valid_scalar s SECP256K1_N" "sig = bn_bytes 32 r @ bn_bytes 32 (low_s SECP256K1_N s)"
    using sign_hash_manual_Inr [OF order] unfolding k_def by metis
  note low = low_s_range [OF sig(6)]
  have vals: "bn_of (bn_bytes 32 r) = r" "bn_of (bn_bytes 32 (low_s SECP256K1_N s)) = low_s SECP256K1_N s" "bn_of (bn_bytes 32 px) = px"
    using sig(3) low P(3) by (simp_all add: bn_of_bytes valid_scalar_def n)
  have inv: "k * kinv mod SECP256K1_N = 1"
    using minv_laws(1) [OF assms(2) sig(4)] by simp
  obtain w where w: "minv (low_s SECP256K1_N s) SECP256K1_N = Some w" "low_s SECP256K1_N s * w mod SECP256K1_N = 1"
    using minv_laws(2) [OF assms(2), of "low_s SECP256K1_N s"] assms(5) sig(7) vals by auto
  let ?Q = "point_mul C (bn_of key) (generator C)"
  have "k < SECP256K1_N" by (simp add: k_def n)
  from verify_point [OF laws this inv sig(5) w(2)] have
    "point_add C (point_mul C (bn_of hash mod SECP256K1_N * w mod SECP256K1_N) (generator C)) (point_mul C (r * w mod SECP256K1_N) ?Q) \<in>
      {point_mul C k (generator C), point_inv C (point_mul C k (generator C))}" by simp
  moreover have "affine C (point_inv C (point_mul C k (generator C))) = Some (x, field_prime C - y)"
    "decompress C px (py mod 2) = Some ?Q"
    using curve_affine(2) [OF laws sig(1)] curve_affine(2) [OF laws P(1)] by blast+
  ultimately obtain y' where point: "affine C (point_add C (point_mul C (bn_of hash mod SECP256K1_N * w mod SECP256K1_N) (generator C))
      (point_mul C (r * w mod SECP256K1_N) ?Q)) = Some (x, y')" and dec: "decompress C px (py mod 2) = Some ?Q"
    using sig(1) by auto
  have "verify_hash_manual C minv hash sig (ecdsa_public signer)"
  proof (rule verify_hash_manualI [OF order])
    show "decompress C px (if py mod 2 = 1 then 1 else 0) = Some ?Q" using dec by (cases "odd py") (simp_all add: mod_2_eq_odd)
    show "minv (low_s SECP256K1_N s) SECP256K1_N = Some w" by (rule w(1))
    show "x mod SECP256K1_N = r" using sig(2) by simp
    show "valid_scalar (low_s SECP256K1_N s) SECP256K1_N" using low by blast
  qed (fact sig(7) P(2) vals sig(3) point)+
  then show ?thesis using sig(7) vals low by (simp add: ecdsa_verify_raw_def hash_def valid_scalar_def)
qed

definition bezout_inverse :: mod_inverse where
  "bezout_inverse a n = (if coprime a n then Some (nat (fst (bezw a n) mod int n)) else None)"

lemma bezout_inverse_laws: "inverse_laws bezout_inverse"
proof -
  have "nat (fst (bezw a n) mod int n) < n \<and> a * nat (fst (bezw a n) mod int n) mod n = 1" if "1 < n" "coprime a n" for a n
  proof
    from that(1) show "nat (fst (bezw a n) mod int n) < n" by (simp add: nat_less_iff)
    have "fst (bezw a n) * int a + snd (bezw a n) * int n = 1" using bezw_aux [of a n] that(2) by simp
    then have "int a * fst (bezw a n) = 1 - snd (bezw a n) * int n" by (simp add: algebra_simps)
    then have "(int a * fst (bezw a n)) mod int n = (1 - snd (bezw a n) * int n) mod int n" by simp
    also have "\<dots> = 1" using that(1) by (simp add: mod_diff_eq [symmetric])
    finally have "int (a * nat (fst (bezw a n) mod int n) mod n) = 1"
      using that(1) by (simp add: zmod_int mod_simps)
    then show "a * nat (fst (bezw a n) mod int n) mod n = 1" by linarith
  qed
  then show ?thesis by (simp add: inverse_laws_def bezout_inverse_def)
qed

lemma zn_one: "point_mul zn_curve k (generator zn_curve) = zn k"
  by (simp add: zn_curve_def zn_eq_iff mod_simps order_value)

text \<open>The sample: private key 3, nonce and hash 2, so that \<open>r = 2\<close> and \<open>s = 2 * (2 + 2 * 3) / 4 = 4\<close>.\<close>

definition bytes_of_small :: "u8 \<Rightarrow> bytes" where
  "bytes_of_small b = replicate 31 0 @ [b]"

lemma bn_of_small [simp]: "bn_of (bytes_of_small b) = unat b"
proof -
  have "bn_of (replicate n 0) = 0" for n by (simp add: bn_of_zero list_all_iff)
  then show ?thesis by (simp add: bytes_of_small_def bn_of_append) (simp add: bn_of_def)
qed

definition no_ecdsa_signer :: ecdsa_signer where
  "no_ecdsa_signer = \<lparr>ecdsa_private = [], ecdsa_public = [], ecdsa_has_key = False\<rparr>"

lemma sample_public_key: "\<exists>pk. ecdsa_public_key zn_curve (bytes_of_small 3) = Inr pk"
proof -
  have "affine zn_curve (zn 3) = Some (3, 3)" by (simp add: zn_curve_def order_value)
  moreover have "group_order zn_curve = SECP256K1_N" by (simp add: zn_curve_def)
  moreover have "valid_scalar 3 SECP256K1_N" by (simp add: valid_scalar_def order_value)
  ultimately show ?thesis by (simp add: ecdsa_public_key_def zn_one ecdsa_bn_to_bytes_def)
qed

lemma sample_sign:
  "sign_hash_manual zn_curve bezout_inverse (bytes_of_small 2) (bytes_of_small 3) (bytes_of_small 2) =
     Inr (bn_bytes 32 2 @ bn_bytes 32 4)"
proof -
  have "coprime 2 SECP256K1_N" by (simp add: order_value)
  then obtain kinv where kinv: "bezout_inverse 2 SECP256K1_N = Some kinv" "2 * kinv mod SECP256K1_N = 1"
    using minv_laws(2) [OF bezout_inverse_laws] by blast
  have "kinv * 8 mod SECP256K1_N = (2 * kinv mod SECP256K1_N) * 4 mod SECP256K1_N" by (simp add: mod_simps mult.commute)
  with kinv(2) have s: "kinv * 8 mod SECP256K1_N = 4" by (simp add: order_value)
  have "affine zn_curve (zn 2) = Some (2, 2)" by (simp add: zn_curve_def order_value)
  moreover have "group_order zn_curve = SECP256K1_N" by (simp add: zn_curve_def)
  moreover have "valid_scalar 2 SECP256K1_N" "valid_scalar 3 SECP256K1_N" "valid_scalar 4 SECP256K1_N" "low_s SECP256K1_N 4 = 4"
    "2 mod SECP256K1_N = 2" "6 mod SECP256K1_N = 6" "8 mod SECP256K1_N = 8"
    by (simp_all add: valid_scalar_def low_s_def order_value)
  ultimately show ?thesis using kinv(1) s by (simp add: sign_hash_manual_def zn_one ecdsa_bn_to_bytes_def Let_def)
qed

theorem ecdsa_sign_verify_witness:
  "\<exists>signer sig. set_private_key zn_curve (bytes_of_small 3) no_ecdsa_signer = Inr signer \<and>
     ecdsa_sign_raw zn_curve bezout_inverse (\<lambda>_. bytes_of_small 2) [] signer [1] = Inr sig \<and>
     ecdsa_verify_raw zn_curve bezout_inverse (\<lambda>_. bytes_of_small 2) [1] sig (ecdsa_public signer)"
proof -
  obtain signer where signer: "set_private_key zn_curve (bytes_of_small 3) no_ecdsa_signer = Inr signer"
    "ecdsa_private signer = bytes_of_small 3" "ecdsa_has_key signer"
    using sample_public_key by (auto simp: set_private_key_def)
  have "valid_scalar 2 SECP256K1_N" by (simp add: valid_scalar_def order_value)
  moreover have "[0..<1000] = 0 # [Suc 0..<1000]" by (rule upt_conv_Cons) simp
  ultimately have "ecdsa_nonce zn_curve (\<lambda>_. bytes_of_small 2) [] m k h = bytes_of_small 2" for m k h
    unfolding ecdsa_nonce_def by (simp add: valid_scalar_def zn_curve_def del: upt_Suc)
  then have sign: "ecdsa_sign_raw zn_curve bezout_inverse (\<lambda>_. bytes_of_small 2) [] signer [1] = Inr (bn_bytes 32 2 @ bn_bytes 32 4)"
    using signer sample_sign by (simp add: ecdsa_sign_raw_def)
  have "odd SECP256K1_N" by (simp add: order_value)
  then have "coprime ((2 :: nat) ^ 2) SECP256K1_N" unfolding coprime_power_left_iff by simp
  moreover have "bn_of (bn_bytes 32 4) = 4" by (rule bn_of_bytes) simp
  ultimately have "coprime (bn_of (drop 32 (bn_bytes 32 2 @ bn_bytes 32 4))) SECP256K1_N" by simp
  with ecdsa_sign_verify [OF zn_curve_laws bezout_inverse_laws signer(1) sign] sign signer(1) show ?thesis by blast
qed

end
