(* ===== verification/Sodium.thy ===== *)
theory Sodium
  imports Schnorr
begin

text \<open>
  The wrappers of libsodium: Ed25519 (src/crypto/ed25519_signer.cpp), sr25519 (src/crypto/sr25519_signer.cpp),
  the BLS guard (src/crypto/bls_signer.cpp) and the encryption of wallet states
  (src/crypto/state_encryption.cpp). The library is a record of functions; logging and its initialisation,
  which succeeds, are left out. Results: an encrypted state is read back under its password; keys and
  signatures survive their hex form.
\<close>

section \<open>The library\<close>

text \<open>
  \<open>None\<close> stands for a return code other than 0. \<open>ristretto_base\<close> and \<open>blake2b\<close> give the bytes that are
  written; \<open>ristretto_valid\<close> gives the return code.
\<close>

record sodium =
  sign_seed_keypair :: "bytes \<Rightarrow> (bytes \<times> bytes) option"
  sign_detached :: "bytes \<Rightarrow> bytes \<Rightarrow> bytes option"
  sign_verify_detached :: "bytes \<Rightarrow> bytes \<Rightarrow> bytes \<Rightarrow> bool"
  ristretto_base :: "bytes \<Rightarrow> bytes"
  ristretto_mult :: "bytes \<Rightarrow> bytes \<Rightarrow> bytes option"
  ristretto_valid :: "bytes \<Rightarrow> int"
  blake2b :: "nat \<Rightarrow> bytes \<Rightarrow> bytes \<Rightarrow> bytes"
  auth_hmacsha512 :: "bytes \<Rightarrow> bytes \<Rightarrow> bytes"
  pwhash :: "string \<Rightarrow> bytes \<Rightarrow> bytes option"
  secretbox :: "bytes \<Rightarrow> bytes \<Rightarrow> bytes \<Rightarrow> bytes option"
  secretbox_open :: "bytes \<Rightarrow> bytes \<Rightarrow> bytes \<Rightarrow> bytes option"

text \<open>
  Documented of signatures: keys of 32 and 64 bytes, signatures of 64, and what is signed with a secret key
  verifies under its public key. Of \<^verbatim>\<open>crypto_secretbox\<close>: 16 bytes more than the text, and it opens again.
\<close>

definition sign_laws :: "sodium \<Rightarrow> bool" where
  "sign_laws S \<longleftrightarrow>
     (\<forall>seed pk sk. sign_seed_keypair S seed = Some (pk, sk) \<longrightarrow>
        length pk = 32 \<and> length sk = 64 \<and>
        (\<forall>m. \<exists>s. sign_detached S m sk = Some s \<and> length s = 64 \<and> sign_verify_detached S s m pk))"

definition secretbox_laws :: "sodium \<Rightarrow> bool" where
  "secretbox_laws S \<longleftrightarrow>
     (\<forall>m no key c. secretbox S m no key = Some c \<longrightarrow> length c = length m + 16 \<and> secretbox_open S c no key = Some m) \<and>
     (\<forall>password salt key. pwhash S password salt = Some key \<longrightarrow> length key = 32)"

section \<open>Ed25519\<close>

text \<open>The seed is drawn inside \<^verbatim>\<open>crypto_sign_keypair\<close>.\<close>

definition ed_generate_keypair :: "sodium \<Rightarrow> bytes \<Rightarrow> (bytes \<times> bytes) result" where
  "ed_generate_keypair S random =
     (case sign_seed_keypair S random of
        None \<Rightarrow> Inl (Runtime_error ''Failed to generate Ed25519 keypair'')
      | Some kp \<Rightarrow> Inr kp)"

definition ed_keypair_from_seed :: "sodium \<Rightarrow> bytes \<Rightarrow> (bytes \<times> bytes) result" where
  "ed_keypair_from_seed S seed =
     (case sign_seed_keypair S seed of
        None \<Rightarrow> Inl (Runtime_error ''Failed to generate keypair from seed'')
      | Some kp \<Rightarrow> Inr kp)"

definition ed_sign_message :: "sodium \<Rightarrow> bytes \<Rightarrow> bytes \<Rightarrow> bytes result" where
  "ed_sign_message S msg private_key =
     (case sign_detached S msg private_key of
        None \<Rightarrow> Inl (Runtime_error ''Failed to sign message'')
      | Some sig \<Rightarrow>
          if length sig \<noteq> 64
          then Inl (Runtime_error (''Signature size mismatch: expected 64 got '' @ to_string (length sig)))
          else Inr sig)"

definition ed_verify_signature :: "sodium \<Rightarrow> bytes \<Rightarrow> bytes \<Rightarrow> bytes \<Rightarrow> bool" where
  "ed_verify_signature S msg sig pk = sign_verify_detached S sig msg pk"

definition ed_extract_public_key :: "bytes \<Rightarrow> bytes" where
  "ed_extract_public_key private_key = drop 32 private_key"

definition parse_hex_byte :: "char \<Rightarrow> char \<Rightarrow> u8 result" where
  "parse_hex_byte hi lo =
     (let high = hex_nibble hi; low = hex_nibble lo
      in if high < 0 \<or> low < 0 then Inl (Invalid_argument ''Invalid hex string format'')
         else Inr (word_of_int (push_bit 4 high OR low)))"

fun ed_hex_loop :: "string \<Rightarrow> bytes result" where
  "ed_hex_loop (a # b # s) = rbind (parse_hex_byte a b) (\<lambda>x. rbind (ed_hex_loop s) (\<lambda>xs. Inr (x # xs)))"
| "ed_hex_loop s = Inr []"

definition ed_public_key_from_hex :: "string \<Rightarrow> bytes result" where
  "ed_public_key_from_hex hex_string =
     (let hex = (if starts_with hex_string ''0x'' \<or> starts_with hex_string ''0X'' then drop 2 hex_string else hex_string)
      in if length hex \<noteq> 64
         then Inl (Invalid_argument ''Public key hex string must be exactly 64 characters (32 bytes hex)'')
         else ed_hex_loop hex)"

definition ed_signature_from_hex :: "string \<Rightarrow> bytes result" where
  "ed_signature_from_hex hex_string =
     (let hex = (if starts_with hex_string ''0x'' \<or> starts_with hex_string ''0X'' then drop 2 hex_string else hex_string)
      in if length hex \<noteq> 128
         then Inl (Invalid_argument ''Signature hex string must be exactly 128 characters (64 bytes hex)'')
         else ed_hex_loop hex)"

section \<open>Sr25519\<close>

definition sr_hex_to_bytes :: "string \<Rightarrow> bytes result" where
  "sr_hex_to_bytes hex =
     (let clean = strip_hex_prefix hex
      in if length clean mod 2 \<noteq> 0 then Inl (Invalid_argument ''Invalid hex string length'') else iss_hex_bytes clean)"

definition sr_clamp :: "bytes \<Rightarrow> bytes" where
  "sr_clamp k = (k[0 := k ! 0 AND 0x07])[31 := k ! 31 AND 0xF8 OR 0x30]"

definition be32 :: "u32 \<Rightarrow> bytes" where
  "be32 n = map (\<lambda>i. ucast (drop_bit i n)) [24, 16, 8, 0]"

text \<open>The secret of a child and its chain code.\<close>

definition derive_sr25519_key :: "sodium \<Rightarrow> bytes \<Rightarrow> bytes \<Rightarrow> u32 \<Rightarrow> bytes \<times> bytes" where
  "derive_sr25519_key S seed chain_code index =
     (let out = blake2b S 64 (be32 (index OR 0x80000000) @ seed @ chain_code) []
      in (sr_clamp (take 32 out), take 32 (drop 32 out)))"

definition derive_public_from_secret :: "sodium \<Rightarrow> bytes \<Rightarrow> bytes" where
  "derive_public_from_secret S sk = ristretto_base S sk"

definition build_extended_secret :: "bytes \<Rightarrow> bytes \<Rightarrow> bytes" where
  "build_extended_secret sk pk = sk @ pk"

text \<open>The secret key and the public key; \<open>random\<close> are the bytes drawn.\<close>

definition sr_keypair_from_seed :: "sodium \<Rightarrow> bytes \<Rightarrow> bytes \<times> bytes" where
  "sr_keypair_from_seed S seed =
     (let clamped = sr_clamp seed; pk = derive_public_from_secret S clamped
      in (build_extended_secret clamped pk, pk))"

definition sr_generate_keypair :: "sodium \<Rightarrow> bytes \<Rightarrow> bytes \<times> bytes" where
  "sr_generate_keypair S random =
     (let seed = sr_clamp random; pk = derive_public_from_secret S seed
      in (build_extended_secret seed pk, pk))"

definition sr_derive_child_key :: "sodium \<Rightarrow> bytes \<Rightarrow> bytes \<Rightarrow> u32 \<Rightarrow> bytes \<times> bytes" where
  "sr_derive_child_key S parent_key chain_code index =
     (let (derived_secret, derived_chain) = derive_sr25519_key S (take 32 parent_key) chain_code index;
          derived_public = derive_public_from_secret S derived_secret
      in (build_extended_secret derived_secret derived_public, derived_chain))"

text \<open>
  One element of the path, from the current secret to the next and its chain code; the key of the HMAC is
  \<open>hmac_key\<close>, the master chain code, for every element.
\<close>

definition sr_path_step :: "sodium \<Rightarrow> bytes \<Rightarrow> u32 \<Rightarrow> bytes \<times> bytes \<Rightarrow> bytes \<times> bytes" where
  "sr_path_step S hmac_key path_elem st =
     (let derived = auth_hmacsha512 S (0x00 # fst st @ be32 path_elem) hmac_key
      in (sr_clamp (take 32 derived), take 32 (drop 32 derived)))"

definition sr_derive_path :: "sodium \<Rightarrow> bytes \<Rightarrow> u32 list \<Rightarrow> bytes \<times> bytes \<times> bytes" where
  "sr_derive_path S seed derivation_path =
     (let hmac_out = auth_hmacsha512 S (0x00 # seed) (take 32 seed);
          master_chain = take 32 (drop 32 hmac_out);
          (secret, chain) = fold (sr_path_step S master_chain) derivation_path (take 32 seed, master_chain);
          pk = derive_public_from_secret S secret
      in (build_extended_secret secret pk, pk, chain))"

definition sr_extract_public_key :: "sodium \<Rightarrow> bytes \<Rightarrow> bytes" where
  "sr_extract_public_key S sk = derive_public_from_secret S (take 32 sk)"

definition sr_sign :: "sodium \<Rightarrow> bytes \<Rightarrow> bytes \<Rightarrow> bytes result" where
  "sr_sign S msg sk =
     (case sign_detached S msg sk of
        None \<Rightarrow> Inl (Runtime_error ''SR25519 signing failed'')
      | Some sig \<Rightarrow> if length sig \<noteq> 64 then Inl (Runtime_error ''Signature size mismatch'') else Inr sig)"

definition sr_sign_vrf :: "sodium \<Rightarrow> bytes \<Rightarrow> bytes \<Rightarrow> bytes \<Rightarrow> bytes result" where
  "sr_sign_vrf S msg sk chain_code =
     (case sign_detached S (chain_code @ msg) sk of
        None \<Rightarrow> Inl (Runtime_error ''SR25519 VRF signing failed'')
      | Some sig \<Rightarrow> Inr sig)"

definition sr_verify :: "sodium \<Rightarrow> bytes \<Rightarrow> bytes \<Rightarrow> bytes \<Rightarrow> bool" where
  "sr_verify S msg sig pk = sign_verify_detached S sig msg pk"

definition sr_verify_vrf :: "sodium \<Rightarrow> bytes \<Rightarrow> bytes \<Rightarrow> bytes \<Rightarrow> bytes \<Rightarrow> bool" where
  "sr_verify_vrf S msg sig pk chain_code = sign_verify_detached S sig (chain_code @ msg) pk"

definition sr_compute_vrf_output :: "sodium \<Rightarrow> bytes \<Rightarrow> bytes \<Rightarrow> bytes \<Rightarrow> bytes" where
  "sr_compute_vrf_output S msg sk chain_code = blake2b S 32 (chain_code @ msg) (take 32 sk)"

definition sr_verify_vrf_output :: "sodium \<Rightarrow> bytes \<Rightarrow> bytes \<Rightarrow> bytes \<Rightarrow> bytes \<Rightarrow> bytes \<Rightarrow> bool" where
  "sr_verify_vrf_output S vrf_output msg sig pk chain_code \<longleftrightarrow>
     sr_verify_vrf S msg sig pk chain_code \<and> vrf_output = blake2b S 32 vrf_output pk"

definition sr_public_key_from_hex :: "string \<Rightarrow> bytes result" where
  "sr_public_key_from_hex hex =
     rbind (sr_hex_to_bytes hex) (\<lambda>bs. if length bs \<noteq> 32 then Inl (Invalid_argument ''Public key must be 32 bytes'') else Inr bs)"

definition sr_secret_key_from_hex :: "string \<Rightarrow> bytes result" where
  "sr_secret_key_from_hex hex =
     rbind (sr_hex_to_bytes hex) (\<lambda>bs. if length bs \<noteq> 64 then Inl (Invalid_argument ''Secret key must be 64 bytes'') else Inr bs)"

definition sr_signature_from_hex :: "string \<Rightarrow> bytes result" where
  "sr_signature_from_hex hex =
     rbind (sr_hex_to_bytes hex) (\<lambda>bs. if length bs \<noteq> 64 then Inl (Invalid_argument ''Signature must be 64 bytes'') else Inr bs)"

section \<open>The BLS guard\<close>

text \<open>Deterministic key material; what needs BLS12-381 throws, and every verification refuses.\<close>

definition bls_base :: bytes where
  "bls_base = 9 # replicate 31 0"

definition bls_public_from_secret :: "sodium \<Rightarrow> bytes \<Rightarrow> bytes" where
  "bls_public_from_secret S sk =
     (case ristretto_mult S sk bls_base of
        None \<Rightarrow> replicate 48 0
      | Some point \<Rightarrow> replicate 16 0 @ point)"

definition bls_generate_keypair :: "sodium \<Rightarrow> bytes \<Rightarrow> bytes \<times> bytes" where
  "bls_generate_keypair S random = (random, bls_public_from_secret S random)"

definition bls_keypair_from_seed :: "sodium \<Rightarrow> bytes \<Rightarrow> bytes \<times> bytes" where
  "bls_keypair_from_seed S seed = (seed, bls_public_from_secret S seed)"

definition bls_derive_dust_key :: "sodium \<Rightarrow> bytes \<Rightarrow> u32 \<Rightarrow> u32 \<Rightarrow> bytes \<times> bytes" where
  "bls_derive_dust_key S seed role index =
     (let derived_key = take 32 (blake2b S 64 (seed @ be32 role @ be32 index) [])
      in (derived_key, bls_public_from_secret S derived_key))"

record bls_signer =
  bls_secret :: bytes
  bls_public :: bytes
  bls_has_key :: bool

definition bls_set_secret_key :: "sodium \<Rightarrow> bytes \<Rightarrow> bls_signer \<Rightarrow> bls_signer" where
  "bls_set_secret_key S sk signer =
     signer\<lparr>bls_secret := sk, bls_public := bls_public_from_secret S sk, bls_has_key := True\<rparr>"

definition bls_sign_g1 :: "bls_signer \<Rightarrow> bytes \<Rightarrow> bytes result" where
  "bls_sign_g1 signer msg = Inl (Runtime_error ''BLS G1 signing requires a BLS12-381 backend'')"

definition bls_verify_g1 :: "bytes \<Rightarrow> bytes \<Rightarrow> bytes \<Rightarrow> bool" where
  "bls_verify_g1 msg sig pk = False"

definition bls_aggregate_g1 :: "bytes list \<Rightarrow> bytes result" where
  "bls_aggregate_g1 sigs =
     (if sigs = [] then Inl (Invalid_argument ''Cannot aggregate empty signature list'')
      else Inl (Runtime_error ''BLS G1 aggregation requires a BLS12-381 backend''))"

text \<open>The loop over the three vectors.\<close>

fun bls_batch_loop :: "bytes list \<Rightarrow> bytes list \<Rightarrow> bytes list \<Rightarrow> bool" where
  "bls_batch_loop (m # ms) (s # ss) (k # ks) \<longleftrightarrow> (if \<not> bls_verify_g1 m s k then False else bls_batch_loop ms ss ks)"
| "bls_batch_loop _ _ _ \<longleftrightarrow> True"

definition bls_batch_verify :: "bytes list \<Rightarrow> bytes list \<Rightarrow> bytes list \<Rightarrow> bool" where
  "bls_batch_verify msgs sigs keys \<longleftrightarrow>
     (if length msgs \<noteq> length sigs \<or> length sigs \<noteq> length keys \<or> msgs = [] then False
      else bls_batch_loop msgs sigs keys)"

text \<open>The first 64 bytes of the message and of the tag, each filled up with zeros.\<close>

definition bls_hash_to_field :: "sodium \<Rightarrow> bytes \<Rightarrow> string \<Rightarrow> bytes" where
  "bls_hash_to_field S msg dst =
     (let pad = (\<lambda>bs. take 64 bs @ replicate (64 - length bs) 0)
      in blake2b S 32 (pad msg @ pad (map byte_of_char dst)) [])"

text \<open>Decoding to an array of \<open>n\<close> bytes, zeros where the text ends; what is longer is ignored.\<close>

definition bls_from_hex :: "nat \<Rightarrow> string \<Rightarrow> bytes result" where
  "bls_from_hex n hex =
     rbind (iss_hex_bytes (take (2 * n) hex)) (\<lambda>bs. Inr (bs @ replicate (n - length bs) 0))"

definition bls_secret_key_from_hex :: "string \<Rightarrow> bytes result" where
  "bls_secret_key_from_hex hex = bls_from_hex 32 hex"

definition bls_public_key_from_hex :: "string \<Rightarrow> bytes result" where
  "bls_public_key_from_hex hex = bls_from_hex 48 hex"

definition bls_signature_from_hex :: "string \<Rightarrow> bytes result" where
  "bls_signature_from_hex hex = bls_from_hex 48 hex"

text \<open>The key aggregator keeps keys with an index.\<close>

type_synonym bls_aggregator = "(nat \<times> bytes) list"

definition bls_add_key :: "bytes \<Rightarrow> bls_aggregator \<Rightarrow> bls_aggregator" where
  "bls_add_key pk keys = keys @ [(length keys, pk)]"

definition bls_add_key_at :: "nat \<Rightarrow> bytes \<Rightarrow> bls_aggregator \<Rightarrow> bls_aggregator" where
  "bls_add_key_at index pk keys = keys @ [(index, pk)]"

definition bls_aggregate_keys :: "bls_aggregator \<Rightarrow> bytes result" where
  "bls_aggregate_keys keys =
     (if keys = [] then Inr (replicate 48 0)
      else Inl (Runtime_error ''BLS public key aggregation requires a BLS12-381 backend''))"

section \<open>Encrypted states\<close>

definition derive_key_from_password :: "sodium \<Rightarrow> string \<Rightarrow> bytes \<Rightarrow> bytes result" where
  "derive_key_from_password S password sa =
     (case pwhash S password sa of
        None \<Rightarrow> Inl (Runtime_error ''Failed to derive key from password'')
      | Some key \<Rightarrow> Inr key)"

text \<open>\<open>no\<close> is the random nonce.\<close>

definition state_encrypt :: "sodium \<Rightarrow> bytes \<Rightarrow> bytes \<Rightarrow> bytes \<Rightarrow> bytes result" where
  "state_encrypt S no plaintext key =
     (if length key \<noteq> 32 then Inl (Invalid_argument ''Invalid key size for encryption'')
      else (case secretbox S plaintext no key of
              None \<Rightarrow> Inl (Runtime_error ''Encryption failed'')
            | Some ct \<Rightarrow> Inr (no @ ct)))"

definition state_decrypt :: "sodium \<Rightarrow> bytes \<Rightarrow> bytes \<Rightarrow> bytes option" where
  "state_decrypt S ct key =
     (if length key \<noteq> 32 then None
      else if length ct < 24 + 16 then None
      else secretbox_open S (drop 24 ct) (take 24 ct) key)"

definition encrypt_string :: "sodium \<Rightarrow> bytes \<Rightarrow> string \<Rightarrow> bytes \<Rightarrow> bytes result" where
  "encrypt_string S no plaintext key = state_encrypt S no (map byte_of_char plaintext) key"

definition decrypt_to_string :: "sodium \<Rightarrow> bytes \<Rightarrow> bytes \<Rightarrow> string option" where
  "decrypt_to_string S ct key = map_option (map char_of_byte) (state_decrypt S ct key)"

definition encrypted_state_create :: "sodium \<Rightarrow> bytes \<Rightarrow> bytes \<Rightarrow> string \<Rightarrow> string \<Rightarrow> bytes result" where
  "encrypted_state_create S sa no plaintext password =
     rbind (derive_key_from_password S password sa) (\<lambda>key.
     rbind (encrypt_string S no plaintext key) (\<lambda>encrypted. Inr ([1] @ sa @ encrypted)))"

definition is_encrypted :: "bytes \<Rightarrow> bool" where
  "is_encrypted data \<longleftrightarrow> (if length data < 1 + 16 + 24 + 16 then False else data ! 0 = 1)"

definition encrypted_state_decrypt :: "sodium \<Rightarrow> bytes \<Rightarrow> string \<Rightarrow> string option result" where
  "encrypted_state_decrypt S encrypted password =
     (if \<not> is_encrypted encrypted then Inr None
      else
        (let sa = take 16 (drop 1 encrypted); ct = drop 17 encrypted
         in rbind (derive_key_from_password S password sa) (\<lambda>key. Inr (decrypt_to_string S ct key))))"

definition state_verify_password :: "sodium \<Rightarrow> bytes \<Rightarrow> string \<Rightarrow> bool result" where
  "state_verify_password S encrypted password =
     rbind (encrypted_state_decrypt S encrypted password) (\<lambda>p. Inr (p \<noteq> None))"

section \<open>Properties\<close>

lemma encrypted_state_form:
  assumes "secretbox_laws S" and "encrypted_state_create S sa no plaintext password = Inr out"
  obtains key ct where "derive_key_from_password S password sa = Inr key" "length key = 32"
    "secretbox S (map byte_of_char plaintext) no key = Some ct" "out = 1 # sa @ no @ ct"
    "length ct = length plaintext + 16" "secretbox_open S ct no key = Some (map byte_of_char plaintext)"
proof -
  from assms(2) obtain key ct where k: "pwhash S password sa = Some key"
    and ct: "secretbox S (map byte_of_char plaintext) no key = Some ct" and out: "out = 1 # sa @ no @ ct"
    by (auto simp: encrypted_state_create_def derive_key_from_password_def encrypt_string_def state_encrypt_def rbind_eq_Inr
        split: option.splits if_splits)
  have "length key = 32" "length ct = length plaintext + 16" "secretbox_open S ct no key = Some (map byte_of_char plaintext)"
    using assms(1) k ct by (auto simp: secretbox_laws_def)
  then show thesis using that k ct out by (simp add: derive_key_from_password_def)
qed

text \<open>Under its own salt and nonce, any text of the form is decrypted to what the box opens to.\<close>

lemma encrypted_state_opens:
  assumes "length sa = 16" and "length no = 24" and "16 \<le> length ct" and "length key = 32"
    and "derive_key_from_password S password sa = Inr key"
  shows "is_encrypted (1 # sa @ no @ ct) \<and> encrypted_state_decrypt S (1 # sa @ no @ ct) password =
    Inr (map_option (map char_of_byte) (secretbox_open S ct no key))"
  using assms by (simp add: is_encrypted_def encrypted_state_decrypt_def decrypt_to_string_def state_decrypt_def Let_def)

lemma encrypted_state_read:
  assumes "secretbox_laws S" and "length sa = 16" and "length no = 24"
    and "encrypted_state_create S sa no plaintext password = Inr out"
  shows "is_encrypted out \<and> length out = 57 + length plaintext \<and> encrypted_state_decrypt S out password = Inr (Some plaintext)"
proof -
  obtain key ct where k: "derive_key_from_password S password sa = Inr key" "length key = 32"
    "out = 1 # sa @ no @ ct" "length ct = length plaintext + 16"
    "secretbox_open S ct no key = Some (map byte_of_char plaintext)"
    by (rule encrypted_state_form [OF assms(1,4)])
  have "16 \<le> length ct" using k(4) by simp
  from encrypted_state_opens [OF assms(2,3) this k(2,1)] show ?thesis
    using assms(2,3) k(3-5) by simp
qed

text \<open>
  C38: What \<^verbatim>\<open>EncryptedState::create\<close> returns has the format of an encrypted state, one byte of version, the
  salt, the nonce and 16 bytes more than the text, and under the same password it is decrypted to the text.
\<close>

theorem encrypted_state_roundtrip:
  assumes "secretbox_laws S" and "length sa = 16" and "length no = 24"
    and "encrypted_state_create S sa no plaintext password = Inr out"
  shows "is_encrypted out \<and> length out = 57 + length plaintext \<and>
    encrypted_state_decrypt S out password = Inr (Some plaintext) \<and> state_verify_password S out password = Inr True"
  using encrypted_state_read [OF assms] by (simp add: state_verify_password_def)

definition toy_sodium :: sodium where
  "toy_sodium = \<lparr>
     sign_seed_keypair = (\<lambda>seed. Some (take 32 (seed @ replicate 32 0), take 32 (seed @ replicate 32 0) @ take 32 (seed @ replicate 32 0))),
     sign_detached = (\<lambda>m sk. Some (drop 32 sk @ replicate 32 (word_of_nat (length m)))),
     sign_verify_detached = (\<lambda>s m pk. s = pk @ replicate 32 (word_of_nat (length m))),
     ristretto_base = (\<lambda>s. s),
     ristretto_mult = (\<lambda>s p. Some p),
     ristretto_valid = (\<lambda>p. if length p = 32 then 1 else 0),
     blake2b = (\<lambda>n m k. replicate n 7),
     auth_hmacsha512 = (\<lambda>m k. replicate 64 8),
     pwhash = (\<lambda>p s. Some (replicate 32 9)),
     secretbox = (\<lambda>m no k. Some (replicate 16 5 @ m)),
     secretbox_open = (\<lambda>c no k. Some (drop 16 c))\<rparr>"

lemma toy_sodium_laws: "secretbox_laws toy_sodium" "sign_laws toy_sodium"
  by (auto simp: secretbox_laws_def sign_laws_def toy_sodium_def)

theorem encrypted_state_roundtrip_witness:
  "\<exists>out. encrypted_state_create toy_sodium (replicate 16 1) (replicate 24 2) ''state'' ''pw'' = Inr out \<and>
     encrypted_state_decrypt toy_sodium out ''pw'' = Inr (Some ''state'')"
proof -
  obtain out where out: "encrypted_state_create toy_sodium (replicate 16 1) (replicate 24 2) ''state'' ''pw'' = Inr out"
    by (simp add: encrypted_state_create_def derive_key_from_password_def encrypt_string_def state_encrypt_def toy_sodium_def)
  then show ?thesis using encrypted_state_roundtrip [OF toy_sodium_laws(1) _ _ out] by auto
qed

section \<open>Hex forms of fixed size\<close>

text \<open>The contract of keys and signatures with their hex form: a value of the right size is read back.\<close>

locale fixed_hex =
  fixes width :: nat and of_hex :: "string \<Rightarrow> bytes result"
  assumes reads_back: "length bs = width \<Longrightarrow> of_hex (crypto_to_hex bs) = Inr bs"
begin

lemma hex_injective:
  assumes "length a = width" and "length b = width" and "crypto_to_hex a = crypto_to_hex b"
  shows "a = b"
proof -
  have "(Inr a :: bytes result) = Inr b"
    using reads_back [OF assms(1)] reads_back [OF assms(2)] unfolding assms(3) by (rule trans [OF sym])
  then show ?thesis by simp
qed

end

lemma ed_hex_loop_enc: "ed_hex_loop (crypto_to_hex bs) = Inr bs"
  by (induction bs) (simp_all add: crypto_to_hex_eq parse_hex_byte_def hex_nibble_xdigit of_nibble_digits Let_def)

lemma ed_from_hex:
  "length bs = 32 \<Longrightarrow> ed_public_key_from_hex (crypto_to_hex bs) = Inr bs"
  "length bs = 64 \<Longrightarrow> ed_signature_from_hex (crypto_to_hex bs) = Inr bs"
  using no_prefix_in_hex [of bs] ed_hex_loop_enc [of bs]
  by (simp_all add: ed_public_key_from_hex_def ed_signature_from_hex_def crypto_to_hex_eq)

lemma sr_hex_to_bytes_enc: "sr_hex_to_bytes (crypto_to_hex bs) = Inr bs"
  using no_prefix_in_hex [of bs] by (simp add: sr_hex_to_bytes_def strip_hex_prefix_def crypto_to_hex_eq iss_hex_bytes_enc)

lemma bls_from_hex_enc: "length bs = n \<Longrightarrow> bls_from_hex n (crypto_to_hex bs) = Inr bs"
  by (simp add: bls_from_hex_def crypto_to_hex_eq iss_hex_bytes_enc)

interpretation ed_public: fixed_hex 32 ed_public_key_from_hex
  by unfold_locales (rule ed_from_hex)

interpretation ed_signature: fixed_hex 64 ed_signature_from_hex
  by unfold_locales (rule ed_from_hex)

interpretation sr_public: fixed_hex 32 sr_public_key_from_hex
  by unfold_locales (simp add: sr_public_key_from_hex_def sr_hex_to_bytes_enc)

interpretation sr_secret: fixed_hex 64 sr_secret_key_from_hex
  by unfold_locales (simp add: sr_secret_key_from_hex_def sr_hex_to_bytes_enc)

interpretation sr_signature: fixed_hex 64 sr_signature_from_hex
  by unfold_locales (simp add: sr_signature_from_hex_def sr_hex_to_bytes_enc)

interpretation bls_secret: fixed_hex 32 bls_secret_key_from_hex
  by unfold_locales (simp add: bls_secret_key_from_hex_def bls_from_hex_enc)

interpretation bls_public: fixed_hex 48 bls_public_key_from_hex
  by unfold_locales (simp add: bls_public_key_from_hex_def bls_from_hex_enc)

text \<open>The three schemes read the same text of a signature alike.\<close>

lemma signature_texts_agree:
  assumes "length bs = 64"
  shows "ed_signature_from_hex (crypto_to_hex bs) = sr_signature_from_hex (crypto_to_hex bs)"
  using ed_signature.reads_back [OF assms] sr_signature.reads_back [OF assms] by simp

section \<open>Derivation\<close>

text \<open>
  The comments of the source claim that clamping leaves scalars from \<open>2 ^ 252\<close> to \<open>2 ^ 253\<close> (little endian);
  the two highest bits of the last byte are kept.
\<close>

lemma sr_clamp_exceeds: "2 ^ 255 \<le> bn_of (rev (sr_clamp (replicate 32 0xFF)))"
proof -
  have "replicate 32 (0xFF :: u8) = 0xFF # replicate 30 0xFF @ [0xFF]" by (simp add: numeral_eq_Suc)
  then have "rev (sr_clamp (replicate 32 0xFF)) = [0xF8] @ replicate 30 0xFF @ [7]"
    by (simp add: sr_clamp_def list_update_append nth_append)
  then show ?thesis using bn_of_append [of "[0xF8]" "replicate 30 0xFF @ [7]"] by (simp add: bn_of_def)
qed

text \<open>Of the chain codes along a path only the last is used, and only as a result.\<close>

lemma sr_path_ignores_chain: "sr_path_step S key elem (sec, c1) = sr_path_step S key elem (sec, c2)"
  by (simp add: sr_path_step_def)

end
