(* ===== verification/Signing.thy ===== *)
theory Signing
  imports Ecdsa Sodium KeyStore
begin

text \<open>
  Keys and signers of src/signing-submission/signing_submission.cpp: key generation, addresses, the
  transaction signer and the batch signer over BIP-340, finality votes over Ed25519, and the verifier of
  foreign signatures. Results: a vote is verified by its signer; but the verification of a transaction
  signature ignores the transaction once something was signed, a signer does not recognise its own
  signatures, and no sr25519 signature under a valid key is accepted.
\<close>

section \<open>The libraries\<close>

text \<open>\<open>has_sodium\<close> is the build switch \<^verbatim>\<open>MIDNIGHT_ENABLE_SODIUM\<close>; without it the Ed25519 wrapper throws.\<close>

record 'p crypto =
  sodium_lib :: sodium
  has_sodium :: bool
  curve_lib :: "'p curve"
  sha256_lib :: "bytes \<Rightarrow> bytes"
  hmac_sha256_lib :: "bytes \<Rightarrow> bytes \<Rightarrow> bytes"

definition with_sodium :: "'p crypto \<Rightarrow> string \<Rightarrow> 'a result \<Rightarrow> 'a result" where
  "with_sodium E what r = (if has_sodium E then r else Inl (Runtime_error what))"

section \<open>Helpers\<close>

definition derive_seed_bytes_from_phrase :: "'p crypto \<Rightarrow> string \<Rightarrow> bytes" where
  "derive_seed_bytes_from_phrase E phrase =
     take 32 (hmac_sha256_lib E (map byte_of_char ''midnight-seed-derivation'') (map byte_of_char phrase))"

definition is_prefixed_hex_signature :: "string \<Rightarrow> bool" where
  "is_prefixed_hex_signature s \<longleftrightarrow>
     (if length s \<noteq> 130 \<or> \<not> starts_with s ''0x'' then False else is_hex_string (drop 2 s))"

definition append_hash_payload :: "bytes \<Rightarrow> string \<Rightarrow> bytes result" where
  "append_hash_payload target hash =
     (let normalized = strip_hex_prefix hash
      in if is_hex_string normalized then rbind (stoul_loop normalized) (\<lambda>bs. Inr (target @ bs))
         else Inr (target @ map byte_of_char hash))"

section \<open>The key manager\<close>

definition mk_keypair :: "key_type \<Rightarrow> string \<Rightarrow> string \<Rightarrow> keypair" where
  "mk_keypair k pk sk = \<lparr>key_kind = k, kp_public = pk, kp_private = sk, kp_seed = []\<rparr>"

text \<open>\<open>random\<close> are the bytes the libraries draw. An exception caught inside gives \<open>None\<close>.\<close>

definition generate_sr25519_key :: "'p crypto \<Rightarrow> bytes \<Rightarrow> keypair option result" where
  "generate_sr25519_key E random =
     with_sodium E ''Cannot generate sr25519 key: libsodium crypto is unavailable''
       (let (sk, pk) = sr_generate_keypair (sodium_lib E) random
        in Inr (Some (mk_keypair SR25519 (''0x'' @ crypto_to_hex pk) (''0x'' @ crypto_to_hex sk))))"

definition generate_ed25519_key :: "'p crypto \<Rightarrow> bytes \<Rightarrow> keypair option result" where
  "generate_ed25519_key E random =
     with_sodium E ''Cannot generate ed25519 key: libsodium crypto is unavailable''
       (rbind (ed_generate_keypair (sodium_lib E) random) (\<lambda>(pk, sk).
          Inr (Some (mk_keypair ED25519 (''0x'' @ crypto_to_hex pk) (prefixed_hex sk)))))"

definition generate_bip340_key :: "'p crypto \<Rightarrow> bytes option \<Rightarrow> keypair option result" where
  "generate_bip340_key E random =
     catch_all
       (rbind (generate_keypair (curve_lib E) random) (\<lambda>(sk, pk).
          Inr (Some (mk_keypair BIP340 (''0x'' @ crypto_to_hex pk) (prefixed_hex sk)))))
       (\<lambda>_. Inr None)"

definition generate_ecdsa_key :: "'p crypto \<Rightarrow> bytes option list \<Rightarrow> keypair option result" where
  "generate_ecdsa_key E randoms =
     catch_all
       (rbind (ecdsa_generate_keypair (curve_lib E) randoms) (\<lambda>(sk, pk).
          Inr (Some (mk_keypair ECDSA (''0x'' @ crypto_to_hex pk) (''0x'' @ crypto_to_hex sk)))))
       (\<lambda>_. Inr None)"

definition generate_bls_key :: "'p crypto \<Rightarrow> bytes \<Rightarrow> keypair option result" where
  "generate_bls_key E random =
     (let (sk, pk) = bls_generate_keypair (sodium_lib E) random
      in Inr (Some (mk_keypair BLS (''0x'' @ crypto_to_hex pk) (''0x'' @ crypto_to_hex sk))))"

definition derive_address_sr25519 :: "'p crypto \<Rightarrow> string \<Rightarrow> string result" where
  "derive_address_sr25519 E pk =
     with_sodium E ''Cannot derive address: libsodium crypto is unavailable'' (rbind (substr pk 2 40) (\<lambda>s. Inr (''5'' @ s)))"

definition derive_address_ed25519 :: "'p crypto \<Rightarrow> string \<Rightarrow> string result" where
  "derive_address_ed25519 E pk =
     with_sodium E ''Cannot derive address: libsodium crypto is unavailable'' (rbind (substr pk 2 40) (\<lambda>s. Inr (''e'' @ s)))"

definition derive_address :: "'p crypto \<Rightarrow> keypair \<Rightarrow> string result" where
  "derive_address E kp =
     (case key_kind kp of
        SR25519 \<Rightarrow> derive_address_sr25519 E (kp_public kp)
      | ED25519 \<Rightarrow> derive_address_ed25519 E (kp_public kp)
      | ECDSA \<Rightarrow> rbind (substr (kp_public kp) 2 40) (\<lambda>s. Inr (''0x'' @ s))
      | BIP340 \<Rightarrow> rbind (util_hex_to_bytes (strip_hex_prefix (kp_public kp))) (\<lambda>pk. encode_unshielded pk PreProd)
      | BLS \<Rightarrow> rbind (util_hex_to_bytes (strip_hex_prefix (kp_public kp))) (\<lambda>pk. encode_dust_from_pubkey pk PreProd)
      | Other_type _ \<Rightarrow> Inr [])"

text \<open>Whatever the type asked for, the keys are Ed25519 keys.\<close>

definition import_from_seed :: "'p crypto \<Rightarrow> string \<Rightarrow> key_type \<Rightarrow> keypair option result" where
  "import_from_seed E seed_phrase kind =
     with_sodium E ''Cannot import from seed: libsodium crypto is unavailable''
       (rbind (ed_keypair_from_seed (sodium_lib E) (derive_seed_bytes_from_phrase E seed_phrase)) (\<lambda>(pk, sk).
          Inr (Some \<lparr>key_kind = kind, kp_public = ''0x'' @ crypto_to_hex pk, kp_private = prefixed_hex sk,
                     kp_seed = seed_phrase\<rparr>)))"

section \<open>The transaction signer\<close>

record transaction_signer =
  ts_keypair :: keypair
  ts_address :: string
  ts_network_id :: u8
  ts_era :: u8
  ts_nonce :: u64
  ts_tip :: u64
  last_signed_payload :: bytes

definition new_transaction_signer :: "'p crypto \<Rightarrow> keypair \<Rightarrow> transaction_signer result" where
  "new_transaction_signer E kp =
     rbind (derive_address E kp) (\<lambda>addr.
       Inr \<lparr>ts_keypair = kp, ts_address = addr, ts_network_id = 0, ts_era = 0, ts_nonce = 0, ts_tip = 0, last_signed_payload = []\<rparr>)"

definition set_network_id :: "u8 \<Rightarrow> transaction_signer \<Rightarrow> transaction_signer" where
  "set_network_id n s = s\<lparr>ts_network_id := n\<rparr>"

definition set_era :: "u8 \<Rightarrow> transaction_signer \<Rightarrow> transaction_signer" where
  "set_era n s = s\<lparr>ts_era := n\<rparr>"

definition set_nonce :: "u64 \<Rightarrow> transaction_signer \<Rightarrow> transaction_signer" where
  "set_nonce n s = s\<lparr>ts_nonce := n\<rparr>"

definition set_tip :: "u64 \<Rightarrow> transaction_signer \<Rightarrow> transaction_signer" where
  "set_tip n s = s\<lparr>ts_tip := n\<rparr>"

definition bip340_sign :: "'p crypto \<Rightarrow> transaction_signer \<Rightarrow> bytes \<Rightarrow> string result" where
  "bip340_sign E s msg =
     rbind (catch_all (bip340_signer_of_hex (curve_lib E) (kp_private (ts_keypair s)))
              (\<lambda>_. Inl (Runtime_error ''Cannot sign: invalid BIP-340 private key'')))
       (\<lambda>signer. sign_message (curve_lib E) (sha256_lib E) (hmac_sha256_lib E) signer msg)"

definition bip340_verify :: "'p crypto \<Rightarrow> transaction_signer \<Rightarrow> string \<Rightarrow> bytes \<Rightarrow> bool result" where
  "bip340_verify E s sig payload =
     catch_all (verify_signature (curve_lib E) (sha256_lib E) payload sig (kp_public (ts_keypair s))) (\<lambda>_. Inr False)"

text \<open>The payload is kept even when signing it throws.\<close>

definition sign_transaction :: "'p crypto \<Rightarrow> bytes \<Rightarrow> transaction_signer \<Rightarrow> string result \<times> transaction_signer" where
  "sign_transaction E tx_body s =
     (if tx_body = [] then (Inl (Runtime_error ''Cannot sign empty ledger payload''), s)
      else (let s' = s\<lparr>last_signed_payload := tx_body\<rparr> in (bip340_sign E s' tx_body, s')))"

definition ts_verify_signature :: "'p crypto \<Rightarrow> transaction_signer \<Rightarrow> bytes \<Rightarrow> string \<Rightarrow> bool result" where
  "ts_verify_signature E s tx_body sig =
     (let payload_to_verify = (if last_signed_payload s = [] then tx_body else last_signed_payload s)
      in bip340_verify E s sig payload_to_verify)"

definition is_signer_of :: "transaction_signer \<Rightarrow> string \<Rightarrow> bool" where
  "is_signer_of s sig = is_prefixed_hex_signature sig"

section \<open>The batch signer\<close>

type_synonym batch = "bytes list"

definition batch_add :: "bytes \<Rightarrow> batch \<Rightarrow> batch" where
  "batch_add tx_data b = b @ [tx_data]"

fun sign_all :: "'p crypto \<Rightarrow> transaction_signer \<Rightarrow> batch \<Rightarrow> string list result" where
  "sign_all E s [] = Inr []"
| "sign_all E s (tx # txs) =
     (case sign_transaction E tx s of
        (r, s') \<Rightarrow> rbind r (\<lambda>sig. rbind (sign_all E s' txs) (\<lambda>sigs. Inr (sig # sigs))))"

definition sign_batch :: "'p crypto \<Rightarrow> keypair \<Rightarrow> batch \<Rightarrow> string list result" where
  "sign_batch E kp b = rbind (new_transaction_signer E kp) (\<lambda>s. sign_all E s b)"

section \<open>Finality votes\<close>

record vote_signer =
  vs_keypair :: keypair
  vs_address :: string

record finality_vote =
  target_block_height :: u32
  target_block_hash :: string
  voter_address :: string
  vote_signature :: string
  vote_timestamp :: u64

definition new_vote_signer :: "'p crypto \<Rightarrow> keypair \<Rightarrow> vote_signer result" where
  "new_vote_signer E kp = rbind (derive_address E kp) (\<lambda>addr. Inr \<lparr>vs_keypair = kp, vs_address = addr\<rparr>)"

definition vote_message :: "u32 \<Rightarrow> string \<Rightarrow> bytes result" where
  "vote_message height hash = append_hash_payload (be32 height) hash"

definition ed25519_sign :: "'p crypto \<Rightarrow> vote_signer \<Rightarrow> bytes \<Rightarrow> string result" where
  "ed25519_sign E s msg =
     (case hex_to_fixed_bytes (kp_private (vs_keypair s)) 64 of
        None \<Rightarrow> Inl (Invalid_argument ''Cannot sign: private key hex is invalid'')
      | Some sk \<Rightarrow>
          with_sodium E ''libsodium is required for Ed25519 signing''
            (rbind (ed_sign_message (sodium_lib E) msg sk) (\<lambda>sig. Inr (''0x'' @ crypto_to_hex sig))))"

definition sign_vote :: "'p crypto \<Rightarrow> vote_signer \<Rightarrow> u32 \<Rightarrow> string \<Rightarrow> string result" where
  "sign_vote E s height hash = rbind (vote_message height hash) (ed25519_sign E s)"

definition create_vote :: "'p crypto \<Rightarrow> u64 \<Rightarrow> vote_signer \<Rightarrow> u32 \<Rightarrow> string \<Rightarrow> finality_vote result" where
  "create_vote E now s height hash =
     rbind (sign_vote E s height hash) (\<lambda>sig.
       Inr \<lparr>target_block_height = height, target_block_hash = hash, voter_address = vs_address s,
            vote_signature = sig, vote_timestamp = now\<rparr>)"

definition verify_vote :: "'p crypto \<Rightarrow> vote_signer \<Rightarrow> finality_vote \<Rightarrow> bool result" where
  "verify_vote E s vote =
     (if vote_signature vote = [] then Inr False
      else
        (case (hex_to_fixed_bytes (kp_public (vs_keypair s)) 32, hex_to_fixed_bytes (vote_signature vote) 64) of
           (Some pk, Some sig) \<Rightarrow>
             rbind (vote_message (target_block_height vote) (target_block_hash vote)) (\<lambda>msg.
               catch_all
                 (with_sodium E ''libsodium is required for Ed25519 verification''
                    (Inr (ed_verify_signature (sodium_lib E) msg sig pk)))
                 (\<lambda>_. Inr False))
         | _ \<Rightarrow> Inr False))"

section \<open>Foreign signatures\<close>

definition verify_sr25519 :: "'p crypto \<Rightarrow> bytes \<Rightarrow> string \<Rightarrow> string \<Rightarrow> bool" where
  "verify_sr25519 E msg sig pk \<longleftrightarrow>
     (if \<not> is_prefixed_hex_signature sig then False
      else if length pk \<noteq> 66 then False
      else if has_sodium E
      then
        (case (hex_to_fixed_bytes pk 32, hex_to_fixed_bytes sig 64) of
           (Some parsed_pk, Some parsed_sig) \<Rightarrow>
             if ristretto_valid (sodium_lib E) parsed_pk = 0
             then sr_verify (sodium_lib E) msg parsed_sig parsed_pk
             else False
         | _ \<Rightarrow> False)
      else False)"

definition verify_ed25519 :: "'p crypto \<Rightarrow> bytes \<Rightarrow> string \<Rightarrow> string \<Rightarrow> bool" where
  "verify_ed25519 E msg sig pk \<longleftrightarrow>
     (if \<not> has_sodium E then is_prefixed_hex_signature sig \<and> pk \<noteq> []
      else
        (case (hex_to_fixed_bytes pk 32, hex_to_fixed_bytes sig 64) of
           (Some parsed_pk, Some parsed_sig) \<Rightarrow> ed_verify_signature (sodium_lib E) msg parsed_sig parsed_pk
         | _ \<Rightarrow> False))"

definition recover_signer :: "bytes \<Rightarrow> string \<Rightarrow> string option" where
  "recover_signer msg sig = None"

section \<open>Transaction signatures\<close>

lemma strip_prefixed: "strip_0x_lower (''0x'' @ t) = t" "strip_hex_prefix (''0x'' @ t) = t"
  by (simp_all add: strip_0x_lower_def strip_hex_prefix_def starts_with_def)

lemma verify_prefixed_key:
  "verify_signature C sha256 msg sig (''0x'' @ util_bytes_to_hex pk) = verify_signature C sha256 msg sig (util_bytes_to_hex pk)"
  unfolding verify_signature_def strip_prefixed(1) strip_hex ..

lemma signer_of_prefixed_hex:
  "length sk = 32 \<Longrightarrow> bip340_signer_of_hex C (prefixed_hex sk) = set_key C sk new_bip340_signer"
  unfolding bip340_signer_of_hex_def prefixed_hex_def strip_prefixed(1) by (simp add: iss_hex_bytes_enc)

lemma sign_message_length:
  assumes "sign_message C sha256 hmac signer msg = Inr sig"
  shows "length sig = 128"
proof -
  have rx: "length Rx = 32" if "point_mul_base C k = Some (Rx, y, parity)" for k Rx y parity
    using that by (auto simp: point_mul_base_def)
  from assms obtain no Rx y parity where "point_mul_base C (bn_of no) = Some (Rx, y, parity)" "\<exists>n. sig = crypto_to_hex (Rx @ bn_to_bytes n 32)"
    by (simp add: sign_message_def rbind_eq_Inr Let_def split: if_splits option.splits) metis
  with rx show ?thesis by (auto simp: crypto_to_hex_eq)
qed

text \<open>
  C17: After a transaction was signed, \<^verbatim>\<open>TransactionSigner::verify_signature\<close> accepts the signature for every
  other transaction: it verifies the payload signed last and looks at its argument only before the first
  signature.
\<close>

theorem verify_ignores_transaction:
  assumes "curve_laws (curve_lib E)" and "\<And>k d. length (hmac_sha256_lib E k d) = 32" and "length sk = 32"
    and "set_key (curve_lib E) sk new_bip340_signer = Inr signer"
    and "nonce_rfc6979 (hmac_sha256_lib E) (tagged_hash (sha256_lib E) body ''Midnight/transaction'')
           (bip_secret signer) (bip_public signer) = Inr no"
    and "\<not> list_all (\<lambda>b. b = 0) no" and "body \<noteq> []"
    and "kp_private (ts_keypair s) = prefixed_hex sk" and "kp_public (ts_keypair s) = prefixed_hex (bip_public signer)"
  shows "\<exists>sig s'. sign_transaction E body s = (Inr sig, s') \<and> ts_verify_signature E s' other sig = Inr True"
proof -
  obtain Rx n where sig: "length Rx = 32" "length (bip_public signer) = 32"
    "sign_message (curve_lib E) (sha256_lib E) (hmac_sha256_lib E) signer body = Inr (crypto_to_hex (Rx @ bn_to_bytes n 32))"
    "verify_bytes (curve_lib E) (sha256_lib E) body Rx (bn_to_bytes n 32) (bip_public signer)"
    using sign_verifies [where msg = body, OF assms(1-6)] by metis
  define s' where "s' = s\<lparr>last_signed_payload := body\<rparr>"
  have "bip340_sign E s' body = Inr (crypto_to_hex (Rx @ bn_to_bytes n 32))"
    using assms(3,4,8) sig(3) by (simp add: bip340_sign_def s'_def signer_of_prefixed_hex)
  moreover have "verify_signature (curve_lib E) (sha256_lib E) body (crypto_to_hex (Rx @ bn_to_bytes n 32))
      (prefixed_hex (bip_public signer)) = Inr True"
    using verify_signature_hex [OF sig(1) length_bn_to_bytes sig(2), of "curve_lib E" "sha256_lib E" body n] sig(4)
    by (simp add: prefixed_hex_def verify_prefixed_key [simplified] crypto_to_hex_eq)
  ultimately show ?thesis
    using assms(7,9) by (intro exI [of _ "crypto_to_hex (Rx @ bn_to_bytes n 32)"] exI [of _ s'])
      (simp add: sign_transaction_def ts_verify_signature_def bip340_verify_def s'_def)
qed

text \<open>
  A signer does not recognise the signatures it makes: they are 128 hex digits, while
  \<^verbatim>\<open>is_signer_of\<close> asks for 130 characters with a prefix (and for nothing else).
\<close>

theorem signer_disowns_signatures:
  assumes "sign_transaction E body s = (Inr sig, s')"
  shows "\<not> is_signer_of s' sig"
proof -
  from assms have "length sig = 128"
    by (auto simp: sign_transaction_def bip340_sign_def rbind_eq_Inr split: if_splits dest: sign_message_length)
  then show ?thesis by (simp add: is_signer_of_def is_prefixed_hex_signature_def)
qed

section \<open>Votes\<close>

lemma stoul_loop_hex: "list_all isxdigit s \<Longrightarrow> length s mod 2 = 0 \<Longrightarrow> \<exists>bs. stoul_loop s = Inr bs"
proof (induction s rule: stoul_loop.induct)
  case (3 a b s)
  then show ?case by (auto simp: stoul16_pair)
qed simp_all

lemma vote_message_defined: "\<exists>msg. vote_message height hash = Inr msg"
  using stoul_loop_hex [of "strip_hex_prefix hash"]
  by (auto simp: vote_message_def append_hash_payload_def is_hex_string_def Let_def)

lemma fixed_loop_enc: "fixed_loop (util_bytes_to_hex bs) = Some bs"
  by (induction bs) (simp_all add: hex_nibble_xdigit of_nibble_digits Let_def)

lemma hex_to_fixed_prefixed: "length bs = n \<Longrightarrow> hex_to_fixed_bytes (''0x'' @ util_bytes_to_hex bs) n = Some bs"
  unfolding hex_to_fixed_bytes_def strip_prefixed(2) by (simp add: fixed_loop_enc)

text \<open>
  A vote that a validator with keys from a seed phrase creates is verified by the same signer, for every
  height and every hash, hex or not.
\<close>

theorem vote_verifies:
  assumes "sign_laws (sodium_lib E)" and "has_sodium E"
    and "import_from_seed E phrase kind = Inr (Some kp)" and "new_vote_signer E kp = Inr s"
  shows "\<exists>vote. create_vote E now s height hash = Inr vote \<and> target_block_height vote = height \<and>
    target_block_hash vote = hash \<and> verify_vote E s vote = Inr True"
proof -
  from assms(2,3) obtain pk sk where keys: "sign_seed_keypair (sodium_lib E) (derive_seed_bytes_from_phrase E phrase) = Some (pk, sk)"
    and kp: "kp_public kp = ''0x'' @ util_bytes_to_hex pk" "kp_private kp = ''0x'' @ util_bytes_to_hex sk"
    by (auto simp: import_from_seed_def with_sodium_def ed_keypair_from_seed_def prefixed_hex_def crypto_to_hex_eq split: option.splits)
  obtain msg where msg: "vote_message height hash = Inr msg" using vote_message_defined by blast
  from assms(1) keys obtain sig where sig: "length pk = 32" "length sk = 64" "sign_detached (sodium_lib E) msg sk = Some sig"
    "length sig = 64" "sign_verify_detached (sodium_lib E) sig msg pk"
    unfolding sign_laws_def by blast
  from assms(4) have s: "vs_keypair s = kp" by (auto simp: new_vote_signer_def rbind_eq_Inr)
  have "sign_vote E s height hash = Inr (''0x'' @ util_bytes_to_hex sig)"
    using assms(2) sig(2-4) hex_to_fixed_prefixed [OF sig(2)]
    by (simp add: sign_vote_def msg ed25519_sign_def s kp with_sodium_def ed_sign_message_def crypto_to_hex_eq)
  then show ?thesis
    using assms(2) sig(5) hex_to_fixed_prefixed [OF sig(1)] hex_to_fixed_prefixed [OF sig(4)]
    by (simp add: create_vote_def verify_vote_def s kp msg with_sodium_def ed_verify_signature_def)
qed

section \<open>Sr25519 signatures\<close>

text \<open>
  No signature is accepted under a valid sr25519 key: \<^verbatim>\<open>crypto_core_ristretto255_is_valid_point\<close> returns 1
  for a valid point and 0 for an invalid one, and the verifier goes on only after 0.
\<close>

theorem sr25519_valid_keys_rejected:
  assumes "\<And>p. ristretto_valid (sodium_lib E) p = (if valid_point p then 1 else 0)"
    and "length pk = 32" and "valid_point pk"
  shows "\<not> verify_sr25519 E msg sig (prefixed_hex pk)"
  using assms hex_to_fixed_prefixed [OF assms(2)]
  by (simp add: verify_sr25519_def prefixed_hex_def split: option.splits)

section \<open>Witnesses\<close>

definition toy_crypto :: "zn crypto" where
  "toy_crypto = \<lparr>sodium_lib = toy_sodium, has_sodium = True, curve_lib = zn_curve, sha256_lib = (\<lambda>_. replicate 32 7),
     hmac_sha256_lib = (\<lambda>_ _. replicate 32 1)\<rparr>"

definition toy_signer :: "bytes \<Rightarrow> bytes \<Rightarrow> transaction_signer" where
  "toy_signer sk pk = \<lparr>ts_keypair = mk_keypair BIP340 (prefixed_hex pk) (prefixed_hex sk), ts_address = [], ts_network_id = 0,
     ts_era = 0, ts_nonce = 0, ts_tip = 0, last_signed_payload = []\<rparr>"

theorem verify_ignores_transaction_witness:
  "\<exists>pk sig s'. sign_transaction toy_crypto [1] (toy_signer (replicate 32 4) pk) = (Inr sig, s') \<and>
     ts_verify_signature toy_crypto s' [2, 3] sig = Inr True"
proof -
  obtain signer where signer: "set_key zn_curve (replicate 32 4) new_bip340_signer = Inr signer" using sample_key by blast
  have no: "nonce_rfc6979 (\<lambda>_ _. replicate 32 1) m k x = Inr (clamp_bip340 (replicate 32 1))"
    "\<not> list_all (\<lambda>b. b = 0) (clamp_bip340 (replicate 32 1))" for m k x
    by (simp_all add: nonce_rfc6979_def clamp_bip340_def Let_def numeral_eq_Suc)
  have "\<exists>sig s'. sign_transaction toy_crypto [1] (toy_signer (replicate 32 4) (bip_public signer)) = (Inr sig, s') \<and>
      ts_verify_signature toy_crypto s' [2, 3] sig = Inr True"
    by (rule verify_ignores_transaction [where signer = signer and sk = "replicate 32 4" and no = "clamp_bip340 (replicate 32 1)"])
      (use zn_curve_laws signer no in \<open>simp_all add: toy_crypto_def toy_signer_def mk_keypair_def\<close>)
  then show ?thesis by blast
qed

theorem signer_disowns_signatures_witness:
  "\<exists>pk sig s'. sign_transaction toy_crypto [1] (toy_signer (replicate 32 4) pk) = (Inr sig, s') \<and> \<not> is_signer_of s' sig"
proof -
  obtain signer where signer: "set_key zn_curve (replicate 32 4) new_bip340_signer = Inr signer" using sample_key by blast
  then have "bip_has_key signer" by (auto simp: set_key_def Let_def split: if_splits)
  have no: "nonce_rfc6979 (\<lambda>_ _. replicate 32 1) m k x = Inr (clamp_bip340 (replicate 32 1))" for m k x
    by (simp add: nonce_rfc6979_def clamp_bip340_def Let_def numeral_eq_Suc)
  obtain Rx n where sig: "sign_message zn_curve (\<lambda>_. replicate 32 7) (\<lambda>_ _. replicate 32 1) signer [1] = Inr (crypto_to_hex (Rx @ bn_to_bytes n 32))"
    by (rule sign_verifies [OF zn_curve_laws _ _ signer, of "\<lambda>_ _. replicate 32 1" "\<lambda>_. replicate 32 7" "[1]" "clamp_bip340 (replicate 32 1)"])
      (simp_all add: no, simp add: clamp_bip340_def numeral_eq_Suc)
  have "sign_transaction toy_crypto [1] (toy_signer (replicate 32 4) []) =
      (Inr (crypto_to_hex (Rx @ bn_to_bytes n 32)), (toy_signer (replicate 32 4) [])\<lparr>last_signed_payload := [1]\<rparr>)"
    using sig signer by (simp add: sign_transaction_def bip340_sign_def toy_signer_def mk_keypair_def toy_crypto_def signer_of_prefixed_hex Let_def)
  with signer_disowns_signatures [OF this] show ?thesis by blast
qed

theorem vote_verifies_witness:
  "\<exists>kp s vote. import_from_seed toy_crypto ''seed'' ED25519 = Inr (Some kp) \<and> new_vote_signer toy_crypto kp = Inr s \<and>
     create_vote toy_crypto 5 s 7 ''0xab'' = Inr vote \<and> verify_vote toy_crypto s vote = Inr True"
proof -
  obtain kp where kp: "import_from_seed toy_crypto ''seed'' ED25519 = Inr (Some kp)" "2 \<le> length (kp_public kp)" "key_kind kp = ED25519"
    by (auto simp: import_from_seed_def with_sodium_def ed_keypair_from_seed_def toy_crypto_def toy_sodium_def)
  then obtain s where s: "new_vote_signer toy_crypto kp = Inr s"
    by (auto simp: new_vote_signer_def derive_address_def derive_address_ed25519_def with_sodium_def substr_def toy_crypto_def)
  have "sign_laws (sodium_lib toy_crypto)" "has_sodium toy_crypto" by (simp_all add: toy_crypto_def toy_sodium_laws)
  from vote_verifies [OF this kp(1) s] kp(1) s show ?thesis by blast
qed

theorem sr25519_valid_keys_rejected_witness:
  "\<not> verify_sr25519 toy_crypto [] (''0x'' @ replicate 128 (CHR ''a'')) (prefixed_hex (replicate 32 1))"
  by (rule sr25519_valid_keys_rejected [where valid_point = "\<lambda>p. length p = 32"]) (simp_all add: toy_crypto_def toy_sodium_def)

end
