(* ===== verification/Submission.thy ===== *)
theory Submission
  imports HttpClient
begin

text \<open>
  Submission and the pool of pending transactions (src/signing-submission/signing_submission.cpp, with
  theory Signing): the submitter with its cache of results, and the pool monitor. HTTP and JSON are
  parameters, the latter also through jsoncpp, which reads the answers again. Results: what the cache holds
  after a submission; and that waiting for the inclusion of a transaction can only time out, whatever
  submissions happen meanwhile.
\<close>

section \<open>Jsoncpp\<close>

text \<open>
  \<open>jc_read\<close> is \<^verbatim>\<open>Json::parseFromStream\<close> on the dump of a value, \<open>jc_write\<close> the compact writer, \<open>jc_string\<close>
  \<^verbatim>\<open>asString\<close>, which throws on arrays and objects. \<^verbatim>\<open>isMember\<close> throws on what is neither an object nor null.
\<close>

record 'j jsoncpp =
  jc_read :: "'j \<Rightarrow> string + 'j"
  jc_write :: "'j \<Rightarrow> string"
  jc_string :: "'j \<Rightarrow> string result"

definition jc_is_member :: "'j json_ops \<Rightarrow> 'j \<Rightarrow> string \<Rightarrow> bool result" where
  "jc_is_member J v k =
     (if is_object J v then Inr (has_key J v k)
      else if is_null J v then Inr False
      else Inl (Runtime_error ''in Json::Value::find(begin, end): requires objectValue or nullValue''))"

definition reparse :: "'j jsoncpp \<Rightarrow> 'j \<Rightarrow> 'j result" where
  "reparse JC v = (case jc_read JC v of Inl errors \<Rightarrow> Inl (Runtime_error (''parse error: '' @ errors)) | Inr j \<Rightarrow> Inr j)"

section \<open>Submitting\<close>

record signed_transaction =
  transaction_hash :: string
  signed_data :: bytes
  st_signature :: string
  signer_address :: string
  signature_timestamp :: u64
  st_nonce :: u32

datatype submission_status = CREATED | SIGNED | SUBMITTED | IN_MEMPOOL | INCLUDED_IN_BLOCK | FINALIZED | FAILED

record submission_result =
  sr_status :: submission_status
  sr_hash :: string
  sr_block_height :: u32
  sr_error :: string
  submission_timestamp :: u64
  inclusion_timestamp :: u64
  finality_timestamp :: u64

definition new_result :: submission_result where
  "new_result = \<lparr>sr_status = CREATED, sr_hash = [], sr_block_height = 0, sr_error = [], submission_timestamp = 0,
     inclusion_timestamp = 0, finality_timestamp = 0\<rparr>"

record submitter =
  sub_rpc_url :: string
  submission_cache :: "string \<rightharpoonup> submission_result"

definition new_submitter :: "string \<Rightarrow> submitter" where
  "new_submitter url = \<lparr>sub_rpc_url = url, submission_cache = Map.empty\<rparr>"

fun submit_paths ::
  "'j json_ops \<Rightarrow> 'j jsoncpp \<Rightarrow> 'w http \<Rightarrow> network_client \<Rightarrow> 'j \<Rightarrow> string list \<Rightarrow> string \<Rightarrow> 'w \<Rightarrow> 'j result \<times> 'w" where
  "submit_paths J JC http c request [] errors w =
     (Inl (Runtime_error (''Real RPC submission failed for all paths: '' @ errors)), w)"
| "submit_paths J JC http c request (path # paths) errors w =
     (case post_json J http c path request w of
        (answer, w') \<Rightarrow>
          (case rbind answer (reparse JC) of
             Inr parsed \<Rightarrow> (Inr parsed, w')
           | Inl Undefined_behaviour \<Rightarrow> (Inl Undefined_behaviour, w')
           | Inl e \<Rightarrow>
               submit_paths J JC http c request paths
                 ((if errors \<noteq> [] then errors @ '' | '' else []) @ path @ '': '' @ exc_what e) w'))"

definition submit_request :: "'j json_ops \<Rightarrow> string \<Rightarrow> 'j list \<Rightarrow> 'j" where
  "submit_request J method params =
     mk_object J [(''jsonrpc'', mk_string J ''2.0''), (''id'', mk_number J 1), (''method'', mk_string J method),
       (''params'', mk_array J params)]"

definition rpc_submit_extrinsic ::
  "'j json_ops \<Rightarrow> 'j jsoncpp \<Rightarrow> 'w http \<Rightarrow> string \<Rightarrow> signed_transaction \<Rightarrow> 'w \<Rightarrow> 'j result \<times> 'w" where
  "rpc_submit_extrinsic J JC http url tx w =
     (case new_network_client url 10000 of
        Inl e \<Rightarrow> (Inl e, w)
      | Inr c \<Rightarrow>
          let extrinsic_hex = (if signed_data tx \<noteq> [] then prefixed_hex (signed_data tx) else transaction_hash tx)
          in if extrinsic_hex = [] \<or> \<not> starts_with extrinsic_hex ''0x''
             then (Inl (Runtime_error ''Cannot submit extrinsic: signed data missing or invalid hex payload''), w)
             else submit_paths J JC http c (submit_request J ''author_submitExtrinsic'' [mk_string J extrinsic_hex])
                    [''/'', ''/rpc''] [] w)"

text \<open>The hash of an accepted transaction: the answer of the node when it is a non-empty string.\<close>

definition accepted_hash :: "'j json_ops \<Rightarrow> 'j jsoncpp \<Rightarrow> signed_transaction \<Rightarrow> 'j \<Rightarrow> string result" where
  "accepted_hash J JC tx response =
     rbind (jc_is_member J response ''error'') (\<lambda>failed.
       if failed then Inl (Runtime_error (''RPC error: '' @ jc_write JC (member J response ''error'')))
       else rbind (jc_is_member J response ''result'') (\<lambda>ok.
         if \<not> ok then Inl (Runtime_error ''RPC response missing result'')
         else
           (let r = member J response ''result''; rpc_tx_hash = (if is_string J r then get_string J r else [])
            in Inr (if rpc_tx_hash = [] then transaction_hash tx else rpc_tx_hash))))"

definition cache_result :: "signed_transaction \<Rightarrow> submission_result \<Rightarrow> submitter \<Rightarrow> submitter" where
  "cache_result tx r s =
     (let c = (submission_cache s)(sr_hash r \<mapsto> r)
      in s\<lparr>submission_cache :=
           if transaction_hash tx \<noteq> [] \<and> transaction_hash tx \<noteq> sr_hash r then c(transaction_hash tx \<mapsto> r) else c\<rparr>)"

text \<open>\<open>None\<close> is undefined behaviour in what is called.\<close>

definition submit ::
  "'j json_ops \<Rightarrow> 'j jsoncpp \<Rightarrow> 'w http \<Rightarrow> u64 \<Rightarrow> signed_transaction \<Rightarrow> submitter \<times> 'w \<Rightarrow> (submission_result \<times> submitter \<times> 'w) option" where
  "submit J JC http now tx st =
     (let (s, w) = st; (response, w') = rpc_submit_extrinsic J JC http (sub_rpc_url s) tx w
      in case rbind response (accepted_hash J JC tx) of
           Inr h \<Rightarrow>
             (let r = new_result\<lparr>sr_hash := h, sr_status := SUBMITTED, submission_timestamp := now\<rparr>
              in Some (r, cache_result tx r s, w'))
         | Inl Undefined_behaviour \<Rightarrow> None
         | Inl e \<Rightarrow> Some (new_result\<lparr>sr_status := FAILED, sr_error := ''Submission failed: '' @ exc_what e\<rparr>, s, w'))"

text \<open>One clock reading per transaction.\<close>

fun submit_batch ::
  "'j json_ops \<Rightarrow> 'j jsoncpp \<Rightarrow> 'w http \<Rightarrow> (u64 \<times> signed_transaction) list \<Rightarrow> submitter \<times> 'w \<Rightarrow>
     (submission_result list \<times> submitter \<times> 'w) option" where
  "submit_batch J JC http [] st = Some ([], st)"
| "submit_batch J JC http ((now, tx) # txs) st =
     Option.bind (submit J JC http now tx st) (\<lambda>(r, st').
       map_option (\<lambda>(rs, st''). (r # rs, st'')) (submit_batch J JC http txs st'))"

definition get_submission_status :: "submitter \<Rightarrow> string \<Rightarrow> submission_result" where
  "get_submission_status s tx_hash =
     (case submission_cache s tx_hash of
        Some r \<Rightarrow> r
      | None \<Rightarrow> new_result\<lparr>sr_hash := tx_hash, sr_status := CREATED\<rparr>)"

text \<open>
  The thread of \<^verbatim>\<open>wait_for_inclusion\<close>: what the callback is given, when \<open>states\<close> are the submitter at the
  successive polls, of which it makes 60.
\<close>

fun poll_inclusion :: "string \<Rightarrow> submitter list \<Rightarrow> submission_result" where
  "poll_inclusion tx_hash [] = new_result\<lparr>sr_status := FAILED, sr_error := ''Timeout waiting for inclusion''\<rparr>"
| "poll_inclusion tx_hash (s # states) =
     (let r = get_submission_status s tx_hash
      in if sr_status r = INCLUDED_IN_BLOCK \<or> sr_status r = FINALIZED then r else poll_inclusion tx_hash states)"

definition wait_for_inclusion :: "string \<Rightarrow> submitter list \<Rightarrow> submission_result" where
  "wait_for_inclusion tx_hash states = poll_inclusion tx_hash (take 60 states)"

section \<open>The pool of pending transactions\<close>

text \<open>The hashes of \<^verbatim>\<open>rpc_get_mempool\<close>, which are the extrinsics themselves.\<close>

fun extrinsic_strings :: "'j jsoncpp \<Rightarrow> 'j list \<Rightarrow> string list result" where
  "extrinsic_strings JC [] = Inr []"
| "extrinsic_strings JC (x # xs) =
     rbind (jc_string JC x) (\<lambda>h. rbind (extrinsic_strings JC xs) (\<lambda>hs. Inr (h # hs)))"

definition rpc_get_mempool :: "'j json_ops \<Rightarrow> 'j jsoncpp \<Rightarrow> 'w http \<Rightarrow> string \<Rightarrow> 'w \<Rightarrow> string list result \<times> 'w" where
  "rpc_get_mempool J JC http url w =
     (case new_network_client url 10000 of
        Inl e \<Rightarrow> (Inl e, w)
      | Inr c \<Rightarrow>
          (case post_json J http c ''/'' (submit_request J ''author_pendingExtrinsics'' []) w of
             (answer, w') \<Rightarrow>
               (rbind (rbind answer (reparse JC)) (\<lambda>parsed.
                  rbind (jc_is_member J parsed ''result'') (\<lambda>found.
                    if found \<and> is_array J (member J parsed ''result'')
                    then extrinsic_strings JC (elements J (member J parsed ''result'')) else Inr [])), w')))"

definition get_mempool_size :: "'j json_ops \<Rightarrow> 'j jsoncpp \<Rightarrow> 'w http \<Rightarrow> string \<Rightarrow> 'w \<Rightarrow> u32 result \<times> 'w" where
  "get_mempool_size J JC http url w =
     (case rpc_get_mempool J JC http url w of
        (r, w') \<Rightarrow> (catch_all (rbind r (\<lambda>hs. Inr (word_of_nat (length hs)))) (\<lambda>_. Inr 0), w'))"

definition get_mempool_transaction ::
  "'j json_ops \<Rightarrow> 'j jsoncpp \<Rightarrow> 'w http \<Rightarrow> string \<Rightarrow> string \<Rightarrow> 'w \<Rightarrow> string option result \<times> 'w" where
  "get_mempool_transaction J JC http url tx_hash w =
     (case rpc_get_mempool J JC http url w of
        (r, w') \<Rightarrow> (catch_all (rbind r (\<lambda>hs. Inr (if tx_hash \<in> set hs then Some tx_hash else None))) (\<lambda>_. Inr None), w'))"

text \<open>In halves: 0 or 0.5.\<close>

definition get_transaction_priority ::
  "'j json_ops \<Rightarrow> 'j jsoncpp \<Rightarrow> 'w http \<Rightarrow> string \<Rightarrow> string \<Rightarrow> 'w \<Rightarrow> nat result \<times> 'w" where
  "get_transaction_priority J JC http url tx_hash w =
     (case get_mempool_transaction J JC http url tx_hash w of
        (r, w') \<Rightarrow> (rbind r (\<lambda>tx. Inr (if tx = None then 0 else 1)), w'))"

text \<open>One round of the monitoring thread: what is new since the last round.\<close>

definition new_transactions :: "string list \<Rightarrow> string list \<Rightarrow> string list" where
  "new_transactions last_txs current_txs = filter (\<lambda>tx. tx \<notin> set last_txs) current_txs"

text \<open>The calls of the callback over the successive contents of the pool.\<close>

fun monitor_mempool :: "string list \<Rightarrow> string list list \<Rightarrow> string list list" where
  "monitor_mempool last_txs [] = []"
| "monitor_mempool last_txs (current # rounds) =
     (let new_txs = new_transactions last_txs current; rest = monitor_mempool current rounds
      in if new_txs \<noteq> [] then new_txs # rest else rest)"

definition estimate_inclusion_blocks :: "u64 \<Rightarrow> u32" where
  "estimate_inclusion_blocks fee_amount =
     (if fee_amount > 100000 then 1 else if fee_amount > 50000 then 2 else if fee_amount > 10000 then 3 else 6)"

text \<open>
  The other \<^verbatim>\<open>wait_for_inclusion\<close>, over the successive answers of the pool and the milliseconds elapsed;
  \<open>None\<close> while it waits.
\<close>

fun mempool_wait :: "u64 \<Rightarrow> (bool \<times> nat) list \<Rightarrow> bool option" where
  "mempool_wait timeout [] = None"
| "mempool_wait timeout ((found, elapsed) # rounds) =
     (if found then Some True
      else if 0 < timeout \<and> unat timeout < elapsed then Some False
      else mempool_wait timeout rounds)"

section \<open>What the cache holds\<close>

text \<open>The outcomes of a submission.\<close>

lemma submit_cases:
  assumes "submit J JC http now tx (s, w) = Some (r, s', w')"
  obtains "sr_status r = SUBMITTED" and "s' = cache_result tx r s" | "sr_status r = FAILED" and "s' = s"
  using assms
  by (auto simp: submit_def new_result_def Let_def split: prod.splits sum.splits exc.splits)

text \<open>
  After an accepted submission the status under the hash the node gave, and under the hash the
  transaction came with, is the result of the submission; the other entries, and after a refused submission
  all of them, are as before.
\<close>

theorem submit_cached:
  assumes "submit J JC http now tx (s, w) = Some (r, s', w')"
  shows "if sr_status r = SUBMITTED
    then get_submission_status s' (sr_hash r) = r \<and>
      (if transaction_hash tx = [] then True else get_submission_status s' (transaction_hash tx) = r) \<and>
      (if h = sr_hash r \<or> h = transaction_hash tx \<and> h \<noteq> [] then True
       else get_submission_status s' h = get_submission_status s h)
    else sr_status r = FAILED \<and> s' = s"
  using assms
proof (cases rule: submit_cases)
  case 1
  then show ?thesis by (auto simp: cache_result_def get_submission_status_def Let_def)
qed simp

section \<open>Reachable submitters\<close>

inductive submitted :: "'j json_ops \<Rightarrow> 'j jsoncpp \<Rightarrow> 'w http \<Rightarrow> submitter \<Rightarrow> bool" for J JC http where
  start: "submitted J JC http (new_submitter url)"
| step: "submitted J JC http s \<Longrightarrow> submit J JC http now tx (s, w) = Some (r, s', w') \<Longrightarrow> submitted J JC http s'"

lemma cache_result_status:
  "submission_cache (cache_result tx r s) h = Some q \<Longrightarrow> q = r \<or> submission_cache s h = Some q"
  by (auto simp: cache_result_def Let_def split: if_splits)

text \<open>Every entry of the cache has the status of a submission.\<close>

lemma submitted_status:
  assumes "submitted J JC http s" and "submission_cache s h = Some q"
  shows "sr_status q = SUBMITTED"
  using assms
proof (induction arbitrary: h q rule: submitted.induct)
  case (step s now tx w r s' w')
  from step.hyps(2) show ?case
    by (cases rule: submit_cases) (use step.IH step.prems in \<open>auto dest: cache_result_status\<close>)
qed (simp add: new_submitter_def)

text \<open>
  C23: The callback of \<^verbatim>\<open>TransactionSubmitter::wait_for_inclusion\<close> is only ever told of a timeout: no operation
  of the submitter writes the status of an inclusion or finality, so that none of the 60 polls can see one,
  whatever submissions happen between them.
\<close>

theorem inclusion_never_reported:
  assumes "list_all (submitted J JC http) states"
  shows "wait_for_inclusion tx_hash states = new_result\<lparr>sr_status := FAILED, sr_error := ''Timeout waiting for inclusion''\<rparr>"
proof -
  have "sr_status (get_submission_status s tx_hash) \<in> {SUBMITTED, CREATED}" if "submitted J JC http s" for s
    using submitted_status [OF that] by (auto simp: get_submission_status_def split: option.splits)
  then have "poll_inclusion tx_hash states = new_result\<lparr>sr_status := FAILED, sr_error := ''Timeout waiting for inclusion''\<rparr>"
    if "list_all (submitted J JC http) states" for states
    using that by (induction states) (force simp: Let_def)+
  moreover have "list_all (submitted J JC http) (take 60 states)"
    using assms by (auto simp: list_all_iff dest: in_set_takeD)
  ultimately show ?thesis by (simp add: wait_for_inclusion_def)
qed

section \<open>The pool\<close>

text \<open>With timeout 0 the wait never gives up; otherwise it does not outlast the timeout.\<close>

lemma mempool_wait_forever: "mempool_wait 0 rounds \<noteq> Some False"
  by (induction rounds) (auto split: if_splits)

lemma mempool_wait_ends:
  assumes "0 < timeout" and "(found, elapsed) \<in> set rounds" and "unat timeout < elapsed"
  shows "mempool_wait timeout rounds \<noteq> None"
  using assms by (induction rounds) auto

text \<open>Every transaction that is in a round of the pool and not in the one before is reported, once.\<close>

lemma monitor_reports:
  assumes "tx \<in> set current" and "tx \<notin> set last_txs"
  shows "tx \<in> set (concat (monitor_mempool last_txs (current # rounds)))"
proof -
  have "tx \<in> set (new_transactions last_txs current)" using assms by (simp add: new_transactions_def)
  then show ?thesis by (cases "new_transactions last_txs current") (auto simp: Let_def)
qed

section \<open>Witnesses\<close>

definition toy_jsoncpp :: "json jsoncpp" where
  "toy_jsoncpp = \<lparr>jc_read = (\<lambda>j. Inr (JObject [(''result'', JString ''0x11'')])), jc_write = (\<lambda>j. []), jc_string = (\<lambda>j. Inr (get_string json_std j))\<rparr>"

definition toy_http :: "unit http" where
  "toy_http ep path hdrs req w = (Answer 200 [], w)"

definition sample_tx :: signed_transaction where
  "sample_tx = \<lparr>transaction_hash = ''0xab'', signed_data = [1], st_signature = [], signer_address = [], signature_timestamp = 0, st_nonce = 0\<rparr>"

lemma sample_submit:
  "\<exists>r s' w'. submit json_std toy_jsoncpp toy_http 9 sample_tx (new_submitter ''http://n'', ()) = Some (r, s', w') \<and> sr_status r = SUBMITTED"
proof -
  obtain ep where ep: "parse_url ''http://n'' = Inr ep" by (simp add: parse_url_def split_scheme_def starts_with_def Let_def)
  have "post_json json_std toy_http \<lparr>base_url = ''http://n'', timeout_ms = 10000, headers = Map.empty\<rparr> ''/'' q () = (Inr (JString []), ())" for q
    by (simp add: post_json_def send_def ep toy_http_def do_post_result_def parse_body_def json_std_def)
  then have "rpc_submit_extrinsic json_std toy_jsoncpp toy_http ''http://n'' sample_tx () = (Inr (JObject [(''result'', JString ''0x11'')]), ())"
    by (simp add: rpc_submit_extrinsic_def new_network_client_def sample_tx_def prefixed_hex_def starts_with_def reparse_def toy_jsoncpp_def Let_def)
  then show ?thesis
    by (simp add: submit_def new_submitter_def accepted_hash_def jc_is_member_def json_std_def new_result_def Let_def)
qed

theorem submit_cached_witness:
  "\<exists>r s' w'. submit json_std toy_jsoncpp toy_http 9 sample_tx (new_submitter ''http://n'', ()) = Some (r, s', w') \<and>
     get_submission_status s' (sr_hash r) = r"
proof -
  obtain r s' w' where r: "submit json_std toy_jsoncpp toy_http 9 sample_tx (new_submitter ''http://n'', ()) = Some (r, s', w')"
    "sr_status r = SUBMITTED"
    using sample_submit by blast
  with submit_cached [OF r(1)] show ?thesis by auto
qed

theorem inclusion_never_reported_witness:
  "sr_status (wait_for_inclusion ''0xab'' (replicate 60 (new_submitter ''http://n''))) = FAILED"
proof -
  have "list_all (submitted json_std toy_jsoncpp toy_http) (replicate 60 (new_submitter ''http://n''))"
    by (simp add: list_all_iff submitted.start)
  from inclusion_never_reported [OF this] show ?thesis by simp
qed

end
