(* ===== verification/ProofTypes.thy ===== *)
theory ProofTypes
  imports Json
begin

text \<open>
  The types of zero-knowledge proofs and their JSON form (src/zk/proof_types.cpp). JSON is a parameter. The
  locale \<open>json_codec\<close> is the contract of a type with its \<^verbatim>\<open>to_json\<close> and \<^verbatim>\<open>from_json\<close>, which each type of the
  source is an instance of; a transaction with its proof is read back from its JSON.
\<close>

section \<open>Hex\<close>

definition zk_hex_nibble :: "char \<Rightarrow> int" where
  "zk_hex_nibble c =
     (if char_in 48 57 c then int (of_char c) - 48
      else if char_in 97 102 c then 10 + (int (of_char c) - 97)
      else if char_in 65 70 c then 10 + (int (of_char c) - 65)
      else -1)"

fun zk_hex_loop :: "string \<Rightarrow> string \<Rightarrow> bytes result" where
  "zk_hex_loop kind (a # b # s) =
     (let hi = zk_hex_nibble a; lo = zk_hex_nibble b
      in if hi < 0 \<or> lo < 0 then Inl (Invalid_argument (''Non-hex character in '' @ kind @ '' hex''))
         else rbind (zk_hex_loop kind s) (\<lambda>bs. Inr (word_of_int (push_bit 4 hi OR lo) # bs)))"
| "zk_hex_loop kind s = Inr []"

definition parse_hex_bytes :: "string \<Rightarrow> string \<Rightarrow> bytes result" where
  "parse_hex_bytes hex kind =
     (let normalized = strip_hex_prefix hex
      in if length normalized mod 2 \<noteq> 0 then Inl (Invalid_argument (''Odd-length '' @ kind @ '' hex''))
         else zk_hex_loop kind normalized)"

definition is_even_hex :: "string \<Rightarrow> bool" where
  "is_even_hex value =
     (let normalized = strip_hex_prefix value
      in if normalized = [] \<or> length normalized mod 2 \<noteq> 0 then False else list_all isxdigit normalized)"

section \<open>Maps in JSON\<close>

text \<open>An empty map leaves null; reading takes the members in their order.\<close>

definition map_to_json :: "'j json_ops \<Rightarrow> ('a \<Rightarrow> 'j) \<Rightarrow> (string \<times> 'a) list \<Rightarrow> 'j" where
  "map_to_json J wr m = (if m = [] then mk_null J else mk_object J (map (\<lambda>(k, v). (k, wr v)) m))"

fun read_map :: "('j \<Rightarrow> 'a result) \<Rightarrow> (string \<times> 'j) list \<Rightarrow> (string \<times> 'a) list \<Rightarrow> (string \<times> 'a) list result" where
  "read_map rd [] acc = Inr acc"
| "read_map rd ((k, v) # kvs) acc = rbind (rd v) (\<lambda>x. read_map rd kvs (map_put k x acc))"

definition optional_map :: "'j json_ops \<Rightarrow> ('j \<Rightarrow> 'a result) \<Rightarrow> 'j \<Rightarrow> string \<Rightarrow> (string \<times> 'a) list result" where
  "optional_map J rd j k =
     (if has_key J j k \<and> is_object J (member J j k) then read_map rd (items J (member J j k)) [] else Inr [])"

section \<open>Proofs\<close>

definition proof_to_hex :: "bytes \<Rightarrow> string" where
  "proof_to_hex proof_bytes = crypto_to_hex proof_bytes"

definition proof_from_hex :: "string \<Rightarrow> bytes result" where
  "proof_from_hex hex = parse_hex_bytes hex ''proof''"

definition zk_proof_to_json :: "'j json_ops \<Rightarrow> bytes \<Rightarrow> 'j" where
  "zk_proof_to_json J proof_bytes =
     mk_object J [(''proof_hex'', mk_string J (proof_to_hex proof_bytes)), (''size'', mk_number J (int (length proof_bytes)))]"

definition zk_proof_of_json :: "'j json_ops \<Rightarrow> 'j \<Rightarrow> bytes result" where
  "zk_proof_of_json J j = rbind (json_at J j ''proof_hex'') (\<lambda>v. rbind (read_string J v) proof_from_hex)"

section \<open>Public inputs\<close>

type_synonym public_inputs = "(string \<times> string) list"

definition add_public_input :: "string \<Rightarrow> string \<Rightarrow> public_inputs \<Rightarrow> public_inputs" where
  "add_public_input name hexv pi = map_put name hexv pi"

definition get_input :: "string \<Rightarrow> public_inputs \<Rightarrow> string result" where
  "get_input name pi =
     (case map_of pi name of
        None \<Rightarrow> Inl (Runtime_error (''Input '' @ [CHR 0x27] @ name @ [CHR 0x27] @ '' not found''))
      | Some v \<Rightarrow> Inr v)"

definition has_input :: "string \<Rightarrow> public_inputs \<Rightarrow> bool" where
  "has_input name pi \<longleftrightarrow> map_of pi name \<noteq> None"

definition inputs_to_json :: "'j json_ops \<Rightarrow> public_inputs \<Rightarrow> 'j" where
  "inputs_to_json J pi =
     mk_object J ((if pi = [] then [] else [(''inputs'', map_to_json J (mk_string J) pi)]) @
       [(''count'', mk_number J (int (length pi)))])"

definition inputs_of_json :: "'j json_ops \<Rightarrow> 'j \<Rightarrow> public_inputs result" where
  "inputs_of_json J j = optional_map J (read_string J) j ''inputs''"

section \<open>Witness outputs\<close>

record witness_output =
  witness_name :: string
  output_bytes :: bytes
  output_type :: string

definition witness_to_json :: "'j json_ops \<Rightarrow> witness_output \<Rightarrow> 'j" where
  "witness_to_json J w =
     mk_object J [(''witness_name'', mk_string J (witness_name w)), (''output_type'', mk_string J (output_type w)),
       (''output_hex'', mk_string J (crypto_to_hex (output_bytes w))), (''size'', mk_number J (int (length (output_bytes w))))]"

definition witness_of_json :: "'j json_ops \<Rightarrow> 'j \<Rightarrow> witness_output result" where
  "witness_of_json J j =
     rbind (json_at J j ''witness_name'') (\<lambda>n. rbind (read_string J n) (\<lambda>name.
     rbind (json_at J j ''output_type'') (\<lambda>t. rbind (read_string J t) (\<lambda>ty.
     rbind (json_at J j ''output_hex'') (\<lambda>h. rbind (read_string J h) (\<lambda>hex.
     rbind (parse_hex_bytes hex ''witness'') (\<lambda>bs.
       Inr \<lparr>witness_name = name, output_bytes = bs, output_type = ty\<rparr>)))))))"

section \<open>Circuit proofs\<close>

record circuit_metadata =
  circuit_name :: string
  circuit_hash :: string
  num_constraints :: u32
  compilation_version :: string

definition metadata_to_json :: "'j json_ops \<Rightarrow> circuit_metadata \<Rightarrow> 'j" where
  "metadata_to_json J m =
     mk_object J [(''circuit_name'', mk_string J (circuit_name m)), (''circuit_hash'', mk_string J (circuit_hash m)),
       (''num_constraints'', mk_number J (uint (num_constraints m))),
       (''compilation_version'', mk_string J (compilation_version m))]"

definition string_at :: "'j json_ops \<Rightarrow> 'j \<Rightarrow> string \<Rightarrow> string result" where
  "string_at J j k = rbind (json_at J j k) (read_string J)"

definition metadata_of_json :: "'j json_ops \<Rightarrow> 'j \<Rightarrow> circuit_metadata result" where
  "metadata_of_json J j =
     rbind (string_at J j ''circuit_name'') (\<lambda>n. rbind (string_at J j ''circuit_hash'') (\<lambda>h.
     rbind (rbind (json_at J j ''num_constraints'') (read_u32 J)) (\<lambda>c.
     rbind (string_at J j ''compilation_version'') (\<lambda>v.
       Inr \<lparr>circuit_name = n, circuit_hash = h, num_constraints = c, compilation_version = v\<rparr>))))"

datatype verification_status = UNVERIFIED | LOCALLY_VERIFIED | SERVER_VERIFIED | BLOCKCHAIN_VERIFIED | Other_status int

fun status_value :: "verification_status \<Rightarrow> int" where
  "status_value UNVERIFIED = 0"
| "status_value LOCALLY_VERIFIED = 1"
| "status_value SERVER_VERIFIED = 2"
| "status_value BLOCKCHAIN_VERIFIED = 3"
| "status_value (Other_status n) = n"

definition status_of :: "int \<Rightarrow> verification_status" where
  "status_of n =
     (if n = 0 then UNVERIFIED else if n = 1 then LOCALLY_VERIFIED else if n = 2 then SERVER_VERIFIED
      else if n = 3 then BLOCKCHAIN_VERIFIED else Other_status n)"

record circuit_proof =
  cp_proof :: bytes
  cp_inputs :: public_inputs
  cp_metadata :: circuit_metadata
  generated_at :: u64
  server_endpoint :: string
  circuit_parameters :: "(string \<times> string) list"
  cp_status :: verification_status

definition total_size :: "circuit_proof \<Rightarrow> nat" where
  "total_size p = length (cp_proof p) + length (cp_inputs p) * 32"

definition circuit_to_json :: "'j json_ops \<Rightarrow> circuit_proof \<Rightarrow> 'j" where
  "circuit_to_json J p =
     mk_object J [(''proof'', zk_proof_to_json J (cp_proof p)), (''public_inputs'', inputs_to_json J (cp_inputs p)),
       (''metadata'', metadata_to_json J (cp_metadata p)), (''generated_at_timestamp'', mk_number J (uint (generated_at p))),
       (''proof_server_endpoint'', mk_string J (server_endpoint p)),
       (''verification_status'', mk_number J (status_value (cp_status p))),
       (''circuit_parameters'', map_to_json J (mk_string J) (circuit_parameters p))]"

definition circuit_of_json :: "'j json_ops \<Rightarrow> 'j \<Rightarrow> circuit_proof result" where
  "circuit_of_json J j =
     rbind (rbind (json_at J j ''proof'') (zk_proof_of_json J)) (\<lambda>pr.
     rbind (rbind (json_at J j ''public_inputs'') (inputs_of_json J)) (\<lambda>pi.
     rbind (rbind (json_at J j ''metadata'') (metadata_of_json J)) (\<lambda>m.
     rbind (rbind (json_at J j ''generated_at_timestamp'') (read_u64 J)) (\<lambda>t.
     rbind (string_at J j ''proof_server_endpoint'') (\<lambda>e.
     rbind (rbind (json_at J j ''verification_status'') (read_u32 J)) (\<lambda>s.
     rbind (optional_map J (read_string J) j ''circuit_parameters'') (\<lambda>ps.
       Inr \<lparr>cp_proof = pr, cp_inputs = pi, cp_metadata = m, generated_at = t, server_endpoint = e,
            circuit_parameters = ps, cp_status = status_of (sint s)\<rparr>)))))))"

section \<open>Requests and responses\<close>

record proof_request =
  pr_circuit_name :: string
  circuit_data :: bytes
  circuit_inputs :: "(string \<times> string) list"
  pr_witnesses :: "(string \<times> witness_output) list"

definition request_to_json :: "'j json_ops \<Rightarrow> proof_request \<Rightarrow> 'j" where
  "request_to_json J r =
     mk_object J [(''circuit_name'', mk_string J (pr_circuit_name r)),
       (''circuit_data_hex'', mk_string J (crypto_to_hex (circuit_data r))),
       (''circuit_inputs'', map_to_json J (mk_string J) (circuit_inputs r)),
       (''witnesses'', map_to_json J (witness_to_json J) (pr_witnesses r))]"

definition request_of_json :: "'j json_ops \<Rightarrow> 'j \<Rightarrow> proof_request result" where
  "request_of_json J j =
     rbind (string_at J j ''circuit_name'') (\<lambda>n.
     rbind (string_at J j ''circuit_data_hex'') (\<lambda>hex. rbind (stoul_loop hex) (\<lambda>bs.
     rbind (optional_map J (read_string J) j ''circuit_inputs'') (\<lambda>ins.
     rbind (optional_map J (witness_of_json J) j ''witnesses'') (\<lambda>ws.
       Inr \<lparr>pr_circuit_name = n, circuit_data = bs, circuit_inputs = ins, pr_witnesses = ws\<rparr>)))))"

record proof_response =
  pr_success :: bool
  generated_proof :: bytes
  error_message :: string
  pr_error_code :: string
  pr_metadata :: "(string \<times> string) list"
  generation_time_ms :: u64
  constraints_evaluated :: u64

definition response_to_json :: "'j json_ops \<Rightarrow> proof_response \<Rightarrow> 'j" where
  "response_to_json J r =
     mk_object J ([(''success'', mk_bool J (pr_success r))] @
       (if pr_success r then [(''proof'', zk_proof_to_json J (generated_proof r))]
        else [(''error_message'', mk_string J (error_message r)), (''error_code'', mk_string J (pr_error_code r))]) @
       [(''metadata'', map_to_json J (mk_string J) (pr_metadata r)),
        (''generation_time_ms'', mk_number J (uint (generation_time_ms r))),
        (''constraints_evaluated'', mk_number J (uint (constraints_evaluated r)))])"

definition response_of_json :: "'j json_ops \<Rightarrow> 'j \<Rightarrow> proof_response result" where
  "response_of_json J j =
     rbind (rbind (json_at J j ''success'') (read_bool J)) (\<lambda>ok.
     rbind (if ok \<and> has_key J j ''proof''
            then rbind (zk_proof_of_json J (member J j ''proof'')) (\<lambda>p. Inr (p, [], []))
            else rbind (json_value J (read_string J) j ''error_message'' []) (\<lambda>m.
                 rbind (json_value J (read_string J) j ''error_code'' []) (\<lambda>c. Inr ([], m, c))))
       (\<lambda>(p, m, c).
     rbind (optional_map J (read_string J) j ''metadata'') (\<lambda>md.
     rbind (json_value J (read_u64 J) j ''generation_time_ms'' 0) (\<lambda>t.
     rbind (json_value J (read_u64 J) j ''constraints_evaluated'' 0) (\<lambda>n.
       Inr \<lparr>pr_success = ok, generated_proof = p, error_message = m, pr_error_code = c, pr_metadata = md,
            generation_time_ms = t, constraints_evaluated = n\<rparr>)))))"

section \<open>Transactions and ledger states\<close>

record proof_transaction =
  transaction_id :: string
  transaction_hex :: string
  pt_proof :: circuit_proof
  ed25519_signature :: string
  pt_public_key :: string
  ledger_updates :: "(string \<times> string) list"

definition transaction_to_json :: "'j json_ops \<Rightarrow> proof_transaction \<Rightarrow> 'j" where
  "transaction_to_json J t =
     mk_object J [(''transaction_id'', mk_string J (transaction_id t)), (''transaction_hex'', mk_string J (transaction_hex t)),
       (''proof'', circuit_to_json J (pt_proof t)), (''ed25519_signature'', mk_string J (ed25519_signature t)),
       (''public_key'', mk_string J (pt_public_key t)),
       (''ledger_updates'', map_to_json J (mk_string J) (ledger_updates t))]"

definition transaction_of_json :: "'j json_ops \<Rightarrow> 'j \<Rightarrow> proof_transaction result" where
  "transaction_of_json J j =
     rbind (string_at J j ''transaction_id'') (\<lambda>i. rbind (string_at J j ''transaction_hex'') (\<lambda>h.
     rbind (rbind (json_at J j ''proof'') (circuit_of_json J)) (\<lambda>p.
     rbind (json_value J (read_string J) j ''ed25519_signature'' []) (\<lambda>s.
     rbind (json_value J (read_string J) j ''public_key'' []) (\<lambda>k.
     rbind (optional_map J (read_string J) j ''ledger_updates'') (\<lambda>u.
       Inr \<lparr>transaction_id = i, transaction_hex = h, pt_proof = p, ed25519_signature = s, pt_public_key = k,
            ledger_updates = u\<rparr>))))))"

record 'j ledger_state =
  ls_address :: string
  public_state :: 'j
  private_state :: 'j
  ls_block_height :: u64
  ls_block_hash :: string

definition ledger_to_json :: "'j json_ops \<Rightarrow> 'j ledger_state \<Rightarrow> 'j" where
  "ledger_to_json J s =
     mk_object J [(''contract_address'', mk_string J (ls_address s)), (''public_state'', public_state s),
       (''private_state'', private_state s), (''block_height'', mk_number J (uint (ls_block_height s))),
       (''block_hash'', mk_string J (ls_block_hash s))]"

definition ledger_of_json :: "'j json_ops \<Rightarrow> 'j \<Rightarrow> 'j ledger_state result" where
  "ledger_of_json J j =
     rbind (string_at J j ''contract_address'') (\<lambda>a. rbind (json_at J j ''public_state'') (\<lambda>pub.
     rbind (json_value J Inr j ''private_state'' (mk_object J [])) (\<lambda>priv.
     rbind (rbind (json_at J j ''block_height'') (read_u64 J)) (\<lambda>h. rbind (string_at J j ''block_hash'') (\<lambda>hash.
       Inr \<lparr>ls_address = a, public_state = pub, private_state = priv, ls_block_height = h, ls_block_hash = hash\<rparr>)))))"

section \<open>Utilities\<close>

definition commitment_to_hex :: "bytes \<Rightarrow> string" where
  "commitment_to_hex commitment = crypto_to_hex commitment"

definition hex_to_commitment :: "string \<Rightarrow> bytes result" where
  "hex_to_commitment hex = parse_hex_bytes hex ''commitment''"

definition is_valid_proof_size :: "u64 \<Rightarrow> bool" where
  "is_valid_proof_size n \<longleftrightarrow> 64 \<le> n \<and> n \<le> 10 * 1024 * 1024"

definition is_valid_public_inputs :: "public_inputs \<Rightarrow> bool" where
  "is_valid_public_inputs inputs \<longleftrightarrow>
     (if inputs = [] then False
      else list_all (\<lambda>(name, hexv). name \<noteq> [] \<and> hexv \<noteq> [] \<and> is_even_hex hexv) inputs)"

section \<open>Facts on hex and maps\<close>

lemma zk_hex_nibble_eq: "zk_hex_nibble c = hex_nibble c"
  by (auto simp: zk_hex_nibble_def hex_nibble_def cctype_defs Let_def of_char_of split: if_splits)

lemma zk_hex_loop_enc: "zk_hex_loop kind (util_bytes_to_hex bs) = Inr bs"
  by (induction bs) (simp_all add: zk_hex_nibble_eq hex_nibble_xdigit of_nibble_digits Let_def)

lemma parse_hex_bytes_enc: "parse_hex_bytes (crypto_to_hex bs) kind = Inr bs"
  using no_prefix_in_hex [of bs] by (simp add: parse_hex_bytes_def strip_hex_prefix_def crypto_to_hex_eq zk_hex_loop_enc)

lemma commitment_roundtrip: "hex_to_commitment (commitment_to_hex bs) = Inr bs"
  by (simp add: hex_to_commitment_def commitment_to_hex_def parse_hex_bytes_enc)

text \<open>Reading the members of a map rebuilds it.\<close>

lemma read_map_written:
  assumes "\<And>k v. (k, v) \<in> set m \<Longrightarrow> rd (wr v) = Inr v"
  shows "read_map rd (map (\<lambda>(k, v). (k, wr v)) m) acc = Inr (fold (\<lambda>(k, v). map_put k v) m acc)"
  using assms
proof (induction m arbitrary: acc)
  case (Cons p m)
  obtain k v where p: "p = (k, v)" by (cases p)
  have "rd (wr v) = Inr v" using Cons.prems [of k v] by (simp add: p)
  moreover have "read_map rd (map (\<lambda>(k, v). (k, wr v)) m) acc' = Inr (fold (\<lambda>(k, v). map_put k v) m acc')" for acc'
    by (rule Cons.IH) (rule Cons.prems [OF list.set_intros(2)])
  ultimately show ?case by (simp add: p)
qed simp

lemma status_of_value: "status_of n = s \<Longrightarrow> status_value s = n"
  by (auto simp: status_of_def split: if_splits)

section \<open>The contract of a type with JSON form\<close>

locale json_codec =
  fixes to_json :: "'a \<Rightarrow> 'j" and of_json :: "'j \<Rightarrow> 'a result" and valid :: "'a \<Rightarrow> bool"
  assumes read_written: "valid x \<Longrightarrow> of_json (to_json x) = Inr x"
begin

lemma to_json_injective:
  assumes "valid x" and "valid y" and "to_json x = to_json y"
  shows "x = y"
proof -
  have "Inr x = (of_json (to_json y) :: 'a result)" using read_written [OF assms(1)] assms(3) by simp
  then show ?thesis using read_written [OF assms(2)] by simp
qed

lemma read_map_codec:
  assumes "sorted_map m" and "\<And>k v. (k, v) \<in> set m \<Longrightarrow> valid v"
  shows "read_map of_json (map (\<lambda>(k, v). (k, to_json v)) m) [] = Inr m"
  using assms read_map_written [of m of_json to_json "[]"] read_written map_rebuild [OF assms(1)] by metis

end

context lawful_json begin

lemma optional_map_written:
  assumes "sorted_map m" and "\<And>k v. (k, v) \<in> set m \<Longrightarrow> rd (wr v) = Inr v"
    and "map_of kvs key = Some (map_to_json J wr m)"
  shows "optional_map J rd (mk_object J kvs) key = Inr m"
proof (cases "m = []")
  case True
  with assms(3) show ?thesis by (simp add: optional_map_def map_to_json_def)
next
  case False
  have "sorted_map (map (\<lambda>(k, v). (k, wr v)) m)" using assms(1) by (simp only: sorted_map_map)
  with assms False show ?thesis
    by (simp add: optional_map_def map_to_json_def read_map_written map_rebuild)
qed

lemma optional_strings:
  assumes "sorted_map m" and "map_of kvs key = Some (map_to_json J (mk_string J) m)"
  shows "optional_map J (read_string J) (mk_object J kvs) key = Inr m"
  using assms by (intro optional_map_written) simp_all

lemma optional_map_absent: "map_of kvs key = None \<Longrightarrow> optional_map J rd (mk_object J kvs) key = Inr []"
  by (simp add: optional_map_def)

lemma string_at_object: "map_of kvs k = Some (mk_string J s) \<Longrightarrow> string_at J (mk_object J kvs) k = Inr s"
  by (simp add: string_at_def)

end

section \<open>The types keep the contract\<close>

sublocale lawful_json \<subseteq> proof_codec: json_codec "zk_proof_to_json J" "zk_proof_of_json J" "\<lambda>_. True"
  by unfold_locales
    (simp add: zk_proof_to_json_def zk_proof_of_json_def proof_to_hex_def proof_from_hex_def parse_hex_bytes_enc)

sublocale lawful_json \<subseteq> inputs_codec: json_codec "inputs_to_json J" "inputs_of_json J" sorted_map
proof
  fix m :: public_inputs
  assume "sorted_map m"
  then show "inputs_of_json J (inputs_to_json J m) = Inr m"
    by (cases "m = []") (simp_all add: inputs_to_json_def inputs_of_json_def optional_map_absent optional_strings)
qed

sublocale lawful_json \<subseteq> witness_codec: json_codec "witness_to_json J" "witness_of_json J" "\<lambda>_. True"
  by unfold_locales (simp add: witness_to_json_def witness_of_json_def parse_hex_bytes_enc)

sublocale lawful_json \<subseteq> metadata_codec: json_codec "metadata_to_json J" "metadata_of_json J" "\<lambda>_. True"
  by unfold_locales (simp add: metadata_to_json_def metadata_of_json_def string_at_object)

text \<open>Values of the types: their maps are sorted, and the status fits in 32 bits.\<close>

definition valid_circuit_proof :: "circuit_proof \<Rightarrow> bool" where
  "valid_circuit_proof p \<longleftrightarrow>
     sorted_map (cp_inputs p) \<and> sorted_map (circuit_parameters p) \<and>
     (\<exists>w :: u32. cp_status p = status_of (sint w))"

definition valid_request :: "proof_request \<Rightarrow> bool" where
  "valid_request r \<longleftrightarrow> sorted_map (circuit_inputs r) \<and> sorted_map (pr_witnesses r)"

text \<open>Of a response only the part its outcome calls for is written.\<close>

definition valid_response :: "proof_response \<Rightarrow> bool" where
  "valid_response r \<longleftrightarrow>
     sorted_map (pr_metadata r) \<and>
     (if pr_success r then error_message r = [] \<and> pr_error_code r = [] else generated_proof r = [])"

definition valid_transaction :: "proof_transaction \<Rightarrow> bool" where
  "valid_transaction t \<longleftrightarrow> valid_circuit_proof (pt_proof t) \<and> sorted_map (ledger_updates t)"

sublocale lawful_json \<subseteq> circuit_codec: json_codec "circuit_to_json J" "circuit_of_json J" valid_circuit_proof
proof
  fix p
  assume valid: "valid_circuit_proof p"
  then obtain w :: u32 where w: "cp_status p = status_of (sint w)" by (auto simp: valid_circuit_proof_def)
  have "word_of_int (status_value (cp_status p)) = w" using status_of_value [OF w [symmetric]] by simp
  with valid w show "circuit_of_json J (circuit_to_json J p) = Inr p"
    by (simp add: valid_circuit_proof_def circuit_to_json_def circuit_of_json_def string_at_object
        optional_strings [of "circuit_parameters p"] proof_codec.read_written inputs_codec.read_written metadata_codec.read_written)
qed

sublocale lawful_json \<subseteq> request_codec: json_codec "request_to_json J" "request_of_json J" valid_request
proof
  fix r
  assume "valid_request r"
  then show "request_of_json J (request_to_json J r) = Inr r"
    by (simp add: valid_request_def request_to_json_def request_of_json_def string_at_object optional_strings [of "circuit_inputs r"]
        optional_map_written [of "pr_witnesses r", OF _ witness_codec.read_written] crypto_to_hex_eq stoul_loop_enc)
qed

sublocale lawful_json \<subseteq> response_codec: json_codec "response_to_json J" "response_of_json J" valid_response
proof
  fix r
  assume "valid_response r"
  then show "response_of_json J (response_to_json J r) = Inr r"
    by (cases r; cases "pr_success r")
      (simp_all add: valid_response_def response_to_json_def response_of_json_def optional_strings [of "pr_metadata r"] proof_codec.read_written)
qed

sublocale lawful_json \<subseteq> transaction_codec: json_codec "transaction_to_json J" "transaction_of_json J" valid_transaction
proof
  fix t
  assume "valid_transaction t"
  then show "transaction_of_json J (transaction_to_json J t) = Inr t"
    by (simp add: valid_transaction_def transaction_to_json_def transaction_of_json_def string_at_object optional_strings [of "ledger_updates t"]
        circuit_codec.read_written)
qed

sublocale lawful_json \<subseteq> ledger_codec: json_codec "ledger_to_json J" "ledger_of_json J" "\<lambda>_. True"
  by unfold_locales (simp add: ledger_to_json_def ledger_of_json_def string_at_object)

context lawful_json begin

lemmas types_read_back =
  transaction_codec.read_written request_codec.read_written response_codec.read_written ledger_codec.read_written

end

section \<open>Properties\<close>

text \<open>
  A transaction with its circuit proof, a request to the proof server, a response of it and a ledger
  state are read back from their JSON form, over every JSON library that obeys its documentation.
\<close>

theorem proof_types_roundtrip:
  assumes "json_laws J" and "valid_transaction t" and "valid_request q" and "valid_response r"
  shows "transaction_of_json J (transaction_to_json J t) = Inr t \<and> request_of_json J (request_to_json J q) = Inr q \<and>
    response_of_json J (response_to_json J r) = Inr r \<and> ledger_of_json J (ledger_to_json J s) = Inr s"
proof -
  have J: "lawful_json J" using assms(1) by (rule lawful_json.intro)
  show ?thesis
    using lawful_json.types_read_back(1) [OF J assms(2)] lawful_json.types_read_back(2) [OF J assms(3)]
      lawful_json.types_read_back(3) [OF J assms(4)] lawful_json.types_read_back(4) [OF J] by simp
qed

definition sample_circuit :: circuit_proof where
  "sample_circuit = \<lparr>cp_proof = [1, 255], cp_inputs = [(''a'', ''00''), (''b'', ''01'')],
     cp_metadata = \<lparr>circuit_name = ''post'', circuit_hash = ''h'', num_constraints = 7, compilation_version = ''1''\<rparr>,
     generated_at = 5, server_endpoint = ''e'', circuit_parameters = [], cp_status = SERVER_VERIFIED\<rparr>"

theorem proof_types_roundtrip_witness:
  "transaction_of_json json_std (transaction_to_json json_std
     \<lparr>transaction_id = ''t'', transaction_hex = ''00'', pt_proof = sample_circuit, ed25519_signature = [], pt_public_key = [],
      ledger_updates = [(''x'', ''1'')]\<rparr>) =
   Inr \<lparr>transaction_id = ''t'', transaction_hex = ''00'', pt_proof = sample_circuit, ed25519_signature = [], pt_public_key = [],
      ledger_updates = [(''x'', ''1'')]\<rparr>"
proof -
  have "\<exists>w :: u32. SERVER_VERIFIED = status_of (sint w)" by (rule exI [of _ 2]) (simp add: status_of_def)
  then have "valid_circuit_proof sample_circuit"
    by (simp add: valid_circuit_proof_def sample_circuit_def sorted_map_def)
  then show ?thesis
    using proof_types_roundtrip [OF json_std_laws, of
        "\<lparr>transaction_id = ''t'', transaction_hex = ''00'', pt_proof = sample_circuit, ed25519_signature = [], pt_public_key = [], ledger_updates = [(''x'', ''1'')]\<rparr>"
        "\<lparr>pr_circuit_name = [], circuit_data = [], circuit_inputs = [], pr_witnesses = []\<rparr>"
        "\<lparr>pr_success = True, generated_proof = [3], error_message = [], pr_error_code = [], pr_metadata = [], generation_time_ms = 0, constraints_evaluated = 0\<rparr>"]
    by (simp add: valid_transaction_def valid_request_def valid_response_def sorted_map_Cons)
qed

end
