(* ===== verification/PrivateState.thy ===== *)
theory PrivateState
  imports Sodium ProofTypes
begin

text \<open>
  Private state (src/zk/private_state.cpp): the store of encrypted secrets, the states of contracts and the
  context of a witness computation. libsodium, SHA-256, the environment and the random bytes are parameters.
  Results: with a master key in the environment the store refines a plain map of secrets; without one,
  what is stored cannot be read back.
\<close>

section \<open>Keys\<close>

definition derive_key_with_nonce :: "(bytes \<Rightarrow> bytes) \<Rightarrow> bytes \<Rightarrow> string \<Rightarrow> bytes \<Rightarrow> bytes" where
  "derive_key_with_nonce sha256 mk name no = sha256 (mk @ no @ map byte_of_char name)"

text \<open>\<^verbatim>\<open>strtoul\<close> of two characters, 0 for what is no number.\<close>

fun strtoul_bytes :: "string \<Rightarrow> bytes" where
  "strtoul_bytes (a # b # s) = (case stoul16 [a, b] of Inl _ \<Rightarrow> 0 | Inr v \<Rightarrow> word_of_nat v) # strtoul_bytes s"
| "strtoul_bytes s = []"

text \<open>\<open>env\<close> is the environment variable, \<open>random\<close> the bytes drawn when it is missing or too short.\<close>

definition get_master_key :: "string option \<Rightarrow> bytes \<Rightarrow> bytes" where
  "get_master_key env random =
     (case env of
        Some s \<Rightarrow> if 64 \<le> length s then strtoul_bytes (take 64 s) else random
      | None \<Rightarrow> random)"

section \<open>The store of secrets\<close>

type_synonym secrets = "(string \<times> bytes) list"

definition store_secret ::
  "sodium \<Rightarrow> (bytes \<Rightarrow> bytes) \<Rightarrow> string option \<Rightarrow> bytes \<Rightarrow> bytes \<Rightarrow> string \<Rightarrow> bytes \<Rightarrow> secrets \<Rightarrow> bool \<times> secrets" where
  "store_secret S sha256 env random no name data m =
     (if name = [] \<or> data = [] then (False, m)
      else
        (let key = derive_key_with_nonce sha256 (get_master_key env random) name no
         in case secretbox S data no key of
              None \<Rightarrow> (False, m)
            | Some ct \<Rightarrow> (True, map_put name (no @ ct) m)))"

definition secret_not_found :: "string \<Rightarrow> exc" where
  "secret_not_found name = Runtime_error (''Secret '' @ [CHR 0x27] @ name @ [CHR 0x27] @ '' not found in store'')"

text \<open>The text is opened into a buffer of the length of the ciphertext, which is then cut by 16.\<close>

definition retrieve_secret ::
  "sodium \<Rightarrow> (bytes \<Rightarrow> bytes) \<Rightarrow> string option \<Rightarrow> bytes \<Rightarrow> string \<Rightarrow> secrets \<Rightarrow> bytes result" where
  "retrieve_secret S sha256 env random name m =
     (case map_of m name of
        None \<Rightarrow> Inl (secret_not_found name)
      | Some encrypted \<Rightarrow>
          if length encrypted < 24 + 16 + 1
          then Inl (Runtime_error ''Encrypted secret data is corrupted or too short'')
          else
            (let no = take 24 encrypted; ct = drop 24 encrypted;
                 key = derive_key_with_nonce sha256 (get_master_key env random) name no
             in case secretbox_open S ct no key of
                  None \<Rightarrow> Inl (Runtime_error ''Secret decryption failed - invalid key or corrupted data'')
                | Some pt \<Rightarrow>
                    if length ct \<le> 16 then Inl (Runtime_error ''Decrypted secret too short'')
                    else Inr (take (length ct - 16) (pt @ replicate 16 0))))"

definition has_secret :: "string \<Rightarrow> secrets \<Rightarrow> bool" where
  "has_secret name m \<longleftrightarrow> map_of m name \<noteq> None"

definition remove_secret :: "string \<Rightarrow> secrets \<Rightarrow> bool \<times> secrets" where
  "remove_secret name m = (if map_of m name = None then (False, m) else (True, map_del name m))"

definition list_secrets :: "secrets \<Rightarrow> string list" where
  "list_secrets m = map fst m"

section \<open>States of contracts\<close>

type_synonym 'j states = "(string \<times> 'j ledger_state) list"

definition empty_ledger_state :: "'j json_ops \<Rightarrow> 'j ledger_state" where
  "empty_ledger_state J =
     \<lparr>ls_address = [], public_state = mk_null J, private_state = mk_null J, ls_block_height = 0, ls_block_hash = []\<rparr>"

definition get_private_state :: "'j json_ops \<Rightarrow> string \<Rightarrow> 'j states \<Rightarrow> 'j ledger_state" where
  "get_private_state J addr m = (case map_of m addr of None \<Rightarrow> empty_ledger_state J | Some s \<Rightarrow> s)"

definition update_private_state :: "string \<Rightarrow> 'j ledger_state \<Rightarrow> 'j states \<Rightarrow> 'j states" where
  "update_private_state addr s m = map_put addr s m"

text \<open>The endpoint is ignored.\<close>

definition get_public_state :: "'j json_ops \<Rightarrow> string \<Rightarrow> string \<Rightarrow> 'j states \<Rightarrow> 'j ledger_state" where
  "get_public_state J addr rpc_endpoint m =
     (case map_of m addr of
        Some s \<Rightarrow> s
      | None \<Rightarrow> (empty_ledger_state J)\<lparr>ls_address := addr, ls_block_height := 0\<rparr>)"

definition sync_state :: "'j json_ops \<Rightarrow> string \<Rightarrow> 'j ledger_state \<Rightarrow> 'j states \<Rightarrow> 'j states" where
  "sync_state J addr pub m =
     (let merged = (get_private_state J addr m)\<lparr>public_state := public_state pub,
                      ls_block_height := ls_block_height pub, ls_block_hash := ls_block_hash pub\<rparr>
      in update_private_state addr merged m)"

definition has_state :: "string \<Rightarrow> 'j states \<Rightarrow> bool" where
  "has_state addr m \<longleftrightarrow> map_of m addr \<noteq> None"

definition list_contracts :: "'j states \<Rightarrow> string list" where
  "list_contracts m = map fst m"

section \<open>Witness contexts\<close>

record 'j witness_context =
  public_ledger_state :: "'j ledger_state"
  private_data :: "(string \<times> bytes) list"
  wc_address :: string
  wc_block_height :: u64

definition context_to_json :: "'j json_ops \<Rightarrow> 'j witness_context \<Rightarrow> 'j" where
  "context_to_json J c =
     mk_object J [(''public_ledger_state'', ledger_to_json J (public_ledger_state c)),
       (''contract_address'', mk_string J (wc_address c)), (''block_height'', mk_number J (uint (wc_block_height c))),
       (''private_data'', map_to_json J (\<lambda>bs. mk_string J (crypto_to_hex bs)) (private_data c))]"

definition context_of_json :: "'j json_ops \<Rightarrow> 'j \<Rightarrow> 'j witness_context result" where
  "context_of_json J j =
     rbind (rbind (json_at J j ''public_ledger_state'') (ledger_of_json J)) (\<lambda>s.
     rbind (string_at J j ''contract_address'') (\<lambda>a.
     rbind (rbind (json_at J j ''block_height'') (read_u64 J)) (\<lambda>h.
     rbind (optional_map J (\<lambda>v. rbind (read_string J v) stoul_loop) j ''private_data'') (\<lambda>d.
       Inr \<lparr>public_ledger_state = s, private_data = d, wc_address = a, wc_block_height = h\<rparr>))))"

record 'j context_builder =
  b_address :: string
  b_public_state :: "'j ledger_state"
  b_private_data :: "(string \<times> bytes) list"
  b_block_height :: u64
  contract_set :: bool
  public_state_set :: bool

definition new_context_builder :: "'j json_ops \<Rightarrow> 'j context_builder" where
  "new_context_builder J = \<lparr>b_address = [], b_public_state = empty_ledger_state J, b_private_data = [], b_block_height = 0,
     contract_set = False, public_state_set = False\<rparr>"

definition set_contract_address :: "string \<Rightarrow> 'j context_builder \<Rightarrow> 'j context_builder" where
  "set_contract_address a b = b\<lparr>b_address := a, contract_set := True\<rparr>"

definition set_public_state :: "'j ledger_state \<Rightarrow> 'j context_builder \<Rightarrow> 'j context_builder" where
  "set_public_state s b = b\<lparr>b_public_state := s, public_state_set := True\<rparr>"

definition add_private_secret :: "string \<Rightarrow> bytes \<Rightarrow> 'j context_builder \<Rightarrow> 'j context_builder" where
  "add_private_secret name data b = b\<lparr>b_private_data := map_put name data (b_private_data b)\<rparr>"

definition add_private_secrets :: "(string \<times> bytes) list \<Rightarrow> 'j context_builder \<Rightarrow> 'j context_builder" where
  "add_private_secrets secrets b = fold (\<lambda>(name, data). add_private_secret name data) secrets b"

definition set_block_height :: "u64 \<Rightarrow> 'j context_builder \<Rightarrow> 'j context_builder" where
  "set_block_height h b = b\<lparr>b_block_height := h\<rparr>"

definition validate_for_build :: "'j context_builder \<Rightarrow> unit result" where
  "validate_for_build b =
     (if \<not> contract_set b then Inl (Runtime_error ''Contract address not set in WitnessContextBuilder'')
      else if \<not> public_state_set b then Inl (Runtime_error ''Public state not set in WitnessContextBuilder'')
      else Inr ())"

definition build_context :: "'j context_builder \<Rightarrow> 'j witness_context result" where
  "build_context b =
     rbind (validate_for_build b) (\<lambda>_.
       Inr \<lparr>public_ledger_state = b_public_state b, private_data = b_private_data b, wc_address = b_address b,
            wc_block_height = b_block_height b\<rparr>)"

text \<open>The secrets that are in the store, each with the master key the call sees.\<close>

fun gather_secrets ::
  "sodium \<Rightarrow> (bytes \<Rightarrow> bytes) \<Rightarrow> string option \<Rightarrow> bytes \<Rightarrow> secrets \<Rightarrow> string list \<Rightarrow> secrets \<Rightarrow> secrets result" where
  "gather_secrets S sha256 env random m [] acc = Inr acc"
| "gather_secrets S sha256 env random m (name # names) acc =
     (if has_secret name m
      then rbind (retrieve_secret S sha256 env random name m) (\<lambda>data.
             gather_secrets S sha256 env random m names (map_put name data acc))
      else gather_secrets S sha256 env random m names acc)"

definition build_from_managers ::
  "'j json_ops \<Rightarrow> sodium \<Rightarrow> (bytes \<Rightarrow> bytes) \<Rightarrow> string option \<Rightarrow> bytes \<Rightarrow> string \<Rightarrow> 'j states \<Rightarrow> secrets \<Rightarrow> string list \<Rightarrow> 'j witness_context result" where
  "build_from_managers J S sha256 env random addr states m required =
     (let b = set_public_state (get_private_state J addr states) (set_contract_address addr (new_context_builder J))
      in rbind (gather_secrets S sha256 env random m required []) (\<lambda>secrets.
           build_context (add_private_secrets secrets b)))"

definition create_test_secret :: bytes where
  "create_test_secret = replicate 32 0xAA"

definition create_test_context :: "'j json_ops \<Rightarrow> string \<Rightarrow> 'j witness_context result" where
  "create_test_context J addr =
     (let pub = (empty_ledger_state J)\<lparr>ls_address := addr, ls_block_height := 1, ls_block_hash := ''test_hash_'' @ addr\<rparr>
      in build_context (set_block_height 1 (add_private_secret ''localSecretKey'' (replicate 32 0xAA)
           (set_public_state pub (set_contract_address addr (new_context_builder J))))))"

definition validate_secret_size :: "bytes \<Rightarrow> nat \<Rightarrow> bool" where
  "validate_secret_size secret expected \<longleftrightarrow> length secret = expected"

definition hash_secret :: "(bytes \<Rightarrow> bytes) \<Rightarrow> bytes \<Rightarrow> string" where
  "hash_secret sha256 secret = crypto_to_hex (sha256 secret)"

datatype execution_status = SUCCESS | VALIDATION_FAILED | EXECUTION_ERROR | TIMEOUT

fun execution_status_value :: "execution_status \<Rightarrow> int" where
  "execution_status_value SUCCESS = 0"
| "execution_status_value VALIDATION_FAILED = 1"
| "execution_status_value EXECUTION_ERROR = 2"
| "execution_status_value TIMEOUT = 3"

record execution_result =
  er_status :: execution_status
  witness_outputs :: "(string \<times> witness_output) list"
  er_error_message :: string
  execution_time_ms :: u64

definition is_success :: "execution_result \<Rightarrow> bool" where
  "is_success r \<longleftrightarrow> er_status r = SUCCESS"

definition execution_to_json :: "'j json_ops \<Rightarrow> execution_result \<Rightarrow> 'j" where
  "execution_to_json J r =
     mk_object J [(''status'', mk_number J (execution_status_value (er_status r))),
       (''error_message'', mk_string J (er_error_message r)),
       (''execution_time_ms'', mk_number J (uint (execution_time_ms r))),
       (''witness_outputs'', map_to_json J (witness_to_json J) (witness_outputs r))]"

section \<open>The store refines a map\<close>

datatype secret_op = Store bytes bytes string bytes | Remove string | Clear

fun secret_step :: "sodium \<Rightarrow> (bytes \<Rightarrow> bytes) \<Rightarrow> string option \<Rightarrow> secret_op \<Rightarrow> secrets \<Rightarrow> secrets" where
  "secret_step S sha256 env (Store random no name data) m = snd (store_secret S sha256 env random no name data m)"
| "secret_step S sha256 env (Remove name) m = snd (remove_secret name m)"
| "secret_step S sha256 env Clear m = []"

fun secret_spec :: "secret_op \<Rightarrow> (string \<rightharpoonup> bytes) \<Rightarrow> (string \<rightharpoonup> bytes)" where
  "secret_spec (Store random no name data) f = (if name = [] \<or> data = [] then f else f(name \<mapsto> data))"
| "secret_spec (Remove name) f = f(name := None)"
| "secret_spec Clear f = Map.empty"

fun nonce_ok :: "secret_op \<Rightarrow> bool" where
  "nonce_ok (Store random no name data) = (length no = 24)"
| "nonce_ok call = True"

definition retrieves :: "sodium \<Rightarrow> (bytes \<Rightarrow> bytes) \<Rightarrow> string option \<Rightarrow> secrets \<Rightarrow> (string \<rightharpoonup> bytes) \<Rightarrow> bool" where
  "retrieves S sha256 env m f \<longleftrightarrow>
     sorted_map m \<and>
     (\<forall>name random. retrieve_secret S sha256 env random name m =
        (case f name of None \<Rightarrow> Inl (secret_not_found name) | Some data \<Rightarrow> Inr data)) \<and>
     (\<forall>name. map_of m name = None \<longleftrightarrow> f name = None)"

lemma master_key_fixed: "64 \<le> length s \<Longrightarrow> get_master_key (Some s) r = get_master_key (Some s) r'"
  by (simp add: get_master_key_def)

lemma retrieve_stored:
  assumes "secretbox_laws S" and "length no = 24" and "data \<noteq> []"
    and "secretbox S data no (derive_key_with_nonce sha256 (get_master_key env random) name no) = Some ct"
    and "map_of m name = Some (no @ ct)"
  shows "retrieve_secret S sha256 env random name m = Inr data"
proof -
  have "length ct = length data + 16" and
    "secretbox_open S ct no (derive_key_with_nonce sha256 (get_master_key env random) name no) = Some data"
    using assms(1,4) by (auto simp: secretbox_laws_def)
  then show ?thesis using assms(2,3,5) by (simp add: retrieve_secret_def Let_def)
qed

lemma retrieve_other:
  "map_of m name = map_of m' name \<Longrightarrow> retrieve_secret S sha256 env random name m = retrieve_secret S sha256 env random name m'"
  by (simp add: retrieve_secret_def)

lemma secret_step_retrieves:
  assumes "secretbox_laws S" and "\<And>m no key. secretbox S m no key \<noteq> None" and "64 \<le> length s"
    and "retrieves S sha256 (Some s) m f" and "nonce_ok call"
  shows "retrieves S sha256 (Some s) (secret_step S sha256 (Some s) call m) (secret_spec call f)"
proof (cases call)
  case (Store random no name data)
  show ?thesis
  proof (cases "name = [] \<or> data = []")
    case False
    obtain ct where ct: "secretbox S data no (derive_key_with_nonce sha256 (get_master_key (Some s) random) name no) = Some ct"
      using assms(2) by blast
    with False Store have m': "secret_step S sha256 (Some s) call m = map_put name (no @ ct) m"
      by (simp add: store_secret_def Let_def)
    have sorted: "sorted_map m" using assms(4) by (simp add: retrieves_def)
    have "retrieve_secret S sha256 (Some s) r name (map_put name (no @ ct) m) = Inr data" for r
      using ct False assms(5) Store master_key_fixed [OF assms(3), of random r]
      by (intro retrieve_stored [OF assms(1)]) (simp_all add: map_of_map_put sorted)
    moreover have "retrieve_secret S sha256 (Some s) r other (map_put name (no @ ct) m) = retrieve_secret S sha256 (Some s) r other m"
      if "other \<noteq> name" for r other
      using that by (intro retrieve_other) (simp add: map_of_map_put sorted)
    ultimately show ?thesis
      unfolding m' retrieves_def using assms(4) False Store
      by (auto simp: retrieves_def sorted_map_put map_of_map_put)
  qed (use assms(4) Store in \<open>auto simp: store_secret_def\<close>)
next
  case (Remove name)
  have "retrieve_secret S sha256 (Some s) r other (map_del name m) = retrieve_secret S sha256 (Some s) r other m"
    if "other \<noteq> name" for r other
    using that by (intro retrieve_other) (simp add: map_of_map_del)
  moreover have "retrieve_secret S sha256 (Some s) r name (map_del name m) = Inl (secret_not_found name)" for r
    by (simp add: retrieve_secret_def map_of_map_del)
  ultimately show ?thesis
    using assms(4) Remove by (auto simp: retrieves_def remove_secret_def sorted_map_del map_of_map_del)
next
  case Clear
  then show ?thesis by (simp add: retrieves_def retrieve_secret_def)
qed

text \<open>
  C29: With a master key of at least 64 characters in the environment the store refines a plain map of
  secrets: after every sequence of storing, removing and clearing, \<^verbatim>\<open>retrieve_secret\<close> returns exactly what was
  stored last under the name, and throws for names that are not in the map.
\<close>

theorem secret_store_refinement:
  assumes "secretbox_laws S" and "\<And>m no key. secretbox S m no key \<noteq> None" and "64 \<le> length s" and "list_all nonce_ok calls"
  shows "retrieve_secret S sha256 (Some s) random name (fold (secret_step S sha256 (Some s)) calls []) =
    (case fold secret_spec calls Map.empty name of None \<Rightarrow> Inl (secret_not_found name) | Some data \<Rightarrow> Inr data)"
proof -
  have "retrieves S sha256 (Some s) (fold (secret_step S sha256 (Some s)) calls m) (fold secret_spec calls f)"
    if "retrieves S sha256 (Some s) m f" "list_all nonce_ok calls" for m f
    using that
  proof (induction calls arbitrary: m f)
    case (Cons c calls)
    have "retrieves S sha256 (Some s) (secret_step S sha256 (Some s) c m) (secret_spec c f)"
      by (rule secret_step_retrieves) (use assms Cons.prems in simp_all)
    then have "retrieves S sha256 (Some s) (fold (secret_step S sha256 (Some s)) calls (secret_step S sha256 (Some s) c m))
        (fold secret_spec calls (secret_spec c f))"
      by (rule Cons.IH) (use Cons.prems in simp)
    then show ?case by simp
  qed simp
  moreover have "retrieves S sha256 (Some s) [] Map.empty" by (simp add: retrieves_def retrieve_secret_def)
  ultimately show ?thesis using assms(4) by (simp add: retrieves_def)
qed

section \<open>Without a master key\<close>

text \<open>
  C31: Without the environment variable every call draws a master key of its own, so that a secret just stored
  cannot be retrieved: decryption fails whenever the two draws give different keys, a box opening under no
  other key than its own.
\<close>

theorem secret_lost_without_master_key:
  assumes "secretbox_laws S" and "\<And>m no k k' c. secretbox S m no k = Some c \<Longrightarrow> k' \<noteq> k \<Longrightarrow> secretbox_open S c no k' = None"
    and "length no = 24" and "sorted_map m" and "store_secret S sha256 None random no name data m = (True, m')"
    and "derive_key_with_nonce sha256 random' name no \<noteq> derive_key_with_nonce sha256 random name no"
  shows "retrieve_secret S sha256 None random' name m' =
    Inl (Runtime_error ''Secret decryption failed - invalid key or corrupted data'')"
proof -
  from assms(5) obtain ct where ct: "secretbox S data no (derive_key_with_nonce sha256 random name no) = Some ct"
    and m': "m' = map_put name (no @ ct) m" and data: "data \<noteq> []"
    by (auto simp: store_secret_def get_master_key_def Let_def split: if_splits option.splits)
  have "length ct = length data + 16" using assms(1) ct by (auto simp: secretbox_laws_def)
  moreover have "0 < length data" using data by simp
  moreover have "secretbox_open S ct no (derive_key_with_nonce sha256 random' name no) = None"
    using assms(2) [OF ct] assms(6) by blast
  ultimately show ?thesis
    using assms(3,4) by (simp add: retrieve_secret_def m' map_of_map_put get_master_key_def Let_def)
qed

section \<open>States and contexts\<close>

text \<open>
  A synchronised contract keeps its private state and takes the public one; a contract that was unknown is
  stored without its address.
\<close>

lemma sync_state_merges:
  assumes "sorted_map m"
  shows "get_private_state J addr (sync_state J addr pub m) =
    (get_private_state J addr m)\<lparr>public_state := public_state pub, ls_block_height := ls_block_height pub,
       ls_block_hash := ls_block_hash pub\<rparr>"
  using assms by (simp add: sync_state_def update_private_state_def get_private_state_def [of J addr "map_put _ _ _"] map_of_map_put Let_def)

lemma sync_state_loses_address:
  "sorted_map m \<Longrightarrow> map_of m addr = None \<Longrightarrow> ls_address (get_private_state J addr (sync_state J addr pub m)) = []"
  by (simp add: sync_state_merges) (simp add: get_private_state_def empty_ledger_state_def)

sublocale lawful_json \<subseteq> context_codec: json_codec "context_to_json J" "context_of_json J" "\<lambda>c. sorted_map (private_data c)"
proof
  fix c :: "'j witness_context"
  assume "sorted_map (private_data c)"
  note d = optional_map_written [OF this, of "\<lambda>v. rbind (read_string J v) stoul_loop" "\<lambda>bs. mk_string J (util_bytes_to_hex bs)"]
  show "context_of_json J (context_to_json J c) = Inr c"
    using ledger_codec.read_written
    by (simp add: context_to_json_def context_of_json_def string_at_object
        d crypto_to_hex_eq stoul_loop_enc)
qed

section \<open>Witnesses\<close>

definition keyed_sodium :: sodium where
  "keyed_sodium = toy_sodium\<lparr>secretbox := (\<lambda>m no k. Some (take 16 (k @ replicate 16 0) @ m)),
     secretbox_open := (\<lambda>c no k. if take 16 c = take 16 (k @ replicate 16 0) then Some (drop 16 c) else None)\<rparr>"

lemma keyed_sodium_laws: "secretbox_laws keyed_sodium"
  by (auto simp: secretbox_laws_def keyed_sodium_def toy_sodium_def)

theorem secret_store_refinement_witness:
  "retrieve_secret keyed_sodium (\<lambda>_. []) (Some (replicate 64 (CHR ''a''))) [] ''k''
     (fold (secret_step keyed_sodium (\<lambda>_. []) (Some (replicate 64 (CHR ''a''))))
        [Store [] (replicate 24 0) ''k'' [7], Store [] (replicate 24 1) ''l'' [8], Remove ''l''] []) = Inr [7]"
proof -
  have "list_all nonce_ok [Store [] (replicate 24 0) ''k'' [7], Store [] (replicate 24 1) ''l'' [8], Remove ''l'']" by simp
  from secret_store_refinement [OF keyed_sodium_laws _ _ this, of "replicate 64 (CHR ''a'')" "\<lambda>_. []" "[]" "''k''"]
  show ?thesis by (simp add: keyed_sodium_def)
qed

definition boxed_sodium :: sodium where
  "boxed_sodium = toy_sodium\<lparr>secretbox := (\<lambda>m no k. if length k = 16 then Some (k @ m) else None),
     secretbox_open := (\<lambda>c no k. if take 16 c = k \<and> length k = 16 then Some (drop 16 c) else None)\<rparr>"

theorem secret_lost_without_master_key_witness:
  "\<exists>m'. store_secret boxed_sodium (take 16) None (replicate 32 1) (replicate 24 0) ''k'' [7] [] = (True, m') \<and>
     retrieve_secret boxed_sodium (take 16) None (replicate 32 2) ''k'' m' =
       Inl (Runtime_error ''Secret decryption failed - invalid key or corrupted data'')"
proof -
  have laws: "secretbox_laws boxed_sodium" by (auto simp: secretbox_laws_def boxed_sodium_def toy_sodium_def)
  have auth: "secretbox boxed_sodium m no k = Some c \<Longrightarrow> k' \<noteq> k \<Longrightarrow> secretbox_open boxed_sodium c no k' = None" for m no k c k'
    by (auto simp: boxed_sodium_def split: if_splits)
  have key: "derive_key_with_nonce (take 16) (replicate 32 b) ''k'' (replicate 24 0) = replicate 16 b" for b
    by (simp add: derive_key_with_nonce_def)
  obtain m' where m': "store_secret boxed_sodium (take 16) None (replicate 32 1) (replicate 24 0) ''k'' [7] [] = (True, m')"
    by (simp add: store_secret_def get_master_key_def key boxed_sodium_def)
  have "replicate 16 2 \<noteq> replicate 16 (1 :: u8)" by (simp add: replicate_eq_replicate)
  with secret_lost_without_master_key [OF laws auth _ _ m', where random' = "replicate 32 2"] m' show ?thesis by (simp add: key)
qed

end
