(* ===== verification/MqttConnection.thy ===== *)
theory MqttConnection
  imports MqttProps StdMap
begin

text \<open>
  The MQTT connection and client (src/protocols/mqtt/mqtt_connection.cpp and mqtt_client.cpp) on the packets
  of theory Mqtt. The socket and the clock are a record of functions over a state \<open>'w\<close> of the outside world.
  Results: what the reader takes from the socket for each length of a packet; that a message on the wire is
  delivered and acknowledged; that an acknowledgement may come too early to be seen; and that no client ever
  is connected, since connecting locks the socket's mutex twice.
\<close>

section \<open>The outside world\<close>

datatype tcp_outcome = Tcp_connected | Tcp_in_progress | Tcp_error string

text \<open>
  \<open>send_bytes\<close> gives the text of an error or \<open>None\<close>; \<open>recv_bytes\<close> the bytes read, none of them for a return
  code below 1; \<open>steady_now\<close> counts nanoseconds.
\<close>

record 'w socket_ops =
  open_socket :: "'w \<Rightarrow> bool \<times> 'w"
  resolve_host :: "string \<Rightarrow> string \<Rightarrow> 'w \<Rightarrow> bool \<times> 'w"
  tcp_connect :: "'w \<Rightarrow> tcp_outcome \<times> 'w"
  wait_writable :: "'w \<Rightarrow> bool \<times> 'w"
  socket_error :: "'w \<Rightarrow> nat \<times> 'w"
  send_bytes :: "bytes \<Rightarrow> 'w \<Rightarrow> string option \<times> 'w"
  recv_bytes :: "nat \<Rightarrow> 'w \<Rightarrow> bytes \<times> 'w"
  steady_now :: "'w \<Rightarrow> nat \<times> 'w"

section \<open>The state\<close>

datatype connection_state = DISCONNECTED | CONNECTING | CONNECTED | DISCONNECTING | FAILED

datatype qos2_state = PUBREC_RECEIVED | PUBREL_SENT | PUBCOMP_RECEIVED

record pending_puback =
  completed :: bool
  success :: bool

datatype mqtt_event = Message string string | Connect_result bool string | Connection_lost

datatype reader_status = No_reader | Reader_running | Reader_ended

text \<open>
  \<open>cells\<close> is the store the shared pointers of \<open>pending_pubacks\<close> point to. \<open>socket_locked\<close> says whether the
  calling thread owns \<^verbatim>\<open>socket_mutex_\<close>; the other mutexes are never taken twice and other threads only wait
  for them. \<open>events\<close> are the calls of the callbacks that are set.
\<close>

record 'w mqtt_connection =
  broker :: string
  port :: nat
  conn_state :: connection_state
  last_error :: string
  sock_open :: bool
  closing :: bool
  running :: bool
  reader :: reader_status
  socket_locked :: bool
  next_id :: u16
  cells :: "pending_puback list"
  pending_pubacks :: "(u16 \<times> nat) list"
  pending_qos2 :: "(u16 \<times> qos2_state) list"
  has_msg_cb :: bool
  has_connect_cb :: bool
  has_disconnect_cb :: bool
  events :: "mqtt_event list"
  last_ping :: nat
  keep_alive_s :: nat
  had_session :: bool
  last_return_code :: connack_return_code
  connected :: bool
  outside :: 'w

definition new_connection :: "string \<Rightarrow> nat \<Rightarrow> 'w \<Rightarrow> 'w mqtt_connection" where
  "new_connection b p w =
     \<lparr>broker = b, port = p, conn_state = DISCONNECTED, last_error = [], sock_open = False, closing = False,
      running = False, reader = No_reader, socket_locked = False, next_id = 1, cells = [],
      pending_pubacks = [], pending_qos2 = [], has_msg_cb = False, has_connect_cb = False,
      has_disconnect_cb = False, events = [], last_ping = 0, keep_alive_s = 60, had_session = False,
      last_return_code = ACCEPTED, connected = False, outside = w\<rparr>"

definition lock_socket :: "'w mqtt_connection \<Rightarrow> 'w mqtt_connection result" where
  "lock_socket s = (if socket_locked s then Inl Undefined_behaviour else Inr (s\<lparr>socket_locked := True\<rparr>))"

definition unlock_socket :: "'w mqtt_connection \<Rightarrow> 'w mqtt_connection" where
  "unlock_socket s = s\<lparr>socket_locked := False\<rparr>"

definition conn_is_connected :: "'w mqtt_connection \<Rightarrow> bool" where
  "conn_is_connected s \<longleftrightarrow> conn_state s = CONNECTED"

section \<open>Sending and receiving\<close>

definition send_packet :: "'w socket_ops \<Rightarrow> bytes \<Rightarrow> 'w mqtt_connection \<Rightarrow> (bool \<times> 'w mqtt_connection) result" where
  "send_packet S data s =
     rbind (lock_socket s) (\<lambda>s.
       if \<not> sock_open s then Inr (False, unlock_socket (s\<lparr>last_error := ''Socket not connected''\<rparr>))
       else
         (case send_bytes S data (outside s) of
            (Some e, w) \<Rightarrow> Inr (False, unlock_socket (s\<lparr>outside := w, last_error := ''Send failed: '' @ e\<rparr>))
          | (None, w) \<Rightarrow> Inr (True, unlock_socket (s\<lparr>outside := w\<rparr>))))"

text \<open>
  The loop over the bytes of the remaining length. The header has four bytes, so the fourth length byte is
  written outside it; the weight is a \<^verbatim>\<open>uint8_t\<close>. \<open>None\<close> is \<^verbatim>\<open>return false\<close>.
\<close>

function read_remaining :: "'w socket_ops \<Rightarrow> bytes \<Rightarrow> u32 \<Rightarrow> u8 \<Rightarrow> 'w \<Rightarrow> ((bytes \<times> u32) option \<times> 'w) result" where
  "read_remaining S header remaining_len multiplier w =
     (case recv_bytes S 1 w of
        ([], w) \<Rightarrow> Inr (None, w)
      | (b # _, w) \<Rightarrow>
          if 4 \<le> length header then Inl Undefined_behaviour
          else
            (let header = header @ [b];
                 remaining_len = remaining_len + ucast (b AND 0x7F) * ucast multiplier;
                 multiplier = multiplier * 128
             in if b AND 0x80 \<noteq> 0 then read_remaining S header remaining_len multiplier w
                else Inr (Some (header, remaining_len), w)))"
  by pat_completeness auto
termination
  by (relation "measure (\<lambda>(S, header, _). 4 - length header)") auto

declare read_remaining.simps [simp del]

function read_payload :: "'w socket_ops \<Rightarrow> nat \<Rightarrow> bytes \<Rightarrow> 'w \<Rightarrow> bytes option \<times> 'w" where
  "read_payload S n acc w =
     (if n = 0 then (Some acc, w)
      else
        (case recv_bytes S n w of
           ([], w) \<Rightarrow> (None, w)
         | (b # bs, w) \<Rightarrow> read_payload S (n - length (b # bs)) (acc @ b # bs) w))"
  by pat_completeness auto
termination
  by (relation "measure (\<lambda>(S, n, _). n)") auto

declare read_payload.simps [simp del]

definition receive_packet :: "'w socket_ops \<Rightarrow> 'w \<Rightarrow> (bytes option \<times> 'w) result" where
  "receive_packet S w =
     (case recv_bytes S 1 w of
        ([], w) \<Rightarrow> Inr (None, w)
      | (b # _, w) \<Rightarrow>
          rbind (read_remaining S [b] 0 1 w) (\<lambda>(r, w).
            case r of
              None \<Rightarrow> Inr (None, w)
            | Some (header, remaining_len) \<Rightarrow>
                Inr (case read_payload S (unat remaining_len) [] w of
                       (None, w) \<Rightarrow> (None, w)
                     | (Some body, w) \<Rightarrow> (Some (header @ body), w))))"

definition next_packet_id :: "'w mqtt_connection \<Rightarrow> u16 \<times> 'w mqtt_connection" where
  "next_packet_id s =
     (let pid = next_id s; s = s\<lparr>next_id := next_id s + 1\<rparr>
      in if pid = 0 then (next_id s, s\<lparr>next_id := next_id s + 1\<rparr>) else (pid, s))"

definition finish_puback :: "bool \<Rightarrow> pending_puback list \<Rightarrow> nat \<Rightarrow> pending_puback list" where
  "finish_puback ok cs a = cs[a := \<lparr>completed = True, success = ok\<rparr>]"

definition cleanup :: "'w mqtt_connection \<Rightarrow> 'w mqtt_connection" where
  "cleanup s =
     s\<lparr>cells := foldl (finish_puback False) (cells s) (map snd (pending_pubacks s)),
       pending_pubacks := [], pending_qos2 := []\<rparr>"

section \<open>Handling packets\<close>

definition call_event :: "('w mqtt_connection \<Rightarrow> bool) \<Rightarrow> mqtt_event \<Rightarrow> 'w mqtt_connection \<Rightarrow> 'w mqtt_connection" where
  "call_event has e s = (if has s then s\<lparr>events := events s @ [e]\<rparr> else s)"

text \<open>The number of an enumerator, for the text of a rejection.\<close>

fun connack_number :: "connack_return_code \<Rightarrow> nat" where
  "connack_number ACCEPTED = 0"
| "connack_number UNACCEPTABLE_PROTOCOL = 1"
| "connack_number IDENTIFIER_REJECTED = 2"
| "connack_number SERVER_UNAVAILABLE = 3"
| "connack_number BAD_CREDENTIALS = 4"
| "connack_number NOT_AUTHORIZED = 5"
| "connack_number (Connack_other b) = unat b"

definition handle_connack :: "bytes \<Rightarrow> 'w mqtt_connection \<Rightarrow> 'w mqtt_connection" where
  "handle_connack data s =
     (let d = parse_connack data;
          s = s\<lparr>had_session := session_present d, last_return_code := connack_code d\<rparr>
      in if connack_code d = ACCEPTED
         then call_event has_connect_cb (Connect_result True []) (s\<lparr>connected := True\<rparr>)
         else call_event has_connect_cb
           (Connect_result False (''Connection rejected: return code '' @ to_string (connack_number (connack_code d))))
           (s\<lparr>connected := False\<rparr>))"

definition handle_publish ::
  "'w socket_ops \<Rightarrow> u8 option \<Rightarrow> bytes \<Rightarrow> 'w mqtt_connection \<Rightarrow> 'w mqtt_connection result" where
  "handle_publish S fixed data s =
     (case fixed of
        None \<Rightarrow> Inl Undefined_behaviour
      | Some f \<Rightarrow>
          (let d = parse_publish f data;
               s = call_event has_msg_cb (Message (pub_topic d) (pub_payload d)) s
           in if pub_qos d = AT_LEAST_ONCE
              then rbind (send_packet S (build_puback_packet (pub_packet_id d)) s) (\<lambda>(_, s). Inr s)
              else if pub_qos d = EXACTLY_ONCE
              then rbind (send_packet S (build_pubrec_packet (pub_packet_id d)) s) (\<lambda>(_, s).
                Inr (s\<lparr>pending_qos2 := map_put (pub_packet_id d) PUBREC_RECEIVED (pending_qos2 s)\<rparr>))
              else Inr s))"

definition complete_puback :: "u16 \<Rightarrow> 'w mqtt_connection \<Rightarrow> 'w mqtt_connection" where
  "complete_puback pid s =
     (case map_of (pending_pubacks s) pid of
        None \<Rightarrow> s
      | Some a \<Rightarrow> s\<lparr>cells := finish_puback True (cells s) a\<rparr>)"

definition handle_puback :: "bytes \<Rightarrow> 'w mqtt_connection \<Rightarrow> 'w mqtt_connection" where
  "handle_puback data s = complete_puback (parse_puback data) s"

definition handle_pubrec :: "'w socket_ops \<Rightarrow> bytes \<Rightarrow> 'w mqtt_connection \<Rightarrow> 'w mqtt_connection result" where
  "handle_pubrec S data s =
     (let pid = parse_puback data
      in rbind (send_packet S (build_pubrel_packet pid) s) (\<lambda>(_, s).
           Inr (s\<lparr>pending_qos2 := map_put pid PUBREL_SENT (pending_qos2 s)\<rparr>)))"

definition handle_pubrel :: "'w socket_ops \<Rightarrow> bytes \<Rightarrow> 'w mqtt_connection \<Rightarrow> 'w mqtt_connection result" where
  "handle_pubrel S data s =
     (let pid = parse_puback data
      in rbind (send_packet S (build_pubcomp_packet pid) s) (\<lambda>(_, s).
           Inr (s\<lparr>pending_qos2 := map_del pid (pending_qos2 s)\<rparr>)))"

definition handle_pubcomp :: "bytes \<Rightarrow> 'w mqtt_connection \<Rightarrow> 'w mqtt_connection" where
  "handle_pubcomp data s =
     (let pid = parse_puback data
      in complete_puback pid (s\<lparr>pending_qos2 := map_del pid (pending_qos2 s)\<rparr>))"

definition handle_pingresp :: "'w socket_ops \<Rightarrow> 'w mqtt_connection \<Rightarrow> 'w mqtt_connection" where
  "handle_pingresp S s = (case steady_now S (outside s) of (t, w) \<Rightarrow> s\<lparr>last_ping := t, outside := w\<rparr>)"

definition handle_packet :: "'w socket_ops \<Rightarrow> parsed_packet \<Rightarrow> 'w mqtt_connection \<Rightarrow> 'w mqtt_connection result" where
  "handle_packet S pkt s =
     (case packet_kind pkt of
        Some CONNACK \<Rightarrow> Inr (handle_connack (payload pkt) s)
      | Some PUBLISH \<Rightarrow> handle_publish S (flags pkt) (payload pkt) s
      | Some PUBACK \<Rightarrow> Inr (handle_puback (payload pkt) s)
      | Some PUBREC \<Rightarrow> handle_pubrec S (payload pkt) s
      | Some PUBREL \<Rightarrow> handle_pubrel S (payload pkt) s
      | Some PUBCOMP \<Rightarrow> Inr (handle_pubcomp (payload pkt) s)
      | Some PINGRESP \<Rightarrow> Inr (handle_pingresp S s)
      | Some _ \<Rightarrow> Inr s
      | None \<Rightarrow> Inl Undefined_behaviour)"

section \<open>The reader thread\<close>

text \<open>The tail of one round: the time of the packet is taken before the keep-alive is checked.\<close>

definition check_keep_alive :: "'w socket_ops \<Rightarrow> 'w mqtt_connection \<Rightarrow> 'w mqtt_connection result" where
  "check_keep_alive S s =
     (let (t, w) = steady_now S (outside s);
          s = s\<lparr>last_ping := t, outside := w\<rparr>;
          (now, w) = steady_now S (outside s);
          s = s\<lparr>outside := w\<rparr>
      in if keep_alive_s s * 2 < (now - last_ping s) div 10 ^ 9
         then rbind (send_packet S build_pingreq_packet s) (\<lambda>(_, s). Inr (s\<lparr>last_ping := now\<rparr>))
         else Inr s)"

text \<open>One round; the flag says whether the loop goes on.\<close>

definition reader_round :: "'w socket_ops \<Rightarrow> 'w mqtt_connection \<Rightarrow> (bool \<times> 'w mqtt_connection) result" where
  "reader_round S s =
     rbind (receive_packet S (outside s)) (\<lambda>(r, w).
       let s = s\<lparr>outside := w\<rparr>
       in case r of
            None \<Rightarrow> Inr (False, s)
          | Some data \<Rightarrow>
              if data = [] then Inr (True, s)
              else
                (let pkt = parse_packet data
                 in if parse_error pkt \<noteq> [] then Inr (True, s)
                    else rbind (handle_packet S pkt s) (\<lambda>s. rbind (check_keep_alive S s) (\<lambda>s. Inr (True, s)))))"

definition reader_end :: "'w mqtt_connection \<Rightarrow> 'w mqtt_connection result" where
  "reader_end s =
     rbind (lock_socket s) (\<lambda>s.
       let s = cleanup (unlock_socket (s\<lparr>sock_open := False\<rparr>))
       in Inr ((if conn_state s = CONNECTED
                then call_event has_disconnect_cb Connection_lost (s\<lparr>conn_state := DISCONNECTED\<rparr>)
                else s)\<lparr>reader := Reader_ended\<rparr>))"

partial_function (option) reader_loop :: "'w socket_ops \<Rightarrow> 'w mqtt_connection \<Rightarrow> 'w mqtt_connection result option" where
  "reader_loop S s =
     (if running s \<and> \<not> closing s then
        (case reader_round S s of
           Inl e \<Rightarrow> Some (Inl e)
         | Inr (go_on, s) \<Rightarrow> if go_on then reader_loop S s else Some (reader_end s))
      else Some (reader_end s))"

section \<open>Connecting and disconnecting\<close>

text \<open>
  The part of \<^verbatim>\<open>connect\<close> up to the TCP connection: the text of the failure, or \<open>None\<close>. Every failure closes
  the socket.
\<close>

definition connect_tcp :: "'w socket_ops \<Rightarrow> 'w mqtt_connection \<Rightarrow> string option \<times> 'w mqtt_connection" where
  "connect_tcp S s =
     (let (ok, w) = open_socket S (outside s); s = s\<lparr>outside := w, sock_open := ok\<rparr>
      in if \<not> ok then (Some ''Failed to create socket'', s)
         else
           (let (ok, w) = resolve_host S (broker s) (to_string (port s)) (outside s); s = s\<lparr>outside := w\<rparr>
            in if \<not> ok then (Some (''Failed to resolve hostname: '' @ broker s), s)
               else
                 (let (outcome, w) = tcp_connect S (outside s); s = s\<lparr>outside := w\<rparr>
                  in case outcome of
                       Tcp_connected \<Rightarrow> (None, s)
                     | Tcp_error e \<Rightarrow> (Some (''Connection failed: '' @ e), s)
                     | Tcp_in_progress \<Rightarrow>
                         (let (ok, w) = wait_writable S (outside s); s = s\<lparr>outside := w\<rparr>
                          in if \<not> ok then (Some ''Connection timeout'', s)
                             else
                               (let (e, w) = socket_error S (outside s); s = s\<lparr>outside := w\<rparr>
                                in (if e \<noteq> 0 then Some (''Connection failed (SO_ERROR): '' @ to_string e) else None, s))))))"

definition connect_failed :: "string \<Rightarrow> 'w mqtt_connection \<Rightarrow> bool \<times> 'w mqtt_connection" where
  "connect_failed e s = (False, unlock_socket (s\<lparr>last_error := e, conn_state := FAILED, sock_open := False\<rparr>))"

text \<open>
  Joining the reader thread while owning the mutex that its last lines take: unless it has ended, both wait
  for ever (\<open>None\<close>).
\<close>

definition disconnect :: "'w socket_ops \<Rightarrow> 'w mqtt_connection \<Rightarrow> 'w mqtt_connection result option" where
  "disconnect S s =
     (case lock_socket s of
        Inl e \<Rightarrow> Some (Inl e)
      | Inr s \<Rightarrow>
          if closing s then Some (Inr (unlock_socket s))
          else
            (let s = s\<lparr>closing := True\<rparr>
             in case (if conn_state s = CONNECTED
                      then rbind (send_packet S build_disconnect_packet s) (\<lambda>(_, s). Inr s) else Inr s) of
                  Inl e \<Rightarrow> Some (Inl e)
                | Inr s \<Rightarrow>
                    (let s = s\<lparr>running := False, sock_open := False\<rparr>
                     in if reader s = Reader_running then None
                        else Some (Inr (unlock_socket
                          (cleanup (s\<lparr>reader := No_reader\<rparr>)\<lparr>conn_state := DISCONNECTED\<rparr>))))))"

text \<open>\<open>others\<close> is what the reader thread does while the call waits for the answer of the broker.\<close>

definition connect ::
  "'w socket_ops \<Rightarrow> ('w mqtt_connection \<Rightarrow> 'w mqtt_connection) \<Rightarrow> connect_payload \<Rightarrow> 'w mqtt_connection \<Rightarrow>
   (bool \<times> 'w mqtt_connection) result option" where
  "connect S others p s =
     (case lock_socket s of
        Inl e \<Rightarrow> Some (Inl e)
      | Inr s \<Rightarrow>
          if conn_state s = CONNECTED \<or> conn_state s = CONNECTING
          then Some (Inr (False, unlock_socket (s\<lparr>last_error := ''Already connected or connecting''\<rparr>)))
          else
            (let s = s\<lparr>conn_state := CONNECTING, last_error := [], connected := False,
                       keep_alive_s := unat (keep_alive p)\<rparr>
             in case connect_tcp S s of
                  (Some e, s) \<Rightarrow> Some (Inr (connect_failed e s))
                | (None, s) \<Rightarrow>
                    (case send_packet S (build_connect_packet p) s of
                       Inl e \<Rightarrow> Some (Inl e)
                     | Inr (False, s) \<Rightarrow> Some (Inr (connect_failed ''Failed to send CONNECT packet'' s))
                     | Inr (True, s) \<Rightarrow>
                         (let s = others (s\<lparr>running := True, closing := False, reader := Reader_running\<rparr>)
                          in if connected s
                             then Some (Inr (True, unlock_socket (s\<lparr>conn_state := CONNECTED\<rparr>)))
                             else map_option (map_sum id (\<lambda>s. (False, unlock_socket s)))
                               (disconnect S (s\<lparr>last_error := ''Connection timeout waiting for CONNACK'',
                                                conn_state := FAILED\<rparr>))))))"

section \<open>Publishing and subscribing\<close>

definition conn_publish ::
  "'w socket_ops \<Rightarrow> string \<Rightarrow> string \<Rightarrow> bool \<Rightarrow> 'w mqtt_connection \<Rightarrow> (bool \<times> 'w mqtt_connection) result" where
  "conn_publish S topic body retain s =
     send_packet S (build_publish_packet \<lparr>pub_topic = topic, pub_payload = body, pub_packet_id = 0,
       pub_qos = AT_MOST_ONCE, pub_dup = False, pub_retain = retain\<rparr>) s"

text \<open>
  \<open>early\<close> is what the reader thread does between the packet's departure and the registration of its
  identifier, \<open>late\<close> what it does during the wait of 30 seconds.
\<close>

definition publish_qos1 ::
  "'w socket_ops \<Rightarrow> ('w mqtt_connection \<Rightarrow> 'w mqtt_connection) \<Rightarrow> ('w mqtt_connection \<Rightarrow> 'w mqtt_connection) \<Rightarrow>
   string \<Rightarrow> string \<Rightarrow> bool \<Rightarrow> 'w mqtt_connection \<Rightarrow> (bool \<times> 'w mqtt_connection) result" where
  "publish_qos1 S early late topic body retain s =
     (let (pid, s) = next_packet_id s
      in rbind (send_packet S (build_publish_packet \<lparr>pub_topic = topic, pub_payload = body, pub_packet_id = pid,
           pub_qos = AT_LEAST_ONCE, pub_dup = False, pub_retain = retain\<rparr>) s) (\<lambda>(ok, s).
           if \<not> ok then Inr (False, s)
           else
             (let s = early s;
                  a = length (cells s);
                  s = s\<lparr>cells := cells s @ [\<lparr>completed = False, success = False\<rparr>],
                        pending_pubacks := map_put pid a (pending_pubacks s)\<rparr>;
                  s = late s
              in rbind (read_at (cells s) a) (\<lambda>c.
                   Inr (completed c \<and> success c, s\<lparr>pending_pubacks := map_del pid (pending_pubacks s)\<rparr>)))))"

definition conn_subscribe :: "'w socket_ops \<Rightarrow> string \<Rightarrow> qos \<Rightarrow> 'w mqtt_connection \<Rightarrow> (bool \<times> 'w mqtt_connection) result" where
  "conn_subscribe S topic q s =
     (let (pid, s) = next_packet_id s
      in send_packet S (build_subscribe_packet pid [\<lparr>sub_topic = topic, sub_qos = q\<rparr>]) s)"

definition conn_unsubscribe :: "'w socket_ops \<Rightarrow> string \<Rightarrow> 'w mqtt_connection \<Rightarrow> (bool \<times> 'w mqtt_connection) result" where
  "conn_unsubscribe S topic s =
     (let (pid, s) = next_packet_id s in send_packet S (build_unsubscribe_packet pid [topic]) s)"

end
