(* ===== verification/MqttClient.thy ===== *)
theory MqttClient
  imports MqttConnection
begin

text \<open>
  The MQTT client (src/protocols/mqtt/mqtt_client.cpp) over the connection, and the properties of both.
\<close>

section \<open>The client\<close>

text \<open>\<open>idle\<close> is the outside world while there is no connection.\<close>

record 'w mqtt_client =
  connection :: "'w mqtt_connection option"
  client_name :: string
  user :: string
  secret :: string
  clean :: bool
  keep_alive_time :: int
  idle :: 'w

definition new_client :: "'w \<Rightarrow> 'w mqtt_client" where
  "new_client w = \<lparr>connection = None, client_name = [], user = [], secret = [], clean = True,
     keep_alive_time = 60, idle = w\<rparr>"

definition client_is_connected :: "'w mqtt_client \<Rightarrow> bool" where
  "client_is_connected c = (case connection c of None \<Rightarrow> False | Some s \<Rightarrow> conn_is_connected s)"

text \<open>\<open>destroy\<close> is the destructor of a connection, which disconnects once more.\<close>

definition destroy :: "'w socket_ops \<Rightarrow> 'w mqtt_client \<Rightarrow> 'w mqtt_client result option" where
  "destroy S c =
     (case connection c of
        None \<Rightarrow> Some (Inr c)
      | Some s \<Rightarrow> map_option (map_sum id (\<lambda>s. c\<lparr>connection := None, idle := outside s\<rparr>)) (disconnect S s))"

definition client_disconnect :: "'w socket_ops \<Rightarrow> 'w mqtt_client \<Rightarrow> 'w mqtt_client result option" where
  "client_disconnect S c =
     (case connection c of
        None \<Rightarrow> Some (Inr c)
      | Some s \<Rightarrow>
          (case disconnect S s of
             None \<Rightarrow> None
           | Some (Inl e) \<Rightarrow> Some (Inl e)
           | Some (Inr s) \<Rightarrow> destroy S (c\<lparr>connection := Some s\<rparr>)))"

text \<open>\<open>now\<close> is the count of the clock, the name of a client that is given none.\<close>

definition client_connect ::
  "'w socket_ops \<Rightarrow> ('w mqtt_connection \<Rightarrow> 'w mqtt_connection) \<Rightarrow> nat \<Rightarrow> string \<Rightarrow> nat \<Rightarrow> string \<Rightarrow> bool \<Rightarrow> int \<Rightarrow>
   string \<Rightarrow> string \<Rightarrow> 'w mqtt_client \<Rightarrow> (bool \<times> 'w mqtt_client) result option" where
  "client_connect S others now url p cid clean_s keep usr pwd c =
     (case (if client_is_connected c then client_disconnect S c else Some (Inr c)) of
        None \<Rightarrow> None
      | Some (Inl e) \<Rightarrow> Some (Inl e)
      | Some (Inr c) \<Rightarrow>
          (case destroy S c of
             None \<Rightarrow> None
           | Some (Inl e) \<Rightarrow> Some (Inl e)
           | Some (Inr c) \<Rightarrow>
               (let name = (if cid = [] then ''midnight-mqtt-'' @ to_string now else cid);
                    c = c\<lparr>client_name := name, clean := clean_s, keep_alive_time := keep, user := usr, secret := pwd\<rparr>
                in case connect S others
                     \<lparr>client_id = name, will_topic = [], will_message = [], username = usr, password = pwd,
                      keep_alive = word_of_int keep, clean_session = clean_s, will_retain = False,
                      will_qos = AT_MOST_ONCE\<rparr> (new_connection url p (idle c)) of
                     None \<Rightarrow> None
                   | Some (Inl e) \<Rightarrow> Some (Inl e)
                   | Some (Inr (ok, s)) \<Rightarrow> Some (Inr (ok, c\<lparr>connection := Some s\<rparr>)))))"

definition client_publish ::
  "'w socket_ops \<Rightarrow> ('w mqtt_connection \<Rightarrow> 'w mqtt_connection) \<Rightarrow> ('w mqtt_connection \<Rightarrow> 'w mqtt_connection) \<Rightarrow>
   string \<Rightarrow> string \<Rightarrow> qos \<Rightarrow> bool \<Rightarrow> 'w mqtt_client \<Rightarrow> 'w mqtt_client result" where
  "client_publish S early late topic body q retain c =
     (case connection c of
        None \<Rightarrow> Inr c
      | Some s \<Rightarrow>
          if \<not> conn_is_connected s then Inr c
          else rbind (if q = AT_MOST_ONCE then conn_publish S topic body retain s
                      else publish_qos1 S early late topic body retain s) (\<lambda>(_, s). Inr (c\<lparr>connection := Some s\<rparr>)))"

definition on_connection ::
  "('w mqtt_connection \<Rightarrow> (bool \<times> 'w mqtt_connection) result) \<Rightarrow> 'w mqtt_client \<Rightarrow> 'w mqtt_client result" where
  "on_connection f c =
     (case connection c of None \<Rightarrow> Inr c | Some s \<Rightarrow> rbind (f s) (\<lambda>(_, s). Inr (c\<lparr>connection := Some s\<rparr>)))"

definition client_subscribe :: "'w socket_ops \<Rightarrow> string \<Rightarrow> qos \<Rightarrow> 'w mqtt_client \<Rightarrow> 'w mqtt_client result" where
  "client_subscribe S topic q = on_connection (conn_subscribe S topic q)"

definition client_unsubscribe :: "'w socket_ops \<Rightarrow> string \<Rightarrow> 'w mqtt_client \<Rightarrow> 'w mqtt_client result" where
  "client_unsubscribe S topic = on_connection (conn_unsubscribe S topic)"

datatype callback = Message_callback | Connect_callback | Disconnect_callback

fun conn_set_callback :: "callback \<Rightarrow> 'w mqtt_connection \<Rightarrow> 'w mqtt_connection" where
  "conn_set_callback Message_callback s = s\<lparr>has_msg_cb := True\<rparr>"
| "conn_set_callback Connect_callback s = s\<lparr>has_connect_cb := True\<rparr>"
| "conn_set_callback Disconnect_callback s = s\<lparr>has_disconnect_cb := True\<rparr>"

definition client_set_callback :: "callback \<Rightarrow> 'w mqtt_client \<Rightarrow> 'w mqtt_client" where
  "client_set_callback k c = c\<lparr>connection := map_option (conn_set_callback k) (connection c)\<rparr>"

definition get_last_error :: "'w mqtt_client \<Rightarrow> string" where
  "get_last_error c = (case connection c of None \<Rightarrow> [] | Some s \<Rightarrow> last_error s)"

text \<open>The calls that return, for any behaviour of the reader threads.\<close>

inductive client_step :: "'w socket_ops \<Rightarrow> 'w mqtt_client \<Rightarrow> 'w mqtt_client \<Rightarrow> bool" for S where
  step_connect: "client_connect S others now url p cid cl keep usr pwd c = Some (Inr (ok, c')) \<Longrightarrow> client_step S c c'"
| step_disconnect: "client_disconnect S c = Some (Inr c') \<Longrightarrow> client_step S c c'"
| step_publish: "client_publish S early late topic body q retain c = Inr c' \<Longrightarrow> client_step S c c'"
| step_subscribe: "client_subscribe S topic q c = Inr c' \<Longrightarrow> client_step S c c'"
| step_unsubscribe: "client_unsubscribe S topic c = Inr c' \<Longrightarrow> client_step S c c'"
| step_callback: "client_step S c (client_set_callback k c)"

section \<open>No client is connected\<close>

text \<open>A connection at rest: not connected, its mutex free, no reader thread.\<close>

definition at_rest :: "'w mqtt_connection \<Rightarrow> bool" where
  "at_rest s \<longleftrightarrow> conn_state s \<noteq> CONNECTED \<and> \<not> socket_locked s \<and> reader s = No_reader"

lemma send_packet_locked: "socket_locked s \<Longrightarrow> send_packet S data s = Inl Undefined_behaviour"
  by (simp add: send_packet_def lock_socket_def)

lemma send_packet_rest:
  "send_packet S data s = Inr (ok, s') \<Longrightarrow> conn_state s' = conn_state s \<and> reader s' = reader s \<and> socket_locked s' = False"
  by (auto simp: send_packet_def lock_socket_def unlock_socket_def split: if_splits prod.splits option.splits)

lemma next_packet_id_rest [simp]:
  "conn_state (snd (next_packet_id s)) = conn_state s" "reader (snd (next_packet_id s)) = reader s"
  by (simp_all add: next_packet_id_def Let_def)

lemma connect_tcp_frame:
  "connect_tcp S s = (r, s') \<Longrightarrow> socket_locked s' = socket_locked s \<and> reader s' = reader s"
  by (auto simp: connect_tcp_def Let_def split: prod.splits if_splits tcp_outcome.splits)

lemma connect_new:
  "connect S others p (new_connection b q w) = Some (Inr (ok, s)) \<Longrightarrow> \<not> ok \<and> at_rest s"
  by (auto simp: connect_def new_connection_def lock_socket_def Let_def send_packet_locked connect_failed_def
      unlock_socket_def at_rest_def dest!: connect_tcp_frame split: prod.splits option.splits)

lemma disconnect_rest: "at_rest s \<Longrightarrow> disconnect S s = Some (Inr s') \<Longrightarrow> at_rest s'"
  by (auto simp: disconnect_def lock_socket_def unlock_socket_def at_rest_def cleanup_def Let_def split: if_splits)

definition client_at_rest :: "'w mqtt_client \<Rightarrow> bool" where
  "client_at_rest c \<longleftrightarrow> (\<forall>s. connection c = Some s \<longrightarrow> at_rest s)"

lemma on_connection_rest:
  assumes "on_connection f c = Inr c'" and "client_at_rest c"
    and "\<And>s ok s'. f s = Inr (ok, s') \<Longrightarrow> at_rest s \<Longrightarrow> at_rest s'"
  shows "client_at_rest c'"
  using assms by (auto simp: on_connection_def client_at_rest_def rbind_eq_Inr split: option.splits)

lemma subscribe_rest: "conn_subscribe S topic q s = Inr (ok, s') \<Longrightarrow> at_rest s \<Longrightarrow> at_rest s'"
  by (auto simp: conn_subscribe_def at_rest_def next_packet_id_def Let_def dest!: send_packet_rest split: if_splits)

lemma unsubscribe_rest: "conn_unsubscribe S topic s = Inr (ok, s') \<Longrightarrow> at_rest s \<Longrightarrow> at_rest s'"
  by (auto simp: conn_unsubscribe_def at_rest_def next_packet_id_def Let_def dest!: send_packet_rest split: if_splits)

lemma map_sum_InrE: "map_sum f g z = Inr y \<Longrightarrow> (\<And>x. z = Inr x \<Longrightarrow> y = g x \<Longrightarrow> P) \<Longrightarrow> P"
  by (cases z) auto

lemma destroy_none: "destroy S c = Some (Inr c') \<Longrightarrow> connection c' = None"
  by (auto simp: destroy_def elim!: map_sum_InrE split: option.splits)

lemma new_client_rest [simp]: "client_at_rest (new_client w)"
  by (simp add: new_client_def client_at_rest_def)

lemma client_connect_rest:
  "client_connect S others now url p cid cl keep usr pwd c = Some (Inr (ok, c')) \<Longrightarrow> \<not> ok \<and> client_at_rest c'"
  by (auto simp: client_connect_def client_at_rest_def Let_def dest!: connect_new split: option.splits sum.splits prod.splits)

lemma client_step_rest: "client_step S c c' \<Longrightarrow> client_at_rest c \<Longrightarrow> client_at_rest c'"
proof (induction rule: client_step.induct)
  case (step_connect others now url p cid cl keep usr pwd c ok c')
  then show ?case by (blast dest: client_connect_rest)
next
  case (step_disconnect c c')
  then show ?case
    by (auto simp: client_disconnect_def client_at_rest_def dest!: destroy_none split: option.splits sum.splits)
next
  case (step_publish early late topic body q retain c c')
  then show ?case
    by (auto simp: client_publish_def client_at_rest_def conn_is_connected_def at_rest_def split: option.splits if_splits)
next
  case (step_subscribe topic q c c')
  then show ?case unfolding client_subscribe_def by (auto elim: on_connection_rest subscribe_rest)
next
  case (step_unsubscribe topic c c')
  then show ?case unfolding client_unsubscribe_def by (auto elim: on_connection_rest unsubscribe_rest)
next
  case (step_callback c k)
  then show ?case
    by (cases k) (auto simp: client_set_callback_def client_at_rest_def at_rest_def)
qed

text \<open>
  C18: An MQTT client never is connected. Whatever calls are made on a new client, with whatever sockets, and
  whatever the reader threads do: no call of \<^verbatim>\<open>connect\<close> returns true, \<^verbatim>\<open>is_connected\<close> stays false, and \<^verbatim>\<open>publish\<close>
  does nothing at all. (After the TCP connection, \<^verbatim>\<open>connect\<close> locks the mutex it owns in \<^verbatim>\<open>send_packet\<close>.)
\<close>

theorem mqtt_never_connected:
  assumes "(client_step S)\<^sup>*\<^sup>* (new_client w) c"
  shows "\<not> client_is_connected c \<and> client_publish S early late topic body q retain c = Inr c \<and>
    client_connect S others now url p cid cl keep usr pwd c \<noteq> Some (Inr (True, c'))"
proof -
  have rest: "client_at_rest c"
    using assms
    by (induction rule: rtranclp_induct) (auto intro: client_step_rest)
  then have "\<not> client_is_connected c"
    by (auto simp: client_is_connected_def client_at_rest_def at_rest_def conn_is_connected_def split: option.splits)
  moreover have "client_publish S early late topic body q retain c = Inr c"
    using rest
    by (auto simp: client_publish_def client_at_rest_def at_rest_def conn_is_connected_def split: option.splits)
  moreover have "client_connect S others now url p cid cl keep usr pwd c \<noteq> Some (Inr (True, c'))"
    by (blast dest: client_connect_rest)
  ultimately show ?thesis by simp
qed

section \<open>Reading packets\<close>

text \<open>A socket whose reads take bytes off a stream, at least one while there are any.\<close>

definition socket_laws :: "'w socket_ops \<Rightarrow> ('w \<Rightarrow> bytes) \<Rightarrow> bool" where
  "socket_laws S stream \<longleftrightarrow>
     (\<forall>w n. 0 < n \<and> stream w \<noteq> [] \<longrightarrow>
        (\<exists>k w'. 0 < k \<and> k \<le> n \<and> k \<le> length (stream w) \<and>
           recv_bytes S n w = (take k (stream w), w') \<and> stream w' = drop k (stream w)))"

lemma recv_one:
  assumes "socket_laws S stream" and "stream w = b # bs"
  obtains w' where "recv_bytes S 1 w = ([b], w')" "stream w' = bs"
proof -
  obtain k w' where "0 < k" "k \<le> 1" "recv_bytes S 1 w = (take k (stream w), w')" "stream w' = drop k (stream w)"
    using assms unfolding socket_laws_def by (metis list.distinct(1) zero_less_one)
  then have "recv_bytes S 1 w = ([b], w')" "stream w' = bs" using assms(2) by (auto simp: le_Suc_eq)
  then show thesis by (rule that)
qed

lemma read_payload_stream:
  assumes "socket_laws S stream" and "n \<le> length (stream w)"
  shows "\<exists>w'. read_payload S n acc w = (Some (acc @ take n (stream w)), w') \<and> stream w' = drop n (stream w)"
  using assms(2)
proof (induction n arbitrary: acc w rule: less_induct)
  case (less n)
  show ?case
  proof (cases "n = 0")
    case True
    then show ?thesis by (simp add: read_payload.simps [of S 0])
  next
    case False
    then obtain k w' where k: "0 < k" "k \<le> n" "k \<le> length (stream w)"
        and r: "recv_bytes S n w = (take k (stream w), w')" "stream w' = drop k (stream w)"
      using less.prems assms(1) unfolding socket_laws_def by (metis le_zero_eq list.size(3) neq0_conv)
    obtain b bs where b: "take k (stream w) = b # bs" using k by (cases "take k (stream w)") auto
    have l: "length (b # bs) = k" unfolding b [symmetric] using k by simp
    have "read_payload S n acc w = read_payload S (n - k) (acc @ take k (stream w)) w'"
      using False r b l by (subst read_payload.simps) (simp add: b)
    moreover have "take k (stream w) @ take (n - k) (drop k (stream w)) = take n (stream w)"
      using k by (metis le_add_diff_inverse take_add)
    ultimately show ?thesis
      using less.IH [of "n - k" w' "acc @ take k (stream w)"] k less.prems r(2) by (simp add: add.commute)
  qed
qed

lemma read_remaining_step:
  assumes "socket_laws S stream" and "stream w = rl_bytes r @ rest"
  shows "length h = 4 \<Longrightarrow> read_remaining S h out m w = Inl Undefined_behaviour"
    and "length h < 4 \<Longrightarrow> \<exists>w'. read_remaining S h out m w =
      (if 0 < r div 128 then read_remaining S (h @ [rl_byte r]) (out + r mod 128 * ucast m) (m * 128) w'
       else Inr (Some (h @ [rl_byte r], out + r mod 128 * ucast m), w')) \<and>
      stream w' = (if 0 < r div 128 then rl_bytes (r div 128) @ rest else rest)"
proof -
  obtain w' where w': "recv_bytes S 1 w = ([rl_byte r], w')"
      "stream w' = (if 0 < r div 128 then rl_bytes (r div 128) @ rest else rest)"
    using recv_one [OF assms(1), of w "rl_byte r" "(if 0 < r div 128 then rl_bytes (r div 128) else []) @ rest"]
      assms(2) by (subst (asm) (1) rl_bytes.simps) (auto split: if_splits)
  show "length h = 4 \<Longrightarrow> read_remaining S h out m w = Inl Undefined_behaviour"
    using w'(1) by (simp add: read_remaining.simps)
  show "length h < 4 \<Longrightarrow> \<exists>w'. read_remaining S h out m w =
      (if 0 < r div 128 then read_remaining S (h @ [rl_byte r]) (out + r mod 128 * ucast m) (m * 128) w'
       else Inr (Some (h @ [rl_byte r], out + r mod 128 * ucast m), w')) \<and>
      stream w' = (if 0 < r div 128 then rl_bytes (r div 128) @ rest else rest)"
    using w' by (intro exI [of _ w']) (simp add: read_remaining.simps [of S h] rl_byte_bits Let_def word_gt_0)
qed

lemma low_14:
  fixes r :: u32
  shows "unat (r mod 128 + (r div 128 mod 128) * 128) = unat r mod 2 ^ 14"
proof -
  have "unat r mod 128 + unat r div 128 mod 128 * 128 < 2 ^ 32"
    by (rule le_less_trans [of _ "127 + 127 * 128"]) (auto intro!: add_mono simp: less_Suc_eq_le [symmetric])
  moreover have "unat r mod (128 * 128) = 128 * (unat r div 128 mod 128) + unat r mod 128"
    by (rule mod_mult2_eq)
  moreover have "unat r div 128 mod 2 ^ 32 = unat r div 128"
    using unsigned_less [of r, where 'a = nat] div_le_dividend [of "unat r" 128] by (intro mod_less) simp
  moreover have "unat r div 128 mod 128 * 128 < 2 ^ 32" using calculation(1) by linarith
  ultimately show ?thesis
    by (simp add: unat_word_ariths unat_mod_distrib unat_div_distrib mod_less)
qed

lemma div_128_0: "r div 128 = 0 \<longleftrightarrow> unat r < 128" for r :: u32
  by (simp add: unat_eq_0 [symmetric] unat_div_distrib div_eq_0_iff)

lemma read_remaining_stream:
  assumes "socket_laws S stream" and "stream w = rl_bytes r @ rest"
  shows "\<exists>w'. read_remaining S [b] 0 1 w =
      (if unat r < 2 ^ 21 then Inr (Some (b # rl_bytes r, word_of_nat (unat r mod 2 ^ 14)), w') else Inl Undefined_behaviour) \<and>
    (unat r < 2 ^ 21 \<longrightarrow> stream w' = rest)"
proof -
  let ?r1 = "r div 128" let ?r2 = "?r1 div 128"
  note step = read_remaining_step [OF assms(1)]
  have wrap: "(16384 :: u8) = 0" by simp
  have w: "word_of_nat (unat x) = x" for x :: u32 by simp
  have low: "r mod 128 + ?r1 mod 128 * 128 = word_of_nat (unat r mod 2 ^ 14)"
    by (subst w [symmetric], simp only: low_14)
  have nz: "\<And>x :: u32. 0 < x \<longleftrightarrow> x \<noteq> 0" by (simp add: word_gt_0)
  obtain w1 where 1: "read_remaining S [b] 0 1 w =
      (if 0 < ?r1 then read_remaining S [b, rl_byte r] (r mod 128) 128 w1 else Inr (Some ([b, rl_byte r], r mod 128), w1))"
      "stream w1 = (if 0 < ?r1 then rl_bytes ?r1 @ rest else rest)"
    using step(2) [OF assms(2), of "[b]" 0 1] by (simp cong: if_cong) blast
  show ?thesis
  proof (cases "?r1 = 0")
    case True
    then have "rl_bytes r = [rl_byte r]" "?r1 mod 128 = 0" by (simp_all add: rl_bytes.simps [of r])
    with True 1 low div_128_0 [of r] show ?thesis by (intro exI [of _ w1]) simp
  next
    case False
    then have b1: "rl_bytes r = rl_byte r # rl_bytes ?r1" by (simp add: rl_bytes.simps [of r] nz)
    obtain w2 where 2: "read_remaining S [b, rl_byte r] (r mod 128) 128 w1 =
        (if 0 < ?r2 then read_remaining S [b, rl_byte r, rl_byte ?r1] (r mod 128 + ?r1 mod 128 * 128) 0 w2
         else Inr (Some ([b, rl_byte r, rl_byte ?r1], r mod 128 + ?r1 mod 128 * 128), w2))"
        "stream w2 = (if 0 < ?r2 then rl_bytes ?r2 @ rest else rest)"
      using step(2) [of w1 ?r1 rest "[b, rl_byte r]" "r mod 128" 128] 1(2) False
      unfolding nz by (simp add: wrap cong: if_cong) blast
    show ?thesis
    proof (cases "?r2 = 0")
      case True
      then have "rl_bytes ?r1 = [rl_byte ?r1]" by (simp add: rl_bytes.simps [of ?r1])
      moreover have "unat r < 2 ^ 21" using True div_128_0 [of ?r1] by (simp add: unat_div_distrib)
      ultimately show ?thesis using True False 1 2 low b1 by (intro exI [of _ w2]) (simp add: nz)
    next
      case r2: False
      then have b2: "rl_bytes ?r1 = rl_byte ?r1 # rl_bytes ?r2" by (simp add: rl_bytes.simps [of ?r1] nz)
      obtain w3 where 3: "read_remaining S [b, rl_byte r, rl_byte ?r1] (r mod 128 + ?r1 mod 128 * 128) 0 w2 =
          (if 0 < ?r2 div 128
           then read_remaining S [b, rl_byte r, rl_byte ?r1, rl_byte ?r2] (r mod 128 + ?r1 mod 128 * 128) 0 w3
           else Inr (Some ([b, rl_byte r, rl_byte ?r1, rl_byte ?r2], r mod 128 + ?r1 mod 128 * 128), w3))"
          "stream w3 = (if 0 < ?r2 div 128 then rl_bytes (?r2 div 128) @ rest else rest)"
        using step(2) [of w2 ?r2 rest "[b, rl_byte r, rl_byte ?r1]" "r mod 128 + ?r1 mod 128 * 128" 0]
          2(2) r2
        unfolding nz by (simp add: wrap cong: if_cong) blast
      have c: "?r2 div 128 = 0 \<longleftrightarrow> unat r < 2 ^ 21"
        using div_128_0 [of ?r2] by (simp add: unat_div_distrib div_less_iff_less_mult flip: div_mult2_eq)
      show ?thesis
      proof (cases "?r2 div 128 = 0")
        case True
        then have "rl_bytes ?r2 = [rl_byte ?r2]" by (simp add: rl_bytes.simps [of ?r2])
        then show ?thesis using True False r2 1 2 3 low b1 b2 c by (intro exI [of _ w3]) (simp add: nz)
      next
        case r3: False
        then have "read_remaining S [b, rl_byte r, rl_byte ?r1, rl_byte ?r2] out m w3 = Inl Undefined_behaviour" for out m
          using step(1) [of w3 "?r2 div 128" rest "[b, rl_byte r, rl_byte ?r1, rl_byte ?r2]"] 3(2) by (simp add: nz)
        then show ?thesis using False r2 r3 1 2 3 c by (intro exI [of _ w3]) (simp add: nz)
      qed
    qed
  qed
qed

text \<open>
  C20: What the reader makes of a packet on the wire. A remaining length below \<open>2 ^ 14\<close> is read as it is, and
  the packet is returned whole; up to \<open>2 ^ 21\<close> it is read modulo \<open>2 ^ 14\<close>, since its weight is kept in eight
  bits, and the rest of the packet is left on the wire, to be taken for packets; above, where it has four
  bytes, the reader writes behind its buffer.
\<close>

theorem receive_packet_reads:
  assumes "socket_laws S stream" and "stream w = b # rl_bytes r @ body @ rest" and "length body = unat r"
  shows "if unat r < 2 ^ 21
    then \<exists>w'. receive_packet S w = Inr (Some (b # rl_bytes r @ take (unat r mod 2 ^ 14) body), w') \<and>
      stream w' = drop (unat r mod 2 ^ 14) body @ rest
    else receive_packet S w = Inl Undefined_behaviour"
proof -
  let ?n = "unat r mod 2 ^ 14"
  obtain w0 where 0: "recv_bytes S 1 w = ([b], w0)" "stream w0 = rl_bytes r @ body @ rest"
    using recv_one [OF assms(1,2)] by metis
  obtain w1 where 1: "read_remaining S [b] 0 1 w0 =
      (if unat r < 2 ^ 21 then Inr (Some (b # rl_bytes r, word_of_nat ?n), w1) else Inl Undefined_behaviour)"
      "unat r < 2 ^ 21 \<longrightarrow> stream w1 = body @ rest"
    using read_remaining_stream [OF assms(1) 0(2)] by metis
  show ?thesis
  proof (cases "unat r < 2 ^ 21")
    case True
    have n: "?n \<le> length body" using assms(3) by (metis mod_less_eq_dividend)
    then obtain w2 where "read_payload S ?n [] w1 = (Some (take ?n body), w2)" "stream w2 = drop ?n body @ rest"
      using read_payload_stream [OF assms(1), of ?n w1 "[]"] 1(2) True by auto
    moreover have "unat (word_of_nat ?n :: u32) = ?n"
      using mod_less_divisor [of "2 ^ 14" "unat r"] by (simp add: unat_of_nat take_bit_nat_eq_self)
    ultimately show ?thesis using True 0(1) 1(1) by (simp add: receive_packet_def)
  next
    case False
    then show ?thesis using 0(1) 1(1) by (simp add: receive_packet_def)
  qed
qed

section \<open>Messages and acknowledgements\<close>

text \<open>
  A network: a socket with a stream of bytes to read and a list of the packets that were sent, and a clock
  that moves by under a second between two reads of it.
\<close>

definition network_laws :: "'w socket_ops \<Rightarrow> ('w \<Rightarrow> bytes) \<Rightarrow> ('w \<Rightarrow> bytes list) \<Rightarrow> bool" where
  "network_laws S stream sent \<longleftrightarrow> socket_laws S stream \<and>
     (\<forall>n w. sent (snd (recv_bytes S n w)) = sent w) \<and>
     (\<forall>d w. fst (send_bytes S d w) = None \<and> stream (snd (send_bytes S d w)) = stream w \<and>
        sent (snd (send_bytes S d w)) = sent w @ [d]) \<and>
     (\<forall>w. stream (snd (steady_now S w)) = stream w \<and> sent (snd (steady_now S w)) = sent w \<and>
        fst (steady_now S (snd (steady_now S w))) - fst (steady_now S w) < 10 ^ 9)"

lemma read_payload_sent:
  assumes "\<And>n w. sent (snd (recv_bytes S n w)) = sent w"
  shows "sent (snd (read_payload S n acc w)) = sent w"
proof (induction n arbitrary: acc w rule: less_induct)
  case (less n)
  then show ?case
    using assms [of n w]
    by (subst read_payload.simps) (auto split: prod.splits list.splits)
qed

lemma read_remaining_sent:
  assumes "\<And>n w. sent (snd (recv_bytes S n w)) = sent w"
  shows "read_remaining S h out m w = Inr (r, w') \<Longrightarrow> sent w' = sent w"
proof (induction "4 - length h" arbitrary: h out m w rule: less_induct)
  case less
  note step = less.prems [unfolded read_remaining.simps [of S h]]
  obtain bs w0 where w0: "recv_bytes S 1 w = (bs, w0)" by fastforce
  then have s0: "sent w0 = sent w" using assms [of 1 w] by simp
  have rec: "read_remaining S (h @ [b]) out' m' w0 = Inr (r, w') \<Longrightarrow> \<not> 4 \<le> length h \<Longrightarrow> sent w' = sent w0" for b out' m'
    using less.hyps [of "h @ [b]"] by simp
  show ?case
    using step w0 s0 rec by (auto simp: Let_def split: list.splits if_splits)
qed

lemma receive_packet_sent:
  assumes "\<And>n w. sent (snd (recv_bytes S n w)) = sent w" and "receive_packet S w = Inr (r, w')"
  shows "sent w' = sent w"
proof (cases "recv_bytes S 1 w")
  case (Pair bs w0)
  have s0: "sent w0 = sent w" using assms(1) [of 1 w] Pair by simp
  show ?thesis
  proof (cases bs)
    case Nil
    with assms(2) Pair s0 show ?thesis by (simp add: receive_packet_def)
  next
    case (Cons b bs')
    then obtain q w1 where q: "read_remaining S [b] 0 1 w0 = Inr (q, w1)"
      using assms(2) Pair by (auto simp: receive_packet_def rbind_eq_Inr)
    then have "sent w1 = sent w0" using read_remaining_sent [OF assms(1)] by blast
    moreover have "sent w' = sent w1"
      using assms(2) Pair Cons q read_payload_sent [OF assms(1), where w = w1]
      by (auto simp: receive_packet_def split: option.splits prod.splits) (metis snd_conv)+
    ultimately show ?thesis using s0 by simp
  qed
qed

lemma publish_flags: "parse_publish (f AND 0x0F) data = parse_publish f data"
proof -
  have "drop_bit 1 (f AND 0x0F) AND 0x03 = drop_bit 1 f AND (0x03 :: u8)"
    by (simp add: drop_bit_and and.assoc)
  then show ?thesis by (simp add: parse_publish_def and.assoc)
qed

fun acknowledgement :: "publish_packet \<Rightarrow> bytes list" where
  "acknowledgement p =
     (case pub_qos p of
        AT_LEAST_ONCE \<Rightarrow> [build_puback_packet (pub_packet_id p)]
      | EXACTLY_ONCE \<Rightarrow> [build_pubrec_packet (pub_packet_id p)]
      | _ \<Rightarrow> [])"

lemma handle_publish_sends:
  assumes "network_laws S stream sent" and "sock_open s" and "\<not> socket_locked s"
    and "parse_publish f data = (if pub_qos p = AT_MOST_ONCE then p\<lparr>pub_packet_id := 0\<rparr> else p)"
  shows "\<exists>s'. handle_publish S (Some f) data s = Inr s' \<and> sock_open s' \<and> \<not> socket_locked s' \<and>
    events s' = events s @ (if has_msg_cb s then [Message (pub_topic p) (pub_payload p)] else []) \<and>
    sent (outside s') = sent (outside s) @ acknowledgement p \<and> stream (outside s') = stream (outside s)"
proof -
  have sends: "fst (send_bytes S d w) = None" "stream (snd (send_bytes S d w)) = stream w"
      "sent (snd (send_bytes S d w)) = sent w @ [d]" for d w
    using assms(1) by (auto simp: network_laws_def)
  show ?thesis
  proof (cases "pub_qos p")
    case AT_LEAST_ONCE
    then show ?thesis
      using assms(2-4) sends [of "build_puback_packet (pub_packet_id p)" "outside s"]
      by (auto simp: handle_publish_def call_event_def send_packet_def lock_socket_def unlock_socket_def
          Let_def split: prod.splits)
  next
    case EXACTLY_ONCE
    then show ?thesis
      using assms(2-4) sends [of "build_pubrec_packet (pub_packet_id p)" "outside s"]
      by (auto simp: handle_publish_def call_event_def send_packet_def lock_socket_def unlock_socket_def
          Let_def split: prod.splits)
  qed (use assms(2-4) in \<open>auto simp: handle_publish_def call_event_def Let_def\<close>)
qed

lemma check_keep_alive_quiet:
  assumes "network_laws S stream sent"
  shows "\<exists>s'. check_keep_alive S s = Inr s' \<and> events s' = events s \<and>
    sent (outside s') = sent (outside s) \<and> stream (outside s') = stream (outside s)"
proof -
  obtain t w where 1: "steady_now S (outside s) = (t, w)" by fastforce
  obtain t' w' where 2: "steady_now S w = (t', w')" by fastforce
  have "t' - t < 10 ^ 9" "stream w = stream (outside s)" "stream w' = stream w"
      "sent w = sent (outside s)" "sent w' = sent w"
    using assms 1 2 unfolding network_laws_def by (metis fst_conv snd_conv)+
  moreover from this(1) have "(t' - t) div 10 ^ 9 = 0" by (rule div_less)
  ultimately show ?thesis using 1 2 by (simp add: check_keep_alive_def)
qed

text \<open>
  Delivery. When the bytes of a PUBLISH packet under \<open>2 ^ 14\<close> bytes are on the wire, and the socket is open and its
  mutex free, which no client reaches as long as it locks that mutex twice, one round of the reader hands topic and
  payload to the message callback, if one is set, answers as the QoS demands (PUBACK or PUBREC with the identifier, or
  nothing), and leaves what follows on the wire. Larger packets are misread.
\<close>

theorem publish_delivered:
  assumes "network_laws S stream sent" and "stream (outside s) = build_publish_packet p @ rest"
    and "sock_open s" and "\<not> socket_locked s" and "valid_qos (pub_qos p)"
    and "length (pub_topic p) + length (pub_payload p) + 4 < 2 ^ 14"
  shows "\<exists>s'. reader_round S s = Inr (True, s') \<and>
    events s' = events s @ (if has_msg_cb s then [Message (pub_topic p) (pub_payload p)] else []) \<and>
    sent (outside s') = sent (outside s) @ acknowledgement p \<and> stream (outside s') = rest"
proof -
  let ?body = "publish_body p" let ?n = "length ?body"
  have n: "?n < 2 ^ 14" using assms(6) by (simp add: length_publish_body)
  have u: "unat (word_of_nat ?n :: u32) = ?n" using n by (intro unat_frame_length) simp
  have laws: "socket_laws S stream" "\<And>n w. sent (snd (recv_bytes S n w)) = sent w"
    using assms(1) by (auto simp: network_laws_def)
  obtain w where w: "receive_packet S (outside s) = Inr (Some (build_publish_packet p), w)" "stream w = rest"
    using receive_packet_reads [OF laws(1), of "outside s" "publish_fixed p" "word_of_nat ?n" ?body rest]
      assms(2) u n by (auto simp: build_publish_eq)
  have sent_w: "sent w = sent (outside s)" using receive_packet_sent [OF laws(2) w(1)] .
  let ?pkt = "\<lparr>packet_kind = Some PUBLISH, flags = Some (publish_fixed p AND 0x0F),
      payload = ?body, parse_error = []\<rparr>"
  have pkt: "parse_packet (build_publish_packet p) = ?pkt"
    using parse_packet_frame [of "word_of_nat ?n" ?body "publish_fixed p"] u n
      publish_fixed_fields(1) [OF assms(5)] by (simp add: build_publish_eq)
  have "parse_publish (publish_fixed p AND 0x0F) ?body = (if pub_qos p = AT_MOST_ONCE then p\<lparr>pub_packet_id := 0\<rparr> else p)"
    using publish_roundtrip [of p "[]"] assms(5,6) pkt by (simp add: publish_flags build_publish_eq)
  from handle_publish_sends [OF assms(1) _ _ this, of "s\<lparr>outside := w\<rparr>"] assms(3,4)
  obtain s1 where s1: "handle_publish S (Some (publish_fixed p AND 0x0F)) ?body (s\<lparr>outside := w\<rparr>) = Inr s1"
      "events s1 = events s @ (if has_msg_cb s then [Message (pub_topic p) (pub_payload p)] else [])"
      "sent (outside s1) = sent w @ acknowledgement p" "stream (outside s1) = rest"
    using w(2) by auto
  obtain s2 where s2: "check_keep_alive S s1 = Inr s2" "events s2 = events s1"
      "sent (outside s2) = sent (outside s1)" "stream (outside s2) = stream (outside s1)"
    using check_keep_alive_quiet [OF assms(1)] by blast
  have "build_publish_packet p \<noteq> []" by (simp add: build_publish_eq)
  then have "reader_round S s = Inr (True, s2)"
    using w(1) s1(1) s2(1) by (simp add: reader_round_def Let_def pkt handle_packet_def)
  then show ?thesis using s1 s2 sent_w by auto
qed

text \<open>
  \<^verbatim>\<open>publish_qos1\<close> sends before it registers its identifier. The acknowledgement that comes after the
  registration makes it return true; the one that comes in between is lost, and it returns false after its
  timeout although the broker has the message.
\<close>

theorem publish_qos1_race:
  assumes "sock_open s" and "\<not> socket_locked s" and "fst (next_packet_id s) = pid"
    and "\<And>d. fst (send_bytes S d (outside s)) = None" and "sorted_map (pending_pubacks s)"
  shows "map_sum id fst (publish_qos1 S id (handle_puback (be16_bytes pid)) topic body retain s) = Inr True \<and>
    map_sum id fst (publish_qos1 S (handle_puback (be16_bytes pid)) id topic body retain s) = Inr False"
proof -
  have pid: "parse_puback (be16_bytes pid) = pid"
    using be16_roundtrip [of pid] by (simp add: be16_bytes_def)
  obtain s1 where s1: "next_packet_id s = (pid, s1)" "sock_open s1" "\<not> socket_locked s1"
      "outside s1 = outside s" "pending_pubacks s1 = pending_pubacks s"
    using assms(1-3) by (cases "next_packet_id s") (auto simp: next_packet_id_def Let_def split: if_splits)
  let ?d = "build_publish_packet \<lparr>pub_topic = topic, pub_payload = body, pub_packet_id = pid,
      pub_qos = AT_LEAST_ONCE, pub_dup = False, pub_retain = retain\<rparr>"
  obtain w where w: "send_bytes S ?d (outside s) = (None, w)"
    using assms(4) [of ?d] by (cases "send_bytes S ?d (outside s)") simp
  have sent: "send_packet S ?d s1 = Inr (True, s1\<lparr>outside := w, socket_locked := False\<rparr>)"
    using w s1 by (simp add: send_packet_def lock_socket_def unlock_socket_def)
  have sorted: "map_of (map_put pid a (pending_pubacks s)) pid = Some a" for a
    using map_of_map_put [OF assms(5)] by simp
  show ?thesis
    unfolding publish_qos1_def s1(1) Let_def prod.case sent rbind_Inr
    using s1(5) by (simp add: handle_puback_def pid complete_puback_def sorted finish_puback_def
        read_at_def nth_append Let_def split: option.split)
qed

text \<open>
  The identifiers of a connection's packets run through 1 to 65535 and start again: the \<open>n\<close>-th, counted
  from 0, is \<open>n mod 65535 + 1\<close>. None is 0, and two of 65535 successive ones differ.
\<close>

theorem packet_ids_cycle:
  "unat (fst (next_packet_id ((((snd \<circ> next_packet_id)) ^^ n) (new_connection b p w)))) = n mod 65535 + 1"
proof -
  let ?s = "\<lambda>n. ((snd \<circ> next_packet_id) ^^ n) (new_connection b p w)"
  have step: "next_id (snd (next_packet_id s)) = (if next_id s = 0 then 2 else next_id s + 1)"
    for s :: "'a mqtt_connection"
    by (simp add: next_packet_id_def Let_def)
  have inv: "unat (next_id (?s n)) = (if 0 < n \<and> n mod 65535 = 0 then 0 else n mod 65535 + 1)" for n
  proof (induction n)
    case 0
    show ?case by (simp add: new_connection_def)
  next
    case (Suc n)
    have s: "?s (Suc n) = snd (next_packet_id (?s n))" by simp
    show ?case
    proof (cases "next_id (?s n) = 0")
      case True
      have "n mod 65535 = 0" using Suc.IH unfolding True by (simp split: if_splits)
      then show ?thesis unfolding s step using True by (simp add: mod_Suc)
    next
      case False
      then have "unat (next_id (?s n)) \<noteq> 0" by (simp add: unat_eq_0)
      with Suc.IH have u: "unat (next_id (?s n)) = n mod 65535 + 1" by presburger
      have "unat (next_id (?s n) + 1) = (n mod 65535 + 2) mod 65536"
        using u by (simp add: unat_word_ariths)
      moreover have "n mod 65535 < 65535" by simp
      ultimately show ?thesis
        unfolding s step using False by (auto simp: mod_Suc)
    qed
  qed
  have first: "unat (fst (next_packet_id t)) = n mod 65535 + 1"
    if "unat (next_id t) = (if 0 < n \<and> n mod 65535 = 0 then 0 else n mod 65535 + 1)" for t :: "'a mqtt_connection"
    using that by (cases "next_id t = 0") (auto simp: next_packet_id_def Let_def unat_eq_0 split: if_splits)
  show ?thesis by (rule first [OF inv])
qed

section \<open>Witnesses\<close>

text \<open>A socket over the bytes to read and the packets sent.\<close>

definition list_socket :: "(bytes \<times> bytes list) socket_ops" where
  "list_socket = \<lparr>open_socket = \<lambda>w. (True, w), resolve_host = \<lambda>h p w. (True, w), tcp_connect = \<lambda>w. (Tcp_connected, w),
     wait_writable = \<lambda>w. (True, w), socket_error = \<lambda>w. (0, w), send_bytes = \<lambda>d (r, s). (None, (r, s @ [d])),
     recv_bytes = \<lambda>n (r, s). (take n r, (drop n r, s)), steady_now = \<lambda>w. (0, w)\<rparr>"

lemma list_socket_laws: "socket_laws list_socket fst" "network_laws list_socket fst snd"
proof -
  show 1: "socket_laws list_socket fst"
    unfolding socket_laws_def
  proof (intro allI impI)
    fix w :: "bytes \<times> bytes list" and n :: nat
    assume "0 < n \<and> fst w \<noteq> []"
    then show "\<exists>k w'. 0 < k \<and> k \<le> n \<and> k \<le> length (fst w) \<and>
        recv_bytes list_socket n w = (take k (fst w), w') \<and> fst w' = drop k (fst w)"
      by (intro exI [of _ "min n (length (fst w))"] exI [of _ "(drop n (fst w), snd w)"])
        (auto simp: list_socket_def case_prod_beta min_def)
  qed
  show "network_laws list_socket fst snd"
    using 1 by (auto simp: network_laws_def list_socket_def)
qed

theorem receive_packet_reads_witness:
  "receive_packet list_socket (0x30 # rl_bytes (2 ^ 21) @ replicate (2 ^ 21) 0 @ [], []) = Inl Undefined_behaviour"
  using receive_packet_reads [OF list_socket_laws(1), where w = "(0x30 # rl_bytes (2 ^ 21) @ replicate (2 ^ 21) 0 @ [], [])"
      and b = "0x30" and r = "2 ^ 21" and body = "replicate (2 ^ 21) 0" and rest = "[]"]
  by simp

theorem mqtt_never_connected_witness:
  "\<not> client_is_connected (new_client ([], []) :: (bytes \<times> bytes list) mqtt_client) \<and>
    client_publish list_socket id id ''t'' ''x'' AT_LEAST_ONCE False (new_client ([], [])) = Inr (new_client ([], [])) \<and>
    client_connect list_socket id 0 ''host'' 1883 [] True 60 [] [] (new_client ([], [])) \<noteq>
      Some (Inr (True, new_client ([], [])))"
  by (rule mqtt_never_connected [where w = "([], [])"]) simp

theorem publish_delivered_witness:
  "\<exists>s'. reader_round list_socket ((new_connection ''host'' 1883 ([0x32, 7, 0, 1, 0x74, 0, 5, 0x68, 0x69, 0xD0, 0], []))
      \<lparr>sock_open := True, has_msg_cb := True\<rparr>) = Inr (True, s') \<and>
    events s' = [Message ''t'' ''hi''] \<and> snd (outside s') = [[0x40, 2, 0, 5]] \<and> fst (outside s') = [0xD0, 0]"
  using publish_delivered [OF list_socket_laws(2), where s = "(new_connection ''host'' 1883
      ([0x32, 7, 0, 1, 0x74, 0, 5, 0x68, 0x69, 0xD0, 0], []))\<lparr>sock_open := True, has_msg_cb := True\<rparr>"
      and p = "\<lparr>pub_topic = ''t'', pub_payload = ''hi'', pub_packet_id = 5, pub_qos = AT_LEAST_ONCE,
        pub_dup = False, pub_retain = False\<rparr>" and rest = "[0xD0, 0]"]
  by (simp add: new_connection_def valid_qos_def build_publish_packet_def encode_utf8_string_def encode_be16_def
      be16_bytes_def set_flag_def rl_byte_def rl_bytes.simps build_puback_packet_def byte_of_char_def Let_def)

theorem publish_qos1_race_witness:
  "map_sum id fst (publish_qos1 list_socket id (handle_puback (be16_bytes 1)) ''t'' ''hi'' False
      ((new_connection ''host'' 1883 ([], []))\<lparr>sock_open := True\<rparr>)) = Inr True \<and>
    map_sum id fst (publish_qos1 list_socket (handle_puback (be16_bytes 1)) id ''t'' ''hi'' False
      ((new_connection ''host'' 1883 ([], []))\<lparr>sock_open := True\<rparr>)) = Inr False"
  by (rule publish_qos1_race) (simp_all add: new_connection_def next_packet_id_def list_socket_def)

end
