(* ===== verification/IndexerClient.thy ===== *)
theory IndexerClient
  imports HttpClient Effects
begin

text \<open>
  The client of the indexer (src/network/indexer_client.cpp): its GraphQL requests over the HTTP client, the
  caches, the scan of blocks for unspent outputs, balances, and the queries for contracts, DUST, blocks and
  shielded sessions. HTTP, JSON, the clock and the environment are parameters. The texts of the requests are
  kept with single blanks, which GraphQL does not tell from other white space.
\<close>

section \<open>The services\<close>

record ('w, 'j) services =
  json_of :: "'j json_ops"
  http_of :: "'w http"
  steady_clock :: "'w \<Rightarrow> nat \<times> 'w"
  environment :: "string \<Rightarrow> string option"

section \<open>Helpers\<close>

definition night_token_type :: string where
  "night_token_type = replicate 64 (CHR ''0'')"

definition ix_is_night_token_type :: "string \<Rightarrow> bool" where
  "ix_is_night_token_type t \<longleftrightarrow> t = [] \<or> to_lower_copy (strip_hex_prefix t) = night_token_type"

definition env_flag_enabled :: "(string \<Rightarrow> string option) \<Rightarrow> string \<Rightarrow> bool" where
  "env_flag_enabled env name =
     (case env name of
        None \<Rightarrow> False
      | Some v \<Rightarrow> v \<noteq> [] \<and> to_lower_copy v \<in> {''1'', ''true'', ''yes'', ''on''})"

definition parse_u64_string :: "'j json_ops \<Rightarrow> 'j \<Rightarrow> u64 result" where
  "parse_u64_string J j =
     (if is_number_unsigned J j then Inr (word_of_int (get_number J j))
      else if is_number_integer J j then Inr (if get_number J j < 0 then 0 else word_of_int (get_number J j))
      else if is_string J j then
        (let s = get_string J j
         in if s = [] then Inr 0
            else
              (case from_chars_u64 s of
                 Some v \<Rightarrow> Inr v
               | None \<Rightarrow> Inl (Out_of_range (''u128 value does not fit in uint64_t: '' @ s))))
      else Inr 0)"

section \<open>Unspent outputs\<close>

record indexed_utxo =
  iu_tx_hash :: string
  iu_output_index :: u32
  iu_address :: string
  iu_amount_commitment :: string
  iu_value :: u64
  iu_token_type :: string
  iu_multi_assets :: "(string \<times> string) list"
  iu_block_height :: u32
  iu_ctime :: u64
  iu_initial_nonce :: string
  iu_registered :: bool

text \<open>One created output; \<open>None\<close> for another owner's and for a spent one.\<close>

definition utxo_of_output :: "'j json_ops \<Rightarrow> string \<Rightarrow> string \<Rightarrow> u32 \<Rightarrow> 'j \<Rightarrow> indexed_utxo option result" where
  "utxo_of_output J address tx_hash height out =
     rbind (json_value J (read_string J) out ''owner'' []) (\<lambda>owner.
       if to_lower_copy owner \<noteq> to_lower_copy address then Inr None
       else if has_value J out ''spentAtTransaction'' then Inr None
       else
         rbind (json_value J (read_u32 J) out ''outputIndex'' 0) (\<lambda>index.
         rbind (json_value J read_json out ''value'' (mk_string J ''0'')) (\<lambda>v.
         rbind (parse_u64_string J v) (\<lambda>amount.
         rbind (json_value J (read_string J) out ''tokenType'' []) (\<lambda>token.
         rbind (json_value J (read_string J) out ''intentHash'' []) (\<lambda>intent.
         rbind (json_value J read_json out ''ctime'' (mk_number J 0)) (\<lambda>c.
         rbind (parse_u64_string J c) (\<lambda>ctime.
         rbind (json_value J (read_string J) out ''initialNonce'' []) (\<lambda>nonce.
         rbind (json_value J (read_bool J) out ''registeredForDustGeneration'' False) (\<lambda>registered.
           Inr (Some \<lparr>iu_tx_hash = tx_hash, iu_output_index = index,
             iu_address = (if has_key J out ''owner'' then owner else address),
             iu_amount_commitment = intent, iu_value = amount, iu_token_type = token, iu_multi_assets = [],
             iu_block_height = height, iu_ctime = ctime, iu_initial_nonce = nonce,
             iu_registered = registered\<rparr>)))))))))))"

text \<open>The outputs that were appended, and the exception that ended the loop, if any.\<close>

definition append_utxos_from_transaction :: "'j json_ops \<Rightarrow> indexed_utxo list \<Rightarrow> string \<Rightarrow> 'j \<Rightarrow> u32 \<Rightarrow> indexed_utxo list \<times> exc option" where
  "append_utxos_from_transaction J utxos address tx fallback =
     (if \<not> is_object J tx \<or> \<not> has_value J tx ''unshieldedCreatedOutputs'' then (utxos, None)
      else
        (case (if has_key J tx ''block'' \<and> is_object J (member J tx ''block'')
               then rbind (json_value J (read_ull J) (member J tx ''block'') ''height'' 0) (\<lambda>h. Inr (ucast h))
               else Inr fallback) of
           Inl e \<Rightarrow> (utxos, Some e)
         | Inr height \<Rightarrow>
             (case json_value J (read_string J) tx ''hash'' [] of
                Inl e \<Rightarrow> (utxos, Some e)
              | Inr tx_hash \<Rightarrow>
                  (case read_prefix (utxo_of_output J address tx_hash height)
                      (iterate J (member J tx ''unshieldedCreatedOutputs'')) of
                     (found, err) \<Rightarrow> (utxos @ List.map_filter id found, err)))))"

record wallet_state =
  ws_address :: string
  ws_unshielded :: string
  ws_shielded :: string
  ws_dust :: string
  ws_utxo_count :: u64
  ws_dust_count :: u64
  ws_session_id :: string
  ws_synced :: bool
  ws_error :: string

definition new_wallet_state :: "string \<Rightarrow> wallet_state" where
  "new_wallet_state address =
     \<lparr>ws_address = address, ws_unshielded = ''0'', ws_shielded = ''0'', ws_dust = ''0'', ws_utxo_count = 0,
      ws_dust_count = 0, ws_session_id = [], ws_synced = False, ws_error = []\<rparr>"

definition is_night :: "indexed_utxo \<Rightarrow> bool" where
  "is_night u \<longleftrightarrow> ix_is_night_token_type (iu_token_type u) \<or> iu_token_type u = ''NIGHT''"

definition is_dust_output :: "indexed_utxo \<Rightarrow> bool" where
  "is_dust_output u \<longleftrightarrow> \<not> is_night u \<and> iu_token_type u = ''DUST''"

text \<open>The loop of the totals.\<close>

fun sum_utxos :: "u64 \<times> u64 \<times> u64 \<Rightarrow> indexed_utxo list \<Rightarrow> u64 \<times> u64 \<times> u64" where
  "sum_utxos t [] = t"
| "sum_utxos (night, dust, count) (u # us) =
     sum_utxos
       (if is_night u then night + iu_value u else night,
        if \<not> is_night u \<and> iu_token_type u = ''DUST'' then dust + iu_value u else dust,
        if iu_registered u then count + 1 else count) us"

definition wallet_state_from_utxos :: "string \<Rightarrow> indexed_utxo list \<Rightarrow> wallet_state" where
  "wallet_state_from_utxos address utxos =
     (case sum_utxos (0, 0, 0) utxos of
        (night, dust, count) \<Rightarrow>
          (new_wallet_state address)\<lparr>ws_unshielded := to_string (unat night), ws_dust := to_string (unat dust),
            ws_utxo_count := ucast (word_of_nat (length utxos) :: u32), ws_dust_count := count, ws_synced := True\<rparr>)"

section \<open>The client\<close>

text \<open>The URL taken apart: scheme, host, port and path.\<close>

definition ix_parse_url :: "string \<Rightarrow> (string \<times> string \<times> u16 \<times> string) result" where
  "ix_parse_url url =
     (let (scheme, rest) =
            (case str_find url ''://'' 0 of
               None \<Rightarrow> (''http'', url)
             | Some i \<Rightarrow> (take i url, drop (i + 3) url));
          (host_port, path) =
            (case find_char (CHR ''/'') rest of
               None \<Rightarrow> (rest, ''/'')
             | Some i \<Rightarrow> (take i rest, drop i rest))
      in case find_char (CHR '':'') host_port of
           None \<Rightarrow> Inr (scheme, host_port, if scheme = ''https'' then 443 else 80, path)
         | Some i \<Rightarrow>
             rbind (stoi (drop (i + 1) host_port)) (\<lambda>p. Inr (scheme, take i host_port, word_of_int p, path)))"

record 'j cache_entry =
  entry_data :: 'j
  entry_time :: nat

text \<open>
  \<open>utxo_cache\<close> and the others are unordered maps; the caches of blocks, of spent hashes and of scanned blocks
  are never filled and left out.
\<close>

record 'j indexer_client =
  graphql_url :: string
  ix_client :: network_client
  cache_enabled :: bool
  cache_ttl :: u32
  last_tip_height :: u64
  utxo_cache :: "string \<rightharpoonup> 'j cache_entry"
  wallet_cache :: "string \<rightharpoonup> 'j cache_entry"

definition new_indexer_client :: "string \<Rightarrow> u32 \<Rightarrow> 'j indexer_client result" where
  "new_indexer_client url timeout =
     rbind (ix_parse_url url) (\<lambda>(scheme, host, p, path).
       let base = scheme @ ''://'' @ host @ '':'' @ to_string (unat p);
           path = trim_slashes path;
           base = (case rfind_char (CHR ''/'') path of
                     Some i \<Rightarrow> (if i \<noteq> 0 then base @ take i path else base)
                   | None \<Rightarrow> base @ path)
       in rbind (new_network_client base timeout) (\<lambda>c.
            Inr \<lparr>graphql_url = url,
                 ix_client = set_header ''Accept'' ''application/json'' (set_header ''Content-Type'' ''application/json'' c),
                 cache_enabled = True, cache_ttl = 60, last_tip_height = 0, utxo_cache = Map.empty,
                 wallet_cache = Map.empty\<rparr>))"

definition set_cache_enabled :: "bool \<Rightarrow> 'j indexer_client \<Rightarrow> 'j indexer_client" where
  "set_cache_enabled b c = c\<lparr>cache_enabled := b\<rparr>"

definition set_cache_ttl :: "u32 \<Rightarrow> 'j indexer_client \<Rightarrow> 'j indexer_client" where
  "set_cache_ttl t c = c\<lparr>cache_ttl := t\<rparr>"

definition is_cache_valid :: "nat \<Rightarrow> 'j indexer_client \<Rightarrow> 'j cache_entry \<Rightarrow> bool" where
  "is_cache_valid now c e \<longleftrightarrow> cache_enabled c \<and> now - entry_time e < unat (cache_ttl c) * 10 ^ 9"

definition keep_young :: "nat \<Rightarrow> 'j indexer_client \<Rightarrow> (string \<rightharpoonup> 'j cache_entry) \<Rightarrow> (string \<rightharpoonup> 'j cache_entry)" where
  "keep_young now c m k =
     (case m k of
        None \<Rightarrow> None
      | Some e \<Rightarrow> if int (entry_time e) < int now - int (unat (cache_ttl c) * 10 ^ 9) then None else Some e)"

definition prune_expired_cache :: "nat \<Rightarrow> 'j indexer_client \<Rightarrow> 'j indexer_client" where
  "prune_expired_cache now c =
     c\<lparr>utxo_cache := keep_young now c (utxo_cache c), wallet_cache := keep_young now c (wallet_cache c)\<rparr>"

definition clear_cache :: "'j indexer_client \<Rightarrow> 'j indexer_client" where
  "clear_cache c = c\<lparr>utxo_cache := Map.empty, wallet_cache := Map.empty\<rparr>"

section \<open>GraphQL\<close>

definition graphql_path :: "string \<Rightarrow> string" where
  "graphql_path path =
     (let path = trim_slashes path
      in case rfind_char (CHR ''/'') path of
           Some i \<Rightarrow> if i < length path - 1 then drop i path else ''/graphql''
         | None \<Rightarrow> ''/graphql'')"

text \<open>The messages of the errors are only logged, but collecting them may throw.\<close>

definition check_graphql_errors :: "'j json_ops \<Rightarrow> 'j \<Rightarrow> 'j result" where
  "check_graphql_errors J response =
     (if has_array J response ''errors'' \<and> elements J (member J response ''errors'') \<noteq> []
      then rbind (read_list (\<lambda>err. if has_key J err ''message'' then read_string J (member J err ''message'') else Inr [])
                   (elements J (member J response ''errors''))) (\<lambda>_. Inr response)
      else Inr response)"

definition execute_graphql :: "('w, 'j) services \<Rightarrow> 'j indexer_client \<Rightarrow> 'j \<Rightarrow> ('w, 'j) call" where
  "execute_graphql V c body =
     call_bind (call_of (ix_parse_url (graphql_url c))) (\<lambda>(scheme, host, p, path).
     call_bind (post_json (json_of V) (http_of V) (ix_client c) (graphql_path path) body) (\<lambda>response.
       call_of (check_graphql_errors (json_of V) response)))"

definition query_body :: "'j json_ops \<Rightarrow> string \<Rightarrow> (string \<times> 'j) list \<Rightarrow> 'j" where
  "query_body J q vars =
     mk_object J ([(''query'', mk_string J q)] @ (if vars = [] then [] else [(''variables'', mk_object J vars)]))"

definition graphql_data :: "'j json_ops \<Rightarrow> 'j \<Rightarrow> 'j" where
  "graphql_data J response = (if has_key J response ''data'' then member J response ''data'' else mk_object J [])"

definition graphql_query :: "('w, 'j) services \<Rightarrow> 'j indexer_client \<Rightarrow> string \<Rightarrow> (string \<times> 'j) list \<Rightarrow> ('w, 'j) call" where
  "graphql_query V c q vars =
     call_bind (execute_graphql V c (query_body (json_of V) q vars)) (\<lambda>response.
       call_return (graphql_data (json_of V) response))"

end
