(* ===== verification/IndexerQueries.thy ===== *)
theory IndexerQueries
  imports IndexerClient
begin

text \<open>
  The queries of the indexer client (src/network/indexer_client.cpp): unspent outputs and wallet states with
  their caches, contracts, transactions, DUST, blocks and shielded sessions. Results: which outputs a scan
  returns, that it hides a failure, when it ends; that the caches give back what was stored; and the totals
  of a wallet state.
\<close>

section \<open>The requests\<close>

definition q_tip :: string where
  "q_tip =
     ''query GetTip { block { height } }''"

definition q_scan_block :: string where
  "q_scan_block =
     ''query GetBlock($height: Int!) { block(offset: { height: $height }) { height transactions { '' @
     ''id hash unshieldedCreatedOutputs { owner value tokenType outputIndex intentHash ctime '' @
     ''initialNonce registeredForDustGeneration spentAtTransaction { id hash } } } } }''"

definition q_contract_state :: string where
  "q_contract_state =
     ''query ContractAction($address: HexEncoded!) { contractAction(address: $address) { address '' @
     ''state zswapState transaction { block { height hash } } unshieldedBalances { tokenType '' @
     ''amount } } }''"

definition q_contract_action :: string where
  "q_contract_action =
     ''query ContractAction($address: HexEncoded!) { contractAction(address: $address) { '' @
     ''__typename address state zswapState ... on ContractCall { entryPoint deploy { address } } '' @
     ''unshieldedBalances { tokenType amount } transaction { block { height hash } } } }''"

definition q_contract_balance :: string where
  "q_contract_balance =
     ''query ContractBalance($address: HexEncoded!) { contractAction(address: $address) { '' @
     ''unshieldedBalances { tokenType amount } } }''"

definition q_transaction :: string where
  "q_transaction =
     ''query TransactionByHash($hash: HexEncoded!) { transactions(offset: { hash: $hash }) { id '' @
     ''hash block { height hash } contractActions { __typename address state zswapState ... on '' @
     ''ContractCall { entryPoint deploy { address } } unshieldedBalances { tokenType amount } } '' @
     ''unshieldedCreatedOutputs { owner value tokenType outputIndex intentHash spentAtTransaction '' @
     ''{ id hash } } unshieldedSpentOutputs { owner value tokenType outputIndex } } }''"

definition q_dust_status :: string where
  "q_dust_status =
     ''query DustStatus($cardanoRewardAddresses: [CardanoRewardAddress!]!) { '' @
     ''dustGenerationStatus(cardanoRewardAddresses: $cardanoRewardAddresses) { '' @
     ''cardanoRewardAddress registered nightBalance generationRate maxCapacity currentCapacity } }''"

definition q_dust_generation :: string where
  "q_dust_generation =
     ''query DustGenerationStatus($cardanoRewardAddresses: [CardanoRewardAddress!]!) { '' @
     ''dustGenerationStatus(cardanoRewardAddresses: $cardanoRewardAddresses) { '' @
     ''cardanoRewardAddress dustAddress registered nightBalance generationRate maxCapacity '' @
     ''currentCapacity utxoTxHash utxoOutputIndex } }''"

definition q_dust_generations :: string where
  "q_dust_generations =
     ''query DustGenerationStatuses($cardanoRewardAddresses: [CardanoRewardAddress!]!) { '' @
     ''dustGenerationStatus(cardanoRewardAddresses: $cardanoRewardAddresses) { '' @
     ''cardanoRewardAddress dustAddress registered nightBalance generationRate maxCapacity '' @
     ''currentCapacity utxoTxHash utxoOutputIndex } }''"

definition q_dust_registrations :: string where
  "q_dust_registrations =
     ''query DustRegistrations($cardanoRewardAddresses: [CardanoRewardAddress!]!) { '' @
     ''dustGenerations(cardanoRewardAddresses: $cardanoRewardAddresses) { cardanoRewardAddress '' @
     ''registrations { dustAddress valid nightBalance generationRate maxCapacity currentCapacity '' @
     ''utxoTxHash utxoOutputIndex } } }''"

definition q_height :: string where
  "q_height =
     ''{ block { hash height timestamp } }''"

definition block_fields :: string where
  "block_fields =
     ''{ hash height timestamp transactions { id hash unshieldedCreatedOutputs { owner value '' @
     ''tokenType outputIndex intentHash spentAtTransaction { id hash } } unshieldedSpentOutputs { '' @
     ''owner value tokenType outputIndex } } }''"

definition q_synced :: string where
  "q_synced =
     ''{ block { height } }''"

definition q_connect :: string where
  "q_connect =
     ''mutation Connect($viewingKey: ViewingKey!, $options: ConnectOptions) { connect(viewingKey: '' @
     ''$viewingKey, options: $options) }''"

definition q_disconnect :: string where
  "q_disconnect =
     ''mutation Disconnect($sessionId: HexEncoded!) { disconnect(sessionId: $sessionId) }''"
section \<open>Scanning blocks\<close>

text \<open>The counters of the log also read the owner of every output first.\<close>

fun scan_transactions :: "'j json_ops \<Rightarrow> string \<Rightarrow> u32 \<Rightarrow> indexed_utxo list \<Rightarrow> 'j list \<Rightarrow> indexed_utxo list \<times> exc option" where
  "scan_transactions J address h utxos [] = (utxos, None)"
| "scan_transactions J address h utxos (tx # txs) =
     (if \<not> has_value J tx ''unshieldedCreatedOutputs'' then scan_transactions J address h utxos txs
      else
        (case read_list (\<lambda>out. json_value J (read_string J) out ''owner'' [])
            (iterate J (member J tx ''unshieldedCreatedOutputs'')) of
           Inl e \<Rightarrow> (utxos, Some e)
         | Inr _ \<Rightarrow>
             (case append_utxos_from_transaction J utxos address tx h of
                (utxos, Some e) \<Rightarrow> (utxos, Some e)
              | (utxos, None) \<Rightarrow> scan_transactions J address h utxos txs)))"

definition block_transactions :: "'j json_ops \<Rightarrow> 'j \<Rightarrow> 'j list" where
  "block_transactions J result =
     (if \<not> has_value J result ''block'' then []
      else
        (let b = member J result ''block''
         in if \<not> has_value J b ''transactions'' then []
            else
              (let txns = member J b ''transactions''
               in if is_array J txns then elements J txns else [txns])))"

definition scan_block ::
  "('w, 'j) services \<Rightarrow> 'j indexer_client \<Rightarrow> string \<Rightarrow> u32 \<Rightarrow> indexed_utxo list \<Rightarrow> 'w \<Rightarrow> (indexed_utxo list \<times> exc option) \<times> 'w" where
  "scan_block V c address h utxos w =
     (case graphql_query V c q_scan_block [(''height'', mk_number (json_of V) (sint h))] w of
        (Inl e, w) \<Rightarrow> ((utxos, Some e), w)
      | (Inr result, w) \<Rightarrow> (scan_transactions (json_of V) address h utxos (block_transactions (json_of V) result), w))"

text \<open>\<^verbatim>\<open>for (uint32_t h = from_block; h <= to_block; ++h)\<close>\<close>

partial_function (option) scan_loop ::
  "(u32 \<Rightarrow> indexed_utxo list \<Rightarrow> 'w \<Rightarrow> (indexed_utxo list \<times> exc option) \<times> 'w) \<Rightarrow> u32 \<Rightarrow> u32 \<Rightarrow> indexed_utxo list \<Rightarrow> 'w \<Rightarrow>
   ((indexed_utxo list \<times> exc option) \<times> 'w) option" where
  "scan_loop step h to_block utxos w =
     (if h \<le> to_block then
        (case step h utxos w of
           (r, w) \<Rightarrow> if snd r = None then scan_loop step (h + 1) to_block (fst r) w else Some (r, w))
      else Some ((utxos, None), w))"

text \<open>What a \<^verbatim>\<open>catch (const std::exception & e)\<close> around the loop leaves.\<close>

definition caught :: "'s \<times> exc option \<Rightarrow> (string \<Rightarrow> 's \<Rightarrow> 's) \<Rightarrow> 's result" where
  "caught r handler =
     (case r of
        (s, None) \<Rightarrow> Inr s
      | (s, Some Undefined_behaviour) \<Rightarrow> Inl Undefined_behaviour
      | (s, Some e) \<Rightarrow> Inr (handler (exc_what e) s))"

definition scan_utxos_internal ::
  "('w, 'j) services \<Rightarrow> 'j indexer_client \<Rightarrow> string \<Rightarrow> u32 \<Rightarrow> u32 \<Rightarrow> ('w, indexed_utxo list) io" where
  "scan_utxos_internal V c address from_block to_block w =
     map_option (\<lambda>(r, w). (caught r (\<lambda>_ us. us), w)) (scan_loop (scan_block V c address) from_block to_block [] w)"

definition query_utxos_range ::
  "('w, 'j) services \<Rightarrow> 'j indexer_client \<Rightarrow> string \<Rightarrow> u32 \<Rightarrow> u32 \<Rightarrow> ('w, indexed_utxo list) io" where
  "query_utxos_range V c address from_block to_block = scan_utxos_internal V c address from_block to_block"

section \<open>The caches\<close>

definition utxo_of_cache :: "'j json_ops \<Rightarrow> 'j \<Rightarrow> indexed_utxo result" where
  "utxo_of_cache J item =
     rbind (json_value J (read_string J) item ''tx_hash'' []) (\<lambda>tx_hash.
     rbind (json_value J (read_u32 J) item ''output_index'' 0) (\<lambda>index.
     rbind (json_value J (read_string J) item ''amount_commitment'' []) (\<lambda>commitment.
     rbind (json_value J (read_ull J) item ''value'' 0) (\<lambda>amount.
     rbind (json_value J (read_string J) item ''address'' []) (\<lambda>address.
     rbind (json_value J (read_string J) item ''token_type'' ''NIGHT'') (\<lambda>token.
     rbind (json_value J (read_u32 J) item ''block_height'' 0) (\<lambda>height.
     rbind (json_value J (read_ull J) item ''ctime'' 0) (\<lambda>ctime.
     rbind (json_value J (read_string J) item ''initial_nonce'' []) (\<lambda>nonce.
     rbind (json_value J (read_bool J) item ''registered_for_dust_generation'' False) (\<lambda>registered.
       Inr \<lparr>iu_tx_hash = tx_hash, iu_output_index = index, iu_address = address, iu_amount_commitment = commitment,
            iu_value = amount, iu_token_type = token, iu_multi_assets = [], iu_block_height = height,
            iu_ctime = ctime, iu_initial_nonce = nonce, iu_registered = registered\<rparr>))))))))))"

definition utxo_to_cache :: "'j json_ops \<Rightarrow> indexed_utxo \<Rightarrow> 'j" where
  "utxo_to_cache J u = mk_object J
     [(''tx_hash'', mk_string J (iu_tx_hash u)), (''output_index'', mk_number J (uint (iu_output_index u))),
      (''amount_commitment'', mk_string J (iu_amount_commitment u)), (''value'', mk_number J (uint (iu_value u))),
      (''address'', mk_string J (iu_address u)), (''token_type'', mk_string J (iu_token_type u)),
      (''block_height'', mk_number J (uint (iu_block_height u))), (''ctime'', mk_number J (uint (iu_ctime u))),
      (''initial_nonce'', mk_string J (iu_initial_nonce u)),
      (''registered_for_dust_generation'', mk_bool J (iu_registered u))]"

definition cached_utxos :: "'j json_ops \<Rightarrow> 'j \<Rightarrow> indexed_utxo list result" where
  "cached_utxos J data = (if is_array J data then read_list (utxo_of_cache J) (elements J data) else Inr [])"

definition first_indexed_block :: u32 where
  "first_indexed_block = 609178"

text \<open>\<^verbatim>\<open>catch (...)\<close>: the default stays.\<close>

definition query_tip :: "('w, 'j) services \<Rightarrow> 'j indexer_client \<Rightarrow> ('w, u32) call" where
  "query_tip V c =
     call_catch
       (call_bind (graphql_query V c q_tip []) (\<lambda>r.
          if has_value (json_of V) r ''block''
          then call_of (json_value (json_of V) (read_u32 (json_of V)) (member (json_of V) r ''block'') ''height'' first_indexed_block)
          else call_return first_indexed_block))
       (\<lambda>_. call_return first_indexed_block)"

definition scan_refused :: exc where
  "scan_refused = Runtime_error (''IndexerClient::query_utxos(address) would require a historical block '' @
     ''scan. Use query_utxos(address, from_block, to_block), query_utxos_from_transaction(address, tx_hash), '' @
     ''a persisted wallet sync cache, or set MIDNIGHT_ENABLE_FULL_UTXO_SCAN=1 for explicit debug-only scanning.'')"

text \<open>An entry of a cache that may be used, and the world after the clock was read for it.\<close>

definition cache_hit ::
  "('w, 'j) services \<Rightarrow> bool \<Rightarrow> ('j indexer_client \<Rightarrow> string \<rightharpoonup> 'j cache_entry) \<Rightarrow> string \<Rightarrow> 'j indexer_client \<times> 'w \<Rightarrow>
   'j option \<times> 'w" where
  "cache_hit V use_cache cache address s =
     (case s of (c, w) \<Rightarrow>
        case (if use_cache \<and> cache_enabled c then cache c address else None) of
          None \<Rightarrow> (None, w)
        | Some e \<Rightarrow>
            (case steady_clock V w of
               (now, w) \<Rightarrow> (if is_cache_valid now c e then Some (entry_data e) else None, w)))"

definition query_utxos ::
  "('w, 'j) services \<Rightarrow> string \<Rightarrow> bool \<Rightarrow> ('j indexer_client \<times> 'w, indexed_utxo list) io" where
  "query_utxos V address use_cache s =
     (let J = json_of V; c = fst s
      in case cache_hit V use_cache utxo_cache address s of
           (Some data, w) \<Rightarrow> Some (cached_utxos J data, (c, w))
         | (None, w) \<Rightarrow>
             if \<not> env_flag_enabled (environment V) ''MIDNIGHT_ENABLE_FULL_UTXO_SCAN''
             then Some (Inl scan_refused, (c, w))
             else
               (case query_tip V c w of
                  (Inl e, w) \<Rightarrow> Some (Inl e, (c, w))
                | (Inr tip, w) \<Rightarrow>
                    (case scan_utxos_internal V c address first_indexed_block tip w of
                       None \<Rightarrow> None
                     | Some (Inl e, w) \<Rightarrow> Some (Inl e, (c, w))
                     | Some (Inr utxos, w) \<Rightarrow>
                         if use_cache \<and> cache_enabled c
                         then (case steady_clock V w of
                                 (now, w) \<Rightarrow> Some (Inr utxos,
                                   (c\<lparr>utxo_cache := (utxo_cache c)(address \<mapsto>
                                        \<lparr>entry_data = mk_array J (map (utxo_to_cache J) utxos), entry_time = now\<rparr>)\<rparr>, w)))
                         else Some (Inr utxos, (c, w)))))"

section \<open>Wallet states\<close>

definition wallet_state_to_cache :: "'j json_ops \<Rightarrow> wallet_state \<Rightarrow> 'j" where
  "wallet_state_to_cache J s = mk_object J
     [(''address'', mk_string J (ws_address s)), (''unshielded_balance'', mk_string J (ws_unshielded s)),
      (''dust_balance'', mk_string J (ws_dust s)),
      (''available_utxo_count'', mk_number J (uint (ws_utxo_count s))),
      (''dust_registered_utxo_count'', mk_number J (uint (ws_dust_count s))),
      (''synced'', mk_bool J (ws_synced s)), (''error'', mk_string J (ws_error s))]"

definition wallet_state_of_cache :: "'j json_ops \<Rightarrow> string \<Rightarrow> 'j \<Rightarrow> wallet_state result" where
  "wallet_state_of_cache J address data =
     (if \<not> is_object J data then Inr (new_wallet_state address)
      else
        rbind (json_value J (read_string J) data ''address'' address) (\<lambda>a.
        rbind (json_value J (read_string J) data ''unshielded_balance'' ''0'') (\<lambda>unshielded.
        rbind (json_value J (read_string J) data ''shielded_balance'' ''0'') (\<lambda>shielded.
        rbind (json_value J (read_string J) data ''dust_balance'' ''0'') (\<lambda>dust.
        rbind (json_value J (read_u32 J) data ''available_utxo_count'' 0) (\<lambda>n.
        rbind (json_value J (read_u32 J) data ''dust_registered_utxo_count'' 0) (\<lambda>d.
        rbind (json_value J (read_string J) data ''session_id'' []) (\<lambda>session.
        rbind (json_value J (read_bool J) data ''synced'' False) (\<lambda>synced.
        rbind (json_value J (read_string J) data ''error'' []) (\<lambda>error.
          Inr \<lparr>ws_address = a, ws_unshielded = unshielded, ws_shielded = shielded, ws_dust = dust,
               ws_utxo_count = ucast n, ws_dust_count = ucast d, ws_session_id = session, ws_synced = synced,
               ws_error = error\<rparr>))))))))))"

definition query_wallet_state ::
  "('w, 'j) services \<Rightarrow> string \<Rightarrow> bool \<Rightarrow> ('j indexer_client \<times> 'w, wallet_state) io" where
  "query_wallet_state V address use_cache s =
     (let J = json_of V
      in case cache_hit V use_cache wallet_cache address s of
           (Some data, w) \<Rightarrow> Some (wallet_state_of_cache J address data, (fst s, w))
         | (None, w) \<Rightarrow>
             (case query_utxos V address use_cache (fst s, w) of
                None \<Rightarrow> None
              | Some (Inl Undefined_behaviour, s) \<Rightarrow> Some (Inl Undefined_behaviour, s)
              | Some (Inl e, s) \<Rightarrow>
                  Some (Inr ((new_wallet_state address)\<lparr>ws_error := exc_what e, ws_synced := False\<rparr>), s)
              | Some (Inr utxos, (c, w)) \<Rightarrow>
                  (let st = wallet_state_from_utxos address utxos
                   in if use_cache \<and> cache_enabled c
                      then (case steady_clock V w of
                              (now, w) \<Rightarrow> Some (Inr st,
                                (c\<lparr>wallet_cache := (wallet_cache c)(address \<mapsto>
                                     \<lparr>entry_data = wallet_state_to_cache J st, entry_time = now\<rparr>)\<rparr>, w)))
                      else Some (Inr st, (c, w)))))"

definition query_wallet_state_range ::
  "('w, 'j) services \<Rightarrow> 'j indexer_client \<Rightarrow> string \<Rightarrow> u32 \<Rightarrow> u32 \<Rightarrow> ('w, wallet_state) io" where
  "query_wallet_state_range V c address from_block to_block =
     io_bind (query_utxos_range V c address from_block to_block) (\<lambda>us. io_return (wallet_state_from_utxos address us))"

section \<open>Queries that fill an object\<close>

text \<open>
  A request whose answer fills an object inside a \<^verbatim>\<open>try\<close>; what was filled before an exception stays, and the
  handler may note its text.
\<close>

definition query_into ::
  "('w, 'j) services \<Rightarrow> 'j indexer_client \<Rightarrow> string \<Rightarrow> (string \<times> 'j) list \<Rightarrow> ('j \<Rightarrow> 's \<Rightarrow> 's \<times> exc option) \<Rightarrow>
   (string \<Rightarrow> 's \<Rightarrow> 's) \<Rightarrow> 's \<Rightarrow> ('w, 's) call" where
  "query_into V c q vars fill handler s w =
     (case graphql_query V c q vars w of
        (Inl e, w) \<Rightarrow> (caught (s, Some e) handler, w)
      | (Inr data, w) \<Rightarrow> (caught (fill data s) handler, w))"

definition address_variable :: "'j json_ops \<Rightarrow> string \<Rightarrow> (string \<times> 'j) list" where
  "address_variable J contract = [(''address'', mk_string J (strip_hex_prefix contract))]"

section \<open>Contracts\<close>

record 'j indexed_contract =
  cs_address :: string
  cs_ledger_state :: 'j
  cs_balances :: 'j
  cs_exists :: bool
  cs_block_height :: u64
  cs_block_hash :: string
  cs_error :: string

text \<open>The height of a block as an \<^verbatim>\<open>int\<close>, extended to 64 bits.\<close>

definition read_height :: "'j json_ops \<Rightarrow> 'j \<Rightarrow> u64 result" where
  "read_height J block = rbind (json_value J (read_int J) block ''height'' 0) (\<lambda>h. Inr (scast h))"

text \<open>The steps for the block of a transaction: its height, then its hash.\<close>

definition block_steps ::
  "'j json_ops \<Rightarrow> 'j \<Rightarrow> (u64 \<Rightarrow> 's \<Rightarrow> 's) \<Rightarrow> (string \<Rightarrow> 's \<Rightarrow> 's) \<Rightarrow> ('s \<Rightarrow> 's result) list" where
  "block_steps J ca set_height set_hash =
     (if has_value J ca ''transaction'' \<and> has_value J (member J ca ''transaction'') ''block''
      then
        (let b = member J (member J ca ''transaction'') ''block''
         in [put_member (read_height J b) set_height, put_member (json_value J (read_string J) b ''hash'' []) set_hash])
      else [])"

definition fill_contract_state :: "'j json_ops \<Rightarrow> 'j \<Rightarrow> 'j indexed_contract \<Rightarrow> 'j indexed_contract \<times> exc option" where
  "fill_contract_state J data s =
     (if \<not> has_value J data ''contractAction'' then (s, None)
      else
        (let ca = member J data ''contractAction'';
             s = s\<lparr>cs_exists := True\<rparr>;
             s = (if has_key J ca ''state'' then s\<lparr>cs_ledger_state := member J ca ''state''\<rparr> else s);
             s = (if has_value J ca ''unshieldedBalances'' then s\<lparr>cs_balances := member J ca ''unshieldedBalances''\<rparr> else s)
         in run_steps (block_steps J ca (\<lambda>h. cs_block_height_update (\<lambda>_. h)) (\<lambda>h. cs_block_hash_update (\<lambda>_. h))) s))"

definition query_contract_state :: "('w, 'j) services \<Rightarrow> 'j indexer_client \<Rightarrow> string \<Rightarrow> ('w, 'j indexed_contract) call" where
  "query_contract_state V c contract =
     query_into V c q_contract_state (address_variable (json_of V) contract) (fill_contract_state (json_of V))
       (\<lambda>what s. s\<lparr>cs_error := what\<rparr>)
       \<lparr>cs_address = contract, cs_ledger_state = mk_object (json_of V) [], cs_balances = mk_array (json_of V) [],
        cs_exists = False, cs_block_height = 0, cs_block_hash = [], cs_error = []\<rparr>"

record 'j contract_action =
  ca_address :: string
  ca_type :: string
  ca_state :: 'j
  ca_balances :: 'j
  ca_entry_point :: string
  ca_block_height :: u64
  ca_block_hash :: string
  ca_error :: string

definition action_type_of :: "string \<Rightarrow> string \<Rightarrow> string" where
  "action_type_of name old =
     (if name = ''ContractDeploy'' then ''deploy'' else if name = ''ContractCall'' then ''call''
      else if name = ''ContractUpdate'' then ''update'' else old)"

definition fill_contract_action :: "'j json_ops \<Rightarrow> 'j \<Rightarrow> 'j contract_action \<Rightarrow> 'j contract_action \<times> exc option" where
  "fill_contract_action J data s =
     (if \<not> has_value J data ''contractAction'' then (s, None)
      else
        (let ca = member J data ''contractAction''
         in run_steps
           ((if has_key J ca ''__typename''
             then [put_member (read_string J (member J ca ''__typename'')) (\<lambda>n s. s\<lparr>ca_type := action_type_of n (ca_type s)\<rparr>)]
             else []) @
            (if has_key J ca ''state'' then [\<lambda>s. Inr (s\<lparr>ca_state := member J ca ''state''\<rparr>)] else []) @
            (if has_value J ca ''entryPoint''
             then [put_member (read_string J (member J ca ''entryPoint'')) (\<lambda>e s. s\<lparr>ca_entry_point := e\<rparr>)] else []) @
            (if has_value J ca ''unshieldedBalances''
             then [\<lambda>s. Inr (s\<lparr>ca_balances := member J ca ''unshieldedBalances''\<rparr>)] else []) @
            block_steps J ca (\<lambda>h s. s\<lparr>ca_block_height := h\<rparr>) (\<lambda>h s. s\<lparr>ca_block_hash := h\<rparr>)) s))"

definition query_contract_action :: "('w, 'j) services \<Rightarrow> 'j indexer_client \<Rightarrow> string \<Rightarrow> ('w, 'j contract_action) call" where
  "query_contract_action V c contract =
     query_into V c q_contract_action (address_variable (json_of V) contract) (fill_contract_action (json_of V))
       (\<lambda>what s. s\<lparr>ca_error := what\<rparr>)
       \<lparr>ca_address = contract, ca_type = [], ca_state = mk_null (json_of V), ca_balances = mk_array (json_of V) [],
        ca_entry_point = [], ca_block_height = 0, ca_block_hash = [], ca_error = []\<rparr>"

record contract_balance =
  cb_token_type :: string
  cb_amount :: string

definition read_balance_entry :: "'j json_ops \<Rightarrow> 'j \<Rightarrow> contract_balance result" where
  "read_balance_entry J bal =
     rbind (json_value J (read_string J) bal ''tokenType'' []) (\<lambda>token.
     rbind (json_value J (read_string J) bal ''amount'' ''0'') (\<lambda>amount.
       Inr \<lparr>cb_token_type = token, cb_amount = amount\<rparr>))"

definition fill_balances :: "'j json_ops \<Rightarrow> 'j \<Rightarrow> contract_balance list \<Rightarrow> contract_balance list \<times> exc option" where
  "fill_balances J data bs =
     (if has_value J data ''contractAction'' \<and> has_array J (member J data ''contractAction'') ''unshieldedBalances''
      then read_prefix (read_balance_entry J) (elements J (member J (member J data ''contractAction'') ''unshieldedBalances''))
      else (bs, None))"

definition query_contract_balance :: "('w, 'j) services \<Rightarrow> 'j indexer_client \<Rightarrow> string \<Rightarrow> ('w, contract_balance list) call" where
  "query_contract_balance V c contract =
     query_into V c q_contract_balance (address_variable (json_of V) contract) (fill_balances (json_of V)) (\<lambda>_ bs. bs) []"

fun blank_separated :: "string list \<Rightarrow> string" where
  "blank_separated [] = []"
| "blank_separated [x] = x"
| "blank_separated (x # xs) = x @ '' '' @ blank_separated xs"

definition query_contract_fields :: "('w, 'j) services \<Rightarrow> 'j indexer_client \<Rightarrow> string \<Rightarrow> string list \<Rightarrow> ('w, 'j) call" where
  "query_contract_fields V c contract names =
     (let J = json_of V
      in call_bind (graphql_query V c
           (''query ContractFields($address: HexEncoded!) { contractAction(address: $address) { '' @ blank_separated names @ '' } }'')
           (address_variable J contract)) (\<lambda>data.
           call_return (if has_value J data ''contractAction'' then member J data ''contractAction'' else mk_object J [])))"

section \<open>Transactions\<close>

definition query_transaction :: "('w, 'j) services \<Rightarrow> 'j indexer_client \<Rightarrow> string \<Rightarrow> ('w, 'j) call" where
  "query_transaction V c tx_hash =
     (let J = json_of V
      in if tx_hash = [] then call_return (mk_object J [])
         else query_into V c q_transaction [(''hash'', mk_string J (ensure_hex_prefix tx_hash))]
           (\<lambda>data s.
              (if has_array J data ''transactions''
               then (case elements J (member J data ''transactions'') of
                       tx # _ \<Rightarrow> if is_null J tx then s else tx
                     | [] \<Rightarrow> s)
               else s, None))
           (\<lambda>_ s. s) (mk_object J []))"

definition query_utxos_from_transaction ::
  "('w, 'j) services \<Rightarrow> 'j indexer_client \<Rightarrow> string \<Rightarrow> string \<Rightarrow> ('w, indexed_utxo list) call" where
  "query_utxos_from_transaction V c address tx_hash =
     (let J = json_of V
      in call_bind (query_transaction V c tx_hash) (\<lambda>tx.
           if \<not> is_object J tx \<or> items J tx = []
           then call_throw (Runtime_error (''transaction not found or indexer query failed: '' @ tx_hash))
           else call_of (case append_utxos_from_transaction J [] address tx 0 of
                           (us, None) \<Rightarrow> Inr us | (_, Some e) \<Rightarrow> Inl e)))"

definition query_wallet_state_from_transaction ::
  "('w, 'j) services \<Rightarrow> 'j indexer_client \<Rightarrow> string \<Rightarrow> string \<Rightarrow> ('w, wallet_state) call" where
  "query_wallet_state_from_transaction V c address tx_hash =
     call_bind (query_utxos_from_transaction V c address tx_hash) (\<lambda>us. call_return (wallet_state_from_utxos address us))"

section \<open>DUST\<close>

datatype dust_registration_status = NOT_REGISTERED | PENDING | REGISTERED | EXPIRED | UNKNOWN

definition is_stake_address :: "string \<Rightarrow> bool" where
  "is_stake_address address \<longleftrightarrow> starts_with (map tolower address) ''stake''"

definition stake_variables :: "'j json_ops \<Rightarrow> string list \<Rightarrow> (string \<times> 'j) list" where
  "stake_variables J addresses = [(''cardanoRewardAddresses'', mk_array J (map (mk_string J) addresses))]"

fun find_dust_status :: "'j json_ops \<Rightarrow> string \<Rightarrow> 'j list \<Rightarrow> dust_registration_status result" where
  "find_dust_status J address [] = Inr NOT_REGISTERED"
| "find_dust_status J address (d # ds) =
     (let a = (if has_key J d ''cardanoRewardAddress'' \<and> is_string J (member J d ''cardanoRewardAddress'')
               then get_string J (member J d ''cardanoRewardAddress'') else [])
      in if a = address
         then rbind (json_value J (read_bool J) d ''registered'' False) (\<lambda>r. Inr (if r then REGISTERED else NOT_REGISTERED))
         else find_dust_status J address ds)"

definition query_dust_status :: "('w, 'j) services \<Rightarrow> 'j indexer_client \<Rightarrow> string \<Rightarrow> ('w, dust_registration_status) call" where
  "query_dust_status V c address =
     (let J = json_of V
      in if \<not> is_stake_address address then call_return UNKNOWN
         else call_catch
           (call_bind (graphql_query V c q_dust_status (stake_variables J [address])) (\<lambda>data.
              call_of (if has_array J data ''dustGenerationStatus''
                       then find_dust_status J address (elements J (member J data ''dustGenerationStatus''))
                       else Inr NOT_REGISTERED)))
           (\<lambda>_. call_return UNKNOWN))"

record dust_generation_status =
  dg_reward_address :: string
  dg_dust_address :: string
  dg_registered :: bool
  dg_night_balance :: string
  dg_generation_rate :: string
  dg_max_capacity :: string
  dg_current_capacity :: string
  dg_utxo_tx_hash :: string
  dg_utxo_output_index :: u32

definition new_dust_status :: "string \<Rightarrow> dust_generation_status" where
  "new_dust_status a =
     \<lparr>dg_reward_address = a, dg_dust_address = [], dg_registered = False, dg_night_balance = [],
      dg_generation_rate = [], dg_max_capacity = [], dg_current_capacity = [], dg_utxo_tx_hash = [],
      dg_utxo_output_index = 0\<rparr>"

definition dust_steps :: "'j json_ops \<Rightarrow> 'j \<Rightarrow> string \<Rightarrow> (dust_generation_status \<Rightarrow> dust_generation_status result) list" where
  "dust_steps J d a =
     [put_member (json_value J (read_string J) d ''cardanoRewardAddress'' a) (\<lambda>x s. s\<lparr>dg_reward_address := x\<rparr>),
      put_member (json_value J (read_string J) d ''dustAddress'' []) (\<lambda>x s. s\<lparr>dg_dust_address := x\<rparr>),
      put_member (json_value J (read_bool J) d ''registered'' False) (\<lambda>x s. s\<lparr>dg_registered := x\<rparr>),
      put_member (json_value J (read_string J) d ''nightBalance'' ''0'') (\<lambda>x s. s\<lparr>dg_night_balance := x\<rparr>),
      put_member (json_value J (read_string J) d ''generationRate'' ''0'') (\<lambda>x s. s\<lparr>dg_generation_rate := x\<rparr>),
      put_member (json_value J (read_string J) d ''maxCapacity'' ''0'') (\<lambda>x s. s\<lparr>dg_max_capacity := x\<rparr>),
      put_member (json_value J (read_string J) d ''currentCapacity'' ''0'') (\<lambda>x s. s\<lparr>dg_current_capacity := x\<rparr>),
      put_member (json_value J (read_string J) d ''utxoTxHash'' []) (\<lambda>x s. s\<lparr>dg_utxo_tx_hash := x\<rparr>),
      put_member (json_value J (read_u32 J) d ''utxoOutputIndex'' 0) (\<lambda>x s. s\<lparr>dg_utxo_output_index := x\<rparr>)]"

definition query_dust_generation_status ::
  "('w, 'j) services \<Rightarrow> 'j indexer_client \<Rightarrow> string \<Rightarrow> ('w, dust_generation_status) call" where
  "query_dust_generation_status V c address =
     (let J = json_of V
      in if \<not> is_stake_address address then call_return (new_dust_status address)
         else query_into V c q_dust_generation (stake_variables J [address])
           (\<lambda>data s.
              if has_array J data ''dustGenerationStatus''
              then (case elements J (member J data ''dustGenerationStatus'') of
                      d # _ \<Rightarrow> run_steps (dust_steps J d address) s
                    | [] \<Rightarrow> (s, None))
              else (s, None))
           (\<lambda>_ s. s) (new_dust_status address))"

definition read_dust_status :: "'j json_ops \<Rightarrow> 'j \<Rightarrow> dust_generation_status result" where
  "read_dust_status J d =
     (case run_steps (dust_steps J d []) (new_dust_status []) of (s, None) \<Rightarrow> Inr s | (s, Some e) \<Rightarrow> Inl e)"

definition query_dust_generation_statuses ::
  "('w, 'j) services \<Rightarrow> 'j indexer_client \<Rightarrow> string list \<Rightarrow> ('w, dust_generation_status list) call" where
  "query_dust_generation_statuses V c addresses =
     (let J = json_of V
      in if addresses = [] then call_return []
         else query_into V c q_dust_generations (stake_variables J addresses)
           (\<lambda>data s.
              if has_array J data ''dustGenerationStatus''
              then read_prefix (read_dust_status J) (elements J (member J data ''dustGenerationStatus''))
              else (s, None))
           (\<lambda>_ s. s) [])"

record dust_registration =
  dr_dust_address :: string
  dr_valid :: bool
  dr_night_balance :: string
  dr_generation_rate :: string
  dr_max_capacity :: string
  dr_current_capacity :: string
  dr_utxo_tx_hash :: string
  dr_utxo_output_index :: u32

definition read_registration :: "'j json_ops \<Rightarrow> 'j \<Rightarrow> dust_registration result" where
  "read_registration J r =
     rbind (json_value J (read_string J) r ''dustAddress'' []) (\<lambda>address.
     rbind (json_value J (read_bool J) r ''valid'' False) (\<lambda>valid.
     rbind (json_value J (read_string J) r ''nightBalance'' ''0'') (\<lambda>night.
     rbind (json_value J (read_string J) r ''generationRate'' ''0'') (\<lambda>rate.
     rbind (json_value J (read_string J) r ''maxCapacity'' ''0'') (\<lambda>max_capacity.
     rbind (json_value J (read_string J) r ''currentCapacity'' ''0'') (\<lambda>current.
     rbind (json_value J (read_string J) r ''utxoTxHash'' []) (\<lambda>tx_hash.
     rbind (json_value J (read_u32 J) r ''utxoOutputIndex'' 0) (\<lambda>index.
       Inr \<lparr>dr_dust_address = address, dr_valid = valid, dr_night_balance = night, dr_generation_rate = rate,
            dr_max_capacity = max_capacity, dr_current_capacity = current, dr_utxo_tx_hash = tx_hash,
            dr_utxo_output_index = index\<rparr>))))))))"

definition query_dust_registrations ::
  "('w, 'j) services \<Rightarrow> 'j indexer_client \<Rightarrow> string \<Rightarrow> ('w, dust_registration list) call" where
  "query_dust_registrations V c address =
     (let J = json_of V
      in if \<not> is_stake_address address then call_return []
         else query_into V c q_dust_registrations (stake_variables J [address])
           (\<lambda>data s.
              if has_array J data ''dustGenerations''
              then (case elements J (member J data ''dustGenerations'') of
                      g # _ \<Rightarrow>
                        if has_array J g ''registrations''
                        then read_prefix (read_registration J) (elements J (member J g ''registrations'')) else (s, None)
                    | [] \<Rightarrow> (s, None))
              else (s, None))
           (\<lambda>_ s. s) [])"

section \<open>Blocks\<close>

text \<open>A number, or a text with a number; \<open>None\<close> when reading it throws, which \<^verbatim>\<open>catch (...)\<close> drops.\<close>

definition number_or_text :: "'j json_ops \<Rightarrow> 'j \<Rightarrow> u64 option" where
  "number_or_text J j =
     (if is_number J j then Some (word_of_int (get_number J j))
      else if is_string J j then (case stoull (get_string J j) of Inr v \<Rightarrow> Some v | Inl _ \<Rightarrow> None)
      else None)"

definition get_block_height :: "('w, 'j) services \<Rightarrow> ('j indexer_client \<times> 'w, u64) call" where
  "get_block_height V s =
     (let J = json_of V; c = fst s
      in case graphql_query V c q_height [] (snd s) of
           (Inl Undefined_behaviour, w) \<Rightarrow> (Inl Undefined_behaviour, (c, w))
         | (Inl _, w) \<Rightarrow> (Inr 0, (c, w))
         | (Inr data, w) \<Rightarrow>
             if \<not> has_value J data ''block'' then (Inr 0, (c, w))
             else
               (let b = member J data ''block''
                in case json_value J (read_string J) b ''hash'' [] of
                     Inl _ \<Rightarrow> (Inr 0, (c, w))
                   | Inr hash \<Rightarrow>
                       if hash \<noteq> [] \<and> has_value J b ''height''
                       then (case number_or_text J (member J b ''height'') of
                               Some h \<Rightarrow> (Inr h, (c\<lparr>last_tip_height := h\<rparr>, w))
                             | None \<Rightarrow> (Inr 0, (c, w)))
                       else (Inr 0, (c, w))))"

record 'j block_info =
  bi_hash :: string
  bi_height :: u64
  bi_timestamp :: u64
  bi_transactions :: 'j
  bi_error :: string

definition block_query :: "'j json_ops \<Rightarrow> u64 \<Rightarrow> string \<Rightarrow> string \<times> (string \<times> 'j) list" where
  "block_query J height hash =
     (if 0 < height
      then (''query GetBlock($height: Int!) { block(offset: { height: $height }) '' @ block_fields @ '' }'',
            [(''height'', mk_number J (sint height))])
      else if hash \<noteq> []
      then (''query GetBlock($hash: HexEncoded!) { block(offset: { hash: $hash }) '' @ block_fields @ '' }'',
            [(''hash'', mk_string J (ensure_hex_prefix hash))])
      else (''query GetBlock { block '' @ block_fields @ '' }'', []))"

definition optional_number :: "'j json_ops \<Rightarrow> 'j \<Rightarrow> string \<Rightarrow> (u64 \<Rightarrow> 's \<Rightarrow> 's) \<Rightarrow> 's \<Rightarrow> 's result" where
  "optional_number J b k upd s =
     Inr (if has_value J b k then (case number_or_text J (member J b k) of Some v \<Rightarrow> upd v s | None \<Rightarrow> s) else s)"

definition fill_block :: "'j json_ops \<Rightarrow> 'j \<Rightarrow> 'j block_info \<Rightarrow> 'j block_info \<times> exc option" where
  "fill_block J data s =
     (if \<not> has_value J data ''block'' then (s, None)
      else
        (let b = member J data ''block''
         in run_steps
           [put_member (json_value J (read_string J) b ''hash'' []) (\<lambda>x s. s\<lparr>bi_hash := x\<rparr>),
            (\<lambda>s. Inr (if has_array J b ''transactions'' then s\<lparr>bi_transactions := member J b ''transactions''\<rparr> else s)),
            optional_number J b ''height'' (\<lambda>v s. s\<lparr>bi_height := v\<rparr>),
            optional_number J b ''timestamp'' (\<lambda>v s. s\<lparr>bi_timestamp := v\<rparr>)] s))"

definition query_block :: "('w, 'j) services \<Rightarrow> 'j indexer_client \<Rightarrow> u64 \<Rightarrow> string \<Rightarrow> ('w, 'j block_info) call" where
  "query_block V c height hash =
     (let J = json_of V; (q, vars) = block_query J height hash
      in query_into V c q vars (fill_block J) (\<lambda>what s. s\<lparr>bi_error := what\<rparr>)
           \<lparr>bi_hash = [], bi_height = 0, bi_timestamp = 0, bi_transactions = mk_array J [], bi_error = []\<rparr>)"

definition ix_is_synced :: "('w, 'j) services \<Rightarrow> 'j indexer_client \<Rightarrow> ('w, bool) call" where
  "ix_is_synced V c =
     (let J = json_of V
      in query_into V c q_synced []
           (\<lambda>data s. (has_value J data ''block'' \<and> has_value J (member J data ''block'') ''height'' \<and>
              number_or_text J (member J (member J data ''block'') ''height'') \<noteq> None, None))
           (\<lambda>_ s. s) False)"

section \<open>Shielded sessions\<close>

record shielded_session =
  sh_session_id :: string
  sh_is_connected :: bool
  sh_start_index :: u64

definition connect_shielded_wallet ::
  "('w, 'j) services \<Rightarrow> 'j indexer_client \<Rightarrow> string \<Rightarrow> u64 \<Rightarrow> ('w, shielded_session) call" where
  "connect_shielded_wallet V c viewing_key start =
     (let J = json_of V; s = \<lparr>sh_session_id = [], sh_is_connected = False, sh_start_index = start\<rparr>
      in if viewing_key = [] then call_return s
         else query_into V c q_connect
           [(''viewingKey'', mk_string J viewing_key),
            (''options'', mk_object J [(''startIndex'', mk_number J (sint start))])]
           (\<lambda>data s.
              if has_value J data ''connect''
              then run_steps [put_member (read_string J (member J data ''connect''))
                     (\<lambda>x s. s\<lparr>sh_session_id := x, sh_is_connected := (x \<noteq> [])\<rparr>)] s
              else (s, None))
           (\<lambda>_ s. s) s)"

definition disconnect_shielded_wallet :: "('w, 'j) services \<Rightarrow> 'j indexer_client \<Rightarrow> string \<Rightarrow> ('w, bool) call" where
  "disconnect_shielded_wallet V c session =
     (let J = json_of V
      in if session = [] then call_return False
         else query_into V c q_disconnect [(''sessionId'', mk_string J (ensure_hex_prefix session))]
           (\<lambda>data s. (has_key J data ''disconnect'', None)) (\<lambda>_ s. False) False)"

text \<open>The indexer has no such queries: the session, the prefixes and the range are not used.\<close>

definition query_shielded_balance :: "string \<Rightarrow> string" where
  "query_shielded_balance session = ''0''"

record nullifier_transaction =
  nt_transaction_id :: u64
  nt_block_hash :: string
  nt_block_height :: u64
  nt_nullifier :: string

definition query_nullifiers :: "string list \<Rightarrow> u64 \<Rightarrow> u64 \<Rightarrow> nullifier_transaction list" where
  "query_nullifiers prefixes from_block to_block = []"

section \<open>What a scan returns\<close>

definition own_output :: "string \<Rightarrow> indexed_utxo \<Rightarrow> bool" where
  "own_output address u \<longleftrightarrow> to_lower_copy (iu_address u) = to_lower_copy address \<and> iu_multi_assets u = []"

lemma append_utxos_prefix:
  "append_utxos_from_transaction J us address tx h = (us', err) \<Longrightarrow>
    \<exists>found. us' = us @ found \<and> (\<forall>u\<in>set found. own_output address u)"
proof -
  have absent: "json_value J (read_string J) out k [] = Inr x \<Longrightarrow> \<not> has_key J out k \<Longrightarrow> x = []" for out k x
    by (auto simp: json_value_def split: if_splits)
  have own: "utxo_of_output J address hash height out = Inr (Some u) \<Longrightarrow> own_output address u"
    for hash height out u
    by (auto simp: own_output_def utxo_of_output_def rbind_eq_Inr dest: absent split: if_splits)
  have read: "read_prefix f outs = (found, err) \<Longrightarrow> x \<in> set found \<Longrightarrow> \<exists>out\<in>set outs. f out = Inr x"
    for f :: "'a \<Rightarrow> indexed_utxo option result" and outs found err x
    by (induction outs arbitrary: found err) (auto split: sum.splits prod.splits)
  assume "append_utxos_from_transaction J us address tx h = (us', err)"
  then show ?thesis
    by (fastforce simp: append_utxos_from_transaction_def List.map_filter_def split: if_splits sum.splits prod.splits
        dest: own read)
qed

lemma scan_transactions_prefix:
  "scan_transactions J address h us txs = (us', err) \<Longrightarrow>
    \<exists>found. us' = us @ found \<and> (\<forall>u\<in>set found. own_output address u)"
proof (induction txs arbitrary: us)
  case (Cons tx txs)
  show ?case
  proof (cases "has_value J tx ''unshieldedCreatedOutputs''")
    case True
    obtain us1 e where 1: "append_utxos_from_transaction J us address tx h = (us1, e)" by fastforce
    from append_utxos_prefix [OF 1] obtain f1 where f1: "us1 = us @ f1"
        "\<forall>u\<in>set f1. own_output address u" by blast
    show ?thesis
    proof (cases "e = None")
      case True
      then show ?thesis
        using Cons 1 f1 \<open>has_value J tx ''unshieldedCreatedOutputs''\<close>
        by (fastforce split: sum.splits)
    next
      case False
      then show ?thesis
        using Cons.prems 1 f1 \<open>has_value J tx ''unshieldedCreatedOutputs''\<close>
        by (auto split: sum.splits)
    qed
  qed (use Cons in simp)
qed simp

text \<open>The rounds of the loop, as an induction on its result.\<close>

lemma scan_loop_invariant:
  assumes "scan_loop step h to_block us w = Some (r, w')" and "P us"
    and "\<And>h us w r w'. P us \<Longrightarrow> step h us w = (r, w') \<Longrightarrow> P (fst r)"
  shows "P (fst r)"
proof -
  have "scan_loop step h to_block us w = Some out \<Longrightarrow>
      P us \<longrightarrow> (\<exists>h us w r w'. P us \<and> step h us w = (r, w') \<and> \<not> P (fst r)) \<or> P (fst (fst out))" for out
    by (rule scan_loop.raw_induct [of "\<lambda>step _ _ us _ out.
          P us \<longrightarrow> (\<exists>h us w r w'. P us \<and> step h us w = (r, w') \<and> \<not> P (fst r)) \<or> P (fst (fst out))"])
      (auto split: if_splits prod.splits, blast+)
  from this [OF assms(1)] show ?thesis using assms(2,3) by auto
qed

lemma scan_step_prefix:
  "scan_block V c address h us w = (r, w') \<Longrightarrow>
    \<exists>found. fst r = us @ found \<and> (\<forall>u\<in>set found. own_output address u)"
  by (auto simp: scan_block_def split: prod.splits sum.splits intro: scan_transactions_prefix [OF surjective_pairing])

lemma caught_Inr: "caught r (\<lambda>_ s. s) = Inr s \<Longrightarrow> s = fst r"
  by (cases r) (auto simp: caught_def split: option.splits exc.splits)

lemma scan_own:
  assumes "scan_utxos_internal V c address from_block to_block w = Some (Inr us, w')" and "u \<in> set us"
  shows "own_output address u"
proof -
  obtain r where r: "scan_loop (scan_block V c address) from_block to_block [] w = Some (r, w')" "us = fst r"
    using assms(1) by (auto simp: scan_utxos_internal_def dest: caught_Inr)
  let ?P = "\<lambda>us. \<forall>u\<in>set us. own_output address u"
  have "?P (fst r)"
    by (rule scan_loop_invariant [OF r(1), of ?P]) (auto dest!: scan_step_prefix)
  then show ?thesis using assms(2) r(2) by simp
qed

text \<open>
  A scan returns outputs of its own address only, whatever the indexer answers: letters are compared
  without their case.
\<close>

theorem scan_returns_own:
  assumes "scan_utxos_internal V c address from_block to_block w = Some (Inr us, w')" and "u \<in> set us"
  shows "to_lower_copy (iu_address u) = to_lower_copy address"
  using scan_own [OF assms] by (simp add: own_output_def)

section \<open>When a scan ends\<close>

lemma unat_next: "h \<noteq> - 1 \<Longrightarrow> unat (h + 1) = unat h + 1" for h :: u32
  using unatSuc [of h] by (metis Suc_eq_plus1 add.commute add_eq_0_iff2)

lemma scan_loop_returns:
  assumes "to_block \<noteq> - 1"
  shows "\<exists>out. scan_loop step h to_block us w = Some out"
proof (induction "unat to_block + 1 - unat h" arbitrary: h us w rule: less_induct)
  case less
  show ?case
  proof (cases "h \<le> to_block \<and> snd (fst (step h us w)) = None")
    case True
    have "h \<noteq> - 1" using True assms by (metis antisym word_order.extremum)
    then have "unat (h + 1) = unat h + 1" by (rule unat_next)
    then have "unat to_block + 1 - unat (h + 1) < unat to_block + 1 - unat h"
      using True unfolding word_le_nat_alt by linarith
    from less [OF this] show ?thesis using True by (subst scan_loop.simps) (auto split: prod.splits)
  next
    case False
    then show ?thesis by (subst scan_loop.simps) (auto split: prod.splits)
  qed
qed

text \<open>The first rounds of a scan that none of them ends: the next block, the outputs so far and the world.\<close>

fun scan_rounds ::
  "(u32 \<Rightarrow> indexed_utxo list \<Rightarrow> 'w \<Rightarrow> (indexed_utxo list \<times> exc option) \<times> 'w) \<Rightarrow> nat \<Rightarrow> u32 \<Rightarrow> indexed_utxo list \<Rightarrow> 'w \<Rightarrow>
   (u32 \<times> indexed_utxo list \<times> 'w) option" where
  "scan_rounds step 0 h us w = Some (h, us, w)"
| "scan_rounds step (Suc n) h us w =
     (case step h us w of (r, w) \<Rightarrow> if snd r = None then scan_rounds step n (h + 1) (fst r) w else None)"

definition scan_throws ::
  "(u32 \<Rightarrow> indexed_utxo list \<Rightarrow> 'w \<Rightarrow> (indexed_utxo list \<times> exc option) \<times> 'w) \<Rightarrow> u32 \<Rightarrow> indexed_utxo list \<Rightarrow> 'w \<Rightarrow> bool" where
  "scan_throws step h us w \<longleftrightarrow>
     (\<exists>n h' us' w'. scan_rounds step n h us w = Some (h', us', w') \<and> snd (fst (step h' us' w')) \<noteq> None)"

lemma scan_throws_now: "snd (fst (step h us w)) \<noteq> None \<Longrightarrow> scan_throws step h us w"
  unfolding scan_throws_def by (metis scan_rounds.simps(1))

lemma scan_throws_later:
  "step h us w = (r, w') \<Longrightarrow> snd r = None \<Longrightarrow> scan_throws step (h + 1) (fst r) w' \<Longrightarrow> scan_throws step h us w"
  unfolding scan_throws_def by (elim exE, rule_tac x = "Suc n" in exI) auto

lemma scan_loop_last:
  "scan_loop step h (- 1) us w \<noteq> None \<longleftrightarrow> scan_throws step h us w"
proof
  have "scan_loop step h to_block us w = Some out \<Longrightarrow> to_block = - 1 \<longrightarrow> scan_throws step h us w" for to_block out
    by (rule scan_loop.raw_induct [of "\<lambda>step h to_block us w _. to_block = - 1 \<longrightarrow> scan_throws step h us w"])
      (auto split: if_splits prod.splits intro: scan_throws_now scan_throws_later)
  then show "scan_throws step h us w" if "scan_loop step h (- 1) us w \<noteq> None" using that by auto
next
  have "scan_rounds step n h us w = Some (h', us', w') \<Longrightarrow> snd (fst (step h' us' w')) \<noteq> None \<Longrightarrow>
      scan_loop step h (- 1) us w \<noteq> None" for n h' us' w'
    by (induction n arbitrary: h us w) (subst scan_loop.simps, auto split: prod.splits if_splits)+
  then show "scan_loop step h (- 1) us w \<noteq> None" if "scan_throws step h us w"
    using that by (auto simp: scan_throws_def)
qed

text \<open>
  C39: The scan of a range of blocks ends, with one exception: when its last block is \<open>2 ^ 32 - 1\<close> the counter wraps
  around to 0, and the scan ends exactly when the request for some block, or reading its answer, throws.
\<close>

theorem scan_ends:
  "scan_utxos_internal V c address from_block to_block w \<noteq> None \<longleftrightarrow>
     to_block \<noteq> - 1 \<or> scan_throws (scan_block V c address) from_block [] w"
proof (cases "to_block = - 1")
  case True
  then show ?thesis
    using scan_loop_last [of "scan_block V c address" from_block "[]" w] by (simp add: scan_utxos_internal_def)
next
  case False
  then show ?thesis
    using scan_loop_returns [OF False, of "scan_block V c address" from_block "[]" w] by (auto simp: scan_utxos_internal_def)
qed

section \<open>Failures of a scan\<close>

lemma scan_loop_continue:
  assumes "scan_loop step from_block h us w = Some ((us', None), w')" and "h \<noteq> - 1" and "h < to_block"
    and "from_block \<le> h"
  shows "scan_loop step from_block to_block us w = scan_loop step (h + 1) to_block us' w'"
  using assms(1,4)
proof (induction "unat h - unat from_block" arbitrary: from_block us w)
  case 0
  then have "from_block = h" by (simp add: word_le_nat_alt word_unat_eq_iff)
  moreover have "\<not> h + 1 \<le> h" using unat_next [OF assms(2)] by (simp add: word_le_nat_alt)
  ultimately show ?case
    using 0 assms(3)
    by (subst scan_loop.simps, subst (asm) scan_loop.simps) (auto split: prod.splits if_splits simp: scan_loop.simps [of step "h + 1" h])
next
  case (Suc n)
  then have "from_block < h" by (simp add: word_less_nat_alt)
  then have n: "unat (from_block + 1) = unat from_block + 1"
    using assms(2) by (intro unat_next) (metis leD word_order.extremum)
  then have le: "from_block + 1 \<le> h" "n = unat h - unat (from_block + 1)"
    using Suc(2) \<open>from_block < h\<close> by (simp_all add: word_le_nat_alt word_less_nat_alt)
  show ?case
    using Suc.prems Suc.hyps(1) [OF le(2) _ le(1)] assms(3)
    by (subst scan_loop.simps, subst (asm) scan_loop.simps) (auto split: prod.splits if_splits)
qed

text \<open>
  C37: A scan hides its failure. When the request for a block throws, the outputs of the blocks before it are
  returned as if they were all, and the state of the wallet is reported as synchronised, without an error.
\<close>

theorem scan_hides_failure:
  assumes "scan_loop (scan_block V c address) from_block h [] w = Some ((us, None), w1)" and "from_block \<le> h"
    and "h < to_block" and "graphql_query V c q_scan_block [(''height'', mk_number (json_of V) (sint (h + 1)))] w1 = (Inl e, w2)"
    and "e \<noteq> Undefined_behaviour"
  shows "query_wallet_state_range V c address from_block to_block w = Some (Inr (wallet_state_from_utxos address us), w2) \<and>
    ws_synced (wallet_state_from_utxos address us) \<and> ws_error (wallet_state_from_utxos address us) = []"
proof -
  have h: "h \<noteq> - 1" using assms(3) by (metis leD word_order.extremum)
  have "h + 1 \<le> to_block" using assms(3) h by (simp add: inc_le)
  then have "scan_loop (scan_block V c address) (h + 1) to_block us w1 = Some ((us, Some e), w2)"
    using assms(4) by (subst scan_loop.simps) (simp add: scan_block_def)
  then have "scan_loop (scan_block V c address) from_block to_block [] w = Some ((us, Some e), w2)"
    using scan_loop_continue [OF assms(1) h assms(3,2)] by simp
  then have "query_wallet_state_range V c address from_block to_block w = Some (Inr (wallet_state_from_utxos address us), w2)"
    using assms(5)
    by (simp add: query_wallet_state_range_def query_utxos_range_def scan_utxos_internal_def caught_def io_defs split: exc.splits)
  then show ?thesis
    by (simp add: wallet_state_from_utxos_def new_wallet_state_def split: prod.splits)
qed

section \<open>Totals\<close>

lemma sum_utxos_totals:
  "sum_utxos (night, dust, count) us =
    (night + sum_list (map iu_value (filter is_night us)), dust + sum_list (map iu_value (filter is_dust_output us)),
     count + word_of_nat (length (filter iu_registered us)))"
  by (induction us arbitrary: night dust count) (auto simp: is_dust_output_def algebra_simps)

lemma unat_sum_list: "unat (sum_list (xs :: u64 list)) = sum_list (map unat xs) mod 2 ^ 64"
proof (induction xs)
  case (Cons x xs)
  then show ?case by (simp add: unat_word_ariths mod_add_right_eq)
qed simp

text \<open>
  The balances of a wallet state are the sums of the values of its NIGHT and of its DUST outputs, taken
  modulo \<open>2 ^ 64\<close>, in decimal digits.
\<close>

theorem wallet_state_totals:
  "ws_unshielded (wallet_state_from_utxos address us) = to_string (sum_list (map (unat \<circ> iu_value) (filter is_night us)) mod 2 ^ 64) \<and>
   ws_dust (wallet_state_from_utxos address us) = to_string (sum_list (map (unat \<circ> iu_value) (filter is_dust_output us)) mod 2 ^ 64) \<and>
   ws_utxo_count (wallet_state_from_utxos address us) = word_of_nat (length us mod 2 ^ 32)"
proof -
  have "ucast (x :: u32) = (word_of_nat (unat x) :: u64)" for x by (simp only: of_nat_unat)
  then have count: "ucast (word_of_nat n :: u32) = (word_of_nat (n mod 2 ^ 32) :: u64)" for n
    by (simp add: unat_of_nat take_bit_eq_mod del: of_nat_unat)
  show ?thesis
    by (simp add: wallet_state_from_utxos_def new_wallet_state_def sum_utxos_totals unat_sum_list o_def count)
qed

section \<open>The caches\<close>

context lawful_json
begin

lemma utxo_cache_read: "utxo_of_cache J (utxo_to_cache J u) = Inr (u\<lparr>iu_multi_assets := []\<rparr>)"
  by (simp add: utxo_of_cache_def utxo_to_cache_def read_ull_def)

lemma cached_utxos_read:
  "cached_utxos J (mk_array J (map (utxo_to_cache J) us)) = Inr (map (\<lambda>u. u\<lparr>iu_multi_assets := []\<rparr>) us)"
  by (simp add: cached_utxos_def read_list_all utxo_cache_read)

end

text \<open>
  What a scan of the blocks found is kept: as long as its entry is young enough, and nothing else is asked
  for, the same outputs are returned again, without a request to the indexer.
\<close>

theorem utxo_query_cached:
  assumes "json_laws (json_of V)" and "cache_enabled c" and "utxo_cache c address = None"
    and "query_utxos V address True (c, w) = Some (Inr us, (c', w'))"
  shows "\<exists>stored. \<forall>now w1 w2. steady_clock V w1 = (now, w2) \<and> now - stored < unat (cache_ttl c) * 10 ^ 9 \<longrightarrow>
    query_utxos V address True (c', w1) = Some (Inr us, (c', w2))"
proof -
  let ?J = "json_of V"
  obtain tip w1 w2 where scan: "scan_utxos_internal V c address first_indexed_block tip w1 = Some (Inr us, w2)"
      and c': "c' = c\<lparr>utxo_cache := (utxo_cache c)(address \<mapsto>
        \<lparr>entry_data = mk_array ?J (map (utxo_to_cache ?J) us), entry_time = fst (steady_clock V w2)\<rparr>)\<rparr>"
    using assms(2-4)
    by (auto simp: query_utxos_def cache_hit_def Let_def split: if_splits prod.splits sum.splits option.splits)
  have "map (\<lambda>u. u\<lparr>iu_multi_assets := []\<rparr>) us = us"
    using scan_own [OF scan] by (intro map_idI) (simp add: own_output_def)
  then have "cached_utxos ?J (mk_array ?J (map (utxo_to_cache ?J) us)) = Inr us"
    using lawful_json.cached_utxos_read [OF lawful_json.intro [OF assms(1)], of us] by simp
  then show ?thesis
    using assms(2)
    by (intro exI [of _ "fst (steady_clock V w2)"])
      (auto simp: c' query_utxos_def cache_hit_def is_cache_valid_def)
qed

section \<open>Witnesses\<close>

text \<open>An indexer with one output in every block, whose \<open>w\<close>-th answer is the last.\<close>

definition sample_output :: json where
  "sample_output = JObject [(''owner'', JString ''ABC''), (''value'', JString ''7'')]"

definition sample_data :: json where
  "sample_data = JObject [(''block'', JObject [(''transactions'',
     JArray [JObject [(''hash'', JString ''h1''), (''unshieldedCreatedOutputs'', JArray [sample_output])]])])]"

definition sample_services :: "nat \<Rightarrow> (nat, json) services" where
  "sample_services n =
     \<lparr>json_of = json_std\<lparr>parse := \<lambda>s. Inr (JObject [(''data'', sample_data)])\<rparr>,
      http_of = \<lambda>ep path hs request w. (if w < n then Answer 200 [] else No_answer ''Connection'', w + 1),
      steady_clock = \<lambda>w. (0, w), environment = \<lambda>name. Some ''1''\<rparr>"

definition sample_client :: "json indexer_client" where
  "sample_client = \<lparr>graphql_url = ''http://h'', ix_client = \<lparr>base_url = ''http://h'', timeout_ms = 0, headers = Map.empty\<rparr>,
     cache_enabled = True, cache_ttl = 60, last_tip_height = 0, utxo_cache = Map.empty, wallet_cache = Map.empty\<rparr>"

definition sample_utxo :: indexed_utxo where
  "sample_utxo = \<lparr>iu_tx_hash = ''h1'', iu_output_index = 0, iu_address = ''ABC'', iu_amount_commitment = [],
     iu_value = 7, iu_token_type = [], iu_multi_assets = [], iu_block_height = 609178, iu_ctime = 0,
     iu_initial_nonce = [], iu_registered = False\<rparr>"

lemma sample_json: "json_laws (json_of (sample_services n))"
  using json_std_laws by (simp add: sample_services_def json_laws_def)

lemma sample_answer:
  "graphql_query (sample_services n) sample_client q vars w =
    (if w < n then Inr sample_data else Inl (Runtime_error ''HTTP request failed: Connection''), w + 1)"
proof -
  have url: "ix_parse_url ''http://h'' = Inr (''http'', ''h'', 80, ''/'')" by code_simp
  have url': "HttpClient.parse_url ''http://h'' = Inr \<lparr>ep_host = ''h'', ep_port = 80, path_prefix = [], use_tls = False\<rparr>"
    by code_simp
  show ?thesis
    by (simp add: graphql_query_def execute_graphql_def call_defs post_json_def send_def sample_client_def url url'
        do_post_result_def parse_body_def check_graphql_errors_def graphql_data_def sample_services_def
        has_array_def json_std_def)
qed

lemma sample_json_of: "json_of (sample_services n) = json_std\<lparr>parse := \<lambda>s. Inr (JObject [(''data'', sample_data)])\<rparr>"
  by (simp add: sample_services_def)

lemma sample_unspent: "utxo_of_output (json_std\<lparr>parse := f\<rparr>) ''abc'' ''h1'' 609178 sample_output = Inr (Some sample_utxo)"
proof -
  have "to_lower_copy ''ABC'' = ''abc''" "to_lower_copy ''abc'' = ''abc''" by code_simp+
  moreover have "from_chars_u64 ''7'' = Some 7"
    by (simp add: from_chars_u64_def isdigit_def char_in_def dec_value_def dec_step_def)
  ultimately show ?thesis
    by (simp add: utxo_of_output_def sample_output_def json_value_def json_std_def read_string_def has_value_def
        read_u32_def read_json_def parse_u64_string_def read_bool_def sample_utxo_def Let_def)
qed

lemma sample_transactions:
  assumes "J = json_std\<lparr>parse := f\<rparr>"
  shows "scan_transactions J ''abc'' 609178 us (block_transactions J sample_data) = (us @ [sample_utxo], None)"
proof -
  let ?tx = "JObject [(''hash'', JString ''h1''), (''unshieldedCreatedOutputs'', JArray [sample_output])]"
  have txs: "block_transactions J sample_data = [?tx]"
    by (simp add: assms block_transactions_def sample_data_def has_value_def json_std_def)
  have tx: "has_value J ?tx ''unshieldedCreatedOutputs''" "is_object J ?tx" "\<not> has_key J ?tx ''block''"
      "json_value J (read_string J) ?tx ''hash'' [] = Inr ''h1''"
      "iterate J (member J ?tx ''unshieldedCreatedOutputs'') = [sample_output]"
    by (simp_all add: assms has_value_def json_std_def json_value_def read_string_def iterate_def)
  have owner: "json_value J (read_string J) sample_output ''owner'' [] = Inr ''ABC''"
    by (simp add: assms json_value_def sample_output_def json_std_def read_string_def)
  have "append_utxos_from_transaction J us ''abc'' ?tx 609178 = (us @ [sample_utxo], None)"
    by (simp add: append_utxos_from_transaction_def tx sample_unspent [of f, folded assms] List.map_filter_def)
  then show ?thesis by (simp add: txs tx owner)
qed

lemma sample_block:
  "scan_block (sample_services n) sample_client ''abc'' 609178 us w =
    (if w < n then (us @ [sample_utxo], None) else (us, Some (Runtime_error ''HTTP request failed: Connection'')), w + 1)"
  "\<not> w < n \<Longrightarrow> scan_block (sample_services n) sample_client ''abc'' h us w =
    ((us, Some (Runtime_error ''HTTP request failed: Connection'')), w + 1)"
  by (simp_all add: scan_block_def sample_answer sample_transactions [OF sample_json_of])

theorem scan_hides_failure_witness:
  "query_wallet_state_range (sample_services 1) sample_client ''abc'' 609178 609180 0 =
     Some (Inr (wallet_state_from_utxos ''abc'' [sample_utxo]), 2) \<and>
   ws_synced (wallet_state_from_utxos ''abc'' [sample_utxo]) \<and> ws_error (wallet_state_from_utxos ''abc'' [sample_utxo]) = []"
proof (rule scan_hides_failure)
  show "scan_loop (scan_block (sample_services 1) sample_client ''abc'') 609178 609178 [] 0 = Some (([sample_utxo], None), 1)"
    by (simp add: scan_loop.simps [of _ 609178] scan_loop.simps [of _ 609179] sample_block)
  show "graphql_query (sample_services 1) sample_client q_scan_block
      [(''height'', mk_number (json_of (sample_services 1)) (sint (609178 + 1 :: u32)))] 1 =
      (Inl (Runtime_error ''HTTP request failed: Connection''), 2)"
    by (simp add: sample_answer)
qed simp_all

lemma sample_scan:
  "0 < n - w \<Longrightarrow> scan_utxos_internal (sample_services n) sample_client ''abc'' 609178 609178 w = Some (Inr [sample_utxo], w + 1)"
  by (simp add: scan_utxos_internal_def scan_loop.simps [of _ 609178] scan_loop.simps [of _ 609179] sample_block caught_def)

theorem scan_returns_own_witness:
  "to_lower_copy (iu_address sample_utxo) = to_lower_copy ''abc''"
  using scan_returns_own [OF sample_scan [of 1 0], of sample_utxo] by simp

text \<open>An indexer whose answers hold no block: a scan up to the last number never ends, and one behind a dead connection does.\<close>

definition blank_services :: "(nat, json) services" where
  "blank_services =
     \<lparr>json_of = json_std\<lparr>parse := \<lambda>s. Inr (JObject [(''data'', JObject [])])\<rparr>,
      http_of = (\<lambda>ep path hs req w. (Answer 200 ''{}'', w + 1)), steady_clock = (\<lambda>w. (w, w)), environment = (\<lambda>_. None)\<rparr>"

lemma blank_query: "graphql_query blank_services sample_client q vars w = (Inr (JObject []), w + 1)"
proof -
  have url: "ix_parse_url ''http://h'' = Inr (''http'', ''h'', 80, ''/'')" by code_simp
  have url': "HttpClient.parse_url ''http://h'' = Inr \<lparr>ep_host = ''h'', ep_port = 80, path_prefix = [], use_tls = False\<rparr>"
    by code_simp
  show ?thesis
    by (simp add: graphql_query_def execute_graphql_def call_defs post_json_def send_def sample_client_def url url'
        do_post_result_def parse_body_def check_graphql_errors_def graphql_data_def blank_services_def
        has_array_def json_std_def)
qed

theorem scan_ends_witness:
  "scan_utxos_internal blank_services sample_client ''abc'' 5 (- 1) 0 = None \<and>
   scan_utxos_internal (sample_services 0) sample_client ''abc'' 5 (- 1) 0 \<noteq> None \<and>
   scan_utxos_internal blank_services sample_client ''abc'' 5 6 0 \<noteq> None"
proof -
  have "snd (fst (scan_block blank_services sample_client ''abc'' h us w)) = None" for h us w
    by (simp add: scan_block_def blank_query block_transactions_def) (simp add: blank_services_def json_std_def has_value_def)
  then have "\<not> scan_throws (scan_block blank_services sample_client ''abc'') 5 [] 0" by (simp add: scan_throws_def)
  moreover have "scan_throws (scan_block (sample_services 0) sample_client ''abc'') 5 [] 0"
    by (rule scan_throws_now) (simp add: sample_block)
  ultimately show ?thesis
    using scan_ends [of blank_services sample_client "''abc''" 5 "- 1" 0] scan_ends [of blank_services sample_client "''abc''" 5 6 0]
      scan_ends [of "sample_services 0" sample_client "''abc''" 5 "- 1" 0] by (simp del: not_None_eq)
qed

lemma sample_query:
  "query_utxos (sample_services 9) ''abc'' True (sample_client, 0) =
    Some (Inr [sample_utxo], (sample_client\<lparr>utxo_cache := [''abc'' \<mapsto>
      \<lparr>entry_data = mk_array (json_of (sample_services 9)) (map (utxo_to_cache (json_of (sample_services 9))) [sample_utxo]),
       entry_time = 0\<rparr>]\<rparr>, 2))"
proof -
  have "query_tip (sample_services 9) sample_client 0 = (Inr 609178, 1)"
  proof -
    have "has_value (json_of (sample_services 9)) sample_data ''block''"
        "json_value (json_of (sample_services 9)) (read_u32 (json_of (sample_services 9)))
          (member (json_of (sample_services 9)) sample_data ''block'') ''height'' first_indexed_block = Inr 609178"
      unfolding sample_json_of
      by (simp_all add: sample_data_def has_value_def json_std_def json_value_def first_indexed_block_def)
    then show ?thesis by (simp add: query_tip_def call_defs sample_answer)
  qed
  moreover have "env_flag_enabled (environment (sample_services 9)) ''MIDNIGHT_ENABLE_FULL_UTXO_SCAN''"
    by (simp add: sample_services_def) code_simp
  moreover have "cache_enabled sample_client" "utxo_cache sample_client = Map.empty"
    by (simp_all add: sample_client_def)
  moreover have "steady_clock (sample_services 9) w = (0, w)" for w
    by (simp add: sample_services_def)
  ultimately show ?thesis
    using sample_scan [of 9 1] by (simp add: query_utxos_def cache_hit_def first_indexed_block_def Let_def)
qed

theorem utxo_query_cached_witness:
  "\<exists>stored. \<forall>now w1 w2. steady_clock (sample_services 9) w1 = (now, w2) \<and> now - stored < 60 * 10 ^ 9 \<longrightarrow>
    query_utxos (sample_services 9) ''abc'' True (sample_client\<lparr>utxo_cache := [''abc'' \<mapsto>
      \<lparr>entry_data = mk_array (json_of (sample_services 9)) (map (utxo_to_cache (json_of (sample_services 9))) [sample_utxo]),
       entry_time = 0\<rparr>]\<rparr>, w1) =
    Some (Inr [sample_utxo], (sample_client\<lparr>utxo_cache := [''abc'' \<mapsto>
      \<lparr>entry_data = mk_array (json_of (sample_services 9)) (map (utxo_to_cache (json_of (sample_services 9))) [sample_utxo]),
       entry_time = 0\<rparr>]\<rparr>, w2))"
  using utxo_query_cached [OF sample_json _ _ sample_query]
  by (simp add: sample_client_def)

end
