(* ===== verification/WalletServices.thy ===== *)
theory WalletServices
  imports IndexerQueries
begin

text \<open>
  The services of the wallet (src/wallet/wallet_services.cpp): submission of transactions to a relay, the proof
  server, and the list of pending transactions. HTTP, JSON, SHA-256, the system clock (in nanoseconds) and the
  callbacks are parameters; logging is left out. Results: a submission that is to wait for a status reports it
  at once, with the hash of the node lost; polling never takes a status back, but nothing ever polls.
\<close>

section \<open>Data\<close>

datatype submission_tag = Submitted | InBlock | Finalized

record submission_event =
  ev_tag :: submission_tag
  ev_tx_hash :: string
  ev_block_number :: u64
  ev_block_hash :: string
  ev_error :: string

definition new_event :: "string \<Rightarrow> submission_event" where
  "new_event h = \<lparr>ev_tag = Submitted, ev_tx_hash = h, ev_block_number = 0, ev_block_hash = [], ev_error = []\<rparr>"

definition is_error :: "submission_event \<Rightarrow> bool" where
  "is_error e \<longleftrightarrow> ev_error e \<noteq> []"

record serialized_transaction =
  st_data :: bytes
  st_tx_hash :: string

definition transaction_from_bytes :: "bytes \<Rightarrow> serialized_transaction" where
  "transaction_from_bytes bs = \<lparr>st_data = bs, st_tx_hash = []\<rparr>"

text \<open>The order in which a transaction passes them.\<close>

instantiation submission_tag :: linorder
begin

fun tag_rank :: "submission_tag \<Rightarrow> nat" where
  "tag_rank Submitted = 0"
| "tag_rank InBlock = 1"
| "tag_rank Finalized = 2"

definition less_eq_submission_tag :: "submission_tag \<Rightarrow> submission_tag \<Rightarrow> bool" where
  "less_eq_submission_tag a b \<longleftrightarrow> tag_rank a \<le> tag_rank b"

definition less_submission_tag :: "submission_tag \<Rightarrow> submission_tag \<Rightarrow> bool" where
  "less_submission_tag a b \<longleftrightarrow> tag_rank a < tag_rank b"

lemma tag_rank_inj: "tag_rank a = tag_rank b \<longleftrightarrow> a = b"
  by (cases a; cases b) simp_all

instance
  by intro_classes (auto simp: less_eq_submission_tag_def less_submission_tag_def simp flip: tag_rank_inj)

end

section \<open>Submission\<close>

record submission_service =
  relay_url :: string
  relay_timeout :: u32
  relay_connected :: bool

definition relay_body :: "'j json_ops \<Rightarrow> bytes \<Rightarrow> 'j" where
  "relay_body J bs =
     mk_object J [(''id'', mk_number J 1), (''jsonrpc'', mk_string J ''2.0''),
       (''method'', mk_string J ''author_submitExtrinsic''),
       (''params'', mk_array J [mk_string J (''0x'' @ crypto_to_hex bs)])]"

definition relay_error :: "'j json_ops \<Rightarrow> 'j \<Rightarrow> string result" where
  "relay_error J err =
     (if has_key J err ''message'' then read_string J (member J err ''message'')
      else if has_key J err ''data'' then read_string J (member J err ''data'')
      else Inr (dump J err))"

text \<open>The event and whether the relay counts as connected, from the answer.\<close>

definition relay_answer :: "'j json_ops \<Rightarrow> string \<Rightarrow> 'j \<Rightarrow> (submission_event \<times> bool) result" where
  "relay_answer J h response =
     (if has_key J response ''error'' then
        rbind (relay_error J (member J response ''error'')) (\<lambda>msg. Inr ((new_event h)\<lparr>ev_error := msg\<rparr>, False))
      else if has_key J response ''result'' \<and> is_string J (member J response ''result'')
      then Inr (new_event (get_string J (member J response ''result'')), True)
      else Inr (new_event h, True))"

definition submit_via_http ::
  "'j json_ops \<Rightarrow> 'w http \<Rightarrow> serialized_transaction \<Rightarrow> (submission_service \<times> 'w, submission_event) call" where
  "submit_via_http J http tx = (\<lambda>(s, w).
     if relay_url s = []
     then (Inr ((new_event (st_tx_hash tx))\<lparr>ev_error := ''No relay URL configured''\<rparr>), (s\<lparr>relay_connected := False\<rparr>, w))
     else
       (case call_catch
           (call_bind (call_of (new_network_client (relay_url s) (relay_timeout s))) (\<lambda>c.
            call_bind (post_json J http (set_header ''Content-Type'' ''application/json'' c) ''/rpc''
              (relay_body J (st_data tx))) (\<lambda>response.
              call_of (relay_answer J (st_tx_hash tx) response))))
           (\<lambda>what. call_return ((new_event (st_tx_hash tx))\<lparr>ev_error := ''Submission failed: '' @ what\<rparr>, False)) w of
          (Inl e, w) \<Rightarrow> (Inl e, (s, w))
        | (Inr (event, ok), w) \<Rightarrow> (Inr event, (s\<lparr>relay_connected := ok\<rparr>, w))))"

definition wait_for_status :: "string \<Rightarrow> submission_tag \<Rightarrow> submission_event" where
  "wait_for_status h target = (new_event h)\<lparr>ev_tag := target\<rparr>"

definition submit_transaction ::
  "'j json_ops \<Rightarrow> 'w http \<Rightarrow> serialized_transaction \<Rightarrow> submission_tag \<Rightarrow> (submission_service \<times> 'w, submission_event) call" where
  "submit_transaction J http tx wait_for =
     (if st_data tx = [] then call_return ((new_event [])\<lparr>ev_error := ''Empty transaction data''\<rparr>)
      else
        call_bind (submit_via_http J http tx) (\<lambda>result.
          if is_error result then call_return result
          else if wait_for \<noteq> Submitted then call_return (wait_for_status (st_tx_hash tx) wait_for)
          else call_return result))"

definition submission_close :: "submission_service \<Rightarrow> submission_service" where
  "submission_close s = s\<lparr>relay_connected := False\<rparr>"

section \<open>Proving\<close>

record proving_service =
  proving_server_url :: string
  proving_timeout :: u32

record proved_transaction =
  pv_data :: bytes
  pv_proof_hash :: string
  pv_success :: bool
  pv_error :: string

definition no_proof :: "string \<Rightarrow> proved_transaction" where
  "no_proof err = \<lparr>pv_data = [], pv_proof_hash = [], pv_success = False, pv_error = err\<rparr>"

definition prove_remote ::
  "(bytes \<Rightarrow> bytes) \<Rightarrow> 'w http \<Rightarrow> proving_service \<Rightarrow> bytes \<Rightarrow> ('w, proved_transaction) call" where
  "prove_remote sha256 http s unproven =
     (if unproven = [] then call_return (no_proof ''Empty transaction data'')
      else if proving_server_url s = [] then call_return (no_proof ''No proving server URL configured'')
      else
        call_catch
          (call_bind (call_of (new_network_client (proving_server_url s) (proving_timeout s))) (\<lambda>c.
           call_bind (post_bytes http c ''/prove'' unproven ''application/octet-stream'') (\<lambda>out.
             call_return \<lparr>pv_data = out, pv_proof_hash = crypto_to_hex (sha256 out), pv_success = True, pv_error = []\<rparr>)))
          (\<lambda>what. call_return (no_proof (''Proof server error: '' @ what))))"

definition health_ok :: "'j json_ops \<Rightarrow> 'j \<Rightarrow> bool result" where
  "health_ok J response =
     rbind (json_value J (read_string J) response ''status'' []) (\<lambda>s. Inr (s = ''ok'' \<or> has_key J response ''version''))"

definition proving_health :: "'j json_ops \<Rightarrow> 'w http \<Rightarrow> proving_service \<Rightarrow> ('w, 'j) call" where
  "proving_health J http s =
     call_bind (call_of (new_network_client (proving_server_url s) (proving_timeout s))) (\<lambda>c. get_json J http c ''/health'')"

definition proving_available :: "'j json_ops \<Rightarrow> 'w http \<Rightarrow> proving_service \<Rightarrow> ('w, bool) call" where
  "proving_available J http s =
     (if proving_server_url s = [] then call_return False
      else
        call_catch (call_bind (proving_health J http s) (\<lambda>response. call_of (health_ok J response)))
          (\<lambda>_. call_return False))"

definition proving_status :: "'j json_ops \<Rightarrow> 'w http \<Rightarrow> proving_service \<Rightarrow> ('w, 'j) call" where
  "proving_status J http s =
     (let status = mk_object J [(''available'', mk_bool J False), (''url'', mk_string J (proving_server_url s))]
      in if proving_server_url s = []
         then call_return (set_member J status ''error'' (mk_string J ''No proof server URL configured''))
         else
           call_catch
             (call_bind (proving_health J http s) (\<lambda>health.
              call_bind (call_of (health_ok J health)) (\<lambda>ok.
                call_return (set_member J (set_member J status ''available'' (mk_bool J ok)) ''health'' health))))
             (\<lambda>what. call_return (set_member J status ''error'' (mk_string J what))))"

section \<open>Pending transactions\<close>

record pending_tx =
  pt_tx_hash :: string
  pt_status :: submission_tag
  pt_submitted_at :: int
  pt_last_checked :: int
  pt_block_number :: u64

text \<open>A callback acts on the outside world and may throw; callbacks that call the service back are not modelled.\<close>

record 'w pending_service =
  pending_indexer_url :: string
  poll_interval_ms :: u32
  pending_list :: "pending_tx list"
  pending_callbacks :: "(pending_tx \<Rightarrow> ('w, unit) call) list"
  pending_running :: bool

definition new_pending_service :: "string \<Rightarrow> u32 \<Rightarrow> 'w pending_service" where
  "new_pending_service url interval =
     \<lparr>pending_indexer_url = url, poll_interval_ms = interval, pending_list = [], pending_callbacks = [],
      pending_running = False\<rparr>"

definition pending_start :: "'w pending_service \<Rightarrow> 'w pending_service" where
  "pending_start s = s\<lparr>pending_running := True\<rparr>"

definition pending_stop :: "'w pending_service \<Rightarrow> 'w pending_service" where
  "pending_stop s = s\<lparr>pending_running := False\<rparr>"

definition add_pending_transaction :: "int \<Rightarrow> string \<Rightarrow> 'w pending_service \<Rightarrow> 'w pending_service" where
  "add_pending_transaction now h s =
     s\<lparr>pending_list := pending_list s @
       [\<lparr>pt_tx_hash = h, pt_status = Submitted, pt_submitted_at = now, pt_last_checked = now, pt_block_number = 0\<rparr>]\<rparr>"

definition pending_clear :: "string \<Rightarrow> 'w pending_service \<Rightarrow> 'w pending_service" where
  "pending_clear h s = s\<lparr>pending_list := filter (\<lambda>p. pt_tx_hash p \<noteq> h) (pending_list s)\<rparr>"

definition get_pending :: "'w pending_service \<Rightarrow> pending_tx list" where
  "get_pending s = pending_list s"

definition pending_state :: "string \<Rightarrow> 'w pending_service \<Rightarrow> pending_tx option" where
  "pending_state h s = find (\<lambda>p. pt_tx_hash p = h) (pending_list s)"

definition on_status_change :: "(pending_tx \<Rightarrow> ('w, unit) call) \<Rightarrow> 'w pending_service \<Rightarrow> 'w pending_service" where
  "on_status_change f s = s\<lparr>pending_callbacks := pending_callbacks s @ [f]\<rparr>"

subsection \<open>Polling\<close>

definition q_transaction_by_hash :: string where
  "q_transaction_by_hash =
     ''query TransactionByHash($hash: HexEncoded!) { transactions(offset: { hash: $hash }) { id hash block { '' @
     ''height hash } transactionResult { status } fees { paidFees estimatedFees } } }''"

definition poll_block :: "'j json_ops \<Rightarrow> 'j \<Rightarrow> pending_tx \<Rightarrow> pending_tx" where
  "poll_block J tx p =
     (if has_value J tx ''block'' \<and> has_value J (member J tx ''block'') ''height''
      then (case read_u64 J (member J (member J tx ''block'') ''height'') of
              Inr h \<Rightarrow> p\<lparr>pt_block_number := h\<rparr> | Inl _ \<Rightarrow> p)
      else p)"

definition next_status :: "string \<Rightarrow> submission_tag \<Rightarrow> submission_tag" where
  "next_status text status =
     (if text = ''Finalized'' \<or> text = ''finalized'' then Finalized
      else if text \<in> {''InBlock'', ''inblock'', ''in_block'', ''confirmed''} \<and> status = Submitted then InBlock
      else status)"

definition poll_status :: "'j json_ops \<Rightarrow> 'j \<Rightarrow> pending_tx \<Rightarrow> pending_tx" where
  "poll_status J tx p =
     (if has_value J tx ''transactionResult'' \<and> has_key J (member J tx ''transactionResult'') ''status''
      then p\<lparr>pt_status := next_status
        (case read_string J (member J (member J tx ''transactionResult'') ''status'') of Inr s \<Rightarrow> s | Inl _ \<Rightarrow> [])
        (pt_status p)\<rparr>
      else p)"

definition poll_update :: "'j json_ops \<Rightarrow> 'j \<Rightarrow> pending_tx \<Rightarrow> pending_tx" where
  "poll_update J data p =
     (if has_array J data ''transactions'' \<and> elements J (member J data ''transactions'') \<noteq> []
      then (let tx = hd (elements J (member J data ''transactions'')) in poll_status J tx (poll_block J tx p))
      else p)"

fun run_callbacks :: "(pending_tx \<Rightarrow> ('w, unit) call) list \<Rightarrow> pending_tx \<Rightarrow> ('w, unit) call" where
  "run_callbacks [] p = call_return ()"
| "run_callbacks (f # fs) p = call_bind (f p) (\<lambda>_. run_callbacks fs p)"

text \<open>The loop over the list: what was updated before an exception stays updated.\<close>

fun poll_loop ::
  "('w, 'j) services \<Rightarrow> 'j indexer_client \<Rightarrow> (pending_tx \<Rightarrow> ('w, unit) call) list \<Rightarrow> int \<Rightarrow> pending_tx list \<Rightarrow> 'w \<Rightarrow>
   pending_tx list \<times> exc option \<times> 'w" where
  "poll_loop V c fs now [] w = ([], None, w)"
| "poll_loop V c fs now (p # ps) w =
     (let p = p\<lparr>pt_last_checked := now\<rparr>
      in case graphql_query V c q_transaction_by_hash
           [(''hash'', mk_string (json_of V) (ensure_hex_prefix (pt_tx_hash p)))] w of
           (Inl e, w) \<Rightarrow> (p # ps, Some e, w)
         | (Inr data, w) \<Rightarrow>
             (let q = poll_update (json_of V) data p
              in case (if pt_status q \<noteq> pt_status p then run_callbacks fs q w else (Inr (), w)) of
                   (Inl e, w) \<Rightarrow> (q # ps, Some e, w)
                 | (Inr _, w) \<Rightarrow> (case poll_loop V c fs now ps w of (ps, err, w) \<Rightarrow> (q # ps, err, w))))"

definition poll_once ::
  "('w, 'j) services \<Rightarrow> ('w \<Rightarrow> int \<times> 'w) \<Rightarrow> ('w pending_service \<times> 'w, unit) call" where
  "poll_once V system_clock = (\<lambda>(s, w).
     if pending_list s = [] \<or> pending_indexer_url s = [] then (Inr (), (s, w))
     else
       (case system_clock w of
          (now, w) \<Rightarrow>
            (case new_indexer_client (pending_indexer_url s) 15000 of
               Inl e \<Rightarrow> (Inr (), (s, w))
             | Inr c \<Rightarrow>
                 (case poll_loop V c (pending_callbacks s) now (pending_list s) w of
                    (ps, err, w) \<Rightarrow>
                      (if err = Some Undefined_behaviour then Inl Undefined_behaviour else Inr (),
                       (s\<lparr>pending_list := ps\<rparr>, w))))))"

section \<open>The service from outside\<close>

text \<open>The public operations; \<^verbatim>\<open>poll_once\<close> is private and nothing calls it.\<close>

inductive pending_step :: "'w pending_service \<Rightarrow> 'w pending_service \<Rightarrow> bool" where
  step_start: "pending_step s (pending_start s)"
| step_stop: "pending_step s (pending_stop s)"
| step_add: "pending_step s (add_pending_transaction now h s)"
| step_clear: "pending_step s (pending_clear h s)"
| step_callback: "pending_step s (on_status_change f s)"

inductive pending_reachable :: "'w pending_service \<Rightarrow> bool" where
  reach_new: "pending_reachable (new_pending_service url interval)"
| reach_step: "pending_reachable s \<Longrightarrow> pending_step s s' \<Longrightarrow> pending_reachable s'"

inductive_cases pending_stepE: "pending_step s s'"

lemmas pending_ops = pending_start_def pending_stop_def add_pending_transaction_def pending_clear_def on_status_change_def

section \<open>Properties\<close>

text \<open>
  C13: A submission that is to wait for a block or for finality asks nobody: once the relay accepts the
  transaction, the status that was asked for is reported at once, after the same single request, and the hash
  the node returned is dropped for the empty one of the transaction.
\<close>

theorem submission_status_unchecked:
  assumes "json_laws J" and "bs \<noteq> []" and "relay_url s \<noteq> []" and "target \<noteq> Submitted"
    and "send http \<lparr>base_url = relay_url s, timeout_ms = relay_timeout s,
        headers = [''Content-Type'' \<mapsto> ''application/json'']\<rparr> ''/rpc''
        (Post (dump J (relay_body J bs)) ''application/json'') do_post_result w = (Inr body, w')"
    and "parse J body = Inr (mk_object J [(''result'', mk_string J h)])"
  shows "submit_transaction J http (transaction_from_bytes bs) Submitted (s, w) =
      (Inr (new_event h), (s\<lparr>relay_connected := True\<rparr>, w')) \<and>
    submit_transaction J http (transaction_from_bytes bs) target (s, w) =
      (Inr ((new_event [])\<lparr>ev_tag := target\<rparr>), (s\<lparr>relay_connected := True\<rparr>, w'))"
proof -
  note built = lawful_json.built [OF lawful_json.intro [OF assms(1)]]
  have "relay_answer J [] (mk_object J [(''result'', mk_string J h)]) = Inr (new_event h, True)"
    by (simp add: relay_answer_def built)
  moreover have "post_json J http \<lparr>base_url = relay_url s, timeout_ms = relay_timeout s,
        headers = [''Content-Type'' \<mapsto> ''application/json'']\<rparr> ''/rpc'' (relay_body J bs) w =
      (Inr (mk_object J [(''result'', mk_string J h)]), w')"
    using assms(5,6) by (simp add: post_json_def parse_body_def)
  ultimately have "submit_via_http J http (transaction_from_bytes bs) (s, w) =
      (Inr (new_event h), (s\<lparr>relay_connected := True\<rparr>, w'))"
    using assms(3)
    by (simp add: submit_via_http_def transaction_from_bytes_def new_network_client_def set_header_def call_defs)
  then show ?thesis
    using assms(2,4)
    by (simp add: submit_transaction_def transaction_from_bytes_def is_error_def new_event_def wait_for_status_def call_defs)
qed

definition sample_relay :: "nat http" where
  "sample_relay ep path hs request w = (Answer 200 ''answer'', w + 1)"

definition sample_answer_json :: "json json_ops" where
  "sample_answer_json = json_std\<lparr>parse := (\<lambda>s. Inr (JObject [(''result'', JString ''0xab'')]))\<rparr>"

lemma sample_answer_json_laws: "json_laws sample_answer_json"
  using json_std_laws by (simp add: json_laws_def sample_answer_json_def)

definition sample_submission :: submission_service where
  "sample_submission = \<lparr>relay_url = ''http://node'', relay_timeout = 30000, relay_connected = False\<rparr>"

theorem submission_status_unchecked_witness:
  "submit_transaction sample_answer_json sample_relay (transaction_from_bytes [1]) Finalized (sample_submission, 0) =
     (Inr \<lparr>ev_tag = Finalized, ev_tx_hash = [], ev_block_number = 0, ev_block_hash = [], ev_error = []\<rparr>,
      (sample_submission\<lparr>relay_connected := True\<rparr>, 1))"
proof -
  have "parse_url ''http://node'' = Inr \<lparr>ep_host = ''node'', ep_port = 80, path_prefix = [], use_tls = False\<rparr>"
    by code_simp
  then show ?thesis
    using submission_status_unchecked [OF sample_answer_json_laws, of "[1]" sample_submission Finalized sample_relay 0
        "''answer''" 1 "''0xab''"]
    by (simp add: sample_submission_def send_def sample_relay_def do_post_result_def sample_answer_json_def
        json_std_def new_event_def)
qed

definition follows :: "pending_tx \<Rightarrow> pending_tx \<Rightarrow> bool" where
  "follows p q \<longleftrightarrow> pt_tx_hash q = pt_tx_hash p \<and> pt_submitted_at q = pt_submitted_at p \<and> pt_status p \<le> pt_status q"

lemma follows_refl [simp]: "follows p p"
  by (simp add: follows_def)

lemma next_status_up: "st \<le> next_status text st"
  by (cases st) (auto simp: next_status_def less_eq_submission_tag_def)

lemma poll_update_follows: "follows p (poll_update J data (p\<lparr>pt_last_checked := now\<rparr>))"
  by (auto simp: follows_def poll_update_def poll_status_def poll_block_def next_status_up Let_def split: sum.splits)

lemma poll_loop_follows: "poll_loop V c fs now ps w = (ps', err, w') \<Longrightarrow> list_all2 follows ps ps'"
proof (induction ps arbitrary: w ps' err w')
  case (Cons p ps)
  have same: "list_all2 follows ps ps" "follows p (p\<lparr>pt_last_checked := now\<rparr>)"
    by (simp_all add: list_all2_refl follows_def)
  show ?case
    using Cons.prems Cons.IH same poll_update_follows [of p "json_of V" _ now]
    by (auto simp: Let_def split: prod.splits sum.splits)
qed simp

text \<open>
  Polling keeps the pending transactions and their order, and no status is ever taken back.
\<close>

theorem poll_status_monotone:
  assumes "poll_once V system_clock (s, w) = (r, (s', w'))"
  shows "list_all2 (\<lambda>p q. pt_tx_hash q = pt_tx_hash p \<and> pt_submitted_at q = pt_submitted_at p \<and> pt_status p \<le> pt_status q)
    (get_pending s) (get_pending s')"
proof -
  have "list_all2 follows (pending_list s) (pending_list s')"
    using assms
    by (auto simp: poll_once_def list_all2_refl split: if_splits prod.splits sum.splits dest: poll_loop_follows)
  then show ?thesis by (simp add: get_pending_def follows_def [abs_def])
qed

definition sample_poll_json :: "json json_ops" where
  "sample_poll_json = json_std\<lparr>parse := (\<lambda>s. Inr (JObject [(''data'', JObject [(''transactions'',
     JArray [JObject [(''transactionResult'', JObject [(''status'', JString ''Finalized'')])]])])]))\<rparr>"

definition sample_poll_services :: "(nat, json) services" where
  "sample_poll_services = \<lparr>json_of = sample_poll_json, http_of = sample_relay, steady_clock = (\<lambda>w. (0, w)),
     environment = (\<lambda>_. None)\<rparr>"

definition sample_pending :: "nat pending_service" where
  "sample_pending = add_pending_transaction 0 ''ab'' (new_pending_service ''http://ix/graphql'' 5000)"

lemma sample_poll:
  "map_sum id (map pt_status \<circ> get_pending \<circ> fst) (case poll_once sample_poll_services (\<lambda>w. (7, w)) (sample_pending, 0) of
     (Inr _, s) \<Rightarrow> Inr s | (Inl e, s) \<Rightarrow> Inl e) = Inr [Finalized]"
  by code_simp

theorem poll_status_monotone_witness:
  "Submitted \<le> hd (map pt_status (get_pending (fst (snd
     (poll_once sample_poll_services (\<lambda>w. (7, w)) (sample_pending, 0))))))"
proof -
  obtain r s' w' where p: "poll_once sample_poll_services (\<lambda>w. (7, w)) (sample_pending, 0) = (r, (s', w'))"
    by (cases "poll_once sample_poll_services (\<lambda>w. (7, w)) (sample_pending, 0)") auto
  have "map pt_status (get_pending s') = [Finalized]"
    using sample_poll unfolding p by (auto split: sum.splits)
  then show ?thesis
    using poll_status_monotone [OF p] p
    by (auto simp: sample_pending_def new_pending_service_def add_pending_transaction_def get_pending_def
        list_all2_Cons1 less_eq_submission_tag_def)
qed

lemma pending_step_kept:
  assumes "pending_step s s'" and "p \<in> set (pending_list s')"
  shows "p \<in> set (pending_list s) \<or> pt_status p = Submitted \<and> pt_block_number p = 0 \<and> pt_last_checked p = pt_submitted_at p"
  using assms by (auto simp: pending_ops elim!: pending_stepE)

text \<open>
  C30: Whatever is done with the service from outside, no pending transaction ever leaves the status it was
  added with or is ever checked: polling is private to the service and nothing starts it.
\<close>

theorem pending_never_advances:
  assumes "pending_reachable s" and "p \<in> set (get_pending s)"
  shows "pt_status p = Submitted \<and> pt_block_number p = 0 \<and> pt_last_checked p = pt_submitted_at p"
  using assms unfolding get_pending_def
proof (induction arbitrary: p rule: pending_reachable.induct)
  case (reach_new url interval)
  then show ?case by (simp add: new_pending_service_def)
next
  case (reach_step s s')
  then show ?case using pending_step_kept [OF reach_step.hyps(2)] by blast
qed

theorem pending_never_advances_witness:
  "map pt_status (get_pending sample_pending) = [Submitted]"
proof -
  have "pending_reachable sample_pending"
    unfolding sample_pending_def by (rule reach_step [OF reach_new step_add])
  moreover have "hd (get_pending sample_pending) \<in> set (get_pending sample_pending)"
    by (simp add: sample_pending_def add_pending_transaction_def new_pending_service_def get_pending_def)
  ultimately have "pt_status (hd (get_pending sample_pending)) = Submitted"
    using pending_never_advances by blast
  then show ?thesis
    by (simp add: sample_pending_def add_pending_transaction_def new_pending_service_def get_pending_def)
qed

end
