(* ===== verification/AddressTypes.thy ===== *)
theory AddressTypes
  imports Bech32mProps
begin

text \<open>
  Shielded addresses as objects (src/wallet/shielded_address.cpp) and the third Bech32m encoder
  (include/midnight/wallet/bech32m_encoder.hpp), with its own SCALE form of dust values. Results: reading a
  shielded address asks for a network but takes any; the third encoder agrees with the first, but its dust
  addresses do not.
\<close>

section \<open>Keys in hexadecimal\<close>

definition is_hex_char :: "char \<Rightarrow> bool" where
  "is_hex_char c \<longleftrightarrow> char_in 48 57 c \<or> char_in 97 102 c \<or> char_in 65 70 c"

definition hex_char_to_nibble :: "char \<Rightarrow> u8" where
  "hex_char_to_nibble c =
     (if char_in 48 57 c then byte_of_char c - 48
      else if char_in 97 102 c then byte_of_char c - 97 + 10
      else if char_in 65 70 c then byte_of_char c - 65 + 10
      else 0)"

fun shielded_hex_to_bytes :: "string \<Rightarrow> bytes" where
  "shielded_hex_to_bytes (a # b # s) =
     (push_bit 4 (hex_char_to_nibble a) OR hex_char_to_nibble b) # shielded_hex_to_bytes s"
| "shielded_hex_to_bytes _ = []"

definition is_valid_key_hex :: "string \<Rightarrow> bool" where
  "is_valid_key_hex s \<longleftrightarrow> length s = 64 \<and> list_all is_hex_char s"

definition shielded_bytes_to_hex :: "bytes \<Rightarrow> string" where
  "shielded_bytes_to_hex bs =
     concat (map (\<lambda>b. [kHex ! unat (drop_bit 4 b AND 0x0F), kHex ! unat (b AND 0x0F)]) bs)"

text \<open>The two classes of keys differ in the texts of their exceptions only.\<close>

datatype key_kind = Coin | Encryption

fun bad_length :: "key_kind \<Rightarrow> nat \<Rightarrow> exc" where
  "bad_length Coin n = Invalid_argument (''Coin public key needs to be 32 bytes long, got '' @ to_string n)"
| "bad_length Encryption n =
     Invalid_argument (''Encryption public key needs to be 32 bytes long, got '' @ to_string n @
       '' '' @ [CHR 0xE2, CHR 0x80, CHR 0x94] @ '' this is critical for security!'')"

fun key_class :: "key_kind \<Rightarrow> string" where
  "key_class Coin = ''ShieldedCoinPublicKey''"
| "key_class Encryption = ''ShieldedEncryptionPublicKey''"

definition key_of_bytes :: "key_kind \<Rightarrow> bytes \<Rightarrow> bytes result" where
  "key_of_bytes k bs = (if length bs \<noteq> 32 then Inl (bad_length k (length bs)) else Inr bs)"

definition key_of_hex :: "key_kind \<Rightarrow> string \<Rightarrow> bytes result" where
  "key_of_hex k s =
     (if \<not> is_valid_key_hex s
      then Inl (Invalid_argument (''Invalid hex string for '' @ key_class k @ '': must be 64 hex characters''))
      else Inr (shielded_hex_to_bytes s))"

definition key_is_valid :: "bytes \<Rightarrow> bool" where
  "key_is_valid bs \<longleftrightarrow> length bs = 32"

section \<open>Shielded addresses\<close>

record shielded_address =
  sa_coin :: bytes
  sa_encryption :: bytes
  sa_network :: network
  sa_encoded :: string

definition new_shielded_address :: "bytes \<Rightarrow> bytes \<Rightarrow> network \<Rightarrow> shielded_address result" where
  "new_shielded_address coin enc n =
     (if \<not> key_is_valid coin then Inl (Invalid_argument ''Invalid coin public key in ShieldedAddress'')
      else if \<not> key_is_valid enc then Inl (Invalid_argument ''Invalid encryption public key in ShieldedAddress'')
      else rbind (encode_shielded coin enc n) (\<lambda>s.
        Inr \<lparr>sa_coin = coin, sa_encryption = enc, sa_network = n, sa_encoded = s\<rparr>))"

definition shielded_from_string :: "string \<Rightarrow> network \<Rightarrow> shielded_address option" where
  "shielded_from_string s expected_network =
     (case rbind (decode_shielded s) (\<lambda>d.
         if length (coin_public_key d) \<noteq> 32 \<or> length (encryption_public_key d) \<noteq> 32 then Inr None
         else
           rbind (key_of_bytes Coin (coin_public_key d)) (\<lambda>coin.
           rbind (key_of_bytes Encryption (encryption_public_key d)) (\<lambda>enc.
           rbind (new_shielded_address coin enc expected_network) (\<lambda>a. Inr (Some a))))) of
        Inr r \<Rightarrow> r
      | Inl _ \<Rightarrow> None)"

definition shielded_to_string :: "shielded_address \<Rightarrow> string result" where
  "shielded_to_string a =
     (if sa_encoded a = [] then encode_shielded (sa_coin a) (sa_encryption a) (sa_network a) else Inr (sa_encoded a))"

definition shielded_equals :: "shielded_address \<Rightarrow> shielded_address \<Rightarrow> bool" where
  "shielded_equals a b \<longleftrightarrow> sa_coin a = sa_coin b \<and> sa_encryption a = sa_encryption b"

definition shielded_to_bytes :: "shielded_address \<Rightarrow> bytes" where
  "shielded_to_bytes a = sa_coin a @ sa_encryption a"

definition shielded_is_valid :: "shielded_address \<Rightarrow> bool" where
  "shielded_is_valid a \<longleftrightarrow> key_is_valid (sa_coin a) \<and> key_is_valid (sa_encryption a)"

section \<open>The third encoder\<close>

text \<open>The \<^verbatim>\<open>int\<close> buffer as a word: only its low bits are read.\<close>

fun bytes_to_words_loop :: "bytes \<Rightarrow> u32 \<Rightarrow> nat \<Rightarrow> bytes" where
  "bytes_to_words_loop [] buffer bits = (if 0 < bits then [ucast (push_bit (5 - bits) buffer AND 0x1F)] else [])"
| "bytes_to_words_loop (byte # data) buffer bits =
     (let buffer = push_bit 8 buffer OR ucast byte;
          (ws, bits) = emit_groups 5 buffer (bits + 8)
      in ws @ bytes_to_words_loop data buffer bits)"

definition bytes_to_words :: "bytes \<Rightarrow> bytes" where
  "bytes_to_words data = bytes_to_words_loop data 0 0"

definition encoder_step :: "u32 \<Rightarrow> u8 \<Rightarrow> u32" where
  "encoder_step chk v =
     (let top = (ucast (drop_bit 25 chk) :: u8);
          chk = push_bit 5 (chk AND 0x1FFFFFF) XOR ucast v;
          chk = (if top AND 1 \<noteq> 0 then chk XOR 0x3B6A57B2 else chk);
          chk = (if top AND 2 \<noteq> 0 then chk XOR 0x26508E6D else chk);
          chk = (if top AND 4 \<noteq> 0 then chk XOR 0x1EA119FA else chk);
          chk = (if top AND 8 \<noteq> 0 then chk XOR 0x3D4233DD else chk);
          chk = (if top AND 16 \<noteq> 0 then chk XOR 0x2A1462B3 else chk)
      in chk)"

definition encoder_polymod :: "bytes \<Rightarrow> u32" where
  "encoder_polymod vs = foldl encoder_step 1 vs"

definition encoder_expand_hrp :: "string \<Rightarrow> bytes" where
  "encoder_expand_hrp hrp =
     map (\<lambda>c. drop_bit 5 (byte_of_char c)) hrp @ [0] @ map (\<lambda>c. byte_of_char c AND 31) hrp"

definition encoder_raw :: "string \<Rightarrow> bytes \<Rightarrow> string" where
  "encoder_raw hrp ws =
     (let checksum = encoder_polymod (encoder_expand_hrp hrp @ ws @ [0, 0, 0, 0, 0, 0]) XOR 0x2BC830A3
      in hrp @ ''1'' @ map (\<lambda>w. ''qpzry9x8gf2tvdw0s3jn54khce6mua7l'' ! unat w)
           (ws @ map (\<lambda>i. ucast (drop_bit (5 * (5 - i)) checksum AND 31)) [0..<6]))"

definition encoder_encode :: "string \<Rightarrow> bytes \<Rightarrow> string" where
  "encoder_encode hrp data = encoder_raw hrp (bytes_to_words data)"

text \<open>Leading zeros are dropped down to the last byte.\<close>

fun strip_zeros :: "bytes \<Rightarrow> bytes" where
  "strip_zeros (b # c # bs) = (if b = 0 then strip_zeros (c # bs) else b # c # bs)"
| "strip_zeros bs = bs"

definition be_value :: "bytes \<Rightarrow> u64" where
  "be_value bs = foldl (\<lambda>acc b. push_bit 8 acc OR ucast b) 0 bs"

text \<open>On no bytes the C++ reads one outside the buffer.\<close>

definition scale_bigint_encode_be :: "bytes \<Rightarrow> bytes result" where
  "scale_bigint_encode_be be =
     (if be = [] then Inl Undefined_behaviour
      else
        (let digits = strip_zeros be; actual = length digits; v = be_value digits
         in Inr
           (if actual \<le> 4 then
              (if v < 0x40 then [ucast (push_bit 2 v)]
               else if v < 0x4000 then [ucast (push_bit 2 (drop_bit 8 v) OR 0x01), ucast (v AND 0xFF)]
               else if v < 0x40000000
               then [ucast (push_bit 2 (drop_bit 24 v) OR 0x02), ucast (drop_bit 16 v AND 0xFF),
                 ucast (drop_bit 8 v AND 0xFF), ucast (v AND 0xFF)]
               else ucast (push_bit 2 (word_of_nat actual - 4 :: u64) OR 0x03) # digits)
            else ucast (push_bit 2 (word_of_nat actual - 4 :: u64) OR 0x03) # digits)))"

definition scalar_le_to_be_32 :: "bytes \<Rightarrow> bytes result" where
  "scalar_le_to_be_32 le = rbind (read_slice le 0 32) (\<lambda>bs. Inr (rev bs))"

definition encoder_hrp :: "string \<Rightarrow> string \<Rightarrow> string" where
  "encoder_hrp prefix network =
     prefix @ (if network = [] \<or> network = ''mainnet'' then [] else ''_'' @ network)"

definition encoder_unshielded :: "bytes \<Rightarrow> string \<Rightarrow> string" where
  "encoder_unshielded pk network = encoder_encode (encoder_hrp ''mn_addr'' network) pk"

definition encode_dust_from_scalar :: "bytes \<Rightarrow> string \<Rightarrow> string result" where
  "encode_dust_from_scalar scalar_le network =
     rbind (scalar_le_to_be_32 scalar_le) (\<lambda>be.
     rbind (scale_bigint_encode_be be) (\<lambda>scale. Inr (encoder_encode (encoder_hrp ''mn_dust'' network) scale)))"

definition encode_dust_from_bigint_be :: "bytes \<Rightarrow> string \<Rightarrow> string result" where
  "encode_dust_from_bigint_be be network =
     rbind (scale_bigint_encode_be be) (\<lambda>scale. Inr (encoder_encode (encoder_hrp ''mn_dust'' network) scale))"

definition encoder_shielded :: "bytes \<Rightarrow> string \<Rightarrow> string" where
  "encoder_shielded pk network = encoder_encode (encoder_hrp ''mn_shield-addr'' network) pk"

section \<open>Properties\<close>

lemma decode_encode_shielded:
  assumes "length coin = 32" and "length enc = 32"
  shows "\<exists>s. encode_shielded coin enc n = Inr s \<and>
    decode_shielded s = Inr \<lparr>coin_public_key = coin, encryption_public_key = enc\<rparr>"
proof -
  have "coin @ enc \<noteq> []" using assms by auto
  then have "bech32m_decode (bech32m_encode (get_hrp ''shield-addr'' n) (coin @ enc)) =
      Inr \<lparr>hrp_of = get_hrp ''shield-addr'' n, data_of = coin @ enc\<rparr>"
    using words_roundtrip [OF get_hrp_lower(4) get_hrp_lower(2)] by simp
  moreover have "take 14 (get_hrp ''shield-addr'' n) = ''mn_shield-addr''" by (simp add: get_hrp_def)
  ultimately show ?thesis using assms by (simp add: encode_shielded_def decode_shielded_def)
qed

text \<open>
  The network that is asked for when a shielded address is read is not checked: an address of any network
  is accepted, keeps its keys, and is an address of the network asked for from then on.
\<close>

theorem shielded_network_unchecked:
  assumes "new_shielded_address coin enc issued = Inr a"
  shows "\<exists>b. shielded_from_string (sa_encoded a) expected = Some b \<and> shielded_equals a b \<and>
    sa_network b = expected \<and> encode_shielded coin enc expected = Inr (sa_encoded b)"
proof -
  have l: "length coin = 32" "length enc = 32" and a: "sa_coin a = coin" "sa_encryption a = enc"
      "encode_shielded coin enc issued = Inr (sa_encoded a)"
    using assms by (auto simp: new_shielded_address_def key_is_valid_def rbind_eq_Inr split: if_splits)
  obtain s where s: "encode_shielded coin enc issued = Inr s"
      "decode_shielded s = Inr \<lparr>coin_public_key = coin, encryption_public_key = enc\<rparr>"
    using decode_encode_shielded [OF l] by blast
  obtain t where "encode_shielded coin enc expected = Inr t" using decode_encode_shielded [OF l] by blast
  then show ?thesis
    using l a s by (simp add: shielded_from_string_def key_of_bytes_def new_shielded_address_def key_is_valid_def
        shielded_equals_def)
qed

theorem shielded_network_unchecked_witness:
  "\<exists>a b. new_shielded_address (replicate 32 7) (replicate 32 9) PreProd = Inr a \<and>
     shielded_from_string (sa_encoded a) Mainnet = Some b \<and> sa_network b = Mainnet"
proof -
  obtain a where "new_shielded_address (replicate 32 7) (replicate 32 9) PreProd = Inr a"
    by (simp add: new_shielded_address_def key_is_valid_def encode_shielded_def)
  then show ?thesis using shielded_network_unchecked by blast
qed

lemma bytes_to_words_eq: "bytes_to_words_loop data buffer bits = to_words_loop data buffer bits"
  by (induction data buffer bits rule: bytes_to_words_loop.induct)
    (auto simp: mask_eq_exp_minus_1 Let_def split: prod.splits)

lemma third_agrees: "encoder_encode hrp data = bech32m_encode hrp data"
proof -
  have "encoder_step = polymod_step" by (intro ext) (simp only: encoder_step_def polymod_step_def)
  moreover have "replicate 6 0 = [0, 0, 0, 0, 0, 0 :: u8]" by (simp add: eval_nat_numeral)
  moreover have "(\<lambda>w. ''qpzry9x8gf2tvdw0s3jn54khce6mua7l'' ! unat w) = charset_char"
    by (simp add: charset_char_def CHARSET_def fun_eq_iff)
  ultimately show ?thesis
    by (simp only: encoder_encode_def encoder_raw_def bech32m_encode_def bytes_to_words_def to_words_def
        bytes_to_words_eq create_checksum_def checksum_words_def CHECKSUM_SIZE_def polymod_def encoder_polymod_def
        encoder_expand_hrp_def expand_hrp_def BECH32M_CONST_def Let_def map_append append_assoc)
qed

lemma encoder_hrp_eq: "encoder_hrp ''mn_dust'' (network_to_string n) = get_hrp ''dust'' n"
  by (cases n) (simp_all add: encoder_hrp_def get_hrp_def)

lemma bech32m_encode_inj:
  assumes "hrp \<noteq> []" and "\<forall>c \<in> set hrp. \<not> isupper c" and "xs \<noteq> []" and "ys \<noteq> []"
  shows "bech32m_encode hrp xs = bech32m_encode hrp ys \<longleftrightarrow> xs = ys"
proof
  assume eq: "bech32m_encode hrp xs = bech32m_encode hrp ys"
  have "Inr \<lparr>hrp_of = hrp, data_of = xs\<rparr> = bech32m_decode (bech32m_encode hrp xs)"
    by (rule words_roundtrip [OF assms(1,2,3), symmetric])
  also have "\<dots> = bech32m_decode (bech32m_encode hrp ys)" by (simp only: eq)
  also have "\<dots> = Inr \<lparr>hrp_of = hrp, data_of = ys\<rparr>" by (rule words_roundtrip [OF assms(1,2,4)])
  finally show "xs = ys" by simp
qed simp

lemma strip_zeros_id: "hd bs \<noteq> 0 \<Longrightarrow> strip_zeros bs = bs"
  by (cases bs rule: strip_zeros.cases) simp_all

text \<open>
  Of a scalar of 32 bytes that needs all of them, the two encoders write the bytes in opposite orders: their
  dust addresses are the same only if the scalar reads the same from both ends.
\<close>

theorem dust_encoders_disagree:
  assumes "length s = 32" and "last s \<noteq> 0"
  shows "encode_dust_from_scalar s (network_to_string n) = encode_dust s n \<longleftrightarrow> rev s = s"
proof -
  have ne: "s \<noteq> []" "rev s \<noteq> []" using assms(1) by auto
  then have "hd (rev s) \<noteq> 0" using assms(2) by (simp add: hd_rev)
  then have z: "strip_zeros (rev s) = rev s" by (rule strip_zeros_id)
  let ?h = "ucast (push_bit 2 (word_of_nat 32 - 4 :: u64) OR 0x03) :: u8"
  have "scale_bigint_encode_be (rev s) = Inr (?h # rev s)"
    using ne assms(1) by (simp add: scale_bigint_encode_be_def z)
  moreover have "scalar_le_to_be_32 s = Inr (rev s)"
    using assms(1) by (simp add: scalar_le_to_be_32_def read_slice_def)
  ultimately have "encode_dust_from_scalar s (network_to_string n) = Inr (bech32m_encode (get_hrp ''dust'' n) (?h # rev s))"
    by (simp add: encode_dust_from_scalar_def encoder_hrp_eq third_agrees)
  moreover have "encode_dust s n = Inr (bech32m_encode (get_hrp ''dust'' n) (?h # s))"
    using ne assms(1) by (simp add: encode_dust_def)
  ultimately show ?thesis
    using bech32m_encode_inj [OF get_hrp_lower(4) get_hrp_lower(3), of "?h # rev s" "?h # s"] by simp
qed

theorem dust_encoders_disagree_witness:
  "encode_dust_from_scalar (1 # replicate 30 0 @ [2]) ''preprod'' \<noteq> encode_dust (1 # replicate 30 0 @ [2]) PreProd"
  using dust_encoders_disagree [of "1 # replicate 30 0 @ [2]" PreProd] by simp

end
