(* ===== verification/Base64.thy ===== *)
theory Base64
  imports Strings
begin

text \<open>
  Base64 as the wallet facade writes it and as the facade and the wallet store read it
  (src/wallet/wallet_facade.cpp, src/blockchain/wallet_manager.cpp). The reader looks up the values of the
  characters of full groups of four only; a last group with padding is read as raw characters. So exactly the
  texts of whole groups are read back.
\<close>

section \<open>The alphabet\<close>

definition b64_chars :: string where
  "b64_chars = ''ABCDEFGHIJKLMNOPQRSTUVWXYZabcdefghijklmnopqrstuvwxyz0123456789+/''"

definition b64_char :: "u8 \<Rightarrow> char" where
  "b64_char v = b64_chars ! unat v"

text \<open>The table, \<open>- 1\<close> as a byte outside the alphabet.\<close>

definition b64_value :: "char \<Rightarrow> u8" where
  "b64_value c = (case find_char c b64_chars of Some i \<Rightarrow> word_of_nat i | None \<Rightarrow> - 1)"

section \<open>Writing\<close>

fun base64_encode :: "bytes \<Rightarrow> string" where
  "base64_encode [] = []"
| "base64_encode [a] =
     [b64_char (drop_bit 2 (a AND 0xFC)), b64_char (push_bit 4 (a AND 0x03)), CHR ''='', CHR ''='']"
| "base64_encode [a, b] =
     [b64_char (drop_bit 2 (a AND 0xFC)), b64_char (push_bit 4 (a AND 0x03) + drop_bit 4 (b AND 0xF0)),
      b64_char (push_bit 2 (b AND 0x0F)), CHR ''='']"
| "base64_encode (a # b # c # bs) =
     [b64_char (drop_bit 2 (a AND 0xFC)), b64_char (push_bit 4 (a AND 0x03) + drop_bit 4 (b AND 0xF0)),
      b64_char (push_bit 2 (b AND 0x0F) + drop_bit 6 (c AND 0xC0)), b64_char (c AND 0x3F)] @ base64_encode bs"

section \<open>Reading\<close>

definition isalnum :: "char \<Rightarrow> bool" where
  "isalnum c \<longleftrightarrow> isdigit c \<or> isupper c \<or> islower c"

definition b64_join :: "u8 \<Rightarrow> u8 \<Rightarrow> u8" where
  "b64_join x y = push_bit 2 x + drop_bit 4 (y AND 0x30)"

text \<open>The groups of four; what is left is read without the table.\<close>

fun b64_groups :: "string \<Rightarrow> bytes" where
  "b64_groups (p # q # r # s # cs) =
     [b64_join (b64_value p) (b64_value q),
      push_bit 4 (b64_value q AND 0x0F) + drop_bit 2 (b64_value r AND 0x3C),
      push_bit 6 (b64_value r AND 0x03) + b64_value s] @ b64_groups cs"
| "b64_groups [p, q, r] = [b64_join (byte_of_char p) (byte_of_char q), b64_join (byte_of_char q) (byte_of_char r)]"
| "b64_groups [p, q] = [b64_join (byte_of_char p) (byte_of_char q)]"
| "b64_groups _ = []"

definition base64_decode :: "string \<Rightarrow> bytes" where
  "base64_decode input =
     b64_groups (filter (\<lambda>c. isalnum c \<or> c = CHR ''+'' \<or> c = CHR ''/'') (takeWhile (\<lambda>c. c \<noteq> CHR ''='') input))"

definition base64_decode_state :: "string \<Rightarrow> bytes" where
  "base64_decode_state input = base64_decode input"

section \<open>What is read back\<close>

definition b64_legal :: "char \<Rightarrow> bool" where
  "b64_legal c \<longleftrightarrow> (isalnum c \<or> c = CHR ''+'' \<or> c = CHR ''/'') \<and> c \<noteq> CHR ''=''"

text \<open>The 64 characters: legal, with their own values, and never read right without the table.\<close>

lemma b64_table:
  "list_all (\<lambda>i. b64_legal (b64_chars ! i) \<and> find_char (b64_chars ! i) b64_chars = Some i \<and>
     of_char (b64_chars ! i) mod 64 \<noteq> i) [0..<64]"
  by code_simp

lemma b64_index:
  assumes "unat v < 64"
  shows "b64_legal (b64_char v)" "b64_value (b64_char v) = v" "unat (byte_of_char (b64_char v)) mod 64 \<noteq> unat v"
  using assms b64_table by (auto simp: list_all_iff b64_char_def b64_value_def)

lemma plus_or: "(\<And>n. \<not> (bit x n \<and> bit y n)) \<Longrightarrow> x + y = x OR y" for x y :: u8
  by (rule disjunctive_add_eq_or) (auto simp: bit_eq_iff bit_simps)

lemma bit_beyond: "8 \<le> n \<Longrightarrow> bit x n = False" for x :: u8
  using bit_imp_le_length [of x n] by auto

lemma byte_eqI:
  fixes x y :: u8
  assumes "bit x 0 = bit y 0" "bit x 1 = bit y 1" "bit x 2 = bit y 2" "bit x 3 = bit y 3"
    "bit x 4 = bit y 4" "bit x 5 = bit y 5" "bit x 6 = bit y 6" "bit x 7 = bit y 7"
  shows "x = y"
proof (rule bit_word_eqI)
  fix n
  assume "n < LENGTH(8)"
  then have "n \<in> {0, 1, 2, 3, 4, 5, 6, 7}" by auto
  then show "bit x n = bit y n" using assms by auto
qed

lemma b64_masks:
  "(0xFC :: u8) = NOT (mask 2)" "(0x03 :: u8) = mask 2" "(0xF0 :: u8) = NOT (mask 4)" "(0x0F :: u8) = mask 4"
  "(0xC0 :: u8) = NOT (mask 6)" "(0x3F :: u8) = mask 6" "(0x30 :: u8) = push_bit 4 (mask 2)"
  "(0x3C :: u8) = push_bit 2 (mask 4)"
  by (simp_all add: mask_eq_exp_minus_1)

text \<open>The six-bit values of the characters, and that they stay below 64.\<close>

definition sextets :: "u8 \<Rightarrow> u8 \<Rightarrow> u8 \<Rightarrow> u8 \<times> u8 \<times> u8 \<times> u8" where
  "sextets a b c =
     (drop_bit 2 a, push_bit 4 (take_bit 2 a) OR drop_bit 4 b, push_bit 2 (take_bit 4 b) OR drop_bit 6 c, take_bit 6 c)"

lemma sextet_terms:
  fixes a b c :: u8
  shows "drop_bit 2 (a AND 0xFC) = drop_bit 2 a"
    and "push_bit 4 (a AND 0x03) + drop_bit 4 (b AND 0xF0) = push_bit 4 (take_bit 2 a) OR drop_bit 4 b"
    and "push_bit 2 (b AND 0x0F) + drop_bit 6 (c AND 0xC0) = push_bit 2 (take_bit 4 b) OR drop_bit 6 c"
    and "c AND 0x3F = take_bit 6 c"
proof -
  have m: "drop_bit k (x AND NOT (mask k)) = drop_bit k x" for x :: u8 and k
    by (rule bit_word_eqI) (auto simp: bit_simps dest: bit_imp_le_length)
  show "drop_bit 2 (a AND 0xFC) = drop_bit 2 a" unfolding b64_masks by (rule m)
  show "c AND 0x3F = take_bit 6 c" unfolding b64_masks by (simp add: take_bit_eq_mask)
  show "push_bit 4 (a AND 0x03) + drop_bit 4 (b AND 0xF0) = push_bit 4 (take_bit 2 a) OR drop_bit 4 b"
    unfolding b64_masks m take_bit_eq_mask [symmetric] by (rule plus_or) (auto simp: bit_simps dest: bit_imp_le_length)
  show "push_bit 2 (b AND 0x0F) + drop_bit 6 (c AND 0xC0) = push_bit 2 (take_bit 4 b) OR drop_bit 6 c"
    unfolding b64_masks m take_bit_eq_mask [symmetric] by (rule plus_or) (auto simp: bit_simps dest: bit_imp_le_length)
qed

lemma b64_join_masks: "b64_join x y = push_bit 2 x + drop_bit 4 (y AND push_bit 4 (mask 2))"
  unfolding b64_join_def b64_masks by simp

lemma small_sextet: "(\<And>n. bit v n \<Longrightarrow> n < 6) \<Longrightarrow> unat v < 64" for v :: u8
proof -
  assume "\<And>n. bit v n \<Longrightarrow> n < 6"
  then have "take_bit 6 v = v" by (intro bit_word_eqI) (auto simp: bit_simps)
  then have "unat v = unat (take_bit 6 v)" by simp
  also have "\<dots> = take_bit 6 (unat v)" by (simp add: unsigned_take_bit_eq)
  also have "\<dots> < 2 ^ 6" by (rule take_bit_nat_less_exp)
  finally show ?thesis by simp
qed

text \<open>The three bytes of a group of four characters, from their values.\<close>

lemma sextets_joined:
  fixes a b c :: u8
  assumes "sextets a b c = (p, q, r, s)"
  shows "b64_join p q = a" "push_bit 4 (q AND 0x0F) + drop_bit 2 (r AND 0x3C) = b" "push_bit 6 (r AND 0x03) + s = c"
    and "unat p < 64" "unat q < 64" "unat r < 64" "unat s < 64"
proof -
  have bits: "p = drop_bit 2 a" "q = push_bit 4 (take_bit 2 a) OR drop_bit 4 b"
      "r = push_bit 2 (take_bit 4 b) OR drop_bit 6 c" "s = take_bit 6 c"
    using assms by (simp_all add: sextets_def)
  have len: "bit x n \<Longrightarrow> n < 8" for x :: u8 and n using bit_imp_le_length [of x n] by simp
  show "unat p < 64" "unat q < 64" "unat r < 64" "unat s < 64"
    unfolding bits by (rule small_sextet, auto simp: bit_simps dest: len)+
  show "b64_join p q = a"
    unfolding b64_join_masks bits
    by (subst plus_or, force simp: bit_simps dest: len) (rule byte_eqI; simp add: bit_simps bit_beyond)
  show "push_bit 4 (q AND 0x0F) + drop_bit 2 (r AND 0x3C) = b"
    unfolding b64_masks bits
    by (subst plus_or, force simp: bit_simps dest: len) (rule byte_eqI; simp add: bit_simps bit_beyond)
  show "push_bit 6 (r AND 0x03) + s = c"
    unfolding b64_masks bits
    by (subst plus_or, force simp: bit_simps dest: len) (rule byte_eqI; simp add: bit_simps bit_beyond)
qed

lemma b64_join_high: "b64_join x y = a \<Longrightarrow> take_bit 6 x = drop_bit 2 a"
proof -
  have "b64_join x y = push_bit 2 x OR drop_bit 4 (y AND push_bit 4 (mask 2))"
    unfolding b64_join_masks by (rule plus_or) (auto simp: bit_simps)
  then show "b64_join x y = a \<Longrightarrow> take_bit 6 x = drop_bit 2 a"
    by (auto intro!: byte_eqI simp: bit_simps bit_beyond)
qed

lemma b64_raw:
  assumes v: "unat v < 64"
  shows "b64_join (byte_of_char (b64_char v)) y \<noteq> a \<or> v \<noteq> drop_bit 2 a"
proof (rule ccontr)
  assume "\<not> ?thesis"
  then have "take_bit 6 (byte_of_char (b64_char v)) = drop_bit 2 a" "v = drop_bit 2 a"
    by (auto intro: b64_join_high)
  then have "take_bit 6 (byte_of_char (b64_char v)) = v" by simp
  then have "unat (take_bit 6 (byte_of_char (b64_char v))) = unat v" by (rule arg_cong)
  then have "take_bit 6 (unat (byte_of_char (b64_char v))) = unat v" by (simp only: unsigned_take_bit_eq) 
  then show False using b64_index(3) [OF v] by (simp only: take_bit_eq_mod) simp
qed

lemma b64_decode_group:
  assumes "b64_legal p" "b64_legal q" "b64_legal r" "b64_legal s"
  shows "base64_decode (p # q # r # s # cs) =
    [b64_join (b64_value p) (b64_value q),
      push_bit 4 (b64_value q AND 0x0F) + drop_bit 2 (b64_value r AND 0x3C),
      push_bit 6 (b64_value r AND 0x03) + b64_value s] @ base64_decode cs"
  using assms by (simp add: base64_decode_def b64_legal_def)

lemma b64_decode_tail:
  assumes "b64_legal p" "b64_legal q"
  shows "base64_decode (p # q # CHR ''='' # cs) = [b64_join (byte_of_char p) (byte_of_char q)]"
    and "b64_legal r \<Longrightarrow> base64_decode (p # q # r # CHR ''='' # cs) =
      [b64_join (byte_of_char p) (byte_of_char q), b64_join (byte_of_char q) (byte_of_char r)]"
  using assms by (simp_all add: base64_decode_def b64_legal_def)

lemma b64_group_read: "base64_decode (base64_encode (a # b # c # bs)) = [a, b, c] @ base64_decode (base64_encode bs)"
proof -
  obtain p q r s where x: "sextets a b c = (p, q, r, s)" by (cases "sextets a b c")
  have "base64_encode (a # b # c # bs) = [b64_char p, b64_char q, b64_char r, b64_char s] @ base64_encode bs"
    using x sextet_terms(1) [of a] sextet_terms(2) [of a b] sextet_terms(3) [of b c] sextet_terms(4) [of c]
    by (simp del: bit_simps add: sextets_def)
  then show ?thesis using sextets_joined [OF x] by (simp add: b64_decode_group b64_index)
qed

lemma b64_first_wrong: "sextets a b c = (p, q, r, s) \<Longrightarrow> b64_join (byte_of_char (b64_char p)) y \<noteq> a"
  using b64_raw [OF sextets_joined(4), of a b c p q r s y a] by (auto simp: sextets_def)

lemma b64_tail_one: "\<exists>x. base64_decode (base64_encode [a]) = [x] \<and> x \<noteq> a"
proof -
  obtain p q r s where x: "sextets a 0 0 = (p, q, r, s)" by (cases "sextets a 0 0")
  have "drop_bit 2 (a AND 0xFC) = p" "push_bit 4 (a AND 0x03) = q"
    using x sextet_terms(1) [of a] sextet_terms(2) [of a 0] by (auto simp: sextets_def)
  then show ?thesis
    using b64_index(1) sextets_joined(4,5) [OF x] b64_first_wrong [OF x]
    by (simp del: bit_simps add: b64_decode_tail)
qed

lemma b64_tail_two: "\<exists>x y. base64_decode (base64_encode [a, b]) = [x, y] \<and> x \<noteq> a"
proof -
  obtain p q r s where x: "sextets a b 0 = (p, q, r, s)" by (cases "sextets a b 0")
  have "drop_bit 2 (a AND 0xFC) = p" "push_bit 4 (a AND 0x03) + drop_bit 4 (b AND 0xF0) = q"
      "push_bit 2 (b AND 0x0F) = r"
    using x sextet_terms(1) [of a] sextet_terms(2) [of a b] sextet_terms(3) [of b 0] by (auto simp: sextets_def)
  then show ?thesis
    using b64_index(1) sextets_joined(4,5,6) [OF x] b64_first_wrong [OF x]
    by (simp del: bit_simps add: b64_decode_tail)
qed

lemma append_take_eq: "take k xs @ t = xs \<longleftrightarrow> t = drop k xs"
proof -
  have "take k xs @ t = xs \<longleftrightarrow> take k xs @ t = take k xs @ drop k xs" by (simp only: append_take_drop_id)
  then show ?thesis by (simp only: same_append_eq)
qed

text \<open>What is read back: the whole groups, and as many other bytes as were written.\<close>

lemma base64_whole_groups:
  "\<exists>tail. base64_decode (base64_encode bs) = take (3 * (length bs div 3)) bs @ tail \<and>
     length tail = length bs mod 3 \<and> (tail = drop (3 * (length bs div 3)) bs \<longleftrightarrow> length bs mod 3 = 0)"
proof (induction bs rule: base64_encode.induct)
  case 1
  show ?case by (simp add: base64_decode_def)
next
  case (2 a)
  then show ?case using b64_tail_one [of a] by auto
next
  case (3 a b)
  then show ?case using b64_tail_two [of a b] by auto
next
  case (4 a b c bs)
  have "length (a # b # c # bs) = length bs + 3" by simp
  then have n: "length (a # b # c # bs) div 3 = Suc (length bs div 3)" "length (a # b # c # bs) mod 3 = length bs mod 3"
    by presburger+
  have k: "3 * Suc k = Suc (Suc (Suc (3 * k)))" for k by simp
  obtain tail where "base64_decode (base64_encode bs) = take (3 * (length bs div 3)) bs @ tail \<and>
      length tail = length bs mod 3 \<and> (tail = drop (3 * (length bs div 3)) bs \<longleftrightarrow> length bs mod 3 = 0)"
    by (rule exE [OF "4.IH"])
  then show ?case
    unfolding b64_group_read n k by (intro exI [of _ tail]) simp
qed

text \<open>
  C36: Base64 as it is written here is read back exactly when the number of bytes is a multiple of three: a
  last group with padding is never read right.
\<close>

theorem base64_read_back: "base64_decode (base64_encode bs) = bs \<longleftrightarrow> length bs mod 3 = 0"
proof -
  obtain tail where t: "base64_decode (base64_encode bs) = take (3 * (length bs div 3)) bs @ tail \<and>
      length tail = length bs mod 3 \<and> (tail = drop (3 * (length bs div 3)) bs \<longleftrightarrow> length bs mod 3 = 0)"
    by (rule exE [OF base64_whole_groups])
  then have "base64_decode (base64_encode bs) = bs \<longleftrightarrow> tail = drop (3 * (length bs div 3)) bs"
    by (simp only: append_take_eq)
  with t show ?thesis by (simp only:)
qed

end
