(* ===== verification/WalletFacade.thy ===== *)
theory WalletFacade
  imports WalletServices AddressTypes Base64 Sodium Balancer
begin

text \<open>
  The wallet facade (include/midnight/wallet/wallet_facade.hpp, src/wallet/wallet_facade.cpp): its state, how it
  is made from a seed phrase, and how it is saved and restored, in the clear and encrypted. The ledger library
  that derives the official addresses, the cryptography, JSON, HTTP and the clock are parameters. Results: a
  wallet that is saved and restored keeps its coins and balances but loses its pending coins and its keys for
  good; the encrypted form can be read back only when the saved text happens to have a length that is a
  multiple of three.
\<close>

section \<open>State\<close>

record sync_progress =
  applied_id :: u64
  highest_transaction_id :: u64
  progress_connected :: bool

definition new_progress :: sync_progress where
  "new_progress = \<lparr>applied_id = 0, highest_transaction_id = 0, progress_connected = False\<rparr>"

definition is_strictly_complete :: "sync_progress \<Rightarrow> bool" where
  "is_strictly_complete p \<longleftrightarrow> progress_connected p \<and> highest_transaction_id p \<le> applied_id p"

definition is_complete_within :: "sync_progress \<Rightarrow> u64 \<Rightarrow> bool" where
  "is_complete_within p max_gap \<longleftrightarrow> progress_connected p \<and> highest_transaction_id p \<le> applied_id p + max_gap"

text \<open>The balances are a \<^verbatim>\<open>std::map\<close>: sorted by token.\<close>

record unshielded_state =
  us_address :: string
  us_balances :: "(string \<times> u64) list"
  available_coins :: "utxo_with_meta list"
  pending_coins :: "utxo_with_meta list"
  us_synced :: bool
  us_progress :: sync_progress

record dust_state =
  ds_address :: string
  ds_balance :: u64
  ds_registered :: bool
  registered_night_amount :: u64

record shielded_state =
  ss_address :: string
  ss_utxos :: "indexed_utxo list"

record facade_state =
  fs_unshielded :: unshielded_state
  fs_dust :: dust_state
  fs_shielded :: shielded_state

definition new_facade_state :: facade_state where
  "new_facade_state =
     \<lparr>fs_unshielded = \<lparr>us_address = [], us_balances = [], available_coins = [], pending_coins = [],
        us_synced = False, us_progress = new_progress\<rparr>,
      fs_dust = \<lparr>ds_address = [], ds_balance = 0, ds_registered = False, registered_night_amount = 0\<rparr>,
      fs_shielded = \<lparr>ss_address = [], ss_utxos = []\<rparr>\<rparr>"

definition night_balance :: "facade_state \<Rightarrow> u64" where
  "night_balance s = (case map_of (us_balances (fs_unshielded s)) ''NIGHT'' of Some v \<Rightarrow> v | None \<Rightarrow> 0)"

definition facade_is_synced :: "facade_state \<Rightarrow> bool" where
  "facade_is_synced s = us_synced (fs_unshielded s)"

datatype coin_strategy = LargestFirst | SmallestFirst | RandomImprove

record 'w wallet_facade =
  wf_hd :: hd_wallet
  night_key :: key_pair
  night_internal_key :: key_pair
  dust_key :: key_pair
  zswap_key :: key_pair
  metadata_key :: key_pair
  night_addr :: string
  dust_addr :: string
  shielded_addr :: string
  wf_indexer_url :: string
  wf_network :: network
  wf_state :: facade_state
  cleared :: bool
  running :: bool
  strategy :: coin_strategy
  wf_submission :: "submission_service option"
  wf_proving :: "proving_service option"
  wf_pending :: "'w pending_service option"

definition no_key :: key_pair where
  "no_key = \<lparr>secret_key = [], public_key = [], key_address = []\<rparr>"

definition new_facade :: "'w wallet_facade" where
  "new_facade =
     \<lparr>wf_hd = \<lparr>wallet_seed = [], master_key = [], master_chain = []\<rparr>, night_key = no_key, night_internal_key = no_key,
      dust_key = no_key, zswap_key = no_key, metadata_key = no_key, night_addr = [], dust_addr = [],
      shielded_addr = [], wf_indexer_url = [], wf_network = PreProd, wf_state = new_facade_state, cleared = False,
      running = False, strategy = LargestFirst, wf_submission = None, wf_proving = None, wf_pending = None\<rparr>"

text \<open>The addresses of the wallet and of its state.\<close>

definition set_addresses :: "string \<Rightarrow> string \<Rightarrow> string \<Rightarrow> 'w wallet_facade \<Rightarrow> 'w wallet_facade" where
  "set_addresses night dust shielded f =
     f\<lparr>night_addr := night, dust_addr := dust, shielded_addr := shielded,
       wf_state := (wf_state f)
         \<lparr>fs_unshielded := (fs_unshielded (wf_state f))\<lparr>us_address := night\<rparr>,
          fs_dust := (fs_dust (wf_state f))\<lparr>ds_address := dust\<rparr>,
          fs_shielded := (fs_shielded (wf_state f))\<lparr>ss_address := shielded\<rparr>\<rparr>\<rparr>"

section \<open>Making a wallet\<close>

definition from_wallet :: "crypto \<Rightarrow> hd_wallet \<Rightarrow> string \<Rightarrow> network \<Rightarrow> 'w wallet_facade result" where
  "from_wallet cr hdw url n =
     rbind (derive_night cr hdw 0 0) (\<lambda>nk.
     rbind (derive_night_internal cr hdw 0 0) (\<lambda>nik.
     rbind (derive_dust cr hdw 0 0) (\<lambda>dk.
     rbind (derive_zswap cr hdw 0 0) (\<lambda>zk.
     rbind (derive_metadata cr hdw 0 0) (\<lambda>mk.
     rbind (encode_unshielded (public_key nk) n) (\<lambda>na.
     rbind (encode_dust_from_pubkey (public_key dk) n) (\<lambda>da.
     rbind (derive_shielded_encryption_key cr (secret_key zk)) (\<lambda>enc.
     rbind (encode_shielded (public_key zk) enc n) (\<lambda>sa.
       Inr (set_addresses na da sa (new_facade
         \<lparr>wf_hd := hdw, wf_indexer_url := url, wf_network := n, night_key := nk, night_internal_key := nik,
          dust_key := dk, zswap_key := zk, metadata_key := mk\<rparr>)))))))))))"

text \<open>
  What a ledger library answers: it cannot be loaded, cannot derive addresses, refuses this seed, or gives the
  three addresses.
\<close>

datatype ledger_answer = Unloadable exc | No_derivation | Refused string | Derived string string string

type_synonym ledger = "string \<Rightarrow> string \<Rightarrow> string \<Rightarrow> ledger_answer"

definition apply_official_addresses ::
  "ledger \<Rightarrow> (string \<Rightarrow> string option) \<Rightarrow> bytes \<Rightarrow> string \<Rightarrow> bool \<Rightarrow> 'w wallet_facade \<Rightarrow> (bool \<times> 'w wallet_facade) result" where
  "apply_official_addresses ledger env seed ffi required f =
     (let library = (if ffi = []
            then (case env ''MIDNIGHT_LEDGER_FFI_LIBRARY'' of Some v \<Rightarrow> v | None \<Rightarrow> []) else ffi)
      in if library = []
         then (if required
               then Inl (Runtime_error (''Canonical Midnight wallet derivation requires libmidnight_ledger_ffi. '' @
                 ''Set WalletFacadeConfig::ledger_ffi_library or MIDNIGHT_LEDGER_FFI_LIBRARY.''))
               else Inr (False, f))
         else
           (case ledger library (crypto_to_hex seed) (network_to_string (wf_network f)) of
              Unloadable e \<Rightarrow> Inl e
            | No_derivation \<Rightarrow>
                Inl (Runtime_error ''Configured libmidnight_ledger_ffi cannot derive canonical wallet addresses'')
            | Refused e \<Rightarrow> Inl (Runtime_error (''Canonical Midnight wallet derivation failed: '' @ e))
            | Derived u d s \<Rightarrow> Inr (True, set_addresses u d s f)))"

definition facade_from_mnemonic ::
  "crypto \<Rightarrow> string list \<Rightarrow> ledger \<Rightarrow> (string \<Rightarrow> string option) \<Rightarrow> string \<Rightarrow> string \<Rightarrow> network \<Rightarrow> 'w wallet_facade result" where
  "facade_from_mnemonic cr wl ledger env m url n =
     rbind (from_mnemonic cr wl m []) (\<lambda>hdw.
     rbind (from_wallet cr hdw url n) (\<lambda>f.
     rbind (apply_official_addresses ledger env (wallet_seed hdw) [] True f) (\<lambda>r. Inr (snd r))))"

record facade_config =
  cfg_indexer_url :: string
  cfg_relay_url :: string
  cfg_proving_url :: string
  cfg_ffi_library :: string
  cfg_require_canonical :: bool
  cfg_network :: network
  cfg_strategy :: coin_strategy

definition facade_from_config ::
  "crypto \<Rightarrow> string list \<Rightarrow> ledger \<Rightarrow> (string \<Rightarrow> string option) \<Rightarrow> string \<Rightarrow> facade_config \<Rightarrow> 'w wallet_facade result" where
  "facade_from_config cr wl ledger env m cfg =
     rbind (from_mnemonic cr wl m []) (\<lambda>hdw.
     rbind (from_wallet cr hdw (cfg_indexer_url cfg) (cfg_network cfg)) (\<lambda>f.
     rbind (apply_official_addresses ledger env (wallet_seed hdw) (cfg_ffi_library cfg) (cfg_require_canonical cfg)
       (f\<lparr>strategy := cfg_strategy cfg\<rparr>)) (\<lambda>r.
       Inr ((snd r)
         \<lparr>wf_submission := (if cfg_relay_url cfg = [] then None
             else Some \<lparr>relay_url = cfg_relay_url cfg, relay_timeout = 30000, relay_connected = False\<rparr>),
          wf_proving := (if cfg_proving_url cfg = [] then None
             else Some \<lparr>proving_server_url = cfg_proving_url cfg, proving_timeout = 120000\<rparr>),
          wf_pending := Some (new_pending_service (cfg_indexer_url cfg) 5000)\<rparr>))))"

section \<open>Lifecycle\<close>

definition ensure_not_cleared :: "'w wallet_facade \<Rightarrow> unit result" where
  "ensure_not_cleared f =
     (if cleared f
      then Inl (Runtime_error (''WalletFacade has been cleared '' @ [CHR 0xE2, CHR 0x80, CHR 0x94] @
        '' key material is no longer available. Re-create via from_mnemonic() or from_wallet().''))
      else Inr ())"

definition facade_start :: "'w wallet_facade \<Rightarrow> 'w wallet_facade result" where
  "facade_start f =
     rbind (ensure_not_cleared f) (\<lambda>_. Inr (f\<lparr>running := True, wf_pending := map_option pending_start (wf_pending f)\<rparr>))"

definition facade_stop :: "'w wallet_facade \<Rightarrow> 'w wallet_facade" where
  "facade_stop f =
     f\<lparr>running := False, wf_pending := map_option pending_stop (wf_pending f),
       wf_submission := map_option submission_close (wf_submission f)\<rparr>"

text \<open>\<^verbatim>\<open>clear\<close> wipes the five key pairs; the seed in \<^verbatim>\<open>hd_wallet_\<close> stays.\<close>

definition facade_clear :: "'w wallet_facade \<Rightarrow> 'w wallet_facade" where
  "facade_clear f =
     facade_stop (f\<lparr>night_key := no_key, night_internal_key := no_key, dust_key := no_key, zswap_key := no_key,
       metadata_key := no_key, cleared := True\<rparr>)"

text \<open>Ed25519 signatures of a key pair.\<close>

definition key_pair_sign :: "sodium \<Rightarrow> key_pair \<Rightarrow> bytes \<Rightarrow> bytes result" where
  "key_pair_sign S k msg =
     (if length (secret_key k) \<noteq> 64 then Inl (Runtime_error ''Ed25519 secret key must be 64 bytes (expanded_sk)'')
      else (case sign_detached S msg (secret_key k) of
              None \<Rightarrow> Inl (Runtime_error ''Ed25519 signing failed'')
            | Some sig \<Rightarrow> Inr sig))"

definition key_pair_verify :: "sodium \<Rightarrow> key_pair \<Rightarrow> bytes \<Rightarrow> bytes \<Rightarrow> bool" where
  "key_pair_verify S k msg sig \<longleftrightarrow>
     length (public_key k) = 32 \<and> length sig = 64 \<and> sign_verify_detached S sig msg (public_key k)"

definition facade_sign :: "sodium \<Rightarrow> 'w wallet_facade \<Rightarrow> bytes \<Rightarrow> bytes result" where
  "facade_sign S f msg = rbind (ensure_not_cleared f) (\<lambda>_. key_pair_sign S (night_key f) msg)"

definition facade_balance :: "string \<Rightarrow> 'w wallet_facade \<Rightarrow> u64" where
  "facade_balance tok f =
     (case map_of (us_balances (fs_unshielded (wf_state f))) tok of Some v \<Rightarrow> v | None \<Rightarrow> 0)"

definition facade_shielded_address :: "'w wallet_facade \<Rightarrow> string result" where
  "facade_shielded_address f = rbind (ensure_not_cleared f) (\<lambda>_. Inr (shielded_addr f))"

definition get_shielded_address :: "'w wallet_facade \<Rightarrow> shielded_address option result" where
  "get_shielded_address f =
     rbind (ensure_not_cleared f) (\<lambda>_.
       if shielded_addr f = [] then Inr None
       else
         catch_all
           (rbind (decode_shielded (shielded_addr f)) (\<lambda>d.
              if length (coin_public_key d) \<noteq> 32 \<or> length (encryption_public_key d) \<noteq> 32 then Inr None
              else
                rbind (key_of_bytes Coin (coin_public_key d)) (\<lambda>coin.
                rbind (key_of_bytes Encryption (encryption_public_key d)) (\<lambda>enc.
                rbind (new_shielded_address coin enc (wf_network f)) (\<lambda>a. Inr (Some a))))))
           (\<lambda>_. Inr None))"

section \<open>Saving\<close>

definition coin_json :: "'j json_ops \<Rightarrow> utxo_with_meta \<Rightarrow> 'j" where
  "coin_json J c =
     mk_object J [(''amount'', mk_number J (uint (wm_amount c))), (''output_index'', mk_number J (uint (wm_output_index c))),
       (''registered_for_dust'', mk_bool J (wm_registered_for_dust c)), (''token_type'', mk_string J (wm_token_type c)),
       (''tx_hash'', mk_string J (wm_tx_hash c)), (''utxo_hash'', mk_string J (wm_utxo_hash c))]"

definition pending_coin_json :: "'j json_ops \<Rightarrow> utxo_with_meta \<Rightarrow> 'j" where
  "pending_coin_json J c =
     mk_object J [(''amount'', mk_number J (uint (wm_amount c))), (''token_type'', mk_string J (wm_token_type c)),
       (''utxo_hash'', mk_string J (wm_utxo_hash c))]"

definition progress_json :: "'j json_ops \<Rightarrow> sync_progress \<Rightarrow> 'j" where
  "progress_json J p =
     mk_object J [(''applied_id'', mk_number J (uint (applied_id p))),
       (''highest_tx_id'', mk_number J (uint (highest_transaction_id p))), (''is_connected'', mk_bool J (progress_connected p))]"

text \<open>\<open>now\<close> is the system clock in seconds. The members are listed in the order of their names, as the library keeps them.\<close>

definition facade_json :: "'j json_ops \<Rightarrow> int \<Rightarrow> 'w wallet_facade \<Rightarrow> 'j" where
  "facade_json J now f =
     (let u = fs_unshielded (wf_state f); d = fs_dust (wf_state f)
      in mk_object J
        [(''available_utxos'', mk_array J (map (coin_json J) (available_coins u))),
         (''balances'', mk_object J (map (\<lambda>(k, v). (k, mk_number J (uint v))) (us_balances u))),
         (''dust_address'', mk_string J (dust_addr f)),
         (''dust_registered'', mk_bool J (ds_registered d)),
         (''dust_registered_night_amount'', mk_number J (uint (registered_night_amount d))),
         (''indexer_url'', mk_string J (wf_indexer_url f)),
         (''network'', mk_string J (network_to_string (wf_network f))),
         (''pending_utxos'', mk_array J (map (pending_coin_json J) (pending_coins u))),
         (''serialized_at'', mk_number J now),
         (''shielded_address'', mk_string J (shielded_addr f)),
         (''sync_progress'', progress_json J (us_progress u)),
         (''unshielded_address'', mk_string J (night_addr f)),
         (''version'', mk_number J 3)])"

text \<open>The text is written with an indentation of two, which the reader does not tell from the text without.\<close>

definition facade_serialize :: "'j json_ops \<Rightarrow> int \<Rightarrow> 'w wallet_facade \<Rightarrow> string" where
  "facade_serialize J now f = dump J (facade_json J now f)"

section \<open>Restoring\<close>

fun read_balances :: "'j json_ops \<Rightarrow> (string \<times> 'j) list \<Rightarrow> (string \<times> u64) list \<Rightarrow> (string \<times> u64) list result" where
  "read_balances J [] m = Inr m"
| "read_balances J ((k, v) # kvs) m = rbind (read_u64 J v) (\<lambda>n. read_balances J kvs (map_put k n m))"

definition read_progress :: "'j json_ops \<Rightarrow> 'j \<Rightarrow> sync_progress result" where
  "read_progress J sp =
     rbind (json_value J (read_u64 J) sp ''applied_id'' 0) (\<lambda>a.
     rbind (json_value J (read_u64 J) sp ''highest_tx_id'' 0) (\<lambda>h.
     rbind (json_value J (read_bool J) sp ''is_connected'' False) (\<lambda>c.
       Inr \<lparr>applied_id = a, highest_transaction_id = h, progress_connected = c\<rparr>)))"

definition read_coin :: "'j json_ops \<Rightarrow> 'j \<Rightarrow> utxo_with_meta result" where
  "read_coin J u =
     rbind (json_value J (read_string J) u ''utxo_hash'' []) (\<lambda>h.
     rbind (json_value J (read_u32 J) u ''output_index'' 0) (\<lambda>i.
     rbind (json_value J (read_u64 J) u ''amount'' 0) (\<lambda>a.
     rbind (json_value J (read_string J) u ''token_type'' ''NIGHT'') (\<lambda>t.
     rbind (json_value J (read_string J) u ''tx_hash'' []) (\<lambda>x.
     rbind (json_value J (read_bool J) u ''registered_for_dust'' False) (\<lambda>r.
       Inr \<lparr>wm_utxo_hash = h, wm_output_index = i, wm_amount = a, wm_token_type = t, wm_tx_hash = x,
         wm_receiver_address = [], wm_ctime = 0, wm_registered_for_dust = r\<rparr>))))))"

text \<open>A member that is read only when it is there.\<close>

definition when_key :: "'j json_ops \<Rightarrow> 'j \<Rightarrow> string \<Rightarrow> ('j \<Rightarrow> 'a result) \<Rightarrow> 'a \<Rightarrow> 'a result" where
  "when_key J j k read d = (if has_key J j k then read (member J j k) else Inr d)"

definition restore_json :: "'j json_ops \<Rightarrow> 'j \<Rightarrow> 'w wallet_facade result" where
  "restore_json J j =
     rbind (json_value J (read_string J) j ''indexer_url'' []) (\<lambda>url.
     rbind (json_value J (read_string J) j ''unshielded_address'' []) (\<lambda>na.
     rbind (json_value J (read_string J) j ''dust_address'' []) (\<lambda>da.
     rbind (json_value J (read_string J) j ''shielded_address'' []) (\<lambda>sa.
     rbind (json_value J (read_string J) j ''network'' ''preview'') (\<lambda>net.
     rbind (when_key J j ''balances'' (\<lambda>b. if is_object J b then read_balances J (items J b) [] else Inr []) []) (\<lambda>bal.
     rbind (when_key J j ''sync_progress'' (read_progress J) new_progress) (\<lambda>p.
     rbind (when_key J j ''dust_registered'' (read_bool J) False) (\<lambda>dr.
     rbind (when_key J j ''dust_registered_night_amount'' (read_u64 J) 0) (\<lambda>dn.
     rbind (when_key J j ''available_utxos'' (\<lambda>a. read_list (read_coin J) (iterate J a)) []) (\<lambda>coins.
       Inr (set_addresses na da sa (new_facade
         \<lparr>wf_indexer_url := url, wf_network := network_from_string net, cleared := True,
          wf_state := new_facade_state
            \<lparr>fs_unshielded := (fs_unshielded new_facade_state)
               \<lparr>us_balances := bal, us_progress := p, available_coins := coins\<rparr>,
             fs_dust := (fs_dust new_facade_state)\<lparr>ds_registered := dr, registered_night_amount := dn\<rparr>\<rparr>\<rparr>))))))))))))"

definition facade_restore :: "'j json_ops \<Rightarrow> string \<Rightarrow> 'w wallet_facade result" where
  "facade_restore J text =
     (case parse J text of Inl what \<Rightarrow> Inl (Runtime_error what) | Inr j \<Rightarrow> restore_json J j)"

section \<open>The encrypted form\<close>

definition serialize_encrypted ::
  "'j json_ops \<Rightarrow> sodium \<Rightarrow> int \<Rightarrow> bytes \<Rightarrow> bytes \<Rightarrow> string \<Rightarrow> 'w wallet_facade \<Rightarrow> string result" where
  "serialize_encrypted J S now sa no password f =
     rbind (encrypted_state_create S sa no (facade_serialize J now f) password) (\<lambda>e. Inr (base64_encode e))"

text \<open>What is restored replaces all of the wallet, its services included.\<close>

definition restore_from_encrypted ::
  "'j json_ops \<Rightarrow> sodium \<Rightarrow> string \<Rightarrow> string \<Rightarrow> 'w wallet_facade \<Rightarrow> (bool \<times> 'w wallet_facade) result" where
  "restore_from_encrypted J S text password f =
     rbind (encrypted_state_decrypt S (base64_decode text) password) (\<lambda>out.
       case out of
         None \<Rightarrow> Inr (False, f)
       | Some json_state \<Rightarrow> rbind (facade_restore J json_state) (\<lambda>restored. Inr (True, restored)))"

section \<open>Properties\<close>

text \<open>What saving and restoring makes of a coin.\<close>

definition forget_coin :: "utxo_with_meta \<Rightarrow> utxo_with_meta" where
  "forget_coin c = c\<lparr>wm_receiver_address := [], wm_ctime := 0\<rparr>"

context lawful_json
begin

lemma read_coin_json [simp]: "read_coin J (coin_json J c) = Inr (forget_coin c)"
  by (simp add: read_coin_def coin_json_def forget_coin_def)

lemma read_progress_json [simp]: "read_progress J (progress_json J p) = Inr p"
  by (simp add: read_progress_def progress_json_def)

lemma read_balances_json:
  "read_balances J (map (\<lambda>(k, v). (k, mk_number J (uint v))) m) m0 = Inr (fold (\<lambda>(k, v). map_put k v) m m0)"
  by (induction m arbitrary: m0) auto

lemma iterate_array [simp]: "iterate J (mk_array J xs) = xs"
  by (simp add: iterate_def)

lemma restore_facade_json:
  fixes f :: "'w wallet_facade"
  assumes "sorted_map (us_balances (fs_unshielded (wf_state f)))"
  shows "(restore_json J (facade_json J now f) :: 'w wallet_facade result) =
    Inr (set_addresses (night_addr f) (dust_addr f) (shielded_addr f) (new_facade
      \<lparr>wf_indexer_url := wf_indexer_url f, wf_network := wf_network f, cleared := True,
       wf_state := new_facade_state
         \<lparr>fs_unshielded := (fs_unshielded new_facade_state)
            \<lparr>us_balances := us_balances (fs_unshielded (wf_state f)), us_progress := us_progress (fs_unshielded (wf_state f)),
             available_coins := map forget_coin (available_coins (fs_unshielded (wf_state f)))\<rparr>,
          fs_dust := (fs_dust new_facade_state)
            \<lparr>ds_registered := ds_registered (fs_dust (wf_state f)),
             registered_night_amount := registered_night_amount (fs_dust (wf_state f))\<rparr>\<rparr>\<rparr>))"
proof -
  let ?m = "us_balances (fs_unshielded (wf_state f))"
  have items: "items J (mk_object J (map (\<lambda>(k, v). (k, mk_number J (uint v))) ?m)) =
      map (\<lambda>(k, v). (k, mk_number J (uint v))) ?m"
    using assms by (simp add: sorted_map_map)
  have coins: "read_list (read_coin J \<circ> coin_json J) cs = Inr (map forget_coin cs)" for cs
    by (rule read_list_all) simp
  show ?thesis
    using assms
    by (simp add: restore_json_def facade_json_def when_key_def Let_def items read_balances_json coins
        network_name_roundtrip map_rebuild)
qed

end

text \<open>
  C9: A wallet that is saved and restored keeps its addresses, network, balances, progress, registration and
  available coins, these without receiver and time. Its pending coins are gone, and with its keys it can never
  be started or sign again.
\<close>

theorem restore_saved:
  fixes f :: "'w wallet_facade"
  assumes "json_laws J" and "sorted_map (us_balances (fs_unshielded (wf_state f)))"
    and "parse J (facade_serialize J now f) = Inr (facade_json J now f)"
  shows "\<exists>g :: 'w wallet_facade. facade_restore J (facade_serialize J now f) = Inr g \<and>
    night_addr g = night_addr f \<and> dust_addr g = dust_addr f \<and> shielded_addr g = shielded_addr f \<and>
    wf_network g = wf_network f \<and> wf_indexer_url g = wf_indexer_url f \<and>
    us_balances (fs_unshielded (wf_state g)) = us_balances (fs_unshielded (wf_state f)) \<and>
    us_progress (fs_unshielded (wf_state g)) = us_progress (fs_unshielded (wf_state f)) \<and>
    ds_registered (fs_dust (wf_state g)) = ds_registered (fs_dust (wf_state f)) \<and>
    available_coins (fs_unshielded (wf_state g)) =
      map (\<lambda>c. c\<lparr>wm_receiver_address := [], wm_ctime := 0\<rparr>) (available_coins (fs_unshielded (wf_state f))) \<and>
    pending_coins (fs_unshielded (wf_state g)) = [] \<and>
    (\<exists>e. facade_start g = Inl e \<and> facade_sign S g msg = Inl e)"
proof -
  show ?thesis
    using lawful_json.restore_facade_json [OF lawful_json.intro [OF assms(1)] assms(2), of now] assms(3)
    by (simp add: facade_restore_def set_addresses_def new_facade_def new_facade_state_def forget_coin_def [abs_def]
        facade_start_def facade_sign_def ensure_not_cleared_def)
qed

definition sample_coin :: utxo_with_meta where
  "sample_coin = \<lparr>wm_utxo_hash = ''ab:0'', wm_output_index = 0, wm_amount = 5, wm_token_type = ''NIGHT'', wm_tx_hash = ''ab'',
     wm_receiver_address = ''me'', wm_ctime = 9, wm_registered_for_dust = False\<rparr>"

definition sample_facade :: "nat wallet_facade" where
  "sample_facade = new_facade\<lparr>wf_state := new_facade_state\<lparr>fs_unshielded := (fs_unshielded new_facade_state)
     \<lparr>us_balances := [(''NIGHT'', 5)], available_coins := [sample_coin], pending_coins := [sample_coin]\<rparr>\<rparr>\<rparr>"

definition facade_text_json :: "json json_ops" where
  "facade_text_json = json_std\<lparr>dump := (\<lambda>_. ''ab''), parse := (\<lambda>_. Inr (facade_json json_std 0 sample_facade))\<rparr>"

lemma facade_text_json_laws: "json_laws facade_text_json"
  using json_std_laws by (simp add: json_laws_def facade_text_json_def)

lemma facade_text_json_json: "facade_json facade_text_json now f = facade_json json_std now f"
  by (simp add: facade_json_def coin_json_def [abs_def] pending_coin_json_def [abs_def] progress_json_def
      facade_text_json_def)

theorem restore_saved_witness:
  "\<exists>g :: nat wallet_facade. facade_restore facade_text_json (facade_serialize facade_text_json 0 sample_facade) = Inr g \<and>
     map wm_amount (available_coins (fs_unshielded (wf_state g))) = [5] \<and> pending_coins (fs_unshielded (wf_state g)) = [] \<and>
     facade_balance ''NIGHT'' g = 5"
proof -
  have m: "sorted_map (us_balances (fs_unshielded (wf_state sample_facade)))"
    by (simp add: sample_facade_def sorted_map_Cons)
  have p: "parse facade_text_json (facade_serialize facade_text_json 0 sample_facade) =
      Inr (facade_json facade_text_json 0 sample_facade)"
    unfolding facade_text_json_json by (simp add: facade_text_json_def)
  have c: "available_coins (fs_unshielded (wf_state sample_facade)) = [sample_coin]"
      "us_balances (fs_unshielded (wf_state sample_facade)) = [(''NIGHT'', 5)]"
    by (simp_all add: sample_facade_def)
  show ?thesis
    using restore_saved [OF facade_text_json_laws m p, of toy_sodium "[]"] unfolding facade_balance_def c
    by (auto simp: sample_coin_def)
qed

text \<open>
  A box opens exactly what it was made of: with the key and the nonce the ciphertext is a function of the message and
  the tag one of the ciphertext, as XSalsa20 and Poly1305 have it.
\<close>

definition secretbox_exact :: "sodium \<Rightarrow> bool" where
  "secretbox_exact S \<longleftrightarrow> (\<forall>c no key m. secretbox_open S c no key = Some m \<longrightarrow> secretbox S m no key = Some c)"

lemma encrypted_text_parts:
  assumes "secretbox_laws S" and "length sa = 16" and "length no = 24" and "encrypted_state_create S sa no plain password = Inr e"
    and "length e mod 3 \<noteq> 0"
  obtains key ct where "derive_key_from_password S password sa = Inr key" and "length key = 32"
    and "secretbox S (map byte_of_char plain) no key = Some (drop 41 e)"
    and "base64_decode (base64_encode e) = 1 # sa @ no @ ct" and "16 \<le> length ct" and "ct \<noteq> drop 41 e"
proof -
  have n: "length e = 57 + length plain" using encrypted_state_read [OF assms(1-4)] by simp
  have w: "\<exists>tail. base64_decode (base64_encode e) = take (3 * (length e div 3)) e @ tail \<and>
      length tail = length e mod 3 \<and> (tail = drop (3 * (length e div 3)) e \<longleftrightarrow> length e mod 3 = 0)"
    by (rule base64_whole_groups)
  obtain tail where t: "base64_decode (base64_encode e) = take (3 * (length e div 3)) e @ tail" "length tail = length e mod 3"
      "tail \<noteq> drop (3 * (length e div 3)) e"
    using w assms(5) by (elim exE conjE) (rule that, simp_all)
  obtain key ct where k: "derive_key_from_password S password sa = Inr key" "length key = 32"
      "secretbox S (map byte_of_char plain) no key = Some ct" "e = 1 # sa @ no @ ct"
    by (rule encrypted_state_form [OF assms(1,4)])
  let ?d = "base64_decode (base64_encode e)"
  have "3 * (length e div 3) \<le> length e" by simp
  then have len: "length ?d = length e" using t(1,2) by (simp add: min_absorb2)
  have "57 div 3 \<le> length e div 3" using n by (intro div_le_mono) simp
  then have same: "take 41 ?d = take 41 e" using t(1) n by (simp add: min_def)
  also have "\<dots> = 1 # sa @ no" using k(4) assms(2,3) by simp
  finally have form: "?d = 1 # sa @ no @ drop 41 ?d" using append_take_drop_id [of 41 ?d] by simp
  have "?d \<noteq> e" using t(1,3) append_take_drop_id [of "3 * (length e div 3)" e] by (metis same_append_eq)
  then have "drop 41 ?d \<noteq> drop 41 e" using same by (metis append_take_drop_id)
  moreover have "16 \<le> length (drop 41 ?d)" using n len by simp
  moreover have "drop 41 e = ct" using k(4) assms(2,3) by simp
  ultimately show thesis using that k form by simp
qed

text \<open>
  C10: An encrypted wallet is restored under its password when the text that was encrypted has a length that is a
  multiple of three. Otherwise its last bytes are read back wrong, and the text that was saved is never the one that
  is restored: restoring fails under the right password, or opens the box of another text.
\<close>

theorem encrypted_restore:
  fixes f g :: "'w wallet_facade"
  assumes "secretbox_laws S" and "secretbox_exact S" and "length sa = 16" and "length no = 24"
    and "serialize_encrypted J S now sa no password f = Inr text"
  shows "if length (facade_serialize J now f) mod 3 = 0
    then restore_from_encrypted J S text password g =
      rbind (facade_restore J (facade_serialize J now f)) (\<lambda>r. Inr (True, r))
    else restore_from_encrypted J S text password g = Inr (False, g) \<or>
      (\<exists>other key. other \<noteq> facade_serialize J now f \<and> derive_key_from_password S password sa = Inr key \<and>
         secretbox S (map byte_of_char other) no key = Some (drop 41 (base64_decode text)) \<and>
         restore_from_encrypted J S text password g = rbind (facade_restore J other) (\<lambda>r. Inr (True, r)))"
proof -
  let ?plain = "facade_serialize J now f"
  obtain e where e: "encrypted_state_create S sa no ?plain password = Inr e" "text = base64_encode e"
    using assms(5) by (auto simp: serialize_encrypted_def rbind_eq_Inr)
  note read = encrypted_state_read [OF assms(1,3,4) e(1)]
  have n3: "length e mod 3 = length ?plain mod 3" using read by presburger
  show ?thesis
  proof (cases "length ?plain mod 3 = 0")
    case True
    then have "base64_decode text = e"
      using base64_whole_groups [of e] n3 unfolding e(2) by (metis append_take_drop_id)
    then show ?thesis using read True by (simp add: restore_from_encrypted_def)
  next
    case False
    then have "length e mod 3 \<noteq> 0" using n3 by simp
    from encrypted_text_parts [OF assms(1,3,4) e(1) this] obtain key ct where
      k: "derive_key_from_password S password sa = Inr key" "length key = 32"
      and box: "secretbox S (map byte_of_char ?plain) no key = Some (drop 41 e)"
      and form: "base64_decode text = 1 # sa @ no @ ct" and len: "16 \<le> length ct" and other: "ct \<noteq> drop 41 e"
      unfolding e(2) by metis
    have ct: "drop 41 (base64_decode text) = ct" using form assms(3,4) by simp
    from encrypted_state_opens [OF assms(3,4) len k(2,1)]
    have open_ct: "encrypted_state_decrypt S (base64_decode text) password =
        Inr (map_option (map char_of_byte) (secretbox_open S ct no key))" unfolding form by simp
    show ?thesis
    proof (cases "secretbox_open S ct no key")
      case None
      then show ?thesis using False open_ct by (simp add: restore_from_encrypted_def)
    next
      case (Some m)
      let ?other = "map char_of_byte m"
      have m: "map byte_of_char ?other = m" by (simp add: map_idI)
      have "secretbox S m no key = Some ct" using Some assms(2) by (simp add: secretbox_exact_def)
      then have "secretbox S (map byte_of_char ?other) no key = Some (drop 41 (base64_decode text)) \<and> ?other \<noteq> ?plain"
        unfolding m ct using box other m by (metis option.inject)
      moreover have "restore_from_encrypted J S text password g = rbind (facade_restore J ?other) (\<lambda>r. Inr (True, r))"
        using Some open_ct by (simp add: restore_from_encrypted_def)
      ultimately show ?thesis using False k(1) by auto
    qed
  qed
qed

text \<open>A box with a sum of the bytes as its tag.\<close>

definition sum_sodium :: sodium where
  "sum_sodium = toy_sodium
     \<lparr>secretbox := (\<lambda>m no k. Some (replicate 16 (sum_list m) @ m)),
      secretbox_open := (\<lambda>c no k. if take 16 c = replicate 16 (sum_list (drop 16 c)) then Some (drop 16 c) else None)\<rparr>"

lemma sum_sodium_laws: "secretbox_laws sum_sodium"
  by (auto simp: secretbox_laws_def sum_sodium_def toy_sodium_def)

lemma sum_sodium_exact: "secretbox_exact sum_sodium"
  by (auto simp: secretbox_exact_def sum_sodium_def toy_sodium_def split: if_splits) (metis append_take_drop_id)

definition sample_encrypted :: bytes where
  "sample_encrypted = 1 # replicate 16 3 @ replicate 24 4 @ replicate 16 195 @ [97, 98]"

theorem encrypted_restore_witness:
  "\<exists>text. serialize_encrypted facade_text_json sum_sodium 0 (replicate 16 3) (replicate 24 4) ''pw'' sample_facade = Inr text \<and>
     restore_from_encrypted facade_text_json sum_sodium text ''pw'' sample_facade = Inr (False, sample_facade)"
proof -
  have s: "facade_serialize facade_text_json 0 sample_facade = ''ab''"
    by (simp add: facade_serialize_def facade_text_json_def)
  then have t: "serialize_encrypted facade_text_json sum_sodium 0 (replicate 16 3) (replicate 24 4) ''pw'' sample_facade =
      Inr (base64_encode sample_encrypted)"
    by (simp add: serialize_encrypted_def encrypted_state_create_def encrypt_string_def state_encrypt_def
        derive_key_from_password_def sum_sodium_def toy_sodium_def sample_encrypted_def byte_of_char_def)
  have "secretbox sum_sodium m no key \<noteq> Some (drop 41 (base64_decode (base64_encode sample_encrypted)))" for m no key
  proof
    assume "secretbox sum_sodium m no key = Some (drop 41 (base64_decode (base64_encode sample_encrypted)))"
    then have b: "drop 41 (base64_decode (base64_encode sample_encrypted)) = replicate 16 (sum_list m) @ m"
      by (simp add: sum_sodium_def)
    have "take 16 (drop 41 (base64_decode (base64_encode sample_encrypted))) \<noteq>
        replicate 16 (sum_list (drop 16 (drop 41 (base64_decode (base64_encode sample_encrypted)))))" by code_simp
    then show False unfolding b by simp
  qed
  then have "restore_from_encrypted facade_text_json sum_sodium (base64_encode sample_encrypted) ''pw'' sample_facade =
      Inr (False, sample_facade)"
    using encrypted_restore [OF sum_sodium_laws sum_sodium_exact _ _ t, of sample_facade] by (simp add: s)
  with t show ?thesis by blast
qed

text \<open>
  Clearing a wallet wipes its keys but not the seed they are derived from: from a cleared wallet the same
  keys and addresses are made again.
\<close>

theorem clear_keeps_seed:
  fixes f :: "'w wallet_facade"
  assumes "from_wallet cr hdw url n = Inr f"
  shows "night_key (facade_clear f) = no_key \<and> dust_key (facade_clear f) = no_key \<and> zswap_key (facade_clear f) = no_key \<and>
    wallet_seed (wf_hd (facade_clear f)) = wallet_seed hdw \<and> from_wallet cr (wf_hd (facade_clear f)) url n = Inr f"
proof -
  have "wf_hd f = hdw" using assms by (auto simp: from_wallet_def rbind_eq_Inr set_addresses_def)
  then show ?thesis using assms by (simp add: facade_clear_def facade_stop_def)
qed

lemma derive_path_total: "\<exists>k c. derive_path cr w acc r idx = Inr (k, c)"
  by (simp add: derive_path_def bip32_child_def Let_def)

definition full_crypto :: crypto where
  "full_crypto = sample_crypto\<lparr>seed_keypair := (\<lambda>_. (replicate 32 1, replicate 64 2)), scalarmult := (\<lambda>_ _. Some (replicate 32 3))\<rparr>"

lemma full_crypto_wallet: "\<exists>f :: nat wallet_facade. from_wallet full_crypto hdw url n = Inr f"
proof -
  have l: "length (bls_reduce k) = 32" for k by (simp add: bls_reduce_def bn_to_bytes32_def)
  then have ne: "bls_reduce k \<noteq> []" for k by (metis length_greater_0_conv zero_less_numeral)
  have u: "\<exists>a. derive_unshielded full_crypto hdw 0 r 0 = Inr \<lparr>secret_key = replicate 64 2, public_key = replicate 32 1, key_address = a\<rparr>" for r
    using derive_path_total [of full_crypto hdw 0 r 0]
    by (auto simp: derive_unshielded_def full_crypto_def encode_unshielded_def)
  have d: "\<exists>k a. derive_dust full_crypto hdw 0 0 = Inr \<lparr>secret_key = k, public_key = bls_reduce k, key_address = a\<rparr>"
    using derive_path_total [of full_crypto hdw 0 Dust 0] ne by (auto simp: derive_dust_def encode_dust_def Let_def)
  have m: "\<exists>k. derive full_crypto hdw 0 Metadata 0 = Inr k"
    using derive_path_total [of full_crypto hdw 0 Metadata 0] by (auto simp: derive_def full_crypto_def)
  show ?thesis
    using u [of NightExternal] u [of NightInternal] u [of Zswap] d m l ne
    by (auto simp: from_wallet_def derive_night_def derive_night_internal_def derive_zswap_def derive_metadata_def
        encode_unshielded_def encode_dust_from_pubkey_def encode_dust_def derive_shielded_encryption_key_def
        encode_shielded_def full_crypto_def Let_def)
qed

theorem clear_keeps_seed_witness:
  "\<exists>f :: nat wallet_facade. from_wallet full_crypto \<lparr>wallet_seed = [1], master_key = [2], master_chain = [3]\<rparr> [] PreProd = Inr f \<and>
     wallet_seed (wf_hd (facade_clear f)) = [1]"
proof -
  obtain f :: "nat wallet_facade" where
    f: "from_wallet full_crypto \<lparr>wallet_seed = [1], master_key = [2], master_chain = [3]\<rparr> [] PreProd = Inr f"
    using full_crypto_wallet by blast
  with clear_keeps_seed [OF f] show ?thesis by simp
qed

end
