(* ===== verification/WalletCoins.thy ===== *)
theory WalletCoins
  imports WalletFacade
begin

text \<open>
  The coins of the wallet facade (src/wallet/wallet_facade.cpp): their selection by the three strategies, the
  reverting of transactions, recipes, and the terms and conditions. \<^verbatim>\<open>std::sort\<close> and the random numbers are
  parameters. Results: largest first covers an amount with the fewest coins; the random strategy may throw away
  a selection that covers the amount for one that does not; the terms and conditions are never found.
\<close>

section \<open>Selection\<close>

text \<open>The orders that are sorted by.\<close>

definition less_amount :: "utxo_with_meta \<Rightarrow> utxo_with_meta \<Rightarrow> bool" where
  "less_amount a b \<longleftrightarrow> wm_amount a < wm_amount b"

definition more_amount :: "utxo_with_meta \<Rightarrow> utxo_with_meta \<Rightarrow> bool" where
  "more_amount a b \<longleftrightarrow> wm_amount b < wm_amount a"

text \<open>Documented of \<^verbatim>\<open>std::sort\<close>: a permutation in which no element is less than one before it.\<close>

type_synonym 'a sorter = "('a \<Rightarrow> 'a \<Rightarrow> bool) \<Rightarrow> 'a list \<Rightarrow> 'a list"

definition sort_laws :: "utxo_with_meta sorter \<Rightarrow> bool" where
  "sort_laws srt \<longleftrightarrow> (\<forall>less \<in> {less_amount, more_amount}. \<forall>xs.
     mset (srt less xs) = mset xs \<and> sorted_wrt (\<lambda>a b. \<not> less b a) (srt less xs))"

text \<open>The running total wraps.\<close>

fun take_until :: "u64 \<Rightarrow> u64 \<Rightarrow> utxo_with_meta list \<Rightarrow> utxo_with_meta list \<times> u64" where
  "take_until amount acc [] = ([], acc)"
| "take_until amount acc (c # cs) =
     (let acc = acc + wm_amount c
      in if amount \<le> acc then ([c], acc)
         else (case take_until amount acc cs of (chosen, t) \<Rightarrow> (c # chosen, t)))"

text \<open>Fisher-Yates: \<open>draw i\<close> is the random number below \<open>i\<close>.\<close>

definition swap_at :: "'a list \<Rightarrow> nat \<Rightarrow> nat \<Rightarrow> 'a list" where
  "swap_at xs i j = xs[i := xs ! j, j := xs ! i]"

fun shuffle_from :: "(nat \<Rightarrow> nat) \<Rightarrow> nat \<Rightarrow> 'a list \<Rightarrow> 'a list" where
  "shuffle_from draw (Suc (Suc i)) xs =
     shuffle_from draw (Suc i)
       (if draw (Suc (Suc i)) \<noteq> Suc i then swap_at xs (Suc i) (draw (Suc (Suc i))) else xs)"
| "shuffle_from draw _ xs = xs"

definition shuffle_coins :: "(nat \<Rightarrow> nat) \<Rightarrow> 'a list \<Rightarrow> 'a list" where
  "shuffle_coins draw xs = shuffle_from draw (length xs) xs"

definition waste_of :: "u64 \<Rightarrow> u64 \<Rightarrow> u64" where
  "waste_of amount accumulated = (if amount < accumulated then accumulated - amount else 0)"

text \<open>The improvement pass: the first candidate that lowers the waste takes the place of the largest coin.\<close>

fun improve_pass ::
  "u64 \<Rightarrow> nat \<Rightarrow> utxo_with_meta list \<Rightarrow> u64 \<Rightarrow> utxo_with_meta list \<Rightarrow> utxo_with_meta list \<times> u64" where
  "improve_pass amount largest chosen accumulated [] = (chosen, accumulated)"
| "improve_pass amount largest chosen accumulated (c # cs) =
     (if list_ex (\<lambda>u. wm_utxo_hash u = wm_utxo_hash c) chosen then improve_pass amount largest chosen accumulated cs
      else
        (let new_accumulated = accumulated - wm_amount (chosen ! largest) + wm_amount c
         in if waste_of amount new_accumulated < waste_of amount accumulated
            then (chosen[largest := c], new_accumulated)
            else improve_pass amount largest chosen accumulated cs))"

definition random_improve :: "(nat \<Rightarrow> nat) \<Rightarrow> u64 \<Rightarrow> utxo_with_meta list \<Rightarrow> utxo_with_meta list" where
  "random_improve draw amount candidates =
     (let shuffled = shuffle_coins draw candidates;
          (chosen, accumulated) = take_until amount 0 shuffled;
          (chosen, accumulated) =
            (if 0 < waste_of amount accumulated
             then improve_pass amount (largest_idx chosen) chosen accumulated shuffled else (chosen, accumulated))
      in if accumulated < amount then [] else chosen)"

definition greedy_select :: "u64 \<Rightarrow> utxo_with_meta list \<Rightarrow> utxo_with_meta list" where
  "greedy_select amount candidates =
     (case take_until amount 0 candidates of (chosen, acc) \<Rightarrow> if acc < amount then [] else chosen)"

definition select_coins ::
  "utxo_with_meta sorter \<Rightarrow> (nat \<Rightarrow> nat) \<Rightarrow> u64 \<Rightarrow> string \<Rightarrow> 'w wallet_facade \<Rightarrow> utxo_with_meta list" where
  "select_coins srt draw amount tok f =
     (let candidates = filter (\<lambda>c. wm_token_type c = tok) (available_coins (fs_unshielded (wf_state f)))
      in case strategy f of
           SmallestFirst \<Rightarrow> greedy_select amount (srt less_amount candidates)
         | RandomImprove \<Rightarrow> random_improve draw amount candidates
         | LargestFirst \<Rightarrow> greedy_select amount (srt more_amount candidates))"

definition set_strategy :: "coin_strategy \<Rightarrow> 'w wallet_facade \<Rightarrow> 'w wallet_facade" where
  "set_strategy s f = f\<lparr>strategy := s\<rparr>"

section \<open>Reverting\<close>

definition update_unshielded :: "(unshielded_state \<Rightarrow> unshielded_state) \<Rightarrow> 'w wallet_facade \<Rightarrow> 'w wallet_facade" where
  "update_unshielded g f = f\<lparr>wf_state := (wf_state f)\<lparr>fs_unshielded := g (fs_unshielded (wf_state f))\<rparr>\<rparr>"

definition revert_input :: "utxo_with_meta \<Rightarrow> unshielded_state \<Rightarrow> unshielded_state" where
  "revert_input input u =
     u\<lparr>pending_coins := filter (\<lambda>p. wm_utxo_hash p \<noteq> wm_utxo_hash input) (pending_coins u),
       available_coins := available_coins u @ [input]\<rparr>"

definition clear_pending :: "string \<Rightarrow> 'w wallet_facade \<Rightarrow> 'w wallet_facade" where
  "clear_pending h f = (if h = [] then f else f\<lparr>wf_pending := map_option (pending_clear h) (wf_pending f)\<rparr>)"

text \<open>A transfer is given by its hash and the inputs it used.\<close>

definition revert_transaction :: "string \<Rightarrow> utxo_with_meta list \<Rightarrow> 'w wallet_facade \<Rightarrow> bool \<times> 'w wallet_facade" where
  "revert_transaction tx_hash inputs f = (True, clear_pending tx_hash (update_unshielded (fold revert_input inputs) f))"

datatype recipe_type = FinalizedTransaction | UnboundTransaction | UnprovenTransaction

record 'j balancing_recipe =
  recipe_type :: recipe_type
  original_transaction :: 'j
  base_transaction :: 'j
  balancing_transaction :: 'j
  recipe_transaction :: 'j

definition get_transactions :: "'j json_ops \<Rightarrow> 'j balancing_recipe \<Rightarrow> 'j list" where
  "get_transactions J r =
     (let more = (if is_null J (balancing_transaction r) then [] else [balancing_transaction r])
      in case recipe_type r of
           FinalizedTransaction \<Rightarrow> original_transaction r # more
         | UnboundTransaction \<Rightarrow> base_transaction r # more
         | UnprovenTransaction \<Rightarrow> [recipe_transaction r])"

text \<open>What was cleared before an exception stays cleared.\<close>

definition revert_recipe :: "'j json_ops \<Rightarrow> 'j balancing_recipe \<Rightarrow> 'w wallet_facade \<Rightarrow> 'w wallet_facade \<times> exc option" where
  "revert_recipe J r f =
     run_steps (map (\<lambda>tx f. rbind (json_value J (read_string J) tx ''tx_hash'' []) (\<lambda>h. Inr (clear_pending h f)))
       (get_transactions J r)) f"

text \<open>Unshielded, shielded and dust.\<close>

datatype token_kind = KindDust | KindShielded | KindUnshielded

fun add_kind :: "token_kind \<Rightarrow> bool \<times> bool \<times> bool \<Rightarrow> bool \<times> bool \<times> bool" where
  "add_kind KindUnshielded (u, s, d) = (True, s, d)"
| "add_kind KindShielded (u, s, d) = (u, True, d)"
| "add_kind KindDust (u, s, d) = (u, s, True)"

definition from_kinds :: "token_kind list \<Rightarrow> bool \<times> bool \<times> bool" where
  "from_kinds ks = fold add_kind ks (False, False, False)"

section \<open>Terms and conditions\<close>

definition q_terms :: string where
  "q_terms = ''{ block { systemParameters { termsAndConditions { hash url } } } }''"

definition terms_not_set :: exc where
  "terms_not_set = Runtime_error ''Terms and Conditions are not currently set on the network.''"

text \<open>\<^verbatim>\<open>operator[]\<close> of a value that may change: a member that is not there becomes null.\<close>

definition json_index :: "'j json_ops \<Rightarrow> 'j \<Rightarrow> string \<Rightarrow> 'j result" where
  "json_index J j k =
     (if is_object J j then Inr (if has_key J j k then member J j k else mk_null J)
      else if is_null J j then Inr (mk_null J) else Inl type_error)"

text \<open>The hash and the URL. All exceptions of JSON are reported as terms that are not set.\<close>

definition read_terms :: "'j json_ops \<Rightarrow> 'j \<Rightarrow> (string \<times> string) result" where
  "read_terms J result =
     (case rbind (json_index J result ''data'') (\<lambda>d.
         rbind (json_index J d ''block'') (\<lambda>b.
         rbind (json_index J b ''systemParameters'') (\<lambda>p.
         rbind (json_index J p ''termsAndConditions'') (\<lambda>t.
           if is_null J t then Inl terms_not_set
           else
             rbind (json_value J (read_string J) t ''hash'' []) (\<lambda>h.
             rbind (json_value J (read_string J) t ''url'' []) (\<lambda>u. Inr (h, u))))))) of
        Inl _ \<Rightarrow> Inl terms_not_set
      | Inr (h, u) \<Rightarrow> if h = [] \<and> u = [] then Inl terms_not_set else Inr (h, u))"

definition fetch_terms_and_conditions :: "('w, 'j) services \<Rightarrow> string \<Rightarrow> ('w, string \<times> string) call" where
  "fetch_terms_and_conditions V url =
     call_bind (call_of (new_indexer_client url 15000)) (\<lambda>c.
     call_bind (graphql_query V c q_terms []) (\<lambda>result. call_of (read_terms (json_of V) result)))"

definition query_indexer ::
  "('w, 'j) services \<Rightarrow> string \<Rightarrow> (string \<times> 'j) list \<Rightarrow> 'v wallet_facade \<Rightarrow> ('w, 'j) call" where
  "query_indexer V q vars f =
     call_bind (call_of (new_indexer_client (wf_indexer_url f) 15000)) (\<lambda>c. graphql_query V c q vars)"

section \<open>What a selection is worth\<close>

definition coins_value :: "utxo_with_meta list \<Rightarrow> nat" where
  "coins_value cs = sum_list (map (unat \<circ> wm_amount) cs)"

lemma coins_value_simps [simp]:
  "coins_value [] = 0" "coins_value (c # cs) = unat (wm_amount c) + coins_value cs"
  "coins_value (xs @ ys) = coins_value xs + coins_value ys"
  by (simp_all add: coins_value_def)

lemma coins_value_mset: "mset xs = mset ys \<Longrightarrow> coins_value xs = coins_value ys"
  unfolding coins_value_def by (metis mset_map sum_mset_sum_list)

lemma unat_add_small: "unat a + unat b < 2 ^ 64 \<Longrightarrow> unat (a + b) = unat a + unat b" for a b :: u64
  by (simp add: unat_word_ariths)

text \<open>The selection is a prefix that covers the amount as soon as one does.\<close>

lemma take_until_prefix:
  assumes "unat acc + coins_value cs < 2 ^ 64" and "acc < amount" and "take_until amount acc cs = (chosen, t)"
  shows "\<exists>rest. cs = chosen @ rest \<and> unat t = unat acc + coins_value chosen \<and> (amount \<le> t \<or> rest = []) \<and>
    (amount \<le> t \<longrightarrow> chosen \<noteq> [] \<and> unat acc + coins_value (butlast chosen) < unat amount)"
  using assms
proof (induction cs arbitrary: acc chosen)
  case Nil
  then show ?case by (auto simp: word_less_nat_alt word_le_nat_alt)
next
  case (Cons c cs)
  have u: "unat (acc + wm_amount c) = unat acc + unat (wm_amount c)"
    using Cons.prems(1) by (intro unat_add_small) simp
  show ?case
  proof (cases "amount \<le> acc + wm_amount c")
    case True
    then show ?thesis using Cons.prems u by (auto simp: word_less_nat_alt)
  next
    case False
    then obtain chosen' where r: "take_until amount (acc + wm_amount c) cs = (chosen', t)" "chosen = c # chosen'"
      using Cons.prems(3) by (auto simp: Let_def split: prod.splits)
    have "unat (acc + wm_amount c) + coins_value cs < 2 ^ 64" using Cons.prems(1) u by simp
    moreover have "acc + wm_amount c < amount" using False by simp
    ultimately obtain rest where "cs = chosen' @ rest" "unat t = unat (acc + wm_amount c) + coins_value chosen'"
        "amount \<le> t \<or> rest = []"
        "amount \<le> t \<longrightarrow> chosen' \<noteq> [] \<and> unat (acc + wm_amount c) + coins_value (butlast chosen') < unat amount"
      using Cons.IH r(1) by blast
    then show ?thesis using r(2) u by (intro exI [of _ rest]) auto
  qed
qed

text \<open>Of a list in falling order, the first elements are worth the most.\<close>

lemma first_most:
  assumes "sorted_wrt (\<ge>) (xs :: nat list)" and "mset ys \<subseteq># mset xs"
  shows "sum_list ys \<le> sum_list (take (length ys) xs)"
  using assms
proof (induction xs arbitrary: ys)
  case Nil
  then show ?case by simp
next
  case (Cons x xs)
  show ?case
  proof (cases "x \<in> set ys")
    case True
    then have m: "mset ys = add_mset x (mset (remove1 x ys))" by simp
    then have "mset (remove1 x ys) \<subseteq># mset xs"
      using Cons.prems(2) by (metis mset.simps(2) mset_subset_eq_add_mset_cancel)
    then have "sum_list (remove1 x ys) \<le> sum_list (take (length (remove1 x ys)) xs)"
      using Cons.IH Cons.prems(1) by simp
    moreover have "sum_list ys = x + sum_list (remove1 x ys)" using m by (metis sum_mset_sum_list sum_mset.add_mset)
    moreover have "length ys = Suc (length (remove1 x ys))" using m by (metis size_add_mset size_mset)
    ultimately show ?thesis by simp
  next
    case False
    have z: "count (mset ys) x = 0" using False by (metis not_in_iff set_mset_mset)
    have sub: "mset ys \<subseteq># mset xs"
    proof (rule mset_subset_eqI)
      fix a
      show "count (mset ys) a \<le> count (mset xs) a"
      proof (cases "a = x")
        case True
        then show ?thesis by (simp only: z zero_le)
      next
        case False
        then show ?thesis using mset_subset_eq_count [OF Cons.prems(2), of a] by simp
      qed
    qed
    then have le: "sum_list ys \<le> sum_list (take (length ys) xs)" using Cons.IH Cons.prems(1) by simp
    show ?thesis
    proof (cases "length ys")
      case 0
      then show ?thesis by simp
    next
      case (Suc m)
      have len: "m < length xs" using size_mset_mono [OF sub] Suc by simp
      then have "xs ! m \<le> x" using Cons.prems(1) by simp
      moreover have "take (Suc m) xs = take m xs @ [xs ! m]" using len by (rule take_Suc_conv_app_nth)
      ultimately show ?thesis using le Suc by simp
    qed
  qed
qed

lemma mset_swap_at: "i < length xs \<Longrightarrow> j < length xs \<Longrightarrow> mset (swap_at xs i j) = mset xs"
  by (simp add: swap_at_def mset_swap)

lemma mset_shuffle_from: "(\<And>i. 0 < i \<Longrightarrow> draw i < i) \<Longrightarrow> n \<le> length xs \<Longrightarrow> mset (shuffle_from draw n xs) = mset xs"
proof (induction draw n xs rule: shuffle_from.induct)
  case (1 draw i xs)
  have "draw (Suc (Suc i)) < Suc (Suc i)" using "1.prems"(1) by simp
  then have m: "mset (swap_at xs (Suc i) (draw (Suc (Suc i)))) = mset xs"
    using "1.prems"(2) by (intro mset_swap_at) simp_all
  moreover have "length (swap_at xs (Suc i) (draw (Suc (Suc i)))) = length xs" by (simp add: swap_at_def)
  ultimately show ?case using "1.IH" "1.prems" by simp
qed simp_all

lemma greedy_covers:
  assumes "coins_value cs < 2 ^ 64" and "0 < amount" and "unat amount \<le> coins_value cs"
  shows "\<exists>rest. cs = greedy_select amount cs @ rest \<and> unat amount \<le> coins_value (greedy_select amount cs) \<and>
    coins_value (butlast (greedy_select amount cs)) < unat amount"
proof -
  obtain chosen t where c: "take_until amount 0 cs = (chosen, t)" by fastforce
  obtain rest where r: "cs = chosen @ rest" "unat t = coins_value chosen" "amount \<le> t \<or> rest = []"
      "amount \<le> t \<longrightarrow> chosen \<noteq> [] \<and> coins_value (butlast chosen) < unat amount"
    using take_until_prefix [of 0 cs amount chosen t] assms(1,2) c by auto
  then have "amount \<le> t" using assms(3) by (auto simp: word_le_nat_alt)
  moreover from this have "greedy_select amount cs = chosen" using c by (auto simp: greedy_select_def dest: leD)
  ultimately show ?thesis using r by (auto simp: word_le_nat_alt)
qed

section \<open>Properties\<close>

text \<open>The candidates of a selection.\<close>

definition coins_of :: "string \<Rightarrow> 'w wallet_facade \<Rightarrow> utxo_with_meta list" where
  "coins_of tok f = filter (\<lambda>c. wm_token_type c = tok) (available_coins (fs_unshielded (wf_state f)))"

text \<open>
  C6: Largest first covers an amount with coins of the token, whenever all of them together do, and with as few
  of them as can: no other choice of coins that covers the amount has fewer. All this as long as the sum of the
  amounts does not wrap.
\<close>

theorem largest_first_optimal:
  assumes "sort_laws srt" and "strategy f = LargestFirst" and "0 < amount"
    and "coins_value (coins_of tok f) < 2 ^ 64" and "unat amount \<le> coins_value (coins_of tok f)"
  shows "mset (select_coins srt draw amount tok f) \<subseteq># mset (coins_of tok f) \<and>
    unat amount \<le> coins_value (select_coins srt draw amount tok f) \<and>
    (\<forall>other. mset other \<subseteq># mset (coins_of tok f) \<and> unat amount \<le> coins_value other \<longrightarrow>
       length (select_coins srt draw amount tok f) \<le> length other)"
proof -
  let ?cs = "srt more_amount (coins_of tok f)"
  have m: "mset ?cs = mset (coins_of tok f)" and sorted: "sorted_wrt (\<lambda>a b. \<not> more_amount b a) ?cs"
    using assms(1) by (simp_all add: sort_laws_def)
  have sel: "select_coins srt draw amount tok f = greedy_select amount ?cs"
    using assms(2) by (simp add: select_coins_def coins_of_def Let_def)
  obtain rest where r: "?cs = greedy_select amount ?cs @ rest" "unat amount \<le> coins_value (greedy_select amount ?cs)"
      "coins_value (butlast (greedy_select amount ?cs)) < unat amount"
    using greedy_covers [of ?cs amount] assms(3-5) coins_value_mset [OF m] by auto
  let ?sel = "greedy_select amount ?cs"
  have falling: "sorted_wrt (\<ge>) (map (unat \<circ> wm_amount) ?cs)"
    using sorted by (simp add: sorted_wrt_map more_amount_def word_less_nat_alt not_less)
  have few: "length ?sel \<le> length other"
    if sub: "mset other \<subseteq># mset (coins_of tok f)" and cov: "unat amount \<le> coins_value other" for other
  proof (rule ccontr)
    assume "\<not> ?thesis"
    then have short: "length other \<le> length (butlast ?sel)" by simp
    have "mset (map (unat \<circ> wm_amount) other) \<subseteq># mset (map (unat \<circ> wm_amount) ?cs)"
      using image_mset_subseteq_mono [OF sub, of "unat \<circ> wm_amount"] m by simp
    from first_most [OF falling this]
    have "coins_value other \<le> coins_value (take (length other) ?cs)" by (simp add: coins_value_def take_map)
    also have "take (length other) ?cs = take (length other) (butlast ?sel)"
    proof -
      have "?cs = butlast ?sel @ drop (length (butlast ?sel)) ?sel @ rest"
        using r(1) by (metis append.assoc append_take_drop_id butlast_conv_take length_butlast)
      then have "take (length other) ?cs = take (length other) (butlast ?sel @ drop (length (butlast ?sel)) ?sel @ rest)"
        by simp
      then show ?thesis using short by simp
    qed
    also have "coins_value \<dots> \<le> coins_value (butlast ?sel)"
      using append_take_drop_id [of "length other" "butlast ?sel"] by (metis coins_value_simps(3) le_add1)
    finally show False using cov r(3) by simp
  qed
  have "mset ?sel \<subseteq># mset ?cs" by (subst (2) r(1)) simp
  then show ?thesis using r(2) few unfolding sel m by blast
qed

text \<open>Insertion sort, as a sort that satisfies the laws.\<close>

fun insert_by :: "('a \<Rightarrow> 'a \<Rightarrow> bool) \<Rightarrow> 'a \<Rightarrow> 'a list \<Rightarrow> 'a list" where
  "insert_by lt x [] = [x]"
| "insert_by lt x (y # ys) = (if lt y x then y # insert_by lt x ys else x # y # ys)"

definition insertion_sort :: "'a sorter" where
  "insertion_sort lt xs = foldr (insert_by lt) xs []"

lemma mset_insert_by: "mset (insert_by lt x ys) = add_mset x (mset ys)"
  by (induction ys) auto

lemma set_insert_by: "set (insert_by lt x ys) = insert x (set ys)"
  by (induction ys) auto

lemma sorted_insert_by:
  assumes "\<And>a b. lt a b \<Longrightarrow> \<not> lt b a" and "\<And>a b c. \<not> lt b a \<Longrightarrow> \<not> lt c b \<Longrightarrow> \<not> lt c a"
    and "sorted_wrt (\<lambda>a b. \<not> lt b a) ys"
  shows "sorted_wrt (\<lambda>a b. \<not> lt b a) (insert_by lt x ys)"
  using assms(3) by (induction ys) (auto simp: set_insert_by dest: assms(1), metis assms(2))

lemma insertion_sort_laws: "sort_laws insertion_sort"
proof -
  have m: "mset (insertion_sort lt xs) = mset xs" for lt :: "utxo_with_meta \<Rightarrow> _" and xs
    by (induction xs) (simp_all add: insertion_sort_def mset_insert_by)
  have "sorted_wrt (\<lambda>a b. \<not> less_amount b a) (insertion_sort less_amount xs)" for xs
    by (induction xs) (auto simp: insertion_sort_def less_amount_def intro!: sorted_insert_by)
  moreover have "sorted_wrt (\<lambda>a b. \<not> more_amount b a) (insertion_sort more_amount xs)" for xs
    by (induction xs) (auto simp: insertion_sort_def more_amount_def intro!: sorted_insert_by)
  ultimately show ?thesis using m by (simp add: sort_laws_def)
qed

definition coin_worth :: "u64 \<Rightarrow> string \<Rightarrow> utxo_with_meta" where
  "coin_worth n h = sample_coin\<lparr>wm_amount := n, wm_utxo_hash := h\<rparr>"

definition holding :: "coin_strategy \<Rightarrow> utxo_with_meta list \<Rightarrow> nat wallet_facade" where
  "holding st cs = update_unshielded (available_coins_update (\<lambda>_. cs)) (set_strategy st new_facade)"

lemma coins_of_holding:
  "coins_of ''NIGHT'' (holding st [coin_worth a h, coin_worth b h', coin_worth c h'']) =
     [coin_worth a h, coin_worth b h', coin_worth c h'']"
  "strategy (holding st cs) = st"
  by (simp_all add: coins_of_def holding_def update_unshielded_def set_strategy_def coin_worth_def sample_coin_def)

theorem largest_first_optimal_witness:
  "10 \<le> coins_value (select_coins insertion_sort id 10 ''NIGHT''
      (holding LargestFirst [coin_worth 3 ''a'', coin_worth 9 ''b'', coin_worth 4 ''c''])) \<and>
   length (select_coins insertion_sort id 10 ''NIGHT''
      (holding LargestFirst [coin_worth 3 ''a'', coin_worth 9 ''b'', coin_worth 4 ''c''])) \<le>
    length [coin_worth 9 ''b'', coin_worth 3 ''a'']"
proof -
  let ?cs = "[coin_worth 3 ''a'', coin_worth 9 ''b'', coin_worth 4 ''c'']"
  have sub: "mset [coin_worth 9 ''b'', coin_worth 3 ''a''] \<subseteq># mset ?cs"
    by (simp add: subseteq_mset_def coin_worth_def)
  have cov: "unat (10 :: u64) \<le> coins_value [coin_worth 9 ''b'', coin_worth 3 ''a'']"
    by (simp add: coins_value_def coin_worth_def)
  have pre: "(0 :: u64) < 10" "coins_value ?cs < 2 ^ 64" "unat (10 :: u64) \<le> coins_value ?cs"
    by (simp_all add: coins_value_def coin_worth_def)
  note l = largest_first_optimal [OF insertion_sort_laws coins_of_holding(2), of 10 "''NIGHT''" ?cs id,
      unfolded coins_of_holding, OF pre]
  have "unat (10 :: u64) = 10" by simp
  with l sub cov show ?thesis by (simp only:)
qed

text \<open>
  The random strategy may find nothing although the first coin it draws covers the amount: when the second is
  worth less than the amount, the improvement pass puts it in the place of the first, as no waste at all, and the
  selection is then thrown away as insufficient.
\<close>

theorem random_improve_discards:
  assumes "strategy f = RandomImprove" and "shuffle_coins draw (coins_of tok f) = c1 # c2 # cs"
    and "wm_utxo_hash c1 \<noteq> wm_utxo_hash c2" and "amount < wm_amount c1" and "wm_amount c2 < amount"
  shows "select_coins srt draw amount tok f = []"
proof -
  have t: "take_until amount 0 (c1 # c2 # cs) = ([c1], wm_amount c1)"
    using assms(4) by (simp add: Let_def less_imp_le)
  have w: "waste_of amount (wm_amount c2) = 0" "0 < waste_of amount (wm_amount c1)"
    using assms(4,5) by (auto simp: waste_of_def word_gt_0)
  then have p: "improve_pass amount 0 [c1] (wm_amount c1) (c1 # c2 # cs) = ([c2], wm_amount c2)"
    using assms(3) by simp
  have l: "largest_idx [c1] = 0" by (simp add: largest_idx_def)
  have "random_improve draw amount (coins_of tok f) = []"
    unfolding random_improve_def assms(2) Let_def t prod.case l p by (simp add: w(2) assms(5))
  then show ?thesis using assms(1) by (simp add: select_coins_def coins_of_def Let_def)
qed

theorem random_improve_discards_witness:
  "select_coins insertion_sort (\<lambda>i. i - 1) 5 ''NIGHT''
     (holding RandomImprove [coin_worth 10 ''a'', coin_worth 1 ''b'', coin_worth 2 ''c'']) = []"
proof (rule random_improve_discards)
  show "shuffle_coins (\<lambda>i. i - 1) (coins_of ''NIGHT''
      (holding RandomImprove [coin_worth 10 ''a'', coin_worth 1 ''b'', coin_worth 2 ''c''])) =
      [coin_worth 10 ''a'', coin_worth 1 ''b'', coin_worth 2 ''c'']"
    by (simp add: coins_of_holding shuffle_coins_def eval_nat_numeral)
qed (simp_all add: coins_of_holding coin_worth_def)

lemma fold_revert: "available_coins (fold revert_input inputs u) = available_coins u @ inputs"
  by (induction inputs arbitrary: u) (simp_all add: revert_input_def)

lemma reverted_coins:
  "fs_unshielded (wf_state (snd (revert_transaction h inputs f))) = fold revert_input inputs (fs_unshielded (wf_state f))"
  by (simp add: revert_transaction_def clear_pending_def update_unshielded_def)

text \<open>
  Reverting does not ask whether a transaction is pending: its inputs become available each time, so that
  reverting twice leaves every input of it available twice.
\<close>

theorem revert_twice_doubles:
  "available_coins (fs_unshielded (wf_state (snd (revert_transaction h inputs (snd (revert_transaction h inputs f)))))) =
     available_coins (fs_unshielded (wf_state f)) @ inputs @ inputs"
  by (simp add: reverted_coins fold_revert)

text \<open>
  Terms and conditions are never found: the query already returns the data of the answer, in which the code
  looks for the data once more.
\<close>

theorem terms_never_found:
  assumes "json_laws (json_of V)" and "new_indexer_client url 15000 = Inr c"
    and "graphql_query V c q_terms [] w = (Inr result, w')" and "\<not> has_key (json_of V) result ''data''"
  shows "fetch_terms_and_conditions V url w = (Inl terms_not_set, w')"
proof -
  note built = lawful_json.built [OF lawful_json.intro [OF assms(1)]]
  have "read_terms (json_of V) result = Inl terms_not_set"
    using assms(4) by (simp add: read_terms_def json_index_def built split: sum.splits)
  then show ?thesis using assms(2,3) by (simp add: fetch_terms_and_conditions_def call_defs)
qed

definition terms_answer :: json where
  "terms_answer = JObject [(''block'', JObject [(''systemParameters'', JObject [(''termsAndConditions'',
     JObject [(''hash'', JString ''ab''), (''url'', JString ''http://terms'')])])])]"

definition terms_services :: "(nat, json) services" where
  "terms_services = \<lparr>json_of = json_std\<lparr>parse := (\<lambda>s. Inr (JObject [(''data'', terms_answer)]))\<rparr>, http_of = sample_relay,
     steady_clock = (\<lambda>w. (0, w)), environment = (\<lambda>_. None)\<rparr>"

lemma terms_services_laws: "json_laws (json_of terms_services)"
  using json_std_laws by (simp add: json_laws_def terms_services_def)

lemma terms_query:
  "map_sum id (\<lambda>c. graphql_query terms_services c q_terms [] 0) (new_indexer_client ''http://ix/graphql'' 15000) =
    Inr (Inr terms_answer, 1)"
  by code_simp

theorem terms_never_found_witness:
  "fetch_terms_and_conditions terms_services ''http://ix/graphql'' 0 = (Inl terms_not_set, 1)"
proof -
  obtain c where c: "new_indexer_client ''http://ix/graphql'' 15000 = Inr c"
      "graphql_query terms_services c q_terms [] 0 = (Inr terms_answer, 1)"
    using terms_query by (cases "new_indexer_client ''http://ix/graphql'' 15000 :: json indexer_client result") auto
  have "\<not> has_key (json_of terms_services) terms_answer ''data''"
    by (simp add: terms_services_def json_std_def terms_answer_def)
  then show ?thesis using terms_never_found [OF terms_services_laws c] by simp
qed

end
