(* ===== verification/WalletSync.thy ===== *)
theory WalletSync
  imports WalletCoins
begin

text \<open>
  Synchronisation of the wallet facade (\<^verbatim>\<open>WalletFacade::sync\<close> of src/wallet/wallet_facade.cpp): the handlers of
  the events of a subscription, in the order in which the events are delivered, then the scan of blocks over
  HTTP, in the order in which its threads finish the blocks, then the DUST status. The subscription, the answers
  for a block, the environment and the clock are parameters. Results: events keep the NIGHT balance equal to the
  sum of the coins; a scan does so only for a wallet that held no NIGHT before.
\<close>

section \<open>Events\<close>

record utxo_event =
  ue_tx_hash :: string
  ue_output_index :: u32
  ue_amount :: u64
  ue_token_type :: string
  ue_registered :: bool

record unshielded_event =
  transaction_id :: u64
  ev_created :: "utxo_event list"
  ev_spent :: "utxo_event list"

datatype sync_event = Progress u64 | Utxos unshielded_event | Connection bool

definition outpoint :: "string \<Rightarrow> u32 \<Rightarrow> string" where
  "outpoint tx_hash index = tx_hash @ '':'' @ to_string (unat index)"

definition token_or_night :: "string \<Rightarrow> string" where
  "token_or_night t = (if t = [] then ''NIGHT'' else t)"

definition coin_of_event :: "int \<Rightarrow> utxo_event \<Rightarrow> utxo_with_meta" where
  "coin_of_event now e =
     \<lparr>wm_utxo_hash = outpoint (ue_tx_hash e) (ue_output_index e), wm_output_index = ue_output_index e,
      wm_amount = ue_amount e, wm_token_type = token_or_night (ue_token_type e), wm_tx_hash = ue_tx_hash e,
      wm_receiver_address = [], wm_ctime = now, wm_registered_for_dust = ue_registered e\<rparr>"

definition night_total :: "utxo_with_meta list \<Rightarrow> u64" where
  "night_total cs = foldl (\<lambda>acc c. if wm_token_type c = ''NIGHT'' then acc + wm_amount c else acc) 0 cs"

definition set_night :: "u64 \<Rightarrow> unshielded_state \<Rightarrow> unshielded_state" where
  "set_night v u = u\<lparr>us_balances := map_put ''NIGHT'' v (us_balances u)\<rparr>"

definition on_utxo :: "int \<Rightarrow> unshielded_event \<Rightarrow> unshielded_state \<Rightarrow> unshielded_state" where
  "on_utxo now e u =
     (let coins = available_coins u @ map (coin_of_event now) (ev_created e);
          coins = fold (\<lambda>s. filter (\<lambda>m. wm_utxo_hash m \<noteq> outpoint (ue_tx_hash s) (ue_output_index s))) (ev_spent e) coins;
          u = set_night (night_total coins) (u\<lparr>available_coins := coins\<rparr>)
      in if 0 < transaction_id e then u\<lparr>us_progress := (us_progress u)\<lparr>applied_id := transaction_id e\<rparr>\<rparr> else u)"

text \<open>Besides the state, whether the wallet has caught up and whether there was an error.\<close>

record sync_flags =
  catchup_done :: bool
  sync_error :: bool

fun on_event :: "int \<Rightarrow> sync_event \<Rightarrow> unshielded_state \<times> sync_flags \<Rightarrow> unshielded_state \<times> sync_flags" where
  "on_event now (Progress highest) (u, fl) =
     (u\<lparr>us_progress := (us_progress u)\<lparr>highest_transaction_id := highest\<rparr>\<rparr>,
      if 0 < highest \<and> 0 < applied_id (us_progress u) then fl\<lparr>catchup_done := True\<rparr> else fl)"
| "on_event now (Utxos e) (u, fl) = (on_utxo now e u, fl)"
| "on_event now (Connection ok) (u, fl) = (u, if ok then fl else fl\<lparr>sync_error := True, catchup_done := True\<rparr>)"

definition websocket_url :: "string \<Rightarrow> string" where
  "websocket_url http_url =
     (let ws = (if starts_with http_url ''https://'' then ''wss://'' @ drop 8 http_url
                else if starts_with http_url ''http://'' then ''ws://'' @ drop 7 http_url else http_url)
      in if str_find ws ''/api/v4/graphql'' 0 = None
         then ws @ (if ws \<noteq> [] \<and> last ws = CHR ''/'' then ''api/v4/graphql'' else ''/api/v4/graphql'') else ws)"

text \<open>The first attempt: the events delivered until it ends, and whether the subscription was accepted.\<close>

definition websocket_sync :: "int \<Rightarrow> bool \<Rightarrow> sync_event list \<Rightarrow> unshielded_state \<Rightarrow> unshielded_state \<times> bool" where
  "websocket_sync now subscribed events u =
     (case fold (on_event now) events (u, \<lparr>catchup_done = False, sync_error = False\<rparr>) of
        (u', fl) \<Rightarrow> (u', subscribed \<and> \<not> sync_error fl \<and> 0 < applied_id (us_progress u')))"

section \<open>The scan of blocks\<close>

definition coin_of_output :: "int \<Rightarrow> indexed_utxo \<Rightarrow> utxo_with_meta" where
  "coin_of_output now out =
     \<lparr>wm_utxo_hash = outpoint (iu_tx_hash out) (iu_output_index out), wm_output_index = iu_output_index out,
      wm_amount = iu_value out, wm_token_type = token_or_night (iu_token_type out), wm_tx_hash = iu_tx_hash out,
      wm_receiver_address = [], wm_ctime = now, wm_registered_for_dust = iu_registered out\<rparr>"

definition scan_start :: "unshielded_state \<Rightarrow> u32" where
  "scan_start u = (if 0 < applied_id (us_progress u) then ucast (applied_id (us_progress u)) else 609178)"

text \<open>\<open>order\<close> lists the blocks of the range as their answers arrive.\<close>

definition scanned :: "(u32 \<Rightarrow> indexed_utxo list) \<Rightarrow> u32 list \<Rightarrow> (u32 \<times> indexed_utxo) list" where
  "scanned answer order = concat (map (\<lambda>h. map (Pair h) (answer h)) order)"

definition apply_scan :: "int \<Rightarrow> u32 \<Rightarrow> (u32 \<times> indexed_utxo) list \<Rightarrow> unshielded_state \<Rightarrow> unshielded_state" where
  "apply_scan now tip found u =
     (let coins = map (coin_of_output now \<circ> snd) found
      in set_night (night_total coins)
        (u\<lparr>available_coins := available_coins u @ coins,
           us_progress := (us_progress u)\<lparr>applied_id := (if found \<noteq> [] then ucast (fst (last found)) else ucast tip)\<rparr>\<rparr>))"

section \<open>The whole\<close>

definition dust_status :: "utxo_with_meta list \<Rightarrow> dust_state \<Rightarrow> dust_state" where
  "dust_status coins d =
     foldl (\<lambda>d c. if wm_registered_for_dust c
         then d\<lparr>ds_registered := True, registered_night_amount := registered_night_amount d + wm_amount c\<rparr> else d)
       (d\<lparr>ds_registered := False, registered_night_amount := 0\<rparr>) coins"

definition mark_synced :: "bool \<Rightarrow> unshielded_state \<Rightarrow> unshielded_state" where
  "mark_synced ok u = u\<lparr>us_synced := ok, us_progress := (us_progress u)\<lparr>progress_connected := ok\<rparr>\<rparr>"

text \<open>
  \<open>tip\<close> is the height of the chain, or the exception of asking for it; \<open>answer\<close> and \<open>order\<close> are of the scan. An
  exception in a thread of the scan ends the program and is left out, as is a wallet without a logger.
\<close>

definition facade_sync ::
  "(string \<Rightarrow> string option) \<Rightarrow> int \<Rightarrow> bool \<Rightarrow> sync_event list \<Rightarrow> u32 result \<Rightarrow> (u32 \<Rightarrow> indexed_utxo list) \<Rightarrow>
   (u32 \<Rightarrow> u32 \<Rightarrow> u32 list) \<Rightarrow> 'w wallet_facade \<Rightarrow> 'w wallet_facade" where
  "facade_sync env now subscribed events tip answer order f =
     (case websocket_sync now subscribed events (fs_unshielded (wf_state f)) of
        (u, sync_ok) \<Rightarrow>
          (case (if \<not> sync_ok \<and> env_flag_enabled env ''MIDNIGHT_ENABLE_FULL_WALLET_SYNC_SCAN''
                 then rbind tip (\<lambda>t. Inr (apply_scan now t (scanned answer (order (scan_start u) t)) u, True))
                 else Inr (u, sync_ok)) of
             Inl e \<Rightarrow> update_unshielded (\<lambda>_. mark_synced False u) f
           | Inr (u, ok) \<Rightarrow>
               f\<lparr>wf_state := (wf_state f)
                   \<lparr>fs_unshielded := mark_synced ok u,
                    fs_dust := dust_status (available_coins u) (fs_dust (wf_state f))\<rparr>\<rparr>))"

section \<open>Properties\<close>

text \<open>The NIGHT balance is the sum of the NIGHT coins.\<close>

definition night_consistent :: "unshielded_state \<Rightarrow> bool" where
  "night_consistent u \<longleftrightarrow> map_of (us_balances u) ''NIGHT'' = Some (night_total (available_coins u))"

lemma night_total_eq: "night_total cs = sum_list (map wm_amount (filter (\<lambda>c. wm_token_type c = ''NIGHT'') cs))"
proof -
  have "foldl (\<lambda>acc c. if wm_token_type c = ''NIGHT'' then acc + wm_amount c else acc) a cs =
      a + sum_list (map wm_amount (filter (\<lambda>c. wm_token_type c = ''NIGHT'') cs))" for a
    by (induction cs arbitrary: a) (auto simp: ac_simps)
  then show ?thesis by (simp add: night_total_def)
qed

lemma night_total_append: "night_total (xs @ ys) = night_total xs + night_total ys"
  by (simp add: night_total_eq)

lemma set_night_facts [simp]:
  "sorted_map (us_balances u) \<Longrightarrow> map_of (us_balances (set_night v u)) ''NIGHT'' = Some v"
  "sorted_map (us_balances u) \<Longrightarrow> sorted_map (us_balances (set_night v u))"
  "available_coins (set_night v u) = available_coins u"
  "us_progress (set_night v u) = us_progress u"
  by (simp_all add: set_night_def map_of_map_put sorted_map_put)

lemma on_utxo_consistent:
  assumes "sorted_map (us_balances u)"
  shows "night_consistent (on_utxo now e u)" "sorted_map (us_balances (on_utxo now e u))"
  using assms by (auto simp: on_utxo_def night_consistent_def Let_def)

lemma on_event_keeps:
  assumes "night_consistent u" and "sorted_map (us_balances u)" and "on_event now ev (u, fl) = (u', fl')"
  shows "night_consistent u' \<and> sorted_map (us_balances u')"
  using assms on_utxo_consistent [OF assms(2)]
  by (cases ev) (auto simp: night_consistent_def)

lemma events_keep:
  assumes "night_consistent u" and "sorted_map (us_balances u)" and "fold (on_event now) evs (u, fl) = (u', fl')"
  shows "night_consistent u'"
  using assms
proof (induction evs arbitrary: u fl)
  case Nil
  then show ?case by simp
next
  case (Cons ev evs)
  obtain v fl2 where v: "on_event now ev (u, fl) = (v, fl2)" by fastforce
  then show ?case using Cons.IH [of v fl2] on_event_keeps [OF Cons.prems(1,2) v] Cons.prems(3) by simp
qed

text \<open>
  C7: The events of a subscription keep the NIGHT balance equal to the sum of the NIGHT coins, modulo \<open>2^64\<close>,
  in whatever order they arrive; and the first event with outputs establishes it.
\<close>

theorem events_balance:
  assumes "sorted_map (us_balances u)" and "fold (on_event now) evs (on_utxo now e u, fl) = (u', fl')"
  shows "map_of (us_balances u') ''NIGHT'' =
    Some (sum_list (map wm_amount (filter (\<lambda>c. wm_token_type c = ''NIGHT'') (available_coins u'))))"
  using events_keep [OF on_utxo_consistent [OF assms(1)] assms(2)] by (simp add: night_consistent_def night_total_eq)

definition sample_created :: utxo_event where
  "sample_created = \<lparr>ue_tx_hash = ''ab'', ue_output_index = 0, ue_amount = 7, ue_token_type = [], ue_registered = True\<rparr>"

definition sample_tx :: unshielded_event where
  "sample_tx = \<lparr>transaction_id = 3, ev_created = [sample_created, sample_created\<lparr>ue_output_index := 1\<rparr>], ev_spent = [sample_created]\<rparr>"

theorem events_balance_witness:
  "map_of (us_balances (fst (fold (on_event 0) [Progress 9]
     (on_utxo 0 sample_tx (fs_unshielded new_facade_state), \<lparr>catchup_done = False, sync_error = False\<rparr>)))) ''NIGHT'' = Some 7"
proof -
  let ?u = "fs_unshielded new_facade_state" and ?fl = "\<lparr>catchup_done = False, sync_error = False\<rparr>"
  obtain u' fl' where r: "fold (on_event 0) [Progress 9] (on_utxo 0 sample_tx ?u, ?fl) = (u', fl')" by fastforce
  have "sorted_map (us_balances ?u)" by (simp add: new_facade_state_def)
  from events_balance [OF this r]
  have "map_of (us_balances u') ''NIGHT'' =
      Some (sum_list (map wm_amount (filter (\<lambda>c. wm_token_type c = ''NIGHT'') (available_coins u'))))" .
  moreover have "map wm_amount (filter (\<lambda>c. wm_token_type c = ''NIGHT'') (available_coins u')) = [7]"
    using r by (auto simp: on_utxo_def sample_tx_def sample_created_def coin_of_event_def token_or_night_def outpoint_def
        new_facade_state_def Let_def to_string_eval)
  ultimately show ?thesis using r by simp
qed

text \<open>
  C8: A scan of blocks adds its coins to those the wallet holds but counts only its own: the NIGHT balance is
  the sum of the NIGHT coins afterwards exactly if the wallet held no NIGHT before.
\<close>

theorem scan_forgets_balance:
  assumes "sorted_map (us_balances u)"
  shows "available_coins (apply_scan now tip found u) = available_coins u @ map (coin_of_output now \<circ> snd) found \<and>
    (map_of (us_balances (apply_scan now tip found u)) ''NIGHT'' =
       Some (sum_list (map wm_amount (filter (\<lambda>c. wm_token_type c = ''NIGHT'') (available_coins (apply_scan now tip found u)))))
     \<longleftrightarrow> sum_list (map wm_amount (filter (\<lambda>c. wm_token_type c = ''NIGHT'') (available_coins u))) = 0)"
  using assms
  by (simp add: apply_scan_def Let_def night_total_eq [symmetric] night_total_append)

theorem scan_forgets_balance_witness:
  "\<not> night_consistent (apply_scan 0 609180 []
     (on_utxo 0 (sample_tx\<lparr>ev_spent := []\<rparr>) (fs_unshielded new_facade_state)))"
proof -
  let ?u = "on_utxo 0 (sample_tx\<lparr>ev_spent := []\<rparr>) (fs_unshielded new_facade_state)"
  have "sorted_map (us_balances (fs_unshielded new_facade_state))" by (simp add: new_facade_state_def)
  then have "sorted_map (us_balances ?u)" by (rule on_utxo_consistent)
  from scan_forgets_balance [OF this, of 0 609180 "[]"]
  show ?thesis
    by (auto simp: night_consistent_def night_total_eq on_utxo_def sample_tx_def sample_created_def coin_of_event_def
        token_or_night_def new_facade_state_def Let_def)
qed

end
