(* ===== verification/WalletStore.thy ===== *)
theory WalletStore
  imports Sodium Json Base64
begin

text \<open>
  The wallet store (include/midnight/blockchain/wallet_manager.hpp, src/blockchain/wallet_manager.cpp): one file
  per alias, holding a seed encrypted under a passphrase of the environment, or a state encrypted by the caller.
  OpenSSL, the text form of JSON, the environment, the clock and the faults of the file system are parameters.
  Results: a saved seed is loaded again, in its normal form, and no other alias is touched; but a file is
  removed before its successor is in place, so that a failed rename loses the wallet, and an encrypted state
  takes the place of the seed that was stored under the alias.
\<close>

section \<open>Parameters\<close>

text \<open>
  PBKDF2 with 200000 rounds of HMAC-SHA256 (the passphrase, the salt), AES-256-GCM encryption to a ciphertext and
  a tag (the key, the nonce, the text), and its inverse, \<open>None\<close> when a step of it fails, the check of the tag
  included.
\<close>

record openssl =
  pbkdf2 :: "string \<Rightarrow> bytes \<Rightarrow> bytes option"
  aes_seal :: "bytes \<Rightarrow> bytes \<Rightarrow> bytes \<Rightarrow> (bytes \<times> bytes) option"
  aes_open :: "bytes \<Rightarrow> bytes \<Rightarrow> bytes \<Rightarrow> bytes \<Rightarrow> bytes option"

definition openssl_laws :: "openssl \<Rightarrow> bool" where
  "openssl_laws Z \<longleftrightarrow>
     (\<forall>k no pt ct tg. aes_seal Z k no pt = Some (ct, tg) \<longrightarrow>
        length ct = length pt \<and> length tg = 16 \<and> aes_open Z k no ct tg = Some pt)"

text \<open>
  \<^verbatim>\<open>dump(2)\<close>, \<open>None\<close> for text that is no UTF-8, for which it throws, and \<^verbatim>\<open>operator>>\<close>, which reads the first
  value of a stream.
\<close>

record 'j json_text =
  dump_indented :: "'j \<Rightarrow> string option"
  parse_stream :: "string \<Rightarrow> string + 'j"

definition json_text_laws :: "'j json_text \<Rightarrow> bool" where
  "json_text_laws X \<longleftrightarrow> (\<forall>j t. dump_indented X j = Some t \<longrightarrow> parse_stream X t = Inr j)"

text \<open>
  What a call finds around it: the environment, the working directory, the two times it reads, the count of the
  high-resolution clock, the random salt and nonce (\<open>None\<close> when drawing them fails), and the faults of the file
  system, as their messages.
\<close>

record host =
  h_env :: "string \<Rightarrow> string option"
  h_cwd :: "string option"
  h_created :: string
  h_updated :: string
  h_ticks :: nat
  h_salt :: "bytes option"
  h_nonce :: "bytes option"
  h_dir_error :: "string option"
  h_scan_error :: "string option"
  h_open_error :: bool
  h_write_error :: bool
  h_mode_error :: "string option"
  h_remove_error :: "string option"
  h_rename_error :: "string option"

text \<open>The file system: the regular files, by their paths, and the directories.\<close>

record disk =
  d_files :: "(string \<times> string) list"
  d_dirs :: "string list"

text \<open>An operation that fails says why; exceptions pass through all of them.\<close>

type_synonym 'a outcome = "(string + 'a) result"

section \<open>Hexadecimal and aliases\<close>

fun store_hex_loop :: "string \<Rightarrow> bytes option" where
  "store_hex_loop (a # b # s) =
     (let hi = hex_nibble a; lo = hex_nibble b
      in if hi < 0 \<or> lo < 0 then None
         else map_option ((#) (word_of_int (push_bit 4 hi OR lo))) (store_hex_loop s))"
| "store_hex_loop s = Some []"

definition store_hex_decode :: "string \<Rightarrow> bytes option" where
  "store_hex_decode hex = (if length hex mod 2 \<noteq> 0 then None else store_hex_loop hex)"

definition alias_char :: "char \<Rightarrow> bool" where
  "alias_char c \<longleftrightarrow> isalnum c \<or> c = CHR ''.'' \<or> c = CHR ''_'' \<or> c = CHR ''-''"

definition is_valid_alias :: "string \<Rightarrow> bool" where
  "is_valid_alias s \<longleftrightarrow>
     3 \<le> length s \<and> length s \<le> 64 \<and> isalnum (s ! 0) \<and> isalnum (last s) \<and> list_all alias_char s"

definition normalize_seed_hex :: "string \<Rightarrow> string option" where
  "normalize_seed_hex seed_hex =
     (let raw = (if 2 \<le> length seed_hex \<and> seed_hex ! 0 = CHR ''0'' \<and> (seed_hex ! 1 = CHR ''x'' \<or> seed_hex ! 1 = CHR ''X'')
                 then drop 2 seed_hex else seed_hex)
      in if length raw \<noteq> 64 then None
         else if list_all isxdigit raw then Some (map tolower raw) else None)"

section \<open>Paths and directories\<close>

definition env_text :: "host \<Rightarrow> string \<Rightarrow> string" where
  "env_text H name = (case h_env H name of Some v \<Rightarrow> v | None \<Rightarrow> [])"

definition read_store_passphrase :: "host \<Rightarrow> string" where
  "read_store_passphrase H = env_text H ''MIDNIGHT_WALLET_STORE_PASSPHRASE''"

definition is_absolute :: "string \<Rightarrow> bool" where
  "is_absolute p \<longleftrightarrow> p \<noteq> [] \<and> p ! 0 = CHR ''/''"

text \<open>\<^verbatim>\<open>operator/\<close>, \<^verbatim>\<open>filename\<close> and \<^verbatim>\<open>parent_path\<close> of \<^verbatim>\<open>std::filesystem::path\<close> on POSIX.\<close>

definition path_join :: "string \<Rightarrow> string \<Rightarrow> string" where
  "path_join p q =
     (if is_absolute q then q else if p = [] \<or> last p = CHR ''/'' then p @ q else p @ ''/'' @ q)"

definition path_filename :: "string \<Rightarrow> string" where
  "path_filename p = rev (takeWhile (\<lambda>c. c \<noteq> CHR ''/'') (rev p))"

definition path_parent :: "string \<Rightarrow> string" where
  "path_parent p =
     (let d = take (length p - length (path_filename p)) p;
          s = rev (dropWhile (\<lambda>c. c = CHR ''/'') (rev d))
      in if s = [] then d else s)"

text \<open>\<^verbatim>\<open>extension\<close> and \<^verbatim>\<open>stem\<close> of a file name: a dot in front starts no extension.\<close>

definition path_extension :: "string \<Rightarrow> string" where
  "path_extension name =
     (case rfind_char (CHR ''.'') name of None \<Rightarrow> [] | Some i \<Rightarrow> if i = 0 then [] else drop i name)"

definition path_stem :: "string \<Rightarrow> string" where
  "path_stem name =
     (case rfind_char (CHR ''.'') name of None \<Rightarrow> name | Some i \<Rightarrow> if i = 0 then name else take i name)"

definition resolve_store_dir_path :: "host \<Rightarrow> string \<Rightarrow> string" where
  "resolve_store_dir_path H dir =
     (if dir \<noteq> [] then dir
      else if env_text H ''MIDNIGHT_WALLET_STORE_DIR'' \<noteq> [] then env_text H ''MIDNIGHT_WALLET_STORE_DIR''
      else if env_text H ''HOME'' \<noteq> []
      then path_join (path_join (path_join (path_join (env_text H ''HOME'') ''.local'') ''share'') ''midnight'') ''wallets''
      else ''.midnight-wallets'')"

definition resolve_store_dir_canonical :: "host \<Rightarrow> string \<Rightarrow> string" where
  "resolve_store_dir_canonical H dir =
     (let base = resolve_store_dir_path H dir
      in if is_absolute base then base
         else (case h_cwd H of None \<Rightarrow> base | Some cwd \<Rightarrow> path_join cwd base))"

definition default_store_dir :: "host \<Rightarrow> string" where
  "default_store_dir H = resolve_store_dir_canonical H []"

text \<open>The permissions of the directory are set without a check.\<close>

definition ensure_store_dir :: "host \<Rightarrow> string \<Rightarrow> disk \<Rightarrow> (string + unit) \<times> disk" where
  "ensure_store_dir H dir D =
     (case h_dir_error H of
        Some e \<Rightarrow> (Inl (''Failed to create wallet store directory: '' @ e), D)
      | None \<Rightarrow> (Inr (), D\<lparr>d_dirs := List.insert dir (d_dirs D)\<rparr>))"

definition alias_file_path :: "string \<Rightarrow> string \<Rightarrow> string" where
  "alias_file_path dir name = path_join dir (name @ ''.json'')"

section \<open>Seeds\<close>

definition encrypt_seed_hex :: "openssl \<Rightarrow> 'j json_ops \<Rightarrow> host \<Rightarrow> string \<Rightarrow> string \<Rightarrow> string + 'j" where
  "encrypt_seed_hex Z J H seed passphrase =
     (case store_hex_decode seed of
        None \<Rightarrow> Inl ''Failed to normalize seed before encryption''
      | Some seed_bytes \<Rightarrow>
          if length seed_bytes \<noteq> 32 then Inl ''Failed to normalize seed before encryption''
          else
            (case (h_salt H, h_nonce H) of
               (Some sa, Some no) \<Rightarrow>
                 (case pbkdf2 Z passphrase sa of
                    None \<Rightarrow> Inl ''Failed to derive wallet encryption key''
                  | Some key \<Rightarrow>
                      (case aes_seal Z key no seed_bytes of
                         None \<Rightarrow> Inl ''Failed to encrypt wallet seed''
                       | Some (ct, tg) \<Rightarrow>
                           Inr (mk_object J
                             [(''algorithm'', mk_string J ''aes-256-gcm''),
                              (''ciphertextHex'', mk_string J (util_bytes_to_hex ct)),
                              (''iterations'', mk_number J 200000),
                              (''kdf'', mk_string J ''pbkdf2-hmac-sha256''),
                              (''nonceHex'', mk_string J (util_bytes_to_hex no)),
                              (''saltHex'', mk_string J (util_bytes_to_hex sa)),
                              (''tagHex'', mk_string J (util_bytes_to_hex tg))])))
             | _ \<Rightarrow> Inl ''Failed to generate random values for wallet encryption''))"

text \<open>A number read as \<^verbatim>\<open>int\<close>.\<close>

definition read_int32 :: "'j json_ops \<Rightarrow> 'j \<Rightarrow> int result" where
  "read_int32 J j = rbind (read_u32 J j) (\<lambda>w. Inr (sint w))"

definition sized_hex :: "nat \<Rightarrow> string \<Rightarrow> bytes option" where
  "sized_hex n s = (case store_hex_decode s of None \<Rightarrow> None | Some bs \<Rightarrow> if length bs \<noteq> n then None else Some bs)"

definition decrypt_seed_hex :: "openssl \<Rightarrow> 'j json_ops \<Rightarrow> 'j \<Rightarrow> string \<Rightarrow> string outcome" where
  "decrypt_seed_hex Z J payload passphrase =
     (if \<not> is_object J payload then Inr (Inl ''Encrypted wallet payload is malformed'')
      else
        rbind (json_value J (read_string J) payload ''saltHex'' []) (\<lambda>salt_hex.
        rbind (json_value J (read_string J) payload ''nonceHex'' []) (\<lambda>nonce_hex.
        rbind (json_value J (read_string J) payload ''tagHex'' []) (\<lambda>tag_hex.
        rbind (json_value J (read_string J) payload ''ciphertextHex'' []) (\<lambda>ciphertext_hex.
        rbind (json_value J (read_int32 J) payload ''iterations'' 200000) (\<lambda>iterations.
          if iterations \<noteq> 200000 then Inr (Inl ''Unsupported wallet encryption iteration count'')
          else
            (case (sized_hex 16 salt_hex, sized_hex 12 nonce_hex, sized_hex 16 tag_hex, store_hex_decode ciphertext_hex) of
               (Some sa, Some no, Some tg, Some ct) \<Rightarrow>
                 if ct = [] then Inr (Inl ''Encrypted wallet payload has invalid encoding'')
                 else
                   (case pbkdf2 Z passphrase sa of
                      None \<Rightarrow> Inr (Inl ''Failed to derive wallet encryption key'')
                    | Some key \<Rightarrow>
                        (case aes_open Z key no ct tg of
                           None \<Rightarrow>
                             Inr (Inl ''Failed to decrypt wallet seed. Check MIDNIGHT_WALLET_STORE_PASSPHRASE.'')
                         | Some pt \<Rightarrow>
                             if length pt \<noteq> 32 then Inr (Inl ''Decrypted wallet seed has unexpected size'')
                             else Inr (Inr (util_bytes_to_hex pt))))
             | _ \<Rightarrow> Inr (Inl ''Encrypted wallet payload has invalid encoding''))))))))"

section \<open>Wallet files\<close>

definition read_wallet_json :: "'j json_text \<Rightarrow> string \<Rightarrow> disk \<Rightarrow> string + 'j" where
  "read_wallet_json X path D =
     (case map_of (d_files D) path of
        None \<Rightarrow> Inl (''Wallet alias not found: '' @ path)
      | Some text \<Rightarrow>
          (case parse_stream X text of
             Inl what \<Rightarrow> Inl (''Wallet file is not valid JSON: '' @ what)
           | Inr j \<Rightarrow> Inr j))"

definition temp_path :: "host \<Rightarrow> string \<Rightarrow> string" where
  "temp_path H path = path_join (path_parent path) (path_filename path @ ''.tmp.'' @ to_string (h_ticks H))"

text \<open>
  The message of a failed removal or rename is read after the temporary file is removed under the same error
  code, which clears it.
\<close>

definition write_wallet_json :: "'j json_text \<Rightarrow> host \<Rightarrow> string \<Rightarrow> 'j \<Rightarrow> disk \<Rightarrow> unit outcome \<times> disk" where
  "write_wallet_json X H path payload D =
     (let tmp = temp_path H path; clean = D\<lparr>d_files := map_del tmp (d_files D)\<rparr>
      in if h_open_error H then (Inr (Inl (''Failed to write temporary wallet file: '' @ tmp)), clean)
         else
           (case dump_indented X payload of
              None \<Rightarrow> (Inl type_error, D\<lparr>d_files := map_put tmp [] (d_files D)\<rparr>)
            | Some text \<Rightarrow>
                if h_write_error H
                then (Inr (Inl ''Failed to persist wallet payload to temporary file''), clean)
                else
                  (case h_mode_error H of
                     Some e \<Rightarrow>
                       (Inr (Inl (''Failed to set restrictive permissions on temp wallet file: '' @ e)), clean)
                   | None \<Rightarrow>
                       if map_of (d_files D) path \<noteq> None \<and> h_remove_error H \<noteq> None
                       then (Inr (Inl ''Failed to replace existing wallet file: Success''), clean)
                       else
                         (let removed = clean\<lparr>d_files := map_del path (d_files clean)\<rparr>
                          in if h_rename_error H \<noteq> None
                             then (Inr (Inl ''Failed to move wallet file into place: Success''), removed)
                             else (Inr (Inr ()), removed\<lparr>d_files := map_put path text (d_files removed)\<rparr>)))))"

section \<open>The store\<close>

record managed_wallet =
  mw_alias :: string
  mw_network :: string
  mw_seed_hex :: string
  mw_created_at :: string
  mw_updated_at :: string

definition alias_error :: string where
  "alias_error = ''Invalid wallet alias. Use 3-64 chars [A-Za-z0-9._-], starting and ending with alphanumeric.''"

text \<open>The time of creation: that of the file that is replaced, when it can be read and has one.\<close>

definition created_time :: "'j json_ops \<Rightarrow> 'j json_text \<Rightarrow> host \<Rightarrow> string \<Rightarrow> disk \<Rightarrow> string result" where
  "created_time J X H path D =
     (case read_wallet_json X path D of
        Inl _ \<Rightarrow> Inr (h_created H)
      | Inr existing \<Rightarrow>
          rbind (json_value J (read_string J) existing ''createdAt'' []) (\<lambda>c. Inr (if c = [] then h_created H else c)))"

definition seed_payload :: "'j json_ops \<Rightarrow> string \<Rightarrow> string \<Rightarrow> 'j \<Rightarrow> string \<Rightarrow> string \<Rightarrow> 'j" where
  "seed_payload J name net cipher created updated =
     mk_object J [(''alias'', mk_string J name), (''createdAt'', mk_string J created), (''network'', mk_string J net),
       (''seedCipher'', cipher), (''updatedAt'', mk_string J updated), (''version'', mk_number J 2)]"

definition save_seed_hex ::
  "openssl \<Rightarrow> 'j json_ops \<Rightarrow> 'j json_text \<Rightarrow> host \<Rightarrow> string \<Rightarrow> string \<Rightarrow> string \<Rightarrow> string \<Rightarrow> disk \<Rightarrow> unit outcome \<times> disk" where
  "save_seed_hex Z J X H name seed_hex net dir D =
     (if \<not> is_valid_alias name then (Inr (Inl alias_error), D)
      else
        (case normalize_seed_hex seed_hex of
           None \<Rightarrow> (Inr (Inl ''Seed must be exactly 32 bytes (64 hex chars, optional 0x prefix)''), D)
         | Some seed \<Rightarrow>
             if length (read_store_passphrase H) < 16
             then (Inr (Inl (''Set MIDNIGHT_WALLET_STORE_PASSPHRASE with at least 16 characters '' @
               ''before saving wallet seeds'')), D)
             else
               (let store = resolve_store_dir_canonical H dir
                in case ensure_store_dir H store D of
                     (Inl e, D1) \<Rightarrow> (Inr (Inl e), D1)
                   | (Inr _, D1) \<Rightarrow>
                       (let path = alias_file_path store name
                        in case created_time J X H path D1 of
                             Inl e \<Rightarrow> (Inl e, D1)
                           | Inr created \<Rightarrow>
                               (case encrypt_seed_hex Z J H seed (read_store_passphrase H) of
                                  Inl e \<Rightarrow> (Inr (Inl e), D1)
                                | Inr cipher \<Rightarrow>
                                    write_wallet_json X H path (seed_payload J name net cipher created (h_updated H)) D1)))))"

definition load_wallet ::
  "openssl \<Rightarrow> 'j json_ops \<Rightarrow> 'j json_text \<Rightarrow> host \<Rightarrow> string \<Rightarrow> string \<Rightarrow> disk \<Rightarrow> managed_wallet outcome" where
  "load_wallet Z J X H name dir D =
     (if \<not> is_valid_alias name then Inr (Inl alias_error)
      else
        (case read_wallet_json X (alias_file_path (resolve_store_dir_canonical H dir) name) D of
           Inl e \<Rightarrow> Inr (Inl e)
         | Inr payload \<Rightarrow>
             rbind (json_value J (read_string J) payload ''alias'' name) (\<lambda>al.
             rbind (json_value J (read_string J) payload ''network'' []) (\<lambda>net.
             rbind (json_value J (read_string J) payload ''createdAt'' []) (\<lambda>created.
             rbind (json_value J (read_string J) payload ''updatedAt'' []) (\<lambda>updated.
             rbind (if has_key J payload ''seedCipher''
                    then
                      (if length (read_store_passphrase H) < 16
                       then Inr (Inl (''Set MIDNIGHT_WALLET_STORE_PASSPHRASE with at least 16 characters '' @
                         ''to unlock wallet seeds''))
                       else decrypt_seed_hex Z J (member J payload ''seedCipher'') (read_store_passphrase H))
                    else rbind (json_value J (read_string J) payload ''seedHex'' []) (\<lambda>s. Inr (Inr s))) (\<lambda>r.
               case r of
                 Inl e \<Rightarrow> Inr (Inl e)
               | Inr seed_hex \<Rightarrow>
                   (case normalize_seed_hex seed_hex of
                      None \<Rightarrow> Inr (Inl (''Stored wallet seed is invalid for alias: '' @ name))
                    | Some seed \<Rightarrow>
                        Inr (Inr \<lparr>mw_alias = (if al = [] then name else al), mw_network = net, mw_seed_hex = seed,
                          mw_created_at = created, mw_updated_at = updated\<rparr>)))))))))"

definition load_seed_hex ::
  "openssl \<Rightarrow> 'j json_ops \<Rightarrow> 'j json_text \<Rightarrow> host \<Rightarrow> string \<Rightarrow> string \<Rightarrow> disk \<Rightarrow> string outcome" where
  "load_seed_hex Z J X H name dir D =
     rbind (load_wallet Z J X H name dir D) (\<lambda>r.
       Inr (case r of Inl e \<Rightarrow> Inl e | Inr entry \<Rightarrow> Inr (mw_seed_hex entry)))"

text \<open>
  The names of the files of a directory. When the directory cannot be scanned the loop does not run, and its
  test of the error code is not reached.
\<close>

definition dir_names :: "host \<Rightarrow> string \<Rightarrow> disk \<Rightarrow> string list" where
  "dir_names H dir D =
     (if h_scan_error H \<noteq> None then []
      else map (path_filename \<circ> fst) (filter (\<lambda>p. path_join dir (path_filename (fst p)) = fst p) (d_files D)))"

definition list_aliases :: "host \<Rightarrow> string \<Rightarrow> disk \<Rightarrow> string list" where
  "list_aliases H dir D =
     (let store = resolve_store_dir_canonical H dir
      in if store \<notin> set (d_dirs D) then []
         else sort (filter is_valid_alias (map path_stem (filter (\<lambda>n. path_extension n = ''.json'') (dir_names H store D)))))"

definition remove_wallet :: "host \<Rightarrow> string \<Rightarrow> string \<Rightarrow> disk \<Rightarrow> (string + unit) \<times> disk" where
  "remove_wallet H name dir D =
     (if \<not> is_valid_alias name then (Inl alias_error, D)
      else
        (let path = alias_file_path (resolve_store_dir_canonical H dir) name
         in if map_of (d_files D) path = None then (Inl (''Wallet alias not found: '' @ name), D)
            else (case h_remove_error H of
                    Some e \<Rightarrow> (Inl (''Failed to remove wallet alias: '' @ e), D)
                  | None \<Rightarrow> (Inr (), D\<lparr>d_files := map_del path (d_files D)\<rparr>))))"

section \<open>Encrypted states\<close>

definition state_payload :: "'j json_ops \<Rightarrow> string \<Rightarrow> string \<Rightarrow> string \<Rightarrow> string \<Rightarrow> 'j" where
  "state_payload J name encrypted created updated =
     mk_object J [(''alias'', mk_string J name), (''createdAt'', mk_string J created),
       (''encryptedState'', mk_string J encrypted), (''updatedAt'', mk_string J updated), (''version'', mk_number J 3)]"

definition save_encrypted ::
  "'j json_ops \<Rightarrow> 'j json_text \<Rightarrow> host \<Rightarrow> string \<Rightarrow> string \<Rightarrow> string \<Rightarrow> disk \<Rightarrow> unit outcome \<times> disk" where
  "save_encrypted J X H name encrypted dir D =
     (if \<not> is_valid_alias name then (Inr (Inl alias_error), D)
      else
        (let store = resolve_store_dir_canonical H dir
         in case ensure_store_dir H store D of
              (Inl e, D1) \<Rightarrow> (Inr (Inl e), D1)
            | (Inr _, D1) \<Rightarrow>
                (let path = alias_file_path store name
                 in case created_time J X H path D1 of
                      Inl e \<Rightarrow> (Inl e, D1)
                    | Inr created \<Rightarrow>
                        write_wallet_json X H path (state_payload J name encrypted created (h_updated H)) D1)))"

definition signed_text :: "int \<Rightarrow> string" where
  "signed_text n = (if n < 0 then ''-'' @ to_string (nat (- n)) else to_string (nat n))"

definition load_encrypted ::
  "sodium \<Rightarrow> 'j json_ops \<Rightarrow> 'j json_text \<Rightarrow> host \<Rightarrow> string \<Rightarrow> string \<Rightarrow> string \<Rightarrow> disk \<Rightarrow> string outcome" where
  "load_encrypted S J X H name password dir D =
     (if \<not> is_valid_alias name then Inr (Inl alias_error)
      else
        (case read_wallet_json X (alias_file_path (resolve_store_dir_canonical H dir) name) D of
           Inl e \<Rightarrow> Inr (Inl e)
         | Inr payload \<Rightarrow>
             rbind (json_value J (read_int32 J) payload ''version'' 1) (\<lambda>version.
               if version \<noteq> 3
               then Inr (Inl (''Wallet is not in encrypted format (version '' @ signed_text version @ '')''))
               else
                 rbind (json_value J (read_string J) payload ''encryptedState'' []) (\<lambda>encrypted.
                   if encrypted = [] then Inr (Inl ''Wallet file is missing encrypted state data'')
                   else
                     rbind (encrypted_state_decrypt S (base64_decode_state encrypted) password) (\<lambda>r.
                       Inr (case r of
                              None \<Rightarrow> Inl ''Failed to decrypt wallet - wrong password or corrupted data''
                            | Some text \<Rightarrow> Inr text))))))"

definition is_encrypted_wallet :: "'j json_ops \<Rightarrow> 'j json_text \<Rightarrow> host \<Rightarrow> string \<Rightarrow> string \<Rightarrow> disk \<Rightarrow> bool result" where
  "is_encrypted_wallet J X H name dir D =
     (if \<not> is_valid_alias name then Inr False
      else
        (case read_wallet_json X (alias_file_path (resolve_store_dir_canonical H dir) name) D of
           Inl _ \<Rightarrow> Inr False
         | Inr payload \<Rightarrow> rbind (json_value J (read_int32 J) payload ''version'' 1) (\<lambda>version. Inr (version = 3))))"

end
