(* ===== verification/WalletStoreProps.thy ===== *)
theory WalletStoreProps
  imports WalletStore
begin

text \<open>
  Properties of the wallet store: what is saved is loaded, what a failed save leaves, what is listed, and what
  an encrypted state does to the seed under its alias.
\<close>

section \<open>Reading what was written\<close>

lemma store_hex_loop_Some: "even (length s) \<Longrightarrow> store_hex_loop s = Some bs \<longleftrightarrow> util_hex_loop s = Inr bs"
proof (induction s arbitrary: bs rule: store_hex_loop.induct)
  case (1 a b s)
  show ?case
  proof (cases "hex_nibble a < 0 \<or> hex_nibble b < 0")
    case False
    then show ?thesis using 1 by (auto simp: util_hex_pair_def Let_def rbind_eq_Inr)
  qed (auto simp: util_hex_pair_def Let_def rbind_eq_Inr)
qed simp_all

lemma store_hex_enc [simp]: "store_hex_decode (util_bytes_to_hex bs) = Some bs"
  by (simp add: store_hex_decode_def store_hex_loop_Some util_hex_loop_enc)

lemma sized_hex_enc [simp]: "length bs = n \<Longrightarrow> sized_hex n (util_bytes_to_hex bs) = Some bs"
  by (simp add: sized_hex_def)

lemma store_hex_Some: "store_hex_decode s = Some bs \<Longrightarrow> map tolower s = util_bytes_to_hex bs"
  by (auto simp: store_hex_decode_def store_hex_loop_Some util_hex_loop_Inr even_iff_mod_2_eq_zero split: if_splits)

text \<open>Normal seeds: 64 lower-case digits, normal already.\<close>

lemma normal_seed:
  assumes "normalize_seed_hex s = Some seed"
  shows "length seed = 64" "map tolower seed = seed" "normalize_seed_hex seed = Some seed"
proof -
  have "\<exists>raw. length raw = 64 \<and> list_all isxdigit raw \<and> seed = map tolower raw"
    using assms unfolding normalize_seed_hex_def Let_def
    by (metis option.distinct(1) option.inject)
  then obtain raw where r: "length raw = 64" "list_all isxdigit raw" "seed = map tolower raw" by blast
  show l: "length seed = 64" and m: "map tolower seed = seed" using r by (simp_all add: o_def)
  have x: "list_all isxdigit seed" using r by (simp add: list_all_iff)
  then have "isxdigit (seed ! 1)" using l by (simp add: list_all_iff)
  then have "seed ! 1 \<noteq> CHR ''x''" "seed ! 1 \<noteq> CHR ''X''" by (auto simp: cctype_defs char_in_def)
  then show "normalize_seed_hex seed = Some seed" using l m x by (simp add: normalize_seed_hex_def Let_def)
qed

text \<open>The sizes of what is drawn.\<close>

definition random_sized :: "host \<Rightarrow> bool" where
  "random_sized H \<longleftrightarrow> (case h_salt H of Some sa \<Rightarrow> length sa = 16 | None \<Rightarrow> True) \<and>
     (case h_nonce H of Some no \<Rightarrow> length no = 12 | None \<Rightarrow> True)"

lemma encrypted_seed_read:
  assumes "openssl_laws Z" "json_laws J" "random_sized H"
    and "normalize_seed_hex s = Some seed" and "encrypt_seed_hex Z J H seed pass = Inr c"
  shows "decrypt_seed_hex Z J c pass = Inr (Inr seed)"
proof -
  note n = normal_seed [OF assms(4)]
  obtain seed_bytes where b: "store_hex_decode seed = Some seed_bytes" and l: "length seed_bytes = 32"
    using assms(5) by (auto simp: encrypt_seed_hex_def split: option.splits if_splits)
  then have hex: "util_bytes_to_hex seed_bytes = seed" using store_hex_Some [OF b] n(2) by simp
  obtain sa no key ct tg where r: "h_salt H = Some sa" "h_nonce H = Some no" "pbkdf2 Z pass sa = Some key"
      "aes_seal Z key no seed_bytes = Some (ct, tg)"
    using assms(5) b l by (auto simp: encrypt_seed_hex_def split: option.splits)
  have sizes: "length sa = 16" "length no = 12" using assms(3) r by (simp_all add: random_sized_def)
  have o: "length ct = 32" "length tg = 16" "aes_open Z key no ct tg = Some seed_bytes"
    using assms(1) r(4) l by (auto simp: openssl_laws_def)
  then have "ct \<noteq> []" by auto
  moreover have "c = mk_object J
      [(''algorithm'', mk_string J ''aes-256-gcm''), (''ciphertextHex'', mk_string J (util_bytes_to_hex ct)),
       (''iterations'', mk_number J 200000), (''kdf'', mk_string J ''pbkdf2-hmac-sha256''),
       (''nonceHex'', mk_string J (util_bytes_to_hex no)), (''saltHex'', mk_string J (util_bytes_to_hex sa)),
       (''tagHex'', mk_string J (util_bytes_to_hex tg))]"
    using assms(5) b l r by (simp add: encrypt_seed_hex_def)
  ultimately show ?thesis
    using sizes o r(3) l hex
    by (simp add: decrypt_seed_hex_def read_int32_def lawful_json.built [OF lawful_json.intro [OF assms(2)]]
        lawful_json.json_value_object [OF lawful_json.intro [OF assms(2)]]
        lawful_json.read_built [OF lawful_json.intro [OF assms(2)]])
qed

section \<open>Paths\<close>

lemma valid_alias_head:
  assumes "is_valid_alias name"
  shows "name \<noteq> []" "\<not> is_absolute (name @ s)" "CHR ''/'' \<notin> set name"
proof -
  have c: "\<not> alias_char (CHR ''/'')" by (simp add: alias_char_def isalnum_def cctype_defs char_in_def)
  with assms show a: "CHR ''/'' \<notin> set name" by (auto simp: is_valid_alias_def list_all_iff)
  show n: "name \<noteq> []" using assms by (auto simp: is_valid_alias_def)
  with a show "\<not> is_absolute (name @ s)" by (cases name) (auto simp: is_absolute_def)
qed

lemma last_path_join: "q \<noteq> [] \<Longrightarrow> last (path_join p q) = last q"
  by (simp add: path_join_def)

lemma path_join_inj: "\<not> is_absolute q \<Longrightarrow> \<not> is_absolute r \<Longrightarrow> path_join p q = path_join p r \<longleftrightarrow> q = r"
  by (auto simp: path_join_def)

lemma alias_path_inj:
  "is_valid_alias a \<Longrightarrow> is_valid_alias b \<Longrightarrow> alias_file_path dir a = alias_file_path dir b \<longleftrightarrow> a = b"
  by (simp add: alias_file_path_def path_join_inj valid_alias_head)

lemma temp_path_new: "temp_path H path \<noteq> alias_file_path dir name"
proof -
  have "last (to_string (h_ticks H)) \<in> set (to_string (h_ticks H))" by simp
  then have "isdigit (last (to_string (h_ticks H)))" using to_string_digits by blast
  then have "last (temp_path H path) \<noteq> CHR ''n''" by (auto simp: temp_path_def last_path_join cctype_defs char_in_def)
  moreover have "last (alias_file_path dir name) = CHR ''n''" by (simp add: alias_file_path_def last_path_join)
  ultimately show ?thesis by metis
qed

section \<open>What a write does\<close>

definition rename_failed :: string where
  "rename_failed = ''Failed to move wallet file into place: Success''"

text \<open>
  A write replaces one file when it succeeds, removes it when the rename fails, and otherwise changes nothing
  but its temporary file.
\<close>

lemma write_wallet_cases:
  assumes "write_wallet_json X H path payload D = (r, D')" and "sorted_map (d_files D)" and "temp_path H path \<noteq> path"
  shows "sorted_map (d_files D') \<and> d_dirs D' = d_dirs D \<and>
    (\<forall>p. p \<noteq> path \<and> p \<noteq> temp_path H path \<longrightarrow> map_of (d_files D') p = map_of (d_files D) p) \<and>
    (if r = Inr (Inr ()) then (\<exists>t. dump_indented X payload = Some t \<and> map_of (d_files D') path = Some t)
     else if r = Inr (Inl rename_failed) then map_of (d_files D') path = None \<and> h_rename_error H \<noteq> None
     else map_of (d_files D') path = map_of (d_files D) path)"
proof -
  note s = assms(2,3) not_sym [OF assms(3)] map_of_map_put map_of_map_del sorted_map_put sorted_map_del
  note w = assms(1) [unfolded write_wallet_json_def Let_def]
  show ?thesis
  proof (cases "h_open_error H")
    case True
    with w have "r = Inr (Inl (''Failed to write temporary wallet file: '' @ temp_path H path))"
        "D' = D\<lparr>d_files := map_del (temp_path H path) (d_files D)\<rparr>" by auto
    then show ?thesis by (simp add: rename_failed_def s)
  next
    case o: False
    show ?thesis
    proof (cases "dump_indented X payload")
      case None
      with w o have "r = Inl type_error" "D' = D\<lparr>d_files := map_put (temp_path H path) [] (d_files D)\<rparr>" by auto
      then show ?thesis by (simp add: s)
    next
      case (Some t)
      show ?thesis
      proof (cases "h_write_error H \<or> h_mode_error H \<noteq> None \<or> map_of (d_files D) path \<noteq> None \<and> h_remove_error H \<noteq> None")
        case True
        with w o Some have "D' = D\<lparr>d_files := map_del (temp_path H path) (d_files D)\<rparr>" "r \<noteq> Inr (Inr ())"
            "r \<noteq> Inr (Inl rename_failed)"
          by (auto simp: rename_failed_def split: if_splits option.splits)
        then show ?thesis by (simp add: s)
      next
        case False
        with w o Some show ?thesis
          by (cases "h_rename_error H") (auto simp: s rename_failed_def split: if_splits)
      qed
    qed
  qed
qed

section \<open>What a save does\<close>

lemma read_other_dirs [simp]: "read_wallet_json X path (D\<lparr>d_dirs := ds\<rparr>) = read_wallet_json X path D"
  by (simp add: read_wallet_json_def)

lemma created_other_dirs [simp]: "created_time J X H path (D\<lparr>d_dirs := ds\<rparr>) = created_time J X H path D"
  by (simp add: created_time_def)

lemma encrypt_seed_error: "encrypt_seed_hex Z J H seed pass = Inl e \<Longrightarrow> e \<noteq> rename_failed"
  by (auto simp: encrypt_seed_hex_def rename_failed_def split: option.splits if_splits)

lemma store_dir_error:
  "ensure_store_dir H store D = (Inl e, D1) \<Longrightarrow> e \<noteq> rename_failed \<and> d_files D1 = d_files D"
  by (auto simp: ensure_store_dir_def rename_failed_def split: option.splits)

text \<open>A save changes no file before it writes.\<close>

definition alias_path :: "host \<Rightarrow> string \<Rightarrow> string \<Rightarrow> string" where
  "alias_path H dir name = alias_file_path (resolve_store_dir_canonical H dir) name"

lemma save_seed_cases:
  assumes "save_seed_hex Z J X H name seed_hex net dir D = (r, D')"
  shows "(r \<noteq> Inr (Inr ()) \<and> r \<noteq> Inr (Inl rename_failed) \<and> d_files D' = d_files D) \<or>
    (\<exists>seed created c ds. is_valid_alias name \<and> normalize_seed_hex seed_hex = Some seed \<and>
       16 \<le> length (read_store_passphrase H) \<and> created_time J X H (alias_path H dir name) D = Inr created \<and>
       encrypt_seed_hex Z J H seed (read_store_passphrase H) = Inr c \<and>
       write_wallet_json X H (alias_path H dir name) (seed_payload J name net c created (h_updated H)) (D\<lparr>d_dirs := ds\<rparr>) =
         (r, D'))"
proof (cases "is_valid_alias name \<and> 16 \<le> length (read_store_passphrase H) \<and> h_dir_error H = None")
  case ok: True
  note s = assms [unfolded save_seed_hex_def Let_def ensure_store_dir_def alias_path_def [symmetric]]
  show ?thesis
  proof (cases "normalize_seed_hex seed_hex")
    case None
    with s ok show ?thesis by (auto simp: rename_failed_def)
  next
    case (Some seed)
    show ?thesis
    proof (cases "created_time J X H (alias_path H dir name) D")
      case (Inl e)
      with s ok Some show ?thesis by auto
    next
      case (Inr created)
      show ?thesis
      proof (cases "encrypt_seed_hex Z J H seed (read_store_passphrase H)")
        case Inl
        with s ok Some Inr encrypt_seed_error [OF Inl] show ?thesis by auto
      next
        case c: (Inr c)
        with s ok Some Inr show ?thesis by auto
      qed
    qed
  qed
next
  case False
  note s = assms [unfolded save_seed_hex_def Let_def ensure_store_dir_def]
  show ?thesis
  proof (cases "is_valid_alias name \<and> normalize_seed_hex seed_hex \<noteq> None")
    case ok: True
    show ?thesis
    proof (cases "16 \<le> length (read_store_passphrase H)")
      case True
      with False ok obtain e where "h_dir_error H = Some e" by auto
      with s ok True show ?thesis by (auto simp: rename_failed_def)
    next
      case short: False
      with s ok show ?thesis by (auto simp: rename_failed_def)
    qed
  next
    case False
    with s show ?thesis by (cases "is_valid_alias name") (auto simp: rename_failed_def alias_error_def)
  qed
qed

lemma temp_not_alias: "temp_path H p \<noteq> alias_path H dir name"
  by (simp add: alias_path_def temp_path_new)

text \<open>Loading looks at the file of the alias alone.\<close>

lemma load_wallet_files:
  assumes "map_of (d_files D) (alias_path H dir name) = map_of (d_files D') (alias_path H dir name)"
  shows "load_wallet Z J X H name dir D = load_wallet Z J X H name dir D'"
  using assms by (simp add: load_wallet_def read_wallet_json_def alias_path_def)

lemma load_seed_payload:
  assumes "lawful_json J" and "is_valid_alias name" "16 \<le> length (read_store_passphrase H)"
    and "read_wallet_json X (alias_path H dir name) D = Inr (seed_payload J name net c created updated)"
    and "decrypt_seed_hex Z J c (read_store_passphrase H) = Inr (Inr seed)" "normalize_seed_hex seed = Some seed"
  shows "load_wallet Z J X H name dir D =
    Inr (Inr \<lparr>mw_alias = name, mw_network = net, mw_seed_hex = seed, mw_created_at = created, mw_updated_at = updated\<rparr>)"
  using assms(2-6) valid_alias_head(1) [OF assms(2)]
  by (simp add: load_wallet_def alias_path_def seed_payload_def lawful_json.built [OF assms(1)]
      lawful_json.json_value_object [OF assms(1)] lawful_json.read_built [OF assms(1)])

text \<open>
  C1: A seed that was saved is loaded again, in its normal form (64 lower-case digits without a prefix), with
  the network and the time it was saved with and the time of creation of the file it replaced, and what is
  loaded for every other alias is what it was before.
\<close>

theorem saved_wallet_loads:
  assumes "openssl_laws Z" "json_laws J" "json_text_laws X" "random_sized H" "sorted_map (d_files D)"
    and "save_seed_hex Z J X H name seed_hex net dir D = (Inr (Inr ()), D')"
  shows "\<exists>seed created. normalize_seed_hex seed_hex = Some seed \<and>
      created_time J X H (alias_path H dir name) D = Inr created \<and>
      load_wallet Z J X H name dir D' =
        Inr (Inr \<lparr>mw_alias = name, mw_network = net, mw_seed_hex = seed, mw_created_at = created,
          mw_updated_at = h_updated H\<rparr>) \<and>
      load_seed_hex Z J X H name dir D' = Inr (Inr seed) \<and>
      (\<forall>other. is_valid_alias other \<and> other \<noteq> name \<longrightarrow>
         load_wallet Z J X H other dir D' = load_wallet Z J X H other dir D)"
proof -
  obtain seed created c ds where f: "is_valid_alias name" "normalize_seed_hex seed_hex = Some seed"
      "16 \<le> length (read_store_passphrase H)" "created_time J X H (alias_path H dir name) D = Inr created"
      "encrypt_seed_hex Z J H seed (read_store_passphrase H) = Inr c"
    and w: "write_wallet_json X H (alias_path H dir name) (seed_payload J name net c created (h_updated H))
      (D\<lparr>d_dirs := ds\<rparr>) = (Inr (Inr ()), D')"
    using save_seed_cases [OF assms(6)] by blast
  note k = write_wallet_cases [OF w _ temp_not_alias]
  obtain t where t: "dump_indented X (seed_payload J name net c created (h_updated H)) = Some t"
      "map_of (d_files D') (alias_path H dir name) = Some t"
    using k assms(5) by auto
  then have "read_wallet_json X (alias_path H dir name) D' = Inr (seed_payload J name net c created (h_updated H))"
    using assms(3) by (simp add: read_wallet_json_def json_text_laws_def)
  then have l: "load_wallet Z J X H name dir D' =
      Inr (Inr \<lparr>mw_alias = name, mw_network = net, mw_seed_hex = seed, mw_created_at = created,
        mw_updated_at = h_updated H\<rparr>)"
    using encrypted_seed_read [OF assms(1,2,4) f(2,5)] normal_seed(3) [OF f(2)]
    by (intro load_seed_payload [OF lawful_json.intro [OF assms(2)] f(1,3)])
  have "load_wallet Z J X H other dir D' = load_wallet Z J X H other dir D" if "is_valid_alias other" "other \<noteq> name" for other
  proof (rule load_wallet_files)
    have "alias_path H dir other \<noteq> alias_path H dir name" "alias_path H dir other \<noteq> temp_path H (alias_path H dir name)"
      using that f(1) temp_not_alias by (auto simp: alias_path_def alias_path_inj) metis
    then show "map_of (d_files D') (alias_path H dir other) = map_of (d_files D) (alias_path H dir other)"
      using k assms(5) by simp
  qed
  with f l show ?thesis by (simp add: load_seed_hex_def)
qed

text \<open>
  C2: A save that fails leaves every wallet as it was, with one exception: the old file is removed before the new
  one takes its place, so that when the rename fails the wallet is gone (and the message says ``Success'').
\<close>

theorem failed_save:
  assumes "sorted_map (d_files D)" and "save_seed_hex Z J X H name seed_hex net dir D = (r, D')" "r \<noteq> Inr (Inr ())"
    and "is_valid_alias other"
  shows "load_wallet Z J X H other dir D' =
    (if other = name \<and> r = Inr (Inl rename_failed)
     then Inr (Inl (''Wallet alias not found: '' @ alias_path H dir name))
     else load_wallet Z J X H other dir D)"
  using save_seed_cases [OF assms(2)]
proof (elim disjE exE conjE)
  assume "r \<noteq> Inr (Inl rename_failed)" "d_files D' = d_files D"
  then show ?thesis using load_wallet_files [of D' H dir other D Z J X] by simp
next
  fix seed created c ds
  assume n: "is_valid_alias name"
    and w: "write_wallet_json X H (alias_path H dir name) (seed_payload J name net c created (h_updated H))
      (D\<lparr>d_dirs := ds\<rparr>) = (r, D')"
  note k = write_wallet_cases [OF w _ temp_not_alias]
  have t: "alias_path H dir other \<noteq> temp_path H (alias_path H dir name)" using temp_not_alias by metis
  show ?thesis
  proof (cases "other = name")
    case False
    then have "alias_path H dir other \<noteq> alias_path H dir name"
      using n assms(4) by (simp add: alias_path_def alias_path_inj)
    with t have "map_of (d_files D') (alias_path H dir other) = map_of (d_files D) (alias_path H dir other)"
      using k assms(1) by simp
    then show ?thesis using False by (simp add: load_wallet_files [of D'])
  next
    case same: True
    show ?thesis
    proof (cases "r = Inr (Inl rename_failed)")
      case True
      then have "map_of (d_files D') (alias_path H dir name) = None" using k assms(1) by simp
      then show ?thesis using True same n by (simp add: load_wallet_def read_wallet_json_def alias_path_def)
    next
      case False
      then have "map_of (d_files D') (alias_path H dir name) = map_of (d_files D) (alias_path H dir name)"
        using k assms(1,3) by simp
      then show ?thesis using False same by (simp add: load_wallet_files [of D'])
    qed
  qed
qed

section \<open>Listing\<close>

lemma path_filename_join: "CHR ''/'' \<notin> set n \<Longrightarrow> path_filename (path_join dir n) = n"
proof -
  assume n: "CHR ''/'' \<notin> set n"
  have t: "takeWhile (\<lambda>c. c \<noteq> CHR ''/'') (rev n @ CHR ''/'' # s) = rev n" for s
    using n by (subst takeWhile_append2) auto
  have "\<not> is_absolute n" using n by (cases n) (auto simp: is_absolute_def)
  then show ?thesis
  proof (cases "dir = []")
    case True
    then show ?thesis using n by (auto simp: path_join_def path_filename_def is_absolute_def rev_swap takeWhile_eq_all_conv)
  next
    case False
    show ?thesis
    proof (cases "last dir = CHR ''/''")
      case True
      have "rev dir = CHR ''/'' # tl (rev dir)" using True False by (cases dir rule: rev_cases) auto
      then have "rev n @ rev dir = rev n @ CHR ''/'' # tl (rev dir)" by simp
      then have "takeWhile (\<lambda>c. c \<noteq> CHR ''/'') (rev n @ rev dir) = rev n" using t by metis
      then show ?thesis using True False \<open>\<not> is_absolute n\<close> by (simp add: path_join_def path_filename_def)
    next
      case nl: False
      then show ?thesis using t False \<open>\<not> is_absolute n\<close> by (simp add: path_join_def path_filename_def)
    qed
  qed
qed

lemma json_stem:
  "path_extension n = ''.json'' \<longleftrightarrow> (\<exists>s. s \<noteq> [] \<and> n = s @ ''.json'')"
  "s \<noteq> [] \<Longrightarrow> path_stem (s @ ''.json'') = s"
proof -
  have r: "rfind_char (CHR ''.'') (s @ ''.json'') = Some (length s)" for s
    using rfind_char_last [of "CHR ''.''" "''json''" s] by simp
  show "s \<noteq> [] \<Longrightarrow> path_stem (s @ ''.json'') = s" by (simp add: path_stem_def r)
  show "path_extension n = ''.json'' \<longleftrightarrow> (\<exists>s. s \<noteq> [] \<and> n = s @ ''.json'')"
  proof
    assume a: "path_extension n = ''.json''"
    then obtain i where i: "i \<noteq> 0" "drop i n = ''.json''"
      by (auto simp: path_extension_def split: option.splits if_splits)
    have "n \<noteq> []" using i(2) by auto
    moreover have "n = take i n @ ''.json''" by (simp only: append_take_drop_id flip: i(2))
    ultimately have "take i n \<noteq> [] \<and> n = take i n @ ''.json''" using i(1) by simp
    then show "\<exists>s. s \<noteq> [] \<and> n = s @ ''.json''" by blast
  next
    assume "\<exists>s. s \<noteq> [] \<and> n = s @ ''.json''"
    then show "path_extension n = ''.json''" using r by (auto simp: path_extension_def)
  qed
qed

text \<open>
  The listing is sorted and holds exactly the valid aliases that have a file; a directory that cannot be
  scanned is reported as empty.
\<close>

theorem list_aliases_exact:
  "sorted (list_aliases H dir D) \<and>
   set (list_aliases H dir D) =
     {name. is_valid_alias name \<and> map_of (d_files D) (alias_path H dir name) \<noteq> None \<and>
        resolve_store_dir_canonical H dir \<in> set (d_dirs D) \<and> h_scan_error H = None}"
proof (cases "resolve_store_dir_canonical H dir \<in> set (d_dirs D) \<and> h_scan_error H = None")
  case True
  have "name \<in> set (list_aliases H dir D) \<longleftrightarrow>
      is_valid_alias name \<and> alias_path H dir name \<in> fst ` set (d_files D)" (is "?l \<longleftrightarrow> ?r") for name
  proof
    assume ?l
    then obtain p n where p: "p \<in> fst ` set (d_files D)" "n = path_filename p" "path_extension n = ''.json''"
        "path_join (resolve_store_dir_canonical H dir) n = p" "name = path_stem n" "is_valid_alias name"
      using True by (auto simp: list_aliases_def dir_names_def Let_def)
    from p(3) obtain s where "s \<noteq> []" "n = s @ ''.json''" by (auto simp: json_stem)
    then have "alias_path H dir name = p" using p(4,5) by (simp add: json_stem alias_path_def alias_file_path_def)
    with p(1,6) show ?r by simp
  next
    assume r: ?r
    then obtain v where v: "(alias_path H dir name, v) \<in> set (d_files D)" by auto
    have f: "path_filename (alias_path H dir name) = name @ ''.json''"
      using valid_alias_head(3) r by (simp add: alias_path_def alias_file_path_def path_filename_join)
    then have "name @ ''.json'' \<in> set (dir_names H (resolve_store_dir_canonical H dir) D)"
      using v True by (force simp: dir_names_def alias_path_def alias_file_path_def)
    moreover have "path_extension (name @ ''.json'') = ''.json''" "path_stem (name @ ''.json'') = name"
      using valid_alias_head(1) r by (auto simp: json_stem)
    ultimately show ?l using True r by (force simp: list_aliases_def Let_def)
  qed
  then show ?thesis using True by (auto simp: list_aliases_def Let_def map_of_eq_None_iff)
next
  case False
  then show ?thesis by (auto simp: list_aliases_def dir_names_def Let_def)
qed

section \<open>Encrypted states and seeds\<close>

lemma save_encrypted_done:
  assumes "save_encrypted J X H name encrypted dir D = (Inr (Inr ()), D')"
  shows "\<exists>created ds. is_valid_alias name \<and>
    write_wallet_json X H (alias_path H dir name) (state_payload J name encrypted created (h_updated H)) (D\<lparr>d_dirs := ds\<rparr>) =
      (Inr (Inr ()), D')"
proof (cases "is_valid_alias name \<and> h_dir_error H = None")
  case ok: True
  note s = assms [unfolded save_encrypted_def Let_def ensure_store_dir_def alias_path_def [symmetric]]
  show ?thesis
  proof (cases "created_time J X H (alias_path H dir name) D")
    case (Inl e)
    with s ok show ?thesis by auto
  next
    case (Inr created)
    with s ok show ?thesis by auto
  qed
next
  case False
  with assms show ?thesis
    by (cases "is_valid_alias name") (auto simp: save_encrypted_def Let_def ensure_store_dir_def)
qed

text \<open>
  C3: An encrypted state that is saved takes the place of the seed of the same alias, which cannot be loaded
  any more; it is recognised as encrypted, and is read back when its text has a length that is a multiple of
  three.
\<close>

theorem encrypted_replaces_seed:
  assumes "json_laws J" "json_text_laws X" "sorted_map (d_files D)"
    and "secretbox_laws S" "length sa = 16" "length no = 24" "encrypted_state_create S sa no plaintext password = Inr out"
    and "save_encrypted J X H name (base64_encode out) dir D = (Inr (Inr ()), D')"
  shows "load_wallet Z J X H name dir D' = Inr (Inl (''Stored wallet seed is invalid for alias: '' @ name)) \<and>
    is_encrypted_wallet J X H name dir D' = Inr True \<and>
    (length plaintext mod 3 = 0 \<longrightarrow> load_encrypted S J X H name password dir D' = Inr (Inr plaintext))"
proof -
  obtain created ds where n: "is_valid_alias name"
    and w: "write_wallet_json X H (alias_path H dir name)
      (state_payload J name (base64_encode out) created (h_updated H)) (D\<lparr>d_dirs := ds\<rparr>) = (Inr (Inr ()), D')"
    using save_encrypted_done [OF assms(8)] by blast
  obtain t where t: "dump_indented X (state_payload J name (base64_encode out) created (h_updated H)) = Some t"
      "map_of (d_files D') (alias_path H dir name) = Some t"
    using write_wallet_cases [OF w _ temp_not_alias] assms(3) by auto
  have r: "read_wallet_json X (alias_path H dir name) D' =
      Inr (state_payload J name (base64_encode out) created (h_updated H))"
    using t assms(2) by (simp add: read_wallet_json_def json_text_laws_def)
  note j = lawful_json.built [OF lawful_json.intro [OF assms(1)]]
    lawful_json.json_value_object [OF lawful_json.intro [OF assms(1)]]
    lawful_json.read_built [OF lawful_json.intro [OF assms(1)]]
  note o = encrypted_state_read [OF assms(4-7)]
  have "out \<noteq> []" using o by auto
  then have ne: "base64_encode out \<noteq> []" by (cases out rule: base64_encode.cases) auto
  have "normalize_seed_hex [] = None" by (simp add: normalize_seed_hex_def)
  then have "load_wallet Z J X H name dir D' = Inr (Inl (''Stored wallet seed is invalid for alias: '' @ name))"
    using n r by (simp add: load_wallet_def alias_path_def state_payload_def j)
  moreover have "is_encrypted_wallet J X H name dir D' = Inr True"
    using n r by (simp add: is_encrypted_wallet_def alias_path_def state_payload_def read_int32_def j)
  moreover have "load_encrypted S J X H name password dir D' = Inr (Inr plaintext)" if "length plaintext mod 3 = 0"
  proof -
    have "length out mod 3 = 0" using o that by presburger
    then have "base64_decode (base64_encode out) = out" using base64_whole_groups [of out] by auto
    then show ?thesis
      using n r ne o by (simp add: load_encrypted_def alias_path_def state_payload_def read_int32_def base64_decode_state_def j)
  qed
  ultimately show ?thesis by blast
qed

section \<open>A sample store\<close>

definition toy_openssl :: openssl where
  "toy_openssl = \<lparr>pbkdf2 = (\<lambda>p sa. Some (replicate 32 7)), aes_seal = (\<lambda>k no pt. Some (map ((+) 1) pt, replicate 16 9)),
     aes_open = (\<lambda>k no ct tg. Some (map (\<lambda>b. b - 1) ct))\<rparr>"

lemma toy_openssl_laws: "openssl_laws toy_openssl"
  by (auto simp: openssl_laws_def toy_openssl_def o_def)

definition sample_host :: host where
  "sample_host =
     \<lparr>h_env = (\<lambda>v. if v = ''MIDNIGHT_WALLET_STORE_PASSPHRASE'' then Some ''correct horse battery'' else None),
      h_cwd = None, h_created = ''2026-01-01'', h_updated = ''2026-01-02'', h_ticks = 7,
      h_salt = Some (replicate 16 1), h_nonce = Some (replicate 12 2), h_dir_error = None, h_scan_error = None,
      h_open_error = False, h_write_error = False, h_mode_error = None, h_remove_error = None, h_rename_error = None\<rparr>"

definition sample_seed :: string where
  "sample_seed = concat (replicate 16 ''0aF1'')"

definition sample_cipher :: json where
  "sample_cipher =
     (case encrypt_seed_hex toy_openssl json_std sample_host (map tolower sample_seed) ''correct horse battery'' of
        Inr c \<Rightarrow> c | Inl _ \<Rightarrow> JNull)"

definition sample_payload :: json where
  "sample_payload = seed_payload json_std ''alice'' ''preprod'' sample_cipher ''2026-01-01'' ''2026-01-02''"

definition sample_state :: json where
  "sample_state = state_payload json_std ''alice''
     (base64_encode (1 # replicate 16 3 @ replicate 24 4 @ replicate 16 5 @ [97, 98, 99])) ''2026-01-01'' ''2026-01-02''"

definition sample_text :: "json json_text" where
  "sample_text = \<lparr>dump_indented = (\<lambda>j. if j = sample_payload then Some ''seed'' else if j = sample_state then Some ''state'' else None),
     parse_stream = (\<lambda>s. if s = ''seed'' then Inr sample_payload else if s = ''state'' then Inr sample_state else Inl ''bad'')\<rparr>"

lemma sample_text_laws: "json_text_laws sample_text"
  by (auto simp: json_text_laws_def sample_text_def split: if_splits)

definition sample_disk :: disk where
  "sample_disk = \<lparr>d_files = [(''/w/bobby.json'', ''seed'')], d_dirs = [''/w'']\<rparr>"

definition saved_disk :: disk where
  "saved_disk = \<lparr>d_files = [(''/w/alice.json'', ''seed''), (''/w/bobby.json'', ''seed'')], d_dirs = [''/w'']\<rparr>"

lemma sample_facts:
  "sorted_map (d_files sample_disk)" "sorted_map (d_files saved_disk)" "random_sized sample_host"
  by code_simp+

lemma sample_saved:
  "save_seed_hex toy_openssl json_std sample_text sample_host ''alice'' (''0x'' @ sample_seed) ''preprod'' ''/w'' sample_disk =
     (Inr (Inr ()), saved_disk)"
  by code_simp

theorem saved_wallet_loads_witness:
  "load_seed_hex toy_openssl json_std sample_text sample_host ''alice'' ''/w'' saved_disk = Inr (Inr (map tolower sample_seed))"
proof -
  have "normalize_seed_hex (''0x'' @ sample_seed) = Some (map tolower sample_seed)" by code_simp
  then show ?thesis
    using saved_wallet_loads [OF toy_openssl_laws json_std_laws sample_text_laws sample_facts(3,1) sample_saved] by auto
qed

definition broken_host :: host where
  "broken_host = sample_host\<lparr>h_rename_error := Some ''disk full''\<rparr>"

theorem failed_save_witness:
  "fst (save_seed_hex toy_openssl json_std sample_text broken_host ''alice'' sample_seed ''preprod'' ''/w'' saved_disk) =
     Inr (Inl rename_failed) \<and>
   load_wallet toy_openssl json_std sample_text broken_host ''alice'' ''/w''
     (snd (save_seed_hex toy_openssl json_std sample_text broken_host ''alice'' sample_seed ''preprod'' ''/w'' saved_disk)) =
     Inr (Inl (''Wallet alias not found: '' @ ''/w/alice.json''))"
proof -
  have s: "save_seed_hex toy_openssl json_std sample_text broken_host ''alice'' sample_seed ''preprod'' ''/w'' saved_disk =
      (Inr (Inl rename_failed), sample_disk)" by code_simp
  moreover have "is_valid_alias ''alice''" "alias_path broken_host ''/w'' ''alice'' = ''/w/alice.json''" by code_simp+
  ultimately show ?thesis using failed_save [OF sample_facts(2) s] by simp
qed

theorem encrypted_replaces_seed_witness:
  "\<exists>out D'. encrypted_state_create toy_sodium (replicate 16 3) (replicate 24 4) ''abc'' ''pw'' = Inr out \<and>
     save_encrypted json_std sample_text sample_host ''alice'' (base64_encode out) ''/w'' saved_disk = (Inr (Inr ()), D') \<and>
     load_encrypted toy_sodium json_std sample_text sample_host ''alice'' ''pw'' ''/w'' D' = Inr (Inr ''abc'')"
proof -
  have c: "encrypted_state_create toy_sodium (replicate 16 3) (replicate 24 4) ''abc'' ''pw'' =
      Inr (1 # replicate 16 3 @ replicate 24 4 @ replicate 16 5 @ [97, 98, 99])"
    by (simp add: encrypted_state_create_def encrypt_string_def state_encrypt_def derive_key_from_password_def
        toy_sodium_def byte_of_char_def)
  have s: "save_encrypted json_std sample_text sample_host ''alice''
      (base64_encode (1 # replicate 16 3 @ replicate 24 4 @ replicate 16 5 @ [97, 98, 99])) ''/w'' saved_disk =
      (Inr (Inr ()), saved_disk\<lparr>d_files := [(''/w/alice.json'', ''state''), (''/w/bobby.json'', ''seed'')]\<rparr>)" by code_simp
  show ?thesis
    using c s encrypted_replaces_seed [OF json_std_laws sample_text_laws sample_facts(2) toy_sodium_laws(1) _ _ c s]
    by (intro exI conjI) (assumption | simp)+
qed

end
