(* ===== verification/Ledger.thy ===== *)
theory Ledger
  imports IndexerClient
begin

text \<open>
  Ledger backends (include/midnight/ledger, src/ledger/ledger_backend.cpp): the parameters of the transactions
  that are built, their JSON, and the backend over the C functions of \<^verbatim>\<open>libmidnight_ledger_ffi\<close>, which are
  parameters, as is the dynamic loader. Results: what the library is sent holds the parameters, an answer with
  a transaction gives its bytes, and the return code of the library does not count.
\<close>

section \<open>Sources of ledger state\<close>

datatype source_mode = Auto | LocalCache | ColdSync | Bounded

fun source_mode_to_string :: "source_mode \<Rightarrow> string" where
  "source_mode_to_string LocalCache = ''local-cache''"
| "source_mode_to_string ColdSync = ''cold-sync''"
| "source_mode_to_string Bounded = ''bounded''"
| "source_mode_to_string Auto = ''auto''"

definition normal_name :: "string \<Rightarrow> string" where
  "normal_name = map (\<lambda>c. if isupper c then tolower c else if c = CHR ''_'' then CHR ''-'' else c)"

definition source_mode_from_string :: "string \<Rightarrow> source_mode" where
  "source_mode_from_string s =
     (let value = normal_name s
      in if value \<in> {''local'', ''local-cache'', ''cache-only''} then LocalCache
         else if value \<in> {''cold'', ''cold-sync'', ''rpc''} then ColdSync
         else if value \<in> {''bounded'', ''range''} then Bounded else Auto)"

record source_config =
  sc_mode :: source_mode
  sc_src_url :: string
  sc_src_files :: "string list"
  sc_fetch_only_cached :: bool
  sc_require_cache :: bool
  sc_ignore_block_context :: bool
  sc_dust_warp :: bool
  sc_fetch_cache :: string
  sc_ledger_state_db :: string
  sc_fetch_concurrency :: u32
  sc_compute_concurrency :: "u32 option"
  sc_retry_count :: u32
  sc_retry_delay_ms :: u64
  sc_from_block :: "u64 option"
  sc_to_block :: "u64 option"
  sc_transaction_hashes :: "string list"

definition default_source :: source_config where
  "default_source =
     \<lparr>sc_mode = Auto, sc_src_url = [], sc_src_files = [], sc_fetch_only_cached = False, sc_require_cache = True,
      sc_ignore_block_context = False, sc_dust_warp = False, sc_fetch_cache = ''redb:midnight_cache/fetch_cache.db'',
      sc_ledger_state_db = ''midnight_cache/ledger_cache_db'', sc_fetch_concurrency = 4,
      sc_compute_concurrency = None, sc_retry_count = 3, sc_retry_delay_ms = 5000, sc_from_block = None,
      sc_to_block = None, sc_transaction_hashes = []\<rparr>"

section \<open>Transactions to build\<close>

record build_result =
  br_success :: bool
  br_bytes :: bytes
  br_hex :: string
  br_hash :: string
  br_contract_address :: string
  br_output_file :: string
  br_intent_path :: string
  br_private_state_path :: string
  br_zswap_state_path :: string
  br_onchain_state_path :: string
  br_result_path :: string
  br_raw_output :: string
  br_command :: string
  br_log :: string
  br_error :: string

definition new_build_result :: build_result where
  "new_build_result =
     \<lparr>br_success = False, br_bytes = [], br_hex = [], br_hash = [], br_contract_address = [], br_output_file = [],
      br_intent_path = [], br_private_state_path = [], br_zswap_state_path = [], br_onchain_state_path = [],
      br_result_path = [], br_raw_output = [], br_command = [], br_log = [], br_error = []\<rparr>"

record sync_params =
  sy_source :: source_config
  sy_wallet_seeds :: "string list"
  sy_timeout_ms :: u64

record summary_params =
  sm_source :: source_config
  sm_wallet_seed :: string
  sm_timeout_ms :: u64

record transfer_params =
  tn_source :: source_config
  tn_proof_server :: "string option"
  tn_source_seed :: string
  tn_funding_seed :: "string option"
  tn_destinations :: "string list"
  tn_amount :: string
  tn_token_type :: string
  tn_input_utxos :: "string list"
  tn_rng_seed :: "string option"
  tn_coin_selection :: string

record register_params =
  rd_source :: source_config
  rd_proof_server :: "string option"
  rd_wallet_seed :: string
  rd_funding_seed :: "string option"
  rd_destination :: "string option"
  rd_rng_seed :: "string option"

record deregister_params =
  dd_source :: source_config
  dd_proof_server :: "string option"
  dd_wallet_seed :: string
  dd_funding_seed :: string
  dd_rng_seed :: "string option"

record deploy_params =
  dp_source :: source_config
  dp_proof_server :: "string option"
  dp_funding_seed :: string
  dp_authority_seeds :: "string list"
  dp_threshold :: "u32 option"
  dp_rng_seed :: "string option"

record contract_call_params =
  cl_source :: source_config
  cl_proof_server :: "string option"
  cl_funding_seed :: string
  cl_contract_address :: string
  cl_call_key :: string
  cl_fee :: string
  cl_rng_seed :: "string option"

record custom_params =
  cu_source :: source_config
  cu_proof_server :: "string option"
  cu_funding_seed :: string
  cu_contract_dirs :: "string list"
  cu_intent_files :: "string list"
  cu_input_utxos :: "string list"
  cu_zswap_state_file :: "string option"
  cu_destinations :: "string list"
  cu_rng_seed :: "string option"

section \<open>Their JSON\<close>

definition text_list :: "'j json_ops \<Rightarrow> string list \<Rightarrow> 'j" where
  "text_list J xs = mk_array J (map (mk_string J) xs)"

definition text_or_null :: "'j json_ops \<Rightarrow> string option \<Rightarrow> 'j" where
  "text_or_null J v = (case v of None \<Rightarrow> mk_null J | Some s \<Rightarrow> mk_string J s)"

definition word_or_null :: "'j json_ops \<Rightarrow> ('a::len) word option \<Rightarrow> 'j" where
  "word_or_null J v = (case v of None \<Rightarrow> mk_null J | Some n \<Rightarrow> mk_number J (uint n))"

definition source_to_json :: "'j json_ops \<Rightarrow> source_config \<Rightarrow> 'j" where
  "source_to_json J s =
     mk_object J
       [(''dust_warp'', mk_bool J (sc_dust_warp s)),
        (''fetch_cache'', mk_string J (sc_fetch_cache s)),
        (''fetch_compute_concurrency'', word_or_null J (sc_compute_concurrency s)),
        (''fetch_concurrency'', mk_number J (uint (sc_fetch_concurrency s))),
        (''fetch_only_cached'', mk_bool J (sc_fetch_only_cached s)),
        (''fetch_retry_count'', mk_number J (uint (sc_retry_count s))),
        (''fetch_retry_delay_ms'', mk_number J (uint (sc_retry_delay_ms s))),
        (''from_block'', word_or_null J (sc_from_block s)),
        (''ignore_block_context'', mk_bool J (sc_ignore_block_context s)),
        (''ledger_state_db'', mk_string J (sc_ledger_state_db s)),
        (''require_ledger_state_cache'', mk_bool J (sc_require_cache s)),
        (''source_mode'', mk_string J (source_mode_to_string (sc_mode s))),
        (''src_files'', text_list J (sc_src_files s)),
        (''src_url'', mk_string J (sc_src_url s)),
        (''to_block'', word_or_null J (sc_to_block s)),
        (''transaction_hashes'', text_list J (sc_transaction_hashes s))]"

definition transfer_to_json :: "'j json_ops \<Rightarrow> transfer_params \<Rightarrow> 'j" where
  "transfer_to_json J p =
     mk_object J
       [(''amount'', mk_string J (tn_amount p)), (''coin_selection'', mk_string J (tn_coin_selection p)),
        (''destination_addresses'', text_list J (tn_destinations p)),
        (''funding_seed'', text_or_null J (tn_funding_seed p)), (''input_utxos'', text_list J (tn_input_utxos p)),
        (''proof_server'', text_or_null J (tn_proof_server p)), (''rng_seed'', text_or_null J (tn_rng_seed p)),
        (''source'', source_to_json J (tn_source p)), (''source_seed'', mk_string J (tn_source_seed p)),
        (''token_type'', mk_string J (tn_token_type p))]"

definition register_dust_to_json :: "'j json_ops \<Rightarrow> register_params \<Rightarrow> 'j" where
  "register_dust_to_json J p =
     mk_object J
       [(''destination_dust_address'', text_or_null J (rd_destination p)),
        (''funding_seed'', text_or_null J (rd_funding_seed p)), (''proof_server'', text_or_null J (rd_proof_server p)),
        (''rng_seed'', text_or_null J (rd_rng_seed p)), (''source'', source_to_json J (rd_source p)),
        (''wallet_seed'', mk_string J (rd_wallet_seed p))]"

definition deregister_dust_to_json :: "'j json_ops \<Rightarrow> deregister_params \<Rightarrow> 'j" where
  "deregister_dust_to_json J p =
     mk_object J
       [(''funding_seed'', mk_string J (dd_funding_seed p)), (''proof_server'', text_or_null J (dd_proof_server p)),
        (''rng_seed'', text_or_null J (dd_rng_seed p)), (''source'', source_to_json J (dd_source p)),
        (''wallet_seed'', mk_string J (dd_wallet_seed p))]"

definition deploy_to_json :: "'j json_ops \<Rightarrow> deploy_params \<Rightarrow> 'j" where
  "deploy_to_json J p =
     mk_object J
       [(''authority_seeds'', text_list J (dp_authority_seeds p)),
        (''authority_threshold'', word_or_null J (dp_threshold p)),
        (''funding_seed'', mk_string J (dp_funding_seed p)), (''proof_server'', text_or_null J (dp_proof_server p)),
        (''rng_seed'', text_or_null J (dp_rng_seed p)), (''source'', source_to_json J (dp_source p))]"

definition call_to_json :: "'j json_ops \<Rightarrow> contract_call_params \<Rightarrow> 'j" where
  "call_to_json J p =
     mk_object J
       [(''call_key'', mk_string J (cl_call_key p)), (''contract_address'', mk_string J (cl_contract_address p)),
        (''fee'', mk_string J (cl_fee p)), (''funding_seed'', mk_string J (cl_funding_seed p)),
        (''proof_server'', text_or_null J (cl_proof_server p)), (''rng_seed'', text_or_null J (cl_rng_seed p)),
        (''source'', source_to_json J (cl_source p))]"

definition custom_to_json :: "'j json_ops \<Rightarrow> custom_params \<Rightarrow> 'j" where
  "custom_to_json J p =
     mk_object J
       [(''compiled_contract_dirs'', text_list J (cu_contract_dirs p)),
        (''funding_seed'', mk_string J (cu_funding_seed p)), (''input_utxos'', text_list J (cu_input_utxos p)),
        (''intent_files'', text_list J (cu_intent_files p)), (''proof_server'', text_or_null J (cu_proof_server p)),
        (''rng_seed'', text_or_null J (cu_rng_seed p)),
        (''shielded_destinations'', text_list J (cu_destinations p)), (''source'', source_to_json J (cu_source p)),
        (''zswap_state_file'', text_or_null J (cu_zswap_state_file p))]"

definition sync_to_json :: "'j json_ops \<Rightarrow> sync_params \<Rightarrow> 'j" where
  "sync_to_json J p =
     mk_object J
       [(''source'', source_to_json J (sy_source p)), (''timeout_ms'', mk_number J (uint (sy_timeout_ms p))),
        (''wallet_seeds'', text_list J (sy_wallet_seeds p))]"

definition wallet_summary_to_json :: "'j json_ops \<Rightarrow> summary_params \<Rightarrow> 'j" where
  "wallet_summary_to_json J p =
     mk_object J
       [(''source'', source_to_json J (sm_source p)), (''timeout_ms'', mk_number J (uint (sm_timeout_ms p))),
        (''wallet_seed'', mk_string J (sm_wallet_seed p))]"

section \<open>Answers\<close>

definition text_value :: "'j json_ops \<Rightarrow> 'j \<Rightarrow> string \<Rightarrow> string result" where
  "text_value J j k = json_value J (read_string J) j k []"

definition flag_value :: "'j json_ops \<Rightarrow> 'j \<Rightarrow> string \<Rightarrow> bool result" where
  "flag_value J j k = json_value J (read_bool J) j k False"

definition read_strings :: "'j json_ops \<Rightarrow> 'j \<Rightarrow> string list result" where
  "read_strings J j = (if is_array J j then read_list (read_string J) (elements J j) else Inl type_error)"

text \<open>The bytes of the transaction are taken from its hexadecimal text.\<close>

definition with_bytes :: "build_result \<Rightarrow> build_result result" where
  "with_bytes r =
     (if br_hex r = [] then Inr r
      else
        (let hex = strip_hex_prefix (br_hex r)
         in if length hex mod 2 \<noteq> 0 \<or> \<not> is_hex_string hex
            then Inr (r\<lparr>br_success := False, br_error := ''Native Midnight ledger FFI returned invalid transaction_hex''\<rparr>)
            else rbind (util_hex_to_bytes hex) (\<lambda>bs. Inr (r\<lparr>br_bytes := bs\<rparr>))))"

definition build_result_from_json :: "'j json_ops \<Rightarrow> 'j \<Rightarrow> build_result result" where
  "build_result_from_json J j =
     rbind (flag_value J j ''success'') (\<lambda>success.
     rbind (text_value J j ''transaction_hex'') (\<lambda>hex.
     rbind (text_value J j ''transaction_hash'') (\<lambda>hash.
     rbind (text_value J j ''contract_address'') (\<lambda>contract.
     rbind (text_value J j ''output_file'') (\<lambda>file.
     rbind (text_value J j ''intent_path'') (\<lambda>intent.
     rbind (text_value J j ''private_state_path'') (\<lambda>priv.
     rbind (text_value J j ''zswap_state_path'') (\<lambda>zswap.
     rbind (text_value J j ''onchain_state_path'') (\<lambda>onchain.
     rbind (text_value J j ''result_path'') (\<lambda>res.
     rbind (text_value J j ''raw_output'') (\<lambda>raw.
     rbind (text_value J j ''command'') (\<lambda>command.
     rbind (text_value J j ''log'') (\<lambda>log.
     rbind (text_value J j ''error'') (\<lambda>err.
       with_bytes
         \<lparr>br_success = success, br_bytes = [], br_hex = hex, br_hash = hash, br_contract_address = contract,
          br_output_file = file, br_intent_path = intent, br_private_state_path = priv, br_zswap_state_path = zswap,
          br_onchain_state_path = onchain, br_result_path = res, br_raw_output = raw, br_command = command,
          br_log = log, br_error = err\<rparr>))))))))))))))"

record derivation_result =
  dr_success :: bool
  dr_network :: string
  dr_shielded :: string
  dr_unshielded :: string
  dr_dust :: string
  dr_dust_public :: string
  dr_coin_public :: string
  dr_coin_public_tagged :: string
  dr_verifying_key :: string
  dr_user_address :: string
  dr_user_address_untagged :: string
  dr_error :: string

definition new_derivation_result :: derivation_result where
  "new_derivation_result =
     \<lparr>dr_success = False, dr_network = [], dr_shielded = [], dr_unshielded = [], dr_dust = [], dr_dust_public = [],
      dr_coin_public = [], dr_coin_public_tagged = [], dr_verifying_key = [], dr_user_address = [],
      dr_user_address_untagged = [], dr_error = []\<rparr>"

definition wallet_addresses_from_json :: "'j json_ops \<Rightarrow> 'j \<Rightarrow> derivation_result result" where
  "wallet_addresses_from_json J j =
     rbind (flag_value J j ''success'') (\<lambda>success.
     rbind (text_value J j ''network'') (\<lambda>network.
     rbind (text_value J j ''shielded'') (\<lambda>shielded.
     rbind (text_value J j ''unshielded'') (\<lambda>unshielded.
     rbind (text_value J j ''dust'') (\<lambda>dust.
     rbind (text_value J j ''dust_public'') (\<lambda>dust_public.
     rbind (text_value J j ''coin_public'') (\<lambda>coin_public.
     rbind (text_value J j ''coin_public_tagged'') (\<lambda>coin_tagged.
     rbind (text_value J j ''verifying_key'') (\<lambda>verifying.
     rbind (text_value J j ''user_address'') (\<lambda>user.
     rbind (text_value J j ''unshielded_user_address_untagged'') (\<lambda>untagged.
     rbind (text_value J j ''error'') (\<lambda>err.
       Inr \<lparr>dr_success = success, dr_network = network, dr_shielded = shielded, dr_unshielded = unshielded,
         dr_dust = dust, dr_dust_public = dust_public, dr_coin_public = coin_public,
         dr_coin_public_tagged = coin_tagged, dr_verifying_key = verifying, dr_user_address = user,
         dr_user_address_untagged = untagged, dr_error = err\<rparr>))))))))))))"

record backend_info =
  bk_success :: bool
  bk_ffi_name :: string
  bk_ffi_version :: string
  bk_abi_version :: u32
  bk_source :: string
  bk_ledger :: string
  bk_zswap :: string
  bk_onchain_runtime :: string
  bk_compact_toolchain :: string
  bk_compact_runtime :: string
  bk_indexer_schema :: string
  bk_proof_server :: string
  bk_panic_strategy :: string
  bk_capabilities :: "string list"
  bk_warnings :: "string list"
  bk_error :: string
  bk_raw_json :: string

definition new_backend_info :: backend_info where
  "new_backend_info =
     \<lparr>bk_success = False, bk_ffi_name = [], bk_ffi_version = [], bk_abi_version = 0, bk_source = [], bk_ledger = [],
      bk_zswap = [], bk_onchain_runtime = [], bk_compact_toolchain = [], bk_compact_runtime = [],
      bk_indexer_schema = [], bk_proof_server = [], bk_panic_strategy = [], bk_capabilities = [], bk_warnings = [],
      bk_error = [], bk_raw_json = []\<rparr>"

definition backend_info_from_json :: "'j json_ops \<Rightarrow> 'j \<Rightarrow> string \<Rightarrow> backend_info result" where
  "backend_info_from_json J j raw =
     rbind (flag_value J j ''success'') (\<lambda>success.
     rbind (text_value J j ''ffi_name'') (\<lambda>name.
     rbind (text_value J j ''ffi_version'') (\<lambda>version.
     rbind (json_value J (read_u32 J) j ''abi_version'' 0) (\<lambda>abi.
     rbind (text_value J j ''source'') (\<lambda>source.
     rbind (text_value J j ''ledger'') (\<lambda>ledger.
     rbind (text_value J j ''zswap'') (\<lambda>zswap.
     rbind (text_value J j ''onchain_runtime'') (\<lambda>runtime.
     rbind (text_value J j ''compact_toolchain'') (\<lambda>toolchain.
     rbind (text_value J j ''compact_runtime'') (\<lambda>compact.
     rbind (text_value J j ''indexer_schema'') (\<lambda>schema.
     rbind (text_value J j ''proof_server'') (\<lambda>server.
     rbind (text_value J j ''panic_strategy'') (\<lambda>panic.
     rbind (json_value J (read_strings J) j ''capabilities'' []) (\<lambda>capabilities.
     rbind (json_value J (read_strings J) j ''warnings'' []) (\<lambda>warnings.
     rbind (text_value J j ''error'') (\<lambda>err.
       Inr \<lparr>bk_success = success, bk_ffi_name = name, bk_ffi_version = version, bk_abi_version = abi,
         bk_source = source, bk_ledger = ledger, bk_zswap = zswap, bk_onchain_runtime = runtime,
         bk_compact_toolchain = toolchain, bk_compact_runtime = compact, bk_indexer_schema = schema,
         bk_proof_server = server, bk_panic_strategy = panic, bk_capabilities = capabilities,
         bk_warnings = warnings, bk_error = err, bk_raw_json = raw\<rparr>))))))))))))))))"

record validation_result =
  vr_success :: bool
  vr_valid :: bool
  vr_kind :: string
  vr_normalized :: string
  vr_network :: string
  vr_error :: string

definition new_validation_result :: validation_result where
  "new_validation_result =
     \<lparr>vr_success = False, vr_valid = False, vr_kind = [], vr_normalized = [], vr_network = [], vr_error = []\<rparr>"

definition validation_from_json :: "'j json_ops \<Rightarrow> 'j \<Rightarrow> validation_result result" where
  "validation_from_json J j =
     rbind (flag_value J j ''success'') (\<lambda>success.
     rbind (flag_value J j ''valid'') (\<lambda>valid.
     rbind (text_value J j ''kind'') (\<lambda>kind.
     rbind (text_value J j ''normalized'') (\<lambda>normalized.
     rbind (text_value J j ''network'') (\<lambda>network.
     rbind (text_value J j ''error'') (\<lambda>err.
       Inr \<lparr>vr_success = success, vr_valid = valid, vr_kind = kind, vr_normalized = normalized,
         vr_network = network, vr_error = err\<rparr>))))))"

record inspection_result =
  ir_success :: bool
  ir_verified :: bool
  ir_transaction_hash :: string
  ir_tx_type :: string
  ir_size_bytes :: u64
  ir_ledger_version :: string
  ir_contract_address :: string
  ir_tagged_contract_address :: string
  ir_error :: string

definition new_inspection_result :: inspection_result where
  "new_inspection_result =
     \<lparr>ir_success = False, ir_verified = False, ir_transaction_hash = [], ir_tx_type = [], ir_size_bytes = 0,
      ir_ledger_version = [], ir_contract_address = [], ir_tagged_contract_address = [], ir_error = []\<rparr>"

text \<open>The size is read as a 32-bit number.\<close>

definition inspection_from_json :: "'j json_ops \<Rightarrow> 'j \<Rightarrow> inspection_result result" where
  "inspection_from_json J j =
     rbind (flag_value J j ''success'') (\<lambda>success.
     rbind (flag_value J j ''verified'') (\<lambda>verified.
     rbind (text_value J j ''transaction_hash'') (\<lambda>hash.
     rbind (text_value J j ''tx_type'') (\<lambda>tx_type.
     rbind (json_value J (read_u32 J) j ''size_bytes'' 0) (\<lambda>size_bytes.
     rbind (text_value J j ''ledger_version'') (\<lambda>version.
     rbind (text_value J j ''contract_address'') (\<lambda>contract.
     rbind (text_value J j ''tagged_contract_address'') (\<lambda>tagged.
     rbind (text_value J j ''error'') (\<lambda>err.
       Inr \<lparr>ir_success = success, ir_verified = verified, ir_transaction_hash = hash, ir_tx_type = tx_type,
         ir_size_bytes = ucast size_bytes, ir_ledger_version = version, ir_contract_address = contract,
         ir_tagged_contract_address = tagged, ir_error = err\<rparr>)))))))))"

section \<open>Backends\<close>

text \<open>
  A backend: its operations, and the library behind it, if it is one. A function of the library answers with a
  return code and a text, or none. \<open>fl_error\<close> is \<^verbatim>\<open>last_error_\<close>.
\<close>

type_synonym 'w ffi_function = "string \<Rightarrow> 'w \<Rightarrow> (int \<times> string option) \<times> 'w"

record 'w ffi_library =
  fl_build :: "'w ffi_function option"
  fl_info :: "('w \<Rightarrow> (int \<times> string option) \<times> 'w) option"
  fl_wallet_addresses :: "'w ffi_function option"
  fl_validate :: "'w ffi_function option"
  fl_inspect :: "'w ffi_function option"
  fl_free :: bool
  fl_error :: string

record 'w ledger_backend =
  lb_transfer_night :: "transfer_params \<Rightarrow> ('w, build_result) call"
  lb_register_dust :: "register_params \<Rightarrow> ('w, build_result) call"
  lb_deregister_dust :: "deregister_params \<Rightarrow> ('w, build_result) call"
  lb_deploy :: "deploy_params \<Rightarrow> ('w, build_result) call"
  lb_call :: "contract_call_params \<Rightarrow> ('w, build_result) call"
  lb_custom :: "custom_params \<Rightarrow> ('w, build_result) call"
  lb_sync :: "sync_params \<Rightarrow> ('w, build_result) call"
  lb_summary :: "summary_params \<Rightarrow> ('w, build_result) call"
  lb_library :: "'w ffi_library option"

definition unavailable :: "string \<Rightarrow> ('w, build_result) call" where
  "unavailable operation =
     call_return (new_build_result\<lparr>br_error := operation @ '' requires a native Midnight ledger backend. '' @
       ''Configure FfiLedgerBackend with libmidnight_ledger_ffi.''\<rparr>)"

definition unavailable_backend :: "'w ledger_backend" where
  "unavailable_backend =
     \<lparr>lb_transfer_night = (\<lambda>_. unavailable ''transfer_night''), lb_register_dust = (\<lambda>_. unavailable ''register_dust''),
      lb_deregister_dust = (\<lambda>_. unavailable ''deregister_dust''), lb_deploy = (\<lambda>_. unavailable ''deploy_contract''),
      lb_call = (\<lambda>_. unavailable ''call_contract''), lb_custom = (\<lambda>_. unavailable ''custom_contract_transaction''),
      lb_sync = (\<lambda>_. unavailable ''sync_ledger_state''), lb_summary = (\<lambda>_. unavailable ''wallet_summary''),
      lb_library = None\<rparr>"

text \<open>The dynamic loader: the message of a failure, if it has one, or the symbols.\<close>

definition load_library :: "(string \<Rightarrow> string option + 'w ffi_library) \<Rightarrow> string \<Rightarrow> 'w ffi_library" where
  "load_library loader path =
     (let name = (if path = [] then ''libmidnight_ledger_ffi.so'' else path)
      in case loader name of
           Inl err \<Rightarrow>
             \<lparr>fl_build = None, fl_info = None, fl_wallet_addresses = None, fl_validate = None, fl_inspect = None,
              fl_free = False, fl_error = (case err of Some e \<Rightarrow> e | None \<Rightarrow> ''Could not load '' @ name)\<rparr>
         | Inr lib \<Rightarrow>
             lib\<lparr>fl_error := (if fl_build lib = None \<or> \<not> fl_free lib
               then ''libmidnight_ledger_ffi is missing required symbols'' else [])\<rparr>)"

definition ffi_is_available :: "'w ffi_library \<Rightarrow> bool" where
  "ffi_is_available F \<longleftrightarrow> fl_build F \<noteq> None \<and> fl_free F"

definition can_derive_wallet_addresses :: "'w ffi_library \<Rightarrow> bool" where
  "can_derive_wallet_addresses F \<longleftrightarrow> fl_wallet_addresses F \<noteq> None \<and> fl_free F"

definition can_report_backend_info :: "'w ffi_library \<Rightarrow> bool" where
  "can_report_backend_info F \<longleftrightarrow> fl_info F \<noteq> None \<and> fl_free F"

definition can_validate :: "'w ffi_library \<Rightarrow> bool" where
  "can_validate F \<longleftrightarrow> fl_validate F \<noteq> None \<and> fl_free F"

definition can_inspect_transactions :: "'w ffi_library \<Rightarrow> bool" where
  "can_inspect_transactions F \<longleftrightarrow> fl_inspect F \<noteq> None \<and> fl_free F"

definition missing_function :: "'w ffi_library \<Rightarrow> string \<Rightarrow> string" where
  "missing_function F message = (if fl_error F = [] then message else fl_error F)"

definition parse_text :: "'j json_ops \<Rightarrow> string \<Rightarrow> 'j result" where
  "parse_text J s = (case parse J s of Inl what \<Rightarrow> Inl (Runtime_error what) | Inr j \<Rightarrow> Inr j)"

text \<open>An answer, or the message of the exception that reading it throws; a code other than 0 only fills in an empty message.\<close>

definition read_answer ::
  "(string \<Rightarrow> 'r result) \<Rightarrow> (string \<Rightarrow> 'r) \<Rightarrow> ('r \<Rightarrow> string) \<Rightarrow> (string \<Rightarrow> 'r \<Rightarrow> 'r) \<Rightarrow> string \<Rightarrow> string \<Rightarrow> int \<times> string option \<Rightarrow> 'r result" where
  "read_answer reader failed get_error set_error invalid call_failed answer =
     (case answer of (code, response) \<Rightarrow>
        (case reader (case response of None \<Rightarrow> [] | Some s \<Rightarrow> s) of
           Inl Undefined_behaviour \<Rightarrow> Inl Undefined_behaviour
         | Inl e \<Rightarrow> Inr (failed (invalid @ exc_what e))
         | Inr r \<Rightarrow> Inr (if code \<noteq> 0 \<and> get_error r = [] then set_error call_failed r else r)))"

definition on_answer :: "('w \<Rightarrow> (int \<times> string option) \<times> 'w) \<Rightarrow> (int \<times> string option \<Rightarrow> 'r result) \<Rightarrow> ('w, 'r) call" where
  "on_answer f k w = (case f w of (answer, w) \<Rightarrow> (k answer, w))"

definition ffi_backend_info :: "'j json_ops \<Rightarrow> 'w ffi_library \<Rightarrow> ('w, backend_info) call" where
  "ffi_backend_info J F =
     (case (can_report_backend_info F, fl_info F) of
        (True, Some info) \<Rightarrow>
          on_answer info (read_answer (\<lambda>s. rbind (parse_text J s) (\<lambda>j. backend_info_from_json J j s))
            (\<lambda>e. new_backend_info\<lparr>bk_error := e\<rparr>) bk_error (\<lambda>e r. r\<lparr>bk_error := e\<rparr>)
            ''Invalid native Midnight backend info response: '' ''Native Midnight backend info call failed'')
      | _ \<Rightarrow> call_return (new_backend_info\<lparr>bk_error := missing_function F
               ''Native Midnight ledger FFI backend is missing midnight_ledger_backend_info''\<rparr>))"

definition ffi_validate :: "'j json_ops \<Rightarrow> 'w ffi_library \<Rightarrow> string \<Rightarrow> string \<Rightarrow> string \<Rightarrow> ('w, validation_result) call" where
  "ffi_validate J F kind value network =
     (case (can_validate F, fl_validate F) of
        (True, Some f) \<Rightarrow>
          on_answer
            (f (dump J (mk_object J
              [(''kind'', mk_string J kind), (''network'', mk_string J network), (''value'', mk_string J value)])))
            (read_answer (\<lambda>s. rbind (parse_text J s) (validation_from_json J))
              (\<lambda>e. new_validation_result\<lparr>vr_error := e\<rparr>) vr_error (\<lambda>e r. r\<lparr>vr_error := e\<rparr>)
              ''Invalid native Midnight validation response: '' ''Native Midnight validation call failed'')
      | _ \<Rightarrow> call_return (new_validation_result\<lparr>vr_error := missing_function F
               ''Native Midnight ledger FFI backend is missing midnight_ledger_validate''\<rparr>))"

definition ffi_inspect_transaction :: "'j json_ops \<Rightarrow> 'w ffi_library \<Rightarrow> string \<Rightarrow> u8 \<Rightarrow> ('w, inspection_result) call" where
  "ffi_inspect_transaction J F hex version =
     (case (can_inspect_transactions F, fl_inspect F) of
        (True, Some f) \<Rightarrow>
          on_answer
            (f (dump J (mk_object J
              [(''ledger_version'', mk_number J (uint version)), (''transaction_hex'', mk_string J hex)])))
            (read_answer (\<lambda>s. rbind (parse_text J s) (inspection_from_json J))
              (\<lambda>e. new_inspection_result\<lparr>ir_error := e\<rparr>) ir_error (\<lambda>e r. r\<lparr>ir_error := e\<rparr>)
              ''Invalid native Midnight transaction inspection response: ''
              ''Native Midnight transaction inspection call failed'')
      | _ \<Rightarrow> call_return (new_inspection_result\<lparr>ir_error := missing_function F
               ''Native Midnight ledger FFI backend is missing midnight_ledger_inspect_transaction''\<rparr>))"

definition ffi_derive_wallet_addresses :: "'j json_ops \<Rightarrow> 'w ffi_library \<Rightarrow> string \<Rightarrow> string \<Rightarrow> ('w, derivation_result) call" where
  "ffi_derive_wallet_addresses J F seed network =
     (case (can_derive_wallet_addresses F, fl_wallet_addresses F) of
        (True, Some f) \<Rightarrow>
          on_answer
            (f (dump J (mk_object J
              [(''network'', mk_string J (if network = [] then ''preview'' else network)), (''seed'', mk_string J seed)])))
            (read_answer (\<lambda>s. rbind (parse_text J s) (wallet_addresses_from_json J))
              (\<lambda>e. new_derivation_result\<lparr>dr_error := e\<rparr>) dr_error (\<lambda>e r. r\<lparr>dr_error := e\<rparr>)
              ''Invalid native Midnight wallet FFI response: '' ''Native Midnight wallet FFI call failed'')
      | _ \<Rightarrow> call_return (new_derivation_result\<lparr>dr_error := missing_function F
               ''Native Midnight ledger FFI backend is missing midnight_ledger_derive_wallet_addresses''\<rparr>))"

definition build_answer :: "'j json_ops \<Rightarrow> int \<times> string option \<Rightarrow> build_result result" where
  "build_answer J answer =
     (case answer of (code, raw) \<Rightarrow>
        (let response = (case raw of None \<Rightarrow> [] | Some s \<Rightarrow> s);
             read = rbind (parse_text J response) (build_result_from_json J);
             failure = ''Native Midnight ledger FFI call failed''
         in if code \<noteq> 0
            then
              (if response = [] then Inr (new_build_result\<lparr>br_error := failure\<rparr>)
               else
                 (case read of
                    Inl Undefined_behaviour \<Rightarrow> Inl Undefined_behaviour
                  | Inl e \<Rightarrow> Inr (new_build_result\<lparr>br_error := response\<rparr>)
                  | Inr r \<Rightarrow> Inr (if br_error r = [] then r\<lparr>br_error := failure\<rparr> else r)))
            else
              (case read of
                 Inl Undefined_behaviour \<Rightarrow> Inl Undefined_behaviour
               | Inl e \<Rightarrow> Inr (new_build_result\<lparr>br_error := ''Invalid native Midnight ledger FFI response: '' @ exc_what e\<rparr>)
               | Inr r \<Rightarrow> Inr r)))"

definition call_backend :: "'j json_ops \<Rightarrow> 'w ffi_library \<Rightarrow> string \<Rightarrow> string \<Rightarrow> ('w, build_result) call" where
  "call_backend J F operation params_json =
     (case (ffi_is_available F, fl_build F) of
        (True, Some f) \<Rightarrow>
          call_bind (call_of (parse_text J params_json)) (\<lambda>params.
            on_answer (f (dump J (mk_object J [(''operation'', mk_string J operation), (''params'', params)])))
              (build_answer J))
      | _ \<Rightarrow> call_return (new_build_result\<lparr>br_error := missing_function F
               ''Native Midnight ledger FFI backend is not available''\<rparr>))"

definition ffi_backend :: "'j json_ops \<Rightarrow> 'w ffi_library \<Rightarrow> 'w ledger_backend" where
  "ffi_backend J F =
     \<lparr>lb_transfer_night = (\<lambda>p. call_backend J F ''transfer_night'' (dump J (transfer_to_json J p))),
      lb_register_dust = (\<lambda>p. call_backend J F ''register_dust'' (dump J (register_dust_to_json J p))),
      lb_deregister_dust = (\<lambda>p. call_backend J F ''deregister_dust'' (dump J (deregister_dust_to_json J p))),
      lb_deploy = (\<lambda>p. call_backend J F ''deploy_simple_contract'' (dump J (deploy_to_json J p))),
      lb_call = (\<lambda>p. call_backend J F ''call_simple_contract'' (dump J (call_to_json J p))),
      lb_custom = (\<lambda>p. call_backend J F ''custom_contract_transaction'' (dump J (custom_to_json J p))),
      lb_sync = (\<lambda>p. call_backend J F ''sync_ledger_state'' (dump J (sync_to_json J p))),
      lb_summary = (\<lambda>p. call_backend J F ''wallet_summary'' (dump J (wallet_summary_to_json J p))),
      lb_library = Some F\<rparr>"

definition make_ffi_ledger_backend ::
  "'j json_ops \<Rightarrow> (string \<Rightarrow> string option + 'w ffi_library) \<Rightarrow> string \<Rightarrow> 'w ledger_backend" where
  "make_ffi_ledger_backend J loader path = ffi_backend J (load_library loader path)"

section \<open>What is sent and what is made of an answer\<close>

lemma with_bytes_enc:
  assumes "bs \<noteq> []" and "br_hex r = util_bytes_to_hex bs"
  shows "with_bytes r = Inr (r\<lparr>br_bytes := bs\<rparr>)"
proof -
  have "strip_hex_prefix (util_bytes_to_hex bs) = util_bytes_to_hex bs"
    using no_prefix_in_hex by (simp add: strip_hex_prefix_def)
  moreover have "is_hex_string (util_bytes_to_hex bs)"
    using assms(1) util_bytes_to_hex_xdigits by (cases bs) (auto simp: is_hex_string_def list_all_iff)
  moreover have "util_bytes_to_hex bs \<noteq> []" using assms(1) by (cases bs) simp_all
  ultimately show ?thesis using assms(2) by (simp add: with_bytes_def Let_def util_hex_to_bytes_def util_hex_loop_enc)
qed

context lawful_json
begin

lemma text_values [simp]:
  "text_value J (mk_object J kvs) k = (case map_of kvs k of None \<Rightarrow> Inr [] | Some v \<Rightarrow> read_string J v)"
  "flag_value J (mk_object J kvs) k = (case map_of kvs k of None \<Rightarrow> Inr False | Some v \<Rightarrow> read_bool J v)"
  by (simp_all add: text_value_def flag_value_def split: option.split)

lemma read_texts [simp]: "read_strings J (text_list J xs) = Inr xs"
  by (simp add: read_strings_def text_list_def comp_def read_list_all [where g = "\<lambda>x. x"])

lemma built_transaction:
  assumes "bs \<noteq> []"
  shows "build_result_from_json J (mk_object J
      [(''error'', mk_string J e), (''success'', mk_bool J b), (''transaction_hex'', mk_string J (util_bytes_to_hex bs))]) =
    Inr (new_build_result\<lparr>br_success := b, br_hex := util_bytes_to_hex bs, br_error := e, br_bytes := bs\<rparr>)"
  using assms by (simp add: build_result_from_json_def with_bytes_enc new_build_result_def)

end

text \<open>A transaction that the library answers with counts, whatever its return code; the code only fills in a message.\<close>

text \<open>
  An answer that says success and holds the hexadecimal text of bytes gives a successful result with exactly
  these bytes, also when the library returned an error code: the code only fills in an empty error text.
\<close>
theorem answered_transaction:
  assumes "json_laws J" and "bs \<noteq> []" and "response \<noteq> []"
    and "parse J response = Inr (mk_object J
      [(''error'', mk_string J e), (''success'', mk_bool J True), (''transaction_hex'', mk_string J (util_bytes_to_hex bs))])"
  shows "build_answer J (code, Some response) =
    Inr (new_build_result\<lparr>br_success := True, br_bytes := bs, br_hex := util_bytes_to_hex bs,
      br_error := (if code \<noteq> 0 \<and> e = [] then ''Native Midnight ledger FFI call failed'' else e)\<rparr>)"
proof -
  note built = lawful_json.built_transaction [OF lawful_json.intro [OF assms(1)] assms(2), of e True]
  have "rbind (parse_text J response) (build_result_from_json J) =
      Inr (new_build_result\<lparr>br_success := True, br_hex := util_bytes_to_hex bs, br_error := e, br_bytes := bs\<rparr>)"
    using assms(4) built by (simp add: parse_text_def)
  with assms(3) show ?thesis
    by (simp add: build_answer_def new_build_result_def Let_def)
qed

definition sample_answer_json :: "json json_ops" where
  "sample_answer_json = json_std\<lparr>parse := (\<lambda>_. Inr (JObject
     [(''error'', JString []), (''success'', JBool True), (''transaction_hex'', JString (util_bytes_to_hex [1, 171]))]))\<rparr>"

theorem answered_transaction_witness:
  "build_answer sample_answer_json (- 3, Some ''{}'') =
    Inr (new_build_result\<lparr>br_success := True, br_bytes := [1, 171], br_hex := util_bytes_to_hex [1, 171],
      br_error := ''Native Midnight ledger FFI call failed''\<rparr>)"
proof -
  have "json_laws sample_answer_json"
    using json_std_laws by (simp add: json_laws_def sample_answer_json_def)
  moreover have "parse sample_answer_json ''{}'' = Inr (mk_object sample_answer_json
      [(''error'', mk_string sample_answer_json []), (''success'', mk_bool sample_answer_json True),
       (''transaction_hex'', mk_string sample_answer_json (util_bytes_to_hex [1, 171]))])"
    by (simp add: sample_answer_json_def json_std_def)
  ultimately show ?thesis
    using answered_transaction [of sample_answer_json "[1, 171]" "''{}''" "[]" "- 3"] by simp
qed

end
