(* ===== verification/StateBackend.thy ===== *)
theory StateBackend
  imports Ledger WalletStore
begin

text \<open>
  The errors of the production client and its state backends (include/midnight/production/errors.hpp and
  state_backend.hpp, src/production/state_backend.cpp): the local one over cache files, with snapshots, and the
  one that asks a service. JSON, HTTP, the files and their faults are parameters. Results: a snapshot that is
  exported and imported brings the caches back; the service can report a success together with an error.
\<close>

section \<open>Errors\<close>

datatype sdk_error_code =
    NoError
  | InvalidAddress
  | InvalidContractAddress
  | InvalidTokenType
  | InvalidAmount
  | InvalidHash
  | IndexerSchemaError
  | LedgerBackendError
  | LedgerBuildError
  | LedgerStateMismatch
  | ProofServerError
  | NodeRpcError
  | NodeRejectedTx
  | IndexerError
  | SubmissionRejected
  | ConfirmationTimeout
  | FinalityTimeout
  | ArtifactError
  | UnsupportedOperation

fun error_code_to_string :: "sdk_error_code \<Rightarrow> string" where
  "error_code_to_string NoError = ''none''"
| "error_code_to_string InvalidAddress = ''invalid_address''"
| "error_code_to_string InvalidContractAddress = ''invalid_contract_address''"
| "error_code_to_string InvalidTokenType = ''invalid_token_type''"
| "error_code_to_string InvalidAmount = ''invalid_amount''"
| "error_code_to_string InvalidHash = ''invalid_hash''"
| "error_code_to_string IndexerSchemaError = ''indexer_schema_error''"
| "error_code_to_string LedgerBackendError = ''ledger_backend_error''"
| "error_code_to_string LedgerBuildError = ''ledger_build_error''"
| "error_code_to_string LedgerStateMismatch = ''ledger_state_mismatch''"
| "error_code_to_string ProofServerError = ''proof_server_error''"
| "error_code_to_string NodeRpcError = ''node_rpc_error''"
| "error_code_to_string NodeRejectedTx = ''node_rejected_tx''"
| "error_code_to_string IndexerError = ''indexer_error''"
| "error_code_to_string SubmissionRejected = ''submission_rejected''"
| "error_code_to_string ConfirmationTimeout = ''confirmation_timeout''"
| "error_code_to_string FinalityTimeout = ''finality_timeout''"
| "error_code_to_string ArtifactError = ''artifact_error''"
| "error_code_to_string UnsupportedOperation = ''unsupported_operation''"

record sdk_error =
  se_code :: sdk_error_code
  se_message :: string
  se_detail :: string

definition make_error :: "sdk_error_code \<Rightarrow> string \<Rightarrow> string \<Rightarrow> sdk_error" where
  "make_error c m d = \<lparr>se_code = c, se_message = m, se_detail = d\<rparr>"

definition no_error :: sdk_error where
  "no_error = make_error NoError [] []"

text \<open>\<^verbatim>\<open>operator bool\<close>\<close>

definition has_error :: "sdk_error \<Rightarrow> bool" where
  "has_error e \<longleftrightarrow> se_code e \<noteq> NoError \<or> se_message e \<noteq> [] \<or> se_detail e \<noteq> []"

section \<open>Services\<close>

text \<open>
  JSON, its indented text (\<open>None\<close> for text that is no UTF-8), HTTP, the regular files by their paths, the fault
  that an operation on a path meets, the environment, and the time as \<^verbatim>\<open>timestamp_id\<close> prints it. Paths are
  compared as texts; directories hold files or are left out.
\<close>

record ('w, 'j) platform =
  pf_json :: "'j json_ops"
  pf_indented :: "'j \<Rightarrow> string option"
  pf_http :: "'w http"
  pf_files :: "'w \<Rightarrow> (string \<times> string) list"
  pf_put_files :: "(string \<times> string) list \<Rightarrow> 'w \<Rightarrow> 'w"
  pf_fault :: "string \<Rightarrow> 'w \<Rightarrow> string option"
  pf_env :: "string \<Rightarrow> string option"
  pf_stamp :: "'w \<Rightarrow> string \<times> 'w"

definition below :: "string \<Rightarrow> (string \<times> string) list \<Rightarrow> (string \<times> string) list" where
  "below dir files = filter (\<lambda>f. starts_with (fst f) (dir @ ''/'')) files"

definition path_size :: "(string \<times> string) list \<Rightarrow> string \<Rightarrow> u64" where
  "path_size files p =
     (case map_of files p of
        Some text \<Rightarrow> word_of_nat (length text)
      | None \<Rightarrow> sum_list (map (\<lambda>f. word_of_nat (length (snd f))) (below p files)))"

text \<open>Copying a file or all files below a directory; what does not exist is passed over.\<close>

definition copy_path :: "('w, 'j) platform \<Rightarrow> string \<Rightarrow> string \<Rightarrow> ('w, unit) call" where
  "copy_path P from_path to_path w =
     (let files = pf_files P w
      in if map_of files from_path = None \<and> below from_path files = [] then (Inr (), w)
         else
           (case pf_fault P to_path w of
              Some e \<Rightarrow> (Inl (Runtime_error e), w)
            | None \<Rightarrow>
                (Inr (), pf_put_files P
                  (case map_of files from_path of
                     Some text \<Rightarrow> map_put to_path text files
                   | None \<Rightarrow> fold (\<lambda>f. map_put (to_path @ drop (length from_path) (fst f)) (snd f)) (below from_path files) files)
                  w)))"

definition strip_redb_prefix :: "string \<Rightarrow> string" where
  "strip_redb_prefix value = (if starts_with value ''redb:'' then drop 5 value else value)"

definition is_remote_path :: "string \<Rightarrow> bool" where
  "is_remote_path path \<longleftrightarrow> str_find path ''://'' 0 \<noteq> None \<and> \<not> starts_with path ''redb:''"

section \<open>Status\<close>

datatype backend_mode = Local_mode | Snapshot_mode | Managed_mode

fun state_backend_mode_to_string :: "backend_mode \<Rightarrow> string" where
  "state_backend_mode_to_string Snapshot_mode = ''snapshot''"
| "state_backend_mode_to_string Managed_mode = ''managed''"
| "state_backend_mode_to_string Local_mode = ''local-cache''"

definition state_backend_mode_from_string :: "string \<Rightarrow> backend_mode" where
  "state_backend_mode_from_string s =
     (let value = normal_name s
      in if value \<in> {''managed'', ''hosted'', ''state-service''} then Managed_mode
         else if value \<in> {''snapshot'', ''snapshot-cache''} then Snapshot_mode else Local_mode)"

record 'j state_status =
  st_success :: bool
  st_ready :: bool
  st_stale :: bool
  st_backend_mode :: backend_mode
  st_source_mode :: source_mode
  st_network :: string
  st_fetch_path :: string
  st_state_path :: string
  st_fetch_available :: bool
  st_state_available :: bool
  st_fetch_bytes :: u64
  st_state_bytes :: u64
  st_checkpoint :: u64
  st_checkpoint_available :: bool
  st_remote_tip :: u64
  st_lag_blocks :: u64
  st_error :: string
  st_detail :: string
  st_raw :: 'j

definition new_status :: "'j json_ops \<Rightarrow> 'j state_status" where
  "new_status J =
     \<lparr>st_success = False, st_ready = False, st_stale = False, st_backend_mode = Local_mode, st_source_mode = Auto,
      st_network = [], st_fetch_path = [], st_state_path = [], st_fetch_available = False, st_state_available = False,
      st_fetch_bytes = 0, st_state_bytes = 0, st_checkpoint = 0, st_checkpoint_available = False, st_remote_tip = 0,
      st_lag_blocks = 0, st_error = [], st_detail = [], st_raw = mk_object J []\<rparr>"

definition status_to_json :: "'j json_ops \<Rightarrow> 'j state_status \<Rightarrow> 'j" where
  "status_to_json J s =
     mk_object J
       [(''backend_mode'', mk_string J (state_backend_mode_to_string (st_backend_mode s))),
        (''detail'', mk_string J (st_detail s)), (''error'', mk_string J (st_error s)),
        (''fetch_cache_available'', mk_bool J (st_fetch_available s)),
        (''fetch_cache_bytes'', mk_number J (uint (st_fetch_bytes s))),
        (''fetch_cache_path'', mk_string J (st_fetch_path s)), (''lag_blocks'', mk_number J (uint (st_lag_blocks s))),
        (''ledger_state_available'', mk_bool J (st_state_available s)),
        (''ledger_state_bytes'', mk_number J (uint (st_state_bytes s))),
        (''ledger_state_path'', mk_string J (st_state_path s)),
        (''local_checkpoint'', mk_number J (uint (st_checkpoint s))),
        (''local_checkpoint_available'', mk_bool J (st_checkpoint_available s)),
        (''network'', mk_string J (st_network s)), (''ready'', mk_bool J (st_ready s)),
        (''remote_tip_height'', mk_number J (uint (st_remote_tip s))),
        (''source_mode'', mk_string J (source_mode_to_string (st_source_mode s))),
        (''stale'', mk_bool J (st_stale s)), (''success'', mk_bool J (st_success s))]"

definition number_value :: "'j json_ops \<Rightarrow> 'j \<Rightarrow> string \<Rightarrow> u64 result" where
  "number_value J j k = json_value J (read_ull J) j k 0"

definition status_from_json :: "'j json_ops \<Rightarrow> 'j \<Rightarrow> backend_mode \<Rightarrow> source_config \<Rightarrow> 'j state_status result" where
  "status_from_json J v mode source =
     rbind (json_value J (read_bool J) v ''success'' True) (\<lambda>success.
     rbind (flag_value J v ''ready'') (\<lambda>ready.
     rbind (flag_value J v ''stale'') (\<lambda>stale.
     rbind (text_value J v ''network'') (\<lambda>network.
     rbind (json_value J (read_string J) v ''fetch_cache_path'' (strip_redb_prefix (sc_fetch_cache source))) (\<lambda>fetch_path.
     rbind (json_value J (read_string J) v ''ledger_state_path'' (sc_ledger_state_db source)) (\<lambda>state_path.
     rbind (flag_value J v ''fetch_cache_available'') (\<lambda>fetch_available.
     rbind (flag_value J v ''ledger_state_available'') (\<lambda>state_available.
     rbind (number_value J v ''fetch_cache_bytes'') (\<lambda>fetch_bytes.
     rbind (number_value J v ''ledger_state_bytes'') (\<lambda>state_bytes.
     rbind (number_value J v ''local_checkpoint'') (\<lambda>checkpoint.
     rbind (json_value J (read_bool J) v ''local_checkpoint_available'' (0 < checkpoint)) (\<lambda>available.
     rbind (number_value J v ''remote_tip_height'') (\<lambda>tip.
     rbind (number_value J v ''lag_blocks'') (\<lambda>lag.
     rbind (text_value J v ''error'') (\<lambda>err.
     rbind (text_value J v ''detail'') (\<lambda>detail.
       Inr \<lparr>st_success = success, st_ready = ready, st_stale = stale, st_backend_mode = mode,
         st_source_mode = sc_mode source, st_network = network, st_fetch_path = fetch_path, st_state_path = state_path,
         st_fetch_available = fetch_available, st_state_available = state_available, st_fetch_bytes = fetch_bytes,
         st_state_bytes = state_bytes, st_checkpoint = checkpoint, st_checkpoint_available = available,
         st_remote_tip = tip, st_lag_blocks = lag, st_error = err, st_detail = detail, st_raw = v\<rparr>))))))))))))))))"

section \<open>Backends\<close>

record refresh_options =
  ro_max_lag_blocks :: u64
  ro_force :: bool
  ro_allow_fetch :: bool
  ro_timeout_ms :: u64

record 'j refresh_result =
  rr_success :: bool
  rr_skipped :: bool
  rr_before :: "'j state_status"
  rr_after :: "'j state_status"
  rr_sync :: build_result
  rr_error :: sdk_error

definition new_refresh :: "'j json_ops \<Rightarrow> 'j refresh_result" where
  "new_refresh J =
     \<lparr>rr_success = False, rr_skipped = False, rr_before = new_status J, rr_after = new_status J,
      rr_sync = new_build_result, rr_error = no_error\<rparr>"

record 'j snapshot_result =
  sn_success :: bool
  sn_path :: string
  sn_manifest :: 'j
  sn_error :: sdk_error

definition new_snapshot :: "'j json_ops \<Rightarrow> string \<Rightarrow> 'j snapshot_result" where
  "new_snapshot J dir = \<lparr>sn_success = False, sn_path = dir, sn_manifest = mk_object J [], sn_error = no_error\<rparr>"

record ('w, 'j) state_backend =
  sb_status :: "source_config \<Rightarrow> u64 option \<Rightarrow> ('w, 'j state_status) call"
  sb_refresh :: "sync_params \<Rightarrow> refresh_options \<Rightarrow> ('w, 'j refresh_result) call"
  sb_export :: "source_config \<Rightarrow> string \<Rightarrow> ('w, 'j snapshot_result) call"
  sb_import :: "string \<Rightarrow> source_config \<Rightarrow> ('w, 'j snapshot_result) call"

section \<open>The local backend\<close>

definition local_status :: "('w, 'j) platform \<Rightarrow> backend_mode \<Rightarrow> source_config \<Rightarrow> u64 option \<Rightarrow> 'w \<Rightarrow> 'j state_status" where
  "local_status P mode source remote_tip w =
     (let J = pf_json P; files = pf_files P w;
          fetch_path = strip_redb_prefix (sc_fetch_cache source); state_path = sc_ledger_state_db source;
          fetch_bytes = (if fetch_path \<noteq> [] \<and> \<not> is_remote_path fetch_path then path_size files fetch_path else 0);
          state_bytes = (if state_path \<noteq> [] \<and> \<not> is_remote_path state_path then path_size files state_path else 0);
          s = (new_status J)\<lparr>st_success := True, st_backend_mode := mode, st_source_mode := sc_mode source,
                st_fetch_path := fetch_path, st_state_path := state_path, st_fetch_bytes := fetch_bytes,
                st_fetch_available := (0 < fetch_bytes), st_state_bytes := state_bytes,
                st_state_available := (0 < state_bytes), st_ready := (0 < state_bytes),
                st_remote_tip := (case remote_tip of None \<Rightarrow> 0 | Some t \<Rightarrow> t), st_stale := (state_bytes = 0)\<rparr>
      in s\<lparr>st_raw := status_to_json J s\<rparr>)"

text \<open>The parameters of the synchronisation that a refresh runs.\<close>

definition refresh_sync_params :: "sync_params \<Rightarrow> refresh_options \<Rightarrow> sync_params" where
  "refresh_sync_params p opts =
     (let p = (if sy_timeout_ms p = 0 then p\<lparr>sy_timeout_ms := ro_timeout_ms opts\<rparr> else p)
      in if sc_mode (sy_source p) = Auto \<or> sc_mode (sy_source p) = LocalCache
         then p\<lparr>sy_source := (sy_source p)\<lparr>sc_mode := ColdSync, sc_fetch_only_cached := False\<rparr>\<rparr> else p)"

definition local_refresh ::
  "('w, 'j) platform \<Rightarrow> 'w ledger_backend option \<Rightarrow> backend_mode \<Rightarrow> sync_params \<Rightarrow> refresh_options \<Rightarrow> ('w, 'j refresh_result) call" where
  "local_refresh P ledger mode p opts w =
     (let J = pf_json P; before = local_status P mode (sy_source p) None w;
          unchanged = (new_refresh J)\<lparr>rr_before := before, rr_after := before\<rparr>
      in case ledger of
           None \<Rightarrow>
             (Inr (unchanged\<lparr>rr_error := make_error LedgerBackendError ''Local state refresh requires a ledger backend'' []\<rparr>), w)
         | Some lb \<Rightarrow>
             if \<not> ro_force opts \<and> st_ready before \<and> \<not> ro_allow_fetch opts
             then (Inr (unchanged\<lparr>rr_success := True, rr_skipped := True\<rparr>), w)
             else if \<not> ro_allow_fetch opts \<and> \<not> st_ready before
             then (Inr (unchanged\<lparr>rr_error := make_error LedgerBuildError
                     ''Local state cache is not ready and source fetch is disabled'' []\<rparr>), w)
             else
               (let sp = refresh_sync_params p opts
                in case lb_sync lb sp w of
                     (Inl e, w) \<Rightarrow> (Inl e, w)
                   | (Inr synced, w) \<Rightarrow>
                       (Inr ((new_refresh J)\<lparr>rr_before := before, rr_sync := synced,
                          rr_after := local_status P mode (sy_source sp) None w, rr_success := br_success synced,
                          rr_error := (if br_success synced then no_error
                             else make_error LedgerBuildError ''Local state refresh failed'' (br_error synced))\<rparr>), w)))"

definition snapshot_manifest :: "('w, 'j) platform \<Rightarrow> source_config \<Rightarrow> string \<Rightarrow> 'w \<Rightarrow> 'j" where
  "snapshot_manifest P source dir w =
     (let J = pf_json P
      in mk_object J
           [(''fetch_cache_bytes'', mk_number J (uint (path_size (pf_files P w) (path_join dir ''fetch_cache'')))),
            (''fetch_cache_entry'', mk_string J ''fetch_cache''),
            (''ledger_state_bytes'', mk_number J (uint (path_size (pf_files P w) (path_join dir ''ledger_state_db'')))),
            (''ledger_state_entry'', mk_string J ''ledger_state_db''), (''source'', source_to_json J source),
            (''version'', mk_number J 1)])"

text \<open>The manifest is written without a check of the stream.\<close>

definition write_unchecked :: "('w, 'j) platform \<Rightarrow> string \<Rightarrow> string \<Rightarrow> 'w \<Rightarrow> 'w" where
  "write_unchecked P path text w =
     (if pf_fault P path w = None then pf_put_files P (map_put path text (pf_files P w)) w else w)"

definition local_export :: "('w, 'j) platform \<Rightarrow> source_config \<Rightarrow> string \<Rightarrow> ('w, 'j snapshot_result) call" where
  "local_export P source dir =
     call_catch
       (\<lambda>w. case pf_fault P dir w of
          Some e \<Rightarrow> (Inl (Runtime_error e), w)
        | None \<Rightarrow>
            call_bind (copy_path P (strip_redb_prefix (sc_fetch_cache source)) (path_join dir ''fetch_cache'')) (\<lambda>_.
            call_bind (copy_path P (sc_ledger_state_db source) (path_join dir ''ledger_state_db'')) (\<lambda>_ w.
              let manifest = snapshot_manifest P source dir w
              in case pf_indented P manifest of
                   None \<Rightarrow>
                     (Inr ((new_snapshot (pf_json P) dir)\<lparr>sn_manifest := manifest,
                        sn_error := make_error ArtifactError ''State snapshot export failed'' (exc_what type_error)\<rparr>),
                      write_unchecked P (path_join dir ''manifest.json'') [] w)
                 | Some text \<Rightarrow>
                     (Inr ((new_snapshot (pf_json P) dir)\<lparr>sn_success := True, sn_manifest := manifest\<rparr>),
                      write_unchecked P (path_join dir ''manifest.json'') (text @ [CHR 0x0A]) w))) w)
       (\<lambda>what. call_return ((new_snapshot (pf_json P) dir)
          \<lparr>sn_error := make_error ArtifactError ''State snapshot export failed'' what\<rparr>))"

definition local_import :: "('w, 'j) platform \<Rightarrow> string \<Rightarrow> source_config \<Rightarrow> ('w, 'j snapshot_result) call" where
  "local_import P dir destination w =
     (let J = pf_json P
      in case (case map_of (pf_files P w) (path_join dir ''manifest.json'') of
                 None \<Rightarrow> Inr (mk_object J []) | Some text \<Rightarrow> parse_text J text) of
           Inl e \<Rightarrow>
             (Inr ((new_snapshot J dir)\<lparr>sn_error := make_error ArtifactError ''State snapshot import failed'' (exc_what e)\<rparr>), w)
         | Inr manifest \<Rightarrow>
             call_catch
               (call_bind (copy_path P (path_join dir ''fetch_cache'') (strip_redb_prefix (sc_fetch_cache destination))) (\<lambda>_.
                call_bind (copy_path P (path_join dir ''ledger_state_db'') (sc_ledger_state_db destination)) (\<lambda>_.
                  call_return ((new_snapshot J dir)\<lparr>sn_success := True, sn_manifest := manifest\<rparr>))))
               (\<lambda>what. call_return ((new_snapshot J dir)\<lparr>sn_manifest := manifest,
                  sn_error := make_error ArtifactError ''State snapshot import failed'' what\<rparr>)) w)"

definition make_local_state_backend ::
  "('w, 'j) platform \<Rightarrow> 'w ledger_backend option \<Rightarrow> backend_mode \<Rightarrow> ('w, 'j) state_backend" where
  "make_local_state_backend P ledger mode =
     (let m = (if mode = Managed_mode then Local_mode else mode)
      in \<lparr>sb_status = (\<lambda>source tip w. (Inr (local_status P m source tip w), w)),
          sb_refresh = local_refresh P ledger m, sb_export = local_export P, sb_import = local_import P\<rparr>)"

section \<open>The managed backend\<close>

record service_config =
  sv_base_url :: string
  sv_api_key :: string
  sv_timeout_ms :: u32

definition service_client :: "service_config \<Rightarrow> network_client result" where
  "service_client c =
     rbind (new_network_client (sv_base_url c) (sv_timeout_ms c)) (\<lambda>n.
       Inr (if sv_api_key c = [] then n else set_header ''Authorization'' (''Bearer '' @ sv_api_key c) n))"

definition service_post :: "('w, 'j) platform \<Rightarrow> service_config \<Rightarrow> string \<Rightarrow> 'j \<Rightarrow> ('w, 'j) call" where
  "service_post P c path body =
     call_bind (call_of (service_client c)) (\<lambda>n. post_json (pf_json P) (pf_http P) n path body)"

definition failed_status :: "'j json_ops \<Rightarrow> source_config \<Rightarrow> string \<Rightarrow> string \<Rightarrow> 'j state_status" where
  "failed_status J source message detail =
     (let s = (new_status J)\<lparr>st_backend_mode := Managed_mode, st_source_mode := sc_mode source, st_error := message,
                st_detail := detail\<rparr>
      in s\<lparr>st_raw := status_to_json J s\<rparr>)"

definition managed_status ::
  "('w, 'j) platform \<Rightarrow> service_config \<Rightarrow> source_config \<Rightarrow> u64 option \<Rightarrow> ('w, 'j state_status) call" where
  "managed_status P c source remote_tip =
     (let J = pf_json P
      in if sv_base_url c = []
         then call_return (failed_status J source ''Managed state service URL is not configured'' [])
         else
           call_catch
             (call_bind (service_post P c ''/v1/state/status''
                (mk_object J [(''remote_tip_height'', word_or_null J remote_tip), (''source'', source_to_json J source)]))
               (\<lambda>response.
                call_bind (call_of (status_from_json J response Managed_mode source)) (\<lambda>s.
                  call_return (s\<lparr>st_remote_tip := (case remote_tip of None \<Rightarrow> st_remote_tip s | Some t \<Rightarrow> t)\<rparr>))))
             (\<lambda>what. call_return (failed_status J source ''Managed state status request failed'' what)))"

text \<open>What the loop over the answer has set when an exception ends it stays set.\<close>

definition refresh_after ::
  "('w, 'j) platform \<Rightarrow> service_config \<Rightarrow> sync_params \<Rightarrow> 'j \<Rightarrow> ('w, 'j state_status) call" where
  "refresh_after P c p response =
     (let J = pf_json P
      in if has_key J response ''status'' \<and> is_object J (member J response ''status'')
         then call_of (status_from_json J (member J response ''status'') Managed_mode (sy_source p))
         else managed_status P c (sy_source p) None)"

definition read_refresh ::
  "('w, 'j) platform \<Rightarrow> service_config \<Rightarrow> sync_params \<Rightarrow> 'j state_status \<Rightarrow> 'j \<Rightarrow> ('w, 'j refresh_result) call" where
  "read_refresh P c p before response =
     (let J = pf_json P;
          failed = (\<lambda>r what. r\<lparr>rr_after := before,
             rr_error := make_error NodeRpcError ''Managed state refresh request failed'' what\<rparr>);
          r0 = (new_refresh J)\<lparr>rr_before := before\<rparr>
      in case flag_value J response ''success'' of
           Inl e \<Rightarrow> call_return (failed r0 (exc_what e))
         | Inr success \<Rightarrow>
             (let r1 = r0\<lparr>rr_success := success\<rparr>
              in case flag_value J response ''skipped'' of
                   Inl e \<Rightarrow> call_return (failed r1 (exc_what e))
                 | Inr skipped \<Rightarrow>
                     (let r2 = r1\<lparr>rr_skipped := skipped\<rparr>
                      in call_catch
                           (call_bind (refresh_after P c p response) (\<lambda>after.
                              if success then call_return (r2\<lparr>rr_after := after\<rparr>)
                              else
                                call_of
                                  (rbind (json_value J (read_string J) response ''error'' ''Managed state refresh failed'') (\<lambda>m.
                                   rbind (text_value J response ''detail'') (\<lambda>d.
                                     Inr (r2\<lparr>rr_after := after, rr_error := make_error LedgerBuildError m d\<rparr>))))))
                           (\<lambda>what. call_return (failed r2 what)))))"

definition managed_refresh ::
  "('w, 'j) platform \<Rightarrow> service_config \<Rightarrow> sync_params \<Rightarrow> refresh_options \<Rightarrow> ('w, 'j refresh_result) call" where
  "managed_refresh P c p opts =
     (let J = pf_json P
      in call_bind (managed_status P c (sy_source p) None) (\<lambda>before.
           let r0 = (new_refresh J)\<lparr>rr_before := before\<rparr>
           in if sv_base_url c = []
              then call_return (r0\<lparr>rr_after := before,
                rr_error := make_error UnsupportedOperation ''Managed state service URL is not configured'' []\<rparr>)
              else
                (\<lambda>w. case service_post P c ''/v1/state/refresh''
                      (mk_object J
                        [(''options'', mk_object J
                           [(''allow_source_fetch'', mk_bool J (ro_allow_fetch opts)), (''force'', mk_bool J (ro_force opts)),
                            (''max_lag_blocks'', mk_number J (uint (ro_max_lag_blocks opts))),
                            (''timeout_ms'', mk_number J (uint (ro_timeout_ms opts)))]),
                         (''source'', source_to_json J (sy_source p)), (''timeout_ms'', mk_number J (uint (sy_timeout_ms p))),
                         (''wallet_seeds'', text_list J (sy_wallet_seeds p))]) w of
                   (Inl e, w) \<Rightarrow>
                     (Inr (r0\<lparr>rr_after := before,
                        rr_error := make_error NodeRpcError ''Managed state refresh request failed'' (exc_what e)\<rparr>), w)
                 | (Inr response, w) \<Rightarrow> read_refresh P c p before response w)))"

definition managed_snapshot :: "'j json_ops \<Rightarrow> string \<Rightarrow> string \<Rightarrow> 'j snapshot_result" where
  "managed_snapshot J dir message = (new_snapshot J dir)\<lparr>sn_error := make_error UnsupportedOperation message []\<rparr>"

definition make_managed_state_backend :: "('w, 'j) platform \<Rightarrow> service_config \<Rightarrow> ('w, 'j) state_backend" where
  "make_managed_state_backend P c =
     \<lparr>sb_status = managed_status P c, sb_refresh = managed_refresh P c,
      sb_export = (\<lambda>_ dir. call_return
        (managed_snapshot (pf_json P) dir ''ManagedStateBackend does not export local snapshots'')),
      sb_import = (\<lambda>dir _. call_return
        (managed_snapshot (pf_json P) dir ''ManagedStateBackend does not import local snapshots''))\<rparr>"

section \<open>Snapshots\<close>

text \<open>A platform whose files are a map that keeps what is put, on which no operation fails.\<close>

definition files_kept :: "('w, 'j) platform \<Rightarrow> bool" where
  "files_kept P \<longleftrightarrow>
     (\<forall>w. sorted_map (pf_files P w)) \<and> (\<forall>w f. sorted_map f \<longrightarrow> pf_files P (pf_put_files P f w) = f)"

definition faultless :: "('w, 'j) platform \<Rightarrow> bool" where
  "faultless P \<longleftrightarrow> (\<forall>p w. pf_fault P p w = None)"

text \<open>What is put under a path.\<close>

definition put_file :: "('w, 'j) platform \<Rightarrow> string \<Rightarrow> string \<Rightarrow> 'w \<Rightarrow> 'w" where
  "put_file P path text w = pf_put_files P (map_put path text (pf_files P w)) w"

lemma map_of_put_file: "files_kept P \<Longrightarrow> map_of (pf_files P (put_file P path text w)) = (map_of (pf_files P w))(path \<mapsto> text)"
  by (simp add: files_kept_def put_file_def sorted_map_put map_of_map_put)

lemma copy_file:
  "faultless P \<Longrightarrow> map_of (pf_files P w) a = Some text \<Longrightarrow> copy_path P a b w = (Inr (), put_file P b text w)"
  by (simp add: copy_path_def faultless_def put_file_def)

lemma copy_nothing: "map_of (pf_files P w) a = None \<Longrightarrow> below a (pf_files P w) = [] \<Longrightarrow> copy_path P a b w = (Inr (), w)"
  by (simp add: copy_path_def)

lemma joined_path_inj: "a \<noteq> b \<Longrightarrow> \<not> is_absolute a \<Longrightarrow> \<not> is_absolute b \<Longrightarrow> path_join dir a \<noteq> path_join dir b"
  by (auto simp: path_join_def)

lemma entries_differ [simp]:
  "path_join dir ''fetch_cache'' \<noteq> path_join dir ''ledger_state_db''"
  "path_join dir ''fetch_cache'' \<noteq> path_join dir ''manifest.json''"
  "path_join dir ''ledger_state_db'' \<noteq> path_join dir ''manifest.json''"
  by (rule joined_path_inj; simp add: is_absolute_def)+

text \<open>What the export of two cache files leaves.\<close>

definition exported :: "('w, 'j) platform \<Rightarrow> string \<Rightarrow> string \<Rightarrow> string \<Rightarrow> string \<Rightarrow> 'w \<Rightarrow> 'w" where
  "exported P dir a b t w =
     put_file P (path_join dir ''manifest.json'') (t @ [CHR 0x0A])
       (put_file P (path_join dir ''ledger_state_db'') b (put_file P (path_join dir ''fetch_cache'') a w))"

lemma exported_files:
  assumes "files_kept P"
  shows "map_of (pf_files P (exported P dir a b t w)) (path_join dir ''manifest.json'') = Some (t @ [CHR 0x0A])"
    "map_of (pf_files P (exported P dir a b t w)) (path_join dir ''fetch_cache'') = Some a"
    "map_of (pf_files P (exported P dir a b t w)) (path_join dir ''ledger_state_db'') = Some b"
  using assms entries_differ [of dir] by (simp_all add: exported_def map_of_put_file)

definition snapshot_of :: "('w, 'j) platform \<Rightarrow> source_config \<Rightarrow> string \<Rightarrow> string \<Rightarrow> string \<Rightarrow> 'w \<Rightarrow> 'j" where
  "snapshot_of P src dir a b w =
     snapshot_manifest P src dir
       (put_file P (path_join dir ''ledger_state_db'') b (put_file P (path_join dir ''fetch_cache'') a w))"

lemma local_export_files:
  assumes "files_kept P" and "faultless P"
    and "map_of (pf_files P w) (strip_redb_prefix (sc_fetch_cache src)) = Some a"
    and "map_of (pf_files P w) (sc_ledger_state_db src) = Some b"
    and "sc_ledger_state_db src \<noteq> path_join dir ''fetch_cache''"
    and "pf_indented P (snapshot_of P src dir a b w) = Some t"
  shows "local_export P src dir w =
    (Inr ((new_snapshot (pf_json P) dir)\<lparr>sn_success := True, sn_manifest := snapshot_of P src dir a b w\<rparr>),
     exported P dir a b t w)"
proof -
  let ?w1 = "put_file P (path_join dir ''fetch_cache'') a w"
  let ?w2 = "put_file P (path_join dir ''ledger_state_db'') b ?w1"
  have "copy_path P (strip_redb_prefix (sc_fetch_cache src)) (path_join dir ''fetch_cache'') w = (Inr (), ?w1)"
    using assms by (simp add: copy_file)
  moreover have "copy_path P (sc_ledger_state_db src) (path_join dir ''ledger_state_db'') ?w1 = (Inr (), ?w2)"
    using assms by (simp add: copy_file map_of_put_file)
  moreover have "pf_fault P p v = None" for p v using assms(2) by (simp add: faultless_def)
  ultimately show ?thesis
    using assms(6)
    by (simp add: local_export_def call_catch_def call_bind_def write_unchecked_def exported_def put_file_def
        snapshot_of_def)
qed

text \<open>
  Two cache files that are exported into a snapshot and imported elsewhere are there with their contents, when
  no operation fails and the paths involved are apart.
\<close>
theorem snapshot_restores:
  assumes "files_kept P" and "faultless P"
    and "map_of (pf_files P w) (strip_redb_prefix (sc_fetch_cache src)) = Some a"
    and "map_of (pf_files P w) (sc_ledger_state_db src) = Some b"
    and "sc_ledger_state_db src \<noteq> path_join dir ''fetch_cache''"
    and "pf_indented P (snapshot_of P src dir a b w) = Some t"
    and "parse (pf_json P) (t @ [CHR 0x0A]) = Inr (snapshot_of P src dir a b w)"
    and "strip_redb_prefix (sc_fetch_cache dst) \<noteq> path_join dir ''ledger_state_db''"
    and "strip_redb_prefix (sc_fetch_cache dst) \<noteq> sc_ledger_state_db dst"
  shows "\<exists>r w1 r' w2. local_export P src dir w = (Inr r, w1) \<and> sn_success r \<and>
    local_import P dir dst w1 = (Inr r', w2) \<and> sn_success r' \<and> sn_manifest r' = sn_manifest r \<and>
    map_of (pf_files P w2) (strip_redb_prefix (sc_fetch_cache dst)) = Some a \<and>
    map_of (pf_files P w2) (sc_ledger_state_db dst) = Some b"
proof -
  let ?m = "snapshot_of P src dir a b w"
  note e = local_export_files [OF assms(1-6)]
  let ?w1 = "exported P dir a b t w"
  let ?w2 = "put_file P (strip_redb_prefix (sc_fetch_cache dst)) a ?w1"
  let ?w3 = "put_file P (sc_ledger_state_db dst) b ?w2"
  have c1: "copy_path P (path_join dir ''fetch_cache'') (strip_redb_prefix (sc_fetch_cache dst)) ?w1 = (Inr (), ?w2)"
    using assms(1,2) by (simp add: copy_file exported_files)
  have c2: "copy_path P (path_join dir ''ledger_state_db'') (sc_ledger_state_db dst) ?w2 = (Inr (), ?w3)"
    using assms(1,2,8) by (simp add: copy_file exported_files map_of_put_file)
  have "local_import P dir dst ?w1 =
      (Inr ((new_snapshot (pf_json P) dir)\<lparr>sn_success := True, sn_manifest := ?m\<rparr>), ?w3)"
    using assms(1) c1 c2 assms(7)
    by (simp add: local_import_def exported_files parse_text_def call_catch_def call_bind_def call_return_def)
  moreover have "map_of (pf_files P ?w3) (strip_redb_prefix (sc_fetch_cache dst)) = Some a"
    "map_of (pf_files P ?w3) (sc_ledger_state_db dst) = Some b"
    using assms(1,9) by (simp_all add: map_of_put_file)
  ultimately show ?thesis using e by simp
qed

text \<open>Importing from where no snapshot is succeeds as well.\<close>

theorem import_of_nothing_succeeds:
  assumes "map_of (pf_files P w) (path_join dir ''manifest.json'') = None"
    and "map_of (pf_files P w) (path_join dir ''fetch_cache'') = None" "below (path_join dir ''fetch_cache'') (pf_files P w) = []"
    and "map_of (pf_files P w) (path_join dir ''ledger_state_db'') = None"
      "below (path_join dir ''ledger_state_db'') (pf_files P w) = []"
  shows "local_import P dir dst w = (Inr ((new_snapshot (pf_json P) dir)\<lparr>sn_success := True\<rparr>), w)"
  using assms
  by (simp add: local_import_def copy_nothing call_catch_def call_bind_def call_return_def new_snapshot_def)

text \<open>A refresh by the service that succeeds, and whose status cannot be read, is a success with an error.\<close>

theorem refresh_succeeds_with_error:
  assumes "flag_value (pf_json P) response ''success'' = Inr True" "flag_value (pf_json P) response ''skipped'' = Inr b"
    and "refresh_after P c p response w = (Inl e, w')" "e \<noteq> Undefined_behaviour"
  shows "\<exists>r. read_refresh P c p before response w = (Inr r, w') \<and> rr_success r \<and> has_error (rr_error r)"
  using assms
  by (cases e)
    (auto simp: read_refresh_def Let_def call_catch_def call_bind_def call_return_def has_error_def make_error_def)

section \<open>A sample\<close>

text \<open>Two caches of a default source, and a platform that keeps files in a list.\<close>

definition sample_files :: "(string \<times> string) list" where
  "sample_files = [(''midnight_cache/fetch_cache.db'', ''fetched''), (''midnight_cache/ledger_cache_db'', ''state'')]"

definition file_platform :: "json json_ops \<Rightarrow> ((string \<times> string) list, json) platform" where
  "file_platform J =
     \<lparr>pf_json = J, pf_indented = (\<lambda>_. Some ''{}''), pf_http = (\<lambda>ep path hs req w. (No_answer ''Connection'', w)),
      pf_files = (\<lambda>w. if sorted_map w then w else []), pf_put_files = (\<lambda>f w. f), pf_fault = (\<lambda>p w. None),
      pf_env = (\<lambda>_. None), pf_stamp = (\<lambda>w. (''20260101T000000000Z'', w))\<rparr>"

lemma file_platform_kept: "files_kept (file_platform J)" "faultless (file_platform J)"
  by (simp_all add: files_kept_def faultless_def file_platform_def)

definition sample_snapshot :: json where
  "sample_snapshot = snapshot_of (file_platform json_std) default_source ''snapshot'' ''fetched'' ''state'' sample_files"

definition snapshot_platform :: "((string \<times> string) list, json) platform" where
  "snapshot_platform = file_platform (json_std\<lparr>parse := (\<lambda>_. Inr sample_snapshot)\<rparr>)"

lemma snapshot_manifest_parse:
  "snapshot_manifest (file_platform (J\<lparr>parse := f\<rparr>)) src dir w = snapshot_manifest (file_platform J) src dir w"
  by (simp add: snapshot_manifest_def file_platform_def source_to_json_def text_list_def word_or_null_def Let_def
      split: option.split)

lemma put_file_parse: "put_file (file_platform (J\<lparr>parse := f\<rparr>)) = put_file (file_platform J)"
  by (simp add: put_file_def file_platform_def fun_eq_iff)

lemma snapshot_platform_same:
  "snapshot_of snapshot_platform default_source ''snapshot'' ''fetched'' ''state'' sample_files = sample_snapshot"
  by (simp only: sample_snapshot_def snapshot_platform_def snapshot_of_def snapshot_manifest_parse put_file_parse)

definition other_source :: source_config where
  "other_source = default_source\<lparr>sc_fetch_cache := ''redb:other/fetch.db'', sc_ledger_state_db := ''other/state''\<rparr>"

theorem snapshot_restores_witness:
  "\<exists>r w1 r' w2. local_export snapshot_platform default_source ''snapshot'' sample_files = (Inr r, w1) \<and> sn_success r \<and>
    local_import snapshot_platform ''snapshot'' other_source w1 = (Inr r', w2) \<and> sn_success r' \<and>
    sn_manifest r' = sn_manifest r \<and>
    map_of (pf_files snapshot_platform w2) ''other/fetch.db'' = Some ''fetched'' \<and>
    map_of (pf_files snapshot_platform w2) ''other/state'' = Some ''state''"
proof -
  have k: "files_kept snapshot_platform" "faultless snapshot_platform"
    by (simp_all add: snapshot_platform_def file_platform_kept)
  have s: "sorted_map sample_files" by (simp add: sample_files_def sorted_map_def)
  have p: "strip_redb_prefix (sc_fetch_cache default_source) = ''midnight_cache/fetch_cache.db''"
    "strip_redb_prefix (sc_fetch_cache other_source) = ''other/fetch.db''"
    "sc_ledger_state_db other_source = ''other/state''"
    "sc_ledger_state_db default_source = ''midnight_cache/ledger_cache_db''"
    "path_join ''snapshot'' ''fetch_cache'' = ''snapshot/fetch_cache''"
    "path_join ''snapshot'' ''ledger_state_db'' = ''snapshot/ledger_state_db''"
    by (simp_all add: other_source_def default_source_def strip_redb_prefix_def starts_with_def path_join_def is_absolute_def)
  have f: "pf_files snapshot_platform sample_files = sample_files" "pf_indented snapshot_platform j = Some ''{}''"
    "parse (pf_json snapshot_platform) t = Inr sample_snapshot" for j t
    using s by (simp_all add: snapshot_platform_def file_platform_def)
  show ?thesis
    using snapshot_restores [OF k, of sample_files default_source "''fetched''" "''state''" "''snapshot''" "''{}''" other_source]
    by (simp add: p f snapshot_platform_same) (simp add: sample_files_def)
qed

end
