(* ===== verification/ClientChecks.thy ===== *)
theory ClientChecks
  imports StateBackend Validation ProofServer
begin

text \<open>
  The configuration of the production client and the checks of what it is asked to build
  (include/midnight/production/midnight_client.hpp, the first half of src/production/midnight_client.cpp). Results:
  a check passes exactly for the parameters that meet its conditions, and what an automatic source becomes.
\<close>

section \<open>Configuration\<close>

record client_config =
  cc_network :: string
  cc_node_url :: string
  cc_indexer_url :: string
  cc_proof_url :: string
  cc_ffi_library :: string
  cc_node_timeout :: u32
  cc_proof_timeout :: u32
  cc_state_mode :: backend_mode
  cc_service :: service_config

definition env_value :: "(string \<Rightarrow> string option) \<Rightarrow> string \<Rightarrow> string" where
  "env_value env name = (case env name of None \<Rightarrow> [] | Some v \<Rightarrow> v)"

text \<open>\<^verbatim>\<open>std::stoul\<close>, whose \<^verbatim>\<open>unsigned long\<close> has 64 bits.\<close>

definition stoul :: "string \<Rightarrow> u64 result" where
  "stoul s =
     (case stoull s of
        Inr v \<Rightarrow> Inr v
      | Inl (Invalid_argument _) \<Rightarrow> Inl (Invalid_argument ''stoul'')
      | Inl e \<Rightarrow> Inl (Out_of_range ''stoul''))"

definition env_u32 :: "(string \<Rightarrow> string option) \<Rightarrow> string \<Rightarrow> u32 \<Rightarrow> u32" where
  "env_u32 env name fallback =
     (if env_value env name = [] then fallback
      else (case stoul (env_value env name) of Inr v \<Rightarrow> ucast v | Inl _ \<Rightarrow> fallback))"

definition default_client_config :: client_config where
  "default_client_config =
     \<lparr>cc_network = ''preview'', cc_node_url = [], cc_indexer_url = [], cc_proof_url = [], cc_ffi_library = [],
      cc_node_timeout = 10000, cc_proof_timeout = 120000, cc_state_mode = Local_mode,
      cc_service = \<lparr>sv_base_url = [], sv_api_key = [], sv_timeout_ms = 10000\<rparr>\<rparr>"

definition config_for_network :: "(string \<Rightarrow> string option) \<Rightarrow> midnight_network \<Rightarrow> client_config" where
  "config_for_network env network =
     default_client_config
       \<lparr>cc_network := network_name network, cc_node_url := get_rpc_endpoint network,
        cc_indexer_url := get_graphql_endpoint network, cc_proof_url := ''http://127.0.0.1:6300'',
        cc_ffi_library := env_value env ''MIDNIGHT_LEDGER_FFI_LIBRARY''\<rparr>"

text \<open>A variable that is set and not empty.\<close>

definition env_or :: "(string \<Rightarrow> string option) \<Rightarrow> string \<Rightarrow> string \<Rightarrow> string" where
  "env_or env name old = (if env_value env name = [] then old else env_value env name)"

definition config_from_environment :: "(string \<Rightarrow> string option) \<Rightarrow> client_config" where
  "config_from_environment env =
     (let network = env_value env ''MIDNIGHT_NETWORK'';
          c = config_for_network env (config_network_of (if network = [] then ''preview'' else network));
          sv = cc_service c
      in c\<lparr>cc_network := (if network = [] then cc_network c else network_name (config_network_of network)),
           cc_node_url := env_or env ''MIDNIGHT_NODE_URL'' (cc_node_url c),
           cc_indexer_url := env_or env ''MIDNIGHT_INDEXER_URL'' (cc_indexer_url c),
           cc_proof_url := env_or env ''MIDNIGHT_PROOF_SERVER_URL'' (cc_proof_url c),
           cc_ffi_library := env_or env ''MIDNIGHT_LEDGER_FFI_LIBRARY'' (cc_ffi_library c),
           cc_state_mode := (if env_value env ''MIDNIGHT_STATE_MODE'' = [] then cc_state_mode c
             else state_backend_mode_from_string (env_value env ''MIDNIGHT_STATE_MODE'')),
           cc_service :=
             \<lparr>sv_base_url = env_or env ''MIDNIGHT_STATE_SERVICE_URL'' (sv_base_url sv),
              sv_api_key = env_or env ''MIDNIGHT_STATE_SERVICE_API_KEY'' (sv_api_key sv),
              sv_timeout_ms = env_u32 env ''MIDNIGHT_STATE_SERVICE_TIMEOUT_MS'' (sv_timeout_ms sv)\<rparr>,
           cc_node_timeout := env_u32 env ''MIDNIGHT_NODE_TIMEOUT_MS'' (cc_node_timeout c),
           cc_proof_timeout := env_u32 env ''MIDNIGHT_PROOF_TIMEOUT_MS'' (cc_proof_timeout c)\<rparr>)"

definition proof_config_from_url :: "string \<Rightarrow> u32 \<Rightarrow> proof_config result" where
  "proof_config_from_url url timeout =
     (let (https, rest, p) =
            (if starts_with url ''https://'' then (True, drop 8 url, 443)
             else if starts_with url ''http://'' then (False, drop 7 url, 80)
             else (False, url, 6300));
          rest = (case find_char (CHR ''/'') rest of None \<Rightarrow> rest | Some i \<Rightarrow> take i rest)
      in rbind
           (case rfind_char (CHR '':'') rest of
              Some i \<Rightarrow> rbind (stoul (drop (i + 1) rest)) (\<lambda>v. Inr (take i rest, ucast v))
            | None \<Rightarrow> Inr (rest, if p = 80 \<and> \<not> https then 6300 else p)) (\<lambda>(host, p).
         if host = [] then Inl (Runtime_error ''Invalid proof server URL'')
         else Inr \<lparr>pc_host = host, pc_port = p, pc_timeout_ms = timeout, pc_use_https = https\<rparr>))"

section \<open>Results\<close>

record submit_result =
  sr_success :: bool
  sr_hash :: string
  sr_error :: string
  sr_info :: sdk_error

definition new_submit_result :: submit_result where
  "new_submit_result = \<lparr>sr_success = False, sr_hash = [], sr_error = [], sr_info = no_error\<rparr>"

record build_submit_result =
  bs_success :: bool
  bs_build :: build_result
  bs_submit :: submit_result
  bs_error :: string
  bs_info :: sdk_error

definition new_build_submit :: build_submit_result where
  "new_build_submit =
     \<lparr>bs_success = False, bs_build = new_build_result, bs_submit = new_submit_result, bs_error = [], bs_info = no_error\<rparr>"

definition validation_failure :: "sdk_error_code \<Rightarrow> string \<Rightarrow> string \<Rightarrow> build_submit_result" where
  "validation_failure code message detail =
     new_build_submit\<lparr>bs_error := message, bs_info := make_error code message detail,
       bs_build := new_build_result\<lparr>br_error := message\<rparr>\<rparr>"

definition build_validation_failure :: "build_submit_result \<Rightarrow> build_result" where
  "build_validation_failure v =
     new_build_result\<lparr>br_error :=
       (if se_detail (bs_info v) = [] then se_message (bs_info v)
        else se_message (bs_info v) @ '': '' @ se_detail (bs_info v))\<rparr>"

text \<open>The checks in turn: the first failure counts; no failure is the result that was made anew.\<close>

definition refuse_if :: "bool \<Rightarrow> sdk_error_code \<Rightarrow> string \<Rightarrow> string \<Rightarrow> build_submit_result" where
  "refuse_if b code message detail = (if b then validation_failure code message detail else new_build_submit)"

fun first_failure :: "build_submit_result list \<Rightarrow> build_submit_result" where
  "first_failure [] = new_build_submit"
| "first_failure (v # vs) = (if has_error (bs_info v) then v else first_failure vs)"

definition passes :: "build_submit_result \<Rightarrow> bool" where
  "passes v \<longleftrightarrow> \<not> has_error (bs_info v)"

section \<open>Sources\<close>

definition is_bounded_source :: "source_config \<Rightarrow> bool" where
  "is_bounded_source s \<longleftrightarrow> sc_from_block s \<noteq> None \<or> sc_to_block s \<noteq> None"

definition cache_path_has_data :: "(string \<times> string) list \<Rightarrow> string \<Rightarrow> bool" where
  "cache_path_has_data files path =
     (if path = [] \<or> str_find path ''://'' 0 \<noteq> None then True
      else
        (case map_of files path of
           Some text \<Rightarrow> text \<noteq> []
         | None \<Rightarrow> list_ex (\<lambda>f. snd f \<noteq> []) (below path files)))"

definition normalize_source_for_build :: "source_config \<Rightarrow> source_config" where
  "normalize_source_for_build s =
     (case sc_mode s of
        LocalCache \<Rightarrow> s\<lparr>sc_fetch_only_cached := True\<rparr>
      | ColdSync \<Rightarrow> s\<lparr>sc_fetch_only_cached := False\<rparr>
      | Bounded \<Rightarrow> s\<lparr>sc_fetch_only_cached := False\<rparr>
      | Auto \<Rightarrow>
          if is_bounded_source s then s\<lparr>sc_mode := Bounded\<rparr>
          else if sc_src_files s = [] then s\<lparr>sc_mode := LocalCache, sc_fetch_only_cached := True\<rparr>
          else s)"

definition normalize_source_for_sync :: "source_config \<Rightarrow> source_config" where
  "normalize_source_for_sync s =
     (if sc_mode s = LocalCache then s\<lparr>sc_fetch_only_cached := True\<rparr>
      else if sc_mode s = ColdSync then s\<lparr>sc_fetch_only_cached := False\<rparr> else s)"

definition half_bounded :: "source_config \<Rightarrow> bool" where
  "half_bounded s \<longleftrightarrow> (sc_from_block s = None) \<noteq> (sc_to_block s = None)"

definition bounds_swapped :: "source_config \<Rightarrow> bool" where
  "bounds_swapped s =
     (case (sc_from_block s, sc_to_block s) of (Some a, Some b) \<Rightarrow> b < a | _ \<Rightarrow> False)"

fun validate_hashes :: "string list \<Rightarrow> build_submit_result" where
  "validate_hashes [] = new_build_submit"
| "validate_hashes (h # hs) =
     (if \<not> is_tx_hash h
      then validation_failure InvalidHash ''Ledger source transaction_hashes must contain 32-byte transaction hashes'' h
      else validate_hashes hs)"

definition validate_source :: "(string \<times> string) list \<Rightarrow> source_config \<Rightarrow> build_submit_result" where
  "validate_source files s =
     first_failure
       [refuse_if (\<not> has_source_input (sc_src_url s) (sc_src_files s)) LedgerBuildError
          ''Ledger build source requires src_url or src_files'' [],
        refuse_if (sc_mode s = Bounded \<and> (sc_from_block s = None \<or> sc_to_block s = None)) LedgerBuildError
          ''Bounded ledger source mode requires from_block and to_block'' [],
        refuse_if (half_bounded s) LedgerBuildError
          ''Ledger bounded source requires both from_block and to_block'' [],
        refuse_if (bounds_swapped s) LedgerBuildError ''Ledger bounded source from_block must be <= to_block'' [],
        validate_hashes (sc_transaction_hashes s),
        refuse_if (sc_require_cache s \<and> sc_fetch_only_cached s \<and> sc_mode s = LocalCache \<and>
            \<not> cache_path_has_data files (sc_ledger_state_db s))
          LedgerBuildError ''Local ledger state cache is not synced''
          (''Run sync_ledger_state first, import a cache snapshot, or set source_mode=ColdSync to opt into a '' @
           ''full RPC source fetch'')]"

section \<open>Parameters\<close>

definition validate_seed :: "string \<Rightarrow> string \<Rightarrow> build_submit_result" where
  "validate_seed seed field =
     refuse_if (\<not> is_wallet_seed_or_mnemonic seed) InvalidAddress
       (field @ '' must be a Midnight WalletSeed hex value or BIP39 mnemonic'') []"

definition validate_optional_seed :: "string option \<Rightarrow> string \<Rightarrow> build_submit_result" where
  "validate_optional_seed seed field =
     (case seed of None \<Rightarrow> new_build_submit | Some s \<Rightarrow> validate_seed s field)"

definition validate_rng_seed :: "string option \<Rightarrow> build_submit_result" where
  "validate_rng_seed seed =
     (case seed of
        None \<Rightarrow> new_build_submit
      | Some s \<Rightarrow> refuse_if (\<not> is_fixed_hex s 32) InvalidHash ''rng_seed must be 32-byte hex'' s)"

definition all_unshielded_addresses :: "string list \<Rightarrow> bool" where
  "all_unshielded_addresses = list_all is_unshielded_night_address"

definition validate_transfer_params :: "(string \<times> string) list \<Rightarrow> transfer_params \<Rightarrow> build_submit_result" where
  "validate_transfer_params files p =
     first_failure
       [validate_source files (tn_source p),
        validate_seed (tn_source_seed p) ''Transfer source_seed'',
        validate_optional_seed (tn_funding_seed p) ''Transfer funding_seed'',
        refuse_if (tn_destinations p = [] \<or> \<not> all_unshielded_addresses (tn_destinations p)) InvalidAddress
          ''NIGHT transfer destinations must be mn_addr_* unshielded addresses'' [],
        refuse_if (\<not> is_u128_decimal (tn_amount p)) InvalidAmount
          ''NIGHT transfer amount must be a u128 decimal string'' (tn_amount p),
        refuse_if (\<not> is_token_type_hex (tn_token_type p)) InvalidTokenType
          ''Token type must be a 32-byte hex value'' (tn_token_type p),
        validate_rng_seed (tn_rng_seed p)]"

definition validate_register_dust_params :: "(string \<times> string) list \<Rightarrow> register_params \<Rightarrow> build_submit_result" where
  "validate_register_dust_params files p =
     first_failure
       [validate_source files (rd_source p),
        validate_seed (rd_wallet_seed p) ''DUST registration wallet_seed'',
        validate_optional_seed (rd_funding_seed p) ''DUST registration funding_seed'',
        (case rd_destination p of
           None \<Rightarrow> new_build_submit
         | Some a \<Rightarrow> refuse_if (\<not> is_dust_address a) InvalidAddress
             ''DUST registration destination must be an mn_dust_* address'' a),
        validate_rng_seed (rd_rng_seed p)]"

definition validate_deregister_dust_params :: "(string \<times> string) list \<Rightarrow> deregister_params \<Rightarrow> build_submit_result" where
  "validate_deregister_dust_params files p =
     first_failure
       [validate_source files (dd_source p),
        validate_seed (dd_wallet_seed p) ''DUST deregistration wallet_seed'',
        validate_seed (dd_funding_seed p) ''DUST deregistration funding_seed'',
        validate_rng_seed (dd_rng_seed p)]"

definition validate_deploy_params :: "(string \<times> string) list \<Rightarrow> deploy_params \<Rightarrow> build_submit_result" where
  "validate_deploy_params files p =
     first_failure
       [validate_source files (dp_source p),
        validate_seed (dp_funding_seed p) ''Contract deploy funding_seed'',
        first_failure (map (\<lambda>s. validate_seed s ''Contract deploy authority_seed'') (dp_authority_seeds p)),
        refuse_if (dp_authority_seeds p = []) InvalidAddress
          ''Contract deploy requires at least one authority seed'' [],
        refuse_if (case dp_threshold p of None \<Rightarrow> False | Some t \<Rightarrow> length (dp_authority_seeds p) < unat t) InvalidAmount
          ''Contract authority threshold cannot exceed authority seed count'' [],
        validate_rng_seed (dp_rng_seed p)]"

definition validate_call_params :: "(string \<times> string) list \<Rightarrow> contract_call_params \<Rightarrow> build_submit_result" where
  "validate_call_params files p =
     first_failure
       [validate_source files (cl_source p),
        validate_seed (cl_funding_seed p) ''Contract call funding_seed'',
        refuse_if (\<not> is_contract_address_hex (cl_contract_address p)) InvalidContractAddress
          ''Contract call requires a 32-byte contract hex address'' (cl_contract_address p),
        refuse_if (\<not> is_u128_decimal (cl_fee p)) InvalidAmount
          ''Contract call fee must be a u128 decimal string'' (cl_fee p),
        validate_rng_seed (cl_rng_seed p)]"

definition validate_custom_contract_params :: "(string \<times> string) list \<Rightarrow> custom_params \<Rightarrow> build_submit_result" where
  "validate_custom_contract_params files p =
     first_failure
       [validate_source files (cu_source p),
        validate_seed (cu_funding_seed p) ''Custom contract funding_seed'',
        refuse_if (cu_intent_files p = []) LedgerBuildError ''Custom contract transaction requires intent files'' [],
        validate_rng_seed (cu_rng_seed p)]"

section \<open>What passes\<close>

lemma passes_new [simp]: "passes new_build_submit"
  by (simp add: passes_def new_build_submit_def no_error_def make_error_def has_error_def)

lemma passes_failure [simp]: "code \<noteq> NoError \<Longrightarrow> \<not> passes (validation_failure code m d)"
  by (simp add: passes_def validation_failure_def new_build_submit_def make_error_def has_error_def)

lemma passes_refuse [simp]: "code \<noteq> NoError \<Longrightarrow> passes (refuse_if b code m d) \<longleftrightarrow> \<not> b"
  by (simp add: refuse_if_def)

lemma passes_first [simp]: "passes (first_failure vs) \<longleftrightarrow> list_all passes vs"
  by (induction vs) (auto simp: passes_def new_build_submit_def no_error_def make_error_def has_error_def)

text \<open>No check makes a success.\<close>

lemma checks_fail [simp]:
  "\<not> bs_success new_build_submit" "\<not> bs_success (validation_failure code m d)" "\<not> bs_success (refuse_if b code m d)"
  by (simp_all add: new_build_submit_def validation_failure_def refuse_if_def)

lemma hashes_fail [simp]: "\<not> bs_success (validate_hashes hs)"
  by (induction hs) simp_all

lemma seeds_fail [simp]:
  "\<not> bs_success (validate_seed s field)" "\<not> bs_success (validate_optional_seed v field)" "\<not> bs_success (validate_rng_seed v)"
  by (simp_all add: validate_seed_def validate_optional_seed_def validate_rng_seed_def split: option.split)

lemma first_fails: "list_all (\<lambda>v. \<not> bs_success v) vs \<Longrightarrow> \<not> bs_success (first_failure vs)"
  by (induction vs) simp_all

lemma source_fails [simp]: "\<not> bs_success (validate_source files s)"
  unfolding validate_source_def by (rule first_fails) (simp only: list.pred_inject checks_fail hashes_fail simp_thms)

lemma transfer_fails [simp]: "\<not> bs_success (validate_transfer_params files p)"
  unfolding validate_transfer_params_def
  by (rule first_fails) (simp only: list.pred_inject checks_fail source_fails seeds_fail simp_thms)

lemma passes_hashes [simp]: "passes (validate_hashes hs) \<longleftrightarrow> list_all is_tx_hash hs"
  by (induction hs) simp_all

lemma passes_seeds [simp]:
  "passes (validate_seed s field) \<longleftrightarrow> is_wallet_seed_or_mnemonic s"
  "passes (validate_optional_seed v field) \<longleftrightarrow> pred_option is_wallet_seed_or_mnemonic v"
  "passes (validate_rng_seed v) \<longleftrightarrow> pred_option (\<lambda>s. is_fixed_hex s 32) v"
  by (simp_all add: validate_seed_def validate_optional_seed_def validate_rng_seed_def split: option.split)

text \<open>A source that can be read from: where, between which blocks, and that its cache is there.\<close>

definition usable_source :: "(string \<times> string) list \<Rightarrow> source_config \<Rightarrow> bool" where
  "usable_source files s \<longleftrightarrow>
     (sc_src_url s \<noteq> [] \<or> sc_src_files s \<noteq> []) \<and>
     (case (sc_from_block s, sc_to_block s) of
        (None, None) \<Rightarrow> sc_mode s \<noteq> Bounded
      | (Some a, Some b) \<Rightarrow> a \<le> b
      | _ \<Rightarrow> False) \<and>
     list_all is_tx_hash (sc_transaction_hashes s) \<and>
     (sc_require_cache s \<and> sc_fetch_only_cached s \<and> sc_mode s = LocalCache \<longrightarrow>
        cache_path_has_data files (sc_ledger_state_db s))"

lemmas passes_all =
  passes_first list.pred_inject passes_new passes_refuse passes_hashes passes_seeds sdk_error_code.distinct simp_thms

lemma source_passes [simp]: "passes (validate_source files s) \<longleftrightarrow> usable_source files s"
proof -
  have "passes (validate_source files s) \<longleftrightarrow>
      has_source_input (sc_src_url s) (sc_src_files s) \<and>
      \<not> (sc_mode s = Bounded \<and> (sc_from_block s = None \<or> sc_to_block s = None)) \<and> \<not> half_bounded s \<and>
      \<not> bounds_swapped s \<and> list_all is_tx_hash (sc_transaction_hashes s) \<and>
      \<not> (sc_require_cache s \<and> sc_fetch_only_cached s \<and> sc_mode s = LocalCache \<and>
        \<not> cache_path_has_data files (sc_ledger_state_db s))"
    by (simp only: validate_source_def passes_all)
  then show ?thesis
    by (cases "sc_from_block s"; cases "sc_to_block s")
      (auto simp: usable_source_def has_source_input_def half_bounded_def bounds_swapped_def)
qed

text \<open>
  The check of a transfer passes exactly when the source is usable, the seeds are seeds or mnemonics, there is a
  destination and all are unshielded addresses, the amount is a number below \<open>2^128\<close>, and the token type and the random
  seed are 32 bytes of hex.
\<close>
theorem transfer_check_exact:
  "passes (validate_transfer_params files p) \<longleftrightarrow>
     usable_source files (tn_source p) \<and> is_wallet_seed_or_mnemonic (tn_source_seed p) \<and>
     pred_option is_wallet_seed_or_mnemonic (tn_funding_seed p) \<and>
     tn_destinations p \<noteq> [] \<and> list_all is_unshielded_night_address (tn_destinations p) \<and>
     is_u128_decimal (tn_amount p) \<and> is_fixed_hex (tn_token_type p) 32 \<and>
     pred_option (\<lambda>s. is_fixed_hex s 32) (tn_rng_seed p)"
proof -
  have "passes (validate_transfer_params files p) \<longleftrightarrow>
      usable_source files (tn_source p) \<and> is_wallet_seed_or_mnemonic (tn_source_seed p) \<and>
      pred_option is_wallet_seed_or_mnemonic (tn_funding_seed p) \<and>
      \<not> (tn_destinations p = [] \<or> \<not> all_unshielded_addresses (tn_destinations p)) \<and>
      \<not> \<not> is_u128_decimal (tn_amount p) \<and> \<not> \<not> is_token_type_hex (tn_token_type p) \<and>
      pred_option (\<lambda>s. is_fixed_hex s 32) (tn_rng_seed p)"
    by (simp only: validate_transfer_params_def passes_all source_passes)
  then show ?thesis by (auto simp: all_unshielded_addresses_def is_token_type_hex_def)
qed

lemma register_check_exact:
  "passes (validate_register_dust_params files p) \<longleftrightarrow>
     usable_source files (rd_source p) \<and> is_wallet_seed_or_mnemonic (rd_wallet_seed p) \<and>
     pred_option is_wallet_seed_or_mnemonic (rd_funding_seed p) \<and> pred_option is_dust_address (rd_destination p) \<and>
     pred_option (\<lambda>s. is_fixed_hex s 32) (rd_rng_seed p)"
  by (cases "rd_destination p")
    (simp_all only: validate_register_dust_params_def passes_all source_passes option.case option.pred_inject)

lemma deploy_check_exact:
  "passes (validate_deploy_params files p) \<longleftrightarrow>
     usable_source files (dp_source p) \<and> is_wallet_seed_or_mnemonic (dp_funding_seed p) \<and>
     list_all is_wallet_seed_or_mnemonic (dp_authority_seeds p) \<and> dp_authority_seeds p \<noteq> [] \<and>
     pred_option (\<lambda>t. unat t \<le> length (dp_authority_seeds p)) (dp_threshold p) \<and>
     pred_option (\<lambda>s. is_fixed_hex s 32) (dp_rng_seed p)"
  by (cases "dp_threshold p")
    (simp_all only: validate_deploy_params_def passes_all source_passes option.case option.pred_inject list.pred_map
      comp_def not_less)

text \<open>A transfer from an automatic source that has only a URL reads the local cache, and never fetches.\<close>

lemma automatic_source_is_local:
  "sc_mode s = Auto \<Longrightarrow> \<not> is_bounded_source s \<Longrightarrow> sc_src_files s = [] \<Longrightarrow>
     normalize_source_for_build s = s\<lparr>sc_mode := LocalCache, sc_fetch_only_cached := True\<rparr>"
  by (simp add: normalize_source_for_build_def)

text \<open>One that has bounds is a bounded one, but keeps a flag that an explicitly bounded one loses.\<close>

lemma automatic_bounded_keeps_flag:
  assumes "sc_mode s = Auto" and "is_bounded_source s" and "sc_fetch_only_cached s"
  shows "sc_fetch_only_cached (normalize_source_for_build s)"
    and "\<not> sc_fetch_only_cached (normalize_source_for_build (normalize_source_for_build s))"
  using assms by (simp_all add: normalize_source_for_build_def)

end
