(* ===== verification/Artifacts.thy ===== *)
theory Artifacts
  imports StateBackend
begin

text \<open>
  The artifacts of transactions (include/midnight/production/artifact_manager.hpp,
  src/production/artifact_manager.cpp): what is kept of a build or of an intent, and where. Results: a path component
  never holds a slash; the transaction that is kept is the one that was built, also when keeping the rest of it
  fails; but a component of dots is kept, so that artifacts may land outside their root.
\<close>

section \<open>Paths\<close>

definition path_char :: "char \<Rightarrow> bool" where
  "path_char c \<longleftrightarrow> isalnum c \<or> c = CHR ''-'' \<or> c = CHR ''_'' \<or> c = CHR ''.''"

definition sanitize_path_component :: "string \<Rightarrow> string" where
  "sanitize_path_component s =
     (let s = map (\<lambda>c. if path_char c then c else CHR ''_'') s in if s = [] then ''unknown'' else s)"

record artifact_config =
  ac_root :: string
  ac_network :: string
  ac_wallet_id :: string
  ac_enabled :: bool
  ac_cleanup_days :: u32

definition default_artifacts :: artifact_config where
  "default_artifacts =
     \<lparr>ac_root = ''midnight-artifacts'', ac_network = ''preview'', ac_wallet_id = ''default'', ac_enabled = True,
      ac_cleanup_days = 0\<rparr>"

definition operation_dir :: "artifact_config \<Rightarrow> string \<Rightarrow> string \<Rightarrow> string" where
  "operation_dir c operation ident =
     foldl path_join (ac_root c)
       (map sanitize_path_component [ac_network c, ac_wallet_id c, operation, ident])"

text \<open>An empty identifier is replaced by the time; making the directories may throw.\<close>

definition create_operation_dir :: "('w, 'j) platform \<Rightarrow> artifact_config \<Rightarrow> string \<Rightarrow> string \<Rightarrow> ('w, string) call" where
  "create_operation_dir P c operation ident w =
     (let (ident, w) = (if ident = [] then pf_stamp P w else (ident, w));
          dir = operation_dir c operation ident
      in case pf_fault P dir w of Some e \<Rightarrow> (Inl (Runtime_error e), w) | None \<Rightarrow> (Inr dir, w))"

section \<open>Files\<close>

record artifact_result =
  ar_success :: bool
  ar_directory :: string
  ar_files :: "string list"
  ar_error :: sdk_error

definition new_artifacts :: artifact_result where
  "new_artifacts = \<lparr>ar_success = False, ar_directory = [], ar_files = [], ar_error = no_error\<rparr>"

text \<open>Only opening a file is checked; the state is the result so far and the world.\<close>

type_synonym 'w saving = "artifact_result \<times> 'w \<Rightarrow> (artifact_result \<times> 'w) result"

definition write_artifact :: "('w, 'j) platform \<Rightarrow> string \<Rightarrow> string \<Rightarrow> 'w saving" where
  "write_artifact P name text s =
     (case s of (r, w) \<Rightarrow>
        (let path = path_join (ar_directory r) name
         in case pf_fault P path w of
              Some e \<Rightarrow> Inl (Runtime_error (''Could not open artifact file: '' @ path))
            | None \<Rightarrow>
                Inr (r\<lparr>ar_files := ar_files r @ [path]\<rparr>, pf_put_files P (map_put path text (pf_files P w)) w)))"

definition write_if_any :: "('w, 'j) platform \<Rightarrow> string \<Rightarrow> string \<Rightarrow> 'w saving" where
  "write_if_any P name text s = (if text = [] then Inr s else write_artifact P name text s)"

text \<open>A regular file is copied, anything else that exists cannot be.\<close>

definition copy_if_exists :: "('w, 'j) platform \<Rightarrow> string \<Rightarrow> 'w saving" where
  "copy_if_exists P from_path s =
     (case s of (r, w) \<Rightarrow>
        (if from_path = [] then Inr s
         else
           (case map_of (pf_files P w) from_path of
              None \<Rightarrow>
                (if below from_path (pf_files P w) = [] then Inr s
                 else Inl (Runtime_error ''filesystem error: cannot copy file: Invalid argument''))
            | Some text \<Rightarrow>
                (let copied = path_join (ar_directory r) (path_filename from_path)
                 in if copied = from_path then Inl (Runtime_error ''filesystem error: cannot copy file: File exists'')
                    else case pf_fault P copied w of
                      Some e \<Rightarrow> Inl (Runtime_error (''filesystem error: cannot copy file: '' @ e))
                    | None \<Rightarrow>
                        Inr (r\<lparr>ar_files := ar_files r @ [copied]\<rparr>,
                          pf_put_files P (map_put copied text (pf_files P w)) w)))))"

definition write_metadata :: "('w, 'j) platform \<Rightarrow> 'j \<Rightarrow> 'w saving" where
  "write_metadata P metadata s =
     (case pf_indented P metadata of None \<Rightarrow> Inl type_error | Some text \<Rightarrow> write_artifact P ''metadata.json'' text s)"

text \<open>The \<^verbatim>\<open>try\<close> around the steps: what was written before an exception stays.\<close>

definition save_steps ::
  "('w, 'j) platform \<Rightarrow> artifact_config \<Rightarrow> string \<Rightarrow> string \<Rightarrow> string \<Rightarrow> 'w saving list \<Rightarrow> 'w \<Rightarrow> artifact_result \<times> 'w" where
  "save_steps P c operation ident message steps w =
     (if \<not> ac_enabled c then (new_artifacts\<lparr>ar_success := True\<rparr>, w)
      else
        (case create_operation_dir P c operation ident w of
           (Inl e, w) \<Rightarrow> (new_artifacts\<lparr>ar_error := make_error ArtifactError message (exc_what e)\<rparr>, w)
         | (Inr dir, w) \<Rightarrow>
             (case run_steps steps (new_artifacts\<lparr>ar_directory := dir\<rparr>, w) of
                ((r, w), Some e) \<Rightarrow> (r\<lparr>ar_error := make_error ArtifactError message (exc_what e)\<rparr>, w)
              | ((r, w), None) \<Rightarrow> (r\<lparr>ar_success := True\<rparr>, w))))"

section \<open>Builds, intents and texts\<close>

definition build_metadata :: "'j json_ops \<Rightarrow> string \<Rightarrow> build_result \<Rightarrow> 'j" where
  "build_metadata J operation b =
     mk_object J
       [(''command'', mk_string J (br_command b)), (''contract_address'', mk_string J (br_contract_address b)),
        (''error'', mk_string J (br_error b)), (''intent_path'', mk_string J (br_intent_path b)),
        (''onchain_state_path'', mk_string J (br_onchain_state_path b)), (''operation'', mk_string J operation),
        (''output_file'', mk_string J (br_output_file b)),
        (''private_state_path'', mk_string J (br_private_state_path b)),
        (''result_path'', mk_string J (br_result_path b)), (''success'', mk_bool J (br_success b)),
        (''transaction_hash'', mk_string J (br_hash b)), (''zswap_state_path'', mk_string J (br_zswap_state_path b))]"

definition build_steps :: "('w, 'j) platform \<Rightarrow> string \<Rightarrow> build_result \<Rightarrow> 'w saving list" where
  "build_steps P operation b =
     [write_metadata P (build_metadata (pf_json P) operation b),
      write_if_any P ''transaction.mn'' (map char_of_byte (br_bytes b)),
      write_if_any P ''transaction.hex'' (br_hex b),
      write_if_any P ''ledger.log'' (br_log b),
      write_if_any P ''ledger-output.json'' (br_raw_output b),
      copy_if_exists P (br_output_file b), copy_if_exists P (br_intent_path b),
      copy_if_exists P (br_private_state_path b), copy_if_exists P (br_zswap_state_path b),
      copy_if_exists P (br_onchain_state_path b), copy_if_exists P (br_result_path b)]"

definition save_build_result ::
  "('w, 'j) platform \<Rightarrow> artifact_config \<Rightarrow> string \<Rightarrow> build_result \<Rightarrow> 'w \<Rightarrow> artifact_result \<times> 'w" where
  "save_build_result P c operation b =
     save_steps P c operation (strip_hex_prefix (br_hash b)) ''Could not save transaction artifacts''
       (build_steps P operation b)"

record intent_result =
  it_success :: bool
  it_output_intent :: string
  it_private_state :: string
  it_zswap_state :: string
  it_onchain_state :: "string option"
  it_result :: "string option"
  it_command :: string
  it_log :: string
  it_error :: string

definition intent_metadata :: "'j json_ops \<Rightarrow> string \<Rightarrow> intent_result \<Rightarrow> 'j" where
  "intent_metadata J operation i =
     mk_object J
       [(''command'', mk_string J (it_command i)), (''error'', mk_string J (it_error i)),
        (''operation'', mk_string J operation), (''output_intent'', mk_string J (it_output_intent i)),
        (''output_onchain_state'', text_or_null J (it_onchain_state i)),
        (''output_private_state'', mk_string J (it_private_state i)),
        (''output_result'', text_or_null J (it_result i)), (''output_zswap_state'', mk_string J (it_zswap_state i)),
        (''success'', mk_bool J (it_success i))]"

definition optional_copy :: "('w, 'j) platform \<Rightarrow> string option \<Rightarrow> 'w saving" where
  "optional_copy P path s = (case path of None \<Rightarrow> Inr s | Some p \<Rightarrow> copy_if_exists P p s)"

definition save_intent_result ::
  "('w, 'j) platform \<Rightarrow> artifact_config \<Rightarrow> string \<Rightarrow> intent_result \<Rightarrow> 'w \<Rightarrow> artifact_result \<times> 'w" where
  "save_intent_result P c operation i =
     save_steps P c operation [] ''Could not save intent artifacts''
       [write_metadata P (intent_metadata (pf_json P) operation i),
        write_if_any P ''ledger.log'' (it_log i),
        copy_if_exists P (it_output_intent i), copy_if_exists P (it_private_state i),
        copy_if_exists P (it_zswap_state i), optional_copy P (it_onchain_state i), optional_copy P (it_result i)]"

definition write_text_artifact ::
  "('w, 'j) platform \<Rightarrow> artifact_config \<Rightarrow> string \<Rightarrow> string \<Rightarrow> string \<Rightarrow> 'w \<Rightarrow> artifact_result \<times> 'w" where
  "write_text_artifact P c operation name text =
     save_steps P c operation [] ''Could not write artifact''
       [write_artifact P (sanitize_path_component name) text]"

section \<open>What is kept\<close>

theorem component_has_no_slash: "CHR ''/'' \<notin> set (sanitize_path_component s) \<and> sanitize_path_component s \<noteq> []"
  by (auto simp: sanitize_path_component_def Let_def path_char_def cctype_defs isalnum_def)

text \<open>Dots are kept, so that two components lead out of the root again.\<close>

theorem dots_leave_root:
  assumes "ac_root c = ''artifacts''" and "ac_network c = ''..''" and "ac_wallet_id c = ''..''"
  shows "operation_dir c ''..'' ''etc'' = ''artifacts/../../../etc''"
  using assms by (simp add: operation_dir_def sanitize_path_component_def path_char_def path_join_def is_absolute_def cctype_defs isalnum_def)

lemma run_steps_keep:
  assumes "\<And>f s s'. f \<in> set fs \<Longrightarrow> I s \<Longrightarrow> f s = Inr s' \<Longrightarrow> I s'" and "I s"
  shows "I (fst (run_steps fs s))"
  using assms by (induction fs arbitrary: s) (auto split: sum.splits)

text \<open>The directory of the result, and the content of one file in it.\<close>

definition holds_file :: "('w, 'j) platform \<Rightarrow> string \<Rightarrow> string \<Rightarrow> string \<Rightarrow> artifact_result \<times> 'w \<Rightarrow> bool" where
  "holds_file P dir name text s \<longleftrightarrow>
     ar_directory (fst s) = dir \<and> map_of (pf_files P (snd s)) (path_join dir name) = Some text"

lemma write_keeps:
  assumes "files_kept P" and "holds_file P dir name text s" and "path_join dir other \<noteq> path_join dir name"
    and "write_artifact P other t s = Inr s'"
  shows "holds_file P dir name text s'"
  using assms map_of_put_file [OF assms(1)]
  by (auto simp: write_artifact_def holds_file_def put_file_def Let_def split: prod.splits option.splits)

lemma write_if_any_keeps:
  assumes "files_kept P" and "holds_file P dir name text s" and "path_join dir other \<noteq> path_join dir name"
    and "write_if_any P other t s = Inr s'"
  shows "holds_file P dir name text s'"
  using assms write_keeps [OF assms(1-3)] by (auto simp: write_if_any_def split: if_splits)

lemma copy_keeps:
  assumes "files_kept P" and "holds_file P dir name text s" and "path_join dir (path_filename p) \<noteq> path_join dir name"
    and "copy_if_exists P p s = Inr s'"
  shows "holds_file P dir name text s'"
  using assms map_of_put_file [OF assms(1)]
  by (auto simp: copy_if_exists_def holds_file_def put_file_def Let_def split: prod.splits option.splits if_splits)

lemma names_differ [simp]:
  "path_join dir ''transaction.hex'' \<noteq> path_join dir ''transaction.mn''"
  "path_join dir ''ledger.log'' \<noteq> path_join dir ''transaction.mn''"
  "path_join dir ''ledger-output.json'' \<noteq> path_join dir ''transaction.mn''"
  by (rule joined_path_inj; simp add: is_absolute_def)+

text \<open>The files that a build names.\<close>

definition named_files :: "build_result \<Rightarrow> string list" where
  "named_files b =
     [br_output_file b, br_intent_path b, br_private_state_path b, br_zswap_state_path b, br_onchain_state_path b,
      br_result_path b]"

lemma later_steps_keep:
  assumes "files_kept P" and "\<forall>p\<in>set (named_files b). path_join dir (path_filename p) \<noteq> path_join dir ''transaction.mn''"
    and "holds_file P dir ''transaction.mn'' text s"
  shows "holds_file P dir ''transaction.mn'' text (fst (run_steps (drop 2 (build_steps P operation b)) s))"
proof (rule run_steps_keep [where I = "holds_file P dir ''transaction.mn'' text"])
  fix f s s'
  assume f: "f \<in> set (drop 2 (build_steps P operation b))" and h: "holds_file P dir ''transaction.mn'' text s" and r: "f s = Inr s'"
  from f consider (put) other t where "f = write_if_any P other t" "path_join dir other \<noteq> path_join dir ''transaction.mn''"
    | (copy) p where "f = copy_if_exists P p" "p \<in> set (named_files b)"
    by (auto simp: build_steps_def named_files_def)
  then show "holds_file P dir ''transaction.mn'' text s'"
    by cases (use h r assms(1,2) in \<open>auto dest: write_if_any_keeps copy_keeps\<close>)
qed (rule assms(3))

text \<open>
  The transaction of a build is in its directory, byte for byte, once the directory, its metadata and the file
  could be written, also when keeping anything else fails.
\<close>
theorem transaction_is_kept:
  assumes "files_kept P" and "ac_enabled c" and "br_bytes b \<noteq> []"
    and "create_operation_dir P c operation (strip_hex_prefix (br_hash b)) w = (Inr dir, w1)"
    and "pf_indented P (build_metadata (pf_json P) operation b) = Some m"
    and "\<And>w. pf_fault P (path_join dir ''metadata.json'') w = None"
    and "\<And>w. pf_fault P (path_join dir ''transaction.mn'') w = None"
    and "\<forall>p\<in>set (named_files b). path_join dir (path_filename p) \<noteq> path_join dir ''transaction.mn''"
  shows "map_of (pf_files P (snd (save_build_result P c operation b w))) (path_join dir ''transaction.mn'') =
    Some (map char_of_byte (br_bytes b))"
proof -
  let ?r = "new_artifacts\<lparr>ar_directory := dir\<rparr>" and ?steps = "build_steps P operation b"
  let ?w2 = "put_file P (path_join dir ''metadata.json'') m w1"
  let ?w3 = "put_file P (path_join dir ''transaction.mn'') (map char_of_byte (br_bytes b)) ?w2"
  have "write_metadata P (build_metadata (pf_json P) operation b) (?r, w1) =
      Inr (?r\<lparr>ar_files := [path_join dir ''metadata.json'']\<rparr>, ?w2)"
    using assms(5,6) by (simp add: write_metadata_def write_artifact_def put_file_def new_artifacts_def Let_def)
  moreover have "write_if_any P ''transaction.mn'' (map char_of_byte (br_bytes b))
      (?r\<lparr>ar_files := [path_join dir ''metadata.json'']\<rparr>, ?w2) =
      Inr (?r\<lparr>ar_files := [path_join dir ''metadata.json'', path_join dir ''transaction.mn'']\<rparr>, ?w3)"
    using assms(3,7) by (simp add: write_if_any_def write_artifact_def put_file_def new_artifacts_def Let_def)
  ultimately have steps: "run_steps ?steps (?r, w1) =
      run_steps (drop 2 ?steps) (?r\<lparr>ar_files := [path_join dir ''metadata.json'', path_join dir ''transaction.mn'']\<rparr>, ?w3)"
    by (simp add: build_steps_def)
  have "holds_file P dir ''transaction.mn'' (map char_of_byte (br_bytes b)) (fst (run_steps ?steps (?r, w1)))"
    unfolding steps using assms(1,8) by (intro later_steps_keep) (auto simp: holds_file_def map_of_put_file)
  then show ?thesis
    using assms(2,4)
    by (auto simp: save_build_result_def save_steps_def holds_file_def split: prod.splits option.splits)
qed

section \<open>A sample\<close>

definition sample_build :: build_result where
  "sample_build = new_build_result\<lparr>br_success := True, br_bytes := [1, 171], br_hash := ''0xab'', br_result_path := ''missing''\<rparr>"

theorem transaction_is_kept_witness:
  "map_of (pf_files (file_platform json_std)
      (snd (save_build_result (file_platform json_std) default_artifacts ''transfer-night'' sample_build [])))
    ''midnight-artifacts/preview/default/transfer-night/ab/transaction.mn'' = Some (map char_of_byte [1, 171])"
proof -
  let ?dir = "''midnight-artifacts/preview/default/transfer-night/ab''"
  have d: "operation_dir default_artifacts ''transfer-night'' ''ab'' = ?dir" by code_simp
  have h: "strip_hex_prefix (br_hash sample_build) = ''ab''"
    by (simp add: sample_build_def strip_hex_prefix_def starts_with_def)
  have c: "create_operation_dir (file_platform json_std) default_artifacts ''transfer-night''
      (strip_hex_prefix (br_hash sample_build)) [] = (Inr ?dir, [])"
    unfolding h by (simp add: create_operation_dir_def d) (simp add: file_platform_def)
  have p: "\<forall>p\<in>set (named_files sample_build). path_join ?dir (path_filename p) \<noteq> path_join ?dir ''transaction.mn''"
    by (simp add: named_files_def sample_build_def new_build_result_def path_filename_def path_join_def is_absolute_def)
  have j: "path_join ?dir ''transaction.mn'' = ?dir @ ''/transaction.mn''"
    by (simp add: path_join_def is_absolute_def)
  have "br_bytes sample_build \<noteq> []" "ac_enabled default_artifacts" "br_bytes sample_build = [1, 171]"
    by (simp_all add: sample_build_def default_artifacts_def)
  then show ?thesis
    using transaction_is_kept [OF file_platform_kept(1) _ _ c _ _ _ p, of "''{}''"] unfolding j
    by (simp add: file_platform_def)
qed

end
