(* ===== verification/NodeRpc.thy ===== *)
theory NodeRpc
  imports Extrinsic IndexerClient
begin

text \<open>
  The client of a Midnight node (src/network/midnight_node_rpc.cpp): JSON-RPC calls over HTTP on two paths with a
  WebSocket as a fallback for submissions, the chain tip, the submission of transactions and the wait for their
  confirmation. HTTP, the WebSocket library and JSON are parameters; a call passes on the next request
  identifier and the state of the outside world.
\<close>

section \<open>Services\<close>

text \<open>An exchange over a WebSocket: not opened, not sent, not answered by a text, or answered.\<close>

datatype ws_answer = Ws_refused | Ws_unsent | Ws_no_text | Ws_text string

text \<open>\<open>nd_price\<close> reads a floating-point price as a fixed-point number.\<close>

record ('w, 'j) node_services =
  nd_json :: "'j json_ops"
  nd_http :: "'w http"
  nd_ws :: "string \<Rightarrow> u32 \<Rightarrow> string \<Rightarrow> 'w \<Rightarrow> ws_answer \<times> 'w"
  nd_price :: "'j \<Rightarrow> u64 result"

type_synonym ('w, 'a) node_call = "(u32 \<times> 'w, 'a) call"

definition on_world :: "('w, 'a) call \<Rightarrow> ('w, 'a) node_call" where
  "on_world m s = (case s of (n, w) \<Rightarrow> (case m w of (r, w) \<Rightarrow> (r, (n, w))))"

definition get_next_request_id :: "('w, u32) node_call" where
  "get_next_request_id s = (case s of (n, w) \<Rightarrow> (Inr n, (n + 1, w)))"

section \<open>Texts\<close>

definition mentions :: "string \<Rightarrow> string \<Rightarrow> bool" where
  "mentions s p \<longleftrightarrow> str_find s p 0 \<noteq> None"

definition is_wallet_address :: "string \<Rightarrow> bool" where
  "is_wallet_address value =
     (let lower = to_lower_copy value in starts_with lower ''mn_'' \<or> starts_with lower ''stake'')"

definition is_64_hex_chars :: "string \<Rightarrow> bool" where
  "is_64_hex_chars s \<longleftrightarrow> length s = 64 \<and> list_all isxdigit s"

definition ensure_path :: "string \<Rightarrow> string" where
  "ensure_path value =
     (let host_start = (case str_find value ''://'' 0 of None \<Rightarrow> 0 | Some i \<Rightarrow> i + 3)
      in if find_char (CHR ''/'') (drop host_start value) = None then value @ ''/'' else value)"

definition websocket_url_from_http_url :: "string \<Rightarrow> string" where
  "websocket_url_from_http_url url =
     (if starts_with url ''https://'' then ensure_path (''wss://'' @ drop 8 url)
      else if starts_with url ''http://'' then ensure_path (''ws://'' @ drop 7 url)
      else if starts_with url ''wss://'' \<or> starts_with url ''ws://'' then ensure_path url
      else ensure_path (''wss://'' @ url))"

definition should_try_websocket_submit_fallback :: "string \<Rightarrow> bool" where
  "should_try_websocket_submit_fallback err \<longleftrightarrow>
     mentions err ''HTTP 403'' \<or> mentions err ''HTTP 413'' \<or> mentions err ''Payload Too Large'' \<or>
     mentions err ''Request Entity Too Large''"

definition truncate_rpc_error_detail :: "string \<Rightarrow> nat \<Rightarrow> string" where
  "truncate_rpc_error_detail value max_length =
     (if length value \<le> max_length then value else take max_length value @ ''...'')"

text \<open>The digits behind the prefix, as a 32-bit number that wraps around.\<close>

definition parse_midnight_custom_error_code :: "string \<Rightarrow> u32 option" where
  "parse_midnight_custom_error_code value =
     (case str_find value ''Custom error:'' 0 of
        None \<Rightarrow> None
      | Some pos \<Rightarrow>
          (let digits = takeWhile isdigit (dropWhile isspace (drop (pos + 13) value))
           in if digits = [] then None
              else Some (foldl (\<lambda>code c. code * 10 + word_of_nat (of_char c - 48)) 0 digits)))"

definition midnight_custom_errors :: "(u32 \<times> string) list" where
  "midnight_custom_errors =
     [(115, ''Malformed.InvalidProof''), (126, ''Malformed.Unbalanced''), (138, ''Malformed.BalanceCheckOverspend''),
      (166, ''Malformed.InvalidNetworkId''), (169, ''Malformed.InvalidDustRegistrationSignature''),
      (170, ''Malformed.InvalidDustSpendProof''), (171, ''Malformed.OutOfDustValidityWindow''),
      (172, ''Malformed.MultipleDustRegistrationsForKey''), (173, ''Malformed.InsufficientDustForRegistrationFee''),
      (175, ''Malformed.IntentSignatureVerificationFailure''), (179, ''Malformed.UnsupportedProofVersion''),
      (195, ''Invalid.InputNotInUtxos''), (196, ''Invalid.DustDoubleSpend''),
      (228, ''Malformed.TransactionApplication.IntentTtlExpired''),
      (229, ''Malformed.TransactionApplication.IntentTtlTooFarInFuture''),
      (230, ''Malformed.TransactionApplication.IntentAlreadyExists''), (235, ''Malformed.Zswap.InvalidProof''),
      (241, ''Invalid.Zswap.UnknownMerkleRoot''), (242, ''Invalid.ReplayProtectionViolation.IntentTtlExpired''),
      (243, ''Invalid.ReplayProtectionViolation.IntentTtlTooFarInFuture''),
      (244, ''Invalid.ReplayProtectionViolation.IntentAlreadyExists'')]"

definition midnight_custom_error_name :: "u32 \<Rightarrow> string option" where
  "midnight_custom_error_name code = map_of midnight_custom_errors code"

definition custom_error_text :: "u32 \<Rightarrow> string" where
  "custom_error_text code =
     '' midnight_error_code='' @ to_string (unat code) @
     (case midnight_custom_error_name code of None \<Rightarrow> [] | Some n \<Rightarrow> '' midnight_error='' @ n) @
     (if code = 171
      then '' hint=refresh the local ledger-state/source cache tail and rebuild; '' @
        ''the DUST spend validity window was built from stale block time''
      else [])"

definition rpc_error_detail :: "'j json_ops \<Rightarrow> 'j \<Rightarrow> string result" where
  "rpc_error_detail J err =
     rbind (json_value J (read_string J) err ''message'' ''Unknown RPC error'') (\<lambda>message.
       let code = (if has_key J err ''code'' then ''code='' @ dump J (member J err ''code'') @ '' '' else []);
           data = member J err ''data'';
           text = (if is_string J data then get_string J data else dump J data);
           custom = (if has_value J err ''data'' \<and> is_string J data
                     then parse_midnight_custom_error_code (get_string J data) else None)
       in Inr (truncate_rpc_error_detail
            (code @ ''message='' @ message @ (if has_value J err ''data'' then '' data='' @ text else []) @
             (case custom of None \<Rightarrow> [] | Some c \<Rightarrow> custom_error_text c)) 4096))"

section \<open>Calls\<close>

definition rpc_body :: "'j json_ops \<Rightarrow> u32 \<Rightarrow> string \<Rightarrow> 'j \<Rightarrow> 'j" where
  "rpc_body J n method params =
     mk_object J [(''id'', mk_number J (uint n)), (''jsonrpc'', mk_string J ''2.0''), (''method'', mk_string J method),
       (''params'', params)]"

text \<open>What an answer is: a result, an error of the application, or no answer of the protocol.\<close>

datatype 'j rpc_answer = Rpc_result 'j | Application_error string | Bad_answer exc

definition rpc_answer_of :: "'j json_ops \<Rightarrow> string \<Rightarrow> string \<Rightarrow> 'j \<Rightarrow> 'j rpc_answer" where
  "rpc_answer_of J missing method response =
     (if has_value J response ''error''
      then (case rpc_error_detail J (member J response ''error'') of
              Inl e \<Rightarrow> Bad_answer e
            | Inr detail \<Rightarrow> Application_error (''RPC '' @ method @ '' error: '' @ detail))
      else if \<not> has_key J response ''result'' then Bad_answer (Runtime_error missing)
      else Rpc_result (member J response ''result''))"

fun join_errors :: "string list \<Rightarrow> string" where
  "join_errors [] = []"
| "join_errors [e] = e"
| "join_errors (e # es) = e @ '' | '' @ join_errors es"

text \<open>The paths in turn: an error of the application ends the attempts, any other goes on to the next path.\<close>

fun rpc_attempts ::
  "('w, 'j) node_services \<Rightarrow> network_client \<Rightarrow> string \<Rightarrow> 'j \<Rightarrow> string list \<Rightarrow> string list \<Rightarrow> ('w, 'j) call" where
  "rpc_attempts V c method request [] errs w =
     (Inl (Runtime_error (''All RPC path attempts failed: '' @ join_errors errs)), w)"
| "rpc_attempts V c method request (path # paths) errs w =
     (case post_json (nd_json V) (nd_http V) c path request w of
        (Inl e, w) \<Rightarrow> rpc_attempts V c method request paths (errs @ [''path '' @ path @ '': '' @ exc_what e]) w
      | (Inr response, w) \<Rightarrow>
          (case rpc_answer_of (nd_json V) ''Invalid RPC response - missing result field'' method response of
             Rpc_result j \<Rightarrow> (Inr j, w)
           | Application_error e \<Rightarrow> (Inl (Runtime_error e), w)
           | Bad_answer e \<Rightarrow> rpc_attempts V c method request paths (errs @ [''path '' @ path @ '': '' @ exc_what e]) w))"

definition node_rpc_paths :: "string list" where
  "node_rpc_paths = [''/'', ''/rpc'']"

definition node_rpc_call :: "('w, 'j) node_services \<Rightarrow> network_client \<Rightarrow> string \<Rightarrow> 'j \<Rightarrow> ('w, 'j) node_call" where
  "node_rpc_call V c method params =
     call_bind get_next_request_id (\<lambda>n.
       on_world (rpc_attempts V c method (rpc_body (nd_json V) n method params) node_rpc_paths []))"

definition ws_result :: "'j json_ops \<Rightarrow> string \<Rightarrow> ws_answer \<Rightarrow> 'j result" where
  "ws_result J method answer =
     (case answer of
        Ws_refused \<Rightarrow> Inl (Runtime_error ''failed to open WebSocket connection'')
      | Ws_unsent \<Rightarrow> Inl (Runtime_error ''failed to send WebSocket JSON-RPC request'')
      | Ws_no_text \<Rightarrow> Inl (Runtime_error ''WebSocket RPC did not return a text JSON-RPC response'')
      | Ws_text body \<Rightarrow>
          (case parse J body of
             Inl what \<Rightarrow> Inl (Runtime_error (''Invalid WebSocket JSON-RPC response: '' @ what))
           | Inr response \<Rightarrow>
               (case rpc_answer_of J ''Invalid WebSocket RPC response - missing result field'' method response of
                  Rpc_result j \<Rightarrow> Inr j
                | Application_error e \<Rightarrow> Inl (Runtime_error e)
                | Bad_answer e \<Rightarrow> Inl e)))"

definition rpc_call_websocket :: "('w, 'j) node_services \<Rightarrow> network_client \<Rightarrow> string \<Rightarrow> 'j \<Rightarrow> ('w, 'j) node_call" where
  "rpc_call_websocket V c method params =
     call_bind get_next_request_id (\<lambda>n.
       on_world (\<lambda>w.
         case nd_ws V (websocket_url_from_http_url (base_url c)) (timeout_ms c)
             (dump (nd_json V) (rpc_body (nd_json V) n method params)) w of
           (answer, w) \<Rightarrow> (ws_result (nd_json V) method answer, w)))"

text \<open>Without parameters and with one.\<close>

definition call_plain :: "('w, 'j) node_services \<Rightarrow> network_client \<Rightarrow> string \<Rightarrow> ('w, 'j) node_call" where
  "call_plain V c method = node_rpc_call V c method (mk_object (nd_json V) [])"

definition call_list :: "('w, 'j) node_services \<Rightarrow> network_client \<Rightarrow> string \<Rightarrow> 'j list \<Rightarrow> ('w, 'j) node_call" where
  "call_list V c method params = node_rpc_call V c method (mk_array (nd_json V) params)"

section \<open>Queries\<close>

definition json_to_utxo :: "'j json_ops \<Rightarrow> 'j \<Rightarrow> indexed_utxo result" where
  "json_to_utxo J js =
     rbind (json_value J (read_string J) js ''txHash'' []) (\<lambda>hash.
     rbind (json_value J (read_u32 J) js ''outputIndex'' 0) (\<lambda>index.
     rbind (json_value J (read_string J) js ''amountCommitment'' []) (\<lambda>commitment.
     rbind (json_value J (read_ull J) js ''value'' 0) (\<lambda>value.
     rbind (if has_key J js ''assets'' \<and> is_object J (member J js ''assets'')
            then read_list (\<lambda>(k, v). rbind (read_string J v) (\<lambda>s. Inr (k, s))) (items J (member J js ''assets''))
            else Inr []) (\<lambda>assets.
       Inr \<lparr>iu_tx_hash = hash, iu_output_index = index, iu_address = [], iu_amount_commitment = commitment,
         iu_value = value, iu_token_type = ''NIGHT'', iu_multi_assets = assets, iu_block_height = 0, iu_ctime = 0,
         iu_initial_nonce = [], iu_registered = False\<rparr>)))))"

definition get_utxos :: "('w, 'j) node_services \<Rightarrow> network_client \<Rightarrow> string \<Rightarrow> ('w, indexed_utxo list) node_call" where
  "get_utxos V c address =
     call_catch
       (call_bind (node_rpc_call V c ''getUTXOs'' (mk_object (nd_json V) [(''address'', mk_string (nd_json V) address)]))
         (\<lambda>response.
           call_of (if is_array (nd_json V) response
                    then read_list (json_to_utxo (nd_json V)) (elements (nd_json V) response) else Inr [])))
       (\<lambda>_. call_throw (Runtime_error (''UTXO query not supported by node RPC. '' @
          ''Use midnight::network::IndexerClient with GraphQL endpoint instead.'')))"

record node_params =
  np_min_fee_a :: u64
  np_min_fee_b :: u64
  np_price_memory :: u64
  np_price_steps :: u64
  np_utxo_cost_per_byte :: u64
  np_max_tx_size :: u32
  np_max_block_size :: u32
  np_min_pool_cost :: u64
  np_coins_per_utxo_word :: u32

definition json_to_protocol_params :: "'j json_ops \<Rightarrow> ('j \<Rightarrow> u64 result) \<Rightarrow> 'j \<Rightarrow> node_params result" where
  "json_to_protocol_params J price js =
     rbind (json_value J (read_u64 J) js ''minFeeA'' 44) (\<lambda>a.
     rbind (json_value J (read_u64 J) js ''minFeeB'' 155381) (\<lambda>b.
     rbind (json_value J (read_u64 J) js ''utxoCostPerByte'' 4310) (\<lambda>cost.
     rbind (json_value J (read_u64 J) js ''maxTxSize'' 16384) (\<lambda>tx_size.
     rbind (json_value J (read_u64 J) js ''maxBlockSize'' 65536) (\<lambda>block_size.
     rbind (json_value J (read_u64 J) js ''minPoolCost'' 0) (\<lambda>pool.
     rbind (json_value J (read_u32 J) js ''coinsPerUtxoWord'' 0) (\<lambda>coins.
     rbind (json_value J price js ''priceMemory'' 57700) (\<lambda>memory.
     rbind (json_value J price js ''priceSteps'' 72) (\<lambda>steps.
       Inr \<lparr>np_min_fee_a = a, np_min_fee_b = b, np_price_memory = memory, np_price_steps = steps,
         np_utxo_cost_per_byte = cost, np_max_tx_size = ucast tx_size, np_max_block_size = ucast block_size,
         np_min_pool_cost = pool, np_coins_per_utxo_word = coins\<rparr>)))))))))"

definition get_protocol_params :: "('w, 'j) node_services \<Rightarrow> network_client \<Rightarrow> ('w, node_params) node_call" where
  "get_protocol_params V c =
     call_catch
       (call_bind (call_plain V c ''getProtocolParams'')
         (\<lambda>response. call_of (json_to_protocol_params (nd_json V) (nd_price V) response)))
       (\<lambda>_. call_of (json_to_protocol_params (nd_json V) (nd_price V) (mk_object (nd_json V) [])))"

text \<open>The number of a header, in any base \<^verbatim>\<open>stoull\<close> detects; 0 when it cannot be read.\<close>

definition header_number :: "'j json_ops \<Rightarrow> 'j \<Rightarrow> u64" where
  "header_number J response =
     (let number = member J response ''number''
      in if is_string J number then (case stoull0 (get_string J number) of Inl _ \<Rightarrow> 0 | Inr v \<Rightarrow> v)
         else if is_number_unsigned J number then word_of_int (get_number J number) else 0)"

definition get_chain_tip :: "('w, 'j) node_services \<Rightarrow> network_client \<Rightarrow> ('w, u64 \<times> string) node_call" where
  "get_chain_tip V c =
     (let J = nd_json V
      in call_bind (call_catch (call_plain V c ''getChainTip'') (\<lambda>_. call_list V c ''chain_getHeader'' [])) (\<lambda>response.
         call_bind (call_of (json_value J (read_u64 J) response ''height'' 0)) (\<lambda>h.
         call_bind (call_of (json_value J (read_string J) response ''hash'' [])) (\<lambda>hash.
         call_bind
           (if hash \<noteq> [] then call_return hash
            else call_catch
              (call_bind (call_list V c ''chain_getFinalizedHead'' []) (\<lambda>finalized_head.
                 call_return (if is_string J finalized_head then get_string J finalized_head else [])))
              (\<lambda>_. call_return [])) (\<lambda>hash.
           call_return (if h = 0 \<and> has_key J response ''number'' then header_number J response else h, hash))))))"

definition get_block_header :: "('w, 'j) node_services \<Rightarrow> network_client \<Rightarrow> string \<Rightarrow> ('w, 'j) node_call" where
  "get_block_header V c block_hash =
     (let hash = strip_hex_prefix block_hash
      in if \<not> is_64_hex_chars hash then call_throw (Runtime_error ''Block hash must be a 32-byte hex string'')
         else call_list V c ''chain_getHeader'' [mk_string (nd_json V) (ensure_hex_prefix hash)])"

definition block_hash_exists :: "('w, 'j) node_services \<Rightarrow> network_client \<Rightarrow> string \<Rightarrow> ('w, bool) node_call" where
  "block_hash_exists V c block_hash =
     call_bind (get_block_header V c block_hash) (\<lambda>header.
       call_return (is_object (nd_json V) header \<and> items (nd_json V) header \<noteq> []))"

definition get_contract_state :: "('w, 'j) node_services \<Rightarrow> network_client \<Rightarrow> string \<Rightarrow> ('w, 'j) node_call" where
  "get_contract_state V c address =
     (if address = [] then call_throw (Runtime_error ''Contract address cannot be empty'')
      else if is_wallet_address address
      then call_throw (Runtime_error (''midnight_contractState accepts contract hex addresses only; '' @
        ''use IndexerClient for mn_addr/mn_shield-addr/mn_dust wallet addresses.''))
      else if \<not> is_64_hex_chars (strip_hex_prefix address)
      then call_throw (Runtime_error (''Invalid Midnight contract address: '' @
        ''expected 32-byte hex string without Bech32m encoding''))
      else call_list V c ''midnight_contractState'' [mk_string (nd_json V) (strip_hex_prefix address)])"

text \<open>What the node cannot answer.\<close>

definition node_get_transaction :: "string \<Rightarrow> 'a result" where
  "node_get_transaction tx_id =
     (if tx_id = [] then Inl (Runtime_error ''Transaction ID cannot be empty'')
      else Inl (Runtime_error (''get_transaction is not available on MidnightNodeRPC. '' @
        ''Use midnight::network::IndexerClient.get_transaction(tx_id) '' @
        ''with the GraphQL endpoint for transaction lookup.'')))"

definition node_get_balance :: "string \<Rightarrow> u64 result" where
  "node_get_balance address =
     (if address = [] then Inl (Runtime_error ''Address cannot be empty'')
      else Inl (Runtime_error (''Wallet NIGHT balance is not available through node RPC. '' @
        ''Use midnight::network::IndexerClient::query_wallet_state().'')))"

definition system_info :: "('w, 'j) node_services \<Rightarrow> network_client \<Rightarrow> ('w, 'j) node_call" where
  "system_info V c =
     (let J = nd_json V
      in call_bind (call_list V c ''system_chain'' []) (\<lambda>chain.
         call_bind (call_list V c ''system_name'' []) (\<lambda>name.
         call_bind (call_list V c ''system_version'' []) (\<lambda>version.
         call_bind (call_list V c ''system_health'' []) (\<lambda>health.
         call_bind (call_of (json_value J (read_bool J) health ''isSyncing'' True)) (\<lambda>syncing.
         call_bind (call_of (json_value J (read_int J) health ''peers'' 0)) (\<lambda>peers.
           call_return (mk_object J
             [(''chain'', chain), (''health'', health), (''name'', name), (''peers'', mk_number J (sint peers)),
              (''ready'', mk_bool J (\<not> syncing)), (''version'', version)]))))))))"

definition get_node_info :: "('w, 'j) node_services \<Rightarrow> network_client \<Rightarrow> ('w, 'j) node_call" where
  "get_node_info V c =
     call_bind
       (call_catch
         (call_bind (call_plain V c ''getNodeInfo'') (\<lambda>r. call_return (if is_object (nd_json V) r then Some r else None)))
         (\<lambda>_. call_return None)) (\<lambda>legacy.
       case legacy of Some r \<Rightarrow> call_return r | None \<Rightarrow> system_info V c)"

definition node_is_ready :: "('w, 'j) node_services \<Rightarrow> network_client \<Rightarrow> ('w, bool) node_call" where
  "node_is_ready V c =
     (let J = nd_json V
      in call_catch
           (call_bind (get_node_info V c) (\<lambda>info.
              if has_key J info ''ready'' \<and> is_boolean J (member J info ''ready'')
              then call_return (get_bool J (member J info ''ready''))
              else if has_key J info ''health'' \<and> is_object J (member J info ''health'')
              then call_of (rbind (json_value J (read_bool J) (member J info ''health'') ''isSyncing'' True)
                (\<lambda>syncing. Inr (\<not> syncing)))
              else call_return False))
           (\<lambda>_. call_return False))"

section \<open>Submission\<close>

definition submitted_id :: "'j json_ops \<Rightarrow> 'j \<Rightarrow> string result" where
  "submitted_id J response =
     rbind (if is_string J response then Inr (get_string J response)
            else json_value J (read_string J) response ''txId'' []) (\<lambda>tx_id.
       if tx_id = [] then Inl (Runtime_error ''Transaction submission response missing transaction identifier'')
       else Inr tx_id)"

definition submit_extrinsic :: "('w, 'j) node_services \<Rightarrow> network_client \<Rightarrow> string \<Rightarrow> ('w, string) node_call" where
  "submit_extrinsic V c extrinsic_hex =
     (let J = nd_json V; clean = strip_hex_prefix extrinsic_hex; payload = ensure_hex_prefix clean
      in if clean = [] then call_throw (Runtime_error ''Extrinsic bytes cannot be empty'')
         else if \<not> is_hex_string clean then call_throw (Runtime_error ''Extrinsic must be an even-length hex string'')
         else
           call_bind
             (call_catch (call_list V c ''author_submitExtrinsic'' [mk_string J payload]) (\<lambda>http_error.
                if \<not> should_try_websocket_submit_fallback http_error
                then call_throw (Runtime_error (''author_submitExtrinsic failed: '' @ http_error))
                else
                  call_catch (rpc_call_websocket V c ''author_submitExtrinsic'' (mk_array J [mk_string J payload]))
                    (\<lambda>ws_error. call_throw (Runtime_error
                       (''author_submitExtrinsic failed over HTTP and WebSocket fallback: http='' @ http_error @
                        '' websocket='' @ ws_error))))) (\<lambda>response.
             call_of (submitted_id J response)))"

definition unsigned_params :: extrinsic_params where
  "unsigned_params =
     \<lparr>xp_spec_version = 0, xp_tx_version = 0, xp_genesis_hash = replicate 32 0, xp_block_hash = replicate 32 0,
      xp_nonce = 0, xp_tip = 0, xp_mortal_era = False, xp_era_block = 0, xp_era_period = 64\<rparr>"

definition node_submit_transaction :: "('w, 'j) node_services \<Rightarrow> network_client \<Rightarrow> string \<Rightarrow> ('w, string) node_call" where
  "node_submit_transaction V c tx_hex =
     (let clean = strip_hex_prefix tx_hex
      in if clean = [] then call_throw (Runtime_error ''Midnight transaction bytes cannot be empty'')
         else if \<not> is_hex_string clean
         then call_throw (Runtime_error ''Midnight transaction must be an even-length hex string'')
         else
           call_bind (call_of
             (rbind (util_hex_to_bytes clean) (\<lambda>midnight_tx.
              rbind (midnight_send_mn_transaction midnight_tx 0x05) (\<lambda>call.
              rbind (new_extrinsic_builder unsigned_params) (\<lambda>builder.
                Inr (ensure_hex_prefix (util_bytes_to_hex (build_unsigned call))))))))
             (submit_extrinsic V c))"

section \<open>Confirmation\<close>

definition pending_match :: "'j json_ops \<Rightarrow> string \<Rightarrow> 'j \<Rightarrow> bool" where
  "pending_match J tx_id ext \<longleftrightarrow>
     is_string J ext \<and>
     (get_string J ext = tx_id \<or>
      starts_with tx_id ''0x'' \<and> 10 < length tx_id \<and> mentions (get_string J ext) (drop 2 tx_id))"

text \<open>Whether the pool of pending extrinsics holds the transaction; \<open>None\<close> when the node does not tell.\<close>

definition poll_pending :: "('w, 'j) node_services \<Rightarrow> network_client \<Rightarrow> string \<Rightarrow> ('w, bool option) node_call" where
  "poll_pending V c tx_id =
     call_catch
       (call_bind (call_list V c ''author_pendingExtrinsics'' []) (\<lambda>pending.
          call_return (Some (is_array (nd_json V) pending \<and>
            list_ex (pending_match (nd_json V) tx_id) (elements (nd_json V) pending)))))
       (\<lambda>_. call_return None)"

definition past_limit :: "('w, 'j) node_services \<Rightarrow> network_client \<Rightarrow> u64 \<Rightarrow> u32 \<Rightarrow> ('w, bool) node_call" where
  "past_limit V c start_height max_blocks =
     (if max_blocks = 0 then call_return False
      else call_catch
        (call_bind (get_chain_tip V c) (\<lambda>tip. call_return (start_height + ucast max_blocks \<le> fst tip)))
        (\<lambda>_. call_return False))"

text \<open>The body of the loop: what is returned, if anything, and whether the transaction was seen.\<close>

definition confirm_step ::
  "('w, 'j) node_services \<Rightarrow> network_client \<Rightarrow> string \<Rightarrow> u64 \<Rightarrow> u32 \<Rightarrow> bool \<Rightarrow> ('w, bool option \<times> bool) node_call" where
  "confirm_step V c tx_id start_height max_blocks seen =
     call_bind (poll_pending V c tx_id) (\<lambda>p.
       if p = Some False \<and> seen then call_return (Some True, seen)
       else
         call_bind (past_limit V c start_height max_blocks) (\<lambda>over.
           call_return (if over then Some False else None, seen \<or> p = Some True)))"

partial_function (option) confirm_loop ::
  "(bool \<Rightarrow> ('s, bool option \<times> bool) call) \<Rightarrow> u32 \<Rightarrow> u32 \<Rightarrow> bool \<Rightarrow> ('s, bool) io" where
  "confirm_loop step max_blocks iteration seen s =
     (if max_blocks = 0 \<or> iteration < max_blocks then
        (case step seen s of
           (Inl e, s) \<Rightarrow> Some (Inl e, s)
         | (Inr (Some b, _), s) \<Rightarrow> Some (Inr b, s)
         | (Inr (None, seen), s) \<Rightarrow> confirm_loop step max_blocks (iteration + 1) seen s)
      else Some (Inr False, s))"

definition wait_for_confirmation :: "('w, 'j) node_services \<Rightarrow> network_client \<Rightarrow> string \<Rightarrow> u32 \<Rightarrow> (u32 \<times> 'w, bool) io" where
  "wait_for_confirmation V c tx_id max_blocks s =
     (if tx_id = [] then Some (Inr False, s)
      else
        (case call_catch (call_bind (get_chain_tip V c) (\<lambda>tip. call_return (fst tip))) (\<lambda>_. call_return 0) s of
           (Inl e, s) \<Rightarrow> Some (Inl e, s)
         | (Inr start_height, s) \<Rightarrow>
             confirm_loop (confirm_step V c tx_id start_height max_blocks) max_blocks 0 False s))"

section \<open>What is submitted\<close>

lemma hex_of_bytes_read:
  assumes "util_hex_to_bytes s = Inr bs" and "s \<noteq> []"
  shows "is_hex_string s"
proof -
  have e: "even (length s)" and l: "util_hex_loop s = Inr bs"
    using assms by (auto simp: util_hex_to_bytes_def even_iff_mod_2_eq_zero split: if_splits)
  then have m: "map tolower s = util_bytes_to_hex bs" by (simp add: util_hex_loop_Inr)
  have "isxdigit c" if "c \<in> set s" for c
  proof -
    have "tolower c \<in> set (util_bytes_to_hex bs)" using that m by (metis imageI set_map)
    then show ?thesis using util_bytes_to_hex_xdigits isxdigit_tolower by blast
  qed
  then show ?thesis using e assms(2) by (auto simp: is_hex_string_def list_all_iff even_iff_mod_2_eq_zero)
qed

lemma unsigned_extrinsic: "build_unsigned call = bytes_enc (0x04 # encode_call call)"
  by (simp add: build_unsigned_def finalize_with_length_def encode_u8_def encode_raw_def push_bytes_def new_encoder_def
      encode_compact_def bytes_enc_def Let_def)

lemma send_call: "tx \<noteq> [] \<Longrightarrow> \<exists>call. midnight_send_mn_transaction tx 5 = Inr call \<and> encode_call call = 5 # 0 # bytes_enc tx"
  by (simp add: midnight_send_mn_transaction_def encode_call_def encode_bytes_def push_bytes_def new_encoder_def
      encode_compact_def bytes_enc_def)

lemma bytes_enc_read:
  "length (bytes_enc bs) < 2 ^ 64 \<Longrightarrow>
     \<exists>d. decode_bytes (new_decoder (bytes_enc bs)) = Inr (bs, d) \<and> decoder_is_empty d"
  using bytes_codec.dec_enc [of bs "[]" "[]"]
  by (simp add: new_decoder_at decoder_is_empty_def decoder_at_def bytes_enc_def)

text \<open>The transaction is submitted as an extrinsic that is the one call of the ledger pallet.\<close>

lemma submitted_as_extrinsic:
  assumes "util_hex_to_bytes (strip_hex_prefix tx_hex) = Inr tx" and "tx \<noteq> []"
  shows "\<exists>call. encode_call call = 5 # 0 # bytes_enc tx \<and> build_unsigned call \<noteq> [] \<and>
    node_submit_transaction V c tx_hex = submit_extrinsic V c (''0x'' @ util_bytes_to_hex (build_unsigned call))"
proof -
  obtain call where call: "midnight_send_mn_transaction tx 5 = Inr call" "encode_call call = 5 # 0 # bytes_enc tx"
    using send_call [OF assms(2)] by blast
  have clean: "strip_hex_prefix tx_hex \<noteq> []"
    using assms(1,2) by (auto simp: util_hex_to_bytes_def)
  have "ensure_hex_prefix (util_bytes_to_hex bs) = ''0x'' @ util_bytes_to_hex bs" if "bs \<noteq> []" for bs
    using no_prefix_in_hex [of bs] that length_util_bytes_to_hex [of bs] by (auto simp add: ensure_hex_prefix_def simp del: length_util_bytes_to_hex)
  moreover have ne: "build_unsigned call \<noteq> []" by (simp add: unsigned_extrinsic bytes_enc_def)
  ultimately have "node_submit_transaction V c tx_hex = submit_extrinsic V c (''0x'' @ util_bytes_to_hex (build_unsigned call))"
    using clean call(1) assms(1) hex_of_bytes_read [OF assms(1) clean]
    by (simp add: node_submit_transaction_def new_extrinsic_builder_def unsigned_params_def)
  with call(2) ne show ?thesis by blast
qed

text \<open>
  C5: A transaction that is submitted goes out as an unsigned extrinsic that a node reads back exactly: behind its
  length prefix version 4, pallet 5, call 0 and the bytes of the transaction.
\<close>

theorem submitted_transaction_reads:
  assumes "util_hex_to_bytes (strip_hex_prefix tx_hex) = Inr tx" and "tx \<noteq> []" and "length tx + 32 < 2 ^ 64"
  shows "\<exists>xt args d d'. node_submit_transaction V c tx_hex = submit_extrinsic V c (''0x'' @ util_bytes_to_hex xt) \<and>
    decode_bytes (new_decoder xt) = Inr ([4, 5, 0] @ args, d) \<and> decoder_is_empty d \<and>
    decode_bytes (new_decoder args) = Inr (tx, d') \<and> decoder_is_empty d'"
proof -
  from submitted_as_extrinsic [OF assms(1,2)] obtain call where call: "encode_call call = 5 # 0 # bytes_enc tx"
    and s: "node_submit_transaction V c tx_hex = submit_extrinsic V c (''0x'' @ util_bytes_to_hex (build_unsigned call))"
    and "build_unsigned call \<noteq> []" by blast
  have l1: "length (bytes_enc tx) \<le> length tx + 9"
    using compact_bytes_length(2) [of "word_of_nat (length tx)"] by (simp add: bytes_enc_def)
  have l2: "length (bytes_enc ([4, 5, 0] @ bytes_enc tx)) \<le> length (bytes_enc tx) + 12"
    using compact_bytes_length(2) [of "word_of_nat (length ([4, 5, 0] @ bytes_enc tx))"] by (simp add: bytes_enc_def)
  obtain d where d: "decode_bytes (new_decoder (bytes_enc ([4, 5, 0] @ bytes_enc tx))) = Inr ([4, 5, 0] @ bytes_enc tx, d)"
      "decoder_is_empty d"
    using bytes_enc_read [of "[4, 5, 0] @ bytes_enc tx"] l1 l2 assms(3) by force
  obtain d' where d': "decode_bytes (new_decoder (bytes_enc tx)) = Inr (tx, d')" "decoder_is_empty d'"
    using bytes_enc_read [of tx] l1 assms(3) by force
  have "build_unsigned call = bytes_enc ([4, 5, 0] @ bytes_enc tx)" by (simp add: unsigned_extrinsic call)
  with s have "node_submit_transaction V c tx_hex =
      submit_extrinsic V c (''0x'' @ util_bytes_to_hex (bytes_enc ([4, 5, 0] @ bytes_enc tx)))" by (simp only:)
  with d d' show ?thesis by (intro exI conjI) assumption+
qed

section \<open>What confirmation means\<close>

lemma confirm_loop_ends: "max_blocks \<noteq> 0 \<Longrightarrow> \<exists>r. confirm_loop step max_blocks i seen s = Some r"
proof (induction "unat max_blocks - unat i" arbitrary: i seen s rule: less_induct)
  case less
  show ?case
  proof (cases "i < max_blocks")
    case True
    then have "i \<noteq> - 1" using word_order.extremum [of max_blocks] by auto
    then have "unat (i + 1) = unat i + 1" using unatSuc [of i] by (metis Suc_eq_plus1 add.commute add_eq_0_iff2)
    then have "unat max_blocks - unat (i + 1) < unat max_blocks - unat i" using True by (simp add: word_less_nat_alt)
    then have "\<exists>r. confirm_loop step max_blocks (i + 1) seen' s' = Some r" for seen' s'
      using less.hyps less.prems by blast
    then show ?thesis using True less.prems
      by (subst confirm_loop.simps) (auto split: prod.splits sum.splits option.splits)
  next
    case False
    then show ?thesis using less.prems by (subst confirm_loop.simps) simp
  qed
qed

text \<open>With a limit of blocks the wait ends.\<close>

theorem confirmation_wait_ends:
  assumes "max_blocks \<noteq> 0"
  shows "\<exists>r. wait_for_confirmation V c tx_id max_blocks s = Some r"
proof -
  obtain r s0 where r: "call_catch (call_bind (get_chain_tip V c) (\<lambda>tip. call_return (fst tip))) (\<lambda>_. call_return 0) s = (r, s0)"
    by (cases "call_catch (call_bind (get_chain_tip V c) (\<lambda>tip. call_return (fst tip))) (\<lambda>_. call_return 0) s")
  show ?thesis
  proof (cases r)
    case (Inl e)
    then show ?thesis using r by (simp add: wait_for_confirmation_def)
  next
    case (Inr h)
    have "\<exists>r. confirm_loop (confirm_step V c tx_id h max_blocks) max_blocks 0 False s0 = Some r"
      by (rule confirm_loop_ends [OF assms])
    then show ?thesis using r Inr by (simp only: wait_for_confirmation_def prod.case sum.case) auto
  qed
qed

lemma confirm_step_unseen:
  assumes "\<And>s. fst (poll_pending V c tx_id s) \<noteq> Inr (Some True)"
    and "confirm_step V c tx_id start m False s = (Inr (b, seen), s')"
  shows "b \<noteq> Some True \<and> \<not> seen"
  using assms(2) assms(1) [of s] by (auto simp: confirm_step_def call_defs split: prod.splits sum.splits if_splits)

definition stays_unseen :: "(bool \<Rightarrow> ('s, bool option \<times> bool) call) \<Rightarrow> bool" where
  "stays_unseen step \<longleftrightarrow> (\<forall>s b seen s'. step False s = (Inr (b, seen), s') \<longrightarrow> b \<noteq> Some True \<and> \<not> seen)"

lemma confirm_loop_unseen:
  "confirm_loop step m i seen s = Some r \<Longrightarrow> stays_unseen step \<longrightarrow> \<not> seen \<longrightarrow> fst r \<noteq> Inr True"
  by (rule confirm_loop.raw_induct [of "\<lambda>step _ _ seen _ r. stays_unseen step \<longrightarrow> \<not> seen \<longrightarrow> fst r \<noteq> Inr True"])
    (auto simp: stays_unseen_def split: if_splits prod.splits sum.splits option.splits, blast+)

text \<open>One that no poll finds in the pool, because it was included before the first poll, is never confirmed.\<close>

theorem unseen_never_confirmed:
  assumes "\<And>s. fst (poll_pending V c tx_id s) \<noteq> Inr (Some True)"
    and "wait_for_confirmation V c tx_id max_blocks s = Some (Inr b, s')"
  shows "\<not> b"
proof (cases "tx_id = []")
  case False
  obtain r s0 where r: "call_catch (call_bind (get_chain_tip V c) (\<lambda>tip. call_return (fst tip))) (\<lambda>_. call_return 0) s = (r, s0)"
    by (cases "call_catch (call_bind (get_chain_tip V c) (\<lambda>tip. call_return (fst tip))) (\<lambda>_. call_return 0) s")
  show ?thesis
  proof (cases r)
    case (Inr h)
    then have "confirm_loop (confirm_step V c tx_id h max_blocks) max_blocks 0 False s0 = Some (Inr b, s')"
      using assms(2) False r by (simp add: wait_for_confirmation_def)
    moreover have "stays_unseen (confirm_step V c tx_id h max_blocks)"
      unfolding stays_unseen_def using confirm_step_unseen [OF assms(1)] by blast
    ultimately show ?thesis using confirm_loop_unseen by fastforce
  qed (use assms(2) False r in \<open>simp add: wait_for_confirmation_def\<close>)
qed (use assms(2) in \<open>simp add: wait_for_confirmation_def\<close>)

text \<open>And one that was dropped from the pool as invalid is confirmed.\<close>

theorem dropped_is_confirmed:
  assumes "tx_id \<noteq> []" and "max_blocks = 0 \<or> 1 < max_blocks"
    and "call_catch (call_bind (get_chain_tip V c) (\<lambda>tip. call_return (fst tip))) (\<lambda>_. call_return 0) s = (Inr h, s0)"
    and "poll_pending V c tx_id s0 = (Inr (Some True), s1)" and "past_limit V c h max_blocks s1 = (Inr False, s2)"
    and "poll_pending V c tx_id s2 = (Inr (Some False), s3)"
  shows "wait_for_confirmation V c tx_id max_blocks s = Some (Inr True, s3)"
proof -
  have "confirm_step V c tx_id h max_blocks False s0 = (Inr (None, True), s2)"
    using assms(4,5) by (simp add: confirm_step_def call_defs)
  moreover have "confirm_step V c tx_id h max_blocks True s2 = (Inr (Some True, True), s3)"
    using assms(6) by (simp add: confirm_step_def call_defs)
  moreover have "max_blocks = 0 \<or> (0 :: u32) < max_blocks" "max_blocks = 0 \<or> (1 :: u32) < max_blocks"
    using assms(2) by (auto simp: word_gt_0)
  ultimately have "confirm_loop (confirm_step V c tx_id h max_blocks) max_blocks 0 False s0 = Some (Inr True, s3)"
    by (subst confirm_loop.simps, simp, subst confirm_loop.simps, simp)
  then show ?thesis using assms(1,3) by (simp add: wait_for_confirmation_def)
qed

text \<open>The rounds of the loop that go on: whether the transaction was seen, and the state.\<close>

definition loop_round :: "(bool \<Rightarrow> ('s, bool option \<times> bool) call) \<Rightarrow> bool \<times> 's \<Rightarrow> bool \<times> 's \<Rightarrow> bool" where
  "loop_round step p q \<longleftrightarrow> step (fst p) (snd p) = (Inr (None, fst q), snd q)"

lemma confirm_loop_rounds:
  fixes step :: "bool \<Rightarrow> ('s, bool option \<times> bool) call"
  assumes "confirm_loop step m i seen s = Some (Inr True, s')"
  shows "\<exists>seen' s1 x. (loop_round step)\<^sup>*\<^sup>* (seen, s) (seen', s1) \<and> step seen' s1 = (Inr (Some True, x), s')"
proof -
  let ?P = "\<lambda>(step :: bool \<Rightarrow> ('s, bool option \<times> bool) call) seen s (r :: bool result \<times> 's). fst r = Inr True \<longrightarrow>
    (\<exists>seen' s1 x. (loop_round step)\<^sup>*\<^sup>* (seen, s) (seen', s1) \<and> step seen' s1 = (Inr (Some True, x), snd r))"
  have "?P step seen s (Inr True, s')"
  proof (rule confirm_loop.raw_induct [of "\<lambda>step _ _. ?P step", OF _ assms])
    fix f :: "(bool \<Rightarrow> ('s, bool option \<times> bool) call) \<Rightarrow> u32 \<Rightarrow> u32 \<Rightarrow> bool \<Rightarrow> ('s, bool) io" and step m i seen s r
    assume IH: "\<And>step m i seen s r. f step m i seen s = Some r \<Longrightarrow> ?P step seen s r"
      and r: "(if m = 0 \<or> i < m then
          (case step seen s of (Inl e, s) \<Rightarrow> Some (Inl e, s) | (Inr (Some b, _), s) \<Rightarrow> Some (Inr b, s)
           | (Inr (None, seen), s) \<Rightarrow> f step m (i + 1) seen s) else Some (Inr False, s)) = Some r"
    show "?P step seen s r"
    proof
      assume t: "fst r = Inr True"
      with r have go: "m = 0 \<or> i < m" by (auto split: if_splits)
      obtain o1 s1 where st: "step seen s = (o1, s1)" by (cases "step seen s")
      show "\<exists>seen' s1 x. (loop_round step)\<^sup>*\<^sup>* (seen, s) (seen', s1) \<and> step seen' s1 = (Inr (Some True, x), snd r)"
      proof (cases "\<exists>seen1. o1 = Inr (None, seen1)")
        case True
        then obtain seen1 where o: "o1 = Inr (None, seen1)" by blast
        have "f step m (i + 1) seen1 s1 = Some r" using r go st o by simp
        from IH [OF this] t obtain seen' s2 x where
          "(loop_round step)\<^sup>*\<^sup>* (seen1, s1) (seen', s2)" "step seen' s2 = (Inr (Some True, x), snd r)" by blast
        moreover have "loop_round step (seen, s) (seen1, s1)" using st o by (simp add: loop_round_def)
        ultimately show ?thesis by (meson converse_rtranclp_into_rtranclp)
      next
        case False
        with r go st t obtain x where "step seen s = (Inr (Some True, x), snd r)"
          by (auto split: sum.splits prod.splits option.splits)
        then show ?thesis by blast
      qed
    qed
  qed
  then show ?thesis by simp
qed

lemma round_seen:
  "loop_round (confirm_step V c tx_id h max_blocks) (b, s) (True, s') \<Longrightarrow> \<not> b \<Longrightarrow>
     \<exists>s1. poll_pending V c tx_id s = (Inr (Some True), s1)"
  by (auto simp: loop_round_def confirm_step_def call_defs split: prod.splits sum.splits if_splits)

lemma last_round:
  "confirm_step V c tx_id h max_blocks b s = (Inr (Some True, x), s') \<Longrightarrow>
     b \<and> poll_pending V c tx_id s = (Inr (Some False), s')"
  by (auto simp: confirm_step_def call_defs split: prod.splits sum.splits if_splits)

lemma rounds_seen:
  assumes "(loop_round (confirm_step V c tx_id h max_blocks))\<^sup>*\<^sup>* (False, s0) (True, s3)"
  shows "\<exists>s1 s1' s2. (loop_round (confirm_step V c tx_id h max_blocks))\<^sup>*\<^sup>* (False, s0) (False, s1) \<and>
    poll_pending V c tx_id s1 = (Inr (Some True), s1') \<and>
    loop_round (confirm_step V c tx_id h max_blocks) (False, s1) (True, s2) \<and>
    (loop_round (confirm_step V c tx_id h max_blocks))\<^sup>*\<^sup>* (True, s2) (True, s3)"
proof -
  let ?r = "loop_round (confirm_step V c tx_id h max_blocks)"
  let ?P = "\<lambda>q. fst q \<longrightarrow> (\<exists>s1 s1' s2. ?r\<^sup>*\<^sup>* (False, s0) (False, s1) \<and>
    poll_pending V c tx_id s1 = (Inr (Some True), s1') \<and> ?r (False, s1) (True, s2) \<and> ?r\<^sup>*\<^sup>* (True, s2) q)"
  have "?P (True, s3)"
    using assms
  proof (induction rule: rtranclp_induct)
    case (step p q)
    obtain b s where p: "p = (b, s)" by (cases p)
    obtain b' s' where q: "q = (b', s')" by (cases q)
    show ?case
    proof (cases b)
      case True
      with step(3) obtain s1 s1' s2 where "?r\<^sup>*\<^sup>* (False, s0) (False, s1)" "poll_pending V c tx_id s1 = (Inr (Some True), s1')"
        "?r (False, s1) (True, s2)" "?r\<^sup>*\<^sup>* (True, s2) p" unfolding p by auto
      with step(2) show ?thesis by (meson rtranclp.rtrancl_into_rtrancl)
    next
      case False
      show ?thesis
      proof
        assume b': "fst q"
        with step(2) have r: "?r (False, s) (True, s')" unfolding p q using False by simp
        from round_seen [OF this] obtain s1 where "poll_pending V c tx_id s = (Inr (Some True), s1)" by auto
        moreover have "?r\<^sup>*\<^sup>* (False, s0) (False, s)" using step(1) unfolding p using False by simp
        moreover have "q = (True, s')" using b' q by simp
        ultimately show "\<exists>s1 s1' s2. ?r\<^sup>*\<^sup>* (False, s0) (False, s1) \<and>
            poll_pending V c tx_id s1 = (Inr (Some True), s1') \<and> ?r (False, s1) (True, s2) \<and> ?r\<^sup>*\<^sup>* (True, s2) q"
          using r by blast
      qed
    qed
  qed simp
  then show ?thesis by simp
qed

text \<open>
  C4: A confirmed transaction was found in the pool of pending extrinsics by one poll, and a later poll, the last thing
  that was asked of the node, did not find it there any more. The rounds of the loop before, between and up to these two
  are named.
\<close>

theorem confirmed_left_pool:
  assumes "wait_for_confirmation V c tx_id max_blocks s = Some (Inr True, s')"
  shows "\<exists>h s0 s1 s1' s2 s3. tx_id \<noteq> [] \<and>
    call_catch (call_bind (get_chain_tip V c) (\<lambda>tip. call_return (fst tip))) (\<lambda>_. call_return 0) s = (Inr h, s0) \<and>
    (loop_round (confirm_step V c tx_id h max_blocks))\<^sup>*\<^sup>* (False, s0) (False, s1) \<and>
    poll_pending V c tx_id s1 = (Inr (Some True), s1') \<and>
    loop_round (confirm_step V c tx_id h max_blocks) (False, s1) (True, s2) \<and>
    (loop_round (confirm_step V c tx_id h max_blocks))\<^sup>*\<^sup>* (True, s2) (True, s3) \<and>
    poll_pending V c tx_id s3 = (Inr (Some False), s')"
proof -
  obtain h s0 where ne: "tx_id \<noteq> []"
    and tip: "call_catch (call_bind (get_chain_tip V c) (\<lambda>tip. call_return (fst tip))) (\<lambda>_. call_return 0) s = (Inr h, s0)"
    and loop: "confirm_loop (confirm_step V c tx_id h max_blocks) max_blocks 0 False s0 = Some (Inr True, s')"
    using assms by (auto simp: wait_for_confirmation_def split: if_splits prod.splits sum.splits)
  from confirm_loop_rounds [OF loop] obtain b s3 x where
    r: "(loop_round (confirm_step V c tx_id h max_blocks))\<^sup>*\<^sup>* (False, s0) (b, s3)"
    and l: "confirm_step V c tx_id h max_blocks b s3 = (Inr (Some True, x), s')" by blast
  from last_round [OF l] have b: b and p: "poll_pending V c tx_id s3 = (Inr (Some False), s')" by simp_all
  from b r have "(loop_round (confirm_step V c tx_id h max_blocks))\<^sup>*\<^sup>* (False, s0) (True, s3)" by simp
  from rounds_seen [OF this] ne tip p show ?thesis by blast
qed

section \<open>Samples\<close>

text \<open>A node whose pool is empty.\<close>

definition empty_pool_json :: "json json_ops" where
  "empty_pool_json = json_std\<lparr>parse := (\<lambda>_. Inr (JObject [(''result'', JArray [])]))\<rparr>"

definition empty_pool :: "(nat, json) node_services" where
  "empty_pool = \<lparr>nd_json = empty_pool_json, nd_http = (\<lambda>ep path hs req w. (Answer 200 ''[]'', w + 1)),
     nd_ws = (\<lambda>url t m w. (Ws_refused, w)), nd_price = (\<lambda>j. Inr 0)\<rparr>"

definition local_node :: network_client where
  "local_node = \<lparr>base_url = ''http://localhost:9944'', timeout_ms = 5000, headers = Map.empty\<rparr>"

theorem submitted_transaction_reads_witness:
  "\<exists>xt args d d'. node_submit_transaction empty_pool local_node ''0xabcd'' = submit_extrinsic empty_pool local_node (''0x'' @ util_bytes_to_hex xt) \<and>
    decode_bytes (new_decoder xt) = Inr ([4, 5, 0] @ args, d) \<and> decoder_is_empty d \<and>
    decode_bytes (new_decoder args) = Inr ([0xAB, 0xCD], d') \<and> decoder_is_empty d'"
proof -
  have h: "util_hex_to_bytes (strip_hex_prefix ''0xabcd'') = Inr [0xAB, 0xCD]"
  proof -
    have "strip_hex_prefix ''0xabcd'' = util_bytes_to_hex [0xAB, 0xCD]"
      by (simp add: strip_hex_prefix_def starts_with_def hex_digit_def) code_simp
    then show ?thesis by (simp only: util_hex_to_bytes_def util_hex_loop_enc length_util_bytes_to_hex) simp
  qed
  have n: "[0xAB, 0xCD :: u8] \<noteq> []" and l: "length [0xAB, 0xCD :: u8] + 32 < 2 ^ 64" by simp_all
  from submitted_transaction_reads [OF h n l] show ?thesis .
qed

lemma empty_pool_post:
  "post_json (nd_json empty_pool) (nd_http empty_pool) local_node path payload w =
     (Inr (JObject [(''result'', JArray [])]), w + 1)"
proof -
  have "parse_url ''http://localhost:9944'' =
      Inr \<lparr>ep_host = ''localhost'', ep_port = 9944, path_prefix = [], use_tls = False\<rparr>" by code_simp
  then show ?thesis
    by (simp add: post_json_def send_def local_node_def empty_pool_def do_post_result_def parse_body_def empty_pool_json_def)
qed

lemma empty_pool_result: "rpc_answer_of (nd_json empty_pool) missing method (JObject [(''result'', j)]) = Rpc_result j"
  by (simp add: rpc_answer_of_def has_value_def empty_pool_def empty_pool_json_def json_std_def)

lemma empty_pool_answer: "call_list empty_pool local_node method ps (n, w) = (Inr (JArray []), (n + 1, w + 1))"
  by (simp add: call_list_def node_rpc_call_def call_defs get_next_request_id_def on_world_def node_rpc_paths_def
      empty_pool_post empty_pool_result)

lemma empty_pool_poll: "poll_pending empty_pool local_node tx_id (n, w) = (Inr (Some False), (n + 1, w + 1))"
  by (simp add: poll_pending_def call_defs empty_pool_answer) (simp add: empty_pool_def empty_pool_json_def json_std_def)

text \<open>A node whose pool holds the transaction when it is first asked for it, and not when it is asked again.\<close>

definition leaving_pool_json :: "json json_ops" where
  "leaving_pool_json = json_std\<lparr>parse := (\<lambda>s. Inr (JObject
     [(''result'', JArray (if s = ''pending'' then [JString ''0xab''] else []))]))\<rparr>"

definition leaving_pool :: "(nat, json) node_services" where
  "leaving_pool = empty_pool\<lparr>nd_json := leaving_pool_json,
     nd_http := (\<lambda>ep path hs req w. (Answer 200 (if w = 1 then ''pending'' else ''empty''), w + 1))\<rparr>"

lemma leaving_pool_post:
  "post_json (nd_json leaving_pool) (nd_http leaving_pool) local_node path payload w =
     (Inr (JObject [(''result'', JArray (if w = 1 then [JString ''0xab''] else []))]), w + 1)"
proof -
  have "parse_url ''http://localhost:9944'' =
      Inr \<lparr>ep_host = ''localhost'', ep_port = 9944, path_prefix = [], use_tls = False\<rparr>" by code_simp
  then show ?thesis
    by (simp add: post_json_def send_def local_node_def leaving_pool_def empty_pool_def do_post_result_def parse_body_def
        leaving_pool_json_def)
qed

lemma leaving_pool_result: "rpc_answer_of (nd_json leaving_pool) missing method (JObject [(''result'', j)]) = Rpc_result j"
  by (simp add: rpc_answer_of_def has_value_def leaving_pool_def leaving_pool_json_def json_std_def)

lemma leaving_pool_call:
  "node_rpc_call leaving_pool local_node method params (n, w) =
     (Inr (JArray (if w = 1 then [JString ''0xab''] else [])), (n + 1, w + 1))"
  by (simp add: node_rpc_call_def call_defs get_next_request_id_def on_world_def node_rpc_paths_def
      leaving_pool_post leaving_pool_result)

lemma leaving_pool_poll: "poll_pending leaving_pool local_node ''0xab'' (n, w) = (Inr (Some (w = 1)), (n + 1, w + 1))"
  by (simp add: poll_pending_def call_list_def call_defs leaving_pool_call)
    (simp add: leaving_pool_def leaving_pool_json_def json_std_def pending_match_def)

lemma leaving_pool_array: "json_value (nd_json leaving_pool) f (JArray xs) k d = Inl type_error"
  by (simp add: json_value_def leaving_pool_def leaving_pool_json_def json_std_def)

lemma leaving_pool_tip:
  "call_catch (call_bind (get_chain_tip leaving_pool local_node) (\<lambda>tip. call_return (fst tip))) (\<lambda>_. call_return 0) (1, 0) =
     (Inr 0, (2, 1))"
  by (simp add: get_chain_tip_def call_plain_def call_defs leaving_pool_call leaving_pool_array Let_def)
    (simp add: type_error_def call_return_def)

theorem confirmed_left_pool_witness:
  "wait_for_confirmation leaving_pool local_node ''0xab'' 0 (1, 0) = Some (Inr True, (4, 3)) \<and>
   (\<exists>h s0 s1 s1' s2 s3.
      call_catch (call_bind (get_chain_tip leaving_pool local_node) (\<lambda>tip. call_return (fst tip))) (\<lambda>_. call_return 0) (1, 0) =
        (Inr h, s0) \<and>
      (loop_round (confirm_step leaving_pool local_node ''0xab'' h 0))\<^sup>*\<^sup>* (False, s0) (False, s1) \<and>
      poll_pending leaving_pool local_node ''0xab'' s1 = (Inr (Some True), s1') \<and>
      loop_round (confirm_step leaving_pool local_node ''0xab'' h 0) (False, s1) (True, s2) \<and>
      (loop_round (confirm_step leaving_pool local_node ''0xab'' h 0))\<^sup>*\<^sup>* (True, s2) (True, s3) \<and>
      poll_pending leaving_pool local_node ''0xab'' s3 = (Inr (Some False), (4, 3)))"
proof -
  have step: "confirm_step leaving_pool local_node ''0xab'' 0 0 seen (n, w) =
      (if w \<noteq> 1 \<and> seen then (Inr (Some True, seen), (n + 1, w + 1)) else (Inr (None, seen \<or> w = 1), (n + 1, w + 1)))" for seen n w
    by (simp add: confirm_step_def call_defs leaving_pool_poll past_limit_def)
  have w: "wait_for_confirmation leaving_pool local_node ''0xab'' 0 (1, 0) = Some (Inr True, (4, 3))"
    by (simp add: wait_for_confirmation_def leaving_pool_tip) (subst confirm_loop.simps, simp add: step, subst confirm_loop.simps, simp add: step)
  then show ?thesis using confirmed_left_pool [OF w] by blast
qed

theorem unseen_never_confirmed_witness:
  "\<exists>b s'. wait_for_confirmation empty_pool local_node ''0xab'' 3 (1, 0) = Some (b, s') \<and> b \<noteq> Inr True"
proof -
  have u: "fst (poll_pending empty_pool local_node ''0xab'' s) \<noteq> Inr (Some True)" for s
    by (cases s) (simp add: empty_pool_poll)
  have "(3 :: u32) \<noteq> 0" by simp
  then obtain b s' where w: "wait_for_confirmation empty_pool local_node ''0xab'' 3 (1, 0) = Some (b, s')"
    using confirmation_wait_ends [of 3 empty_pool local_node "''0xab''" "(1, 0)"] by auto
  have "b \<noteq> Inr True"
  proof
    assume "b = Inr True"
    with w have "wait_for_confirmation empty_pool local_node ''0xab'' 3 (1, 0) = Some (Inr True, s')" by simp
    from unseen_never_confirmed [OF u this] show False by simp
  qed
  with w show ?thesis by blast
qed

end
