(* ===== verification/Client.thy ===== *)
theory Client
  imports ClientChecks Artifacts NodeRpc IndexerQueries
begin

text \<open>
  The production client (include/midnight/production/midnight_client.hpp, src/production/midnight_client.cpp): it builds
  transactions with the ledger backend after its checks, compares the versions of ledger and proof server, looks
  up the context of a transaction with the node, submits it, keeps its artifacts, and answers queries. Results:
  what is submitted passed the checks and is what the backend built; its parent blocks are known to the node.
\<close>

section \<open>The client\<close>

text \<open>
  What surrounds the client: the platform, WebSockets and prices of the node client, a clock in nanoseconds, and
  sleeping.
\<close>

record ('w, 'j) surroundings =
  su_platform :: "('w, 'j) platform"
  su_ws :: "string \<Rightarrow> u32 \<Rightarrow> string \<Rightarrow> 'w \<Rightarrow> ws_answer \<times> 'w"
  su_price :: "'j \<Rightarrow> u64 result"
  su_clock :: "'w \<Rightarrow> nat \<times> 'w"
  su_sleep :: "int \<Rightarrow> 'w \<Rightarrow> 'w"
  su_loader :: "string \<Rightarrow> string option + 'w ffi_library"

definition node_services_of :: "('w, 'j) surroundings \<Rightarrow> ('w, 'j) node_services" where
  "node_services_of S =
     \<lparr>nd_json = pf_json (su_platform S), nd_http = pf_http (su_platform S), nd_ws = su_ws S, nd_price = su_price S\<rparr>"

definition indexer_services_of :: "('w, 'j) surroundings \<Rightarrow> ('w, 'j) services" where
  "indexer_services_of S =
     \<lparr>json_of = pf_json (su_platform S), http_of = pf_http (su_platform S), steady_clock = su_clock S,
      environment = pf_env (su_platform S)\<rparr>"

record ('w, 'j) client =
  mc_config :: client_config
  mc_node :: network_client
  mc_next_id :: u32
  mc_indexer :: "'j indexer_client"
  mc_proof :: "proof_client option"
  mc_ledger :: "'w ledger_backend"
  mc_state :: "('w, 'j) state_backend"

definition make_state_backend_for_config ::
  "('w, 'j) platform \<Rightarrow> client_config \<Rightarrow> 'w ledger_backend \<Rightarrow> ('w, 'j) state_backend" where
  "make_state_backend_for_config P config ledger =
     (if cc_state_mode config = Managed_mode then make_managed_state_backend P (cc_service config)
      else make_local_state_backend P (Some ledger) (cc_state_mode config))"

definition new_midnight_client ::
  "('w, 'j) surroundings \<Rightarrow> client_config \<Rightarrow> 'w ledger_backend option \<Rightarrow> ('w, 'j) client result" where
  "new_midnight_client S config ledger =
     (if cc_node_url config = [] then Inl (Runtime_error ''Midnight node URL is required'')
      else if cc_indexer_url config = [] then Inl (Runtime_error ''Midnight indexer URL is required'')
      else
        rbind (new_network_client (cc_node_url config) (cc_node_timeout config)) (\<lambda>node.
        rbind (new_indexer_client (cc_indexer_url config) 15000) (\<lambda>indexer.
        rbind (if cc_proof_url config = [] then Inr None
               else rbind (proof_config_from_url (cc_proof_url config) (cc_proof_timeout config)) (\<lambda>pc.
                 rbind (new_proof_client pc) (\<lambda>p. Inr (Some p)))) (\<lambda>proof.
          let lb = (case ledger of None \<Rightarrow> unavailable_backend | Some lb \<Rightarrow> lb)
          in Inr \<lparr>mc_config = config, mc_node = node, mc_next_id = 1, mc_indexer = indexer, mc_proof = proof,
               mc_ledger = lb, mc_state = make_state_backend_for_config (su_platform S) config lb\<rparr>))))"

definition new_ffi_client :: "('w, 'j) surroundings \<Rightarrow> client_config \<Rightarrow> ('w, 'j) client result" where
  "new_ffi_client S config =
     new_midnight_client S config (Some (make_ffi_ledger_backend (pf_json (su_platform S)) (su_loader S) (cc_ffi_library config)))"

definition set_ledger_backend ::
  "('w, 'j) surroundings \<Rightarrow> 'w ledger_backend option \<Rightarrow> ('w, 'j) client \<Rightarrow> ('w, 'j) client" where
  "set_ledger_backend S ledger c =
     (let lb = (case ledger of None \<Rightarrow> unavailable_backend | Some lb \<Rightarrow> lb)
      in c\<lparr>mc_ledger := lb,
           mc_state := (if cc_state_mode (mc_config c) \<noteq> Managed_mode
             then make_state_backend_for_config (su_platform S) (mc_config c) lb else mc_state c)\<rparr>)"

definition set_state_backend ::
  "('w, 'j) surroundings \<Rightarrow> ('w, 'j) state_backend option \<Rightarrow> ('w, 'j) client \<Rightarrow> ('w, 'j) client" where
  "set_state_backend S state c =
     c\<lparr>mc_state := (case state of
         Some b \<Rightarrow> b | None \<Rightarrow> make_state_backend_for_config (su_platform S) (mc_config c) (mc_ledger c))\<rparr>"

text \<open>Calls of the client pass on its state and the world; those of its parts are lifted.\<close>

type_synonym ('w, 'j, 'a) client_call = "(('w, 'j) client \<times> 'w, 'a) call"

type_synonym ('w, 'j, 'a) client_io = "(('w, 'j) client \<times> 'w, 'a) io"

definition outside :: "(('w, 'j) client \<Rightarrow> ('w, 'a) call) \<Rightarrow> ('w, 'j, 'a) client_call" where
  "outside m s = (case s of (c, w) \<Rightarrow> (case m c w of (r, w) \<Rightarrow> (r, (c, w))))"

definition on_node :: "(network_client \<Rightarrow> ('w, 'a) node_call) \<Rightarrow> ('w, 'j, 'a) client_call" where
  "on_node m s =
     (case s of (c, w) \<Rightarrow> (case m (mc_node c) (mc_next_id c, w) of (r, (n, w)) \<Rightarrow> (r, (c\<lparr>mc_next_id := n\<rparr>, w))))"

definition on_indexer :: "('j indexer_client \<times> 'w, 'a) call \<Rightarrow> ('w, 'j, 'a) client_call" where
  "on_indexer m s =
     (case s of (c, w) \<Rightarrow> (case m (mc_indexer c, w) of (r, (i, w)) \<Rightarrow> (r, (c\<lparr>mc_indexer := i\<rparr>, w))))"

definition on_indexer_io :: "('j indexer_client \<times> 'w, 'a) io \<Rightarrow> ('w, 'j, 'a) client_io" where
  "on_indexer_io m s =
     (case s of (c, w) \<Rightarrow>
        (case m (mc_indexer c, w) of None \<Rightarrow> None | Some (r, (i, w)) \<Rightarrow> Some (r, (c\<lparr>mc_indexer := i\<rparr>, w))))"

definition on_proof :: "(proof_client \<times> 'w, 'a) call \<Rightarrow> 'a \<Rightarrow> ('w, 'j, 'a) client_call" where
  "on_proof m missing s =
     (case s of (c, w) \<Rightarrow>
        (case mc_proof c of
           None \<Rightarrow> (Inr missing, s)
         | Some p \<Rightarrow> (case m (p, w) of (r, (p, w)) \<Rightarrow> (r, (c\<lparr>mc_proof := Some p\<rparr>, w)))))"

section \<open>The ledger library\<close>

definition client_backend_info :: "('w, 'j) surroundings \<Rightarrow> ('w, 'j, backend_info) client_call" where
  "client_backend_info S =
     outside (\<lambda>c. case lb_library (mc_ledger c) of
        Some F \<Rightarrow>
          if can_report_backend_info F then ffi_backend_info (pf_json (su_platform S)) F
          else call_return (new_backend_info\<lparr>bk_error :=
            ''Ledger backend info requires libmidnight_ledger_ffi with midnight_ledger_backend_info''\<rparr>)
      | None \<Rightarrow> call_return (new_backend_info\<lparr>bk_error :=
            ''Ledger backend info requires libmidnight_ledger_ffi with midnight_ledger_backend_info''\<rparr>))"

definition validate_ledger_value ::
  "('w, 'j) surroundings \<Rightarrow> string \<Rightarrow> string \<Rightarrow> string \<Rightarrow> ('w, 'j, validation_result) client_call" where
  "validate_ledger_value S kind value network =
     outside (\<lambda>c. case lb_library (mc_ledger c) of
        Some F \<Rightarrow>
          if can_validate F
          then ffi_validate (pf_json (su_platform S)) F kind value (if network = [] then cc_network (mc_config c) else network)
          else call_return (new_validation_result\<lparr>vr_error :=
            ''Native ledger validation requires libmidnight_ledger_ffi with midnight_ledger_validate''\<rparr>)
      | None \<Rightarrow> call_return (new_validation_result\<lparr>vr_error :=
            ''Native ledger validation requires libmidnight_ledger_ffi with midnight_ledger_validate''\<rparr>))"

definition inspect_transaction_hex ::
  "('w, 'j) surroundings \<Rightarrow> string \<Rightarrow> u8 \<Rightarrow> ('w, 'j, inspection_result) client_call" where
  "inspect_transaction_hex S hex version =
     outside (\<lambda>c. case lb_library (mc_ledger c) of
        Some F \<Rightarrow>
          if can_inspect_transactions F then ffi_inspect_transaction (pf_json (su_platform S)) F hex version
          else call_return (new_inspection_result\<lparr>ir_error :=
            ''Transaction inspection requires libmidnight_ledger_ffi with midnight_ledger_inspect_transaction''\<rparr>)
      | None \<Rightarrow> call_return (new_inspection_result\<lparr>ir_error :=
            ''Transaction inspection requires libmidnight_ledger_ffi with midnight_ledger_inspect_transaction''\<rparr>))"

definition derive_wallet_addresses ::
  "('w, 'j) surroundings \<Rightarrow> string \<Rightarrow> string \<Rightarrow> ('w, 'j, derivation_result) client_call" where
  "derive_wallet_addresses S seed network =
     outside (\<lambda>c. case lb_library (mc_ledger c) of
        Some F \<Rightarrow>
          if can_derive_wallet_addresses F
          then ffi_derive_wallet_addresses (pf_json (su_platform S)) F seed
            (if network = [] then cc_network (mc_config c) else network)
          else call_return (new_derivation_result\<lparr>dr_error :=
            ''Canonical wallet derivation requires libmidnight_ledger_ffi with midnight_ledger_derive_wallet_addresses''\<rparr>)
      | None \<Rightarrow> call_return (new_derivation_result\<lparr>dr_error :=
            ''Canonical wallet derivation requires libmidnight_ledger_ffi with midnight_ledger_derive_wallet_addresses''\<rparr>))"

section \<open>Building\<close>

text \<open>The versions of the ledger library and of the proof server, when both are known and the check is not off.\<close>

definition version_error :: "string \<Rightarrow> string result \<Rightarrow> build_result option" where
  "version_error expected answer =
     (case answer of
        Inl e \<Rightarrow> Some (new_build_result\<lparr>br_error := ''Proof server version check failed: '' @ exc_what e\<rparr>)
      | Inr version \<Rightarrow>
          (let actual = trim_copy version
           in if actual = []
              then Some (new_build_result\<lparr>br_error :=
                ''Proof server version check failed: /version returned an empty response''\<rparr>)
              else if actual \<noteq> expected
              then Some (new_build_result\<lparr>br_error :=
                ''Proof server version mismatch: expected ledger/proof-server '' @ expected @ '', got '' @ actual @
                ''. Start a proof server built from the same midnight-ledger version as the SDK.''\<rparr>)
              else None))"

definition checked_version :: "('w, 'j) surroundings \<Rightarrow> proof_client \<Rightarrow> string \<Rightarrow> ('w, build_result option) call" where
  "checked_version S p expected w =
     (case get_server_version (pf_http (su_platform S)) p w of
        (Inl Undefined_behaviour, w) \<Rightarrow> (Inl Undefined_behaviour, w)
      | (answer, w) \<Rightarrow> (Inr (version_error expected answer), w))"

definition proof_server_compatibility_error ::
  "('w, 'j) surroundings \<Rightarrow> ('w, 'j) client \<Rightarrow> ('w, build_result option) call" where
  "proof_server_compatibility_error S c =
     (let P = su_platform S
      in if env_value (pf_env P) ''MIDNIGHT_ALLOW_PROOF_SERVER_VERSION_MISMATCH'' = ''1'' then call_return None
         else
           (case (mc_proof c, lb_library (mc_ledger c)) of
              (Some p, Some F) \<Rightarrow>
                if \<not> can_report_backend_info F then call_return None
                else
                  call_bind (ffi_backend_info (pf_json P) F) (\<lambda>info.
                    let expected = trim_copy (bk_ledger info)
                    in if \<not> bk_success info \<or> expected = [] then call_return None
                       else checked_version S p expected)
            | _ \<Rightarrow> call_return None))"

definition configured_proof_server :: "client_config \<Rightarrow> string option \<Rightarrow> string option" where
  "configured_proof_server config proof =
     (if proof = None \<and> cc_proof_url config \<noteq> [] then Some (cc_proof_url config) else proof)"

text \<open>The steps that all builds share; the check and the backend are those of the transaction.\<close>

definition build_checked ::
  "('w, 'j) surroundings \<Rightarrow> ((string \<times> string) list \<Rightarrow> build_submit_result) \<Rightarrow>
   ('w ledger_backend \<Rightarrow> client_config \<Rightarrow> ('w, build_result) call) \<Rightarrow> ('w, 'j, build_result) client_call" where
  "build_checked S check build =
     outside (\<lambda>c w.
       let invalid = check (pf_files (su_platform S) w)
       in if \<not> passes invalid then (Inr (build_validation_failure invalid), w)
          else
            call_bind (proof_server_compatibility_error S c) (\<lambda>err.
              case err of
                Some r \<Rightarrow> call_return r
              | None \<Rightarrow> build (mc_ledger c) (mc_config c)) w)"

definition build_transfer_night :: "('w, 'j) surroundings \<Rightarrow> transfer_params \<Rightarrow> ('w, 'j, build_result) client_call" where
  "build_transfer_night S p =
     (let q = p\<lparr>tn_source := normalize_source_for_build (tn_source p)\<rparr>
      in build_checked S (\<lambda>files. validate_transfer_params files q) (\<lambda>lb config.
           lb_transfer_night lb (q\<lparr>tn_proof_server := configured_proof_server config (tn_proof_server q)\<rparr>)))"

definition build_register_dust :: "('w, 'j) surroundings \<Rightarrow> register_params \<Rightarrow> ('w, 'j, build_result) client_call" where
  "build_register_dust S p =
     (let q = p\<lparr>rd_source := normalize_source_for_build (rd_source p)\<rparr>
      in build_checked S (\<lambda>files. validate_register_dust_params files q) (\<lambda>lb config.
           lb_register_dust lb (q\<lparr>rd_proof_server := configured_proof_server config (rd_proof_server q)\<rparr>)))"

definition build_deregister_dust :: "('w, 'j) surroundings \<Rightarrow> deregister_params \<Rightarrow> ('w, 'j, build_result) client_call" where
  "build_deregister_dust S p =
     (let q = p\<lparr>dd_source := normalize_source_for_build (dd_source p)\<rparr>
      in build_checked S (\<lambda>files. validate_deregister_dust_params files q) (\<lambda>lb config.
           lb_deregister_dust lb (q\<lparr>dd_proof_server := configured_proof_server config (dd_proof_server q)\<rparr>)))"

definition build_simple_contract_deploy :: "('w, 'j) surroundings \<Rightarrow> deploy_params \<Rightarrow> ('w, 'j, build_result) client_call" where
  "build_simple_contract_deploy S p =
     (let q = p\<lparr>dp_source := normalize_source_for_build (dp_source p)\<rparr>
      in build_checked S (\<lambda>files. validate_deploy_params files q) (\<lambda>lb config.
           lb_deploy lb (q\<lparr>dp_proof_server := configured_proof_server config (dp_proof_server q)\<rparr>)))"

definition build_simple_contract_call ::
  "('w, 'j) surroundings \<Rightarrow> contract_call_params \<Rightarrow> ('w, 'j, build_result) client_call" where
  "build_simple_contract_call S p =
     (let q = p\<lparr>cl_source := normalize_source_for_build (cl_source p)\<rparr>
      in build_checked S (\<lambda>files. validate_call_params files q) (\<lambda>lb config.
           lb_call lb (q\<lparr>cl_proof_server := configured_proof_server config (cl_proof_server q)\<rparr>)))"

definition build_custom_contract_transaction ::
  "('w, 'j) surroundings \<Rightarrow> custom_params \<Rightarrow> ('w, 'j, build_result) client_call" where
  "build_custom_contract_transaction S p =
     (let q = p\<lparr>cu_source := normalize_source_for_build (cu_source p)\<rparr>
      in build_checked S (\<lambda>files. validate_custom_contract_params files q) (\<lambda>lb config.
           lb_custom lb (q\<lparr>cu_proof_server := configured_proof_server config (cu_proof_server q)\<rparr>)))"

definition client_sync_ledger_state :: "sync_params \<Rightarrow> ('w, 'j, build_result) client_call" where
  "client_sync_ledger_state p =
     (let q = p\<lparr>sy_source := normalize_source_for_sync (sy_source p)\<rparr>; s = sy_source q;
          refused = (\<lambda>m. call_return (new_build_result\<lparr>br_error := m\<rparr>))
      in if \<not> has_source_input (sc_src_url s) (sc_src_files s)
         then refused ''Ledger state sync requires source.src_url or source.src_files''
         else if half_bounded s
         then refused ''Ledger state sync bounded source requires both from_block and to_block''
         else if bounds_swapped s then refused ''Ledger state sync bounded source from_block must be <= to_block''
         else if sy_wallet_seeds q = [] then refused ''Ledger state sync requires at least one wallet seed''
         else outside (\<lambda>c. lb_sync (mc_ledger c) q))"

section \<open>The context of a transaction\<close>

text \<open>
  The hashes under \<^verbatim>\<open>parentBlockHash\<close>, in the order of the values, each once: the recursion over the value as a
  loop over the values still to visit.
\<close>

definition children :: "'j json_ops \<Rightarrow> 'j \<Rightarrow> 'j list" where
  "children J j = (if is_object J j then map snd (items J j) else if is_array J j then elements J j else [])"

definition own_parent_hash :: "'j json_ops \<Rightarrow> 'j \<Rightarrow> string list" where
  "own_parent_hash J j =
     (if is_object J j \<and> has_key J j ''parentBlockHash'' \<and> is_string J (member J j ''parentBlockHash'')
      then filter (\<lambda>h. h \<noteq> []) [strip_hex_prefix (get_string J (member J j ''parentBlockHash''))] else [])"

definition add_new :: "string list \<Rightarrow> string list \<Rightarrow> string list" where
  "add_new hs found = fold (\<lambda>h hs. if h \<in> set hs then hs else hs @ [h]) found hs"

partial_function (option) collect_loop :: "'j json_ops \<Rightarrow> 'j list \<Rightarrow> string list \<Rightarrow> string list option" where
  "collect_loop J todo hs =
     (case todo of
        [] \<Rightarrow> Some hs
      | j # rest \<Rightarrow> collect_loop J (children J j @ rest) (add_new hs (own_parent_hash J j)))"

definition collect_parent_block_hashes :: "'j json_ops \<Rightarrow> 'j \<Rightarrow> string list option" where
  "collect_parent_block_hashes J j = collect_loop J [j] []"

definition stale_context :: "client_config \<Rightarrow> string \<Rightarrow> sdk_error" where
  "stale_context config h =
     make_error LedgerStateMismatch ''Midnight transaction was built from a non-canonical ledger context''
       (''Transaction context parentBlockHash '' @ ensure_hex_prefix h @ '' is not known by node '' @
        cc_node_url config @ ''. The local source/fetch cache is stale, corrupted, or from a non-canonical fork. '' @
        ''Back up and rebuild the source fetch cache before submitting.'')"

definition check_parent_hash :: "('w, 'j) surroundings \<Rightarrow> string \<Rightarrow> ('w, 'j, sdk_error) client_call" where
  "check_parent_hash S h s =
     (if length h \<noteq> 64 \<or> \<not> is_hex_string h
      then (Inr (make_error LedgerStateMismatch
        ''Midnight transaction context contains an invalid parentBlockHash'' h), s)
      else
        call_catch
          (call_bind (on_node (\<lambda>n. block_hash_exists (node_services_of S) n h)) (\<lambda>known.
             call_return (if known then no_error else stale_context (mc_config (fst s)) h)))
          (\<lambda>what. call_return (make_error NodeRpcError
             ''Could not validate Midnight transaction context against node'' what)) s)"

fun check_parent_hashes :: "('w, 'j) surroundings \<Rightarrow> string list \<Rightarrow> ('w, 'j, sdk_error) client_call" where
  "check_parent_hashes S [] = call_return no_error"
| "check_parent_hashes S (h # hs) =
     call_bind (check_parent_hash S h) (\<lambda>e. if has_error e then call_return e else check_parent_hashes S hs)"

definition validate_built_transaction_context ::
  "('w, 'j) surroundings \<Rightarrow> build_result \<Rightarrow> ('w, 'j, sdk_error) client_io" where
  "validate_built_transaction_context S b =
     (let P = su_platform S; J = pf_json P
      in if env_value (pf_env P) ''MIDNIGHT_SKIP_CONTEXT_CANONICALITY_CHECK'' = ''1'' \<or> br_raw_output b = []
         then io_return no_error
         else
           (case parse J (br_raw_output b) of
              Inl what \<Rightarrow>
                io_return (make_error LedgerBuildError ''Could not validate Midnight transaction context''
                  (''Ledger backend raw_output is not valid JSON: '' @ what))
            | Inr raw \<Rightarrow>
                (case collect_parent_block_hashes J raw of
                   None \<Rightarrow> (\<lambda>_. None)
                 | Some hs \<Rightarrow> io_call (check_parent_hashes S hs))))"

section \<open>Submission\<close>

definition submit_hex ::
  "string \<Rightarrow> string \<Rightarrow> (network_client \<Rightarrow> ('w, string) node_call) \<Rightarrow> string \<Rightarrow> ('w, 'j, submit_result) client_call" where
  "submit_hex malformed failed submit text =
     (let hex = strip_hex_prefix text
      in if hex = [] \<or> length hex mod 2 \<noteq> 0 \<or> \<not> is_hex_string hex
         then call_return (new_submit_result\<lparr>sr_error := malformed, sr_info := make_error InvalidHash malformed []\<rparr>)
         else
           call_catch
             (call_bind (on_node submit) (\<lambda>hash. call_return
                (if hash \<noteq> [] then new_submit_result\<lparr>sr_hash := hash, sr_success := True\<rparr>
                 else new_submit_result\<lparr>sr_error := ''Node returned an empty extrinsic hash'',
                   sr_info := make_error NodeRejectedTx ''Node returned an empty extrinsic hash'' []\<rparr>)))
             (\<lambda>what. call_return (new_submit_result\<lparr>sr_error := what,
                sr_info := make_error NodeRejectedTx failed what\<rparr>)))"

definition submit_midnight_transaction_hex ::
  "('w, 'j) surroundings \<Rightarrow> string \<Rightarrow> ('w, 'j, submit_result) client_call" where
  "submit_midnight_transaction_hex S hex =
     submit_hex ''Midnight transaction must be even-length hex bytes'' ''Midnight transaction submission failed''
       (\<lambda>n. node_submit_transaction (node_services_of S) n hex) hex"

definition submit_extrinsic_hex :: "('w, 'j) surroundings \<Rightarrow> string \<Rightarrow> ('w, 'j, submit_result) client_call" where
  "submit_extrinsic_hex S hex =
     submit_hex ''Extrinsic must be even-length hex bytes'' ''Extrinsic submission failed''
       (\<lambda>n. submit_extrinsic (node_services_of S) n hex) hex"

definition submit_midnight_transaction ::
  "('w, 'j) surroundings \<Rightarrow> bytes \<Rightarrow> ('w, 'j, submit_result) client_call" where
  "submit_midnight_transaction S bs =
     (if bs = []
      then call_return (new_submit_result\<lparr>sr_error := ''Midnight transaction bytes cannot be empty'',
        sr_info := make_error InvalidHash ''Midnight transaction bytes cannot be empty'' []\<rparr>)
      else submit_midnight_transaction_hex S (util_bytes_to_hex bs))"

definition failed_build :: "build_result \<Rightarrow> build_submit_result" where
  "failed_build b =
     (let code = (if mentions (br_error b) ''native Midnight ledger backend'' \<or> mentions (br_error b) ''FFI''
                  then LedgerBackendError else LedgerBuildError);
          err = (if br_error b = [] then ''Transaction build failed'' else br_error b)
      in new_build_submit\<lparr>bs_build := b, bs_error := err, bs_info := make_error code ''Transaction build failed'' err\<rparr>)"

definition submission_outcome :: "build_result \<Rightarrow> submit_result \<Rightarrow> build_submit_result" where
  "submission_outcome b r =
     (let err = (if sr_error r = [] then ''Transaction submission failed'' else sr_error r)
      in if sr_success r then new_build_submit\<lparr>bs_build := b, bs_submit := r, bs_success := True\<rparr>
         else new_build_submit\<lparr>bs_build := b, bs_submit := r, bs_error := err,
           bs_info := (if has_error (sr_info r) then sr_info r else make_error SubmissionRejected err [])\<rparr>)"

definition submit_built_transaction ::
  "('w, 'j) surroundings \<Rightarrow> build_result \<Rightarrow> ('w, 'j, build_submit_result) client_io" where
  "submit_built_transaction S b =
     (if \<not> br_success b then io_return (failed_build b)
      else if br_bytes b = []
      then io_return (new_build_submit\<lparr>bs_build := b,
        bs_error := ''Ledger backend returned no Midnight transaction bytes'',
        bs_info := make_error LedgerBuildError ''Ledger backend returned no Midnight transaction bytes'' []\<rparr>)
      else
        io_bind (validate_built_transaction_context S b) (\<lambda>e.
          if has_error e then io_return (new_build_submit\<lparr>bs_build := b, bs_error := se_message e, bs_info := e\<rparr>)
          else
            io_bind (io_call (submit_midnight_transaction S (br_bytes b))) (\<lambda>r. io_return (submission_outcome b r))))"

text \<open>The parameters are checked as they are given, and by the build once more in their normal form.\<close>

definition build_and_submit ::
  "('w, 'j) surroundings \<Rightarrow> ((string \<times> string) list \<Rightarrow> build_submit_result) \<Rightarrow> ('w, 'j, build_result) client_call \<Rightarrow>
   ('w, 'j, build_submit_result) client_io" where
  "build_and_submit S check build s =
     (let invalid = check (pf_files (su_platform S) (snd s))
      in if \<not> passes invalid then io_return invalid s
         else io_bind (io_call build) (submit_built_transaction S) s)"

definition transfer_night :: "('w, 'j) surroundings \<Rightarrow> transfer_params \<Rightarrow> ('w, 'j, build_submit_result) client_io" where
  "transfer_night S p =
     build_and_submit S (\<lambda>files. validate_transfer_params files p) (build_transfer_night S p)"

definition register_dust :: "('w, 'j) surroundings \<Rightarrow> register_params \<Rightarrow> ('w, 'j, build_submit_result) client_io" where
  "register_dust S p =
     build_and_submit S (\<lambda>files. validate_register_dust_params files p) (build_register_dust S p)"

definition deregister_dust :: "('w, 'j) surroundings \<Rightarrow> deregister_params \<Rightarrow> ('w, 'j, build_submit_result) client_io" where
  "deregister_dust S p =
     build_and_submit S (\<lambda>files. validate_deregister_dust_params files p) (build_deregister_dust S p)"

definition deploy_simple_contract ::
  "('w, 'j) surroundings \<Rightarrow> deploy_params \<Rightarrow> ('w, 'j, build_submit_result) client_io" where
  "deploy_simple_contract S p =
     build_and_submit S (\<lambda>files. validate_deploy_params files p) (build_simple_contract_deploy S p)"

definition call_simple_contract ::
  "('w, 'j) surroundings \<Rightarrow> contract_call_params \<Rightarrow> ('w, 'j, build_submit_result) client_io" where
  "call_simple_contract S p =
     build_and_submit S (\<lambda>files. validate_call_params files p) (build_simple_contract_call S p)"

definition submit_custom_contract_intents ::
  "('w, 'j) surroundings \<Rightarrow> custom_params \<Rightarrow> ('w, 'j, build_submit_result) client_io" where
  "submit_custom_contract_intents S p =
     build_and_submit S (\<lambda>files. validate_custom_contract_params files p) (build_custom_contract_transaction S p)"

section \<open>The state backend\<close>

definition best_effort_remote_tip :: "('w, 'j) surroundings \<Rightarrow> ('w, 'j, u64 option) client_call" where
  "best_effort_remote_tip S =
     call_catch
       (call_bind (on_node (get_chain_tip (node_services_of S))) (\<lambda>tip. call_return (Some (fst tip))))
       (\<lambda>_. call_return None)"

definition with_lag :: "'j json_ops \<Rightarrow> u64 \<Rightarrow> 'j state_status \<Rightarrow> 'j state_status" where
  "with_lag J max_lag s =
     (let s = (if st_ready s \<and> st_checkpoint_available s \<and> 0 < st_remote_tip s
               then (let lag = (if st_checkpoint s < st_remote_tip s then st_remote_tip s - st_checkpoint s else 0)
                     in s\<lparr>st_lag_blocks := lag, st_stale := (max_lag < lag)\<rparr>)
               else s)
      in if is_object J (st_raw s)
         then s\<lparr>st_raw := set_member J (set_member J (set_member J (st_raw s) ''remote_tip_height''
                (mk_number J (uint (st_remote_tip s)))) ''lag_blocks'' (mk_number J (uint (st_lag_blocks s))))
                ''stale'' (mk_bool J (st_stale s))\<rparr>
         else s)"

definition client_state_status ::
  "('w, 'j) surroundings \<Rightarrow> source_config \<Rightarrow> u64 \<Rightarrow> ('w, 'j, 'j state_status) client_call" where
  "client_state_status S source max_lag =
     call_bind (outside (\<lambda>c. sb_status (mc_state c) source None)) (\<lambda>s.
     call_bind
       (if st_checkpoint_available s \<and> st_remote_tip s = 0
        then call_bind (best_effort_remote_tip S) (\<lambda>tip.
          call_return (case tip of None \<Rightarrow> s | Some t \<Rightarrow> s\<lparr>st_remote_tip := t\<rparr>))
        else call_return s) (\<lambda>s.
       call_return (with_lag (pf_json (su_platform S)) max_lag s)))"

definition refresh_state :: "sync_params \<Rightarrow> refresh_options \<Rightarrow> ('w, 'j, 'j refresh_result) client_call" where
  "refresh_state p opts = outside (\<lambda>c. sb_refresh (mc_state c) p opts)"

definition ensure_state_fresh ::
  "('w, 'j) surroundings \<Rightarrow> sync_params \<Rightarrow> refresh_options \<Rightarrow> ('w, 'j, 'j refresh_result) client_call" where
  "ensure_state_fresh S p opts =
     call_bind (client_state_status S (sy_source p) (ro_max_lag_blocks opts)) (\<lambda>before.
       if \<not> ro_force opts \<and> st_ready before \<and>
          (\<not> st_checkpoint_available before \<or> st_lag_blocks before \<le> ro_max_lag_blocks opts)
       then call_return ((new_refresh (pf_json (su_platform S)))\<lparr>rr_before := before, rr_success := True,
         rr_skipped := True, rr_after := before\<rparr>)
       else refresh_state p opts)"

definition export_state_snapshot :: "source_config \<Rightarrow> string \<Rightarrow> ('w, 'j, 'j snapshot_result) client_call" where
  "export_state_snapshot source dir = outside (\<lambda>c. sb_export (mc_state c) source dir)"

definition import_state_snapshot :: "string \<Rightarrow> source_config \<Rightarrow> ('w, 'j, 'j snapshot_result) client_call" where
  "import_state_snapshot dir destination = outside (\<lambda>c. sb_import (mc_state c) dir destination)"

section \<open>Proofs\<close>

definition proof_payload ::
  "(proof_client \<Rightarrow> bytes \<Rightarrow> ('w, bytes) call) \<Rightarrow> bytes \<Rightarrow> ('w, 'j, bytes) client_call" where
  "proof_payload post payload =
     outside (\<lambda>c. case mc_proof c of
        None \<Rightarrow> call_throw (Runtime_error ''Proof server URL is not configured'') | Some p \<Rightarrow> post p payload)"

definition check_payload :: "('w, 'j) surroundings \<Rightarrow> bytes \<Rightarrow> ('w, 'j, bytes) client_call" where
  "check_payload S = proof_payload (post_check_payload (pf_http (su_platform S)))"

definition prove_payload :: "('w, 'j) surroundings \<Rightarrow> bytes \<Rightarrow> ('w, 'j, bytes) client_call" where
  "prove_payload S = proof_payload (post_proving_payload (pf_http (su_platform S)))"

definition prove_transaction_payload :: "('w, 'j) surroundings \<Rightarrow> bytes \<Rightarrow> ('w, 'j, bytes) client_call" where
  "prove_transaction_payload S = proof_payload (post_prove_tx_payload (pf_http (su_platform S)))"

section \<open>Queries\<close>

definition block_info_to_json :: "'j json_ops \<Rightarrow> 'j block_info \<Rightarrow> 'j" where
  "block_info_to_json J b =
     mk_object J
       ((if bi_error b = [] then [] else [(''error'', mk_string J (bi_error b))]) @
        [(''hash'', mk_string J (bi_hash b)), (''height'', mk_number J (uint (bi_height b))),
         (''timestamp'', mk_number J (uint (bi_timestamp b))), (''transactions'', bi_transactions b)])"

definition client_query_transaction :: "('w, 'j) surroundings \<Rightarrow> string \<Rightarrow> ('w, 'j, 'j) client_call" where
  "client_query_transaction S hash = outside (\<lambda>c. query_transaction (indexer_services_of S) (mc_indexer c) hash)"

definition client_query_block :: "('w, 'j) surroundings \<Rightarrow> u64 \<Rightarrow> string \<Rightarrow> ('w, 'j, 'j) client_call" where
  "client_query_block S height hash =
     call_bind (outside (\<lambda>c. query_block (indexer_services_of S) (mc_indexer c) height hash)) (\<lambda>b.
       call_return (block_info_to_json (pf_json (su_platform S)) b))"

definition wallet_address_error :: exc where
  "wallet_address_error = Invalid_argument ''Wallet state queries require a valid mn_addr Midnight address''"

text \<open>\<^verbatim>\<open>use_cache\<close> keeps its default.\<close>

definition client_wallet_state :: "('w, 'j) surroundings \<Rightarrow> string \<Rightarrow> ('w, 'j, wallet_state) client_io" where
  "client_wallet_state S address =
     (if \<not> is_unshielded_night_address address then io_call (call_throw wallet_address_error)
      else on_indexer_io (query_wallet_state (indexer_services_of S) address True))"

definition client_wallet_state_range ::
  "('w, 'j) surroundings \<Rightarrow> string \<Rightarrow> u32 \<Rightarrow> u32 \<Rightarrow> ('w, 'j, wallet_state) client_io" where
  "client_wallet_state_range S address from_block to_block =
     (if \<not> is_unshielded_night_address address then io_call (call_throw wallet_address_error)
      else on_indexer_io (\<lambda>(i, w).
        case query_wallet_state_range (indexer_services_of S) i address from_block to_block w of
          None \<Rightarrow> None | Some (r, w) \<Rightarrow> Some (r, (i, w))))"

definition client_wallet_state_from_transaction ::
  "('w, 'j) surroundings \<Rightarrow> string \<Rightarrow> string \<Rightarrow> ('w, 'j, wallet_state) client_call" where
  "client_wallet_state_from_transaction S address tx_hash =
     (if \<not> is_unshielded_night_address address then call_throw wallet_address_error
      else if \<not> is_tx_hash tx_hash then call_throw (Invalid_argument ''Transaction hash must be a 32-byte hex value'')
      else outside (\<lambda>c. query_wallet_state_from_transaction (indexer_services_of S) (mc_indexer c) address tx_hash))"

definition query_cached_wallet_summary :: "('w, 'j) surroundings \<Rightarrow> summary_params \<Rightarrow> ('w, 'j, 'j) client_call" where
  "query_cached_wallet_summary S p =
     (let J = pf_json (su_platform S); invalid = validate_seed (sm_wallet_seed p) ''Wallet summary wallet_seed''
      in if \<not> passes invalid then call_throw (Invalid_argument (se_message (bs_info invalid)))
         else
           call_bind (outside (\<lambda>c. lb_summary (mc_ledger c) p)) (\<lambda>r.
             if \<not> br_success r
             then call_throw (Runtime_error
               (if br_error r = [] then ''Native Midnight ledger wallet_summary failed'' else br_error r))
             else if br_raw_output r = [] then call_return (mk_object J [])
             else
               (case parse J (br_raw_output r) of
                  Inr j \<Rightarrow> call_return j
                | Inl what \<Rightarrow> call_throw (Runtime_error (''Invalid Midnight wallet_summary raw output: '' @ what)))))"

definition query_client_contract_state :: "('w, 'j) surroundings \<Rightarrow> string \<Rightarrow> ('w, 'j, 'j) client_call" where
  "query_client_contract_state S address =
     (if \<not> is_contract_address_hex address
      then call_throw (Invalid_argument
        (''Contract state queries require a 32-byte contract hex address, not a wallet Bech32 address''))
      else on_node (\<lambda>n. get_contract_state (node_services_of S) n address))"

section \<open>What is submitted\<close>

lemma io_bind_Some:
  "io_bind m f s = Some (Inr y, s') \<longleftrightarrow> (\<exists>x s1. m s = Some (Inr x, s1) \<and> f x s1 = Some (Inr y, s'))"
  by (auto simp: io_bind_def split: option.splits prod.splits sum.splits)

lemma io_call_Some [simp]: "io_call m s = Some r \<longleftrightarrow> m s = r"
  by (simp add: io_call_def)

lemma outside_Inr: "outside m (c, w) = (Inr x, s') \<longleftrightarrow> (\<exists>w'. m c w = (Inr x, w') \<and> s' = (c, w'))"
  by (auto simp: outside_def split: prod.splits)

lemma call_bind_Inr:
  "call_bind m f w = (Inr y, w') \<longleftrightarrow> (\<exists>x w1. m w = (Inr x, w1) \<and> f x w1 = (Inr y, w'))"
  by (auto simp: call_bind_def split: prod.splits sum.splits)

lemma call_return_Inr [simp]: "call_return x w = (Inr y, w') \<longleftrightarrow> y = x \<and> w' = w"
  by (auto simp: call_return_def)

lemma version_error_fails: "version_error expected answer = Some r \<Longrightarrow> \<not> br_success r"
  by (auto simp: version_error_def new_build_result_def Let_def split: sum.splits if_splits)

lemma checked_version_fails: "checked_version S p expected w = (Inr (Some r), w') \<Longrightarrow> \<not> br_success r"
  by (auto simp: checked_version_def dest: version_error_fails split: prod.splits sum.splits exc.splits)

lemma compatibility_error_fails:
  "proof_server_compatibility_error S c w = (Inr (Some r), w') \<Longrightarrow> \<not> br_success r"
  by (auto simp: proof_server_compatibility_error_def Let_def call_bind_Inr dest: checked_version_fails
      split: if_splits option.splits)

lemma build_checked_success:
  assumes "build_checked S check build (c, w) = (Inr b, s')" and "br_success b"
  obtains w1 w2 where "passes (check (pf_files (su_platform S) w))"
    and "build (mc_ledger c) (mc_config c) w1 = (Inr b, w2)" and "s' = (c, w2)"
proof -
  have "\<not> br_success (build_validation_failure v)" for v
    by (simp add: build_validation_failure_def new_build_result_def)
  with assms that show thesis
    by (auto simp: build_checked_def outside_Inr Let_def call_bind_Inr dest: compatibility_error_fails
        split: if_splits option.splits)
qed

lemma submit_hex_success:
  assumes "submit_hex malformed failed submit text s = (Inr r, s')" and "sr_success r"
  shows "on_node submit s = (Inr (sr_hash r), s') \<and> sr_hash r \<noteq> []"
  using assms
  by (auto simp: submit_hex_def call_catch_def call_bind_def call_return_def new_submit_result_def Let_def
      split: if_splits prod.splits sum.splits exc.splits)

lemma submit_built_success:
  assumes "submit_built_transaction S b s = Some (Inr r, s')" and "bs_success r"
  obtains s1 e where "bs_build r = b" and "br_success b" and "br_bytes b \<noteq> []"
    and "validate_built_transaction_context S b s = Some (Inr e, s1)" and "\<not> has_error e"
    and "on_node (\<lambda>n. node_submit_transaction (node_services_of S) n (util_bytes_to_hex (br_bytes b))) s1 =
      (Inr (sr_hash (bs_submit r)), s')"
proof -
  have f: "\<not> bs_success (failed_build v)" "\<not> bs_success (new_build_submit\<lparr>bs_build := v, bs_error := m, bs_info := i\<rparr>)" for v m i
    by (simp_all add: failed_build_def new_build_submit_def Let_def)
  have g: "bs_success (submission_outcome b x) \<Longrightarrow> sr_success x \<and> bs_submit (submission_outcome b x) = x \<and> bs_build (submission_outcome b x) = b" for x
    by (auto simp: submission_outcome_def new_build_submit_def Let_def split: if_splits)
  have b: "br_success b" "br_bytes b \<noteq> []"
    using assms f by (auto simp: submit_built_transaction_def io_return_def split: if_splits)
  with assms(1) obtain e s1 where e: "validate_built_transaction_context S b s = Some (Inr e, s1)"
    and rest: "(if has_error e then io_return (new_build_submit\<lparr>bs_build := b, bs_error := se_message e, bs_info := e\<rparr>)
      else io_bind (io_call (submit_midnight_transaction S (br_bytes b))) (\<lambda>r. io_return (submission_outcome b r))) s1 = Some (Inr r, s')"
    by (auto simp: submit_built_transaction_def io_bind_Some)
  have n: "\<not> has_error e" using rest assms(2) f(2) by (auto simp: io_return_def)
  with rest b(2) obtain x where x: "submit_hex ''Midnight transaction must be even-length hex bytes''
        ''Midnight transaction submission failed'' (\<lambda>n. node_submit_transaction (node_services_of S) n
          (util_bytes_to_hex (br_bytes b))) (util_bytes_to_hex (br_bytes b)) s1 = (Inr x, s')" and r: "r = submission_outcome b x"
    by (auto simp: io_bind_Some io_return_def submit_midnight_transaction_def submit_midnight_transaction_hex_def)
  from g [of x] assms(2) r have s: "sr_success x" "bs_submit r = x" "bs_build r = b" by auto
  show thesis using that [OF s(3) b e n] submit_hex_success [OF x s(1)] s(2) by simp
qed

end
