(* ===== verification/ClientWait.thy ===== *)
theory ClientWait
  imports Client
begin

text \<open>
  The waits of the production client, its pipelines and its health check (the last part of
  src/production/midnight_client.cpp). What holds of them is in ClientProps.
\<close>

section \<open>Answers\<close>

text \<open>Numbers, or texts in base 10, whatever follows the digits.\<close>

definition parse_json_u64 :: "'j json_ops \<Rightarrow> 'j \<Rightarrow> u64 result" where
  "parse_json_u64 J j =
     (if is_number_unsigned J j then Inr (word_of_int (get_number J j))
      else if is_number_integer J j then Inr (if get_number J j < 0 then 0 else word_of_int (get_number J j))
      else if is_string J j then stoull (get_string J j)
      else Inr 0)"

definition parse_header_height :: "'j json_ops \<Rightarrow> 'j \<Rightarrow> u64" where
  "parse_header_height J header =
     (if \<not> is_object J header \<or> \<not> has_key J header ''number'' then 0
      else (case parse_json_u64 J (member J header ''number'') of Inr v \<Rightarrow> v | Inl _ \<Rightarrow> 0))"

record 'j confirmation_result =
  cr_success :: bool
  cr_found :: bool
  cr_hash :: string
  cr_id :: u64
  cr_height :: u64
  cr_block_hash :: string
  cr_transaction :: 'j
  cr_error :: sdk_error

definition new_confirmation :: "'j json_ops \<Rightarrow> string \<Rightarrow> 'j confirmation_result" where
  "new_confirmation J hash =
     \<lparr>cr_success = False, cr_found = False, cr_hash = hash, cr_id = 0, cr_height = 0, cr_block_hash = [],
      cr_transaction = mk_object J [], cr_error = no_error\<rparr>"

definition text_or :: "'j json_ops \<Rightarrow> 'j \<Rightarrow> string \<Rightarrow> string \<Rightarrow> string" where
  "text_or J j k d = (if has_key J j k \<and> is_string J (member J j k) then get_string J (member J j k) else d)"

definition number_or_zero :: "'j json_ops \<Rightarrow> 'j \<Rightarrow> string \<Rightarrow> u64" where
  "number_or_zero J j k =
     (if has_value J j k then (case parse_json_u64 J (member J j k) of Inr v \<Rightarrow> v | Inl _ \<Rightarrow> 0) else 0)"

definition confirmation_from_transaction :: "'j json_ops \<Rightarrow> string \<Rightarrow> 'j \<Rightarrow> 'j confirmation_result" where
  "confirmation_from_transaction J hash tx =
     (let found = (is_object J tx \<and> items J tx \<noteq> []);
          r = (new_confirmation J hash)\<lparr>cr_found := found, cr_success := found, cr_transaction := tx\<rparr>
      in if \<not> found then r
         else
           (let block = member J tx ''block'';
                r = r\<lparr>cr_id := number_or_zero J tx ''id'', cr_hash := text_or J tx ''hash'' hash\<rparr>
            in if has_key J tx ''block'' \<and> is_object J block
               then r\<lparr>cr_height := number_or_zero J block ''height'', cr_block_hash := text_or J block ''hash'' []\<rparr>
               else r))"

section \<open>Waiting\<close>

record wait_config =
  wc_timeout_ms :: int
  wc_poll_ms :: int

definition default_wait :: wait_config where
  "default_wait = \<lparr>wc_timeout_ms = 120000, wc_poll_ms = 2000\<rparr>"

text \<open>
  The loop: while the clock is not past the deadline, a step, which may be the last one, and a pause. The value
  says whether a step ended it.
\<close>

partial_function (option) poll_until ::
  "('s \<Rightarrow> bool \<times> 's) \<Rightarrow> ('a \<Rightarrow> ('s, 'a \<times> bool) call) \<Rightarrow> ('s \<Rightarrow> 's) \<Rightarrow> 'a \<Rightarrow> ('s, 'a \<times> bool) io" where
  "poll_until in_time step pause a s =
     (case in_time s of (go, s) \<Rightarrow>
        if \<not> go then Some (Inr (a, False), s)
        else
          (case step a s of
             (Inl e, s) \<Rightarrow> Some (Inl e, s)
           | (Inr (a, ended), s) \<Rightarrow>
               if ended then Some (Inr (a, True), s) else poll_until in_time step pause a (pause s)))"

definition client_clock :: "('w, 'j) surroundings \<Rightarrow> ('w, 'j) client \<times> 'w \<Rightarrow> nat \<times> ('w, 'j) client \<times> 'w" where
  "client_clock S s = (case s of (c, w) \<Rightarrow> (case su_clock S w of (t, w) \<Rightarrow> (t, (c, w))))"

definition client_sleep :: "('w, 'j) surroundings \<Rightarrow> int \<Rightarrow> ('w, 'j) client \<times> 'w \<Rightarrow> ('w, 'j) client \<times> 'w" where
  "client_sleep S ms s = (case s of (c, w) \<Rightarrow> (c, su_sleep S ms w))"

definition client_poll ::
  "('w, 'j) surroundings \<Rightarrow> wait_config \<Rightarrow> ('a \<Rightarrow> ('w, 'j, 'a \<times> bool) client_call) \<Rightarrow> 'a \<Rightarrow> ('w, 'j, 'a \<times> bool) client_io" where
  "client_poll S wc step a s =
     (case client_clock S s of (now, s) \<Rightarrow>
        poll_until (\<lambda>s. case client_clock S s of (t, s) \<Rightarrow> (int t \<le> int now + wc_timeout_ms wc * 10 ^ 6, s))
          step (client_sleep S (wc_poll_ms wc)) a s)"

definition inclusion_step ::
  "('w, 'j) surroundings \<Rightarrow> string \<Rightarrow> 'j confirmation_result \<Rightarrow> ('w, 'j, 'j confirmation_result \<times> bool) client_call" where
  "inclusion_step S hash r =
     call_catch
       (call_bind (client_query_transaction S hash) (\<lambda>tx.
          let r = confirmation_from_transaction (pf_json (su_platform S)) hash tx in call_return (r, cr_success r)))
       (\<lambda>what. call_return (r\<lparr>cr_error := make_error IndexerError ''Indexer transaction query failed'' what\<rparr>, False))"

definition client_wait_for_inclusion ::
  "('w, 'j) surroundings \<Rightarrow> string \<Rightarrow> wait_config \<Rightarrow> ('w, 'j, 'j confirmation_result) client_io" where
  "client_wait_for_inclusion S hash wc =
     (let r = new_confirmation (pf_json (su_platform S)) hash
      in if \<not> is_tx_hash hash
         then io_return (r\<lparr>cr_error := make_error InvalidHash ''Transaction hash must be a 32-byte hex value'' hash\<rparr>)
         else
           io_bind (client_poll S wc (inclusion_step S hash) r) (\<lambda>(r, ended).
             io_return
               (if ended \<or> has_error (cr_error r) then r
                else r\<lparr>cr_error := make_error ConfirmationTimeout
                  ''Timed out waiting for transaction confirmation'' hash\<rparr>)))"

definition wait_for_transaction ::
  "('w, 'j) surroundings \<Rightarrow> string \<Rightarrow> wait_config \<Rightarrow> ('w, 'j, 'j confirmation_result) client_io" where
  "wait_for_transaction = client_wait_for_inclusion"

section \<open>Finality\<close>

definition rpc_post_result :: "'j json_ops \<Rightarrow> 'j \<Rightarrow> 'j result" where
  "rpc_post_result J response =
     (if has_value J response ''error''
      then rbind (json_value J (read_string J) (member J response ''error'') ''message'' ''JSON-RPC error'') (\<lambda>m.
        Inl (Runtime_error m))
      else if \<not> has_key J response ''result'' then Inl (Runtime_error ''JSON-RPC response missing result'')
      else Inr (member J response ''result''))"

definition rpc_post ::
  "('w, 'j) surroundings \<Rightarrow> network_client \<Rightarrow> string \<Rightarrow> 'j list \<Rightarrow> ('w, 'j) call" where
  "rpc_post S n method params =
     (let J = pf_json (su_platform S)
      in call_bind (post_json J (pf_http (su_platform S)) n ''/''
           (mk_object J [(''id'', mk_number J 1), (''jsonrpc'', mk_string J ''2.0''), (''method'', mk_string J method),
              (''params'', mk_array J params)])) (\<lambda>response. call_of (rpc_post_result J response)))"

definition normalize_hash :: "string \<Rightarrow> string" where
  "normalize_hash h = map tolower (strip_hex_prefix h)"

text \<open>One look at the finalized head, and at the block of the transaction once that is below it.\<close>

definition finality_step ::
  "('w, 'j) surroundings \<Rightarrow> network_client \<Rightarrow> 'j confirmation_result \<Rightarrow> ('w, 'j confirmation_result \<times> bool) call" where
  "finality_step S n r =
     (let J = pf_json (su_platform S)
      in call_catch
           (call_bind (rpc_post S n ''chain_getFinalizedHead'' []) (\<lambda>head.
            call_bind (call_of (read_string J head)) (\<lambda>finalized_hash.
            call_bind (rpc_post S n ''chain_getHeader'' [mk_string J finalized_hash]) (\<lambda>header.
              if cr_height r \<le> parse_header_height J header \<and> 0 < cr_height r
              then
                call_bind (rpc_post S n ''chain_getBlockHash'' [mk_number J (uint (cr_height r))]) (\<lambda>canonical.
                call_bind (call_of (read_string J canonical)) (\<lambda>canonical_hash.
                  call_return
                    (if normalize_hash canonical_hash = normalize_hash (cr_block_hash r)
                     then (r\<lparr>cr_success := True\<rparr>, True)
                     else (r\<lparr>cr_success := False, cr_error := make_error FinalityTimeout
                       ''Transaction block is not on the finalized canonical chain'' (cr_block_hash r)\<rparr>, True))))
              else call_return (r, False)))))
           (\<lambda>what. call_return (r\<lparr>cr_error := make_error NodeRpcError ''Finalized head query failed'' what\<rparr>, False)))"

definition client_wait_for_finality ::
  "('w, 'j) surroundings \<Rightarrow> string \<Rightarrow> wait_config \<Rightarrow> ('w, 'j, 'j confirmation_result) client_io" where
  "client_wait_for_finality S hash wc =
     io_bind (client_wait_for_inclusion S hash wc) (\<lambda>r s.
       if \<not> cr_success r then io_return r s
       else
         (case new_network_client (cc_node_url (mc_config (fst s))) (cc_node_timeout (mc_config (fst s))) of
            Inl e \<Rightarrow> Some (Inl e, s)
          | Inr n \<Rightarrow>
              io_bind (client_poll S wc (\<lambda>r. outside (\<lambda>_. finality_step S n r)) r) (\<lambda>(r, ended).
                io_return
                  (if ended then r
                   else r\<lparr>cr_success := False, cr_error := make_error FinalityTimeout
                     ''Timed out waiting for transaction finality'' hash\<rparr>)) s))"

section \<open>Pipelines\<close>

record pipeline_options =
  po_wait :: wait_config
  po_artifacts :: artifact_config
  po_save_artifacts :: bool
  po_wait_for_confirmation :: bool

record 'j pipeline_result =
  pr_success :: bool
  pr_transaction :: build_submit_result
  pr_confirmation :: "'j confirmation_result"
  pr_artifacts :: artifact_result
  pr_error :: sdk_error

definition confirmation_hash_for :: "build_submit_result \<Rightarrow> string" where
  "confirmation_hash_for tx = (if br_hash (bs_build tx) \<noteq> [] then br_hash (bs_build tx) else sr_hash (bs_submit tx))"

definition pipeline_from_build_submit ::
  "('w, 'j) surroundings \<Rightarrow> pipeline_options \<Rightarrow> string \<Rightarrow> build_submit_result \<Rightarrow> ('w, 'j, 'j pipeline_result) client_io" where
  "pipeline_from_build_submit S opts operation tx s =
     (let (saved, w) =
            (if po_save_artifacts opts
             then save_build_result (su_platform S) (po_artifacts opts) operation (bs_build tx) (snd s)
             else (new_artifacts, snd s));
          r = \<lparr>pr_success = False, pr_transaction = tx,
               pr_confirmation = new_confirmation (pf_json (su_platform S)) [], pr_artifacts = saved, pr_error = no_error\<rparr>;
          s = (fst s, w)
      in if \<not> bs_success tx
         then io_return (r\<lparr>pr_error :=
           (if has_error (bs_info tx) then bs_info tx
            else make_error SubmissionRejected
              (if bs_error tx = [] then ''Transaction submission failed'' else bs_error tx) [])\<rparr>) s
         else if po_wait_for_confirmation opts
         then io_bind (wait_for_transaction S (confirmation_hash_for tx) (po_wait opts)) (\<lambda>cr.
           io_return (r\<lparr>pr_confirmation := cr, pr_success := cr_success cr,
             pr_error := (if cr_success cr then no_error else cr_error cr)\<rparr>)) s
         else io_return (r\<lparr>pr_success := True\<rparr>) s)"

definition transfer_night_pipeline ::
  "('w, 'j) surroundings \<Rightarrow> pipeline_options \<Rightarrow> transfer_params \<Rightarrow> ('w, 'j, 'j pipeline_result) client_io" where
  "transfer_night_pipeline S opts p =
     io_bind (transfer_night S p) (pipeline_from_build_submit S opts ''transfer-night'')"

definition register_dust_pipeline ::
  "('w, 'j) surroundings \<Rightarrow> pipeline_options \<Rightarrow> register_params \<Rightarrow> ('w, 'j, 'j pipeline_result) client_io" where
  "register_dust_pipeline S opts p =
     io_bind (register_dust S p) (pipeline_from_build_submit S opts ''register-dust'')"

definition deregister_dust_pipeline ::
  "('w, 'j) surroundings \<Rightarrow> pipeline_options \<Rightarrow> deregister_params \<Rightarrow> ('w, 'j, 'j pipeline_result) client_io" where
  "deregister_dust_pipeline S opts p =
     io_bind (deregister_dust S p) (pipeline_from_build_submit S opts ''deregister-dust'')"

definition deploy_pipeline ::
  "('w, 'j) surroundings \<Rightarrow> pipeline_options \<Rightarrow> deploy_params \<Rightarrow> ('w, 'j, 'j pipeline_result) client_io" where
  "deploy_pipeline S opts p =
     io_bind (deploy_simple_contract S p) (pipeline_from_build_submit S opts ''deploy-simple-contract'')"

definition call_pipeline ::
  "('w, 'j) surroundings \<Rightarrow> pipeline_options \<Rightarrow> contract_call_params \<Rightarrow> ('w, 'j, 'j pipeline_result) client_io" where
  "call_pipeline S opts p =
     io_bind (call_simple_contract S p) (pipeline_from_build_submit S opts ''call-simple-contract'')"

definition custom_contract_pipeline ::
  "('w, 'j) surroundings \<Rightarrow> pipeline_options \<Rightarrow> custom_params \<Rightarrow> ('w, 'j, 'j pipeline_result) client_io" where
  "custom_contract_pipeline S opts p =
     io_bind (submit_custom_contract_intents S p) (pipeline_from_build_submit S opts ''custom-contract-intents'')"

section \<open>Health\<close>

definition health_config :: "'j json_ops \<Rightarrow> client_config \<Rightarrow> 'j" where
  "health_config J c =
     (let opt = (\<lambda>s. if s = [] then mk_null J else mk_string J s)
      in mk_object J
           [(''indexer_url'', mk_string J (cc_indexer_url c)), (''ledger_ffi_library'', opt (cc_ffi_library c)),
            (''managed_state_service_url'', opt (sv_base_url (cc_service c))),
            (''network'', mk_string J (cc_network c)), (''node_url'', mk_string J (cc_node_url c)),
            (''proof_server_url'', opt (cc_proof_url c)),
            (''state_backend_mode'', mk_string J (state_backend_mode_to_string (cc_state_mode c)))])"

definition health_error :: "'j json_ops \<Rightarrow> string \<Rightarrow> ('w, 'j, 'j) client_call" where
  "health_error J what =
     call_return (mk_object J [(''error'', mk_string J what), (''status'', mk_string J ''error'')])"

definition health_node :: "('w, 'j) surroundings \<Rightarrow> ('w, 'j, 'j) client_call" where
  "health_node S =
     (let J = pf_json (su_platform S)
      in call_catch
           (call_bind (on_node (get_chain_tip (node_services_of S))) (\<lambda>(h, hash). call_return
              (mk_object J [(''hash'', mk_string J hash), (''height'', mk_number J (uint h)),
                 (''status'', mk_string J ''ok'')])))
           (health_error J))"

text \<open>A query of the indexer that fails answers 0, or that it is not synchronised.\<close>

definition health_indexer :: "('w, 'j) surroundings \<Rightarrow> ('w, 'j, 'j) client_call" where
  "health_indexer S =
     (let J = pf_json (su_platform S)
      in call_catch
           (call_bind (on_indexer (get_block_height (indexer_services_of S))) (\<lambda>h.
            call_bind (outside (\<lambda>c. ix_is_synced (indexer_services_of S) (mc_indexer c))) (\<lambda>synced. call_return
              (mk_object J [(''height'', mk_number J (uint h)), (''status'', mk_string J ''ok''),
                 (''synced'', mk_bool J synced)]))))
           (health_error J))"

definition health_proof_server :: "('w, 'j) surroundings \<Rightarrow> ('w, 'j, 'j) client_call" where
  "health_proof_server S =
     (let J = pf_json (su_platform S); H = pf_http (su_platform S)
      in call_catch
           (on_proof
              (call_bind (\<lambda>(p, w). case proof_is_connected J H p w of (r, w) \<Rightarrow> (r, (p, w))) (\<lambda>ok.
               call_bind (get_server_status J H) (\<lambda>info. call_return
                 (mk_object J [(''info'', info), (''status'', mk_string J (if ok then ''ok'' else ''error''))]))))
              (mk_object J [(''status'', mk_string J ''not_configured'')]))
           (health_error J))"

definition ledger_members :: "'j json_ops \<Rightarrow> 'w ffi_library \<Rightarrow> backend_info option \<Rightarrow> (string \<times> 'j) list" where
  "ledger_members J F info =
     (case info of
        None \<Rightarrow> []
      | Some i \<Rightarrow>
          [(''abi_version'', mk_number J (uint (bk_abi_version i))),
           (''capabilities'', text_list J (bk_capabilities i)), (''ffi_version'', mk_string J (bk_ffi_version i)),
           (''indexer_schema'', mk_string J (bk_indexer_schema i)), (''ledger'', mk_string J (bk_ledger i)),
           (''onchain_runtime'', mk_string J (bk_onchain_runtime i)), (''warnings'', text_list J (bk_warnings i)),
           (''zswap'', mk_string J (bk_zswap i))] @
          (if bk_error i = [] then [] else [(''info_error'', mk_string J (bk_error i))])) @
     [(''backend_info'', mk_bool J (can_report_backend_info F)), (''error'', mk_string J (fl_error F)),
      (''native_validation'', mk_bool J (can_validate F)),
      (''status'', mk_string J (if ffi_is_available F then ''ok'' else ''error'')),
      (''transaction_inspection'', mk_bool J (can_inspect_transactions F)),
      (''wallet_derivation'', mk_bool J (can_derive_wallet_addresses F))]"

definition health_ledger :: "('w, 'j) surroundings \<Rightarrow> ('w, 'j, 'j) client_call" where
  "health_ledger S =
     (let J = pf_json (su_platform S)
      in outside (\<lambda>c. case lb_library (mc_ledger c) of
           None \<Rightarrow> call_return (mk_object J [(''status'', mk_string J ''custom_or_unavailable'')])
         | Some F \<Rightarrow>
             if can_report_backend_info F
             then call_bind (ffi_backend_info J F) (\<lambda>info. call_return (mk_object J (ledger_members J F (Some info))))
             else call_return (mk_object J (ledger_members J F None))))"

definition health_check :: "('w, 'j) surroundings \<Rightarrow> ('w, 'j, 'j) client_call" where
  "health_check S s =
     (let J = pf_json (su_platform S)
      in call_bind (health_node S) (\<lambda>node.
         call_bind (health_indexer S) (\<lambda>indexer.
         call_bind (health_proof_server S) (\<lambda>proof.
         call_bind (health_ledger S) (\<lambda>ledger. call_return
           (mk_object J
             [(''config'', health_config J (mc_config (fst s))), (''indexer'', indexer),
              (''ledger_backend'', ledger), (''node'', node), (''proof_server'', proof)]))))) s)"

end
