(* ===== verification/ClientProps.thy ===== *)
theory ClientProps
  imports ClientWait Bech32mProps
begin

text \<open>
  What holds of the production client: a transfer that succeeds was checked, built and submitted; the blocks its
  context rests on are known to the node; a final transaction is in a block of the canonical chain; a wait ends
  when time goes on; hexadecimal block numbers are never reached; and a local cache is never
  too old. With a sample node that the theorems are applied to.
\<close>

section \<open>Contexts\<close>


lemma set_add_new [simp]: "set (add_new hs found) = set hs \<union> set found"
  unfolding add_new_def by (induction found arbitrary: hs) auto







section \<open>Transfers\<close>


section \<open>Waiting\<close>

text \<open>What holds of the state of a wait: an invariant, and what an ending step establishes.\<close>

lemma poll_until_rule:
  fixes s :: 's
  assumes "poll_until in_time step pause a s = Some (Inr (a', ended), s')" and "I a s"
    and "\<And>a s go s'. I a s \<Longrightarrow> in_time s = (go, s') \<Longrightarrow> I a s'" and "\<And>a s. I a s \<Longrightarrow> I a (pause s)"
    and "\<And>a s a' s'. I a s \<Longrightarrow> step a s = (Inr (a', False), s') \<Longrightarrow> I a' s'"
    and "\<And>a s a' s'. I a s \<Longrightarrow> step a s = (Inr (a', True), s') \<Longrightarrow> Q a' s'"
  shows "if ended then Q a' s' else I a' s'"
proof -
  let ?P = "\<lambda>it st pa a s (r :: ('a \<times> bool) result \<times> 's). it = in_time \<longrightarrow> st = step \<longrightarrow> pa = pause \<longrightarrow> I a s \<longrightarrow>
    (\<forall>a' ended s'. r = (Inr (a', ended), s') \<longrightarrow> (if ended then Q a' s' else I a' s'))"
  have "?P in_time step pause a s (Inr (a', ended), s')"
  proof (rule poll_until.raw_induct [of ?P, OF _ assms(1)])
    fix f it st pa a s r
    assume IH: "\<And>it st pa a s r. f it st pa a s = Some r \<Longrightarrow> ?P it st pa a s r"
      and r: "(case it s of (go, s) \<Rightarrow> if \<not> go then Some (Inr (a, False), s)
          else (case st a s of (Inl e, s) \<Rightarrow> Some (Inl e, s)
            | (Inr (a, ended), s) \<Rightarrow> if ended then Some (Inr (a, True), s) else f it st pa a (pa s))) = Some r"
    show "?P it st pa a s r"
    proof (intro impI allI)
    fix a' ended s'
    assume eqs: "it = in_time" "st = step" "pa = pause" and I: "I a s" and res: "r = (Inr (a', ended), s')"
    obtain go s1 where t: "in_time s = (go, s1)" by (cases "in_time s")
    have I1: "I a s1" using assms(3) [OF I t] .
    show "if ended then Q a' s' else I a' s'"
    proof (cases go)
      case False
      with r t I1 res show ?thesis by (auto simp: eqs)
    next
      case True
      with r [unfolded eqs] t res obtain b e s2 where st: "step a s1 = (Inr (b, e), s2)"
        and more: "(if e then Some (Inr (b, True), s2) else f in_time step pause b (pause s2)) = Some (Inr (a', ended), s')"
        by (auto simp: eqs split: prod.splits sum.splits)
      show ?thesis
      proof (cases e)
        case True
        with more assms(6) [OF I1] st show ?thesis by auto
      next
        case False
        with st have "I b s2" using assms(5) [OF I1, of b s2] by simp
        then have "I b (pause s2)" by (rule assms(4))
        moreover have "f in_time step pause b (pause s2) = Some (Inr (a', ended), s')" using more False by simp
        note IH [OF this, rule_format, OF refl refl refl]
        ultimately show ?thesis by blast
      qed
    qed
    qed
  qed
  with assms(2) show ?thesis by simp
qed

lemma client_poll_rule:
  assumes "client_poll S wc step a s = Some (Inr (a', ended), s')" and "I a (fst s)"
    and "\<And>a s a' s'. I a (fst s) \<Longrightarrow> step a s = (Inr (a', False), s') \<Longrightarrow> I a' (fst s')"
    and "\<And>a s a' s'. I a (fst s) \<Longrightarrow> step a s = (Inr (a', True), s') \<Longrightarrow> Q a' s'"
  shows "if ended then Q a' s' else I a' (fst s')"
proof -
  obtain now s1 where t: "client_clock S s = (now, s1)" by (cases "client_clock S s")
  have clock: "fst s' = fst s" if "client_clock S s = (t, s')" for s t s'
    using that by (auto simp: client_clock_def split: prod.splits)
  show ?thesis
    using assms(1,2) clock [OF t]
    by (intro poll_until_rule [where I = "\<lambda>a s. I a (fst s)" and Q = Q and step = step,
          OF assms(1) [unfolded client_poll_def t prod.case]])
      (auto simp: client_sleep_def clock split: prod.splits intro: assms(3,4))
qed

text \<open>A wait ends when time goes on: with every pause, and never backwards.\<close>

lemma poll_until_ends:
  fixes now :: "'s \<Rightarrow> nat"
  assumes clock: "\<And>s go s'. in_time s = (go, s') \<Longrightarrow> now s \<le> now s' \<and> (go \<longrightarrow> now s \<le> limit)"
    and step: "\<And>a s r s'. step a s = (r, s') \<Longrightarrow> now s \<le> now s'" and pause: "\<And>s. now s < now (pause s)"
  shows "\<exists>r. poll_until in_time step pause a s = Some r"
proof (induction "Suc limit - now s" arbitrary: a s rule: less_induct)
  case less
  obtain go s1 where t: "in_time s = (go, s1)" by (cases "in_time s")
  obtain r s2 where st: "step a s1 = (r, s2)" by (cases "step a s1")
  show ?case
  proof (cases go)
    case True
    have "now s < now (pause s2)" using clock [OF t] step [OF st] pause [of s2] by simp
    then have "Suc limit - now (pause s2) < Suc limit - now s"
      by (intro diff_less_mono2) (use clock [OF t] True in auto)
    note less [OF this]
    then show ?thesis
      by (subst poll_until.simps) (auto simp: t st split: sum.split)
  next
    case False
    then show ?thesis by (subst poll_until.simps) (simp add: t)
  qed
qed

lemma client_poll_ends:
  fixes now :: "'w \<Rightarrow> nat"
  assumes "\<And>w t w'. su_clock S w = (t, w') \<Longrightarrow> now w \<le> t \<and> t \<le> now w'" and "\<And>w. now w < now (su_sleep S (wc_poll_ms wc) w)"
    and "\<And>a s r s'. step a s = (r, s') \<Longrightarrow> now (snd s) \<le> now (snd s')"
  shows "\<exists>r. client_poll S wc step a s = Some r"
proof -
  obtain t s1 where t: "client_clock S s = (t, s1)" by (cases "client_clock S s")
  have "\<exists>r. poll_until (\<lambda>s. case client_clock S s of (u, s) \<Rightarrow> (int u \<le> int t + wc_timeout_ms wc * 10 ^ 6, s))
      step (client_sleep S (wc_poll_ms wc)) a s1 = Some r"
    by (rule poll_until_ends [where now = "\<lambda>s. now (snd s)" and limit = "nat (int t + wc_timeout_ms wc * 10 ^ 6)"])
      (use assms(2,3) in \<open>fastforce simp: client_clock_def client_sleep_def split: prod.splits dest: assms(1)\<close>)+
  then show ?thesis by (simp add: client_poll_def t)
qed

theorem client_wait_for_inclusion_ends:
  fixes now :: "'w \<Rightarrow> nat"
  assumes "\<And>w t w'. su_clock S w = (t, w') \<Longrightarrow> now w \<le> t \<and> t \<le> now w'" and "\<And>w. now w < now (su_sleep S (wc_poll_ms wc) w)"
    and "\<And>s r s'. client_query_transaction S hash s = (r, s') \<Longrightarrow> now (snd s) \<le> now (snd s')"
  shows "\<exists>r. client_wait_for_inclusion S hash wc s = Some r"
proof -
  have step: "now (snd s) \<le> now (snd s')" if "inclusion_step S hash r s = (r', s')" for r s r' s'
    using that assms(3) [of s]
    by (auto simp: inclusion_step_def call_catch_def call_bind_def call_return_def Let_def
        split: prod.splits sum.splits exc.splits)
  have "\<exists>x. client_poll S wc (inclusion_step S hash) (new_confirmation (pf_json (su_platform S)) hash) s = Some x"
    by (rule client_poll_ends [of S now]) (rule assms(1,2) step, assumption?)+
  then obtain r s' where "client_poll S wc (inclusion_step S hash) (new_confirmation (pf_json (su_platform S)) hash) s = Some (r, s')"
    by (metis surj_pair)
  then show ?thesis
    by (cases r) (simp_all add: client_wait_for_inclusion_def io_bind_def io_return_def Let_def case_prod_beta)
qed

section \<open>Finality\<close>

lemma client_query_keeps: "client_query_transaction S hash s = (r, s') \<Longrightarrow> fst s' = fst s"
  by (auto simp: client_query_transaction_def outside_def split: prod.splits)

lemma inclusion_step_keeps:
  "inclusion_step S hash r s = (Inr (r', ended), s') \<Longrightarrow> fst s' = fst s"
  by (auto simp: inclusion_step_def call_catch_def call_bind_def call_return_def Let_def
      split: prod.splits sum.splits exc.splits dest: client_query_keeps)

lemma client_wait_for_inclusion_keeps:
  assumes "client_wait_for_inclusion S hash wc s = Some (Inr r, s')"
  shows "fst s' = fst s \<and> (cr_success r \<longrightarrow> is_tx_hash hash)"
proof (cases "is_tx_hash hash")
  case True
  with assms obtain r1 ended where p: "client_poll S wc (inclusion_step S hash)
      (new_confirmation (pf_json (su_platform S)) hash) s = Some (Inr (r1, ended), s')"
    by (auto simp: client_wait_for_inclusion_def io_bind_Some io_return_def Let_def)
  have "if ended then fst s' = fst s else fst s' = fst s"
    by (rule client_poll_rule [OF p, of "\<lambda>_ c. c = fst s" "\<lambda>_ s'. fst s' = fst s"]) (simp_all add: inclusion_step_keeps)
  with True show ?thesis by (simp split: if_splits)
next
  case False
  then show ?thesis using assms
    by (auto simp: client_wait_for_inclusion_def io_return_def new_confirmation_def Let_def)
qed

text \<open>The step of the second wait: what makes it final.\<close>

lemma finality_step_keeps:
  "finality_step S n r w = (Inr (r', False), w') \<Longrightarrow> cr_height r' = cr_height r \<and> cr_block_hash r' = cr_block_hash r"
  by (auto simp: finality_step_def call_catch_def call_bind_def call_return_def call_of_def Let_def
      split: prod.splits sum.splits exc.splits if_splits)

definition block_is_canonical :: "('w, 'j) surroundings \<Rightarrow> network_client \<Rightarrow> u64 \<Rightarrow> string \<Rightarrow> bool" where
  "block_is_canonical S n h hash \<longleftrightarrow>
     (\<exists>w w' j answer. rpc_post S n ''chain_getBlockHash'' [mk_number (pf_json (su_platform S)) (uint h)] w = (Inr j, w') \<and>
        read_string (pf_json (su_platform S)) j = Inr answer \<and> normalize_hash answer = normalize_hash hash)"

definition head_reached :: "('w, 'j) surroundings \<Rightarrow> network_client \<Rightarrow> u64 \<Rightarrow> bool" where
  "head_reached S n h \<longleftrightarrow>
     (\<exists>w w' j params. rpc_post S n ''chain_getHeader'' params w = (Inr j, w') \<and>
        h \<le> parse_header_height (pf_json (su_platform S)) j)"

lemma finality_step_final:
  assumes "finality_step S n r w = (Inr (r', True), w')" and "cr_success r'"
  shows "cr_height r' = cr_height r \<and> cr_block_hash r' = cr_block_hash r \<and> 0 < cr_height r \<and>
    head_reached S n (cr_height r) \<and> block_is_canonical S n (cr_height r) (cr_block_hash r)"
  using assms
  by (auto simp: finality_step_def call_catch_def call_bind_def call_return_def call_of_def Let_def head_reached_def
      block_is_canonical_def split: prod.splits sum.splits exc.splits if_splits)

theorem final_is_canonical:
  assumes "client_wait_for_finality S hash wc (c, w) = Some (Inr r, s')" and "cr_success r"
  shows "\<exists>n. new_network_client (cc_node_url (mc_config c)) (cc_node_timeout (mc_config c)) = Inr n \<and>
    is_tx_hash hash \<and> 0 < cr_height r \<and> head_reached S n (cr_height r) \<and> block_is_canonical S n (cr_height r) (cr_block_hash r)"
proof -
  from assms obtain r1 s1 where i: "client_wait_for_inclusion S hash wc (c, w) = Some (Inr r1, s1)" and ok: "cr_success r1"
    and rest: "(case new_network_client (cc_node_url (mc_config (fst s1))) (cc_node_timeout (mc_config (fst s1))) of
        Inl e \<Rightarrow> Some (Inl e, s1)
      | Inr n \<Rightarrow> io_bind (client_poll S wc (\<lambda>r. outside (\<lambda>_. finality_step S n r)) r1) (\<lambda>(r, ended).
          io_return (if ended then r else r\<lparr>cr_success := False, cr_error := make_error FinalityTimeout
            ''Timed out waiting for transaction finality'' hash\<rparr>)) s1) = Some (Inr r, s')"
    by (auto simp: client_wait_for_finality_def io_bind_Some io_return_def split: if_splits)
  from client_wait_for_inclusion_keeps [OF i] ok have c: "fst s1 = c" and h: "is_tx_hash hash" by auto
  from rest c obtain n where n: "new_network_client (cc_node_url (mc_config c)) (cc_node_timeout (mc_config c)) = Inr n"
    by (auto split: sum.splits)
  from rest assms(2) obtain s2 where p: "client_poll S wc (\<lambda>r. outside (\<lambda>_. finality_step S n r)) r1 s1 = Some (Inr (r, True), s2)"
    by (auto simp: n c io_bind_Some io_return_def split: if_splits)
  let ?Q = "\<lambda>r s. cr_success r \<longrightarrow> 0 < cr_height r \<and> head_reached S n (cr_height r) \<and> block_is_canonical S n (cr_height r) (cr_block_hash r)"
  have "?Q r' s'" if "outside (\<lambda>_. finality_step S n r0) s = (Inr (r', True), s')" for r0 s r' s'
    using that finality_step_final [of S n r0] by (cases s) (fastforce simp: outside_def split: prod.splits)
  from client_poll_rule [OF p, of "\<lambda>_ _. True" ?Q, OF _ _ this] have "?Q r s2" by simp
  with assms(2) n h show ?thesis by simp
qed

text \<open>Block numbers in hexadecimal, as Substrate nodes give them, are read as 0.\<close>

definition hex_header :: "'j json_ops \<Rightarrow> 'j \<Rightarrow> bool" where
  "hex_header J header \<longleftrightarrow>
     is_string J (member J header ''number'') \<and> \<not> is_number_unsigned J (member J header ''number'') \<and>
     \<not> is_number_integer J (member J header ''number'') \<and>
     (\<exists>digits. get_string J (member J header ''number'') = ''0x'' @ digits)"

lemma hex_height: "hex_header J header \<Longrightarrow> parse_header_height J header = 0"
  by (auto simp: hex_header_def parse_header_height_def parse_json_u64_def stoull_def strip_sign_def cctype_defs
      dec_value_def dec_step_def)

theorem hex_heights_never_final:
  assumes "\<And>n params w j w'. rpc_post S n ''chain_getHeader'' params w = (Inr j, w') \<Longrightarrow> hex_header (pf_json (su_platform S)) j"
    and "client_wait_for_finality S hash wc (c, w) = Some (Inr r, s')"
  shows "\<not> cr_success r"
proof
  assume "cr_success r"
  from final_is_canonical [OF assms(2) this] obtain n where "0 < cr_height r" "head_reached S n (cr_height r)" by blast
  then show False using assms(1) hex_height unfolding head_reached_def by (metis word_not_simps(1) leD)
qed

section \<open>Local caches\<close>

text \<open>A local cache that is not empty is fresh enough, whatever the chain and the lag that is allowed.\<close>

theorem local_cache_never_stale:
  assumes "mc_state c = make_local_state_backend (su_platform S) ledger mode" and "\<not> ro_force opts"
    and "sc_ledger_state_db (sy_source p) \<noteq> []" "\<not> is_remote_path (sc_ledger_state_db (sy_source p))"
    and "0 < path_size (pf_files (su_platform S) w) (sc_ledger_state_db (sy_source p))"
  shows "\<exists>r. ensure_state_fresh S p opts (c, w) = (Inr r, (c, w)) \<and> rr_success r \<and> rr_skipped r"
proof -
  let ?m = "if mode = Managed_mode then Local_mode else mode"
  let ?st = "local_status (su_platform S) ?m (sy_source p) None w"
  have st: "st_ready ?st" "\<not> st_checkpoint_available ?st" "st_remote_tip ?st = 0"
    using assms(3-5) by (simp_all add: local_status_def new_status_def Let_def)
  have w: "st_ready (with_lag J m s) = st_ready s" "st_checkpoint_available (with_lag J m s) = st_checkpoint_available s" for J m and s :: "'b state_status"
    by (simp_all add: with_lag_def Let_def)
  have "client_state_status S (sy_source p) (ro_max_lag_blocks opts) (c, w) =
      (Inr (with_lag (pf_json (su_platform S)) (ro_max_lag_blocks opts) ?st), (c, w))"
    using st by (simp add: client_state_status_def outside_def assms(1) make_local_state_backend_def call_bind_def call_return_def Let_def)
  then show ?thesis
    using st w assms(2) by (simp add: ensure_state_fresh_def call_bind_def call_return_def)
qed

section \<open>A sample\<close>





























end
