(* ===== verification/Spec2Isabelle.thy ===== *)
theory Spec2Isabelle
  imports ScaleProps Bech32mProps MqttProps CoapProps Merkle Breaker UtxoProps Validation Balancer
    Extrinsic Chain WordList WalletErrors Monitor KeyStore Session Signing Submission PrivateState
    MqttClient IndexerQueries WalletSync WalletStoreProps ClientProps
begin

text \<open>
  A model of midnight-C, a C++ library for clients of the Midnight blockchain: byte codecs and packet
  formats, addresses and keys, the bookkeeping of unspent outputs, coin selection and fees, the
  construction of extrinsics, and the policies around remote calls. Paths below are relative to the
  repository.

  The parts, and how they meet. Hex strings and SCALE bytes are what everything else is made of: an
  extrinsic is SCALE bytes over a signed payload, an address is Bech32m over key bytes, and keys come from a
  mnemonic by HD derivation. The UTXO manager reserves outputs for a transaction, the builder collects
  them, the validator checks the result, and the selectors and the balancer decide which outputs to spend
  and what change to give. MQTT and CoAP are the device-side transports. The circuit breaker and the retry
  loop wrap calls to nodes. Input validation guards the public client.

  Conventions (\<open>Prelude\<close>, \<open>Strings\<close>). Machine integers are words of their width; sizes of
  containers are \<open>nat\<close>, with the arithmetic of \<^verbatim>\<open>size_t\<close> written out modulo \<open>2^64\<close> where it can wrap.
  A function that may throw returns \<open>'a result = exc + 'a\<close>; \<open>Undefined_behaviour\<close> is an exception value of
  its own, so a read outside a buffer, a zero divisor and a mutex locked twice are visible in every
  theorem. Characters are bytes, as in \<^verbatim>\<open>std::string\<close>. Functions of third-party libraries (SHA-256, BLAKE2b,
  HMAC, Ed25519, random bytes, clocks, remote lookups) are arguments of the definitions that use them.
  Logging is left out.

  Theories and sources:
  \<^item> \<open>Hex\<close>: include/midnight/core/common_utils.hpp, and the hex functions of src/codec/scale_codec.cpp and
    src/crypto/merkle_tree.cpp; shell quoting of src/signing-submission. The two hex decoders interpret one
    locale \<open>hex_codec\<close>; the strict one accepts exactly hex, the lenient one accepts more; quoting survives
    the shell.
  \<^item> \<open>Scale\<close>, \<open>ScaleLaws\<close>, \<open>ScaleProps\<close>: src/codec/scale_codec.cpp. The encoder and the decoder as state
    passing, every primitive encoding an instance of the locale \<open>byte_codec\<close> (closed under sequencing), so
    that whole messages round-trip; mortal eras; three defects of the decoder and of the decimal printer.
  \<^item> \<open>Bech32m\<close>, \<open>Bech32mLaws\<close>, \<open>Bech32mProps\<close>: src/wallet/bech32m.cpp and the second encoder of
    common_utils.hpp. The checksum is linear over XOR (locale \<open>xor_step\<close>), words and bytes have the same
    bits; round trips, detection of a substituted character, agreement of the encoders.
  \<^item> \<open>Mqtt\<close>, \<open>MqttProps\<close>: src/protocols/mqtt/mqtt_protocol.cpp. Builders and parsers of the packets; what
    is built is read back; topics beyond 65535 bytes are not.
  \<^item> \<open>Coap\<close>, \<open>CoapProps\<close>: src/protocols/coap/coap_message.cpp and the parsing half of coap_client.cpp.
  \<^item> \<open>Merkle\<close>: src/crypto/merkle_tree.cpp, trees, paths and proofs for any pair hash.
  \<^item> \<open>Breaker\<close>: include/midnight/network/rate_limiter.hpp and retry_config.hpp. The circuit breaker as a
    step relation with an invariant over its runs; the retry loop.
  \<^item> \<open>Utxo\<close>, \<open>UtxoProps\<close>: src/utxo-transactions/utxo_transactions.cpp. Reservations as a map with expiry,
    the builder, the validator, DUST accounting, fees, coin selection.
  \<^item> \<open>Balancer\<close>: src/wallet/transaction_balancer.cpp, Random-Improve selection and change splitting, the
    latter a \<open>partial_function\<close>, since it need not end.
  \<^item> \<open>Extrinsic\<close>: src/tx/extrinsic_builder.cpp over the SCALE model, with a reader for what it sends.
  \<^item> \<open>Chain\<close>: src/blockchain/block.cpp and chain_manager.cpp, with the mutex of the manager.
  \<^item> \<open>Mnemonic\<close>, \<open>HdWallet\<close>: src/wallet/hd_wallet.cpp, BIP39 texts and BIP32 derivation.
  \<^item> \<open>WordList\<close>: include/midnight/wallet/bip39_wordlist.hpp, sorted and with distinct stems.
  \<^item> \<open>WalletErrors\<close>: src/errors/wallet_errors.cpp, classification, messages and JSON of errors.
  \<^item> \<open>Validation\<close>: include/midnight/production/validation.hpp.
  \<^item> \<open>StdMap\<close>, \<open>Json\<close>: \<^verbatim>\<open>std::map\<close> as sorted lists, and the interface of nlohmann::json, with the laws that
    round trips need (locale \<open>lawful_json\<close>) and an instance that satisfies them.
  \<^item> \<open>HttpClient\<close>: src/network/network_client.cpp, URLs, requests and answers.
  \<^item> \<open>Monitor\<close>: src/monitoring-finality/monitoring_finality.cpp, what the worker threads report and wait for
    as functions of the answers of the node, with liveness of the wait for finality.
  \<^item> \<open>MqttConnection\<close>, \<open>MqttClient\<close>: src/protocols/mqtt/mqtt_connection.cpp and mqtt_client.cpp over a socket: the
    reader thread, acknowledgements, connecting; no client is ever connected.
  \<^item> \<open>Effects\<close>: calls that return, throw or hang, and objects filled member by member.
  \<^item> \<open>IndexerClient\<close>, \<open>IndexerQueries\<close>: src/network/indexer_client.cpp, GraphQL requests, scans, caches; when a scan
    ends, exactly.
  \<^item> \<open>AddressTypes\<close>: src/wallet/shielded_address.cpp and the third encoder, wallet/bech32m_encoder.hpp.
  \<^item> \<open>Base64\<close>: the Base64 of the wallet facade and of the wallet store; padded groups are misread.
  \<^item> \<open>WalletServices\<close>: src/wallet/wallet_services.cpp, submission, proving and pending transactions as a step
    relation over the public operations.
  \<^item> \<open>WalletFacade\<close>, \<open>WalletCoins\<close>, \<open>WalletSync\<close>: src/wallet/wallet_facade.cpp, making, saving and restoring a
    wallet; coin selection and reverting; the events and the scan of a synchronisation.
  \<^item> \<open>WalletStore\<close>, \<open>WalletStoreProps\<close>: src/blockchain/wallet_manager.cpp, wallet files by alias: what is
    saved is loaded, a failed rename loses a wallet, an encrypted state replaces a seed.
  \<^item> \<open>NodeRpc\<close>: src/network/midnight_node_rpc.cpp: JSON-RPC over paths and a WebSocket, what a submission
    sends, and the wait for a confirmation, which confirms only what one poll found in the pool and a later one did not.
  \<^item> \<open>Ledger\<close>: src/ledger/ledger_backend.cpp and include/midnight/ledger: requests to the native ledger library, which
    is a parameter, and its answers.
  \<^item> \<open>StateBackend\<close>: src/production/state_backend.cpp: caches of the ledger state, local or behind a service; a
    snapshot that is exported and imported restores the caches.
  \<^item> \<open>ProofServer\<close>: src/zk/proof_server_client.cpp and the tables of include/midnight/network/network_config.hpp.
  \<^item> \<open>Artifacts\<close>: src/production/artifact_manager.cpp: what is kept of a transaction, and where.
  \<^item> \<open>ClientChecks\<close>, \<open>Client\<close>, \<open>ClientWait\<close>, \<open>ClientProps\<close>: src/production/midnight_client.cpp: configuration and
    the checks of parameters, with the exact condition of each; building, submission and queries; waits, pipelines and
    the health check; what a successful transfer went through, what finality means, and when waits end.
  \<^item> \<open>Schnorr\<close>, \<open>Ecdsa\<close>: src/crypto/bip340_signer.cpp and ecdsa_signer.cpp over a curve as a parameter:
    signatures verify; BIP-340 signatures are malleable.
  \<^item> \<open>Sodium\<close>: the wrappers of libsodium in src/crypto (Ed25519, sr25519, BLS guard, state encryption).
  \<^item> \<open>KeyStore\<close>: src/crypto/key_encryption.cpp and the key files of the signing module.
  \<^item> \<open>Signing\<close>, \<open>Submission\<close>: src/signing-submission/signing_submission.cpp, signers and verifiers; the
    submitter and the pool monitor.
  \<^item> \<open>Session\<close>: src/session/session_manager.cpp, refining a set of open identifiers.
  \<^item> \<open>ProofTypes\<close>, \<open>PrivateState\<close>: src/zk/proof_types.cpp and private_state.cpp: JSON codecs as instances of
    one locale, the store of secrets refining a map.

  Loops that end are recursions on their data or on a measure; the period and logarithm loops of mortal
  eras are \<open>while\<close> combinators, run on numbers up to \<open>2^16\<close>. The remaining length of MQTT is read with
  the fuel 4 of its own loop bound. Hypotheses of the form \<open>length xs < 2^64\<close> say that a container fits in memory.

  Third-party code is a parameter of the definitions that use it: JSON, the HTTP library, the curve and the
  big numbers of OpenSSL, its ciphers, libsodium, hash functions, random bytes, clocks and files. A function
  that talks to the outside passes on a state \<open>w\<close> of the outside world.

  Not modelled: sockets, threads and subprocesses as such; floating-point rates and delays (the token
  bucket, jitter, fee rates); the cryptographic primitives. Of the library's own logic still to come:
  the JSON recipes of the balancer, the subscriptions, the contract tools, and the cleanup of artifacts.
\<close>

end
